(* ===== verification/Prelude.thy ===== *)
theory Prelude
  imports Main "HOL-Library.Monad_Syntax"
begin

text \<open>
  Shared ground of the development: the theorem collections the component proofs use, the
  text constants of the console, the string operations of JavaScript's standard library that
  the sources call (\<open>trim\<close>, \<open>split\<close>, \<open>join\<close>, \<open>padStart\<close>, \<open>lastIndexOf\<close>) and the generic
  lemmas about lists and decimal numerals.

  A text is the list of the bytes of its UTF-8 encoding. Every operation below splits or
  compares at ASCII characters or at whole white-space characters, so on well-formed texts
  it commutes with the encoding.
\<close>

named_theorems js_simps "equations of the JavaScript primitives"
named_theorems wf_intros "introduction rules of the well-formedness predicates"

subsection \<open>Text constants outside ASCII\<close>

definition em_dash :: string where
  "em_dash = [CHR 0xE2, CHR 0x80, CHR 0x94]"

definition en_dash :: string where
  "en_dash = [CHR 0xE2, CHR 0x80, CHR 0x93]"

definition middle_dot :: string where
  "middle_dot = [CHR 0xC2, CHR 0xB7]"

definition times_sign :: string where
  "times_sign = [CHR 0xC3, CHR 0x97]"

definition rsquo :: string where
  "rsquo = [CHR 0xE2, CHR 0x80, CHR 0x99]"

definition ellipsis :: string where
  "ellipsis = [CHR 0xE2, CHR 0x80, CHR 0xA6]"

definition ldquo :: string where
  "ldquo = [CHR 0xE2, CHR 0x80, CHR 0x9C]"

definition rdquo :: string where
  "rdquo = [CHR 0xE2, CHR 0x80, CHR 0x9D]"

subsection \<open>White space and trimming\<close>

text \<open>The white space and line terminators of ECMAScript, each as its UTF-8 bytes.\<close>

definition ws_seqs :: "string list" where
  "ws_seqs =
     [[CHR 0x20], [CHR 0x09], [CHR 0x0A], [CHR 0x0B], [CHR 0x0C], [CHR 0x0D],
      [CHR 0xC2, CHR 0xA0], [CHR 0xEF, CHR 0xBB, CHR 0xBF], [CHR 0xE1, CHR 0x9A, CHR 0x80],
      [CHR 0xE2, CHR 0x80, CHR 0x80], [CHR 0xE2, CHR 0x80, CHR 0x81],
      [CHR 0xE2, CHR 0x80, CHR 0x82], [CHR 0xE2, CHR 0x80, CHR 0x83],
      [CHR 0xE2, CHR 0x80, CHR 0x84], [CHR 0xE2, CHR 0x80, CHR 0x85],
      [CHR 0xE2, CHR 0x80, CHR 0x86], [CHR 0xE2, CHR 0x80, CHR 0x87],
      [CHR 0xE2, CHR 0x80, CHR 0x88], [CHR 0xE2, CHR 0x80, CHR 0x89],
      [CHR 0xE2, CHR 0x80, CHR 0x8A], [CHR 0xE2, CHR 0x80, CHR 0xA8],
      [CHR 0xE2, CHR 0x80, CHR 0xA9], [CHR 0xE2, CHR 0x80, CHR 0xAF],
      [CHR 0xE2, CHR 0x81, CHR 0x9F], [CHR 0xE3, CHR 0x80, CHR 0x80]]"

definition starts_with :: "string \<Rightarrow> string \<Rightarrow> bool" where
  "starts_with p s \<longleftrightarrow> take (length p) s = p"

text \<open>The length of the first of \<open>ws\<close> that \<open>s\<close> starts with, 0 when there is none.\<close>

fun lead_len :: "string list \<Rightarrow> string \<Rightarrow> nat" where
  "lead_len [] s = 0"
| "lead_len (w # ws) s = (if starts_with w s then length w else lead_len ws s)"

function strip_with :: "string list \<Rightarrow> string \<Rightarrow> string" where
  "strip_with ws s =
     (if lead_len ws s = 0 \<or> s = [] then s else strip_with ws (drop (lead_len ws s) s))"
  by pat_completeness auto
termination
  by (relation "measure (\<lambda>(ws, s). length s)") auto

declare strip_with.simps [simp del]

definition trim_start :: "string \<Rightarrow> string" where
  "trim_start s = strip_with ws_seqs s"

definition trim_end :: "string \<Rightarrow> string" where
  "trim_end s = rev (strip_with (map rev ws_seqs) (rev s))"

definition trim :: "string \<Rightarrow> string" where
  "trim s = trim_end (trim_start s)"

subsection \<open>Splitting, joining, padding\<close>

fun join_with :: "string \<Rightarrow> string list \<Rightarrow> string" where
  "join_with sep [] = []"
| "join_with sep [s] = s"
| "join_with sep (s # t # ts) = s @ sep @ join_with sep (t # ts)"

text \<open>\<open>s.split(c)\<close> for a one-character separator.\<close>

fun split_on :: "char \<Rightarrow> string \<Rightarrow> string list" where
  "split_on c [] = [[]]"
| "split_on c (x # xs) =
     (if x = c then [] # split_on c xs
      else (case split_on c xs of [] \<Rightarrow> [[x]] | t # ts \<Rightarrow> (x # t) # ts))"

definition pad_start :: "nat \<Rightarrow> char \<Rightarrow> string \<Rightarrow> string" where
  "pad_start n c s = replicate (n - length s) c @ s"

text \<open>The part of \<open>s\<close> after the last \<open>c\<close>; \<open>None\<close> when \<open>c\<close> does not occur
  (\<open>lastIndexOf\<close> is -1).\<close>

fun after_last :: "char \<Rightarrow> string \<Rightarrow> string option" where
  "after_last c [] = None"
| "after_last c (x # xs) =
     (case after_last c xs of
        Some t \<Rightarrow> Some t
      | None \<Rightarrow> if x = c then Some xs else None)"

text \<open>\<open>s.includes(t)\<close> and \<open>s.endsWith(t)\<close>.\<close>

fun str_includes :: "string \<Rightarrow> string \<Rightarrow> bool" where
  "str_includes s t = (starts_with t s \<or> (case s of [] \<Rightarrow> False | _ # s' \<Rightarrow> str_includes s' t))"

declare str_includes.simps [simp del]

definition ends_with :: "string \<Rightarrow> string \<Rightarrow> bool" where
  "ends_with p s \<longleftrightarrow> starts_with (rev p) (rev s)"

subsection \<open>Decimal numerals\<close>

definition is_digit :: "char \<Rightarrow> bool" where
  "is_digit c \<longleftrightarrow> 48 \<le> (of_char c :: nat) \<and> (of_char c :: nat) \<le> 57"

definition digit_val :: "char \<Rightarrow> nat" where
  "digit_val c = of_char c - 48"

definition digit_char :: "nat \<Rightarrow> char" where
  "digit_char d = char_of (48 + d)"

fun nat_str :: "nat \<Rightarrow> string" where
  "nat_str n = (if n < 10 then [digit_char n] else nat_str (n div 10) @ [digit_char (n mod 10)])"

declare nat_str.simps [simp del]

definition digits_val :: "string \<Rightarrow> nat" where
  "digits_val s = foldl (\<lambda>n c. 10 * n + digit_val c) 0 s"

definition all_digits :: "string \<Rightarrow> bool" where
  "all_digits s \<longleftrightarrow> s \<noteq> [] \<and> list_all is_digit s"

subsection \<open>Lemmas: trimming\<close>

lemma starts_with_Nil [simp]: "starts_with p [] \<longleftrightarrow> p = []"
  by (auto simp: starts_with_def)

lemma lead_len_pos_neq_Nil: "[] \<notin> set ws \<Longrightarrow> lead_len ws s \<noteq> 0 \<Longrightarrow> s \<noteq> []"
  by (induction ws s rule: lead_len.induct) (auto split: if_splits)

lemma strip_with_fixed: "lead_len ws s = 0 \<Longrightarrow> strip_with ws s = s"
  by (simp add: strip_with.simps)

lemma strip_with_Nil [simp]: "strip_with ws [] = []"
  by (simp add: strip_with.simps)

lemma lead_len_strip_with: "strip_with ws s = [] \<or> lead_len ws (strip_with ws s) = 0"
proof (induction ws s rule: strip_with.induct)
  case (1 ws s)
  then show ?case by (cases "lead_len ws s = 0 \<or> s = []") (auto simp: strip_with.simps [of ws s])
qed

lemma strip_with_idem [simp]: "strip_with ws (strip_with ws s) = strip_with ws s"
  using lead_len_strip_with [of ws s] by (auto simp: strip_with_fixed)

lemma strip_with_suffix: "\<exists>p. s = p @ strip_with ws s"
proof (induction ws s rule: strip_with.induct)
  case (1 ws s)
  show ?case
  proof (cases "lead_len ws s = 0 \<or> s = []")
    case True
    then show ?thesis by (simp add: strip_with.simps [of ws s])
  next
    case False
    with "1.IH" obtain p where "drop (lead_len ws s) s = p @ strip_with ws (drop (lead_len ws s) s)"
      by blast
    then have "s = (take (lead_len ws s) s @ p) @ strip_with ws (drop (lead_len ws s) s)"
      by (metis append_assoc append_take_drop_id)
    with False show ?thesis by (metis strip_with.simps)
  qed
qed

lemma trim_Nil [simp]: "trim [] = []"
  by (simp add: trim_def trim_start_def trim_end_def)

lemma starts_with_append: "starts_with p s \<Longrightarrow> starts_with p (s @ t)"
proof -
  assume h: "starts_with p s"
  then have "length p \<le> length s"
    by (metis le_cases length_take min_def starts_with_def)
  with h show ?thesis by (simp add: starts_with_def)
qed

lemma lead_len_append: "[] \<notin> set ws \<Longrightarrow> lead_len ws (s @ t) = 0 \<Longrightarrow> lead_len ws s = 0"
  by (induction ws s rule: lead_len.induct) (auto simp: starts_with_append split: if_splits)

lemma ws_seqs_nonempty: "[] \<notin> set ws_seqs"
  by (simp add: ws_seqs_def)

lemma ws_seqs_nonempty_rev: "[] \<notin> set (map rev ws_seqs)"
  using ws_seqs_nonempty by auto

lemma trim_end_prefix: "\<exists>q. s = trim_end s @ q"
proof -
  obtain p where "rev s = p @ strip_with (map rev ws_seqs) (rev s)"
    using strip_with_suffix by blast
  then have "s = trim_end s @ rev p"
    unfolding trim_end_def by (metis rev_append rev_rev_ident)
  then show ?thesis by blast
qed

lemma trim_start_suffix: "\<exists>p. s = p @ trim_start s"
  unfolding trim_start_def by (rule strip_with_suffix)

lemma trim_start_trim [simp]: "trim_start (trim s) = trim s"
proof -
  obtain q where q: "trim_start s = trim s @ q"
    using trim_end_prefix [of "trim_start s"] by (auto simp: trim_def)
  have "trim_start s = [] \<or> lead_len ws_seqs (trim_start s) = 0"
    unfolding trim_start_def by (rule lead_len_strip_with)
  then have "lead_len ws_seqs (trim s) = 0 \<or> trim s = []"
    using q lead_len_append [OF ws_seqs_nonempty, of "trim s" q] by auto
  then show ?thesis by (auto simp: trim_start_def strip_with_fixed)
qed

lemma trim_idem [simp]: "trim (trim s) = trim s"
proof -
  have "trim (trim s) = trim_end (trim s)" by (simp add: trim_def [of "trim s"])
  then show ?thesis by (simp add: trim_def trim_end_def)
qed

lemma trim_infix: "\<exists>p q. s = p @ trim s @ q"
proof -
  obtain p where p: "s = p @ trim_start s" using trim_start_suffix by blast
  obtain q where "trim_start s = trim s @ q"
    using trim_end_prefix [of "trim_start s"] by (auto simp: trim_def)
  with p have "s = p @ trim s @ q" by simp
  then show ?thesis by blast
qed

lemma set_trim: "set (trim s) \<subseteq> set s"
  using trim_infix [of s] by (metis Un_iff set_append subsetI)

lemma length_trim: "length (trim s) \<le> length s"
  using trim_infix [of s] by (metis add.assoc add.commute le_add1 length_append)

text \<open>The bytes a white-space character can begin or end with: a text that begins and ends
  with other bytes is its own trimming.\<close>

definition ws_edge :: "char \<Rightarrow> bool" where
  "ws_edge c \<longleftrightarrow> c \<in> set (map hd ws_seqs) \<union> set (map last ws_seqs)"

lemma lead_len_hd:
  "[] \<notin> set ws \<Longrightarrow> c \<notin> hd ` set ws \<Longrightarrow> lead_len ws (c # s) = 0"
proof (induction ws)
  case (Cons w ws)
  then show ?case by (cases w) (auto simp: starts_with_def)
qed simp

lemma trim_id:
  assumes "s \<noteq> []" "\<not> ws_edge (hd s)" "\<not> ws_edge (last s)"
  shows "trim s = s"
proof -
  have hd_rev_last: "hd ` set (map rev ws_seqs) = last ` set ws_seqs"
    by (force simp: hd_rev image_iff)
  have "lead_len ws_seqs s = 0"
    using assms(1,2) lead_len_hd [OF ws_seqs_nonempty, of "hd s" "tl s"]
    by (auto simp: ws_edge_def)
  then have 1: "trim_start s = s" by (simp add: trim_start_def strip_with_fixed)
  have "lead_len (map rev ws_seqs) (rev s) = 0"
    using assms(1,3) lead_len_hd [OF ws_seqs_nonempty_rev, of "last s" "tl (rev s)"]
    unfolding hd_rev_last by (auto simp: ws_edge_def hd_rev [symmetric])
  then have "trim_end s = s" by (simp add: trim_end_def strip_with_fixed)
  with 1 show ?thesis by (simp add: trim_def)
qed

subsection \<open>Lemmas: splitting and decimal numerals\<close>

lemma split_on_nonempty [simp]: "split_on c s \<noteq> []"
  by (induction s) (auto split: list.splits)

lemma join_split_on: "join_with [c] (split_on c s) = s"
proof (induction s)
  case Nil
  then show ?case by simp
next
  case (Cons x xs)
  then show ?case
    by (cases "split_on c xs"; cases "tl (split_on c xs)") (auto simp: neq_Nil_conv)
qed

lemma split_on_append:
  "c \<notin> set s \<Longrightarrow> split_on c (s @ c # t) = s # split_on c t"
  by (induction s) auto

lemma split_on_single: "c \<notin> set s \<Longrightarrow> split_on c s = [s]"
  by (induction s) auto

lemma after_last_None: "after_last c s = None \<longleftrightarrow> c \<notin> set s"
  by (induction s) (auto split: option.splits)

lemma after_last_append: "c \<notin> set t \<Longrightarrow> after_last c (s @ c # t) = Some t"
proof (induction s)
  case Nil
  then show ?case using after_last_None [of c t] by simp
qed simp

lemma after_last_SomeD: "after_last c s = Some t \<Longrightarrow> c \<notin> set t \<and> (\<exists>p. s = p @ c # t)"
proof (induction s)
  case (Cons x xs)
  then show ?case
    using after_last_None [of c xs] by (force split: option.splits if_splits)
qed simp

lemma of_char_digit_char: "d < 10 \<Longrightarrow> (of_char (digit_char d) :: nat) = 48 + d"
  by (simp add: digit_char_def)

lemma is_digit_digit_char [simp]: "d < 10 \<Longrightarrow> is_digit (digit_char d)"
  by (simp add: is_digit_def of_char_digit_char)

lemma digit_val_digit_char [simp]: "d < 10 \<Longrightarrow> digit_val (digit_char d) = d"
  by (simp add: digit_val_def of_char_digit_char)

lemma digit_val_less: "is_digit c \<Longrightarrow> digit_val c < 10"
  unfolding is_digit_def digit_val_def by linarith

lemma digit_char_numerals [simp]:
  "digit_char 0 = CHR ''0''" "digit_char (Suc 0) = CHR ''1''" "digit_char 1 = CHR ''1''"
  "digit_char 2 = CHR ''2''" "digit_char 3 = CHR ''3''" "digit_char 4 = CHR ''4''"
  "digit_char 5 = CHR ''5''" "digit_char 6 = CHR ''6''" "digit_char 7 = CHR ''7''"
  "digit_char 8 = CHR ''8''" "digit_char 9 = CHR ''9''"
  by (simp_all add: digit_char_def char_of_def bit_Suc_0_iff)

lemma digits_val_snoc [simp]: "digits_val (s @ [c]) = 10 * digits_val s + digit_val c"
  by (simp add: digits_val_def)

lemma nat_str_digits: "all_digits (nat_str n)"
proof (induction n rule: nat_str.induct)
  case (1 n)
  then show ?case by (auto simp: nat_str.simps [of n] all_digits_def)
qed

lemma nat_str_nonempty [simp]: "nat_str n \<noteq> []"
  using nat_str_digits [of n] by (simp add: all_digits_def)

lemma digits_val_nat_str [simp]: "digits_val (nat_str n) = n"
proof (induction n rule: nat_str.induct)
  case (1 n)
  then show ?case by (auto simp: nat_str.simps [of n] digits_val_def)
qed

lemma nat_str_inject [simp]: "nat_str m = nat_str n \<longleftrightarrow> m = n"
  by (metis digits_val_nat_str)

lemma not_digit_notin_nat_str: "\<not> is_digit c \<Longrightarrow> c \<notin> set (nat_str n)"
  using nat_str_digits [of n] by (auto simp: all_digits_def list_all_iff)

lemma length_nat_str_le2: "n < 100 \<Longrightarrow> length (nat_str n) = (if n < 10 then 1 else 2)"
  by (auto simp: nat_str.simps [of n] nat_str.simps [of "n div 10"])

subsection \<open>Lemmas: lists\<close>

lemma sorted_wrt_distinct_sort: "sorted (sort (remdups xs)) \<and> distinct (sort (remdups xs))"
  by simp

lemma sort_remdups_id: "sorted xs \<Longrightarrow> distinct xs \<Longrightarrow> sort (remdups xs) = xs"
  by (simp add: sorted_sort_id distinct_remdups_id)

lemma find_Some_iff_mem: "List.find P xs = Some x \<Longrightarrow> x \<in> set xs \<and> P x"
  by (induction xs) (auto split: if_splits)

subsection \<open>Sorting with a comparator\<close>

text \<open>\<open>Array.prototype.sort(cmp)\<close>: stable; \<open>cmp x y\<close> is positive when \<open>x\<close> belongs after \<open>y\<close>.\<close>

fun insert_by :: "('a \<Rightarrow> 'a \<Rightarrow> int) \<Rightarrow> 'a \<Rightarrow> 'a list \<Rightarrow> 'a list" where
  "insert_by cmp x [] = [x]"
| "insert_by cmp x (y # ys) = (if cmp x y \<le> 0 then x # y # ys else y # insert_by cmp x ys)"

definition sort_by :: "('a \<Rightarrow> 'a \<Rightarrow> int) \<Rightarrow> 'a list \<Rightarrow> 'a list" where
  "sort_by cmp xs = foldr (insert_by cmp) xs []"

lemma set_insert_by [simp]: "set (insert_by cmp x ys) = insert x (set ys)"
  by (induction ys) auto

lemma set_sort_by [simp]: "set (sort_by cmp xs) = set xs"
  by (induction xs) (simp_all add: sort_by_def)

lemma length_insert_by [simp]: "length (insert_by cmp x ys) = Suc (length ys)"
  by (induction ys) auto

lemma length_sort_by [simp]: "length (sort_by cmp xs) = length xs"
  by (induction xs) (simp_all add: sort_by_def)

lemma distinct_sort_by [simp]: "distinct (sort_by cmp xs) \<longleftrightarrow> distinct xs"
  by (metis distinct_card card_distinct length_sort_by set_sort_by)

text \<open>A consistent comparator: a total preorder.\<close>

definition comparator :: "('a \<Rightarrow> 'a \<Rightarrow> int) \<Rightarrow> bool" where
  "comparator cmp \<longleftrightarrow>
     (\<forall>x y. 0 < cmp x y \<longrightarrow> cmp y x \<le> 0) \<and>
     (\<forall>x y z. cmp x y \<le> 0 \<longrightarrow> cmp y z \<le> 0 \<longrightarrow> cmp x z \<le> 0)"

lemma sorted_insert_by:
  assumes "comparator cmp" "sorted_wrt (\<lambda>x y. cmp x y \<le> 0) ys"
  shows "sorted_wrt (\<lambda>x y. cmp x y \<le> 0) (insert_by cmp x ys)"
  using assms(2)
proof (induction ys)
  case (Cons y ys)
  have tr: "cmp a c \<le> 0" if "cmp a b \<le> 0" "cmp b c \<le> 0" for a b c
    using assms(1) that unfolding comparator_def by blast
  have tot: "cmp y x \<le> 0" if "\<not> cmp x y \<le> 0" using assms(1) that unfolding comparator_def by (meson not_le)
  show ?case using Cons tr tot by auto
qed simp

lemma sorted_sort_by: "comparator cmp \<Longrightarrow> sorted_wrt (\<lambda>x y. cmp x y \<le> 0) (sort_by cmp xs)"
  by (induction xs) (simp_all add: sort_by_def sorted_insert_by)

subsection \<open>The end of a list\<close>

text \<open>\<open>xs.slice(-n)\<close> for a positive \<open>n\<close>.\<close>

definition slice_last :: "nat \<Rightarrow> 'a list \<Rightarrow> 'a list" where
  "slice_last n xs = drop (length xs - n) xs"

lemma slice_last_snoc: "slice_last n (slice_last n xs @ [y]) = slice_last n (xs @ [y])"
  by (cases "length xs < n") (simp_all add: slice_last_def Suc_diff_le)

lemma length_slice_last [simp]: "length (slice_last n xs) = min n (length xs)"
  by (simp add: slice_last_def)

lemma set_slice_last: "set (slice_last n xs) \<subseteq> set xs"
  by (simp add: slice_last_def set_drop_subset)

end
