(* ===== verification/Js_Number.thy ===== *)
theory Js_Number
  imports Prelude Complex_Main "HOL-Library.Log_Nat"
begin

text \<open>
  JavaScript numbers: IEEE 754 binary64 values. A finite number is the rational it denotes
  (the two zeros are one value: no operation the console uses tells them apart), and every
  arithmetic operation rounds its exact result to 53 significant bits, ties to even, with
  gradual underflow and overflow to an infinity. \<open>Math.round\<close>, \<open>Math.floor\<close>, \<open>toFixed\<close>
  and the comparisons are exact, as the language defines them.
\<close>

datatype jsnum = NaN | PInf | NInf | Fin rat

subsection \<open>Rounding to binary64\<close>

text \<open>Nearest integer, ties to even.\<close>

definition rhe :: "rat \<Rightarrow> int" where
  "rhe x =
     (let f = \<lfloor>x\<rfloor>; d = x - of_int f
      in if d < 1/2 then f else if 1/2 < d then f + 1 else if even f then f else f + 1)"

text \<open>The binary exponent of a positive rational: \<open>2 powi expo x \<le> x < 2 powi (expo x + 1)\<close>.\<close>

definition expo :: "rat \<Rightarrow> int" where
  "expo x =
     (let e = bitlen (fst (quotient_of x)) - bitlen (snd (quotient_of x))
      in if 2 powi e \<le> x then e else e - 1)"

definition ulp_exp :: "rat \<Rightarrow> int" where
  "ulp_exp x = max (expo \<bar>x\<bar> - 52) (-1074)"

definition rnd :: "rat \<Rightarrow> rat" where
  "rnd x = (if x = 0 then 0 else of_int (rhe (x / 2 powi ulp_exp x)) * 2 powi ulp_exp x)"

definition fl :: "rat \<Rightarrow> jsnum" where
  "fl x =
     (let r = rnd x
      in if 2 ^ 1024 \<le> r then PInf else if r \<le> - (2 ^ 1024) then NInf else Fin r)"

subsection \<open>Arithmetic and comparison\<close>

fun js_is_finite :: "jsnum \<Rightarrow> bool" where
  "js_is_finite (Fin _) = True"
| "js_is_finite _ = False"

fun js_neg :: "jsnum \<Rightarrow> jsnum" where
  "js_neg NaN = NaN"
| "js_neg PInf = NInf"
| "js_neg NInf = PInf"
| "js_neg (Fin x) = Fin (- x)"

fun js_add :: "jsnum \<Rightarrow> jsnum \<Rightarrow> jsnum" where
  "js_add (Fin x) (Fin y) = fl (x + y)"
| "js_add NaN _ = NaN"
| "js_add _ NaN = NaN"
| "js_add PInf NInf = NaN"
| "js_add NInf PInf = NaN"
| "js_add PInf _ = PInf"
| "js_add _ PInf = PInf"
| "js_add NInf _ = NInf"
| "js_add _ NInf = NInf"

definition js_sub :: "jsnum \<Rightarrow> jsnum \<Rightarrow> jsnum" where
  "js_sub x y = js_add x (js_neg y)"

definition inf_sgn :: "rat \<Rightarrow> jsnum" where
  "inf_sgn s = (if s = 0 then NaN else if 0 < s then PInf else NInf)"

fun js_mul :: "jsnum \<Rightarrow> jsnum \<Rightarrow> jsnum" where
  "js_mul (Fin x) (Fin y) = fl (x * y)"
| "js_mul NaN _ = NaN"
| "js_mul _ NaN = NaN"
| "js_mul (Fin x) PInf = inf_sgn x"
| "js_mul (Fin x) NInf = inf_sgn (- x)"
| "js_mul PInf (Fin y) = inf_sgn y"
| "js_mul NInf (Fin y) = inf_sgn (- y)"
| "js_mul PInf PInf = PInf"
| "js_mul PInf NInf = NInf"
| "js_mul NInf PInf = NInf"
| "js_mul NInf NInf = PInf"

text \<open>Division. A zero divisor is the positive zero: the sources divide by a zero nowhere.\<close>

fun js_div :: "jsnum \<Rightarrow> jsnum \<Rightarrow> jsnum" where
  "js_div (Fin x) (Fin y) = (if y = 0 then inf_sgn x else fl (x / y))"
| "js_div NaN _ = NaN"
| "js_div _ NaN = NaN"
| "js_div (Fin x) _ = Fin 0"
| "js_div PInf (Fin y) = (if y < 0 then NInf else PInf)"
| "js_div NInf (Fin y) = (if y < 0 then PInf else NInf)"
| "js_div _ _ = NaN"

fun js_lt :: "jsnum \<Rightarrow> jsnum \<Rightarrow> bool" where
  "js_lt (Fin x) (Fin y) = (x < y)"
| "js_lt NaN _ = False"
| "js_lt _ NaN = False"
| "js_lt PInf _ = False"
| "js_lt _ NInf = False"
| "js_lt NInf _ = True"
| "js_lt _ PInf = True"

declare js_lt.simps [simp del]

fun js_eq :: "jsnum \<Rightarrow> jsnum \<Rightarrow> bool" where
  "js_eq NaN _ = False"
| "js_eq x y = (x = y)"

definition js_le :: "jsnum \<Rightarrow> jsnum \<Rightarrow> bool" where
  "js_le x y \<longleftrightarrow> js_lt x y \<or> js_eq x y"

definition js_max :: "jsnum \<Rightarrow> jsnum \<Rightarrow> jsnum" where
  "js_max x y = (if x = NaN \<or> y = NaN then NaN else if js_lt x y then y else x)"

definition js_min :: "jsnum \<Rightarrow> jsnum \<Rightarrow> jsnum" where
  "js_min x y = (if x = NaN \<or> y = NaN then NaN else if js_lt y x then y else x)"

text \<open>\<open>Math.round\<close>: the nearest integer, ties towards plus infinity.\<close>

fun js_round :: "jsnum \<Rightarrow> jsnum" where
  "js_round (Fin x) = Fin (of_int \<lfloor>x + 1/2\<rfloor>)"
| "js_round x = x"

fun js_floor :: "jsnum \<Rightarrow> jsnum" where
  "js_floor (Fin x) = Fin (of_int \<lfloor>x\<rfloor>)"
| "js_floor x = x"

fun js_abs :: "jsnum \<Rightarrow> jsnum" where
  "js_abs (Fin x) = Fin \<bar>x\<bar>"
| "js_abs NaN = NaN"
| "js_abs _ = PInf"

fun js_is_integer :: "jsnum \<Rightarrow> bool" where
  "js_is_integer (Fin x) = (of_int \<lfloor>x\<rfloor> = x)"
| "js_is_integer _ = False"

text \<open>Truthiness of a number: neither zero nor NaN.\<close>

definition js_num_truthy :: "jsnum \<Rightarrow> bool" where
  "js_num_truthy x \<longleftrightarrow> x \<noteq> NaN \<and> x \<noteq> Fin 0"

abbreviation jsint :: "int \<Rightarrow> jsnum" where
  "jsint n \<equiv> Fin (of_int n)"

subsection \<open>Lemmas: comparison\<close>

lemma js_lt_simps [simp]:
  "js_lt (Fin x) (Fin y) \<longleftrightarrow> x < y" "\<not> js_lt NaN a" "\<not> js_lt a NaN"
  "js_lt (Fin x) PInf" "\<not> js_lt PInf a" "js_lt NInf (Fin x)" "\<not> js_lt a NInf" "js_lt NInf PInf"
  by (auto simp: js_lt.simps) (cases a; simp add: js_lt.simps)+

lemma js_eq_simps [simp]: "js_eq a b \<longleftrightarrow> a \<noteq> NaN \<and> a = b"
  by (cases a) auto

lemma js_le_Fin [simp]: "js_le (Fin x) (Fin y) \<longleftrightarrow> x \<le> y"
  by (auto simp: js_le_def)

lemma js_max_Fin [simp]: "js_max (Fin x) (Fin y) = Fin (max x y)"
  by (auto simp: js_max_def)

lemma js_min_Fin [simp]: "js_min (Fin x) (Fin y) = Fin (min x y)"
  by (auto simp: js_min_def)

lemma js_max_inf [simp]:
  "js_max (Fin x) PInf = PInf" "js_max (Fin x) NInf = Fin x"
  "js_min (Fin x) PInf = Fin x" "js_min (Fin x) NInf = NInf"
  "js_max a NaN = NaN" "js_min a NaN = NaN"
  by (auto simp: js_max_def js_min_def)

lemma js_is_finite_iff: "js_is_finite n \<longleftrightarrow> (\<exists>x. n = Fin x)"
  by (cases n) auto

lemma js_is_finite_Fin: "\<not> js_is_finite n \<longleftrightarrow> n = NaN \<or> n = PInf \<or> n = NInf"
  by (cases n) auto

lemma js_is_integerE: "js_is_integer n \<Longrightarrow> \<exists>k. n = jsint k"
  by (cases n) (auto intro: sym)

lemma js_is_integer_jsint [simp]: "js_is_integer (jsint k)"
  by simp

subsection \<open>Lemmas: rounding\<close>

lemma floor_rat_numeral [simp]:
  "\<lfloor>numeral a / numeral b :: rat\<rfloor> = numeral a div numeral b"
  "\<lfloor>- (numeral a / numeral b) :: rat\<rfloor> = - numeral a div numeral b"
  "\<lfloor>1 / numeral b :: rat\<rfloor> = 1 div numeral b"
  using floor_divide_of_int_eq [of "numeral a" "numeral b", where ?'a = rat]
    floor_divide_of_int_eq [of "- numeral a" "numeral b", where ?'a = rat]
    floor_divide_of_int_eq [of 1 "numeral b", where ?'a = rat]
  by simp_all

lemma rhe_of_int [simp]: "rhe (of_int n) = n"
  by (simp add: rhe_def)

lemma rhe_bounds: "\<lfloor>x\<rfloor> \<le> rhe x \<and> rhe x \<le> \<lfloor>x\<rfloor> + 1"
  by (auto simp: rhe_def Let_def)

lemma rhe_mono:
  assumes "x \<le> y" shows "rhe x \<le> rhe y"
proof (cases "\<lfloor>x\<rfloor> = \<lfloor>y\<rfloor>")
  case True
  with assms show ?thesis by (auto simp: rhe_def Let_def)
next
  case False
  with assms have "\<lfloor>x\<rfloor> + 1 \<le> \<lfloor>y\<rfloor>" using floor_mono [OF assms] by linarith
  with rhe_bounds [of x] rhe_bounds [of y] show ?thesis by linarith
qed

lemma rhe_minus: "rhe (- x) = - rhe x"
proof (cases "of_int \<lfloor>x\<rfloor> = x")
  case True
  then have "rhe (- x) = - \<lfloor>x\<rfloor>" by (metis of_int_minus rhe_of_int)
  moreover have "rhe x = \<lfloor>x\<rfloor>" using True by (metis rhe_of_int)
  ultimately show ?thesis by simp
next
  case False
  have "\<lfloor>- x\<rfloor> = - \<lfloor>x\<rfloor> - 1"
    using False by (intro floor_unique) (auto simp: less_le, linarith+)
  then show ?thesis by (auto simp: rhe_def Let_def)
qed

lemma bitlen_bounds_pos:
  assumes "0 < n" shows "2 ^ nat (bitlen n - 1) \<le> n \<and> n < 2 ^ nat (bitlen n)"
  using bitlen_bounds [OF assms] by simp

lemma bitlen_ge1_pos: "0 < n \<Longrightarrow> 1 \<le> bitlen n"
  using bitlen_le_iff_power [of n 0] bitlen_nonneg [of n] by auto

lemma expo_bounds:
  assumes "0 < x" shows "2 powi expo x \<le> x" "x < 2 powi (expo x + 1)"
proof -
  obtain p q where pq: "quotient_of x = (p, q)" by force
  have q: "0 < q" using quotient_of_denom_pos [OF pq] .
  have x: "x = of_int p / of_int q" using quotient_of_div [OF pq] .
  have p: "0 < p" using assms x q by (simp add: zero_less_divide_iff)
  define a where "a = nat (bitlen p - 1)"
  define b where "b = nat (bitlen q - 1)"
  have bp: "bitlen p = int a + 1" "bitlen q = int b + 1"
    using bitlen_ge1_pos [OF p] bitlen_ge1_pos [OF q] by (simp_all add: a_def b_def)
  have nb: "nat (bitlen p) = a + 1" "nat (bitlen q) = b + 1"
    using bp by simp_all
  have P: "(2::rat) ^ a \<le> of_int p" "of_int p < (2::rat) ^ (a + 1)"
    using bitlen_bounds_pos [OF p] unfolding nb a_def [symmetric]
    by (metis of_int_le_iff of_int_numeral of_int_power, metis of_int_less_iff of_int_numeral of_int_power)
  have Q: "(2::rat) ^ b \<le> of_int q" "of_int q < (2::rat) ^ (b + 1)"
    using bitlen_bounds_pos [OF q] unfolding nb b_def [symmetric]
    by (metis of_int_le_iff of_int_numeral of_int_power, metis of_int_less_iff of_int_numeral of_int_power)
  have e: "bitlen p - bitlen q = int a - int b" using bp by simp
  have pw: "(2::rat) powi (int a - int b + 1) = 2 ^ (a + 1) / 2 ^ b"
    "(2::rat) powi (int a - int b - 1) = 2 ^ a / 2 ^ (b + 1)"
    using power_int_diff [of "2::rat" "int (a + 1)" "int b"]
      power_int_diff [of "2::rat" "int a" "int (b + 1)"]
    by (simp_all add: algebra_simps power_int_add)
  have q0: "(0::rat) < of_int q" using q by simp
  have hi: "x < 2 powi (int a - int b + 1)"
  proof -
    have "of_int p * 2 ^ b < 2 ^ (a + 1) * (of_int q :: rat)"
      using P(2) Q(1) q0 by (intro mult_less_le_imp_less) (use p in auto)
    then show ?thesis using q0 unfolding x pw
      by (simp add: field_simps)
  qed
  have lo: "2 powi (int a - int b - 1) < x"
  proof -
    have "2 ^ a * of_int q < (of_int p :: rat) * 2 ^ (b + 1)"
      using P(1) Q(2) by (intro mult_le_less_imp_less) (use q in auto)
    then show ?thesis using q0 unfolding x pw
      by (simp add: field_simps)
  qed
  show "2 powi expo x \<le> x" "x < 2 powi (expo x + 1)"
    using hi lo by (auto simp: expo_def pq e Let_def)
qed

lemma powi_le_less_imp: "(2::rat) powi a \<le> x \<Longrightarrow> x < 2 powi b \<Longrightarrow> a < b"
  by (metis linorder_not_less one_le_numeral order_le_less_trans power_int_increasing)

lemma expo_unique: "2 powi e \<le> x \<Longrightarrow> x < 2 powi (e + 1) \<Longrightarrow> expo x = e"
proof -
  assume e: "2 powi e \<le> x" "x < 2 powi (e + 1)"
  then have "0 < x" by (metis less_le_trans zero_less_numeral zero_less_power_int)
  from expo_bounds [OF this] e have "e < expo x + 1" "expo x < e + 1"
    by (blast intro: powi_le_less_imp)+
  then show ?thesis by simp
qed

lemma expo_mono: "0 < x \<Longrightarrow> x \<le> y \<Longrightarrow> expo x \<le> expo y"
proof -
  assume "0 < x" "x \<le> y"
  with expo_bounds [of x] expo_bounds [of y] have "2 powi expo x < (2::rat) powi (expo y + 1)"
    by linarith
  then show ?thesis
    using powi_le_less_imp [of "expo x" "2 powi expo x" "expo y + 1"] by simp
qed

lemma rhe_ge: "of_int n \<le> x \<Longrightarrow> n \<le> rhe x"
  using rhe_mono [of "of_int n" x] by simp

lemma rhe_le: "x \<le> of_int n \<Longrightarrow> rhe x \<le> n"
  using rhe_mono [of x "of_int n"] by simp

lemma rnd_0 [simp]: "rnd 0 = 0"
  by (simp add: rnd_def)

lemma rnd_minus: "rnd (- x) = - rnd x"
  by (simp add: rnd_def ulp_exp_def rhe_minus)

lemma rnd_nonneg: "0 \<le> x \<Longrightarrow> 0 \<le> rnd x"
  using rhe_ge [of 0 "x / 2 powi ulp_exp x"] by (auto simp: rnd_def)

lemma rnd_mono_pos:
  assumes x: "0 < x" and xy: "x \<le> y"
  shows "rnd x \<le> rnd y"
proof -
  have y: "0 < y" using x xy by simp
  have e: "expo x \<le> expo y" using expo_mono [OF x xy] .
  define k l where "k = ulp_exp x" and "l = ulp_exp y"
  have pos: "(0::rat) < 2 powi k" "(0::rat) < 2 powi l" by simp_all
  have rx: "rnd x = of_int (rhe (x / 2 powi k)) * 2 powi k"
    and ry: "rnd y = of_int (rhe (y / 2 powi l)) * 2 powi l"
    using x y by (simp_all add: rnd_def k_def l_def)
  show ?thesis
  proof (cases "k = l")
    case True
    have "x / 2 powi k \<le> y / 2 powi k" using xy pos by (simp add: divide_right_mono)
    then have "rhe (x / 2 powi k) \<le> rhe (y / 2 powi k)" by (rule rhe_mono)
    with True pos show ?thesis by (simp add: rx ry mult_right_mono)
  next
    case False
    have kl: "k < l" and l: "l = expo y - 52" and ee: "expo x < expo y"
      using False e x y by (auto simp: k_def l_def ulp_exp_def max_def split: if_splits)
    define n where "n = nat (expo y - k)"
    have n: "expo y = k + int n" using kl l by (simp add: n_def)
    have "x \<le> 2 powi expo y"
    proof -
      have "x < 2 powi (expo x + 1)" using expo_bounds(2) [OF x] .
      also have "\<dots> \<le> 2 powi expo y" using ee by (intro power_int_increasing) auto
      finally show ?thesis by simp
    qed
    then have "x / 2 powi k \<le> of_int (2 ^ n)"
      using pos(1) by (simp add: n power_int_add field_simps)
    then have "rhe (x / 2 powi k) \<le> 2 ^ n" by (rule rhe_le)
    then have "(of_int (rhe (x / 2 powi k)) :: rat) \<le> 2 ^ n"
      by (metis of_int_le_iff of_int_numeral of_int_power)
    then have 1: "rnd x \<le> 2 powi expo y"
      using pos(1) by (simp add: rx n power_int_add mult.commute mult_left_mono)
    have "2 powi expo y \<le> y" using expo_bounds(1) [OF y] .
    then have "of_int (2 ^ 52) \<le> y / 2 powi l"
      using pos(2) by (simp add: l power_int_diff field_simps)
    then have "2 ^ 52 \<le> rhe (y / 2 powi l)" by (rule rhe_ge)
    then have "(2::rat) ^ 52 \<le> of_int (rhe (y / 2 powi l))"
      by (metis of_int_le_iff of_int_numeral of_int_power)
    then have "2 ^ 52 * 2 powi l \<le> rnd y"
      unfolding ry by (rule mult_right_mono) simp
    moreover have "(2::rat) ^ 52 * 2 powi l = 2 powi expo y"
      by (simp add: l power_int_diff)
    ultimately show ?thesis using 1 by linarith
  qed
qed

lemma rnd_mono: "x \<le> y \<Longrightarrow> rnd x \<le> rnd y"
proof -
  assume xy: "x \<le> y"
  consider "0 < x" | "y < 0" | "x \<le> 0" "0 \<le> y" by linarith
  then show ?thesis
  proof cases
    case 1
    with xy show ?thesis by (rule rnd_mono_pos [rotated])
  next
    case 2
    with xy rnd_mono_pos [of "- y" "- x"] show ?thesis by (simp add: rnd_minus)
  next
    case 3
    with rnd_nonneg [of "- x"] rnd_nonneg [of y] show ?thesis by (simp add: rnd_minus)
  qed
qed

lemma rnd_of_int:
  assumes "\<bar>n\<bar> \<le> 2 ^ 53" shows "rnd (of_int n) = of_int n"
proof -
  have pos: "rnd (of_int m) = of_int m" if m: "0 < m" "m \<le> 2 ^ 53" for m :: int
  proof -
    have x: "(0::rat) < of_int m" using m by simp
    have e0: "0 \<le> expo (of_int m)"
    proof -
      have "(2::rat) powi 0 \<le> of_int m" using m by simp
      with expo_bounds(2) [OF x] have "0 < expo (of_int m) + 1"
        by (blast intro: powi_le_less_imp)
      then show ?thesis by simp
    qed
    obtain j where j: "(of_int m :: rat) = of_int j * 2 powi ulp_exp (of_int m)"
    proof (cases "m = 2 ^ 53")
      case True
      then have m53: "(of_int m :: rat) = 2 ^ 53" by simp
      have "expo (2 ^ 53) = 53" by (rule expo_unique) simp_all
      then have "ulp_exp (of_int m) = 1" by (simp add: ulp_exp_def m53)
      then have "(of_int m :: rat) = of_int (2 ^ 52) * 2 powi ulp_exp (of_int m)"
        by (simp add: m53)
      then show ?thesis by (rule that)
    next
      case False
      then have "m < 2 ^ 53" using m by simp
      then have "(of_int m :: rat) < of_int (2 ^ 53)" by (simp only: of_int_less_iff)
      then have "(of_int m :: rat) < 2 powi 53" by simp
      with expo_bounds(1) [OF x] have "expo (of_int m) < 53"
        by (blast intro: powi_le_less_imp)
      then have "0 \<le> 52 - expo (of_int m)" by simp
      then obtain d where d: "52 - expo (of_int m) = int d" by (metis zero_le_imp_eq_int)
      then have "ulp_exp (of_int m) = - int d" using e0 x by (simp add: ulp_exp_def)
      then have "(of_int m :: rat) = of_int (m * 2 ^ d) * 2 powi ulp_exp (of_int m)"
        by (simp add: power_int_minus)
      then show ?thesis by (rule that)
    qed
    have "(of_int m :: rat) / 2 powi ulp_exp (of_int m) = of_int j"
      by (subst j) simp
    then have "rnd (of_int m) = of_int (rhe (of_int j)) * 2 powi ulp_exp (of_int m)"
      using m by (simp add: rnd_def)
    then show ?thesis using j by simp
  qed
  consider "n = 0" | "0 < n" | "n < 0" by linarith
  then show ?thesis
  proof cases
    case 2
    with pos [of n] assms show ?thesis by simp
  next
    case 3
    with pos [of "- n"] assms rnd_minus [of "of_int n"] show ?thesis by simp
  qed simp
qed

lemma rnd_numeral [simp]:
  "rnd 1 = 1" "numeral k \<le> (2 ^ 53 :: int) \<Longrightarrow> rnd (numeral k) = numeral k"
  using rnd_of_int [of 1] rnd_of_int [of "numeral k"] by simp_all

lemma fl_of_int: "\<bar>n\<bar> \<le> 2 ^ 53 \<Longrightarrow> fl (of_int n) = jsint n"
proof -
  assume n: "\<bar>n\<bar> \<le> 2 ^ 53"
  have "(2 ^ 53 :: int) < 2 ^ 1024" by simp
  with n have "n < 2 ^ 1024" "- (2 ^ 1024) < n" by linarith+
  then have "(of_int n :: rat) < of_int (2 ^ 1024)" "(of_int (- (2 ^ 1024)) :: rat) < of_int n"
    by (simp_all only: of_int_less_iff)
  with n show ?thesis by (simp add: fl_def rnd_of_int Let_def)
qed

lemma fl_Fin_rnd: "fl x = Fin r \<Longrightarrow> r = rnd x"
  by (auto simp: fl_def Let_def split: if_splits)

lemma fl_range:
  assumes "a \<le> x" "x \<le> b" "rnd a = a" "rnd b = b" "- (2 ^ 1024) < a" "b < 2 ^ 1024"
  shows "\<exists>r. fl x = Fin r \<and> a \<le> r \<and> r \<le> b"
  using rnd_mono [OF assms(1)] rnd_mono [OF assms(2)] assms(3-6)
  by (auto simp: fl_def Let_def)

subsection \<open>Numbers to text\<close>

text \<open>\<open>Number.prototype.toFixed\<close>: the nearest multiple of \<open>10\<^sup>-\<^sup>f\<close>, ties away from zero.\<close>

definition fixed_digits :: "nat \<Rightarrow> rat \<Rightarrow> string" where
  "fixed_digits f x =
     (let m = nat_str (nat \<lfloor>x * 10 ^ f + 1/2\<rfloor>); w = pad_start (f + 1) (CHR ''0'') m
      in if f = 0 then m
         else take (length w - f) w @ ''.'' @ drop (length w - f) w)"

text \<open>The decimal exponent \<open>n\<close> of a positive number: \<open>10 powi (n - 1) \<le> x < 10 powi n\<close>. The
  smallest positive double is above \<open>10 powi (-324)\<close>, so 330 steps are enough.\<close>

fun lead_zeros :: "nat \<Rightarrow> rat \<Rightarrow> nat" where
  "lead_zeros 0 x = 0"
| "lead_zeros (Suc fuel) x = (if 1 \<le> 10 * x then 0 else Suc (lead_zeros fuel (10 * x)))"

definition dec_exp :: "rat \<Rightarrow> int" where
  "dec_exp x =
     (if 1 \<le> x then int (length (nat_str (nat \<lfloor>x\<rfloor>))) else - int (lead_zeros 330 x))"

text \<open>The shortest digit string that rounds to \<open>x\<close>: the least \<open>k\<close> for which a \<open>k\<close>-digit
  number \<open>s\<close> has \<open>rnd (s * 10 powi (n - k)) = x\<close>, the nearer one when two do.\<close>

fun shortest :: "nat \<Rightarrow> nat \<Rightarrow> int \<Rightarrow> rat \<Rightarrow> nat \<times> nat" where
  "shortest 0 k n x = (nat \<lfloor>x / 10 powi (n - int k)\<rfloor>, k)"
| "shortest (Suc fuel) k n x =
     (let u = 10 powi (n - int k); y = x / u; lo = nat \<lfloor>y\<rfloor>; hi = lo + 1;
          lok = (0 < lo \<and> rnd (of_nat lo * u) = x); hik = (rnd (of_nat hi * u) = x)
      in if lok \<and> (\<not> hik \<or> y - of_nat lo \<le> of_nat hi - y) then (lo, k)
         else if hik then (hi, k)
         else shortest fuel (k + 1) n x)"

definition exp_str :: "int \<Rightarrow> string" where
  "exp_str e = (if 0 \<le> e then ''e+'' @ nat_str (nat e) else ''e-'' @ nat_str (nat (- e)))"

definition layout :: "nat \<Rightarrow> nat \<Rightarrow> int \<Rightarrow> string" where
  "layout s k n =
     (let d = nat_str s
      in if int k \<le> n \<and> n \<le> 21 then d @ replicate (nat n - k) (CHR ''0'')
         else if 0 < n \<and> n \<le> 21 then take (nat n) d @ ''.'' @ drop (nat n) d
         else if - 6 < n \<and> n \<le> 0 then ''0.'' @ replicate (nat (- n)) (CHR ''0'') @ d
         else if k = 1 then d @ exp_str (n - 1)
         else take 1 d @ ''.'' @ drop 1 d @ exp_str (n - 1))"

text \<open>\<open>Number::toString\<close> for a positive finite number. Up to \<open>2 ^ 53\<close> an integer is printed
  with all its digits: no shorter digit string rounds to it.\<close>

definition pos_str :: "rat \<Rightarrow> string" where
  "pos_str x =
     (if of_int \<lfloor>x\<rfloor> = x \<and> x \<le> 2 ^ 53 then nat_str (nat \<lfloor>x\<rfloor>)
      else (let n = dec_exp x; (s, k) = shortest 17 1 n x
            in if s = 10 ^ k then layout (10 ^ (k - 1)) k (n + 1) else layout s k n))"

fun num_str :: "jsnum \<Rightarrow> string" where
  "num_str NaN = ''NaN''"
| "num_str PInf = ''Infinity''"
| "num_str NInf = ''-Infinity''"
| "num_str (Fin x) =
     (if x = 0 then ''0'' else if x < 0 then ''-'' @ pos_str (- x) else pos_str x)"

fun to_fixed :: "nat \<Rightarrow> jsnum \<Rightarrow> string" where
  "to_fixed f (Fin x) =
     (if 10 ^ 21 \<le> \<bar>x\<bar> then num_str (Fin x)
      else if x < 0 then ''-'' @ fixed_digits f (- x) else fixed_digits f x)"
| "to_fixed f n = num_str n"

subsection \<open>Text to numbers\<close>

definition radix_val :: "nat \<Rightarrow> char \<Rightarrow> nat option" where
  "radix_val b c =
     (let n = (of_char c :: nat);
          d = (if 48 \<le> n \<and> n \<le> 57 then n - 48
               else if 97 \<le> n \<and> n \<le> 122 then n - 87
               else if 65 \<le> n \<and> n \<le> 90 then n - 55 else 255)
      in if d < b then Some d else None)"

fun radix_num :: "nat \<Rightarrow> nat \<Rightarrow> string \<Rightarrow> nat option" where
  "radix_num b n [] = Some n"
| "radix_num b n (c # s) =
     (case radix_val b c of None \<Rightarrow> None | Some d \<Rightarrow> radix_num b (b * n + d) s)"

definition radix_lit :: "nat \<Rightarrow> string \<Rightarrow> jsnum" where
  "radix_lit b s =
     (if s = [] then NaN else case radix_num b 0 s of None \<Rightarrow> NaN | Some n \<Rightarrow> fl (of_nat n))"

fun signed_digits :: "string \<Rightarrow> int option" where
  "signed_digits [] = None"
| "signed_digits (c # s) =
     (if c = CHR ''+'' then (if all_digits s then Some (int (digits_val s)) else None)
      else if c = CHR ''-'' then (if all_digits s then Some (- int (digits_val s)) else None)
      else if all_digits (c # s) then Some (int (digits_val (c # s))) else None)"

definition exponent_part :: "string \<Rightarrow> int option" where
  "exponent_part s =
     (case s of [] \<Rightarrow> Some 0
      | c # t \<Rightarrow> if c = CHR ''e'' \<or> c = CHR ''E'' then signed_digits t else None)"

definition dec_lit :: "string \<Rightarrow> rat option" where
  "dec_lit s =
     (let i = takeWhile is_digit s; r = dropWhile is_digit s;
          dot = (r \<noteq> [] \<and> hd r = CHR ''.'');
          f = (if dot then takeWhile is_digit (tl r) else []);
          t = (if dot then dropWhile is_digit (tl r) else r)
      in if i = [] \<and> f = [] then None
         else case exponent_part t of
                None \<Rightarrow> None
              | Some e \<Rightarrow> Some (of_nat (digits_val (i @ f)) * 10 powi (e - int (length f))))"

definition unsigned_lit :: "string \<Rightarrow> jsnum" where
  "unsigned_lit s =
     (if s = ''Infinity'' then PInf else case dec_lit s of None \<Rightarrow> NaN | Some x \<Rightarrow> fl x)"

text \<open>\<open>StringToNumber\<close>, what \<open>Number(text)\<close> computes.\<close>

definition str_num :: "string \<Rightarrow> jsnum" where
  "str_num s =
     (let t = trim s
      in if t = [] then Fin 0
         else if starts_with ''0x'' t \<or> starts_with ''0X'' t then radix_lit 16 (drop 2 t)
         else if starts_with ''0o'' t \<or> starts_with ''0O'' t then radix_lit 8 (drop 2 t)
         else if starts_with ''0b'' t \<or> starts_with ''0B'' t then radix_lit 2 (drop 2 t)
         else if hd t = CHR ''-'' then js_neg (unsigned_lit (tl t))
         else if hd t = CHR ''+'' then unsigned_lit (tl t)
         else unsigned_lit t)"

definition int_str :: "int \<Rightarrow> string" where
  "int_str n = (if n < 0 then ''-'' @ nat_str (nat (- n)) else nat_str (nat n))"

lemma num_str_jsint: "\<bar>n\<bar> \<le> 2 ^ 53 \<Longrightarrow> num_str (jsint n) = int_str n"
proof -
  assume n: "\<bar>n\<bar> \<le> 2 ^ 53"
  have b: "(of_int m :: rat) \<le> 2 ^ 53" if "m \<le> 2 ^ 53" for m :: int
    using that of_int_le_iff [of m "2 ^ 53", where ?'a = rat] by simp
  consider "n = 0" | "0 < n" | "n < 0" by linarith
  then show ?thesis
  proof cases
    case 1
    then show ?thesis by (simp add: int_str_def nat_str.simps)
  next
    case 2
    with n b [of n] show ?thesis by (simp add: int_str_def pos_str_def)
  next
    case 3
    with n b [of "- n"] show ?thesis
      by (simp add: int_str_def pos_str_def flip: of_int_minus)
  qed
qed

lemma not_ws_edge_digit: "is_digit c \<Longrightarrow> \<not> ws_edge c"
  by (auto simp: is_digit_def ws_edge_def ws_seqs_def)

lemma trim_all_digits: "all_digits s \<Longrightarrow> trim s = s"
  by (rule trim_id) (auto simp: all_digits_def list_all_iff not_ws_edge_digit)

lemma str_num_digits:
  assumes s: "all_digits s" shows "str_num s = fl (of_nat (digits_val s))"
proof -
  have d: "\<forall>c\<in>set s. is_digit c" and ne: "s \<noteq> []" using s by (auto simp: all_digits_def list_all_iff)
  then have tw: "takeWhile is_digit s = s" "dropWhile is_digit s = []" by auto
  have pre: "\<not> starts_with [CHR ''0'', c] s" if "\<not> is_digit c" for c
    using d that by (cases s; cases "tl s") (auto simp: starts_with_def)
  have "is_digit (hd s)" using d ne by simp
  then have "s \<noteq> ''Infinity''" "hd s \<noteq> CHR ''-''" "hd s \<noteq> CHR ''+''"
    by (auto simp: is_digit_def)
  moreover have "dec_lit s = Some (of_nat (digits_val s))"
    using ne by (simp add: dec_lit_def exponent_part_def tw Let_def)
  moreover have "\<not> is_digit (CHR ''x'')" "\<not> is_digit (CHR ''X'')" "\<not> is_digit (CHR ''o'')"
    "\<not> is_digit (CHR ''O'')" "\<not> is_digit (CHR ''b'')" "\<not> is_digit (CHR ''B'')"
    by (simp_all add: is_digit_def)
  ultimately show ?thesis
    using ne by (simp add: str_num_def trim_all_digits [OF s] pre unsigned_lit_def)
qed

lemma str_num_nat_str: "int n \<le> 2 ^ 53 \<Longrightarrow> str_num (nat_str n) = jsint (int n)"
  using str_num_digits [OF nat_str_digits, of n] fl_of_int [of "int n"] by simp

lemma is_digit_hd_nat_str: "is_digit (hd (nat_str m))"
  using nat_str_digits [of m] by (cases "nat_str m") (auto simp: all_digits_def)

lemma int_str_start: "\<exists>c t. int_str k = c # t \<and> (is_digit c \<or> c = CHR ''-'')"
  using is_digit_hd_nat_str [of "nat k"]
  by (cases "nat_str (nat k)") (auto simp: int_str_def)

end
