(* ===== verification/Js_Value.thy ===== *)
theory Js_Value
  imports Js_Number
begin

text \<open>
  JavaScript values as the console meets them on the wire (what \<open>JSON.parse\<close> produces, and
  \<open>undefined\<close>), the conversions \<open>String\<close>, \<open>Number\<close> and \<open>Boolean\<close>, property access, the
  errors a computation can throw, and the contract of a normaliser: the interface between the
  untyped wire and the typed records of the console.

  An object is the list of its own properties in insertion order. Objects that shadow
  \<open>toString\<close> or \<open>valueOf\<close> with a property of that name are outside the model.
\<close>

datatype jval =
    JUndef
  | JNull
  | JBool bool
  | JNum jsnum
  | JStr string
  | JArr "jval list"
  | JObj "(string \<times> jval) list"

text \<open>What a computation of the console can throw: a \<open>TypeError\<close> of the language, a
  \<open>SyntaxError\<close> of \<open>JSON.parse\<close>, the abort of a cancelled request (a \<open>DOMException\<close>), any
  other \<open>Error\<close> with its message, and the client's own \<open>ApiError\<close>
  (status, message, url, body).\<close>

datatype js_error =
    TypeError string
  | SyntaxError string
  | AbortError string
  | OtherError string
  | ApiError jsnum string string jval

type_synonym 'a exn = "js_error + 'a"

fun bind_exn :: "'a exn \<Rightarrow> ('a \<Rightarrow> 'b exn) \<Rightarrow> 'b exn" where
  "bind_exn (Inl e) f = Inl e"
| "bind_exn (Inr x) f = f x"

lemma bind_exn_Inr_iff [simp]:
  "bind_exn m f = Inr y \<longleftrightarrow> (\<exists>x. m = Inr x \<and> f x = Inr y)"
  by (cases m) auto

lemma bind_exn_Inl_iff:
  "bind_exn m f = Inl e \<longleftrightarrow> m = Inl e \<or> (\<exists>x. m = Inr x \<and> f x = Inl e)"
  by (cases m) auto

subsection \<open>Conversions\<close>

fun truthy :: "jval \<Rightarrow> bool" where
  "truthy JUndef = False"
| "truthy JNull = False"
| "truthy (JBool b) = b"
| "truthy (JNum n) = js_num_truthy n"
| "truthy (JStr s) = (s \<noteq> [])"
| "truthy (JArr _) = True"
| "truthy (JObj _) = True"

definition nullish :: "jval \<Rightarrow> bool" where
  "nullish v \<longleftrightarrow> v = JUndef \<or> v = JNull"

text \<open>\<open>typeof v === 'object' && v !== null\<close>: arrays are objects.\<close>

fun is_object :: "jval \<Rightarrow> bool" where
  "is_object (JArr _) = True"
| "is_object (JObj _) = True"
| "is_object _ = False"

fun is_array :: "jval \<Rightarrow> bool" where
  "is_array (JArr _) = True"
| "is_array _ = False"

text \<open>\<open>String(v)\<close>; an array prints its elements separated by commas, missing ones empty.\<close>

fun val_str :: "jval \<Rightarrow> string" where
  "val_str JUndef = ''undefined''"
| "val_str JNull = ''null''"
| "val_str (JBool b) = (if b then ''true'' else ''false'')"
| "val_str (JNum n) = num_str n"
| "val_str (JStr s) = s"
| "val_str (JArr vs) = join_with '','' (map (\<lambda>v. if nullish v then [] else val_str v) vs)"
| "val_str (JObj _) = ''[object Object]''"

fun js_number :: "jval \<Rightarrow> jsnum" where
  "js_number JUndef = NaN"
| "js_number JNull = Fin 0"
| "js_number (JBool b) = (if b then Fin 1 else Fin 0)"
| "js_number (JNum n) = n"
| "js_number (JStr s) = str_num s"
| "js_number (JArr vs) = str_num (val_str (JArr vs))"
| "js_number (JObj _) = NaN"

subsection \<open>Property access\<close>

text \<open>The own property \<open>k\<close> of an object, \<open>undefined\<close> when it has none; the sources read this
  way only after checking that the value is an object.\<close>

fun jprop :: "jval \<Rightarrow> string \<Rightarrow> jval" where
  "jprop (JObj ps) k = (case map_of ps k of Some v \<Rightarrow> v | None \<Rightarrow> JUndef)"
| "jprop _ k = JUndef"

text \<open>Unchecked access \<open>v.k\<close> throws on \<open>undefined\<close> and \<open>null\<close>.\<close>

definition get_prop :: "jval \<Rightarrow> string \<Rightarrow> jval exn" where
  "get_prop v k = (if nullish v then Inl (TypeError k) else Inr (jprop v k))"

fun has_key :: "jval \<Rightarrow> string \<Rightarrow> bool" where
  "has_key (JObj ps) k = (k \<in> set (map fst ps))"
| "has_key _ k = False"

text \<open>\<open>{ ...v, k: x }\<close>: the properties of \<open>v\<close> with \<open>k\<close> set; an array spreads its indices.\<close>

fun set_prop :: "string \<Rightarrow> jval \<Rightarrow> (string \<times> jval) list \<Rightarrow> (string \<times> jval) list" where
  "set_prop k x [] = [(k, x)]"
| "set_prop k x ((k', y) # ps) = (if k' = k then (k, x) # ps else (k', y) # set_prop k x ps)"

fun spread :: "jval \<Rightarrow> (string \<times> jval) list" where
  "spread (JObj ps) = ps"
| "spread (JArr vs) = zip (map nat_str [0..<length vs]) vs"
| "spread (JStr s) = zip (map nat_str [0..<length s]) (map (\<lambda>c. JStr [c]) s)"
| "spread _ = []"

definition nullish_or :: "jval \<Rightarrow> jval \<Rightarrow> jval" where
  "nullish_or v w = (if nullish v then w else v)"

fun elems :: "jval \<Rightarrow> jval list" where
  "elems (JArr vs) = vs"
| "elems _ = []"

fun str_of :: "jval \<Rightarrow> string option" where
  "str_of (JStr s) = Some s"
| "str_of _ = None"

lemma nullish_simps [simp]:
  "nullish JUndef" "nullish JNull" "\<not> nullish (JBool b)" "\<not> nullish (JNum n)"
  "\<not> nullish (JStr s)" "\<not> nullish (JArr vs)" "\<not> nullish (JObj ps)"
  by (auto simp: nullish_def)

lemma map_of_set_prop [simp]: "map_of (set_prop k x ps) = (map_of ps)(k \<mapsto> x)"
  by (induction k x ps rule: set_prop.induct) auto

lemma get_prop_simps [simp]:
  "get_prop (JObj ps) k = Inr (jprop (JObj ps) k)" "get_prop (JArr vs) k = Inr JUndef"
  "get_prop JUndef k = Inl (TypeError k)" "get_prop JNull k = Inl (TypeError k)"
  by (auto simp: get_prop_def)

lemma is_object_cases: "is_object v \<longleftrightarrow> (\<exists>vs. v = JArr vs) \<or> (\<exists>ps. v = JObj ps)"
  by (cases v) auto

subsection \<open>Normalisers\<close>

text \<open>
  A normaliser reads anything the wire may hold into a value of a type; \<open>encode\<close> is what the
  console sends for such a value. Its contract: every reading is valid, and a valid value read
  back from its own encoding is unchanged.
\<close>

locale normaliser =
  fixes parse :: "jval \<Rightarrow> 'a"
    and encode :: "'a \<Rightarrow> jval"
    and valid :: "'a \<Rightarrow> bool"
  assumes parse_valid: "valid (parse v)"
    and parse_encode: "valid x \<Longrightarrow> parse (encode x) = x"
begin

lemma parse_idem: "parse (encode (parse v)) = parse v"
  by (rule parse_encode [OF parse_valid])

lemma encode_inj: "valid x \<Longrightarrow> valid y \<Longrightarrow> encode x = encode y \<longleftrightarrow> x = y"
  by (metis parse_encode)

lemma valid_iff_range: "valid x \<longleftrightarrow> x \<in> range parse"
  by (metis parse_encode parse_valid rangeE rangeI)

end

end
