(* ===== verification/Json.thy ===== *)
theory Json
  imports Js_Value
begin

text \<open>
  \<open>JSON.stringify\<close> and \<open>JSON.parse\<close>, as the client uses them on request and response bodies: a
  recursive-descent reader and a printer over texts (UTF-8 bytes), and the round trip between
  them. The reader's recursion is bounded by fuel; every nesting step consumes input, so twice
  the length of the text is enough, which the round trip shows for every printed value.
\<close>

abbreviation quote :: char where "quote \<equiv> CHR 0x22"
abbreviation backslash :: char where "backslash \<equiv> CHR 0x5C"

subsection \<open>Printing\<close>

definition hex_char :: "nat \<Rightarrow> char" where
  "hex_char d = (if d < 10 then char_of (48 + d) else char_of (87 + d))"

definition esc_char :: "char \<Rightarrow> string" where
  "esc_char c =
     (if c = quote then [backslash, quote]
      else if c = backslash then [backslash, backslash]
      else if c = CHR 0x08 then [backslash, CHR ''b'']
      else if c = CHR 0x09 then [backslash, CHR ''t'']
      else if c = CHR 0x0A then [backslash, CHR ''n'']
      else if c = CHR 0x0C then [backslash, CHR ''f'']
      else if c = CHR 0x0D then [backslash, CHR ''r'']
      else if (of_char c :: nat) < 32 then
        backslash # ''u00'' @ [hex_char (of_char c div 16), hex_char (of_char c mod 16)]
      else [c])"

definition json_quote :: "string \<Rightarrow> string" where
  "json_quote s = quote # concat (map esc_char s) @ [quote]"

text \<open>A member whose value is \<open>undefined\<close> is left out, an \<open>undefined\<close> element prints as
  \<open>null\<close>, and so does a number that is not finite.\<close>

fun json_str :: "jval \<Rightarrow> string" where
  "json_str JUndef = ''null''"
| "json_str JNull = ''null''"
| "json_str (JBool b) = (if b then ''true'' else ''false'')"
| "json_str (JNum n) = (if js_is_finite n then num_str n else ''null'')"
| "json_str (JStr s) = json_quote s"
| "json_str (JArr vs) = ''['' @ join_with '','' (map json_str vs) @ '']''"
| "json_str (JObj ps) =
     ''{'' @ join_with '',''
       (map (\<lambda>p. json_quote (fst p) @ '':'' @ json_str (snd p))
            (filter (\<lambda>p. snd p \<noteq> JUndef) ps)) @ ''}''"

subsection \<open>Reading\<close>

definition json_ws :: "char \<Rightarrow> bool" where
  "json_ws c \<longleftrightarrow> c = CHR 0x20 \<or> c = CHR 0x09 \<or> c = CHR 0x0A \<or> c = CHR 0x0D"

definition skip_ws :: "string \<Rightarrow> string" where
  "skip_ws s = dropWhile json_ws s"

definition utf8 :: "nat \<Rightarrow> string" where
  "utf8 n =
     (if n < 0x80 then [char_of n]
      else if n < 0x800 then [char_of (0xC0 + n div 64), char_of (0x80 + n mod 64)]
      else if n < 0x10000 then
        [char_of (0xE0 + n div 4096), char_of (0x80 + n div 64 mod 64), char_of (0x80 + n mod 64)]
      else
        [char_of (0xF0 + n div 262144), char_of (0x80 + n div 4096 mod 64),
         char_of (0x80 + n div 64 mod 64), char_of (0x80 + n mod 64)])"

definition hex4 :: "string \<Rightarrow> nat option" where
  "hex4 s = (if length s < 4 then None else radix_num 16 0 (take 4 s))"

text \<open>The escape after a backslash: the bytes it stands for and how many characters it takes. Two
  \<open>\u\<close> escapes that form a surrogate pair are one code point.\<close>

definition unescape :: "string \<Rightarrow> (string \<times> nat) option" where
  "unescape s =
     (case s of [] \<Rightarrow> None
      | e # u \<Rightarrow>
        if e = quote \<or> e = backslash \<or> e = CHR ''/'' then Some ([e], 1)
        else if e = CHR ''b'' then Some ([CHR 0x08], 1)
        else if e = CHR ''t'' then Some ([CHR 0x09], 1)
        else if e = CHR ''n'' then Some ([CHR 0x0A], 1)
        else if e = CHR ''f'' then Some ([CHR 0x0C], 1)
        else if e = CHR ''r'' then Some ([CHR 0x0D], 1)
        else if e = CHR ''u'' then
          (case hex4 u of
             None \<Rightarrow> None
           | Some n \<Rightarrow>
             (case (if 0xD800 \<le> n \<and> n < 0xDC00 \<and> starts_with [backslash, CHR ''u''] (drop 4 u)
                    then hex4 (drop 6 u) else None) of
                Some m \<Rightarrow>
                  if 0xDC00 \<le> m \<and> m < 0xE000
                  then Some (utf8 (0x10000 + (n - 0xD800) * 0x400 + (m - 0xDC00)), 11)
                  else Some (utf8 n, 5)
              | None \<Rightarrow> Some (utf8 n, 5)))
        else None)"

text \<open>The rest of a string literal after its opening quote.\<close>

function jp_str :: "string \<Rightarrow> (string \<times> string) option" where
  "jp_str [] = None"
| "jp_str (c # t) =
     (if c = quote then Some ([], t)
      else if c = backslash then
        (case unescape t of
           None \<Rightarrow> None
         | Some (b, n) \<Rightarrow>
           (case jp_str (drop n t) of None \<Rightarrow> None | Some (r, u) \<Rightarrow> Some (b @ r, u)))
      else if (of_char c :: nat) < 32 then None
      else (case jp_str t of None \<Rightarrow> None | Some (r, u) \<Rightarrow> Some (c # r, u)))"
  by pat_completeness auto
termination
  by (relation "measure length") auto

definition jp_frac :: "string \<Rightarrow> (string \<times> string) option" where
  "jp_frac s =
     (if s \<noteq> [] \<and> hd s = CHR ''.'' then
        (let f = takeWhile is_digit (tl s)
         in if f = [] then None else Some (f, dropWhile is_digit (tl s)))
      else Some ([], s))"

definition jp_exp :: "string \<Rightarrow> (int \<times> string) option" where
  "jp_exp s =
     (if s \<noteq> [] \<and> (hd s = CHR ''e'' \<or> hd s = CHR ''E'') then
        (let neg = (tl s \<noteq> [] \<and> hd (tl s) = CHR ''-'');
             sg = (neg \<or> tl s \<noteq> [] \<and> hd (tl s) = CHR ''+'');
             t = (if sg then tl (tl s) else tl s);
             d = takeWhile is_digit t
         in if d = [] then None
            else Some (if neg then - int (digits_val d) else int (digits_val d),
                       dropWhile is_digit t))
      else Some (0, s))"

definition jp_num :: "string \<Rightarrow> (jval \<times> string) option" where
  "jp_num s =
     (let neg = (s \<noteq> [] \<and> hd s = CHR ''-''); t = (if neg then tl s else s);
          zero = (t \<noteq> [] \<and> hd t = CHR ''0'');
          i = (if zero then ''0'' else takeWhile is_digit t);
          r = (if zero then tl t else dropWhile is_digit t)
      in if i = [] then None
         else case jp_frac r of
                None \<Rightarrow> None
              | Some (f, r2) \<Rightarrow>
                (case jp_exp r2 of
                   None \<Rightarrow> None
                 | Some (e, r3) \<Rightarrow>
                   (let x = fl (of_nat (digits_val (i @ f)) * 10 powi (e - int (length f)))
                    in Some (JNum (if neg then js_neg x else x), r3))))"

text \<open>Repeated members: the last value, at the first position.\<close>

definition obj_of :: "(string \<times> jval) list \<Rightarrow> jval" where
  "obj_of ps = JObj (foldl (\<lambda>acc p. set_prop (fst p) (snd p) acc) [] ps)"

fun jp_value :: "nat \<Rightarrow> string \<Rightarrow> (jval \<times> string) option"
  and jp_elems :: "nat \<Rightarrow> string \<Rightarrow> (jval list \<times> string) option"
  and jp_members :: "nat \<Rightarrow> string \<Rightarrow> ((string \<times> jval) list \<times> string) option"
where
  "jp_value 0 s = None"
| "jp_value (Suc k) s =
     (case skip_ws s of [] \<Rightarrow> None
      | c # t \<Rightarrow>
        if c = CHR ''{'' then
          (case skip_ws t of
             d # u \<Rightarrow> if d = CHR ''}'' then Some (JObj [], u)
                     else (case jp_members k t of None \<Rightarrow> None | Some (ps, r) \<Rightarrow> Some (obj_of ps, r))
           | [] \<Rightarrow> None)
        else if c = CHR ''['' then
          (case skip_ws t of
             d # u \<Rightarrow> if d = CHR '']'' then Some (JArr [], u)
                     else (case jp_elems k t of None \<Rightarrow> None | Some (vs, r) \<Rightarrow> Some (JArr vs, r))
           | [] \<Rightarrow> None)
        else if c = quote then
          (case jp_str t of None \<Rightarrow> None | Some (x, r) \<Rightarrow> Some (JStr x, r))
        else if starts_with ''true'' (c # t) then Some (JBool True, drop 4 (c # t))
        else if starts_with ''false'' (c # t) then Some (JBool False, drop 5 (c # t))
        else if starts_with ''null'' (c # t) then Some (JNull, drop 4 (c # t))
        else jp_num (c # t))"
| "jp_elems 0 s = None"
| "jp_elems (Suc k) s =
     (case jp_value k s of None \<Rightarrow> None
      | Some (v, r) \<Rightarrow>
        (case skip_ws r of [] \<Rightarrow> None
         | c # u \<Rightarrow>
           if c = CHR '']'' then Some ([v], u)
           else if c = CHR '','' then
             (case jp_elems k u of None \<Rightarrow> None | Some (vs, r2) \<Rightarrow> Some (v # vs, r2))
           else None))"
| "jp_members 0 s = None"
| "jp_members (Suc k) s =
     (case skip_ws s of [] \<Rightarrow> None
      | q # t \<Rightarrow>
        if q \<noteq> quote then None
        else (case jp_str t of None \<Rightarrow> None
              | Some (key, r) \<Rightarrow>
                (case skip_ws r of [] \<Rightarrow> None
                 | c # u \<Rightarrow>
                   if c \<noteq> CHR '':'' then None
                   else (case jp_value k u of None \<Rightarrow> None
                         | Some (v, r2) \<Rightarrow>
                           (case skip_ws r2 of [] \<Rightarrow> None
                            | d # w \<Rightarrow>
                              if d = CHR ''}'' then Some ([(key, v)], w)
                              else if d = CHR '','' then
                                (case jp_members k w of None \<Rightarrow> None
                                 | Some (ps, r3) \<Rightarrow> Some ((key, v) # ps, r3))
                              else None)))))"

definition json_parse :: "string \<Rightarrow> jval option" where
  "json_parse s =
     (case jp_value (2 * length s + 2) s of
        None \<Rightarrow> None
      | Some (v, r) \<Rightarrow> if skip_ws r = [] then Some v else None)"

subsection \<open>The round trip\<close>

text \<open>Values that survive the wire unchanged: no \<open>undefined\<close>, integers a double holds exactly, no
  repeated member.\<close>

fun int_of_num :: "jsnum \<Rightarrow> int" where
  "int_of_num (Fin x) = \<lfloor>x\<rfloor>"
| "int_of_num _ = 0"

fun plain :: "jval \<Rightarrow> bool" where
  "plain JUndef = False"
| "plain JNull = True"
| "plain (JBool b) = True"
| "plain (JNum n) = (js_is_integer n \<and> \<bar>int_of_num n\<bar> \<le> 2 ^ 53)"
| "plain (JStr s) = True"
| "plain (JArr vs) = list_all plain vs"
| "plain (JObj ps) = (distinct (map fst ps) \<and> list_all (\<lambda>p. plain (snd p)) ps)"

definition delim :: "string \<Rightarrow> bool" where
  "delim r \<longleftrightarrow> r = [] \<or> hd r \<in> set '',]}''"

lemma radix_val_hex_char: "d < 16 \<Longrightarrow> radix_val 16 (hex_char d) = Some d"
  by (auto simp: radix_val_def hex_char_def)

lemma unescape_control:
  assumes "(of_char c :: nat) < 32"
  shows "unescape (''u00'' @ [hex_char (of_char c div 16), hex_char (of_char c mod 16)] @ r)
    = Some ([c], 5)"
proof -
  let ?n = "of_char c :: nat"
  have "?n div 16 < 16" "?n mod 16 < 16" using assms by auto
  then have "hex4 (''00'' @ [hex_char (?n div 16), hex_char (?n mod 16)] @ r) = Some ?n"
    using assms radix_val_hex_char [of "?n div 16"] radix_val_hex_char [of "?n mod 16"]
    by (simp add: hex4_def radix_val_def)
  moreover have "utf8 ?n = [c]" using assms by (simp add: utf8_def)
  ultimately show ?thesis using assms by (simp add: unescape_def)
qed

lemma jp_str_esc: "jp_str (esc_char c @ t) =
    (case jp_str t of None \<Rightarrow> None | Some (r, u) \<Rightarrow> Some (c # r, u))"
proof -
  consider "c \<in> {quote, backslash, CHR 0x08, CHR 0x09, CHR 0x0A, CHR 0x0C, CHR 0x0D}"
    | "c \<notin> {quote, backslash, CHR 0x08, CHR 0x09, CHR 0x0A, CHR 0x0C, CHR 0x0D}"
      "(of_char c :: nat) < 32"
    | "c \<noteq> quote" "c \<noteq> backslash" "\<not> (of_char c :: nat) < 32" by blast
  then show ?thesis
  proof cases
    case 1
    then show ?thesis by (auto simp: esc_char_def unescape_def split: option.splits)
  next
    case 2
    then have e: "esc_char c =
        backslash # ''u00'' @ [hex_char (of_char c div 16), hex_char (of_char c mod 16)]"
      by (simp add: esc_char_def)
    show ?thesis using unescape_control [OF 2(2), of t]
      by (simp add: e split: option.splits)
  next
    case 3
    then have "esc_char c = [c]" by (auto simp: esc_char_def)
    with 3 show ?thesis by simp
  qed
qed

lemma jp_str_quote: "jp_str (concat (map esc_char s) @ quote # r) = Some (s, r)"
  by (induction s) (simp_all add: jp_str_esc)

lemma hd_nat_str_nonzero: "0 < n \<Longrightarrow> hd (nat_str n) \<noteq> CHR ''0''"
proof (induction n rule: nat_str.induct)
  case (1 n)
  have d: "digit_char n = CHR ''0'' \<Longrightarrow> n < 10 \<Longrightarrow> n = 0"
    by (metis digit_char_numerals(1) digit_val_digit_char zero_less_numeral)
  show ?case using 1 d by (auto simp: nat_str.simps [of n] hd_append)
qed

lemma delim_not_digit: "delim r \<Longrightarrow> r = [] \<or> \<not> is_digit (hd r)"
  by (auto simp: delim_def is_digit_def)

lemma takeWhile_digits_delim:
  assumes "all_digits s" "delim r"
  shows "takeWhile is_digit (s @ r) = s" "dropWhile is_digit (s @ r) = r"
proof -
  have "\<forall>c\<in>set s. is_digit c" using assms(1) by (simp add: all_digits_def list_all_iff)
  moreover have "takeWhile is_digit r = []" "dropWhile is_digit r = r"
    using delim_not_digit [OF assms(2)] by (cases r; simp)+
  ultimately show "takeWhile is_digit (s @ r) = s" "dropWhile is_digit (s @ r) = r"
    by (simp_all add: takeWhile_append dropWhile_append)
qed

lemma jp_frac_delim: "delim r \<Longrightarrow> jp_frac r = Some ([], r)"
  by (auto simp: jp_frac_def delim_def)

lemma jp_exp_delim: "delim r \<Longrightarrow> jp_exp r = Some (0, r)"
  by (auto simp: jp_exp_def delim_def)

lemma jp_num_int_str:
  assumes "\<bar>n\<bar> \<le> 2 ^ 53" "delim r"
  shows "jp_num (int_str n @ r) = Some (JNum (jsint n), r)"
proof -
  have fl: "fl (of_nat m) = jsint (int m)" if "int m \<le> 2 ^ 53" for m
    using fl_of_int [of "int m"] that by simp
  have minus: "hd (nat_str m) \<noteq> CHR ''-''" for m
    using is_digit_hd_nat_str [of m] by (auto simp: is_digit_def)
  note run = jp_num_def jp_frac_delim jp_exp_delim takeWhile_digits_delim nat_str_digits assms(2)
    Let_def
  consider "n < 0" | "n = 0" | "0 < n" by linarith
  then show ?thesis
  proof cases
    case 1
    then show ?thesis using assms(1) fl [of "nat (- n)"] hd_nat_str_nonzero [of "nat (- n)"]
      by (simp add: int_str_def run)
  next
    case 2
    then show ?thesis using fl [of 0]
      by (simp add: int_str_def run nat_str.simps digits_val_def digit_val_def)
  next
    case 3
    then show ?thesis using assms(1) fl [of "nat n"] minus [of "nat n"] hd_nat_str_nonzero [of "nat n"]
      by (simp add: int_str_def run)
  qed
qed

lemma plain_numE:
  assumes "plain (JNum n)" obtains k where "n = jsint k" "\<bar>k\<bar> \<le> 2 ^ 53"
proof -
  obtain k where "n = jsint k" using assms js_is_integerE by fastforce
  with assms show ?thesis using that by simp
qed

lemma json_str_start:
  assumes "plain v"
  shows "\<exists>c t. json_str v = c # t \<and> \<not> json_ws c \<and> c \<noteq> CHR '']'' \<and> c \<noteq> CHR ''}''"
proof (cases v)
  case (JNum n)
  with assms obtain k where k: "n = jsint k" "\<bar>k\<bar> \<le> 2 ^ 53" using plain_numE by metis
  have "json_str v = int_str k"
    using JNum k num_str_jsint [OF k(2)] by simp
  with int_str_start [of k] show ?thesis by (auto simp: json_ws_def is_digit_def)
qed (use assms in \<open>auto simp: json_ws_def json_quote_def\<close>)

lemma skip_ws_json_str: "plain v \<Longrightarrow> skip_ws (json_str v @ r) = json_str v @ r"
  using json_str_start [of v] by (auto simp: skip_ws_def)

lemma skip_ws_Cons [simp]: "\<not> json_ws c \<Longrightarrow> skip_ws (c # s) = c # s"
  by (simp add: skip_ws_def)

lemma json_ws_simps [simp]:
  "\<not> json_ws (CHR ''['')" "\<not> json_ws (CHR '']'')" "\<not> json_ws (CHR ''{'')"
  "\<not> json_ws (CHR ''}'')" "\<not> json_ws (CHR '','')" "\<not> json_ws (CHR '':'')" "\<not> json_ws quote"
  by (simp_all add: json_ws_def)

lemma obj_of_distinct: "distinct (map fst ps) \<Longrightarrow> obj_of ps = JObj ps"
proof -
  have set_new: "k \<notin> set (map fst acc) \<Longrightarrow> set_prop k x acc = acc @ [(k, x)]" for k x acc
    by (induction k x acc rule: set_prop.induct) auto
  have "distinct (map fst (acc @ ps)) \<Longrightarrow>
      foldl (\<lambda>acc p. set_prop (fst p) (snd p) acc) acc ps = acc @ ps" for acc
    by (induction ps arbitrary: acc) (auto simp: set_new)
  from this [of "[]"] show "distinct (map fst ps) \<Longrightarrow> ?thesis" by (simp add: obj_of_def)
qed

text \<open>\<open>reads v\<close>: with enough fuel the reader recovers \<open>v\<close> from its text, whatever follows.\<close>

definition reads :: "jval \<Rightarrow> bool" where
  "reads v \<longleftrightarrow> (\<forall>k r. 2 * length (json_str v) \<le> k \<longrightarrow> delim r \<longrightarrow>
     jp_value k (json_str v @ r) = Some (v, r))"

lemma readsD:
  "reads v \<Longrightarrow> 2 * length (json_str v) \<le> k \<Longrightarrow> delim r \<Longrightarrow>
   jp_value k (json_str v @ r) = Some (v, r)"
  by (simp add: reads_def)

lemma delim_simps [simp]:
  "delim []" "delim (CHR '','' # r)" "delim (CHR '']'' # r)" "delim (CHR ''}'' # r)"
  by (simp_all add: delim_def)

lemma jp_elems_join:
  assumes "vs \<noteq> []" "\<forall>v \<in> set vs. reads v"
    "2 * length (join_with '','' (map json_str vs)) + 1 \<le> k"
  shows "jp_elems k (join_with '','' (map json_str vs) @ CHR '']'' # r) = Some (vs, r)"
  using assms
proof (induction vs arbitrary: k rule: induct_list012)
  case (2 v)
  then obtain j where j: "k = Suc j" by (cases k) auto
  with 2 readsD [of v j "CHR '']'' # r"] show ?case by simp
next
  case (3 v w vs)
  then obtain j where j: "k = Suc j" by (cases k) auto
  let ?rest = "join_with '','' (map json_str (w # vs))"
  have "jp_value j (json_str v @ CHR '','' # ?rest @ CHR '']'' # r)
      = Some (v, CHR '','' # ?rest @ CHR '']'' # r)"
    using 3 j by (intro readsD) auto
  moreover have "jp_elems j (?rest @ CHR '']'' # r) = Some (w # vs, r)"
    using 3(4,5) j by (intro 3(2)) auto
  ultimately show ?case using j by simp
qed simp

abbreviation member_str :: "string \<times> jval \<Rightarrow> string" where
  "member_str p \<equiv> json_quote (fst p) @ '':'' @ json_str (snd p)"

lemma jp_members_one:
  assumes "reads v" "2 * length (json_str v) \<le> j" "delim (d # w)" "\<not> json_ws d"
  shows "jp_members (Suc j) (member_str (key, v) @ d # w) =
     (if d = CHR ''}'' then Some ([(key, v)], w)
      else if d = CHR '','' then
        (case jp_members j w of None \<Rightarrow> None | Some (ps, r3) \<Rightarrow> Some ((key, v) # ps, r3))
      else None)"
  using readsD [OF assms(1-3)] assms(4)
  by (cases "d = CHR '',''"; cases "d = CHR ''}''") (simp_all add: json_quote_def jp_str_quote)

lemma jp_members_join:
  assumes "ps \<noteq> []" "\<forall>p \<in> set ps. reads (snd p)"
    "2 * length (join_with '','' (map member_str ps)) + 1 \<le> k"
  shows "jp_members k (join_with '','' (map member_str ps) @ CHR ''}'' # r) = Some (ps, r)"
  using assms
proof (induction ps arbitrary: k rule: induct_list012)
  case (2 p)
  then obtain j where "k = Suc j" by (cases k) auto
  with 2 jp_members_one [of "snd p" j "CHR ''}''" r "fst p"] show ?case by simp
next
  case (3 p q ps)
  then obtain j where j: "k = Suc j" by (cases k) auto
  let ?rest = "join_with '','' (map member_str (q # ps))"
  have "jp_members (Suc j) (member_str p @ CHR '','' # ?rest @ CHR ''}'' # r) =
      (case jp_members j (?rest @ CHR ''}'' # r) of None \<Rightarrow> None
       | Some (ps, r3) \<Rightarrow> Some (p # ps, r3))"
    using 3 j jp_members_one [of "snd p" j "CHR '',''" "?rest @ CHR ''}'' # r" "fst p"] by simp
  moreover have "jp_members j (?rest @ CHR ''}'' # r) = Some (q # ps, r)"
    using 3(4,5) j by (intro 3(2)) auto
  ultimately show ?case using j by simp
qed simp

lemma join_start:
  assumes "xs \<noteq> []" "hd xs = c # t"
  shows "\<exists>u. join_with sep xs = c # u"
  using assms by (cases "(sep, xs)" rule: join_with.cases) auto

lemma reads_atom:
  assumes "\<And>j r. delim r \<Longrightarrow> jp_value (Suc j) (json_str v @ r) = Some (v, r)" "json_str v \<noteq> []"
  shows "reads v"
proof -
  have "jp_value k (json_str v @ r) = Some (v, r)"
    if "2 * length (json_str v) \<le> k" "delim r" for k r
    using that assms by (cases k) auto
  then show ?thesis by (simp add: reads_def)
qed

lemma reads_JArr:
  assumes p: "plain (JArr vs)" and r: "\<forall>v \<in> set vs. reads v"
  shows "reads (JArr vs)"
proof (cases "vs = []")
  case True
  then show ?thesis
    by (intro reads_atom) simp_all
next
  case False
  let ?s = "join_with '','' (map json_str vs)"
  obtain c t where c: "json_str (hd vs) = c # t" "\<not> json_ws c" "c \<noteq> CHR '']''"
    using p False json_str_start [of "hd vs"] by (auto simp: list_all_iff)
  obtain u where u: "?s = c # u"
    using join_start [of "map json_str vs" c t "'',''"] False c by (auto simp: hd_map)
  have "jp_value k (json_str (JArr vs) @ rest) = Some (JArr vs, rest)"
    if k: "2 * length (json_str (JArr vs)) \<le> k" for k rest
  proof -
    obtain j where j: "k = Suc j" using k by (cases k) auto
    have "jp_elems j (?s @ CHR '']'' # rest) = Some (vs, rest)"
      using k j by (intro jp_elems_join [OF False r]) simp
    then show ?thesis using c u j by simp
  qed
  then show ?thesis by (simp add: reads_def)
qed

lemma reads_JObj:
  assumes p: "plain (JObj ps)" and r: "\<forall>p \<in> set ps. reads (snd p)"
  shows "reads (JObj ps)"
proof -
  have f: "filter (\<lambda>p. snd p \<noteq> JUndef) ps = ps"
    using p by (auto simp: list_all_iff filter_id_conv)
  show ?thesis
  proof (cases "ps = []")
    case True
    then show ?thesis
      by (intro reads_atom) simp_all
  next
    case False
    let ?s = "join_with '','' (map member_str ps)"
    obtain u where u: "?s = quote # u"
      using join_start [of "map member_str ps" quote _ "'',''"] False
      by (fastforce simp: hd_map json_quote_def)
    have "jp_value k (json_str (JObj ps) @ rest) = Some (JObj ps, rest)"
      if k: "2 * length (json_str (JObj ps)) \<le> k" for k rest
    proof -
      obtain j where j: "k = Suc j" using k by (cases k) auto
      have "jp_members j (?s @ CHR ''}'' # rest) = Some (ps, rest)"
        using k j f by (intro jp_members_join [OF False r]) simp
      then show ?thesis using u j f p obj_of_distinct by simp
    qed
    then show ?thesis by (simp add: reads_def)
  qed
qed

lemma reads_JNum:
  assumes "plain (JNum n)" shows "reads (JNum n)"
proof -
  obtain k where k: "n = jsint k" "\<bar>k\<bar> \<le> 2 ^ 53" using assms plain_numE by metis
  have s: "json_str (JNum n) = int_str k" using k num_str_jsint [OF k(2)] by simp
  obtain c t where c: "int_str k = c # t" "is_digit c \<or> c = CHR ''-''"
    using int_str_start by blast
  then have "\<not> json_ws c" "c \<notin> set ''{[tfn''" "c \<noteq> quote"
    by (auto simp: json_ws_def is_digit_def)
  then show ?thesis
    using jp_num_int_str [OF k(2)] s k c
    by (intro reads_atom) (auto simp: starts_with_def simp del: json_str.simps)
qed

lemma plain_reads: "plain v \<Longrightarrow> reads v"
proof (induction v)
  case (JObj ps)
  have "reads (snd p)" if "p \<in> set ps" for p
    using JObj that by (cases p) (auto simp: list_all_iff)
  with JObj show ?case by (intro reads_JObj) auto
next
  case (JArr vs)
  then show ?case by (intro reads_JArr) (auto simp: list_all_iff)
next
  case (JStr s)
  show ?case by (rule reads_atom) (simp_all add: json_quote_def jp_str_quote)
next
  case (JBool b)
  show ?case by (rule reads_atom) (auto simp: json_ws_def starts_with_def)
next
  case JNull
  show ?case by (rule reads_atom) (auto simp: json_ws_def starts_with_def)
qed (simp_all add: reads_JNum del: plain.simps(4))

lemma json_parse_json_str: "plain v \<Longrightarrow> json_parse (json_str v) = Some v"
  using readsD [OF plain_reads, of v "2 * length (json_str v) + 2" "[]"]
  by (simp add: json_parse_def skip_ws_def)

end
