(* ===== verification/Transport.thy ===== *)
theory Transport
  imports Json
begin

text \<open>
  The transport of the REST client (\<open>web/src/api.ts\<close>, transport): URL building with
  \<open>encodeURIComponent\<close> and \<open>URLSearchParams\<close>, the error type and its wording, and \<open>request\<close>.
  The browser's \<open>fetch\<close> (the network and the server behind it) is a parameter: a function from
  the request to a response or to the rejection of the promise.
\<close>

subsection \<open>Percent encoding\<close>

definition hex_upper :: "nat \<Rightarrow> char" where
  "hex_upper d = (if d < 10 then char_of (48 + d) else char_of (55 + d))"

definition pct :: "char \<Rightarrow> string" where
  "pct c = [CHR ''%'', hex_upper (of_char c div 16), hex_upper (of_char c mod 16)]"

definition is_alnum :: "char \<Rightarrow> bool" where
  "is_alnum c \<longleftrightarrow>
     (let n = (of_char c :: nat) in 48 \<le> n \<and> n \<le> 57 \<or> 65 \<le> n \<and> n \<le> 90 \<or> 97 \<le> n \<and> n \<le> 122)"

definition uri_keep :: "char \<Rightarrow> bool" where
  "uri_keep c \<longleftrightarrow> is_alnum c \<or> c \<in> set (''-_.!~*()'' @ [CHR 0x27])"

definition form_keep :: "char \<Rightarrow> bool" where
  "form_keep c \<longleftrightarrow> is_alnum c \<or> c \<in> set ''*-._''"

definition uri_enc :: "char \<Rightarrow> string" where
  "uri_enc c = (if uri_keep c then [c] else pct c)"

definition form_enc :: "char \<Rightarrow> string" where
  "form_enc c = (if form_keep c then [c] else if c = CHR '' '' then ''+'' else pct c)"

definition encodeURIComponent :: "string \<Rightarrow> string" where
  "encodeURIComponent s = concat (map uri_enc s)"

definition form_encode :: "string \<Rightarrow> string" where
  "form_encode s = concat (map form_enc s)"

text \<open>The decoder of either form, what a server does with a segment or a parameter.\<close>

fun pct_decode :: "bool \<Rightarrow> string \<Rightarrow> string" where
  "pct_decode ps [] = []"
| "pct_decode ps (c # s) =
     (if c = CHR ''%'' then
        (case s of
           a # b # t \<Rightarrow>
             (case (radix_val 16 a, radix_val 16 b) of
                (Some x, Some y) \<Rightarrow> char_of (16 * x + y) # pct_decode ps t
              | _ \<Rightarrow> c # pct_decode ps s)
         | _ \<Rightarrow> c # pct_decode ps s)
      else if ps \<and> c = CHR ''+'' then CHR '' '' # pct_decode ps s
      else c # pct_decode ps s)"

locale byte_codec =
  fixes enc :: "char \<Rightarrow> string"
    and dec :: "string \<Rightarrow> string"
    and safe :: "char \<Rightarrow> bool"
  assumes dec_Nil: "dec [] = []"
    and dec_enc: "dec (enc c @ s) = c # dec s"
    and enc_safe: "list_all safe (enc c)"
begin

lemma dec_concat: "dec (concat (map enc s)) = s"
  by (induction s) (simp_all add: dec_Nil dec_enc)

lemma enc_inj: "concat (map enc s) = concat (map enc t) \<longleftrightarrow> s = t"
  by (metis dec_concat)

lemma enc_list_safe: "c \<in> set (concat (map enc s)) \<Longrightarrow> safe c"
  using enc_safe by (auto simp: list_all_iff)

lemma enc_eq_Nil: "concat (map enc s) = [] \<longleftrightarrow> s = []"
  using enc_inj [of s "[]"] by simp

end

lemma radix_val_hex_upper: "d < 16 \<Longrightarrow> radix_val 16 (hex_upper d) = Some d"
  by (auto simp: radix_val_def hex_upper_def)

lemma pct_decode_pct: "pct_decode ps (pct c @ s) = c # pct_decode ps s"
proof -
  have n: "(of_char c :: nat) div 16 < 16" "(of_char c :: nat) mod 16 < 16"
    using nat_of_char_less_256 [of c] by (simp_all add: less_mult_imp_div_less)
  then show ?thesis by (simp add: pct_def radix_val_hex_upper mult.commute)
qed

lemma is_alnum_hex_upper: "d < 16 \<Longrightarrow> is_alnum (hex_upper d)"
  by (auto simp: is_alnum_def hex_upper_def)

definition url_safe :: "char \<Rightarrow> bool" where
  "url_safe c \<longleftrightarrow> is_alnum c \<or> c \<in> set (''-_.!~*()%+'' @ [CHR 0x27])"

lemma pct_safe: "list_all url_safe (pct c)"
proof -
  have n: "(of_char c :: nat) div 16 < 16" "(of_char c :: nat) mod 16 < 16"
    using nat_of_char_less_256 [of c] by (simp_all add: less_mult_imp_div_less)
  then show ?thesis by (simp add: pct_def url_safe_def is_alnum_hex_upper)
qed

interpretation uri: byte_codec uri_enc "pct_decode False" url_safe
proof unfold_locales
  show "pct_decode False (uri_enc c @ s) = c # pct_decode False s" for c s
    using pct_decode_pct [of False c s]
    by (auto simp: uri_enc_def uri_keep_def is_alnum_def)
  show "list_all url_safe (uri_enc c)" for c
    using pct_safe [of c] by (auto simp: uri_enc_def uri_keep_def url_safe_def)
qed simp

interpretation form: byte_codec form_enc "pct_decode True" url_safe
proof unfold_locales
  show "pct_decode True (form_enc c @ s) = c # pct_decode True s" for c s
    using pct_decode_pct [of True c s]
    by (auto simp: form_enc_def form_keep_def is_alnum_def)
  show "list_all url_safe (form_enc c)" for c
    using pct_safe [of c] by (auto simp: form_enc_def form_keep_def url_safe_def)
qed simp

subsection \<open>URLs\<close>

type_synonym query = "(string \<times> jval) list"

definition skipped :: "jval \<Rightarrow> bool" where
  "skipped v \<longleftrightarrow> nullish v \<or> v = JStr []"

text \<open>The parameters \<open>URLSearchParams\<close> holds: those with a value, each as its text.\<close>

definition params_of :: "query \<Rightarrow> (string \<times> string) list" where
  "params_of q = map (\<lambda>p. (fst p, val_str (snd p))) (filter (\<lambda>p. \<not> skipped (snd p)) q)"

definition param_str :: "string \<times> string \<Rightarrow> string" where
  "param_str p = form_encode (fst p) @ ''='' @ form_encode (snd p)"

definition params_str :: "(string \<times> string) list \<Rightarrow> string" where
  "params_str ps = join_with ''&'' (map param_str ps)"

definition buildUrl :: "string \<Rightarrow> query option \<Rightarrow> string" where
  "buildUrl path query =
     (case query of
        None \<Rightarrow> path
      | Some q \<Rightarrow> (let qs = params_str (params_of q)
                  in if qs \<noteq> [] then path @ ''?'' @ qs else path))"

subsection \<open>Errors\<close>

fun isApiError :: "js_error \<Rightarrow> bool" where
  "isApiError (ApiError _ _ _ _) = True"
| "isApiError _ = False"

fun err_status :: "js_error \<Rightarrow> jsnum option" where
  "err_status (ApiError st _ _ _) = Some st"
| "err_status _ = None"

definition isUnauthorized :: "js_error \<Rightarrow> bool" where
  "isUnauthorized e \<longleftrightarrow> err_status e = Some (Fin 401)"

definition isForbidden :: "js_error \<Rightarrow> bool" where
  "isForbidden e \<longleftrightarrow> err_status e = Some (Fin 403)"

definition isConflict :: "js_error \<Rightarrow> bool" where
  "isConflict e \<longleftrightarrow> err_status e = Some (Fin 409)"

fun err_message :: "js_error \<Rightarrow> string" where
  "err_message (ApiError _ m _ _) = m"
| "err_message (TypeError m) = m"
| "err_message (SyntaxError m) = m"
| "err_message (AbortError m) = m"
| "err_message (OtherError m) = m"

definition FORBIDDEN_MESSAGE :: string where
  "FORBIDDEN_MESSAGE = ''Your role does not allow this.''"

definition ascii_lower :: "char \<Rightarrow> char" where
  "ascii_lower c =
     (let n = (of_char c :: nat) in if 65 \<le> n \<and> n \<le> 90 then char_of (n + 32) else c)"

definition forbidden_words :: "string list" where
  "forbidden_words =
     [''forbidden'', ''unauthorized'', ''unauthorised'', ''access denied'', ''permission denied'',
      ''not allowed'', ''insufficient permission'', ''insufficient permissions'']"

text \<open>The pattern \<open>BARE_FORBIDDEN\<close>: an optional 403, one of the phrases, an optional full stop,
  in any case.\<close>

definition BARE_FORBIDDEN :: "string \<Rightarrow> bool" where
  "BARE_FORBIDDEN s =
     (let t = map ascii_lower s;
          core = (if starts_with ''403'' t then trim_start (drop 3 t) else t)
      in list_ex (\<lambda>w. core = w \<or> core = w @ ''.'') forbidden_words)"

definition errorMessage :: "js_error \<Rightarrow> string" where
  "errorMessage err =
     (if isApiError err then
        (if isForbidden err then
           (let detail = trim (err_message err)
            in if detail = [] \<or> BARE_FORBIDDEN detail then FORBIDDEN_MESSAGE
               else FORBIDDEN_MESSAGE @ '' '' @ detail)
         else err_message err)
      else err_message err)"

subsection \<open>Requests and responses\<close>

datatype http_method = GET | POST | PATCH | PUT | DELETE

record http_request =
  rq_method :: http_method
  rq_url :: string
  rq_credentials :: string
  rq_signal :: "nat option"
  rq_headers :: "(string \<times> string) list"
  rq_body :: "string option"

text \<open>A response: its status, and what reading its body gives (a text, or the rejection of
  \<open>res.text()\<close>).\<close>

record response =
  rs_status :: int
  rs_text :: "string exn"

definition res_ok :: "response \<Rightarrow> bool" where
  "res_ok res \<longleftrightarrow> 200 \<le> rs_status res \<and> rs_status res \<le> 299"

type_synonym fetch = "http_request \<Rightarrow> response exn"

record requestOptions =
  op_method :: http_method
  op_body :: "jval option"
  op_query :: "query option"
  op_signal :: "nat option"

definition default_opts :: requestOptions where
  "default_opts = \<lparr>op_method = GET, op_body = None, op_query = None, op_signal = None\<rparr>"

definition error_text :: "jval \<Rightarrow> string \<Rightarrow> string" where
  "error_text parsed text =
     (case jprop parsed ''error'' of JStr m \<Rightarrow> if m \<noteq> [] then m else text | _ \<Rightarrow> text)"

text \<open>The message and body read from a failed response; an unreadable or empty body gives
  neither.\<close>

definition error_parts :: "response \<Rightarrow> string \<times> jval" where
  "error_parts res =
     (case rs_text res of
        Inl _ \<Rightarrow> ([], JUndef)
      | Inr text \<Rightarrow>
        if text = [] then ([], JUndef)
        else (case json_parse text of
                None \<Rightarrow> (text, JUndef)
              | Some parsed \<Rightarrow>
                (if nullish parsed then text else error_text parsed text, parsed)))"

definition default_message :: "int \<Rightarrow> string" where
  "default_message st =
     (if st = 401 then ''Not signed in.''
      else if st = 403 then FORBIDDEN_MESSAGE
      else ''Request failed with status '' @ int_str st @ ''.'')"

definition parseError :: "response \<Rightarrow> string \<Rightarrow> js_error" where
  "parseError res url =
     (let (m, body) = error_parts res;
          message = (if m = [] then default_message (rs_status res) else m)
      in ApiError (jsint (rs_status res)) message url body)"

definition http_of :: "string \<Rightarrow> requestOptions \<Rightarrow> http_request" where
  "http_of url opts =
     \<lparr>rq_method = op_method opts, rq_url = url, rq_credentials = ''include'',
      rq_signal = op_signal opts,
      rq_headers = (''Accept'', ''application/json'') #
        (case op_body opts of None \<Rightarrow> []
         | Some _ \<Rightarrow> [(''Content-Type'', ''application/json'')]),
      rq_body = map_option json_str (op_body opts)\<rparr>"

fun is_abort :: "js_error \<Rightarrow> bool" where
  "is_abort (AbortError _) = True"
| "is_abort _ = False"

definition unreachable :: string where
  "unreachable = ''Cannot reach the ProxBack server.''"

text \<open>The body of a successful response: nothing for a 204 or an empty text.\<close>

definition read_body :: "response \<Rightarrow> jval exn" where
  "read_body res =
     (if rs_status res = 204 then Inr JUndef
      else bind_exn (rs_text res) (\<lambda>text.
        if text = [] then Inr JUndef
        else case json_parse text of
               None \<Rightarrow> Inl (SyntaxError text)
             | Some v \<Rightarrow> Inr v))"

definition request :: "fetch \<Rightarrow> string \<Rightarrow> requestOptions \<Rightarrow> jval exn" where
  "request fetch path opts =
     (let url = buildUrl path (op_query opts)
      in case fetch (http_of url opts) of
           Inl err \<Rightarrow> if is_abort err then Inl err else Inl (ApiError (Fin 0) unreachable url JUndef)
         | Inr res \<Rightarrow> if \<not> res_ok res then Inl (parseError res url) else read_body res)"

subsection \<open>Lemmas: URLs\<close>

lemma url_safe_simps:
  "\<not> url_safe (CHR ''/'')" "\<not> url_safe (CHR ''?'')" "\<not> url_safe (CHR ''#'')"
  "\<not> url_safe (CHR ''&'')" "\<not> url_safe (CHR ''='')" "\<not> url_safe (CHR '' '')"
  by (simp_all add: url_safe_def is_alnum_def)

lemma encodeURIComponent_safe: "c \<in> set (encodeURIComponent s) \<Longrightarrow> url_safe c"
  unfolding encodeURIComponent_def by (rule uri.enc_list_safe)

lemma decode_encodeURIComponent [simp]: "pct_decode False (encodeURIComponent s) = s"
  unfolding encodeURIComponent_def by (rule uri.dec_concat)

lemma encodeURIComponent_inject [simp]: "encodeURIComponent s = encodeURIComponent t \<longleftrightarrow> s = t"
  unfolding encodeURIComponent_def by (rule uri.enc_inj)

lemma form_encode_safe: "c \<in> set (form_encode s) \<Longrightarrow> url_safe c"
  unfolding form_encode_def by (rule form.enc_list_safe)

lemma decode_form_encode [simp]: "pct_decode True (form_encode s) = s"
  unfolding form_encode_def by (rule form.dec_concat)

text \<open>How a server reads a query: split at \<open>&\<close>, each part at its first \<open>=\<close>, both sides decoded.\<close>

definition read_param :: "string \<Rightarrow> string \<times> string" where
  "read_param s =
     (pct_decode True (takeWhile (\<lambda>c. c \<noteq> CHR ''='') s),
      pct_decode True (tl (dropWhile (\<lambda>c. c \<noteq> CHR ''='') s)))"

definition read_query :: "string \<Rightarrow> (string \<times> string) list" where
  "read_query qs = (if qs = [] then [] else map read_param (split_on (CHR ''&'') qs))"

lemma read_param_str: "read_param (param_str p) = p"
proof -
  have k: "\<forall>c \<in> set (form_encode (fst p)). c \<noteq> CHR ''=''"
    using form_encode_safe url_safe_simps(5) by blast
  then have "takeWhile (\<lambda>c. c \<noteq> CHR ''='') (param_str p) = form_encode (fst p)"
    "dropWhile (\<lambda>c. c \<noteq> CHR ''='') (param_str p) = CHR ''='' # form_encode (snd p)"
    by (simp_all add: param_str_def takeWhile_append dropWhile_append)
  then show ?thesis by (simp add: read_param_def)
qed

lemma param_str_no_amp: "CHR ''&'' \<notin> set (param_str p)"
  using form_encode_safe url_safe_simps(4) by (auto simp: param_str_def)

lemma split_params_str:
  "ps \<noteq> [] \<Longrightarrow> split_on (CHR ''&'') (params_str ps) = map param_str ps"
  unfolding params_str_def
proof (induction ps rule: induct_list012)
  case (3 p q ps)
  then show ?case using split_on_append [OF param_str_no_amp [of p]] by simp
qed (simp_all add: split_on_single param_str_no_amp)

lemma params_str_Nil: "params_str ps = [] \<longleftrightarrow> ps = []"
  unfolding params_str_def by (subst join_with.simps | cases ps; cases "tl ps"; simp add: param_str_def)+

lemma read_params_str: "read_query (params_str ps) = ps"
proof (cases "ps = []")
  case True
  then show ?thesis by (simp add: read_query_def params_str_def)
next
  case False
  then show ?thesis
    by (simp add: read_query_def params_str_Nil split_params_str read_param_str comp_def)
qed

lemma read_buildUrl:
  assumes "CHR ''?'' \<notin> set path"
  shows "buildUrl path (Some q) =
     path @ (if params_of q = [] then [] else ''?'' @ params_str (params_of q))"
  by (simp add: buildUrl_def params_str_Nil)

subsection \<open>Lemmas: errors and requests\<close>

lemma error_parts_nonempty:
  "rs_text res = Inr text \<Longrightarrow> text \<noteq> [] \<Longrightarrow> fst (error_parts res) \<noteq> []"
  by (auto simp: error_parts_def error_text_def split: option.splits jval.splits)

lemma default_message_nonempty: "default_message st \<noteq> []"
  by (simp add: default_message_def FORBIDDEN_MESSAGE_def)

lemma parseError_eq:
  "parseError res url =
     ApiError (jsint (rs_status res))
       (if fst (error_parts res) = [] then default_message (rs_status res) else fst (error_parts res))
       url (snd (error_parts res))"
  by (simp add: parseError_def split_def Let_def)

lemma request_Inr:
  "request fetch path opts = Inr v \<longleftrightarrow>
   (\<exists>res. fetch (http_of (buildUrl path (op_query opts)) opts) = Inr res \<and> res_ok res \<and>
      read_body res = Inr v)"
  by (cases "fetch (http_of (buildUrl path (op_query opts)) opts)") (simp_all add: request_def)

subsection \<open>Properties\<close>

text \<open>
  Query strings are faithful: the query part of a built URL, read the way a server reads it,
  is exactly the list of parameters with a value, in order, whatever characters they hold; without
  any, the URL is the bare path.
\<close>

theorem buildUrl_query:
  "buildUrl path (Some q) =
     path @ (if params_of q = [] then [] else ''?'' @ params_str (params_of q)) \<and>
   read_query (params_str (params_of q)) = params_of q \<and>
   (\<forall>p. p \<in> set (params_of q) \<longleftrightarrow>
      (\<exists>v. (fst p, v) \<in> set q \<and> \<not> nullish v \<and> v \<noteq> JStr [] \<and> snd p = val_str v))"
proof (intro conjI allI)
  show "buildUrl path (Some q) =
     path @ (if params_of q = [] then [] else ''?'' @ params_str (params_of q))"
    by (simp add: buildUrl_def params_str_Nil)
  show "read_query (params_str (params_of q)) = params_of q" by (rule read_params_str)
  show "p \<in> set (params_of q) \<longleftrightarrow>
      (\<exists>v. (fst p, v) \<in> set q \<and> \<not> nullish v \<and> v \<noteq> JStr [] \<and> snd p = val_str v)" for p
    by (cases p) (force simp: params_of_def skipped_def)
qed

text \<open>
  What is sent is what was meant: the body of a request, parsed as JSON, is the value given to
  \<open>request\<close>, for every value without \<open>undefined\<close>, inexact numbers or repeated members; and the
  content type is declared exactly when there is a body.
\<close>

theorem request_body_roundtrip:
  assumes "plain b"
  shows "(\<exists>text. rq_body (http_of url (op\<lparr>op_body := Some b\<rparr>)) = Some text \<and>
            json_parse text = Some b) \<and>
         (''Content-Type'', ''application/json'') \<in> set (rq_headers (http_of url (op\<lparr>op_body := Some b\<rparr>))) \<and>
         rq_headers (http_of url (op\<lparr>op_body := None\<rparr>)) = [(''Accept'', ''application/json'')]"
  using json_parse_json_str [OF assms] by (simp add: http_of_def)

theorem request_body_roundtrip_witness:
  "plain (JObj [(''hostId'', JStr ''a/b''), (''ids'', JArr [JNum (jsint 7), JNull])]) \<and>
   (\<exists>text. rq_body (http_of ''/api/x'' (default_opts\<lparr>op_body :=
        Some (JObj [(''hostId'', JStr ''a/b''), (''ids'', JArr [JNum (jsint 7), JNull])])\<rparr>)) = Some text \<and>
      json_parse text = Some (JObj [(''hostId'', JStr ''a/b''), (''ids'', JArr [JNum (jsint 7), JNull])]))"
proof -
  have p: "plain (JObj [(''hostId'', JStr ''a/b''), (''ids'', JArr [JNum (jsint 7), JNull])])"
    by simp
  show ?thesis using p request_body_roundtrip [OF p, of "''/api/x''" default_opts] by blast
qed


text \<open>
  A 403 is never shown raw: the message of a role refusal always starts with the console's own
  sentence, followed by the server's detail only when that adds something; every other error of the
  client is shown with its own message.
\<close>

theorem errorMessage_forbidden:
  "(isForbidden e \<longrightarrow>
      errorMessage e = FORBIDDEN_MESSAGE \<or>
      errorMessage e = FORBIDDEN_MESSAGE @ '' '' @ trim (err_message e) \<and>
        trim (err_message e) \<noteq> [] \<and> \<not> BARE_FORBIDDEN (trim (err_message e))) \<and>
   (\<not> isForbidden e \<longrightarrow> errorMessage e = err_message e)"
  by (cases e) (auto simp: errorMessage_def isForbidden_def Let_def)

theorem errorMessage_forbidden_witness:
  "errorMessage (ApiError (Fin 403) ''403 Forbidden.'' [] JUndef) = FORBIDDEN_MESSAGE"
proof -
  have "ws_edge (CHR ''4'') = False" "ws_edge (CHR ''.'') = False"
    by (simp_all add: ws_edge_def ws_seqs_def)
  then have t: "trim ''403 Forbidden.'' = ''403 Forbidden.''" by (intro trim_id) simp_all
  have w: "trim_start '' forbidden.'' = ''forbidden.''"
    by (simp add: trim_start_def ws_seqs_def strip_with.simps starts_with_def)
  have "BARE_FORBIDDEN ''403 Forbidden.''"
    by (simp add: BARE_FORBIDDEN_def ascii_lower_def starts_with_def w forbidden_words_def char_of_def
        bit_Suc_0_iff Let_def)
  then show ?thesis
    using errorMessage_forbidden [of "ApiError (Fin 403) ''403 Forbidden.'' [] JUndef"] t
    by (simp add: isForbidden_def)
qed

end
