(* ===== verification/Api_Roles.thy ===== *)
theory Api_Roles
  imports Js_Value
begin

text \<open>
  Users and roles of the console (\<open>web/src/api.ts\<close>, users and roles; \<open>web/src/session.tsx\<close>):
  the three roles, the normaliser of a \<open>role\<close> field, the capabilities a role gives, the role of
  a \<open>GET /api/me\<close> answer and the sentence attached to a control a role may not use.
\<close>

datatype role = Admin | Operator | Viewer

definition ROLES :: "role list" where
  "ROLES = [Admin, Operator, Viewer]"

fun ROLE_LABEL :: "role \<Rightarrow> string" where
  "ROLE_LABEL Admin = ''Administrator''"
| "ROLE_LABEL Operator = ''Operator''"
| "ROLE_LABEL Viewer = ''Viewer''"

fun ROLE_SUMMARY :: "role \<Rightarrow> string" where
  "ROLE_SUMMARY Admin =
     ''Everything: users, storage targets, Proxmox hosts, credentials, settings and updates.''"
| "ROLE_SUMMARY Operator =
     ''Run, cancel and edit backup jobs, restore and verify. Cannot touch users, hosts, targets, credentials or settings.''"
| "ROLE_SUMMARY Viewer =
     ''Read-only. Sees every page and no secrets, and cannot change anything.''"

text \<open>The wire spelling of a role.\<close>

fun role_str :: "role \<Rightarrow> string" where
  "role_str Admin = ''admin''"
| "role_str Operator = ''operator''"
| "role_str Viewer = ''viewer''"

definition parseRole :: "jval \<Rightarrow> role" where
  "parseRole value =
     (if value = JStr ''operator'' then Operator
      else if value = JStr ''viewer'' then Viewer
      else Admin)"

record capabilities =
  manageUsers :: bool
  manageInfrastructure :: bool
  operateJobs :: bool
  viewAudit :: bool

definition capabilitiesFor :: "role \<Rightarrow> capabilities" where
  "capabilitiesFor role =
     (let admin = (role = Admin)
      in \<lparr>manageUsers = admin, manageInfrastructure = admin,
          operateJobs = (admin \<or> role = Operator), viewAudit = admin\<rparr>)"

text \<open>\<open>parseRole(me.user?.role ?? me.role)\<close>; reading \<open>me.user\<close> throws on a missing answer.\<close>

definition roleOf :: "jval \<Rightarrow> role exn" where
  "roleOf me =
     bind_exn (get_prop me ''user'') (\<lambda>user.
       let inner = (if nullish user then JUndef else jprop user ''role'')
       in Inr (parseRole (nullish_or inner (jprop me ''role''))))"

text \<open>\<open>useSession\<close> outside the authenticated shell throws; inside it is the session.\<close>

record session =
  s_user :: jval
  s_role :: role
  s_can :: capabilities
  s_serverName :: string
  s_mustChangePassword :: bool
  s_serverVersion :: string

definition useSession :: "session option \<Rightarrow> session exn" where
  "useSession ctx =
     (case ctx of
        None \<Rightarrow> Inl (OtherError ''useSession must be used inside the authenticated app shell.'')
      | Some s \<Rightarrow> Inr s)"

definition useCan :: "session option \<Rightarrow> capabilities exn" where
  "useCan ctx = bind_exn (useSession ctx) (\<lambda>s. Inr (s_can s))"

definition roleDeniedReason :: "role \<Rightarrow> string \<Rightarrow> string" where
  "roleDeniedReason role what =
     (if role = Viewer then
        ''Viewers can read everything but cannot '' @ what @ ''. Ask an administrator.''
      else if role = Operator then
        ''Operators cannot '' @ what @ ''. Ask an administrator.''
      else ''Your role does not allow you to '' @ what @ ''.'')"

subsection \<open>The normaliser contract\<close>

interpretation role_norm: normaliser parseRole "\<lambda>r. JStr (role_str r)" "\<lambda>_. True"
proof unfold_locales
  show "parseRole (JStr (role_str x)) = x" for x
    by (cases x) (simp_all add: parseRole_def)
qed simp

subsection \<open>Capabilities\<close>

text \<open>The privilege order of the roles: an administrator may do whatever an operator may, an
  operator whatever a viewer may.\<close>

fun rank :: "role \<Rightarrow> nat" where
  "rank Viewer = 0"
| "rank Operator = 1"
| "rank Admin = 2"

lemma rank_inject: "rank a = rank b \<longleftrightarrow> a = b"
  by (cases a; cases b) simp_all

instantiation role :: linorder
begin

definition less_eq_role :: "role \<Rightarrow> role \<Rightarrow> bool" where
  "a \<le> b \<longleftrightarrow> rank a \<le> rank b"

definition less_role :: "role \<Rightarrow> role \<Rightarrow> bool" where
  "a < b \<longleftrightarrow> rank a < rank b"

instance
  by standard (auto simp: less_eq_role_def less_role_def rank_inject)

end

definition cap_le :: "capabilities \<Rightarrow> capabilities \<Rightarrow> bool" where
  "cap_le a b \<longleftrightarrow>
     (manageUsers a \<longrightarrow> manageUsers b) \<and> (manageInfrastructure a \<longrightarrow> manageInfrastructure b) \<and>
     (operateJobs a \<longrightarrow> operateJobs b) \<and> (viewAudit a \<longrightarrow> viewAudit b)"

lemma capabilitiesFor_simps [simp]:
  "capabilitiesFor Admin =
     \<lparr>manageUsers = True, manageInfrastructure = True, operateJobs = True, viewAudit = True\<rparr>"
  "capabilitiesFor Operator =
     \<lparr>manageUsers = False, manageInfrastructure = False, operateJobs = True, viewAudit = False\<rparr>"
  "capabilitiesFor Viewer =
     \<lparr>manageUsers = False, manageInfrastructure = False, operateJobs = False, viewAudit = False\<rparr>"
  by (simp_all add: capabilitiesFor_def)

lemma cap_le_role: "cap_le (capabilitiesFor a) (capabilitiesFor b) \<longleftrightarrow> a \<le> b"
  by (cases a; cases b) (simp_all add: cap_le_def less_eq_role_def)

lemma parseRole_Viewer: "parseRole v = Viewer \<longleftrightarrow> v = JStr ''viewer''"
  by (auto simp: parseRole_def)

lemma parseRole_Operator: "parseRole v = Operator \<longleftrightarrow> v = JStr ''operator''"
  by (auto simp: parseRole_def)

subsection \<open>Properties\<close>

text \<open>
  Capabilities follow the role: the capability sets are ordered as the roles are, viewers
  get none and only administrators get the administrative ones; a role field the console cannot
  read (or that is missing) gives the administrator's set, the others only their exact spelling.
\<close>

theorem capabilities_follow_role:
  "(cap_le (capabilitiesFor a) (capabilitiesFor b) \<longleftrightarrow> a \<le> b) \<and>
   (operateJobs (capabilitiesFor (parseRole v)) \<longleftrightarrow> v \<noteq> JStr ''viewer'') \<and>
   (manageUsers (capabilitiesFor (parseRole v)) \<longleftrightarrow> v \<noteq> JStr ''viewer'' \<and> v \<noteq> JStr ''operator'') \<and>
   parseRole (JStr (role_str a)) = a"
  using role_norm.parse_encode [of a] by (simp add: cap_le_role) (simp add: parseRole_def)

end
