(* ===== verification/Api_Targets.thy ===== *)
theory Api_Targets
  imports Js_Value
begin

text \<open>
  Storage targets (\<open>web/src/api.ts\<close>, storage targets): the two kinds and their labels, the
  normalisers of a kind and of a connection-test warning, the operator copy of a warning, the
  capacity of a filesystem target and the one-line location of a target.
\<close>

datatype targetKind = S3 | Filesystem

fun TARGET_KIND_LABEL :: "targetKind \<Rightarrow> string" where
  "TARGET_KIND_LABEL Filesystem = ''Local or network path''"
| "TARGET_KIND_LABEL S3 = ''S3-compatible object storage''"

fun TARGET_KIND_SHORT :: "targetKind \<Rightarrow> string" where
  "TARGET_KIND_SHORT Filesystem = ''Local path''"
| "TARGET_KIND_SHORT S3 = ''S3 object storage''"

fun TARGET_KIND_SUMMARY :: "targetKind \<Rightarrow> string" where
  "TARGET_KIND_SUMMARY Filesystem =
     ''A NAS, an NFS or SMB mount, a USB disk or a ZFS dataset already mounted on this server.''"
| "TARGET_KIND_SUMMARY S3 =
     ''An offsite bucket '' @ em_dash @ '' Backblaze B2, AWS S3 or MinIO.''"

fun kind_str :: "targetKind \<Rightarrow> string" where
  "kind_str S3 = ''s3''"
| "kind_str Filesystem = ''filesystem''"

definition isOffsite :: "targetKind \<Rightarrow> bool" where
  "isOffsite kind \<longleftrightarrow> kind = S3"

definition parseTargetKind :: "jval \<Rightarrow> targetKind" where
  "parseTargetKind value = (if value = JStr ''filesystem'' then Filesystem else S3)"

datatype js_id = IdStr string | IdNum jsnum

fun id_str :: "js_id \<Rightarrow> string" where
  "id_str (IdStr s) = s"
| "id_str (IdNum n) = num_str n"

fun id_val :: "js_id \<Rightarrow> jval" where
  "id_val (IdStr s) = JStr s"
| "id_val (IdNum n) = JNum n"

record target =
  t_id :: js_id
  t_name :: string
  t_kind :: targetKind
  t_path :: "string option"
  t_endpoint :: string
  t_bucket :: string
  t_region :: string
  t_pathStyle :: bool
  t_status :: string
  t_freeBytes :: "jsnum option"
  t_totalBytes :: "jsnum option"
  t_allowSameFilesystem :: "bool option"

text \<open>\<open>POST /api/targets\<close> takes either shape; the fields of one never mix with the other's.\<close>

datatype targetCreate =
    S3TargetCreate string string string string string string bool
  | FilesystemTargetCreate string string bool

fun targetCreate_body :: "targetCreate \<Rightarrow> jval" where
  "targetCreate_body (S3TargetCreate name endpoint region bucket accessKey secretKey pathStyle) =
     JObj [(''kind'', JStr ''s3''), (''name'', JStr name), (''endpoint'', JStr endpoint),
           (''region'', JStr region), (''bucket'', JStr bucket), (''accessKey'', JStr accessKey),
           (''secretKey'', JStr secretKey), (''pathStyle'', JBool pathStyle)]"
| "targetCreate_body (FilesystemTargetCreate name path allow) =
     JObj [(''kind'', JStr ''filesystem''), (''name'', JStr name), (''path'', JStr path),
           (''allowSameFilesystem'', JBool allow)]"

subsection \<open>Warnings of a connection test\<close>

record targetWarning =
  w_code :: string
  w_message :: string

definition not_mount_copy :: string where
  "not_mount_copy =
     ''This path is not a mount point. If the share failed to mount, backups fill this server'' @
     rsquo @ ''s own disk instead of the NAS.''"

definition same_fs_copy :: "string \<Rightarrow> string" where
  "same_fs_copy mid =
     ''This path is on the same filesystem as ProxBack'' @ rsquo @ ''s own data'' @ mid @
     ''. A disk that fails takes the backups with it.''"

definition TARGET_WARNING_COPY :: "(string \<times> string) list" where
  "TARGET_WARNING_COPY =
     [(''not_mount_point'', not_mount_copy), (''not_a_mount_point'', not_mount_copy),
      (''same_filesystem'', same_fs_copy []),
      (''same_filesystem_allowed'', same_fs_copy '', and was allowed explicitly'')]"

text \<open>The members every object literal inherits from \<open>Object.prototype\<close>: indexing the copy table
  with one of these names yields the inherited member, which is not a text.\<close>

definition object_prototype :: "string list" where
  "object_prototype =
     [''constructor'', ''__defineGetter__'', ''__defineSetter__'', ''hasOwnProperty'',
      ''__lookupGetter__'', ''__lookupSetter__'', ''isPrototypeOf'', ''propertyIsEnumerable'',
      ''toString'', ''valueOf'', ''__proto__'', ''toLocaleString'']"

text \<open>\<open>TARGET_WARNING_COPY[code] ?? message ?? code\<close>: \<open>None\<close> is an inherited member in place of a
  text. A warning's message is always a text, so the last alternative is never taken.\<close>

definition describeTargetWarning :: "targetWarning \<Rightarrow> string option" where
  "describeTargetWarning warning =
     (case map_of TARGET_WARNING_COPY (w_code warning) of
        Some copy \<Rightarrow> Some copy
      | None \<Rightarrow> if w_code warning \<in> set object_prototype then None else Some (w_message warning))"

definition normaliseWarning :: "jval \<Rightarrow> targetWarning option" where
  "normaliseWarning value =
     (case value of
        JStr s \<Rightarrow> (let txt = trim s
                   in if txt \<noteq> [] then Some \<lparr>w_code = txt, w_message = txt\<rparr> else None)
      | _ \<Rightarrow>
        if \<not> is_object value then None
        else (let code = (case jprop value ''code'' of JStr c \<Rightarrow> c | _ \<Rightarrow> []);
                  message = (case jprop value ''message'' of JStr m \<Rightarrow> m
                             | _ \<Rightarrow> (case jprop value ''detail'' of JStr d \<Rightarrow> d | _ \<Rightarrow> code))
              in if code = [] \<and> message = [] then None
                 else Some \<lparr>w_code = (if code \<noteq> [] then code else message),
                            w_message = (if message \<noteq> [] then message else code)\<rparr>))"

subsection \<open>Capacity\<close>

record targetCapacity =
  c_usedBytes :: jsnum
  c_freeBytes :: jsnum
  c_totalBytes :: jsnum
  c_usedPct :: jsnum
  c_freePct :: jsnum
  c_low :: bool

definition LOW_SPACE_PCT :: jsnum where
  "LOW_SPACE_PCT = Fin 10"

text \<open>\<open>Number(field)\<close> of an optional number.\<close>

definition opt_num :: "jsnum option \<Rightarrow> jsnum" where
  "opt_num v = (case v of None \<Rightarrow> NaN | Some n \<Rightarrow> n)"

definition capacityOf :: "target \<Rightarrow> targetCapacity option" where
  "capacityOf target =
     (if t_kind target \<noteq> Filesystem then None
      else (let total = opt_num (t_totalBytes target); free = opt_num (t_freeBytes target)
            in if \<not> js_is_finite total \<or> js_le total (Fin 0) then None
               else if \<not> js_is_finite free \<or> js_lt free (Fin 0) then None
               else (let clampedFree = js_min free total;
                         used = js_sub total clampedFree;
                         freePct = js_mul (js_div clampedFree total) (Fin 100)
                     in Some \<lparr>c_usedBytes = used, c_freeBytes = clampedFree, c_totalBytes = total,
                              c_usedPct = js_mul (js_div used total) (Fin 100),
                              c_freePct = freePct, c_low = js_lt freePct LOW_SPACE_PCT\<rparr>)))"

subsection \<open>Location\<close>

definition or_dash :: "string \<Rightarrow> string" where
  "or_dash s = (if s = [] then em_dash else s)"

definition strip_scheme :: "string \<Rightarrow> string" where
  "strip_scheme s =
     (if starts_with ''https://'' s then drop 8 s
      else if starts_with ''http://'' s then drop 7 s else s)"

definition strip_slashes :: "string \<Rightarrow> string" where
  "strip_slashes s = rev (dropWhile (\<lambda>c. c = CHR ''/'') (rev s))"

definition targetLocation :: "target \<Rightarrow> string" where
  "targetLocation target =
     (if t_kind target = Filesystem then
        or_dash (case t_path target of None \<Rightarrow> [] | Some p \<Rightarrow> p)
      else (let host = strip_slashes (strip_scheme (t_endpoint target))
            in if host \<noteq> [] then t_bucket target @ '' '' @ middle_dot @ '' '' @ host
               else or_dash (t_bucket target)))"

interpretation kind_norm: normaliser parseTargetKind "\<lambda>k. JStr (kind_str k)" "\<lambda>_. True"
proof unfold_locales
  show "parseTargetKind (JStr (kind_str x)) = x" for x
    by (cases x) (simp_all add: parseTargetKind_def)
qed simp

subsection \<open>Lemmas\<close>

lemma normaliseWarning_nonempty:
  "normaliseWarning v = Some w \<Longrightarrow> w_code w \<noteq> [] \<and> w_message w \<noteq> []"
  by (cases v) (auto simp: normaliseWarning_def Let_def split: if_splits)

text \<open>Reading back the object form of a normalised warning changes nothing.\<close>

definition warning_val :: "targetWarning \<Rightarrow> jval" where
  "warning_val w = JObj [(''code'', JStr (w_code w)), (''message'', JStr (w_message w))]"

lemma normaliseWarning_val:
  "w_code w \<noteq> [] \<Longrightarrow> w_message w \<noteq> [] \<Longrightarrow> normaliseWarning (warning_val w) = Some w"
  by (simp add: normaliseWarning_def warning_val_def)

lemma pct_range:
  assumes "0 \<le> a" "a \<le> t" "0 < t"
  shows "\<exists>p. js_mul (js_div (Fin a) (Fin t)) (Fin 100) = Fin p \<and> 0 \<le> p \<and> p \<le> 100"
proof -
  have "0 \<le> a / t" "a / t \<le> 1" using assms by (simp_all add: field_simps)
  then obtain q where q: "fl (a / t) = Fin q" "0 \<le> q" "q \<le> 1"
    using fl_range [of 0 "a / t" 1] by auto
  then have "0 \<le> q * 100" "q * 100 \<le> 100" by simp_all
  then obtain p where "fl (q * 100) = Fin p" "0 \<le> p" "p \<le> 100"
    using fl_range [of 0 "q * 100" 100] by auto
  with q assms show ?thesis by simp
qed

lemma rnd_tenth: "rnd (1/10) = 3602879701896397 / 36028797018963968"
proof -
  have "expo (1/10) = - 4"
    by (rule expo_unique) (simp_all add: power_int_minus)
  then have "ulp_exp (1/10) = - 56" by (simp add: ulp_exp_def)
  then show ?thesis by (simp add: rnd_def power_int_minus rhe_def Let_def)
qed

lemma low_space_pct:
  assumes t: "0 < t" and m: "t \<le> 10 * m" "m \<le> t"
  shows "\<not> js_lt (js_mul (js_div (Fin m) (Fin t)) (Fin 100)) (Fin 10)"
proof -
  have r: "0 \<le> m / t" "m / t \<le> 1" "1/10 \<le> m / t" using t m by (simp_all add: field_simps)
  obtain q where q: "fl (m / t) = Fin q" "q \<le> 1"
    using fl_range [OF r(1,2)] by auto
  have "rnd (1/10) \<le> q" using rnd_mono [OF r(3)] fl_Fin_rnd [OF q(1)] by simp
  then have "10 \<le> q * 100" by (simp add: rnd_tenth)
  then obtain p where "fl (q * 100) = Fin p" "10 \<le> p"
    using fl_range [of 10 "q * 100" 100] q by auto
  with q t show ?thesis by simp
qed

lemma capacityOf_Some:
  assumes "capacityOf tg = Some c"
  obtains t f where "t_kind tg = Filesystem" "t_totalBytes tg = Some (Fin t)"
    "t_freeBytes tg = Some (Fin f)" "0 < t" "0 \<le> f"
    "c = \<lparr>c_usedBytes = js_sub (Fin t) (Fin (min f t)), c_freeBytes = Fin (min f t),
          c_totalBytes = Fin t,
          c_usedPct = js_mul (js_div (js_sub (Fin t) (Fin (min f t))) (Fin t)) (Fin 100),
          c_freePct = js_mul (js_div (Fin (min f t)) (Fin t)) (Fin 100),
          c_low = js_lt (js_mul (js_div (Fin (min f t)) (Fin t)) (Fin 100)) (Fin 10)\<rparr>"
  using assms
  by (auto simp: capacityOf_def opt_num_def LOW_SPACE_PCT_def js_is_finite_iff not_le not_less Let_def
      simp del: js_mul.simps js_div.simps
      split: if_splits option.splits)

subsection \<open>Properties\<close>

definition is_double :: "jsnum \<Rightarrow> bool" where
  "is_double n \<longleftrightarrow> (case n of Fin x \<Rightarrow> rnd x = x \<and> \<bar>x\<bar> < 2 ^ 1024 | _ \<Rightarrow> True)"

lemma js_sub_range:
  assumes "is_double (Fin t)" "0 \<le> m" "m \<le> t"
  shows "\<exists>u. js_sub (Fin t) (Fin m) = Fin u \<and> 0 \<le> u \<and> u \<le> t"
  using assms fl_range [of 0 "t - m" t] by (simp add: is_double_def js_sub_def)

text \<open>
  C32 (capacity is well formed): whatever a filesystem target reports, a capacity shown has
  0 <= free <= total with total positive, used between 0 and total, and both percentages between 0
  and 100, with binary64 rounding taken into account.
\<close>

theorem capacityOf_bounds:
  assumes "capacityOf tg = Some c" and "is_double (opt_num (t_totalBytes tg))"
  shows "\<exists>total free used fp up.
    c_totalBytes c = Fin total \<and> c_freeBytes c = Fin free \<and> c_usedBytes c = Fin used \<and>
    c_freePct c = Fin fp \<and> c_usedPct c = Fin up \<and> 0 < total \<and> 0 \<le> free \<and> free \<le> total \<and>
    0 \<le> used \<and> used \<le> total \<and> 0 \<le> fp \<and> fp \<le> 100 \<and> 0 \<le> up \<and> up \<le> 100"
proof (rule capacityOf_Some [OF assms(1)])
  fix t f
  assume h: "t_totalBytes tg = Some (Fin t)" "0 < t" "0 \<le> f"
    and c: "c = \<lparr>c_usedBytes = js_sub (Fin t) (Fin (min f t)), c_freeBytes = Fin (min f t),
          c_totalBytes = Fin t,
          c_usedPct = js_mul (js_div (js_sub (Fin t) (Fin (min f t))) (Fin t)) (Fin 100),
          c_freePct = js_mul (js_div (Fin (min f t)) (Fin t)) (Fin 100),
          c_low = js_lt (js_mul (js_div (Fin (min f t)) (Fin t)) (Fin 100)) (Fin 10)\<rparr>"
  obtain u where u: "js_sub (Fin t) (Fin (min f t)) = Fin u" "0 \<le> u" "u \<le> t"
    using js_sub_range [of t "min f t"] assms(2) h by (auto simp: opt_num_def)
  obtain fp where fp: "js_mul (js_div (Fin (min f t)) (Fin t)) (Fin 100) = Fin fp" "0 \<le> fp" "fp \<le> 100"
    using pct_range [of "min f t" t] h by auto
  obtain up where up: "js_mul (js_div (Fin u) (Fin t)) (Fin 100) = Fin up" "0 \<le> up" "up \<le> 100"
    using pct_range [OF u(2,3) h(2)] by auto
  have "c_totalBytes c = Fin t" "c_freeBytes c = Fin (min f t)" "c_usedBytes c = Fin u" "c_freePct c = Fin fp" "c_usedPct c = Fin up"
    unfolding c u(1) up(1) fp(1) by simp_all
  moreover have "0 \<le> min f t" "min f t \<le> t" using h by simp_all
  ultimately show ?thesis using h(2) u(2,3) fp(2,3) up(2,3) by blast
qed

definition nas :: target where
  "nas = \<lparr>t_id = IdNum (Fin 1), t_name = ''nas'', t_kind = Filesystem, t_path = Some ''/mnt/nas'',
     t_endpoint = [], t_bucket = [], t_region = [], t_pathStyle = False, t_status = ''ok'',
     t_freeBytes = Some (Fin 30), t_totalBytes = Some (Fin 400), t_allowSameFilesystem = None\<rparr>"

lemma capacityOf_nas: "\<exists>c. capacityOf nas = Some c \<and> c_low c"
proof -
  have "expo (3/40) = - 4" by (rule expo_unique) (simp_all add: power_int_minus)
  then have "ulp_exp (3/40) = - 56" by (simp add: ulp_exp_def)
  then have "rnd (3/40) = 5404319552844595 / 72057594037927936"
    by (simp add: rnd_def power_int_minus rhe_def Let_def)
  then have q: "fl (3/40) = Fin (5404319552844595 / 72057594037927936)"
    by (simp add: fl_def)
  have "\<exists>r. fl (5404319552844595 / 72057594037927936 * 100) = Fin r \<and> 0 \<le> r \<and> r \<le> 8"
    by (rule fl_range) simp_all
  then show ?thesis
    by (auto simp: capacityOf_def nas_def opt_num_def LOW_SPACE_PCT_def Let_def q)
qed

theorem capacityOf_bounds_witness:
  "\<exists>c free total. capacityOf nas = Some c \<and> is_double (opt_num (t_totalBytes nas)) \<and>
     c_freeBytes c = Fin free \<and> c_totalBytes c = Fin total \<and> free \<le> total"
proof -
  obtain c where c: "capacityOf nas = Some c" using capacityOf_nas by blast
  have d: "is_double (opt_num (t_totalBytes nas))"
    by (simp add: is_double_def opt_num_def nas_def)
  show ?thesis using capacityOf_bounds [OF c d] c d by blast
qed

text \<open>
  No false alarm about space: a target is called out as low on space only if less than a
  tenth of it is free. Rounding never turns exactly 10% or more into an alarm.
\<close>

theorem capacityOf_low_sound:
  assumes "capacityOf tg = Some c" "c_low c"
  shows "\<exists>t f. t_totalBytes tg = Some (Fin t) \<and> t_freeBytes tg = Some (Fin f) \<and> 10 * f < t"
proof (rule capacityOf_Some [OF assms(1)])
  fix t f
  assume h: "t_totalBytes tg = Some (Fin t)" "t_freeBytes tg = Some (Fin f)" "0 < t" "0 \<le> f"
    and c: "c = \<lparr>c_usedBytes = js_sub (Fin t) (Fin (min f t)), c_freeBytes = Fin (min f t),
          c_totalBytes = Fin t,
          c_usedPct = js_mul (js_div (js_sub (Fin t) (Fin (min f t))) (Fin t)) (Fin 100),
          c_freePct = js_mul (js_div (Fin (min f t)) (Fin t)) (Fin 100),
          c_low = js_lt (js_mul (js_div (Fin (min f t)) (Fin t)) (Fin 100)) (Fin 10)\<rparr>"
  have "\<not> t \<le> 10 * min f t"
    using low_space_pct [of t "min f t"] h(3) assms(2) unfolding c
    by (auto simp del: js_mul.simps js_div.simps)
  then show ?thesis using h by auto
qed

theorem capacityOf_low_sound_witness:
  "\<exists>c. capacityOf nas = Some c \<and> c_low c \<and>
     (\<exists>t f. t_totalBytes nas = Some (Fin t) \<and> t_freeBytes nas = Some (Fin f) \<and> 10 * f < t)"
proof -
  obtain c where c: "capacityOf nas = Some c" "c_low c" using capacityOf_nas by blast
  show ?thesis using capacityOf_low_sound [OF c] c by blast
qed

text \<open>
  Every warning has a text: a normalised warning has a non-empty code and message, reading it
  back changes nothing, and what the operator is shown is a non-empty text, except when the
  server's code is the name of a member every object inherits, such as \<open>constructor\<close>: then the
  copy table answers with that member and no text is shown.
\<close>

theorem warning_text:
  assumes "normaliseWarning v = Some w"
  shows "normaliseWarning (warning_val w) = Some w \<and>
    (case describeTargetWarning w of
       None \<Rightarrow> w_code w \<in> set object_prototype
     | Some s \<Rightarrow> s \<noteq> [])"
proof -
  have "w_code w \<noteq> []" "w_message w \<noteq> []" using normaliseWarning_nonempty [OF assms] by auto
  moreover have "map_of TARGET_WARNING_COPY k = Some s \<Longrightarrow> s \<noteq> []" for k s
    by (auto simp: TARGET_WARNING_COPY_def not_mount_copy_def same_fs_copy_def split: if_splits)
  ultimately show ?thesis
    by (auto simp: normaliseWarning_val describeTargetWarning_def split: option.splits)
qed

theorem warning_text_witness:
  "normaliseWarning (JStr ''constructor'') = Some \<lparr>w_code = ''constructor'', w_message = ''constructor''\<rparr> \<and>
   describeTargetWarning \<lparr>w_code = ''constructor'', w_message = ''constructor''\<rparr> = None \<and>
   ''constructor'' \<in> set object_prototype"
proof -
  have t: "trim ''constructor'' = ''constructor''"
    by (rule trim_id) (simp_all add: ws_edge_def ws_seqs_def)
  have n: "normaliseWarning (JStr ''constructor'') =
      Some \<lparr>w_code = ''constructor'', w_message = ''constructor''\<rparr>"
    by (simp add: normaliseWarning_def t Let_def)
  have d: "describeTargetWarning \<lparr>w_code = ''constructor'', w_message = ''constructor''\<rparr> = None"
    by (simp add: describeTargetWarning_def TARGET_WARNING_COPY_def object_prototype_def)
  show ?thesis using warning_text [OF n] n d by simp
qed

end
