(* ===== verification/Api_Schedule.thy ===== *)
theory Api_Schedule
  imports Js_Value
begin

text \<open>
  Job schedules (\<open>web/src/api.ts\<close>, schedules): the schedule union of the contract, and the
  normaliser \<open>parseSchedule\<close> that reads anything a server may hold in a \<open>schedule\<close> field. All
  counters are integers: \<open>clampInt\<close> is the only way one enters a schedule from the wire.
\<close>

datatype schedule =
    Manual
  | Hourly int
  | Daily string
  | Weekly string "int list"
  | Monthly string int
  | Advanced string

text \<open>The pattern \<open>HHMM\<close>: hours 00 to 23, a colon, minutes 00 to 59.\<close>

fun HHMM :: "string \<Rightarrow> bool" where
  "HHMM [a, b, c, d, e] =
     (((a = CHR ''0'' \<or> a = CHR ''1'') \<and> is_digit b
        \<or> a = CHR ''2'' \<and> is_digit b \<and> digit_val b \<le> 3) \<and>
      c = CHR '':'' \<and> is_digit d \<and> digit_val d \<le> 5 \<and> is_digit e)"
| "HHMM _ = False"

text \<open>The integer a rounded and clamped number is.\<close>

fun int_of :: "jsnum \<Rightarrow> int" where
  "int_of (Fin x) = \<lfloor>x\<rfloor>"
| "int_of _ = 0"

definition clampInt :: "jval \<Rightarrow> int \<Rightarrow> int \<Rightarrow> int \<Rightarrow> int" where
  "clampInt value lo hi fallback =
     (let n = js_number value
      in if \<not> js_is_finite n then fallback
         else int_of (js_max (jsint lo) (js_min (jsint hi) (js_round n))))"

definition timeOf :: "jval \<Rightarrow> string \<Rightarrow> string" where
  "timeOf value fallback =
     (case value of JStr s \<Rightarrow> if HHMM s then s else fallback | _ \<Rightarrow> fallback)"

definition parseWeekdays :: "jval \<Rightarrow> int list" where
  "parseWeekdays v =
     (let weekdays = sort (remdups (map (\<lambda>day. clampInt day 0 6 0) (elems v)))
      in if weekdays \<noteq> [] then weekdays else [0])"

definition parseSchedule :: "jval \<Rightarrow> schedule" where
  "parseSchedule value =
     (if nullish value \<or> value = JStr [] then Manual
      else case value of
        JStr s \<Rightarrow> (let txt = trim s
                   in if txt = [] \<or> txt = ''manual'' then Manual else Advanced txt)
      | _ \<Rightarrow>
        (let kind = jprop value ''kind''
         in if kind = JStr ''hourly'' then Hourly (clampInt (jprop value ''minute'') 0 59 0)
            else if kind = JStr ''daily'' then Daily (timeOf (jprop value ''time'') ''02:00'')
            else if kind = JStr ''weekly'' then
              Weekly (timeOf (jprop value ''time'') ''03:00'') (parseWeekdays (jprop value ''weekdays''))
            else if kind = JStr ''monthly'' then
              Monthly (timeOf (jprop value ''time'') ''01:00'')
                      (clampInt (jprop value ''dayOfMonth'') 1 31 1)
            else if kind = JStr ''advanced'' then
              Advanced (case jprop value ''cron'' of JStr c \<Rightarrow> trim c | _ \<Rightarrow> [])
            else Manual))"

definition isManualSchedule :: "schedule \<Rightarrow> bool" where
  "isManualSchedule s \<longleftrightarrow> s = Manual"

subsection \<open>The wire form and validity\<close>

text \<open>What the console sends for a schedule: the object of the contract.\<close>

fun schedule_val :: "schedule \<Rightarrow> jval" where
  "schedule_val Manual = JObj [(''kind'', JStr ''manual'')]"
| "schedule_val (Hourly m) = JObj [(''kind'', JStr ''hourly''), (''minute'', JNum (jsint m))]"
| "schedule_val (Daily t) = JObj [(''kind'', JStr ''daily''), (''time'', JStr t)]"
| "schedule_val (Weekly t ds) =
     JObj [(''kind'', JStr ''weekly''), (''time'', JStr t),
           (''weekdays'', JArr (map (\<lambda>d. JNum (jsint d)) ds))]"
| "schedule_val (Monthly t d) =
     JObj [(''kind'', JStr ''monthly''), (''time'', JStr t), (''dayOfMonth'', JNum (jsint d))]"
| "schedule_val (Advanced c) = JObj [(''kind'', JStr ''advanced''), (''cron'', JStr c)]"

fun valid_schedule :: "schedule \<Rightarrow> bool" where
  "valid_schedule Manual = True"
| "valid_schedule (Hourly m) = (0 \<le> m \<and> m \<le> 59)"
| "valid_schedule (Daily t) = HHMM t"
| "valid_schedule (Weekly t ds) =
     (HHMM t \<and> ds \<noteq> [] \<and> sorted ds \<and> distinct ds \<and> (\<forall>d \<in> set ds. 0 \<le> d \<and> d \<le> 6))"
| "valid_schedule (Monthly t d) = (HHMM t \<and> 1 \<le> d \<and> d \<le> 31)"
| "valid_schedule (Advanced c) = (trim c = c)"

subsection \<open>Lemmas\<close>

lemma int_of_jsint [simp]: "int_of (jsint n) = n"
  by simp

lemma clampInt_eq:
  "clampInt v lo hi fb =
     (case js_number v of Fin x \<Rightarrow> max lo (min hi \<lfloor>x + 1/2\<rfloor>) | _ \<Rightarrow> fb)"
proof (cases "js_number v")
  case (Fin x)
  then have "clampInt v lo hi fb = int_of (jsint (max lo (min hi \<lfloor>x + 1/2\<rfloor>)))"
    by (simp add: clampInt_def flip: of_int_min of_int_max del: int_of.simps)
  with Fin show ?thesis by simp
qed (simp_all add: clampInt_def)

lemma clampInt_bounds:
  "lo \<le> hi \<Longrightarrow> lo \<le> fb \<Longrightarrow> fb \<le> hi \<Longrightarrow> lo \<le> clampInt v lo hi fb \<and> clampInt v lo hi fb \<le> hi"
  by (auto simp: clampInt_eq split: jsnum.splits)

lemma floor_of_int_half [simp]: "\<lfloor>of_int n + 1/2 :: rat\<rfloor> = n"
  by (rule floor_unique) simp_all

lemma clampInt_jsint [simp]: "lo \<le> n \<Longrightarrow> n \<le> hi \<Longrightarrow> clampInt (JNum (jsint n)) lo hi fb = n"
  by (simp add: clampInt_eq)

lemma timeOf_HHMM: "HHMM fb \<Longrightarrow> HHMM (timeOf v fb)"
  by (auto simp: timeOf_def split: jval.splits)

lemma timeOf_JStr [simp]: "HHMM t \<Longrightarrow> timeOf (JStr t) fb = t"
  by (simp add: timeOf_def)

lemma HHMM_defaults: "HHMM ''02:00''" "HHMM ''03:00''" "HHMM ''01:00''"
  by (simp_all add: is_digit_def digit_val_def)

lemmas timeOf_defaults [simp] = HHMM_defaults [THEN timeOf_HHMM]

lemma parseWeekdays_valid:
  "parseWeekdays v \<noteq> [] \<and> sorted (parseWeekdays v) \<and> distinct (parseWeekdays v) \<and>
   (\<forall>d \<in> set (parseWeekdays v). 0 \<le> d \<and> d \<le> 6)"
  using clampInt_bounds [of 0 6 0] by (auto simp: parseWeekdays_def Let_def)

lemma parseWeekdays_val:
  assumes "ds \<noteq> []" "sorted ds" "distinct ds" "\<forall>d \<in> set ds. 0 \<le> d \<and> d \<le> 6"
  shows "parseWeekdays (JArr (map (\<lambda>d. JNum (jsint d)) ds)) = ds"
proof -
  have "map (\<lambda>day. clampInt day 0 6 0) (map (\<lambda>d. JNum (jsint d)) ds) = ds"
    using assms(4) by (simp add: comp_def map_idI)
  with assms show ?thesis
    by (simp add: parseWeekdays_def sort_remdups_id Let_def del: map_map)
qed

interpretation sched_norm: normaliser parseSchedule schedule_val valid_schedule
proof unfold_locales
  show "valid_schedule (parseSchedule v)" for v
    using clampInt_bounds [of 0 59 0] clampInt_bounds [of 1 31 1] parseWeekdays_valid
    by (cases v) (auto simp: parseSchedule_def Let_def split: jval.splits)
  show "parseSchedule (schedule_val x) = x" if "valid_schedule x" for x
    using that by (cases x) (simp_all add: parseSchedule_def parseWeekdays_val)
qed

subsection \<open>Properties\<close>

text \<open>
  C31 (schedules are normalised): whatever a \<open>schedule\<close> field holds, \<open>parseSchedule\<close> gives a
  well-formed schedule (minutes 0 to 59, HH:MM times, sorted distinct weekdays 0 to 6 with at
  least one, a day 1 to 31, a trimmed cron text); a well-formed schedule written to the wire and
  read back is unchanged; and the well-formed schedules are exactly the ones that can be read.
\<close>

theorem parseSchedule_normalises:
  "valid_schedule (parseSchedule v) \<and>
   parseSchedule (schedule_val (parseSchedule v)) = parseSchedule v \<and>
   (valid_schedule s \<longleftrightarrow> (\<exists>w. parseSchedule w = s))"
  using sched_norm.parse_valid [of v] sched_norm.parse_idem [of v]
    sched_norm.valid_iff_range [of s] by auto

end
