(* ===== verification/Api_Runs.thy ===== *)
theory Api_Runs
  imports Api_Targets Api_Schedule
begin

text \<open>
  Runs, restore points, helpers and audit rows (\<open>web/src/api.ts\<close>): the one definition of data
  reduction, the VMID inside a restore point's source id (with the server's own reading of it,
  \<open>internal/sched/restore.go\<close>), the unassigned-helper test and the tolerant reading of an audit
  row.
\<close>

datatype runKind = RunBackup | RunRestore | RunVerify

datatype runStatus = RunRunning | RunSuccess | RunFailed | RunCanceled

fun run_status_str :: "runStatus \<Rightarrow> string" where
  "run_status_str RunRunning = ''running''"
| "run_status_str RunSuccess = ''success''"
| "run_status_str RunFailed = ''failed''"
| "run_status_str RunCanceled = ''canceled''"

record jobRun =
  jr_id :: js_id
  jr_jobId :: js_id
  jr_jobName :: string
  jr_kind :: "runKind option"
  jr_status :: runStatus
  jr_startedAt :: string
  jr_finishedAt :: "string option"
  jr_bytesProcessed :: jsnum
  jr_bytesUploaded :: jsnum
  jr_dedupRatio :: jsnum
  jr_reductionPct :: "jsnum option"
  jr_reductionRatio :: "jsnum option"
  jr_error :: "string option"
  jr_progressPct :: jsnum
  jr_currentStep :: string

record dataReduction =
  dr_pct :: jsnum
  dr_ratio :: "jsnum option"
  dr_applies :: bool

record runFigures =
  rf_kind :: "runKind option"
  rf_bytesProcessed :: jsnum
  rf_bytesUploaded :: jsnum
  rf_reductionPct :: "jsnum option"
  rf_reductionRatio :: "jsnum option"

definition nonneg_or_0 :: "jsnum \<Rightarrow> jsnum" where
  "nonneg_or_0 n = (if js_is_finite n then js_max (Fin 0) n else Fin 0)"

definition pct_clamp :: "jsnum \<Rightarrow> jsnum" where
  "pct_clamp n = js_max (Fin 0) (js_min (Fin 100) n)"

definition reductionOf :: "runFigures \<Rightarrow> dataReduction" where
  "reductionOf run =
     (let processed = nonneg_or_0 (rf_bytesProcessed run);
          uploaded = nonneg_or_0 (rf_bytesUploaded run)
      in if rf_kind run = Some RunRestore \<or> rf_kind run = Some RunVerify
         then \<lparr>dr_pct = Fin 0, dr_ratio = None, dr_applies = False\<rparr>
         else
           (let derivedPct =
                  (if processed = Fin 0 then Fin 0
                   else pct_clamp (js_mul (js_sub (Fin 1) (js_div uploaded processed)) (Fin 100)));
                pct = (case rf_reductionPct run of
                         Some p \<Rightarrow> if js_is_finite p then pct_clamp p else derivedPct
                       | None \<Rightarrow> derivedPct);
                derivedRatio =
                  (if js_lt (Fin 0) uploaded \<and> js_lt (Fin 0) processed
                   then Some (js_div processed uploaded) else None);
                ratio = (case rf_reductionRatio run of
                           Some r \<Rightarrow> if js_is_finite r \<and> js_lt (Fin 0) r then Some r
                                     else derivedRatio
                         | None \<Rightarrow> derivedRatio)
            in \<lparr>dr_pct = pct, dr_ratio = ratio, dr_applies = True\<rparr>))"

subsection \<open>The VMID inside a source id\<close>

definition sourceVMID :: "js_id option \<Rightarrow> jsnum option" where
  "sourceVMID sourceId =
     (case sourceId of
        None \<Rightarrow> None
      | Some i \<Rightarrow>
        (case after_last (CHR ''_'') (id_str i) of
           None \<Rightarrow> None
         | Some tail \<Rightarrow> if all_digits tail then Some (str_num tail) else None))"

text \<open>The server's reading: Go's \<open>strconv.Atoi\<close> takes an optional sign and decimal digits, and
  fails outside the 64-bit range.\<close>

definition go_atoi :: "string \<Rightarrow> int option" where
  "go_atoi s =
     (case signed_digits s of
        None \<Rightarrow> None
      | Some n \<Rightarrow> if - (2 ^ 63) \<le> n \<and> n < 2 ^ 63 then Some n else None)"

definition vmidFromSourceID :: "string \<Rightarrow> int option" where
  "vmidFromSourceID sourceID =
     (case after_last (CHR ''_'') sourceID of
        None \<Rightarrow> None
      | Some tail \<Rightarrow> go_atoi tail)"

subsection \<open>Helpers\<close>

datatype helperStatus = HelperOnline | HelperOffline | HelperUnassigned

record helper =
  h_id :: js_id
  h_hostId :: "js_id option"
  h_hostName :: "string option"
  h_node :: string
  h_address :: string
  h_port :: jsnum
  h_version :: string
  h_status :: helperStatus
  h_lastSeen :: string
  h_registeredAt :: string

definition isHelperUnassigned :: "helper \<Rightarrow> bool" where
  "isHelperUnassigned helper =
     (if h_status helper = HelperUnassigned then True
      else (case h_hostId helper of None \<Rightarrow> True | Some h \<Rightarrow> id_str h = []))"

subsection \<open>Audit rows\<close>

record auditEntry =
  ae_id :: js_id
  ae_at :: string
  ae_actor :: string
  ae_actorId :: jval
  ae_action :: string
  ae_objectKind :: string
  ae_objectId :: jval
  ae_objectName :: string
  ae_result :: string
  ae_sourceIP :: string
  ae_detail :: string

text \<open>The inner helper \<open>text\<close>: the first of the spellings that holds a non-empty text or a
  number.\<close>

fun audit_text :: "jval \<Rightarrow> string list \<Rightarrow> string" where
  "audit_text raw [] = []"
| "audit_text raw (key # keys) =
     (case jprop raw key of
        JStr s \<Rightarrow> if s \<noteq> [] then s else audit_text raw keys
      | JNum n \<Rightarrow> num_str n
      | _ \<Rightarrow> audit_text raw keys)"

definition normaliseAuditEntry :: "jval \<Rightarrow> nat \<Rightarrow> auditEntry" where
  "normaliseAuditEntry value index =
     (let raw = (if is_object value then value else JObj [])
      in \<lparr>ae_id = (case jprop raw ''id'' of
                    JStr s \<Rightarrow> IdStr s | JNum n \<Rightarrow> IdNum n | _ \<Rightarrow> IdNum (jsint (int index))),
          ae_at = audit_text raw [''at'', ''timestamp'', ''createdAt''],
          ae_actor = audit_text raw [''actor'', ''actorUsername'', ''username''],
          ae_actorId = nullish_or (jprop raw ''actorId'') (nullish_or (jprop raw ''actorID'') JNull),
          ae_action = audit_text raw [''action''],
          ae_objectKind = audit_text raw [''objectKind'', ''object_kind''],
          ae_objectId =
            nullish_or (jprop raw ''objectId'') (nullish_or (jprop raw ''objectID'') JNull),
          ae_objectName = audit_text raw [''objectName'', ''object_name''],
          ae_result = (let r = audit_text raw [''result''] in if r \<noteq> [] then r else ''ok''),
          ae_sourceIP = audit_text raw [''sourceIP'', ''sourceIp'', ''source_ip'', ''ip''],
          ae_detail = audit_text raw [''detail'', ''details'']\<rparr>)"

definition auditObjectText :: "auditEntry \<Rightarrow> string" where
  "auditObjectText entry =
     (let name = trim (ae_objectName entry); kind = trim (ae_objectKind entry)
      in if name \<noteq> [] \<and> kind \<noteq> [] then kind @ '' '' @ middle_dot @ '' '' @ name
         else if name \<noteq> [] then name
         else if kind \<noteq> [] \<and> \<not> nullish (ae_objectId entry) \<and> val_str (ae_objectId entry) \<noteq> []
         then kind @ '' #'' @ val_str (ae_objectId entry)
         else or_dash kind)"

subsection \<open>Lemmas\<close>

lemma pct_clamp_range:
  "n \<noteq> NaN \<Longrightarrow> \<exists>p. pct_clamp n = Fin p \<and> 0 \<le> p \<and> p \<le> 100"
  by (cases n) (auto simp: pct_clamp_def js_max_def js_min_def)

lemma pct_clamp_id: "0 \<le> p \<Longrightarrow> p \<le> 100 \<Longrightarrow> pct_clamp (Fin p) = Fin p"
  by (simp add: pct_clamp_def)

lemma nonneg_or_0_cases: "\<exists>x. nonneg_or_0 n = Fin x \<and> 0 \<le> x"
  by (cases n) (auto simp: nonneg_or_0_def)

lemma fl_not_NaN: "fl x \<noteq> NaN"
  by (simp add: fl_def Let_def)

lemma derived_pct_not_NaN:
  "p \<noteq> 0 \<Longrightarrow> js_mul (js_sub (Fin 1) (js_div (Fin u) (Fin p))) (Fin 100) \<noteq> NaN"
  by (cases "fl (u / p)"; cases "js_sub (Fin 1) (fl (u / p))")
     (auto simp: fl_not_NaN js_sub_def inf_sgn_def)

lemma reductionOf_pct_range:
  "\<exists>p. dr_pct (reductionOf run) = Fin p \<and> 0 \<le> p \<and> p \<le> 100"
proof -
  obtain x where x: "nonneg_or_0 (rf_bytesProcessed run) = Fin x" using nonneg_or_0_cases by blast
  obtain y where y: "nonneg_or_0 (rf_bytesUploaded run) = Fin y" using nonneg_or_0_cases by blast
  have d: "x \<noteq> 0 \<Longrightarrow>
      \<exists>p. pct_clamp (js_mul (js_sub (Fin 1) (js_div (Fin y) (Fin x))) (Fin 100)) = Fin p \<and>
          0 \<le> p \<and> p \<le> 100"
    by (rule pct_clamp_range [OF derived_pct_not_NaN])
  have f: "js_is_finite n \<Longrightarrow> \<exists>p. pct_clamp n = Fin p \<and> 0 \<le> p \<and> p \<le> 100" for n
    by (rule pct_clamp_range) auto
  show ?thesis
    using d f by (auto simp: reductionOf_def Let_def x y simp del: js_div.simps js_mul.simps
        split: option.splits)
qed

lemma fl_nat_ratio:
  assumes p: "1 \<le> p" "p \<le> 2 ^ 53" and u: "1 \<le> u" "u \<le> 2 ^ 53"
  shows "\<exists>r. js_div (jsint p) (jsint u) = Fin r \<and> 0 < r"
proof -
  have lo: "(1 / 2 ^ 53 :: rat) \<le> of_int p / of_int u"
    using assms of_int_le_iff [of u "2 ^ 53", where ?'a = rat] of_int_le_iff [of 1 p, where ?'a = rat]
    by (intro frac_le) simp_all
  have hi: "(of_int p / of_int u :: rat) \<le> 2 ^ 53"
    using frac_le [of "2 ^ 53" "of_int p :: rat" 1 "of_int u"] assms
      of_int_le_iff [of p "2 ^ 53", where ?'a = rat] of_int_le_iff [of 1 u, where ?'a = rat]
    by simp
  have "expo (1 / 2 ^ 53) = - 53" by (rule expo_unique) (simp_all add: power_int_minus)
  then have "ulp_exp (1 / 2 ^ 53) = - 105" by (simp add: ulp_exp_def)
  then have r: "rnd (1 / 2 ^ 53) = 1 / 2 ^ 53"
    using rhe_of_int [of "2 ^ 52"] by (simp add: rnd_def power_int_minus)
  obtain q where q: "fl (of_int p / of_int u) = Fin q" "1 / 2 ^ 53 \<le> q"
    using fl_range [OF lo hi r] by auto
  have "(0::rat) < 1 / 2 ^ 53" by simp
  then have "0 < q" using q(2) by (rule less_le_trans)
  with q(1) show ?thesis using u by simp
qed

lemma sourceVMID_composite:
  assumes "int n \<le> 2 ^ 53"
  shows "sourceVMID (Some (IdStr (h @ ''_'' @ nat_str n))) = Some (jsint (int n))"
proof -
  have "CHR ''_'' \<notin> set (nat_str n)"
    by (rule not_digit_notin_nat_str) (simp add: is_digit_def)
  then have "after_last (CHR ''_'') (h @ ''_'' @ nat_str n) = Some (nat_str n)"
    using after_last_append [of "CHR ''_''" "nat_str n" h] by simp
  with assms show ?thesis by (simp add: sourceVMID_def nat_str_digits str_num_nat_str)
qed

lemma signed_digits_all_digits: "all_digits s \<Longrightarrow> signed_digits s = Some (int (digits_val s))"
  by (cases s) (auto simp: all_digits_def is_digit_def)

subsection \<open>Properties\<close>

text \<open>
  For every run, whatever the server or the counters say, the
  reduction is a finite number between 0 and 100; restores and verifications report that it does
  not apply, with no ratio.
\<close>

theorem reductionOf_pct:
  "(\<exists>p. dr_pct (reductionOf run) = Fin p \<and> 0 \<le> p \<and> p \<le> 100) \<and>
   (dr_applies (reductionOf run) \<longleftrightarrow> rf_kind run \<noteq> Some RunRestore \<and> rf_kind run \<noteq> Some RunVerify) \<and>
   (dr_applies (reductionOf run) \<or> dr_ratio (reductionOf run) = None)"
  using reductionOf_pct_range [of run] by (auto simp: reductionOf_def Let_def)

text \<open>
  No ratio is invented: when the server sends no figures of its own, a backup run has a ratio
  exactly when it read and uploaded something, the ratio is then positive and finite, and a run
  that read data and uploaded none is 100% avoided.
\<close>

theorem reductionOf_derived:
  assumes "rf_kind run \<noteq> Some RunRestore" "rf_kind run \<noteq> Some RunVerify"
    and "rf_reductionPct run = None" "rf_reductionRatio run = None"
    and "rf_bytesProcessed run = jsint p" "0 \<le> p" "p \<le> 2 ^ 53"
    and "rf_bytesUploaded run = jsint u" "0 \<le> u" "u \<le> 2 ^ 53"
  shows "(case dr_ratio (reductionOf run) of
            None \<Rightarrow> p = 0 \<or> u = 0
          | Some r \<Rightarrow> 0 < p \<and> 0 < u \<and> (\<exists>q. r = Fin q \<and> 0 < q)) \<and>
         (u = 0 \<and> 0 < p \<longrightarrow> dr_pct (reductionOf run) = Fin 100)"
proof -
  have n: "nonneg_or_0 (jsint p) = jsint p" "nonneg_or_0 (jsint u) = jsint u"
    using assms by (simp_all add: nonneg_or_0_def)
  have r: "dr_ratio (reductionOf run) =
      (if 0 < u \<and> 0 < p then Some (js_div (jsint p) (jsint u)) else None)"
    using assms n by (simp add: reductionOf_def Let_def del: js_div.simps)
  have "fl 0 = Fin 0" "fl 1 = Fin 1" "fl 100 = Fin 100"
    using fl_of_int [of 0] fl_of_int [of 1] fl_of_int [of 100] by simp_all
  then have "u = 0 \<and> 0 < p \<longrightarrow> dr_pct (reductionOf run) = Fin 100"
    using assms n by (auto simp: reductionOf_def Let_def js_sub_def pct_clamp_def nonneg_or_0_def)
  with r show ?thesis
    using fl_nat_ratio [of p u] assms by (auto simp del: js_div.simps)
qed

theorem reductionOf_derived_witness:
  "dr_pct (reductionOf \<lparr>rf_kind = Some RunBackup, rf_bytesProcessed = jsint 33554432,
      rf_bytesUploaded = jsint 0, rf_reductionPct = None, rf_reductionRatio = None\<rparr>) = Fin 100"
  using reductionOf_derived [of "\<lparr>rf_kind = Some RunBackup, rf_bytesProcessed = jsint 33554432,
      rf_bytesUploaded = jsint 0, rf_reductionPct = None, rf_reductionRatio = None\<rparr>" 33554432 0]
  by simp

text \<open>
  A source id built by the server from any host id and a VMID
  gives back that VMID, and on every source id whose part after the last underscore is made of
  digits (up to \<open>2 ^ 53\<close>) the console and the server's \<open>vmidFromSourceID\<close> agree.
\<close>

theorem sourceVMID_mirrors:
  assumes "int n \<le> 2 ^ 53" "after_last (CHR ''_'') s = Some t" "all_digits t" "int (digits_val t) \<le> 2 ^ 53"
  shows "sourceVMID (Some (IdStr (h @ ''_'' @ nat_str n))) = Some (jsint (int n)) \<and>
    sourceVMID (Some (IdStr s)) = map_option jsint (vmidFromSourceID s) \<and> vmidFromSourceID s \<noteq> None"
proof -
  have "go_atoi t = Some (int (digits_val t))"
    using assms by (simp add: go_atoi_def signed_digits_all_digits)
  moreover have "str_num t = jsint (int (digits_val t))"
    using str_num_digits [OF assms(3)] fl_of_int [of "int (digits_val t)"] assms(4) by simp
  ultimately show ?thesis
    using assms sourceVMID_composite [OF assms(1)] by (simp add: sourceVMID_def vmidFromSourceID_def)
qed

theorem sourceVMID_mirrors_witness:
  "sourceVMID (Some (IdStr ''pve_a_105'')) = Some (jsint 105) \<and>
   vmidFromSourceID ''pve_a_105'' = Some 105"
proof -
  have d: "digits_val ''105'' = 105" "all_digits ''105''" "nat_str 105 = ''105''"
    by (simp_all add: digits_val_def digit_val_def all_digits_def is_digit_def nat_str.simps)
  show ?thesis
    using sourceVMID_mirrors [of 105 "''pve_a_105''" "''105''" "''pve_a''"] d
    by (auto simp: vmidFromSourceID_def go_atoi_def)
qed

text \<open>
  Where the two readings differ: for a source id that ends in a signed number the server
  derives a VMID and the console none.
\<close>

theorem sourceVMID_signed:
  "vmidFromSourceID ''h1_+105'' = Some 105 \<and> sourceVMID (Some (IdStr ''h1_+105'')) = None"
  by (simp add: vmidFromSourceID_def sourceVMID_def go_atoi_def digits_val_def digit_val_def
      all_digits_def is_digit_def)

end
