(* ===== verification/Api_Policy.thy ===== *)
theory Api_Policy
  imports Api_Schedule
begin

text \<open>
  Protection policy and retention of a job (\<open>web/src/api.ts\<close>, protection policy and GFS
  retention): the records, their defaults, the normalisers \<open>parsePolicy\<close> and \<open>parseRetention\<close>,
  and the summaries shown to the operator.
\<close>

datatype jobKind = VmJob | AgentJob

datatype quiesce = NoQuiesce | GuestAgent

record backupWindow =
  win_start :: string
  win_end :: string

record jobPolicy =
  p_quiesce :: quiesce
  p_excludeDisks :: "string list"
  p_excludePaths :: "string list"
  p_retryCount :: int
  p_retryDelayMinutes :: int
  p_maxDurationMinutes :: int
  p_window :: "backupWindow option"
  p_preScript :: string
  p_postScript :: string
  p_scriptTimeoutSeconds :: int
  p_uploadLimitMbpsOverride :: int

definition DEFAULT_POLICY :: jobPolicy where
  "DEFAULT_POLICY =
     \<lparr>p_quiesce = NoQuiesce, p_excludeDisks = [], p_excludePaths = [], p_retryCount = 0,
      p_retryDelayMinutes = 5, p_maxDurationMinutes = 0, p_window = None, p_preScript = [],
      p_postScript = [], p_scriptTimeoutSeconds = 30, p_uploadLimitMbpsOverride = 0\<rparr>"

definition stringList :: "jval \<Rightarrow> string list" where
  "stringList value =
     (if \<not> is_array value then []
      else filter (\<lambda>item. length item > 0) (map trim (List.map_filter str_of (elems value))))"

definition windowOf :: "jval \<Rightarrow> backupWindow option" where
  "windowOf value =
     (if \<not> is_object value then None
      else (let start = timeOf (jprop value ''start'') []; end' = timeOf (jprop value ''end'') []
            in if start = [] \<or> end' = [] then None
               else Some \<lparr>win_start = start, win_end = end'\<rparr>))"

definition str_or_empty :: "jval \<Rightarrow> string" where
  "str_or_empty v = (case v of JStr s \<Rightarrow> s | _ \<Rightarrow> [])"

definition parsePolicy :: "jval \<Rightarrow> jobPolicy" where
  "parsePolicy value =
     (if \<not> is_object value then DEFAULT_POLICY
      else \<lparr>p_quiesce = (if jprop value ''quiesce'' = JStr ''guest-agent'' then GuestAgent
                         else NoQuiesce),
            p_excludeDisks = stringList (jprop value ''excludeDisks''),
            p_excludePaths = stringList (jprop value ''excludePaths''),
            p_retryCount = clampInt (jprop value ''retryCount'') 0 5 0,
            p_retryDelayMinutes = clampInt (jprop value ''retryDelayMinutes'') 1 120 5,
            p_maxDurationMinutes = clampInt (jprop value ''maxDurationMinutes'') 0 10080 0,
            p_window = windowOf (jprop value ''window''),
            p_preScript = str_or_empty (jprop value ''preScript''),
            p_postScript = str_or_empty (jprop value ''postScript''),
            p_scriptTimeoutSeconds = clampInt (jprop value ''scriptTimeoutSeconds'') 1 3600 30,
            p_uploadLimitMbpsOverride =
              clampInt (jprop value ''uploadLimitMbpsOverride'') 0 10000 0\<rparr>)"

definition isDefaultPolicy :: "jobPolicy \<Rightarrow> bool" where
  "isDefaultPolicy policy \<longleftrightarrow>
     p_quiesce policy = p_quiesce DEFAULT_POLICY \<and>
     length (p_excludeDisks policy) = 0 \<and>
     length (p_excludePaths policy) = 0 \<and>
     p_retryCount policy = p_retryCount DEFAULT_POLICY \<and>
     p_maxDurationMinutes policy = p_maxDurationMinutes DEFAULT_POLICY \<and>
     p_window policy = None \<and>
     p_preScript policy = [] \<and>
     p_postScript policy = [] \<and>
     p_uploadLimitMbpsOverride policy = p_uploadLimitMbpsOverride DEFAULT_POLICY"

definition policyHighlights :: "jobPolicy \<Rightarrow> jobKind \<Rightarrow> string list" where
  "policyHighlights policy kind =
     (if p_quiesce policy = GuestAgent then [''Guest-agent quiescing''] else []) @
     (if kind = VmJob \<and> length (p_excludeDisks policy) > 0
      then [''Excludes '' @ join_with '', '' (p_excludeDisks policy)] else []) @
     (if kind = AgentJob \<and> length (p_excludePaths policy) > 0
      then [if length (p_excludePaths policy) = 1 then ''Excludes '' @ hd (p_excludePaths policy)
            else ''Excludes '' @ nat_str (length (p_excludePaths policy)) @ '' path patterns'']
      else []) @
     (if p_retryCount policy > 0
      then [''Retries '' @ int_str (p_retryCount policy) @ times_sign @ '' after '' @
            int_str (p_retryDelayMinutes policy) @ '' min''] else []) @
     (if p_maxDurationMinutes policy > 0
      then [''Stops after '' @ int_str (p_maxDurationMinutes policy) @ '' min''] else []) @
     (case p_window policy of
        Some w \<Rightarrow> [''Starts only '' @ win_start w @ en_dash @ win_end w]
      | None \<Rightarrow> []) @
     (if p_preScript policy \<noteq> [] then [''Pre-backup script''] else []) @
     (if p_postScript policy \<noteq> [] then [''Post-backup script''] else []) @
     (if p_uploadLimitMbpsOverride policy > 0
      then [''Upload capped at '' @ int_str (p_uploadLimitMbpsOverride policy) @ '' Mbps''] else [])"

subsection \<open>Retention\<close>

record retentionPolicy =
  keepLast :: int
  keepDaily :: int
  keepWeekly :: int
  keepMonthly :: int
  keepYearly :: int

definition DEFAULT_RETENTION :: retentionPolicy where
  "DEFAULT_RETENTION =
     \<lparr>keepLast = 7, keepDaily = 0, keepWeekly = 0, keepMonthly = 0, keepYearly = 0\<rparr>"

definition parseRetention :: "jval \<Rightarrow> retentionPolicy" where
  "parseRetention value =
     (case value of
        JNum n \<Rightarrow> DEFAULT_RETENTION\<lparr>keepLast := clampInt (JNum n) 0 9999 7\<rparr>
      | _ \<Rightarrow>
        if \<not> is_object value then DEFAULT_RETENTION
        else \<lparr>keepLast = clampInt (jprop value ''keepLast'') 0 9999 0,
              keepDaily = clampInt (jprop value ''keepDaily'') 0 9999 0,
              keepWeekly = clampInt (jprop value ''keepWeekly'') 0 9999 0,
              keepMonthly = clampInt (jprop value ''keepMonthly'') 0 9999 0,
              keepYearly = clampInt (jprop value ''keepYearly'') 0 9999 0\<rparr>)"

definition isSimpleRetention :: "retentionPolicy \<Rightarrow> bool" where
  "isSimpleRetention r \<longleftrightarrow>
     keepDaily r = 0 \<and> keepWeekly r = 0 \<and> keepMonthly r = 0 \<and> keepYearly r = 0"

definition retentionRuleCount :: "retentionPolicy \<Rightarrow> int" where
  "retentionRuleCount r = keepLast r + keepDaily r + keepWeekly r + keepMonthly r + keepYearly r"

definition retentionParts :: "retentionPolicy \<Rightarrow> string list" where
  "retentionParts r =
     (if keepLast r > 0 then [''Keep last '' @ int_str (keepLast r)] else []) @
     (if keepDaily r > 0 then [int_str (keepDaily r) @ '' daily''] else []) @
     (if keepWeekly r > 0 then [int_str (keepWeekly r) @ '' weekly''] else []) @
     (if keepMonthly r > 0 then [int_str (keepMonthly r) @ '' monthly''] else []) @
     (if keepYearly r > 0 then [int_str (keepYearly r) @ '' yearly''] else [])"

definition describeRetention :: "jval \<Rightarrow> string" where
  "describeRetention value =
     (let parts = retentionParts (parseRetention value)
      in if parts = [] then ''Keeps nothing''
         else join_with ('' '' @ middle_dot @ '' '') parts)"

subsection \<open>The wire forms and validity\<close>

fun window_val :: "backupWindow option \<Rightarrow> jval" where
  "window_val None = JNull"
| "window_val (Some w) = JObj [(''start'', JStr (win_start w)), (''end'', JStr (win_end w))]"

fun quiesce_str :: "quiesce \<Rightarrow> string" where
  "quiesce_str NoQuiesce = ''none''"
| "quiesce_str GuestAgent = ''guest-agent''"

definition policy_val :: "jobPolicy \<Rightarrow> jval" where
  "policy_val p = JObj
     [(''quiesce'', JStr (quiesce_str (p_quiesce p))),
      (''excludeDisks'', JArr (map JStr (p_excludeDisks p))),
      (''excludePaths'', JArr (map JStr (p_excludePaths p))),
      (''retryCount'', JNum (jsint (p_retryCount p))),
      (''retryDelayMinutes'', JNum (jsint (p_retryDelayMinutes p))),
      (''maxDurationMinutes'', JNum (jsint (p_maxDurationMinutes p))),
      (''window'', window_val (p_window p)),
      (''preScript'', JStr (p_preScript p)), (''postScript'', JStr (p_postScript p)),
      (''scriptTimeoutSeconds'', JNum (jsint (p_scriptTimeoutSeconds p))),
      (''uploadLimitMbpsOverride'', JNum (jsint (p_uploadLimitMbpsOverride p)))]"

definition token_list :: "string list \<Rightarrow> bool" where
  "token_list xs \<longleftrightarrow> (\<forall>x \<in> set xs. x \<noteq> [] \<and> trim x = x)"

definition valid_policy :: "jobPolicy \<Rightarrow> bool" where
  "valid_policy p \<longleftrightarrow>
     token_list (p_excludeDisks p) \<and> token_list (p_excludePaths p) \<and>
     0 \<le> p_retryCount p \<and> p_retryCount p \<le> 5 \<and>
     1 \<le> p_retryDelayMinutes p \<and> p_retryDelayMinutes p \<le> 120 \<and>
     0 \<le> p_maxDurationMinutes p \<and> p_maxDurationMinutes p \<le> 10080 \<and>
     (case p_window p of None \<Rightarrow> True | Some w \<Rightarrow> HHMM (win_start w) \<and> HHMM (win_end w)) \<and>
     1 \<le> p_scriptTimeoutSeconds p \<and> p_scriptTimeoutSeconds p \<le> 3600 \<and>
     0 \<le> p_uploadLimitMbpsOverride p \<and> p_uploadLimitMbpsOverride p \<le> 10000"

definition retention_val :: "retentionPolicy \<Rightarrow> jval" where
  "retention_val r = JObj
     [(''keepLast'', JNum (jsint (keepLast r))), (''keepDaily'', JNum (jsint (keepDaily r))),
      (''keepWeekly'', JNum (jsint (keepWeekly r))), (''keepMonthly'', JNum (jsint (keepMonthly r))),
      (''keepYearly'', JNum (jsint (keepYearly r)))]"

definition keep_ok :: "int \<Rightarrow> bool" where
  "keep_ok n \<longleftrightarrow> 0 \<le> n \<and> n \<le> 9999"

definition valid_retention :: "retentionPolicy \<Rightarrow> bool" where
  "valid_retention r \<longleftrightarrow>
     keep_ok (keepLast r) \<and> keep_ok (keepDaily r) \<and> keep_ok (keepWeekly r) \<and>
     keep_ok (keepMonthly r) \<and> keep_ok (keepYearly r)"

subsection \<open>The normaliser contracts\<close>

lemma stringList_tokens: "token_list (stringList v)"
  by (auto simp: token_list_def stringList_def)

lemma map_filter_str_of [simp]: "List.map_filter str_of (map JStr xs) = xs"
  by (induction xs) (auto simp: List.map_filter_simps)

lemma stringList_val: "token_list xs \<Longrightarrow> stringList (JArr (map JStr xs)) = xs"
  by (auto simp: token_list_def stringList_def intro!: trans [OF filter_True] map_idI)

lemma HHMM_nonempty: "HHMM t \<Longrightarrow> t \<noteq> []"
  by (cases t rule: HHMM.cases) auto

lemma timeOf_empty: "timeOf v [] \<noteq> [] \<Longrightarrow> HHMM (timeOf v [])"
  by (auto simp: timeOf_def split: jval.splits if_splits)

lemma windowOf_valid:
  "case windowOf v of None \<Rightarrow> True | Some w \<Rightarrow> HHMM (win_start w) \<and> HHMM (win_end w)"
  by (auto simp: windowOf_def Let_def timeOf_empty)

lemma windowOf_val:
  "(case w of None \<Rightarrow> True | Some x \<Rightarrow> HHMM (win_start x) \<and> HHMM (win_end x)) \<Longrightarrow>
   windowOf (window_val w) = w"
  by (cases w) (auto simp: windowOf_def HHMM_nonempty)

interpretation policy_norm: normaliser parsePolicy policy_val valid_policy
proof unfold_locales
  show "valid_policy (parsePolicy v)" for v
  proof (cases "is_object v")
    case True
    then show ?thesis
      using clampInt_bounds [of 0 5 0] clampInt_bounds [of 1 120 5] clampInt_bounds [of 0 10080 0]
        clampInt_bounds [of 1 3600 30] clampInt_bounds [of 0 10000 0] windowOf_valid
      by (simp add: parsePolicy_def valid_policy_def stringList_tokens)
  next
    case False
    then show ?thesis
      by (simp add: parsePolicy_def valid_policy_def DEFAULT_POLICY_def token_list_def)
  qed
  show "parsePolicy (policy_val p) = p" if "valid_policy p" for p
  proof -
    have q: "(if JStr (quiesce_str (p_quiesce p)) = JStr ''guest-agent'' then GuestAgent
              else NoQuiesce) = p_quiesce p"
      by (cases "p_quiesce p") simp_all
    show ?thesis
      using that q
      by (cases p) (simp add: parsePolicy_def policy_val_def valid_policy_def stringList_val
          windowOf_val str_or_empty_def)
  qed
qed

interpretation ret_norm: normaliser parseRetention retention_val valid_retention
proof unfold_locales
  show "valid_retention (parseRetention v)" for v
    using clampInt_bounds [of 0 9999 7] clampInt_bounds [of 0 9999 0]
    by (cases v) (simp_all add: parseRetention_def valid_retention_def keep_ok_def
        DEFAULT_RETENTION_def)
  show "parseRetention (retention_val r) = r" if "valid_retention r" for r
    using that by (cases r)
      (simp add: parseRetention_def retention_val_def valid_retention_def keep_ok_def)
qed

subsection \<open>Summaries\<close>

text \<open>On a valid policy the "nothing departs from the defaults" test agrees with an empty
  summary, for the exclusions that belong to the job's kind.\<close>

lemma policyHighlights_default: "isDefaultPolicy p \<Longrightarrow> policyHighlights p k = []"
  by (simp add: isDefaultPolicy_def policyHighlights_def DEFAULT_POLICY_def)

lemma join_with_eq_Nil:
  "\<forall>x \<in> set xs. x \<noteq> [] \<Longrightarrow> join_with sep xs = [] \<longleftrightarrow> xs = []"
  by (induction sep xs rule: join_with.induct) auto

lemma retentionParts_Nil:
  "valid_retention r \<Longrightarrow> retentionParts r = [] \<longleftrightarrow> retentionRuleCount r = 0"
  by (auto simp: valid_retention_def keep_ok_def retentionParts_def retentionRuleCount_def)

subsection \<open>Properties\<close>

text \<open>
  Whatever a \<open>policy\<close> field holds, \<open>parsePolicy\<close> gives
  a policy within the contract's limits (0 to 5 retries, 1 to 120 minutes between them, HH:MM
  windows, trimmed non-empty exclusions), reading back what the console writes changes nothing,
  and no other policy can be read.
\<close>

theorem parsePolicy_normalises:
  "valid_policy (parsePolicy v) \<and> parsePolicy (policy_val (parsePolicy v)) = parsePolicy v \<and>
   (valid_policy p \<longleftrightarrow> (\<exists>w. parsePolicy w = p))"
  using policy_norm.parse_valid [of v] policy_norm.parse_idem [of v]
    policy_norm.valid_iff_range [of p] by auto

text \<open>
  \<open>parseRetention\<close> reads a bare integer, a partial object or
  anything else into five counters between 0 and 9999, and reads back what the console writes.
\<close>

theorem parseRetention_normalises:
  "valid_retention (parseRetention v) \<and>
   parseRetention (retention_val (parseRetention v)) = parseRetention v \<and>
   (valid_retention r \<longleftrightarrow> (\<exists>w. parseRetention w = r))"
  using ret_norm.parse_valid [of v] ret_norm.parse_idem [of v]
    ret_norm.valid_iff_range [of r] by auto

lemma retentionParts_start:
  assumes "retentionParts r = x # xs"
  shows "\<exists>c t. x = c # t \<and> (starts_with ''Keep '' x \<or> is_digit c \<or> c = CHR ''-'')"
proof -
  have d: "\<exists>c t. int_str k @ s = c # t \<and> (is_digit c \<or> c = CHR ''-'')" for k s
    using int_str_start [of k] by auto
  show ?thesis
    using assms d
    by (fastforce simp: retentionParts_def starts_with_def split: if_splits)
qed

lemma join_with_Cons: "\<exists>t. join_with sep (x # xs) = x @ t"
  by (cases xs) auto

text \<open>
  The summary tells the truth about an empty policy: the retention summary reads "Keeps
  nothing" exactly when no rule keeps anything.
\<close>

theorem describeRetention_nothing:
  "describeRetention v = ''Keeps nothing'' \<longleftrightarrow> retentionRuleCount (parseRetention v) = 0"
proof (cases "retentionParts (parseRetention v)")
  case Nil
  then show ?thesis
    using retentionParts_Nil [OF ret_norm.parse_valid, of v] by (simp add: describeRetention_def)
next
  case (Cons x xs)
  then have "retentionRuleCount (parseRetention v) \<noteq> 0"
    using retentionParts_Nil [OF ret_norm.parse_valid, of v] by simp
  moreover have "describeRetention v \<noteq> ''Keeps nothing''"
  proof -
    obtain t where t: "describeRetention v = x @ t"
      using Cons join_with_Cons by (fastforce simp: describeRetention_def)
    obtain c u where "x = c # u" "starts_with ''Keep '' x \<or> is_digit c \<or> c = CHR ''-''"
      using retentionParts_start [OF Cons] by blast
    then have "starts_with ''Keep '' (describeRetention v) \<or> hd (describeRetention v) \<noteq> CHR ''K''"
      using t starts_with_append [of "''Keep ''" x t] by (auto simp: is_digit_def)
    then show ?thesis by (auto simp: starts_with_def)
  qed
  ultimately show ?thesis by simp
qed

text \<open>
  What "default" means: a policy counts as default exactly when it equals the default policy
  up to the retry delay and the script timeout, and then no highlight is shown for either kind of
  job; conversely a valid policy without a highlight for either kind is a default one.
\<close>

theorem isDefaultPolicy_iff:
  "(isDefaultPolicy p \<longleftrightarrow>
      p\<lparr>p_retryDelayMinutes := 5, p_scriptTimeoutSeconds := 30\<rparr> = DEFAULT_POLICY) \<and>
   (valid_policy p \<longrightarrow>
      (isDefaultPolicy p \<longleftrightarrow> policyHighlights p VmJob = [] \<and> policyHighlights p AgentJob = []))"
proof
  show "isDefaultPolicy p \<longleftrightarrow>
      p\<lparr>p_retryDelayMinutes := 5, p_scriptTimeoutSeconds := 30\<rparr> = DEFAULT_POLICY"
    by (cases p) (auto simp: isDefaultPolicy_def DEFAULT_POLICY_def)
  show "valid_policy p \<longrightarrow>
      (isDefaultPolicy p \<longleftrightarrow> policyHighlights p VmJob = [] \<and> policyHighlights p AgentJob = [])"
    by (cases "p_quiesce p"; cases "p_window p")
       (auto simp: isDefaultPolicy_def policyHighlights_def DEFAULT_POLICY_def valid_policy_def)
qed

theorem isDefaultPolicy_iff_witness:
  "valid_policy (DEFAULT_POLICY\<lparr>p_retryDelayMinutes := 60\<rparr>) \<and>
   isDefaultPolicy (DEFAULT_POLICY\<lparr>p_retryDelayMinutes := 60\<rparr>) \<and>
   policyHighlights (DEFAULT_POLICY\<lparr>p_retryDelayMinutes := 60\<rparr>) VmJob = []"
proof -
  have v: "valid_policy (DEFAULT_POLICY\<lparr>p_retryDelayMinutes := 60\<rparr>)"
    by (simp add: valid_policy_def DEFAULT_POLICY_def token_list_def)
  have d: "isDefaultPolicy (DEFAULT_POLICY\<lparr>p_retryDelayMinutes := 60\<rparr>)"
    by (simp add: isDefaultPolicy_def DEFAULT_POLICY_def)
  show ?thesis
    using v d isDefaultPolicy_iff [of "DEFAULT_POLICY\<lparr>p_retryDelayMinutes := 60\<rparr>"] by blast
qed

end
