(* ===== verification/Endpoints.thy ===== *)
theory Endpoints
  imports Transport Api_Roles Api_Targets Api_Runs Api_Policy
begin

text \<open>
  The endpoint functions of the REST client (\<open>web/src/api.ts\<close>, from setup and authentication to
  the download paths): one definition per exported function, over the \<open>fetch\<close> parameter. A
  function that only forwards returns the JSON value of the answer (TypeScript's type of it is an
  unchecked cast); one that normalises returns what it builds, and throws where reading a
  property of a missing answer throws.
\<close>

abbreviation opts :: "http_method \<Rightarrow> jval option \<Rightarrow> query option \<Rightarrow> nat option \<Rightarrow> requestOptions" where
  "opts m b q s \<equiv> \<lparr>op_method = m, op_body = b, op_query = q, op_signal = s\<rparr>"

abbreviation get :: requestOptions where "get \<equiv> opts GET None None None"
abbreviation post :: requestOptions where "post \<equiv> opts POST None None None"
abbreviation delete :: requestOptions where "delete \<equiv> opts DELETE None None None"
abbreviation post_body :: "jval \<Rightarrow> requestOptions" where "post_body b \<equiv> opts POST (Some b) None None"

text \<open>\<open>`/api/<collection>/${encodeURIComponent(String(id))}<rest>`\<close>.\<close>

definition item_path :: "string \<Rightarrow> js_id \<Rightarrow> string \<Rightarrow> string" where
  "item_path coll i rest = ''/api/'' @ coll @ ''/'' @ encodeURIComponent (id_str i) @ rest"

fun map_exn :: "('a \<Rightarrow> 'b exn) \<Rightarrow> 'a list \<Rightarrow> 'b list exn" where
  "map_exn f [] = Inr []"
| "map_exn f (x # xs) = bind_exn (f x) (\<lambda>y. bind_exn (map_exn f xs) (\<lambda>ys. Inr (y # ys)))"

definition opt_val :: "('a \<Rightarrow> jval) \<Rightarrow> 'a option \<Rightarrow> jval" where
  "opt_val f x = (case x of None \<Rightarrow> JUndef | Some a \<Rightarrow> f a)"

definition array_or_empty :: "jval \<Rightarrow> jval" where
  "array_or_empty v = (if is_array v then v else JArr [])"

subsection \<open>Setup and authentication\<close>

definition getSetupStatus :: "fetch \<Rightarrow> jval exn" where
  "getSetupStatus f = request f ''/api/setup/status'' get"

definition setup_account :: "fetch \<Rightarrow> string \<Rightarrow> string \<Rightarrow> jval exn" where
  "setup_account f username password =
     request f ''/api/setup''
       (post_body (JObj [(''username'', JStr username), (''password'', JStr password)]))"

definition login :: "fetch \<Rightarrow> string \<Rightarrow> string \<Rightarrow> jval exn" where
  "login f username password =
     request f ''/api/login''
       (post_body (JObj [(''username'', JStr username), (''password'', JStr password)]))"

definition logout :: "fetch \<Rightarrow> jval exn" where
  "logout f = request f ''/api/logout'' post"

definition getMe :: "fetch \<Rightarrow> jval exn" where
  "getMe f = request f ''/api/me'' get"

definition changePassword :: "fetch \<Rightarrow> string \<Rightarrow> string \<Rightarrow> jval exn" where
  "changePassword f current new =
     request f ''/api/me/password''
       (post_body (JObj [(''currentPassword'', JStr current), (''newPassword'', JStr new)]))"

subsection \<open>Users, audit, update\<close>

record userCreate =
  uc_username :: string
  uc_password :: string
  uc_role :: role

record userPatch =
  up_role :: "role option"
  up_password :: "string option"

definition normaliseUser :: "jval \<Rightarrow> jval exn" where
  "normaliseUser user =
     bind_exn (get_prop user ''role'') (\<lambda>r.
       Inr (JObj (set_prop ''role'' (JStr (role_str (parseRole r))) (spread user))))"

definition listUsers :: "fetch \<Rightarrow> nat option \<Rightarrow> jval list exn" where
  "listUsers f signal =
     bind_exn (request f ''/api/users'' (opts GET None None signal)) (\<lambda>users.
       if \<not> is_array users then Inr [] else map_exn normaliseUser (elems users))"

definition createUser :: "fetch \<Rightarrow> userCreate \<Rightarrow> jval exn" where
  "createUser f input =
     request f ''/api/users'' (post_body
       (JObj [(''username'', JStr (uc_username input)), (''password'', JStr (uc_password input)),
              (''role'', JStr (role_str (uc_role input)))]))"

definition patchUser :: "fetch \<Rightarrow> js_id \<Rightarrow> userPatch \<Rightarrow> jval exn" where
  "patchUser f i input =
     request f (item_path ''users'' i []) (opts PATCH
       (Some (JObj [(''role'', opt_val (\<lambda>r. JStr (role_str r)) (up_role input)),
                    (''password'', opt_val JStr (up_password input))])) None None)"

definition deleteUser :: "fetch \<Rightarrow> js_id \<Rightarrow> jval exn" where
  "deleteUser f i = request f (item_path ''users'' i []) delete"

record auditQuery =
  aq_limit :: "jsnum option"
  aq_action :: "string option"
  aq_actor :: "string option"

definition listAudit :: "fetch \<Rightarrow> auditQuery \<Rightarrow> nat option \<Rightarrow> auditEntry list exn" where
  "listAudit f q signal =
     bind_exn (request f ''/api/audit'' (opts GET None
         (Some [(''limit'', opt_val JNum (aq_limit q)), (''action'', opt_val JStr (aq_action q)),
                (''actor'', opt_val JStr (aq_actor q))]) signal))
       (\<lambda>entries. if \<not> is_array entries then Inr []
                  else Inr (map2 normaliseAuditEntry (elems entries) [0..<length (elems entries)]))"

definition getUpdateStatus :: "fetch \<Rightarrow> jval exn" where
  "getUpdateStatus f = request f ''/api/update/status'' get"

definition applyUpdate :: "fetch \<Rightarrow> bool \<Rightarrow> jval exn" where
  "applyUpdate f force =
     request f ''/api/update/apply''
       (opts POST None (if force then Some [(''force'', JNum (Fin 1))] else None) None)"

subsection \<open>Dashboard and posture\<close>

definition getDashboard :: "fetch \<Rightarrow> jval exn" where
  "getDashboard f = request f ''/api/dashboard'' get"

definition count_or_0 :: "jval \<Rightarrow> jval" where
  "count_or_0 v = JNum (if js_num_truthy (js_number v) then js_number v else Fin 0)"

definition normalisePosture :: "jval \<Rightarrow> jval exn" where
  "normalisePosture posture =
     bind_exn (get_prop posture ''counts'') (\<lambda>c.
       let counts = nullish_or c (JObj [(''protected'', JNum (Fin 0)), (''atRisk'', JNum (Fin 0)),
                                         (''unprotected'', JNum (Fin 0))])
       in Inr (JObj
            [(''verdict'', nullish_or (jprop posture ''verdict'') (JStr ''unknown'')),
             (''counts'', JObj [(''protected'', count_or_0 (jprop counts ''protected'')),
                                (''atRisk'', count_or_0 (jprop counts ''atRisk'')),
                                (''unprotected'', count_or_0 (jprop counts ''unprotected''))]),
             (''reasons'', array_or_empty (jprop posture ''reasons'')),
             (''workloads'', array_or_empty (jprop posture ''workloads''))]))"

definition getPosture :: "fetch \<Rightarrow> nat option \<Rightarrow> jval exn" where
  "getPosture f signal =
     bind_exn (request f ''/api/posture'' (opts GET None None signal)) normalisePosture"

subsection \<open>Hosts and virtual machines\<close>

record hostCreate =
  hc_name :: string
  hc_baseUrl :: string
  hc_tokenId :: string
  hc_tokenSecret :: string
  hc_insecureTLS :: bool

definition listHosts :: "fetch \<Rightarrow> jval exn" where
  "listHosts f = request f ''/api/hosts'' get"

definition createHost :: "fetch \<Rightarrow> hostCreate \<Rightarrow> jval exn" where
  "createHost f input =
     request f ''/api/hosts'' (post_body
       (JObj [(''name'', JStr (hc_name input)), (''baseUrl'', JStr (hc_baseUrl input)),
              (''tokenId'', JStr (hc_tokenId input)), (''tokenSecret'', JStr (hc_tokenSecret input)),
              (''insecureTLS'', JBool (hc_insecureTLS input))]))"

definition testHost :: "fetch \<Rightarrow> js_id \<Rightarrow> jval exn" where
  "testHost f i = request f (item_path ''hosts'' i ''/test'') post"

definition deleteHost :: "fetch \<Rightarrow> js_id \<Rightarrow> jval exn" where
  "deleteHost f i = request f (item_path ''hosts'' i []) delete"

definition getHostVMs :: "fetch \<Rightarrow> js_id \<Rightarrow> jval exn" where
  "getHostVMs f i = request f (item_path ''hosts'' i ''/vms'') get"

definition listVMs :: "fetch \<Rightarrow> jval exn" where
  "listVMs f = request f ''/api/vms'' get"

definition getFreeVMID :: "fetch \<Rightarrow> js_id \<Rightarrow> nat option \<Rightarrow> jval exn" where
  "getFreeVMID f hostId signal =
     request f (item_path ''hosts'' hostId ''/free-vmid'') (opts GET None None signal)"

subsection \<open>Storage targets\<close>

definition normaliseTarget :: "jval \<Rightarrow> jval exn" where
  "normaliseTarget target =
     bind_exn (get_prop target ''kind'') (\<lambda>k.
       Inr (JObj (set_prop ''kind'' (JStr (kind_str (parseTargetKind k))) (spread target))))"

definition listTargets :: "fetch \<Rightarrow> nat option \<Rightarrow> jval list exn" where
  "listTargets f signal =
     bind_exn (request f ''/api/targets'' (opts GET None None signal)) (\<lambda>targets.
       if is_array targets then map_exn normaliseTarget (elems targets) else Inr [])"

definition createTarget :: "fetch \<Rightarrow> targetCreate \<Rightarrow> jval exn" where
  "createTarget f input =
     bind_exn (request f ''/api/targets'' (post_body (targetCreate_body input))) normaliseTarget"

definition testResult :: "jval \<Rightarrow> jval" where
  "testResult result =
     (let raw = nullish_or result (JObj []);
          list = (if is_array (jprop raw ''warnings'') then elems (jprop raw ''warnings'') else []);
          fs = (case jprop raw ''filesystemType'' of JStr t \<Rightarrow> JStr t
                | _ \<Rightarrow> (case jprop raw ''fsType'' of JStr t \<Rightarrow> JStr t | _ \<Rightarrow> JUndef))
      in JObj (set_prop ''filesystemType'' fs
           (set_prop ''warnings'' (JArr (map warning_val (List.map_filter normaliseWarning list)))
             (set_prop ''ok'' (JBool (truthy (jprop raw ''ok''))) (spread result)))))"

definition testTarget :: "fetch \<Rightarrow> js_id \<Rightarrow> jval exn" where
  "testTarget f i =
     bind_exn (request f (item_path ''targets'' i ''/test'') post) (\<lambda>r. Inr (testResult r))"

definition deleteTarget :: "fetch \<Rightarrow> js_id \<Rightarrow> jval exn" where
  "deleteTarget f i = request f (item_path ''targets'' i []) delete"

subsection \<open>Jobs\<close>

definition listJobs :: "fetch \<Rightarrow> jval exn" where
  "listJobs f = request f ''/api/jobs'' get"

definition createJob :: "fetch \<Rightarrow> jval \<Rightarrow> jval exn" where
  "createJob f input = request f ''/api/jobs'' (post_body (JObj (spread input)))"

definition patchJob :: "fetch \<Rightarrow> js_id \<Rightarrow> jval \<Rightarrow> jval exn" where
  "patchJob f i input =
     request f (item_path ''jobs'' i []) (opts PATCH (Some (JObj (spread input))) None None)"

definition deleteJob :: "fetch \<Rightarrow> js_id \<Rightarrow> jval exn" where
  "deleteJob f i = request f (item_path ''jobs'' i []) delete"

definition runJob :: "fetch \<Rightarrow> js_id \<Rightarrow> jval exn" where
  "runJob f i = request f (item_path ''jobs'' i ''/run'') post"

definition normalisePreview :: "jval \<Rightarrow> jval exn" where
  "normalisePreview preview =
     bind_exn (get_prop preview ''keeps'') (\<lambda>keeps.
       Inr (JObj [(''keeps'', array_or_empty keeps),
                  (''prunes'', array_or_empty (jprop preview ''prunes''))]))"

definition getRetentionPreview ::
  "fetch \<Rightarrow> js_id \<Rightarrow> retentionPolicy option \<Rightarrow> nat option \<Rightarrow> jval exn" where
  "getRetentionPreview f jobId candidate signal =
     bind_exn (request f (item_path ''jobs'' jobId ''/retention-preview'')
         (opts GET None (map_option (\<lambda>c.
            [(''keepLast'', JNum (jsint (keepLast c))), (''keepDaily'', JNum (jsint (keepDaily c))),
             (''keepWeekly'', JNum (jsint (keepWeekly c))),
             (''keepMonthly'', JNum (jsint (keepMonthly c))),
             (''keepYearly'', JNum (jsint (keepYearly c)))]) candidate) signal))
       normalisePreview"

subsection \<open>Runs\<close>

definition listRuns :: "fetch \<Rightarrow> js_id option \<Rightarrow> jsnum option \<Rightarrow> nat option \<Rightarrow> jval exn" where
  "listRuns f jobId limit signal =
     request f ''/api/runs''
       (opts GET None (Some [(''jobId'', opt_val id_val jobId), (''limit'', opt_val JNum limit)]) signal)"

definition finite_or_0 :: "jval \<Rightarrow> jval" where
  "finite_or_0 v = (case v of JNum n \<Rightarrow> if js_is_finite n then v else JNum (Fin 0) | _ \<Rightarrow> JNum (Fin 0))"

definition normaliseRun :: "jval \<Rightarrow> jval exn" where
  "normaliseRun detail =
     bind_exn (get_prop detail ''destination'') (\<lambda>d.
       let destination = nullish_or d (nullish_or (jprop detail ''restore'') JNull)
       in Inr (JObj
            (set_prop ''destination'' (if is_object destination then destination else JNull)
              (set_prop ''throughputBps'' (finite_or_0 (jprop detail ''throughputBps''))
                (set_prop ''sources'' (array_or_empty (jprop detail ''sources'')) (spread detail))))))"

definition getRun :: "fetch \<Rightarrow> js_id \<Rightarrow> nat option \<Rightarrow> jval exn" where
  "getRun f i signal =
     bind_exn (request f (item_path ''runs'' i []) (opts GET None None signal)) normaliseRun"

definition cancelRun :: "fetch \<Rightarrow> js_id \<Rightarrow> jval exn" where
  "cancelRun f i = request f (item_path ''runs'' i ''/cancel'') post"

definition retryRun :: "fetch \<Rightarrow> js_id \<Rightarrow> jval exn" where
  "retryRun f i = request f (item_path ''runs'' i ''/retry'') post"

definition getRunLog :: "fetch \<Rightarrow> js_id \<Rightarrow> nat option \<Rightarrow> jval exn" where
  "getRunLog f i signal = request f (item_path ''runs'' i ''/log'') (opts GET None None signal)"

definition deleteRun :: "fetch \<Rightarrow> js_id \<Rightarrow> jval exn" where
  "deleteRun f i = request f (item_path ''runs'' i []) delete"

datatype clearRunsScope = ClearFinished | ClearFailed

fun scope_str :: "clearRunsScope \<Rightarrow> string" where
  "scope_str ClearFinished = ''finished''"
| "scope_str ClearFailed = ''failed''"

definition clearRuns :: "fetch \<Rightarrow> clearRunsScope \<Rightarrow> js_id option \<Rightarrow> jval exn" where
  "clearRuns f scope jobId =
     request f ''/api/runs/clear'' (post_body
       (JObj ((''scope'', JStr (scope_str scope)) #
              (case jobId of None \<Rightarrow> [] | Some j \<Rightarrow> [(''jobId'', id_val j)]))))"

subsection \<open>Restore points\<close>

record backupQuery =
  bq_sourceKind :: "string option"
  bq_sourceId :: "js_id option"
  bq_targetId :: "js_id option"

definition listBackups :: "fetch \<Rightarrow> backupQuery \<Rightarrow> jval exn" where
  "listBackups f q =
     request f ''/api/backups'' (opts GET None
       (Some [(''sourceKind'', opt_val JStr (bq_sourceKind q)),
              (''sourceId'', opt_val id_val (bq_sourceId q)),
              (''targetId'', opt_val id_val (bq_targetId q))]) None)"

definition verifyBackup :: "fetch \<Rightarrow> js_id \<Rightarrow> jval exn" where
  "verifyBackup f i = request f (item_path ''backups'' i ''/verify'') post"

definition deleteBackup :: "fetch \<Rightarrow> js_id \<Rightarrow> jval exn" where
  "deleteBackup f i = request f (item_path ''backups'' i []) delete"

definition browseBackup ::
  "fetch \<Rightarrow> js_id \<Rightarrow> string option \<Rightarrow> string option \<Rightarrow> jsnum option \<Rightarrow> jval exn" where
  "browseBackup f i path search limit =
     request f (item_path ''backups'' i ''/files'') (opts GET None
       (Some [(''path'', opt_val JStr path), (''search'', opt_val JStr search),
              (''limit'', opt_val JNum limit)]) None)"

definition backupFileURL :: "js_id \<Rightarrow> string \<Rightarrow> string" where
  "backupFileURL i path =
     item_path ''backups'' i ''/files/download'' @ ''?path='' @ encodeURIComponent path"

definition createRestore :: "fetch \<Rightarrow> jval \<Rightarrow> jval exn" where
  "createRestore f input = request f ''/api/restores'' (post_body (JObj (spread input)))"

subsection \<open>Agents and helpers\<close>

definition listAgents :: "fetch \<Rightarrow> jval exn" where
  "listAgents f = request f ''/api/agents'' get"

definition createEnrollToken :: "fetch \<Rightarrow> jval exn" where
  "createEnrollToken f = request f ''/api/agents/enroll-token'' post"

record helperDeployRequest =
  hd_hostId :: js_id
  hd_node :: string
  hd_address :: string
  hd_port :: "jsnum option"
  hd_username :: string
  hd_password :: string
  hd_serverUrl :: string
  hd_helperPort :: "jsnum option"
  hd_hostKeyFingerprint :: "string option"

definition deployFingerprintOf :: "js_error \<Rightarrow> string option" where
  "deployFingerprintOf err =
     (case err of
        ApiError st _ _ body \<Rightarrow>
          if st \<noteq> Fin 409 then None
          else (case (if nullish body then JUndef else jprop body ''fingerprint'') of
                  JStr fp \<Rightarrow> if fp \<noteq> [] then Some fp else None
                | _ \<Rightarrow> None)
      | _ \<Rightarrow> None)"

definition deployHelper :: "fetch \<Rightarrow> helperDeployRequest \<Rightarrow> jval exn" where
  "deployHelper f r =
     request f ''/api/helpers/deploy'' (post_body
       (JObj [(''hostId'', id_val (hd_hostId r)), (''node'', JStr (hd_node r)),
              (''address'', JStr (hd_address r)), (''port'', opt_val JNum (hd_port r)),
              (''username'', JStr (hd_username r)), (''password'', JStr (hd_password r)),
              (''serverUrl'', JStr (hd_serverUrl r)), (''helperPort'', opt_val JNum (hd_helperPort r)),
              (''hostKeyFingerprint'', opt_val JStr (hd_hostKeyFingerprint r))]))"

definition listHelpers :: "fetch \<Rightarrow> jval exn" where
  "listHelpers f = request f ''/api/helpers'' get"

definition createHelperEnrollToken :: "fetch \<Rightarrow> js_id \<Rightarrow> jval exn" where
  "createHelperEnrollToken f hostId =
     request f ''/api/helpers/enroll-token'' (post_body (JObj [(''hostId'', id_val hostId)]))"

definition assignHelper :: "fetch \<Rightarrow> js_id \<Rightarrow> js_id \<Rightarrow> jval exn" where
  "assignHelper f i hostId =
     request f (item_path ''helpers'' i ''/assign'') (post_body (JObj [(''hostId'', id_val hostId)]))"

definition deleteHelper :: "fetch \<Rightarrow> js_id \<Rightarrow> jval exn" where
  "deleteHelper f i = request f (item_path ''helpers'' i []) delete"

definition deleteAgent :: "fetch \<Rightarrow> js_id \<Rightarrow> jval exn" where
  "deleteAgent f i = request f (item_path ''agents'' i []) delete"

subsection \<open>Settings\<close>

datatype notifyOn = NotifyOff | NotifyFailures | NotifyAll
datatype compression = Zstd | NoCompression

fun notify_str :: "notifyOn \<Rightarrow> string" where
  "notify_str NotifyOff = ''off''"
| "notify_str NotifyFailures = ''failures''"
| "notify_str NotifyAll = ''all''"

fun compression_str :: "compression \<Rightarrow> string" where
  "compression_str Zstd = ''zstd''"
| "compression_str NoCompression = ''off''"

record settings =
  st_serverName :: string
  st_concurrency :: jsnum
  st_webhookUrl :: string
  st_notifyOn :: notifyOn
  st_uploadConcurrency :: jsnum
  st_compression :: compression
  st_uploadLimitMbps :: jsnum
  st_timezone :: "string option"

definition getSettings :: "fetch \<Rightarrow> jval exn" where
  "getSettings f = request f ''/api/settings'' get"

definition writable_settings :: "settings \<Rightarrow> jval" where
  "writable_settings s =
     JObj [(''serverName'', JStr (st_serverName s)), (''concurrency'', JNum (st_concurrency s)),
           (''webhookUrl'', JStr (st_webhookUrl s)), (''notifyOn'', JStr (notify_str (st_notifyOn s))),
           (''uploadConcurrency'', JNum (st_uploadConcurrency s)),
           (''compression'', JStr (compression_str (st_compression s))),
           (''uploadLimitMbps'', JNum (st_uploadLimitMbps s))]"

definition putSettings :: "fetch \<Rightarrow> settings \<Rightarrow> jval exn" where
  "putSettings f input =
     request f ''/api/settings'' (opts PUT (Some (writable_settings input)) None None)"

definition testWebhook :: "fetch \<Rightarrow> jval exn" where
  "testWebhook f = request f ''/api/settings/test-webhook'' post"

definition AGENT_DOWNLOADS :: "(string \<times> string) list" where
  "AGENT_DOWNLOADS =
     [(''linux'', ''/downloads/proxback-agent-linux-amd64''),
      (''windows'', ''/downloads/proxback-agent-windows-amd64.exe'')]"

definition HELPER_DOWNLOAD :: string where
  "HELPER_DOWNLOAD = ''/downloads/proxback-helper-linux-amd64''"

subsection \<open>Lemmas\<close>

lemma jprop_set_prop: "jprop (JObj (set_prop k x ps)) k' = (if k' = k then x else jprop (JObj ps) k')"
  by simp

lemma is_array_array_or_empty [simp]: "is_array (array_or_empty v)"
  by (simp add: array_or_empty_def)

lemma map_exn_Inr: "map_exn f xs = Inr ys \<Longrightarrow> list_all2 (\<lambda>x y. f x = Inr y) xs ys"
  by (induction xs arbitrary: ys) auto

lemma encodeURIComponent_dots:
  "encodeURIComponent s = ''.'' \<longleftrightarrow> s = ''.''" "encodeURIComponent s = ''..'' \<longleftrightarrow> s = ''..''"
proof -
  have "encodeURIComponent ''.'' = ''.''" "encodeURIComponent ''..'' = ''..''"
    by (simp_all add: encodeURIComponent_def uri_enc_def uri_keep_def)
  then show "encodeURIComponent s = ''.'' \<longleftrightarrow> s = ''.''"
    "encodeURIComponent s = ''..'' \<longleftrightarrow> s = ''..''"
    by (metis encodeURIComponent_inject)+
qed

lemma split_on_segs:
  "\<forall>s \<in> set segs. c \<notin> set s \<Longrightarrow> c \<notin> set p \<Longrightarrow>
   split_on c (p @ concat (map ((#) c) segs)) = p # segs"
proof (induction segs arbitrary: p)
  case (Cons s segs)
  then have "split_on c (s @ concat (map ((#) c) segs)) = s # segs" by simp
  with Cons.prems split_on_append [of c p "s @ concat (map ((#) c) segs)"] show ?case by simp
qed (simp add: split_on_single)

lemma encoded_id_no_slash: "CHR ''/'' \<notin> set (encodeURIComponent s)"
  using encodeURIComponent_safe url_safe_simps(1) by blast

subsection \<open>Properties\<close>

text \<open>
  An id addresses one resource: the path of an item endpoint splits at its slashes into the
  API root, the collection, one segment for the id and the fixed rest, whatever characters the id
  holds; that segment holds no delimiter of a URL, decodes to the id, and different ids give
  different paths. Only the ids "." and ".." leave a dot segment.
\<close>

theorem item_path_addresses:
  assumes "CHR ''/'' \<notin> set coll" "\<forall>s \<in> set segs. CHR ''/'' \<notin> set s"
  shows "split_on (CHR ''/'') (item_path coll i (concat (map ((#) (CHR ''/'')) segs))) =
           [] # ''api'' # coll # encodeURIComponent (id_str i) # segs \<and>
         pct_decode False (encodeURIComponent (id_str i)) = id_str i \<and>
         set (encodeURIComponent (id_str i)) \<inter> set ''/?#&= '' = {} \<and>
         (item_path coll i r = item_path coll j r \<longleftrightarrow> id_str i = id_str j) \<and>
         (encodeURIComponent (id_str i) \<in> {''.'', ''..''} \<longleftrightarrow> id_str i \<in> {''.'', ''..''})"
proof (intro conjI)
  have "split_on (CHR ''/'') (encodeURIComponent (id_str i) @ concat (map ((#) (CHR ''/'')) segs)) =
      encodeURIComponent (id_str i) # segs"
    using assms(2) encoded_id_no_slash by (rule split_on_segs)
  then show "split_on (CHR ''/'') (item_path coll i (concat (map ((#) (CHR ''/'')) segs))) =
      [] # ''api'' # coll # encodeURIComponent (id_str i) # segs"
    using split_on_append [OF assms(1)] by (simp add: item_path_def)
  show "set (encodeURIComponent (id_str i)) \<inter> set ''/?#&= '' = {}"
    using encodeURIComponent_safe [of _ "id_str i"] url_safe_simps by auto
qed (auto simp: item_path_def encodeURIComponent_dots)

theorem item_path_addresses_witness:
  "split_on (CHR ''/'') (item_path ''jobs'' (IdStr ''a/../b?x'') ''/run'') =
     [[], ''api'', ''jobs'', encodeURIComponent ''a/../b?x'', ''run'']"
  using item_path_addresses [of "''jobs''" "[''run'']" "IdStr ''a/../b?x''" "[]" "IdStr []"] by simp

text \<open>
  Posture is never green by omission: reading the posture fails exactly when there is no
  answer at all; otherwise a missing verdict is "unknown", a given one is passed on, the counts are
  numbers and the reasons and workloads are lists.
\<close>

theorem normalisePosture_total:
  "(case normalisePosture v of
      Inl _ \<Rightarrow> nullish v
    | Inr p \<Rightarrow> \<not> nullish v \<and>
        jprop p ''verdict'' = (if nullish (jprop v ''verdict'') then JStr ''unknown'' else jprop v ''verdict'') \<and>
        is_array (jprop p ''reasons'') \<and> is_array (jprop p ''workloads'') \<and>
        (\<exists>a b c. jprop (jprop p ''counts'') ''protected'' = JNum a \<and> a \<noteq> NaN \<and>
           jprop (jprop p ''counts'') ''atRisk'' = JNum b \<and> b \<noteq> NaN \<and>
           jprop (jprop p ''counts'') ''unprotected'' = JNum c \<and> c \<noteq> NaN))"
  by (cases "nullish v")
     (auto simp: normalisePosture_def get_prop_def nullish_or_def count_or_0_def js_num_truthy_def
      Let_def)

text \<open>
  Connection tests are normalised: the result of a connection test always has a Boolean \<open>ok\<close>
  and a list of warnings, each with a non-empty code and message, in the order the server sent the
  readable ones.
\<close>

theorem testResult_normalised:
  "(\<exists>b. jprop (testResult r) ''ok'' = JBool b) \<and>
   (\<exists>ws. jprop (testResult r) ''warnings'' = JArr (map warning_val ws) \<and>
      ws = List.map_filter normaliseWarning (elems (jprop r ''warnings'')) \<and>
      list_all (\<lambda>w. w_code w \<noteq> [] \<and> w_message w \<noteq> []) ws)"
proof -
  have raw: "jprop (nullish_or r (JObj [])) k = jprop r k" for k
    by (cases r) (auto simp: nullish_or_def)
  have el: "(if is_array v then elems v else []) = elems v" for v by (cases v) auto
  have ne: "list_all (\<lambda>w. w_code w \<noteq> [] \<and> w_message w \<noteq> []) (List.map_filter normaliseWarning vs)" for vs
    using normaliseWarning_nonempty by (fastforce simp: List.map_filter_def list_all_iff)
  show ?thesis using ne
    by (auto simp: testResult_def Let_def raw el simp del: jprop.simps simp add: jprop_set_prop)
qed

text \<open>
  Run details are normalised: a run that was read has a list of sources, a finite throughput
  and a destination that is an object or null; reading fails only when there is no answer.
\<close>

theorem normaliseRun_total:
  "(case normaliseRun v of
      Inl _ \<Rightarrow> nullish v
    | Inr d \<Rightarrow> is_array (jprop d ''sources'') \<and>
        (\<exists>x. jprop d ''throughputBps'' = JNum (Fin x)) \<and>
        (is_object (jprop d ''destination'') \<or> jprop d ''destination'' = JNull))"
  by (cases "nullish v")
     (auto simp: normaliseRun_def get_prop_def Let_def finite_or_0_def js_is_finite_iff
      jprop_set_prop simp del: jprop.simps split: jval.splits)

text \<open>
  The server's time zone is never written back: saving settings sends the same body whatever
  the read-only time zone is, and that body has no such member.
\<close>

theorem putSettings_no_timezone:
  "putSettings f (s\<lparr>st_timezone := z\<rparr>) = putSettings f s \<and>
   \<not> has_key (writable_settings s) ''timezone''"
  by (simp add: putSettings_def writable_settings_def)

text \<open>A network that answers every request with one JSON value, for the runs of concrete screens.\<close>

definition answering :: "jval \<Rightarrow> fetch" where
  "answering v req = Inr \<lparr>rs_status = 200, rs_text = Inr (json_str v)\<rparr>"

lemma json_str_nonempty: "plain v \<Longrightarrow> json_str v \<noteq> []"
proof
  assume "plain v" "json_str v = []"
  then have "json_parse [] = Some v" using json_parse_json_str [of v] by simp
  moreover have "json_parse [] = None" by code_simp
  ultimately show False by simp
qed

lemma request_answering: "plain v \<Longrightarrow> request (answering v) path options = Inr v"
  using json_str_nonempty [of v] json_parse_json_str [of v]
  by (simp add: request_def answering_def res_ok_def read_body_def Let_def)

end
