(* ===== verification/Js_Date.thy ===== *)
theory Js_Date
  imports Js_Number
begin

text \<open>
  JavaScript's \<open>Date\<close>: time values in milliseconds since the epoch as integers (\<open>None\<close> the invalid
  date), the proleptic Gregorian calendar of the language, and the component getters, setters and
  the constructor the sources use. The time zone of the machine is a parameter: a record with the
  two conversions \<open>LocalTime\<close> and \<open>UTC\<close> of the language.
\<close>

subsection \<open>Days, years and months\<close>

definition ms_per_day :: int where
  "ms_per_day = 86400000"

definition day_of :: "int \<Rightarrow> int" where
  "day_of t = t div ms_per_day"

definition time_within_day :: "int \<Rightarrow> int" where
  "time_within_day t = t mod ms_per_day"

definition leap_year :: "int \<Rightarrow> bool" where
  "leap_year y \<longleftrightarrow> y mod 4 = 0 \<and> y mod 100 \<noteq> 0 \<or> y mod 400 = 0"

definition day_from_year :: "int \<Rightarrow> int" where
  "day_from_year y =
     365 * (y - 1970) + (y - 1969) div 4 - (y - 1901) div 100 + (y - 1601) div 400"

text \<open>The year a day falls in: an estimate from the mean length of the year, corrected by one.\<close>

definition year_from_day :: "int \<Rightarrow> int" where
  "year_from_day d =
     (let y = 1970 + d * 400 div 146097
      in if d < day_from_year y then y - 1
         else if day_from_year (y + 1) \<le> d then y + 1
         else y)"

definition month_length :: "bool \<Rightarrow> int \<Rightarrow> int" where
  "month_length leap m =
     (if m = 1 then (if leap then 29 else 28)
      else if m = 3 \<or> m = 5 \<or> m = 8 \<or> m = 10 then 30 else 31)"

definition month_start :: "bool \<Rightarrow> int \<Rightarrow> int" where
  "month_start leap m =
     (if m \<le> 0 then 0 else if m = 1 then 31
      else (if leap then 1 else 0) +
        (if m = 2 then 59 else if m = 3 then 90 else if m = 4 then 120 else if m = 5 then 151
         else if m = 6 then 181 else if m = 7 then 212 else if m = 8 then 243
         else if m = 9 then 273 else if m = 10 then 304 else if m = 11 then 334 else 365))"

definition month_in_year :: "bool \<Rightarrow> int \<Rightarrow> int" where
  "month_in_year leap n =
     (if n < month_start leap 1 then 0 else if n < month_start leap 2 then 1
      else if n < month_start leap 3 then 2 else if n < month_start leap 4 then 3
      else if n < month_start leap 5 then 4 else if n < month_start leap 6 then 5
      else if n < month_start leap 7 then 6 else if n < month_start leap 8 then 7
      else if n < month_start leap 9 then 8 else if n < month_start leap 10 then 9
      else if n < month_start leap 11 then 10 else 11)"

definition month_from_day :: "int \<Rightarrow> int" where
  "month_from_day d =
     (let y = year_from_day d in month_in_year (leap_year y) (d - day_from_year y))"

definition date_from_day :: "int \<Rightarrow> int" where
  "date_from_day d =
     (let y = year_from_day d; n = d - day_from_year y; leap = leap_year y
      in n - month_start leap (month_in_year leap n) + 1)"

text \<open>Day 0 of the epoch was a Thursday; Sunday is 0.\<close>

definition weekday_from_day :: "int \<Rightarrow> int" where
  "weekday_from_day d = (d + 4) mod 7"

subsection \<open>Making time values\<close>

definition make_time :: "int \<Rightarrow> int \<Rightarrow> int \<Rightarrow> int \<Rightarrow> int" where
  "make_time h m s ms = h * 3600000 + m * 60000 + s * 1000 + ms"

text \<open>Months outside 0 to 11 carry into the year, days outside the month into the month.\<close>

definition make_day :: "int \<Rightarrow> int \<Rightarrow> int \<Rightarrow> int" where
  "make_day y m d =
     (let ym = y + m div 12; mn = m mod 12
      in day_from_year ym + month_start (leap_year ym) mn + d - 1)"

definition make_date :: "int \<Rightarrow> int \<Rightarrow> int" where
  "make_date d t = d * ms_per_day + t"

definition time_clip :: "int \<Rightarrow> int option" where
  "time_clip t = (if \<bar>t\<bar> \<le> 8640000000000000 then Some t else None)"

subsection \<open>Local time\<close>

record zone =
  LocalTime :: "int \<Rightarrow> int"
  UTC :: "int \<Rightarrow> int"

definition fixed_zone :: "int \<Rightarrow> zone" where
  "fixed_zone off = \<lparr>LocalTime = (\<lambda>t. t + off), UTC = (\<lambda>t. t - off)\<rparr>"

definition getFullYear :: "zone \<Rightarrow> int \<Rightarrow> int" where
  "getFullYear z t = year_from_day (day_of (LocalTime z t))"

definition getMonth :: "zone \<Rightarrow> int \<Rightarrow> int" where
  "getMonth z t = month_from_day (day_of (LocalTime z t))"

definition getDate :: "zone \<Rightarrow> int \<Rightarrow> int" where
  "getDate z t = date_from_day (day_of (LocalTime z t))"

definition getDay :: "zone \<Rightarrow> int \<Rightarrow> int" where
  "getDay z t = weekday_from_day (day_of (LocalTime z t))"

definition hour_of :: "int \<Rightarrow> int" where
  "hour_of l = l div 3600000 mod 24"

definition minute_of :: "int \<Rightarrow> int" where
  "minute_of l = l div 60000 mod 60"

definition second_of :: "int \<Rightarrow> int" where
  "second_of l = l div 1000 mod 60"

definition getHours :: "zone \<Rightarrow> int \<Rightarrow> int" where
  "getHours z t = hour_of (LocalTime z t)"

definition getMinutes :: "zone \<Rightarrow> int \<Rightarrow> int" where
  "getMinutes z t = minute_of (LocalTime z t)"

text \<open>\<open>setSeconds(s, ms)\<close>, \<open>setMinutes(m)\<close>, \<open>setHours(h)\<close>, \<open>setHours(h, m)\<close>, \<open>setDate(d)\<close>: the other
  components are those of the local time.\<close>

definition setSeconds :: "zone \<Rightarrow> int \<Rightarrow> int \<Rightarrow> int \<Rightarrow> int option" where
  "setSeconds z t s ms =
     (let l = LocalTime z t
      in time_clip (UTC z (make_date (day_of l) (make_time (hour_of l) (minute_of l) s ms))))"

definition setMinutes :: "zone \<Rightarrow> int \<Rightarrow> int \<Rightarrow> int option" where
  "setMinutes z t m =
     (let l = LocalTime z t
      in time_clip (UTC z (make_date (day_of l) (make_time (hour_of l) m (second_of l) (l mod 1000)))))"

definition setHours1 :: "zone \<Rightarrow> int \<Rightarrow> int \<Rightarrow> int option" where
  "setHours1 z t h =
     (let l = LocalTime z t
      in time_clip (UTC z (make_date (day_of l) (make_time h (minute_of l) (second_of l) (l mod 1000)))))"

definition setHours :: "zone \<Rightarrow> int \<Rightarrow> int \<Rightarrow> int \<Rightarrow> int option" where
  "setHours z t h m =
     (let l = LocalTime z t
      in time_clip (UTC z (make_date (day_of l) (make_time h m (second_of l) (l mod 1000)))))"

definition setDate :: "zone \<Rightarrow> int \<Rightarrow> int \<Rightarrow> int option" where
  "setDate z t d =
     (let l = LocalTime z t
      in time_clip (UTC z (make_date
           (make_day (year_from_day (day_of l)) (month_from_day (day_of l)) d) (time_within_day l))))"

text \<open>\<open>new Date(y, m, d, h, mi, s, ms)\<close>: a year from 0 to 99 means one of the twentieth century.\<close>

definition newDate :: "zone \<Rightarrow> int \<Rightarrow> int \<Rightarrow> int \<Rightarrow> int \<Rightarrow> int \<Rightarrow> int \<Rightarrow> int \<Rightarrow> int option" where
  "newDate z y m d h mi s ms =
     (let yr = (if 0 \<le> y \<and> y \<le> 99 then 1900 + y else y)
      in time_clip (UTC z (make_date (make_day yr m d) (make_time h mi s ms))))"

subsection \<open>The calendar\<close>

lemma day_from_year_mean:
  "146097 * (y - 1970) - 608 < 400 * day_from_year y \<and>
   400 * day_from_year y < 146097 * (y - 1970) + 596"
proof -
  define a b c where "a = (y - 1969) div 4" and "b = (y - 1901) div 100" and "c = (y - 1601) div 400"
  have "4 * a \<le> y - 1969" "y - 1969 < 4 * a + 4"
    "100 * b \<le> y - 1901" "y - 1901 < 100 * b + 100"
    "400 * c \<le> y - 1601" "y - 1601 < 400 * c + 400"
    unfolding a_def b_def c_def by simp_all
  moreover have "day_from_year y = 365 * (y - 1970) + a - b + c"
    by (simp add: day_from_year_def a_def b_def c_def)
  ultimately show ?thesis by simp
qed


lemma div_succ_int:
  fixes n k :: int
  assumes "0 < k"
  shows "(n + 1) div k = n div k + (if (n + 1) mod k = 0 then 1 else 0)"
proof (cases "n mod k = k - 1")
  case True
  then have "n + 1 = k * (n div k + 1)"
    using mult_div_mod_eq [of k n] by (simp only: distrib_left)
  then show ?thesis using assms by (metis mod_mult_self1_is_0 nonzero_mult_div_cancel_left less_irrefl)
next
  case False
  have r: "0 \<le> n mod k" "n mod k < k" using assms by simp_all
  have e: "n + 1 = k * (n div k) + (n mod k + 1)" by simp
  have "(n + 1) div k = n div k" "(n + 1) mod k = n mod k + 1"
    using r False int_div_pos_eq [OF e] int_mod_pos_eq [OF e] by simp_all
  with r show ?thesis by simp
qed

lemma day_from_year_Suc:
  "day_from_year (y + 1) = day_from_year y + (if leap_year y then 366 else 365)"
proof -
  have dvd: "400 dvd y \<Longrightarrow> 100 dvd y" "100 dvd y \<Longrightarrow> 4 dvd y" by (auto intro: dvd_trans)
  have "(y - 1968) div 4 = (y - 1969) div 4 + (if 4 dvd y - 1968 then 1 else 0)"
    "(y - 1900) div 100 = (y - 1901) div 100 + (if 100 dvd y - 1900 then 1 else 0)"
    "(y - 1600) div 400 = (y - 1601) div 400 + (if 400 dvd y - 1600 then 1 else 0)"
    using div_succ_int [of 4 "y - 1969"] div_succ_int [of 100 "y - 1901"] div_succ_int [of 400 "y - 1601"]
    by (simp_all only: mod_eq_0_iff_dvd) simp_all
  moreover have "4 dvd y - 1968 \<longleftrightarrow> 4 dvd y" "100 dvd y - 1900 \<longleftrightarrow> 100 dvd y" "400 dvd y - 1600 \<longleftrightarrow> 400 dvd y"
    by (rule dvd_diff_left_iff, simp)+
  ultimately have d: "(y - 1968) div 4 = (y - 1969) div 4 + (if 4 dvd y then 1 else 0)"
    "(y - 1900) div 100 = (y - 1901) div 100 + (if 100 dvd y then 1 else 0)"
    "(y - 1600) div 400 = (y - 1601) div 400 + (if 400 dvd y then 1 else 0)" by (simp_all only:)
  have n: "y + 1 - 1970 = y - 1970 + 1" "y + 1 - 1969 = y - 1968" "y + 1 - 1901 = y - 1900" "y + 1 - 1601 = y - 1600" by simp_all
  have sum: "365 * (u + 1) + (i + a) - (j + b) + (k + c) = 365 * u + i - j + k + 365 + a - b + c" for u i j k a b c :: int by simp
  have "day_from_year (y + 1) =
      day_from_year y + 365 + (if 4 dvd y then 1 else 0) - (if 100 dvd y then 1 else 0) + (if 400 dvd y then 1 else 0)"
    unfolding day_from_year_def n d by (rule sum)
  moreover have "leap_year y \<longleftrightarrow> 4 dvd y \<and> \<not> 100 dvd y \<or> 400 dvd y" by (simp add: leap_year_def mod_eq_0_iff_dvd)
  ultimately show ?thesis using dvd by (cases "400 dvd y"; cases "100 dvd y"; cases "4 dvd y") simp_all
qed

lemma year_from_day_bounds:
  "day_from_year (year_from_day d) \<le> d \<and> d < day_from_year (year_from_day d + 1)"
proof -
  define y where "y = 1970 + d * 400 div 146097"
  have "146097 * (y - 1970) \<le> 400 * d" "400 * d < 146097 * (y - 1970) + 146097"
    unfolding y_def by simp_all
  with day_from_year_mean [of "y - 1"] day_from_year_mean [of "y + 2"]
    day_from_year_mean [of y] day_from_year_mean [of "y + 1"]
  show ?thesis by (auto simp: year_from_day_def y_def Let_def)
qed

lemma day_from_year_less: "y < y' \<Longrightarrow> day_from_year y < day_from_year y'"
proof (induction "nat (y' - y)" arbitrary: y')
  case (Suc n)
  have "day_from_year y \<le> day_from_year (y' - 1)"
    using Suc by (cases "y = y' - 1") (auto intro: less_imp_le)
  also have "\<dots> < day_from_year y'" using day_from_year_Suc [of "y' - 1"] by simp
  finally show ?case .
qed simp

lemma year_from_day_unique:
  assumes "day_from_year y \<le> d" "d < day_from_year (y + 1)"
  shows "year_from_day d = y"
  using assms year_from_day_bounds [of d]
    day_from_year_less [of "y + 1" "year_from_day d"] day_from_year_less [of "year_from_day d + 1" y]
  by (smt (verit))

lemma month_start_Suc:
  assumes "0 \<le> m" "m \<le> 11"
  shows "month_start leap (m + 1) = month_start leap m + month_length leap m"
proof -
  have "m = 0 \<or> m = 1 \<or> m = 2 \<or> m = 3 \<or> m = 4 \<or> m = 5 \<or> m = 6 \<or> m = 7 \<or> m = 8 \<or> m = 9 \<or>
    m = 10 \<or> m = 11" using assms by presburger
  then show ?thesis by (elim disjE) (simp_all add: month_start_def month_length_def)
qed

lemma month_start_ends:
  "month_start leap 0 = 0" "month_start leap 12 = (if leap then 366 else 365)"
  by (simp_all add: month_start_def)

lemma month_in_year_range: "0 \<le> month_in_year leap n \<and> month_in_year leap n \<le> 11"
  by (simp add: month_in_year_def)

lemma month_in_year_bounds:
  assumes "0 \<le> n" "n < (if leap then 366 else 365)"
  shows "month_start leap (month_in_year leap n) \<le> n \<and> n < month_start leap (month_in_year leap n + 1)"
proof -
  have "0 \<le> n" "n < month_start leap 12" using assms by (simp_all add: month_start_ends)
  then show ?thesis unfolding month_in_year_def by (simp add: month_start_ends(1) not_less)
qed

lemma month_start_mono: "m \<le> m' \<Longrightarrow> month_start leap m \<le> month_start leap m'"
proof (induction m' rule: int_ge_induct)
  case (step i)
  consider "i < 0" | "0 \<le> i" "i \<le> 11" | "11 < i" by linarith
  then have "month_start leap i \<le> month_start leap (i + 1)"
    by cases (simp_all add: month_start_Suc, simp_all add: month_start_def month_length_def)
  with step show ?case by simp
qed simp

lemma month_in_year_unique:
  assumes "0 \<le> m" "m \<le> 11" "month_start leap m \<le> n" "n < month_start leap (m + 1)"
  shows "month_in_year leap n = m"
proof -
  have "0 \<le> n" using month_start_mono [of 0 m leap] assms by (simp add: month_start_ends)
  moreover have "n < (if leap then 366 else 365)"
    using month_start_mono [of "m + 1" 12 leap] assms by (simp add: month_start_ends)
  ultimately have b: "month_start leap (month_in_year leap n) \<le> n \<and> n < month_start leap (month_in_year leap n + 1)"
    by (rule month_in_year_bounds)
  show ?thesis
    using b assms month_start_mono [of "m + 1" "month_in_year leap n" leap]
      month_start_mono [of "month_in_year leap n + 1" m leap] by linarith
qed

text \<open>A day is the day of its own year, month and date.\<close>

lemma make_day_parts: "make_day (year_from_day d) (month_from_day d) (date_from_day d) = d"
  using month_in_year_range [of "leap_year (year_from_day d)" "d - day_from_year (year_from_day d)"]
  by (simp add: make_day_def month_from_day_def date_from_day_def Let_def)

lemma make_day_add: "make_day y m (d + k) = make_day y m d + k"
  by (simp add: make_day_def Let_def)

lemma make_day_shift: "make_day (year_from_day d) (month_from_day d) (date_from_day d + k) = d + k"
  by (simp add: make_day_add make_day_parts)

lemma month_from_day_range: "0 \<le> month_from_day d \<and> month_from_day d \<le> 11"
  by (simp add: month_from_day_def Let_def month_in_year_range)

lemma date_from_day_range:
  "1 \<le> date_from_day d \<and>
   date_from_day d \<le> month_length (leap_year (year_from_day d)) (month_from_day d)"
proof -
  let ?y = "year_from_day d"
  let ?n = "d - day_from_year ?y"
  have n: "0 \<le> ?n" "?n < (if leap_year ?y then 366 else 365)"
    using year_from_day_bounds [of d] day_from_year_Suc [of ?y] by simp_all
  show ?thesis
    using month_in_year_bounds [OF n] month_start_Suc [of "month_in_year (leap_year ?y) ?n" "leap_year ?y"]
      month_in_year_range [of "leap_year ?y" ?n]
    by (simp add: date_from_day_def month_from_day_def Let_def)
qed

text \<open>And the date a year, a month of it and a day of the month make is that date.\<close>

lemma parts_make_day:
  assumes "0 \<le> m" "m \<le> 11" "1 \<le> k" "k \<le> month_length (leap_year y) m"
  shows "year_from_day (make_day y m k) = y \<and> month_from_day (make_day y m k) = m \<and>
    date_from_day (make_day y m k) = k"
proof -
  let ?n = "month_start (leap_year y) m + k - 1"
  have e: "make_day y m k = day_from_year y + ?n" using assms by (simp add: make_day_def Let_def)
  have lo: "month_start (leap_year y) m \<le> ?n" "?n < month_start (leap_year y) (m + 1)"
    using assms month_start_Suc [of m "leap_year y"] by simp_all
  have "0 \<le> ?n" "?n < (if leap_year y then 366 else 365)"
    using lo assms month_start_mono [of 0 m "leap_year y"] month_start_mono [of "m + 1" 12 "leap_year y"]
    by (simp_all add: month_start_ends)
  then have y: "year_from_day (make_day y m k) = y"
    unfolding e using day_from_year_Suc [of y] by (intro year_from_day_unique) auto
  have mi: "month_in_year (leap_year y) ?n = m"
    using assms lo by (intro month_in_year_unique)
  show ?thesis
    using y mi by (simp add: e month_from_day_def date_from_day_def Let_def)
qed

lemma day_mod_split: "l = day_of l * ms_per_day + time_within_day l"
  by (simp add: day_of_def time_within_day_def)

lemma time_within_day_range: "0 \<le> time_within_day l" "time_within_day l < ms_per_day"
  by (simp_all add: time_within_day_def ms_per_day_def)

lemma make_date_parts:
  assumes "0 \<le> x" "x < ms_per_day"
  shows "day_of (make_date d x) = d" "time_within_day (make_date d x) = x"
  using assms by (simp_all add: day_of_def time_within_day_def make_date_def ms_per_day_def)

lemma make_time_range:
  assumes "0 \<le> h" "h \<le> 23" "0 \<le> m" "m \<le> 59"
  shows "0 \<le> make_time h m 0 0" "make_time h m 0 0 < ms_per_day"
  using assms by (simp_all add: make_time_def ms_per_day_def)

end
