(* ===== verification/Format.thy ===== *)
theory Format
  imports Js_Date Api_Schedule
begin

text \<open>
  The presentation helpers (\<open>web/src/lib/format.ts\<close>): sizes, percentages, spans of time and the
  wording of schedules, and \<open>nextRunOf\<close>, the next time a schedule fires.

  What the machine provides is a record \<open>host\<close> of parameters: its time zone, the current time,
  the reading of date texts, \<open>Intl.DateTimeFormat\<close> (the parts of an instant in a named zone,
  \<open>None\<close> when it throws for an unknown one), the locale's renderings and \<open>Math.log\<close>. A number that
  may be \<open>null\<close> or \<open>undefined\<close> is an option; a \<open>Date\<close> is its time value, \<open>None\<close> the invalid date.
\<close>

record host =
  h_zone :: zone
  h_now :: int
  h_parse :: "string \<Rightarrow> int option"
  h_parts :: "string \<Rightarrow> int \<Rightarrow> (string \<times> string) list option"
  h_datetime :: "int \<Rightarrow> string"
  h_clock :: "int \<Rightarrow> string"
  h_date :: "int \<Rightarrow> string"
  h_group :: "jsnum \<Rightarrow> string"
  h_log :: "jsnum \<Rightarrow> jsnum"

subsection \<open>Sizes, percentages, ratios\<close>

definition BYTE_UNITS :: "string list" where
  "BYTE_UNITS = [''B'', ''KiB'', ''MiB'', ''GiB'', ''TiB'', ''PiB'']"

text \<open>\<open>1024 ** e\<close> for the exponents that can arise.\<close>

fun pow_1024 :: "jsnum \<Rightarrow> jsnum" where
  "pow_1024 (Fin x) = fl (1024 powi \<lfloor>x\<rfloor>)"
| "pow_1024 NInf = Fin 0"
| "pow_1024 PInf = PInf"
| "pow_1024 NaN = NaN"

fun unit_at :: "jsnum \<Rightarrow> string" where
  "unit_at (Fin x) =
     (if 0 \<le> x \<and> \<lfloor>x\<rfloor> < int (length BYTE_UNITS) then BYTE_UNITS ! nat \<lfloor>x\<rfloor> else ''B'')"
| "unit_at _ = ''B''"

definition formatBytes :: "host \<Rightarrow> jsnum option \<Rightarrow> nat \<Rightarrow> string" where
  "formatBytes h bytes digits =
     (case bytes of
        None \<Rightarrow> em_dash
      | Some b \<Rightarrow>
          if \<not> js_is_finite b then em_dash
          else if js_le b (Fin 0) then ''0 B''
          else
            let exponent = js_min (js_floor (js_div (h_log h b) (h_log h (Fin 1024))))
                                  (jsint (int (length BYTE_UNITS) - 1));
                value = js_div b (pow_1024 exponent);
                precision = (if exponent = Fin 0 then 0
                             else if js_le (Fin 100) value then 0 else digits)
            in to_fixed precision value @ '' '' @ unit_at exponent)"

definition formatCount :: "host \<Rightarrow> jsnum option \<Rightarrow> string" where
  "formatCount h v =
     (case v of None \<Rightarrow> em_dash | Some n \<Rightarrow> if js_is_finite n then h_group h n else em_dash)"

definition clampPct :: "jsnum option \<Rightarrow> jsnum" where
  "clampPct pct =
     (case pct of
        None \<Rightarrow> Fin 0
      | Some p \<Rightarrow> if \<not> js_is_finite p then Fin 0 else js_max (Fin 0) (js_min (Fin 100) p))"

definition formatPct :: "jsnum option \<Rightarrow> nat \<Rightarrow> string" where
  "formatPct pct digits = to_fixed digits (clampPct pct) @ ''%''"

definition formatRatio :: "jsnum option \<Rightarrow> string" where
  "formatRatio ratio =
     (case ratio of
        None \<Rightarrow> em_dash
      | Some r \<Rightarrow>
          if \<not> js_is_finite r \<or> js_le r (Fin 0) then em_dash
          else to_fixed (if js_le (Fin 10) r then 0 else 1) r @ times_sign)"

definition formatReduction :: "jsnum option \<Rightarrow> string" where
  "formatReduction pct = to_fixed 0 (clampPct pct) @ ''% avoided''"

text \<open>\<open>text.replace(/\.0$/, '')\<close>.\<close>

definition drop_point_zero :: "string \<Rightarrow> string" where
  "drop_point_zero s = (if starts_with (rev ''.0'') (rev s) then take (length s - 2) s else s)"

definition formatHours :: "jsnum option \<Rightarrow> string" where
  "formatHours hours =
     (case hours of
        None \<Rightarrow> em_dash
      | Some x \<Rightarrow>
          if \<not> js_is_finite x then em_dash
          else let value = js_max (Fin 0) x
            in if js_lt value (Fin 1) then num_str (js_round (js_mul value (Fin 60))) @ '' min''
               else if js_lt value (Fin 48) then
                 (if js_lt value (Fin 10) then drop_point_zero (to_fixed 1 value)
                  else num_str (js_round value)) @ '' h''
               else num_str (js_round (js_div value (Fin 24))) @ '' d'')"

definition describeRpo :: "jsnum option \<Rightarrow> jsnum option \<Rightarrow> string option" where
  "describeRpo ageHours rpoHours =
     (case (ageHours, rpoHours) of
        (Some age, Some rpo) \<Rightarrow>
          if \<not> js_is_finite age \<or> \<not> js_is_finite rpo \<or> js_le rpo (Fin 0) then None
          else let over = js_sub age rpo
            in if js_le over (Fin 0) then Some (''within '' @ formatHours (Some rpo) @ '' RPO'')
               else Some (formatHours (Some over) @ '' over '' @ formatHours (Some rpo) @ '' RPO'')
      | _ \<Rightarrow> None)"

subsection \<open>Dates and durations\<close>

definition toDate :: "host \<Rightarrow> string option \<Rightarrow> int option" where
  "toDate h value = (case value of None \<Rightarrow> None | Some s \<Rightarrow> if s = [] then None else h_parse h s)"

definition formatDateTime :: "host \<Rightarrow> string option \<Rightarrow> string" where
  "formatDateTime h value = (case toDate h value of None \<Rightarrow> em_dash | Some t \<Rightarrow> h_datetime h t)"

definition formatTime :: "host \<Rightarrow> string option \<Rightarrow> string" where
  "formatTime h value = (case toDate h value of None \<Rightarrow> em_dash | Some t \<Rightarrow> h_clock h t)"

definition formatDate :: "host \<Rightarrow> string option \<Rightarrow> string" where
  "formatDate h value = (case toDate h value of None \<Rightarrow> em_dash | Some t \<Rightarrow> h_date h t)"

definition relative_units :: "(int \<times> int \<times> string) list" where
  "relative_units =
     [(60000, 1000, ''s''), (3600000, 60000, ''min''), (86400000, 3600000, ''h''),
      (2592000000, 86400000, ''d'')]"

definition formatRelative :: "host \<Rightarrow> string option \<Rightarrow> string" where
  "formatRelative h value =
     (case toDate h value of
        None \<Rightarrow> em_dash
      | Some t \<Rightarrow>
          let deltaMs = t - h_now h; a = \<bar>deltaMs\<bar>
          in if a < 10000 then ''just now''
             else case find (\<lambda>(limit, divisor, label). a < limit) relative_units of
                 Some (limit, divisor, label) \<Rightarrow>
                   (let amount = num_str (js_round (js_div (jsint a) (jsint divisor)))
                    in if 0 < deltaMs then ''in '' @ amount @ '' '' @ label
                       else amount @ '' '' @ label @ '' ago'')
               | None \<Rightarrow> formatDate h value)"

text \<open>The remainder \<open>n % k\<close> of an integral number that is not negative.\<close>

fun js_rem :: "jsnum \<Rightarrow> int \<Rightarrow> jsnum" where
  "js_rem (Fin x) k = jsint (\<lfloor>x\<rfloor> mod k)"
| "js_rem _ k = NaN"

definition formatSeconds :: "jsnum option \<Rightarrow> string" where
  "formatSeconds totalSeconds =
     (case totalSeconds of
        None \<Rightarrow> em_dash
      | Some x \<Rightarrow>
          if \<not> js_is_finite x then em_dash
          else let seconds = js_max (Fin 0) (js_floor x)
            in if js_lt seconds (Fin 60) then num_str seconds @ '' s''
               else let minutes = js_floor (js_div seconds (Fin 60))
                 in if js_lt minutes (Fin 60) then
                      num_str minutes @ '' m '' @ pad_start 2 (CHR ''0'') (num_str (js_rem seconds 60)) @ '' s''
                    else let hours = js_floor (js_div minutes (Fin 60))
                      in if js_lt hours (Fin 24) then
                           num_str hours @ '' h '' @ pad_start 2 (CHR ''0'') (num_str (js_rem minutes 60)) @ '' m''
                         else num_str (js_floor (js_div hours (Fin 24))) @ '' d '' @
                              num_str (js_rem hours 24) @ '' h'')"

definition formatDuration :: "host \<Rightarrow> string option \<Rightarrow> string option \<Rightarrow> string" where
  "formatDuration h from to =
     (case toDate h from of
        None \<Rightarrow> em_dash
      | Some start \<Rightarrow>
          let finish = (case toDate h to of Some t \<Rightarrow> t | None \<Rightarrow> h_now h)
          in formatSeconds (Some (js_max (Fin 0)
               (js_round (js_div (jsint (finish - start)) (Fin 1000))))))"

definition formatUptime :: "jsnum option \<Rightarrow> string" where
  "formatUptime seconds =
     (case seconds of
        None \<Rightarrow> em_dash
      | Some s \<Rightarrow> if \<not> js_num_truthy s \<or> js_le s (Fin 0) then em_dash else formatSeconds seconds)"

definition formatThroughput :: "host \<Rightarrow> jsnum option \<Rightarrow> string" where
  "formatThroughput h bps =
     (case bps of
        None \<Rightarrow> em_dash
      | Some b \<Rightarrow> if \<not> js_is_finite b \<or> js_le b (Fin 0) then em_dash
                  else formatBytes h (Some b) 1 @ ''/s'')"

record progress =
  pr_startedAt :: "string option"
  pr_progressPct :: jsnum
  pr_bytesProcessed :: jsnum
  pr_totalBytes :: jsnum
  pr_throughputBps :: jsnum

definition estimateRemainingSeconds :: "host \<Rightarrow> progress \<Rightarrow> jsnum option" where
  "estimateRemainingSeconds h input =
     (if js_lt (Fin 0) (pr_throughputBps input) \<and>
         js_lt (pr_bytesProcessed input) (pr_totalBytes input)
      then Some (js_round (js_div (js_sub (pr_totalBytes input) (pr_bytesProcessed input))
                                  (pr_throughputBps input)))
      else let pct = clampPct (Some (pr_progressPct input))
        in if js_le pct (Fin (1/2)) \<or> js_le (Fin 100) pct then None
           else case toDate h (pr_startedAt input) of
               None \<Rightarrow> None
             | Some start \<Rightarrow>
                 let elapsed = js_div (jsint (h_now h - start)) (Fin 1000)
                 in if js_le elapsed (Fin 0) then None
                    else Some (js_round (js_mul (js_div elapsed pct) (js_sub (Fin 100) pct))))"

subsection \<open>Names and clock texts\<close>

definition WEEKDAY_SHORT :: "string list" where
  "WEEKDAY_SHORT = [''Sun'', ''Mon'', ''Tue'', ''Wed'', ''Thu'', ''Fri'', ''Sat'']"

definition WEEKDAY_LONG :: "string list" where
  "WEEKDAY_LONG =
     [''Sunday'', ''Monday'', ''Tuesday'', ''Wednesday'', ''Thursday'', ''Friday'', ''Saturday'']"

definition MONTH_SHORT :: "string list" where
  "MONTH_SHORT =
     [''Jan'', ''Feb'', ''Mar'', ''Apr'', ''May'', ''Jun'', ''Jul'', ''Aug'', ''Sep'', ''Oct'',
      ''Nov'', ''Dec'']"

definition weekdayShort :: "int \<Rightarrow> string" where
  "weekdayShort day = WEEKDAY_SHORT ! nat (day mod 7)"

definition weekdayLong :: "int \<Rightarrow> string" where
  "weekdayLong day = WEEKDAY_LONG ! nat (day mod 7)"

text \<open>For the days of a month, which are positive (there JavaScript's \<open>%\<close> is \<open>mod\<close>).\<close>

definition ordinal :: "int \<Rightarrow> string" where
  "ordinal n =
     int_str n @
     (let tens = n mod 100
      in if 11 \<le> tens \<and> tens \<le> 13 then ''th''
         else if n mod 10 = 1 then ''st''
         else if n mod 10 = 2 then ''nd''
         else if n mod 10 = 3 then ''rd''
         else ''th'')"

definition joinAnd :: "string list \<Rightarrow> string" where
  "joinAnd parts =
     (if parts = [] then []
      else if length parts = 1 then hd parts
      else join_with '', '' (butlast parts) @ '' and '' @ last parts)"

definition timeParts :: "string \<Rightarrow> jsnum \<times> jsnum" where
  "timeParts time =
     (let fs = split_on (CHR '':'') time;
          hour = str_num (hd fs);
          minute = (if 1 < length fs then str_num (fs ! 1) else NaN)
      in (if js_is_finite hour then js_max (Fin 0) (js_min (Fin 23) hour) else Fin 0,
          if js_is_finite minute then js_max (Fin 0) (js_min (Fin 59) minute) else Fin 0))"

definition padTime :: "int \<Rightarrow> int \<Rightarrow> string" where
  "padTime hour minute =
     pad_start 2 (CHR ''0'') (int_str hour) @ '':'' @ pad_start 2 (CHR ''0'') (int_str minute)"

subsection \<open>The next run\<close>

text \<open>
  \<open>serverNow\<close>: the wall clock of the named zone, rebuilt as a date of the local zone; the
  current time itself without a zone, for an unknown one, or when a calendar part is missing.
\<close>

definition part_num :: "(string \<times> string) list \<Rightarrow> string \<Rightarrow> jsnum" where
  "part_num parts type = (case map_of parts type of Some v \<Rightarrow> str_num v | None \<Rightarrow> NaN)"

definition serverNow :: "host \<Rightarrow> string option \<Rightarrow> int option" where
  "serverNow h timezone =
     (case timezone of
        None \<Rightarrow> Some (h_now h)
      | Some tz \<Rightarrow>
          if tz = [] then Some (h_now h)
          else case h_parts h tz (h_now h) of
              None \<Rightarrow> Some (h_now h)
            | Some parts \<Rightarrow>
                let year = part_num parts ''year''; month = part_num parts ''month'';
                    day = part_num parts ''day''; hour = js_rem (part_num parts ''hour'') 24;
                    minute = part_num parts ''minute''; second = part_num parts ''second''
                in if \<not> js_is_finite year \<or> \<not> js_is_finite month \<or> \<not> js_is_finite day
                   then Some (h_now h)
                   else if \<not> js_is_finite hour \<or> \<not> js_is_finite minute \<or> \<not> js_is_finite second
                   then None
                   else newDate (h_zone h) (int_of year) (int_of month - 1) (int_of day)
                          (int_of hour) (int_of minute) (int_of second) 0)"

definition lastDayOfMonth :: "zone \<Rightarrow> int \<Rightarrow> int \<Rightarrow> int option" where
  "lastDayOfMonth z year month = map_option (getDate z) (newDate z year (month + 1) 0 0 0 0 0)"

text \<open>\<open>a <= b\<close> and \<open>a > b\<close> on dates: false when either is invalid.\<close>

definition date_le :: "int option \<Rightarrow> int option \<Rightarrow> bool" where
  "date_le a b = (case (a, b) of (Some x, Some y) \<Rightarrow> x \<le> y | _ \<Rightarrow> False)"

definition date_gt :: "int option \<Rightarrow> int option \<Rightarrow> bool" where
  "date_gt a b = (case (a, b) of (Some x, Some y) \<Rightarrow> x > y | _ \<Rightarrow> False)"

text \<open>The bodies of the two loops, for one \<open>offset\<close>.\<close>

definition weekly_candidate :: "zone \<Rightarrow> int option \<Rightarrow> int \<Rightarrow> int \<Rightarrow> int \<Rightarrow> int option" where
  "weekly_candidate z now hour minute offset =
     Option.bind now (\<lambda>t0.
     Option.bind (setSeconds z t0 0 0) (\<lambda>t1.
     Option.bind (setDate z t1 (getDate z t1 + offset)) (\<lambda>t2.
     setHours z t2 hour minute)))"

definition monthly_candidate :: "zone \<Rightarrow> int option \<Rightarrow> int \<Rightarrow> int \<Rightarrow> int \<Rightarrow> int \<Rightarrow> int option" where
  "monthly_candidate z now dayOfMonth hour minute offset =
     Option.bind now (\<lambda>t0.
     Option.bind (newDate z (getFullYear z t0) (getMonth z t0 + offset) 1 0 0 0 0) (\<lambda>probe.
     Option.bind (lastDayOfMonth z (getFullYear z probe) (getMonth z probe)) (\<lambda>last.
     newDate z (getFullYear z probe) (getMonth z probe) (min dayOfMonth last) hour minute 0 0)))"

definition nextRunOf :: "host \<Rightarrow> schedule \<Rightarrow> string option \<Rightarrow> int option option" where
  "nextRunOf h schedule timezone =
     (let now = serverNow h timezone; z = h_zone h
      in case schedule of
           Manual \<Rightarrow> None
         | Advanced _ \<Rightarrow> None
         | Hourly m \<Rightarrow>
             (let next = Option.bind now (\<lambda>t0. Option.bind (setSeconds z t0 0 0) (\<lambda>t1. setMinutes z t1 m))
              in Some (if date_le next now
                       then Option.bind next (\<lambda>t. setHours1 z t (getHours z t + 1)) else next))
         | Daily time \<Rightarrow>
             (let (hour, minute) = timeParts time;
                  next = Option.bind now (\<lambda>t0. Option.bind (setSeconds z t0 0 0)
                           (\<lambda>t1. setHours z t1 (int_of hour) (int_of minute)))
              in Some (if date_le next now
                       then Option.bind next (\<lambda>t. setDate z t (getDate z t + 1)) else next))
         | Weekly time weekdays \<Rightarrow>
             if weekdays = [] then None
             else
             (let (hour, minute) = timeParts time
              in find (\<lambda>c. (case c of Some t \<Rightarrow> getDay z t \<in> set weekdays | None \<Rightarrow> False) \<and> date_gt c now)
                   (map (weekly_candidate z now (int_of hour) (int_of minute)) [0..7]))
         | Monthly time dayOfMonth \<Rightarrow>
             (let (hour, minute) = timeParts time
              in find (\<lambda>c. date_gt c now)
                   (map (monthly_candidate z now dayOfMonth (int_of hour) (int_of minute)) [0..13])))"

definition formatWallClock :: "zone \<Rightarrow> int option option \<Rightarrow> string" where
  "formatWallClock z date =
     (case date of
        None \<Rightarrow> em_dash
      | Some None \<Rightarrow> '' NaN , NaN:NaN''
      | Some (Some t) \<Rightarrow>
          WEEKDAY_LONG ! nat (getDay z t) @ '' '' @ int_str (getDate z t) @ '' '' @
          MONTH_SHORT ! nat (getMonth z t) @ '', '' @ padTime (getHours z t) (getMinutes z t))"

subsection \<open>The wording of schedules\<close>

fun schedule_label :: "schedule \<Rightarrow> string" where
  "schedule_label Manual = ''Manual only''"
| "schedule_label (Hourly minute) =
     (if minute = 0 then ''Hourly, on the hour''
      else ''Hourly at :'' @ pad_start 2 (CHR ''0'') (int_str minute))"
| "schedule_label (Daily time) = ''Daily at '' @ time"
| "schedule_label (Weekly time weekdays) =
     (let days = sort weekdays
      in if length days = 7 then ''Every day at '' @ time
         else if length days = 5 \<and> join_with '','' (map int_str days) = ''1,2,3,4,5''
         then ''Mon to Fri at '' @ time
         else if length days = 2 \<and> join_with '','' (map int_str days) = ''0,6''
         then ''Weekends at '' @ time
         else ''Weekly on '' @ join_with '', '' (map weekdayShort days) @ '' at '' @ time)"
| "schedule_label (Monthly time dayOfMonth) =
     (if dayOfMonth = 31 then ''Monthly on the last day at '' @ time
      else ''Monthly on the '' @ ordinal dayOfMonth @ '' at '' @ time)"
| "schedule_label (Advanced cron) =
     (if cron \<noteq> [] then ''Advanced '' @ middle_dot @ '' '' @ cron else ''Advanced'')"

definition describeSchedule :: "jval \<Rightarrow> string" where
  "describeSchedule value = schedule_label (parseSchedule value)"

fun describeScheduleSentence :: "schedule \<Rightarrow> string" where
  "describeScheduleSentence Manual =
     ''Never runs on its own. You start it from the Backup Jobs page.''"
| "describeScheduleSentence (Hourly minute) =
     (if minute = 0 then ''Runs every hour, on the hour.''
      else ''Runs every hour at '' @ pad_start 2 (CHR ''0'') (int_str minute) @ '' minutes past.'')"
| "describeScheduleSentence (Daily time) = ''Runs every day at '' @ time @ ''.''"
| "describeScheduleSentence (Weekly time weekdays) =
     (if weekdays = [] then ''Pick at least one day.''
      else let days = sort weekdays
        in if length days = 7 then ''Runs every day at '' @ time @ ''.''
           else ''Runs every '' @ joinAnd (map weekdayLong days) @ '' at '' @ time @ ''.'')"
| "describeScheduleSentence (Monthly time dayOfMonth) =
     (if dayOfMonth = 31 then ''Runs on the last day of every month at '' @ time @ ''.''
      else ''Runs on the '' @ ordinal dayOfMonth @ '' of every month at '' @ time @ ''.'')"
| "describeScheduleSentence (Advanced cron) =
     (if cron \<noteq> [] then ''Runs on the cron expression '' @ cron @ ''.''
      else ''Enter a five-field cron expression.'')"

definition describeNextRun :: "host \<Rightarrow> string option \<Rightarrow> bool \<Rightarrow> jval \<Rightarrow> string" where
  "describeNextRun h nextRun enabled schedule =
     (if nextRun \<noteq> None \<and> nextRun \<noteq> Some [] then ''Next run '' @ formatRelative h nextRun
      else if \<not> enabled then ''Disabled''
      else if parseSchedule schedule = Manual then ''Manual''
      else ''Not scheduled'')"

lemma length_strip_with_Cons:
  assumes "lead_len ws (c # s) \<noteq> 0"
  shows "length (strip_with ws (c # s)) < Suc (length s)"
proof -
  let ?r = "drop (lead_len ws (c # s)) (c # s)"
  obtain p where "?r = p @ strip_with ws ?r" using strip_with_suffix by blast
  then have "length (strip_with ws ?r) \<le> length ?r" by (metis length_append le_add2)
  moreover have "strip_with ws (c # s) = strip_with ws ?r"
    using assms by (subst strip_with.simps) simp
  ultimately show ?thesis using assms by simp
qed

text \<open>\<open>text.split(/\s+/)\<close>, and the loose check of a cron expression.\<close>

function split_ws :: "string \<Rightarrow> string \<Rightarrow> string list" where
  "split_ws acc [] = [rev acc]"
| "split_ws acc (c # s) =
     (if lead_len ws_seqs (c # s) = 0 then split_ws (c # acc) s
      else rev acc # split_ws [] (strip_with ws_seqs (c # s)))"
  by pat_completeness auto

termination
  by (relation "measure (\<lambda>(acc, s). length s)") (auto intro: length_strip_with_Cons)

definition cron_char :: "char \<Rightarrow> bool" where
  "cron_char c \<longleftrightarrow> is_digit c \<or> c \<in> set ''*,-/''"

definition isValidCron :: "string \<Rightarrow> bool" where
  "isValidCron expr =
     (let fields = split_ws [] (trim expr)
      in length fields = 5 \<and> list_all (\<lambda>f. f \<noteq> [] \<and> list_all cron_char f) fields)"

subsection \<open>Lemmas: the parts of a clock text\<close>

text \<open>The milliseconds after midnight an \<open>HH:MM\<close> text names.\<close>

fun clock_hm :: "string \<Rightarrow> int \<times> int" where
  "clock_hm [a, b, c, d, e] =
     (int (10 * digit_val a + digit_val b), int (10 * digit_val d + digit_val e))"
| "clock_hm _ = (0, 0)"

definition clock_ms :: "string \<Rightarrow> int" where
  "clock_ms s = (case clock_hm s of (h, m) \<Rightarrow> make_time h m 0 0)"

lemma HHMM_E:
  assumes "HHMM s"
  obtains a b d e where "s = [a, b, CHR '':'', d, e]" "is_digit a" "is_digit b" "is_digit d" "is_digit e"
    "10 * digit_val a + digit_val b \<le> 23" "10 * digit_val d + digit_val e \<le> 59"
proof -
  from assms obtain a b d e where s: "s = [a, b, CHR '':'', d, e]"
    by (auto elim!: HHMM.elims)
  have "is_digit a" "10 * digit_val a + digit_val b \<le> 23" "is_digit b" "is_digit d" "is_digit e"
    "10 * digit_val d + digit_val e \<le> 59"
    using assms digit_val_less [of b] digit_val_less [of e]
    by (auto simp: s, auto simp: is_digit_def digit_val_def)
  with s that show thesis by blast
qed

lemma HHMM_clock_hm:
  assumes "HHMM s" "clock_hm s = (h, m)"
  shows "0 \<le> h \<and> h \<le> 23 \<and> 0 \<le> m \<and> m \<le> 59"
  using assms by (auto elim!: HHMM_E)

lemma digit_not_colon: "is_digit c \<Longrightarrow> c \<noteq> CHR '':''"
  by (auto simp: is_digit_def)

lemma clock_split:
  assumes "HHMM s" "clock_hm s = (h, m)"
  obtains x y where "split_on (CHR '':'') s = [x, y]" "str_num x = jsint h" "str_num y = jsint m"
proof -
  obtain a b d e where s: "s = [a, b, CHR '':'', d, e]" and dig: "is_digit a" "is_digit b" "is_digit d" "is_digit e"
    using assms(1) by (rule HHMM_E)
  have sp: "split_on (CHR '':'') s = [[a, b], [d, e]]"
    using dig by (simp add: s digit_not_colon [THEN not_sym] digit_not_colon)
  have n: "str_num [x, y] = jsint (int (10 * digit_val x + digit_val y))" if "is_digit x" "is_digit y" for x y
    using that str_num_digits [of "[x, y]"] digit_val_less [of x] digit_val_less [of y]
      fl_of_int [of "int (10 * digit_val x + digit_val y)"]
    by (simp add: all_digits_def digits_val_def)
  have h: "h = int (10 * digit_val a + digit_val b)" and m: "m = int (10 * digit_val d + digit_val e)"
    using assms(2) by (simp_all add: s)
  have "str_num [a, b] = jsint h" "str_num [d, e] = jsint m"
    unfolding h m using dig by (simp_all only: n)
  with sp that show thesis by blast
qed

lemma timeParts_HHMM:
  assumes "HHMM s" "clock_hm s = (h, m)"
  shows "timeParts s = (jsint h, jsint m)"
proof -
  obtain x y where s: "split_on (CHR '':'') s = [x, y]" "str_num x = jsint h" "str_num y = jsint m"
    using assms by (rule clock_split)
  have "js_min (Fin 23) (jsint h) = jsint (min 23 h)" "js_min (Fin 59) (jsint m) = jsint (min 59 m)"
    "js_max (Fin 0) (jsint (min 23 h)) = jsint (max 0 (min 23 h))"
    "js_max (Fin 0) (jsint (min 59 m)) = jsint (max 0 (min 59 m))"
    by (simp_all add: of_int_min of_int_max)
  moreover have "max 0 (min 23 h) = h" "max 0 (min 59 m) = m" using HHMM_clock_hm [OF assms] by simp_all
  ultimately show ?thesis by (simp add: timeParts_def s)
qed

end
