(* ===== verification/Next_Run.thy ===== *)
theory Next_Run
  imports Format
begin

text \<open>
  What \<open>nextRunOf\<close> computes (\<open>web/src/lib/format.ts\<close>): in a time zone with a fixed offset the result
  is the first instant after the server's clock at which the schedule fires.
\<close>

subsection \<open>Lemmas: local time in a zone with a fixed offset\<close>

lemma fixed_zone_simps [simp]:
  "LocalTime (fixed_zone off) t = t + off" "UTC (fixed_zone off) t = t - off"
  by (simp_all add: fixed_zone_def)

lemma minute_floor:
  "make_date (day_of l) (make_time (hour_of l) (minute_of l) 0 0) = l - l mod 60000"
proof -
  define q where "q = l div 60000"
  have d: "l div 3600000 = q div 60" "day_of l = q div 60 div 24"
    unfolding q_def day_of_def ms_per_day_def by (simp_all flip: zdiv_zmult2_eq)
  have "q div 60 = 24 * (q div 60 div 24) + q div 60 mod 24" "q = 60 * (q div 60) + q mod 60"
    by simp_all
  moreover have "l - l mod 60000 = 60000 * q" unfolding q_def by (simp add: minus_mod_eq_mult_div)
  ultimately show ?thesis
    unfolding make_date_def make_time_def hour_of_def minute_of_def d q_def [symmetric] ms_per_day_def
    by linarith
qed

lemma minute_multiple:
  assumes "l mod 60000 = 0"
  shows "second_of l = 0" "l mod 1000 = 0"
proof -
  from assms obtain k where k: "l = 60000 * k" by auto
  show "l mod 1000 = 0" using k by simp
  have "l div 1000 = 60 * k" using k by simp
  then show "second_of l = 0" by (simp add: second_of_def)
qed

lemma day_of_minute_floor [simp]: "day_of (l - l mod 60000) = day_of l"
proof -
  have "l - l mod 60000 = 60000 * (l div 60000)" by (simp add: minus_mod_eq_mult_div)
  then have "(l - l mod 60000) div 60000 = l div 60000" by simp
  then show ?thesis
    unfolding day_of_def ms_per_day_def
    using zdiv_zmult2_eq [of 1440 l 60000] zdiv_zmult2_eq [of 1440 "l - l mod 60000" 60000] by simp
qed

lemma minute_floor_mod [simp]: "(l - l mod 60000) mod 60000 = (0::int)"
  by (simp add: minus_mod_eq_mult_div)

text \<open>Times the language can represent with the margin the computations need.\<close>

definition representable :: "int \<Rightarrow> int \<Rightarrow> bool" where
  "representable off n \<longleftrightarrow> 0 \<le> n \<and> n \<le> 8000000000000000 \<and> \<bar>off\<bar> \<le> ms_per_day"

lemma setSeconds_fixed:
  assumes "representable off n"
  shows "setSeconds (fixed_zone off) n 0 0 = Some (n - (n + off) mod 60000)"
proof -
  have "0 \<le> (n + off) mod 60000" "(n + off) mod 60000 < 60000" by simp_all
  then have "\<bar>n - (n + off) mod 60000\<bar> \<le> 8640000000000000"
    using assms unfolding representable_def by linarith
  then show ?thesis by (simp add: setSeconds_def minute_floor time_clip_def Let_def)
qed

lemma setHours_fixed:
  assumes "(t + off) mod 60000 = 0" "0 \<le> h" "h \<le> 23" "0 \<le> m" "m \<le> 59"
    and "\<bar>off\<bar> \<le> ms_per_day" "\<bar>t\<bar> \<le> 8600000000000000"
  shows "setHours (fixed_zone off) t h m = Some (day_of (t + off) * ms_per_day + make_time h m 0 0 - off)"
proof -
  have "\<bar>day_of (t + off) * ms_per_day + make_time h m 0 0 - (t + off)\<bar> \<le> ms_per_day"
    using day_mod_split [of "t + off"] time_within_day_range [of "t + off"] make_time_range [OF assms(2-5)]
    by linarith
  then show ?thesis
    using assms by (simp add: setHours_def minute_multiple make_date_def time_clip_def ms_per_day_def Let_def)
qed

lemma setDate_fixed:
  assumes "\<bar>off\<bar> \<le> ms_per_day" "\<bar>t\<bar> \<le> 8600000000000000" "\<bar>k\<bar> \<le> 31"
  shows "setDate (fixed_zone off) t (getDate (fixed_zone off) t + k) = Some (t + k * ms_per_day)"
proof -
  have "make_date (day_of (t + off) + k) (time_within_day (t + off)) = t + off + k * ms_per_day"
    using day_mod_split [of "t + off"] by (simp add: make_date_def algebra_simps)
  then show ?thesis
    using assms by (simp add: setDate_def getDate_def make_day_shift time_clip_def ms_per_day_def Let_def)
qed

subsection \<open>When a schedule fires\<close>

text \<open>
  The reference: the instants at which a schedule fires in a zone with offset \<open>off\<close>. A monthly
  schedule fires on its day, or on the last day of a month that does not have it.
\<close>

definition month_end :: "int \<Rightarrow> int" where
  "month_end d = month_length (leap_year (year_from_day d)) (month_from_day d)"

fun fires :: "int \<Rightarrow> schedule \<Rightarrow> int \<Rightarrow> bool" where
  "fires off Manual t = False"
| "fires off (Advanced c) t = False"
| "fires off (Hourly m) t \<longleftrightarrow> (t + off) mod 3600000 = m * 60000"
| "fires off (Daily s) t \<longleftrightarrow> time_within_day (t + off) = clock_ms s"
| "fires off (Weekly s ds) t \<longleftrightarrow>
     time_within_day (t + off) = clock_ms s \<and> weekday_from_day (day_of (t + off)) \<in> set ds"
| "fires off (Monthly s k) t \<longleftrightarrow>
     time_within_day (t + off) = clock_ms s \<and>
     date_from_day (day_of (t + off)) = min k (month_end (day_of (t + off)))"

text \<open>\<open>t\<close> is the first instant after \<open>n\<close> with property \<open>P\<close>.\<close>

definition first_after :: "(int \<Rightarrow> bool) \<Rightarrow> int \<Rightarrow> int \<Rightarrow> bool" where
  "first_after P n t \<longleftrightarrow> n < t \<and> P t \<and> (\<forall>u. n < u \<and> u < t \<longrightarrow> \<not> P u)"

lemma clock_ms_range:
  assumes "HHMM s" shows "0 \<le> clock_ms s" "clock_ms s < ms_per_day"
  using HHMM_clock_hm [OF assms] make_time_range
  by (auto simp: clock_ms_def split: prod.splits)

lemma day_of_less: "a < b \<Longrightarrow> day_of a \<le> day_of b"
  by (simp add: day_of_def ms_per_day_def zdiv_mono1)

lemma on_clock:
  assumes "0 \<le> c" "c < ms_per_day"
  shows "time_within_day l = c \<longleftrightarrow> l = day_of l * ms_per_day + c"
  using day_mod_split [of l] by auto

lemma day_of_clock:
  assumes "0 \<le> c" "c < ms_per_day"
  shows "day_of (d * ms_per_day + c) = d" "time_within_day (d * ms_per_day + c) = c"
  using make_date_parts [OF assms] by (simp_all add: make_date_def)

text \<open>Repeating every \<open>p\<close> milliseconds at phase \<open>c\<close>: the instant in the current period, or one period on.\<close>

lemma periodic_first:
  fixes n off c p :: int
  assumes c: "0 \<le> c" "c < p"
  defines "b \<equiv> (n + off) div p * p + c - off"
  shows "first_after (\<lambda>t. (t + off) mod p = c) n (if b \<le> n then b + p else b)"
proof -
  let ?q = "(n + off) div p" and ?t = "if b \<le> n then b + p else b"
  have p: "0 < p" using c by simp
  then have n: "n + off = ?q * p + (n + off) mod p" "0 \<le> (n + off) mod p" "(n + off) mod p < p"
    by simp_all
  have "(b + off) mod p = c" using c by (simp add: b_def)
  moreover from this have "(b + p + off) mod p = c"
    by (metis add.commute add.left_commute mod_add_self2)
  moreover have "n < ?t"
  proof -
    have "n < b + p" using n(1,3) c(1) unfolding b_def by linarith
    then show ?thesis by simp
  qed
  moreover have False if u: "n < u" "u < ?t" "(u + off) mod p = c" for u
  proof -
    have e: "u + off = (u + off) div p * p + c" using u(3) div_mult_mod_eq [of "u + off" p] by simp
    have "?q \<le> (u + off) div p" using zdiv_mono1 [of "n + off" "u + off" p] u p by simp
    then consider "(u + off) div p = ?q" | "?q + 1 \<le> (u + off) div p" by linarith
    then show False
    proof cases
      case 1
      with e have "u = b" by (simp add: b_def)
      with u show False by (auto split: if_splits)
    next
      case 2
      then have "(?q + 1) * p \<le> (u + off) div p * p" using p by (intro mult_right_mono) simp_all
      then have "b + p \<le> u" using e by (simp add: b_def algebra_simps)
      with u p show False by (auto split: if_splits)
    qed
  qed
  ultimately show ?thesis by (auto simp: first_after_def)
qed

lemma hour_floor: "day_of l * ms_per_day + hour_of l * 3600000 = l div 3600000 * 3600000"
proof -
  have "day_of l = l div 3600000 div 24"
    by (simp add: day_of_def ms_per_day_def flip: zdiv_zmult2_eq)
  moreover have "l div 3600000 div 24 * 24 + l div 3600000 mod 24 = l div 3600000"
    by (rule div_mult_mod_eq)
  ultimately show ?thesis unfolding hour_of_def ms_per_day_def by linarith
qed

lemma hour_of_minute_floor: "(l - l mod 60000) div 3600000 = (l :: int) div 3600000"
proof -
  have "l - l mod 60000 = 60000 * (l div 60000)" by (simp add: minus_mod_eq_mult_div)
  then have "(l - l mod 60000) div 60000 = l div 60000" by simp
  then show ?thesis
    using zdiv_zmult2_eq [of 60 l 60000] zdiv_zmult2_eq [of 60 "l - l mod 60000" 60000] by simp
qed

text \<open>What the setters of the hourly branch compute.\<close>

lemma setMinutes_fixed:
  assumes "(t + off) mod 60000 = 0" "0 \<le> m" "m \<le> 59" "\<bar>t\<bar> \<le> 8600000000000000"
  shows "setMinutes (fixed_zone off) t m = Some ((t + off) div 3600000 * 3600000 + m * 60000 - off)"
proof -
  let ?l = "t + off"
  have e: "make_date (day_of ?l) (make_time (hour_of ?l) m 0 0) = ?l div 3600000 * 3600000 + m * 60000"
    using hour_floor [of ?l] by (simp add: make_date_def make_time_def)
  have "\<bar>?l div 3600000 * 3600000 + m * 60000 - ?l\<bar> \<le> 3600000"
    using assms(2,3) div_mult_mod_eq [of ?l 3600000] pos_mod_sign [of 3600000 ?l] pos_mod_bound [of 3600000 ?l]
    by linarith
  then have "\<bar>?l div 3600000 * 3600000 + m * 60000 - off\<bar> \<le> 8640000000000000"
    using assms(4) by linarith
  then show ?thesis
    using assms(1) by (simp add: setMinutes_def minute_multiple e time_clip_def Let_def)
qed

lemma setHours1_fixed:
  assumes "t + off = 3600000 * p + m * 60000" "0 \<le> m" "m \<le> 59" "\<bar>t\<bar> \<le> 8600000000000000"
  shows "setHours1 (fixed_zone off) t (getHours (fixed_zone off) t + 1) = Some (t + 3600000)"
proof -
  let ?l = "t + off"
  have l: "?l div 3600000 = p" "?l mod 60000 = 0" "?l div 60000 = 60 * p + m"
    using assms(1-3) by (simp_all add: div_add1_eq)
  have "minute_of ?l = m" using l(3) assms(2,3) by (simp add: minute_of_def)
  then have "make_date (day_of ?l) (make_time (hour_of ?l + 1) (minute_of ?l) 0 0) = ?l + 3600000"
    using hour_floor [of ?l] l(1) assms(1) by (simp add: make_date_def make_time_def algebra_simps)
  then show ?thesis
    using assms(4) minute_multiple [OF l(2)]
    by (simp add: setHours1_def getHours_def time_clip_def Let_def)
qed

text \<open>The first candidate of a list that passes the test.\<close>

lemma find_upto:
  assumes "0 \<le> k" "k \<le> m" "P (f k)"
  obtains j where "0 \<le> j" "j \<le> k" "find P (map f [0..m]) = Some (f j)" "P (f j)"
    "\<And>i. 0 \<le> i \<Longrightarrow> i < j \<Longrightarrow> \<not> P (f i)"
proof -
  define xs where "xs = map f [0..m]"
  have nth: "xs ! i = f (int i)" if "i < length xs" for i
    using that by (simp add: xs_def nth_upto)
  have len: "length xs = nat (m + 1)" by (simp add: xs_def)
  define j where "j = (LEAST i. i < length xs \<and> P (xs ! i))"
  have "nat k < length xs \<and> P (xs ! nat k)" using assms nth [of "nat k"] len by simp
  then have j: "j < length xs \<and> P (xs ! j)" and le: "j \<le> nat k"
    unfolding j_def by (rule LeastI, rule Least_le)
  have before: "\<not> P (xs ! i)" if "i < j" for i
    using not_less_Least [of i "\<lambda>i. i < length xs \<and> P (xs ! i)"] that j
    unfolding j_def [symmetric] by auto
  have "find P xs = Some (xs ! j)"
    unfolding find_Some_iff using j before by blast
  moreover have "\<not> P (f i)" if "0 \<le> i" "i < int j" for i
    using before [of "nat i"] nth [of "nat i"] that j by simp
  moreover have "xs ! j = f (int j)" "P (f (int j))" "int j \<le> k"
    using j nth [of j] le assms(1) by simp_all
  ultimately show thesis
    using that [of "int j"] by (simp add: xs_def)
qed

subsection \<open>Weekly schedules\<close>

lemma weekly_candidate_fixed:
  assumes "representable off n" "0 \<le> h" "h \<le> 23" "0 \<le> m" "m \<le> 59" "0 \<le> k" "k \<le> 7"
  shows "weekly_candidate (fixed_zone off) (Some n) h m k =
    Some ((day_of (n + off) + k) * ms_per_day + make_time h m 0 0 - off)"
proof -
  let ?t1 = "n - (n + off) mod 60000"
  have r: "0 \<le> (n + off) mod 60000" "(n + off) mod 60000 < 60000" by simp_all
  have off: "\<bar>off\<bar> \<le> ms_per_day" and n: "0 \<le> n" "n \<le> 8000000000000000"
    using assms(1) by (simp_all add: representable_def)
  have l: "?t1 + off = (n + off) - (n + off) mod 60000" by simp
  have "setDate (fixed_zone off) ?t1 (getDate (fixed_zone off) ?t1 + k) = Some (?t1 + k * ms_per_day)"
    using off n r assms(6,7) by (intro setDate_fixed) linarith+
  moreover have "(?t1 + k * ms_per_day + off) mod 60000 = 0"
  proof -
    have "?t1 + k * ms_per_day + off = (n + off - (n + off) mod 60000) + k * 1440 * 60000"
      by (simp add: ms_per_day_def)
    then show ?thesis by (simp only: mod_mult_self1 minute_floor_mod)
  qed
  moreover have "day_of (?t1 + k * ms_per_day + off) = day_of (n + off) + k"
  proof -
    have "?t1 + k * ms_per_day + off = (n + off - (n + off) mod 60000) + k * ms_per_day" by simp
    moreover have "day_of (a + k * ms_per_day) = day_of a + k" for a
      by (simp add: day_of_def ms_per_day_def)
    ultimately show ?thesis by (simp only: day_of_minute_floor)
  qed
  moreover have "\<bar>?t1 + k * ms_per_day\<bar> \<le> 8600000000000000"
    using n r assms(6,7) unfolding ms_per_day_def by linarith
  ultimately show ?thesis
    using setSeconds_fixed [OF assms(1)] setHours_fixed [of "?t1 + k * ms_per_day" off h m] off assms(2-5)
    by (simp add: weekly_candidate_def)
qed

lemma weekday_reached:
  assumes "0 \<le> w" "w \<le> 6"
  obtains k where "1 \<le> k" "k \<le> 7" "weekday_from_day (d + k) = w"
proof (rule that)
  let ?k = "1 + (w - (d + 5)) mod 7"
  have "0 \<le> (w - (d + 5)) mod 7" "(w - (d + 5)) mod 7 < 7" by simp_all
  then show "1 \<le> ?k" "?k \<le> 7" by linarith+
  have "(d + ?k + 4) mod 7 = (d + 5 + (w - (d + 5))) mod 7"
    by (metis (no_types, opaque_lifting) add.assoc add.commute mod_add_right_eq one_plus_numeral semiring_norm(3))
  then show "weekday_from_day (d + ?k) = w" using assms by (simp add: weekday_from_day_def)
qed

text \<open>
  The shape shared by the two searches: candidates \<open>c k\<close> that increase with \<open>k\<close>, of which one at
  the latest at \<open>k\<close> passes; whatever fires after \<open>n\<close> is a candidate that passes.
\<close>

lemma search_first:
  assumes mono: "\<And>i j. 0 \<le> i \<Longrightarrow> i < j \<Longrightarrow> c i < (c j :: int)"
    and k: "0 \<le> k" "k \<le> m" "P (c k)" "n < c k"
    and cand: "\<And>u. n < u \<Longrightarrow> P u \<Longrightarrow> \<exists>i\<ge>0. u = c i"
    and f: "\<And>i. 0 \<le> i \<Longrightarrow> i \<le> m \<Longrightarrow> f i = Some (c i)"
    and Q: "\<And>i. 0 \<le> i \<Longrightarrow> Q (Some (c i)) \<longleftrightarrow> P (c i) \<and> n < c i"
  shows "\<exists>t. find Q (map f [0..m]) = Some (Some t) \<and> first_after P n t"
proof -
  have "Q (f k)" using k f [of k] Q by simp
  then obtain j where j: "0 \<le> j" "j \<le> k" "find Q (map f [0..m]) = Some (f j)" "Q (f j)"
    "\<And>i. 0 \<le> i \<Longrightarrow> i < j \<Longrightarrow> \<not> Q (f i)"
    using find_upto [of k m Q f] k(1,2) by metis
  have fj: "f j = Some (c j)" using j k f by simp
  have "\<not> P u" if u: "n < u" "u < c j" for u
  proof
    assume "P u"
    with cand u obtain i where i: "0 \<le> i" "u = c i" by blast
    have "i < j" using mono [of j i] i u j(1) by (metis not_less_iff_gr_or_eq)
    with j(5) [of i] i f [of i] Q [of i] u \<open>P u\<close> j(2) k(2) show False by simp
  qed
  with j(1,3,4) fj Q [of j] show ?thesis by (auto simp: first_after_def)
qed

lemma weekly_first:
  assumes "representable off n" "HHMM s" "clock_hm s = (h, m)" "ds \<noteq> []" "\<forall>d\<in>set ds. 0 \<le> d \<and> d \<le> 6"
  shows "\<exists>t. find (\<lambda>c. (case c of Some t \<Rightarrow> getDay (fixed_zone off) t \<in> set ds | None \<Rightarrow> False) \<and> date_gt c (Some n))
      (map (weekly_candidate (fixed_zone off) (Some n) h m) [0..7]) = Some (Some t) \<and>
    first_after (fires off (Weekly s ds)) n t"
proof -
  let ?q = "day_of (n + off)"
  define c where "c k = (?q + k) * ms_per_day + clock_ms s - off" for k
  have hm: "0 \<le> h" "h \<le> 23" "0 \<le> m" "m \<le> 59" using HHMM_clock_hm [OF assms(2,3)] by simp_all
  have ms: "make_time h m 0 0 = clock_ms s" by (simp add: clock_ms_def assms(3))
  note r = clock_ms_range [OF assms(2)]
  have day: "day_of (c k + off) = ?q + k" "time_within_day (c k + off) = clock_ms s" for k
    using day_of_clock [OF r, of "?q + k"] by (simp_all add: c_def)
  from assms(4,5) obtain w where w: "w \<in> set ds" "0 \<le> w" "w \<le> 6" by (cases ds) auto
  obtain k where k: "1 \<le> k" "k \<le> 7" "weekday_from_day (?q + k) = w" using w(2,3) by (rule weekday_reached)
  show ?thesis
  proof (rule search_first [where c = c and k = k])
    show "c i < c j" if "i < j" for i j using that by (simp add: c_def ms_per_day_def)
    show "0 \<le> k" "k \<le> 7" using k by simp_all
    show "fires off (Weekly s ds) (c k)" using k w day by simp
    show "n < c k"
      using day_mod_split [of "n + off"] time_within_day_range(2) [of "n + off"] r(1)
        mult_right_mono [OF k(1), of ms_per_day]
      by (simp add: c_def distrib_right) (simp add: ms_per_day_def)
    show "\<exists>i\<ge>0. u = c i" if u: "n < u" "fires off (Weekly s ds) u" for u
    proof (intro exI conjI)
      show "0 \<le> day_of (u + off) - ?q" using day_of_less [of "n + off" "u + off"] u(1) by simp
      show "u = c (day_of (u + off) - ?q)" using on_clock [OF r, of "u + off"] u(2) by (simp add: c_def)
    qed
    show "weekly_candidate (fixed_zone off) (Some n) h m i = Some (c i)" if "0 \<le> i" "i \<le> 7" for i
      using weekly_candidate_fixed [OF assms(1) hm that] by (simp add: c_def ms)
    show "(case Some (c i) of None \<Rightarrow> False | Some t \<Rightarrow> getDay (fixed_zone off) t \<in> set ds) \<and>
        date_gt (Some (c i)) (Some n) \<longleftrightarrow> fires off (Weekly s ds) (c i) \<and> n < c i" for i
      by (simp add: getDay_def date_gt_def day)
  qed
qed

subsection \<open>Monthly schedules\<close>

text \<open>Months counted through the years: the first day and the length of a month.\<close>

definition month_first :: "int \<Rightarrow> int" where
  "month_first k = make_day (k div 12) (k mod 12) 1"

definition month_days :: "int \<Rightarrow> int" where
  "month_days k = month_length (leap_year (k div 12)) (k mod 12)"

definition month_index :: "int \<Rightarrow> int" where
  "month_index d = 12 * year_from_day d + month_from_day d"

lemma mod_12_range: "0 \<le> k mod 12" "k mod 12 \<le> (11 :: int)"
  using pos_mod_bound [of 12 k] by simp_all

lemma month_days_range: "28 \<le> month_days k" "month_days k \<le> 31"
  by (simp_all add: month_days_def month_length_def)

lemma make_day_month: "make_day y (m + j) d = month_first (12 * y + m + j) + d - 1"
proof -
  have "y + (m + j) div 12 = (12 * y + m + j) div 12" "(m + j) mod 12 = (12 * y + m + j) mod 12"
    using div_mult_self4 [of 12 y "m + j"] mod_mult_self4 [of 12 y "m + j"] by (simp_all add: add.assoc)
  then show ?thesis by (simp add: make_day_def month_first_def Let_def)
qed

lemma month_first_eq:
  "month_first k = day_from_year (k div 12) + month_start (leap_year (k div 12)) (k mod 12)"
  by (simp add: month_first_def make_day_def Let_def)

lemma month_first_Suc: "month_first (k + 1) = month_first k + month_days k"
proof (cases "k mod 12 = 11")
  case True
  then have e: "k + 1 = 12 * (k div 12 + 1)" using mult_div_mod_eq [of 12 k] by simp
  have k: "(k + 1) div 12 = k div 12 + 1" "(k + 1) mod 12 = 0" unfolding e by simp_all
  have "month_start l 11 + month_length l 11 = (if l then 366 else 365)" for l
    by (simp add: month_start_def month_length_def)
  from this [of "leap_year (k div 12)"] show ?thesis
    unfolding month_first_eq month_days_def k True day_from_year_Suc month_start_ends
    by (simp only: add_0_right add.assoc)
next
  case False
  have e: "k + 1 = 12 * (k div 12) + (k mod 12 + 1)" by simp
  have "0 \<le> k mod 12 + 1" "k mod 12 + 1 < 12" using False mod_12_range [of k] by linarith+
  then have k: "(k + 1) div 12 = k div 12" "(k + 1) mod 12 = k mod 12 + 1"
    by (rule int_div_pos_eq [OF e], rule int_mod_pos_eq [OF e])
  from month_start_Suc [OF mod_12_range, of "leap_year (k div 12)" k] show ?thesis
    unfolding month_first_eq month_days_def k by simp
qed

lemma month_first_mono: "j \<le> k \<Longrightarrow> month_first j \<le> month_first k"
proof (induction k rule: int_ge_induct)
  case (step i)
  then show ?case using month_first_Suc [of i] month_days_range(1) [of i] by simp
qed simp

lemma month_of_day:
  "d = month_first (month_index d) + date_from_day d - 1"
  "month_days (month_index d) = month_end d"
  "1 \<le> date_from_day d" "date_from_day d \<le> month_days (month_index d)"
proof -
  have e: "month_index d div 12 = year_from_day d" "month_index d mod 12 = month_from_day d"
    using month_from_day_range [of d] by (simp_all add: month_index_def)
  show "month_days (month_index d) = month_end d" by (simp add: month_days_def month_end_def e)
  then show "1 \<le> date_from_day d" "date_from_day d \<le> month_days (month_index d)"
    using date_from_day_range [of d] by (simp_all add: month_end_def)
  show "d = month_first (month_index d) + date_from_day d - 1"
    using make_day_parts [of d] by (simp add: month_first_def e make_day_def Let_def)
qed

lemma day_in_month:
  assumes "1 \<le> x" "x \<le> month_days k"
  shows "year_from_day (month_first k + x - 1) = k div 12"
    "month_from_day (month_first k + x - 1) = k mod 12"
    "date_from_day (month_first k + x - 1) = x" "month_index (month_first k + x - 1) = k"
proof -
  have e: "month_first k + x - 1 = make_day (k div 12) (k mod 12) x"
    by (simp add: month_first_def make_day_def Let_def)
  from parts_make_day [OF mod_12_range assms [unfolded month_days_def]]
  show "year_from_day (month_first k + x - 1) = k div 12"
    "month_from_day (month_first k + x - 1) = k mod 12" "date_from_day (month_first k + x - 1) = x"
    unfolding e by simp_all
  then show "month_index (month_first k + x - 1) = k" by (simp add: month_index_def)
qed

lemma month_first_upper: "0 \<le> j \<Longrightarrow> month_first (k + j) \<le> month_first k + 31 * j"
proof (induction j rule: int_ge_induct)
  case (step i)
  then show ?case using month_first_Suc [of "k + i"] month_days_range(2) [of "k + i"] by (simp add: add.assoc)
qed simp

lemma year_recent:
  assumes "- 1 \<le> d" shows "100 \<le> year_from_day d"
proof (rule ccontr)
  assume "\<not> 100 \<le> year_from_day d"
  then have "day_from_year (year_from_day d + 1) \<le> day_from_year 100"
    using day_from_year_less [of "year_from_day d + 1" 100] by (cases "year_from_day d + 1 = 100") auto
  with year_from_day_bounds [of d] assms show False by (simp add: day_from_year_def)
qed

lemma newDate_fixed:
  assumes "100 \<le> y" "\<bar>off\<bar> \<le> ms_per_day" "\<bar>make_date (make_day y m d) (make_time h mi s ms)\<bar> \<le> 8600000000000000"
  shows "newDate (fixed_zone off) y m d h mi s ms =
    Some (make_date (make_day y m d) (make_time h mi s ms) - off)"
  using assms by (simp add: newDate_def time_clip_def ms_per_day_def)

lemma make_date_bound:
  assumes "\<bar>off\<bar> \<le> ms_per_day" "0 \<le> n" "n \<le> 8000000000000000"
    and "day_of (n + off) - 100 \<le> d" "d \<le> day_of (n + off) + 1000" "0 \<le> c" "c < ms_per_day"
  shows "\<bar>make_date d c\<bar> \<le> 8600000000000000"
  using assms day_mod_split [of "n + off"] time_within_day_range [of "n + off"]
  unfolding make_date_def ms_per_day_def by linarith

lemma monthly_candidate_fixed:
  assumes "representable off n" "0 \<le> h" "h \<le> 23" "0 \<le> m" "m \<le> 59" "1 \<le> k" "k \<le> 31" "0 \<le> j" "j \<le> 13"
  defines "\<mu> \<equiv> month_index (day_of (n + off)) + j"
  shows "monthly_candidate (fixed_zone off) (Some n) k h m j =
    Some ((month_first \<mu> + min k (month_days \<mu>) - 1) * ms_per_day + make_time h m 0 0 - off)"
proof -
  let ?z = "fixed_zone off" and ?q = "day_of (n + off)"
  let ?Y = "year_from_day ?q" and ?M = "month_from_day ?q" and ?y = "\<mu> div 12" and ?m = "\<mu> mod 12"
  have off: "\<bar>off\<bar> \<le> ms_per_day" and n: "0 \<le> n" "n \<le> 8000000000000000"
    using assms(1) by (simp_all add: representable_def)
  have "- ms_per_day \<le> n + off" using off n by linarith
  then have "- 1 \<le> ?q" unfolding day_of_def ms_per_day_def by simp
  then have Y: "100 \<le> ?Y" by (rule year_recent)
  have \<mu>: "12 * ?Y + ?M + j = \<mu>" by (simp add: assms(10) month_index_def)
  have y: "100 \<le> ?y" using Y \<mu> month_from_day_range [of ?q] assms(8) by linarith
  have ym: "12 * ?y + ?m = \<mu>" by simp
  have f: "?q - 31 \<le> month_first \<mu>" "month_first \<mu> \<le> ?q + 434"
    using month_of_day [of ?q] month_days_range(2) [of "month_index ?q"] month_first_upper [of j "month_index ?q"]
      month_first_mono [of "month_index ?q" \<mu>] assms(8,9) unfolding assms(10) by linarith+
  note bnd = make_date_bound [OF off n]
  have mt: "0 \<le> make_time h m 0 0" "make_time h m 0 0 < ms_per_day"
    using make_time_range [OF assms(2-5)] by simp_all
  have mt0: "make_time 0 0 0 0 = 0" by (simp add: make_time_def)
  have p1: "make_day ?Y (?M + j) 1 = month_first \<mu>" by (simp add: make_day_month \<mu>)
  have probe: "newDate ?z (getFullYear ?z n) (getMonth ?z n + j) 1 0 0 0 0 = Some (month_first \<mu> * ms_per_day - off)"
    using newDate_fixed [OF Y off, of "?M + j" 1 0 0 0 0] bnd [of "month_first \<mu>" 0] f
    by (simp add: getFullYear_def getMonth_def p1 mt0 make_date_def ms_per_day_def)
  have d1: "day_of (month_first \<mu> * ms_per_day) = month_first \<mu>"
    by (simp add: day_of_def ms_per_day_def)
  have x1: "1 \<le> (1::int)" "1 \<le> month_days \<mu>" using month_days_range(1) [of \<mu>] by simp_all
  have p: "getFullYear ?z (month_first \<mu> * ms_per_day - off) = ?y" "getMonth ?z (month_first \<mu> * ms_per_day - off) = ?m"
    using day_in_month(1,2) [OF x1] by (simp_all add: getFullYear_def getMonth_def d1)
  have l0: "make_day ?y (?m + 1) 0 = month_first \<mu> + month_days \<mu> - 1"
    using month_first_Suc [of \<mu>] by (simp add: make_day_month)
  have last: "lastDayOfMonth ?z ?y ?m = Some (month_days \<mu>)"
    using newDate_fixed [OF y off, of "?m + 1" 0 0 0 0 0] bnd [of "month_first \<mu> + month_days \<mu> - 1" 0] f
      month_days_range [of \<mu>] day_in_month(3) [of "month_days \<mu>" \<mu>]
    by (simp add: lastDayOfMonth_def l0 mt0 make_date_def getDate_def day_of_def ms_per_day_def)
  have c0: "make_day ?y ?m (min k (month_days \<mu>)) = month_first \<mu> + min k (month_days \<mu>) - 1"
    using make_day_month [of ?y ?m 0 "min k (month_days \<mu>)"] ym by simp
  have "newDate ?z ?y ?m (min k (month_days \<mu>)) h m 0 0 =
      Some (make_date (month_first \<mu> + min k (month_days \<mu>) - 1) (make_time h m 0 0) - off)"
    using newDate_fixed [OF y off, of ?m "min k (month_days \<mu>)" h m 0 0]
      bnd [OF _ _ mt, of "month_first \<mu> + min k (month_days \<mu>) - 1"] f assms(6,7) month_days_range [of \<mu>]
    by (simp add: c0)
  then show ?thesis
    by (simp add: monthly_candidate_def probe p last make_date_def)
qed

lemma monthly_first:
  assumes "representable off n" "HHMM s" "clock_hm s = (h, m)" "1 \<le> k" "k \<le> 31"
  shows "\<exists>t. find (\<lambda>c. date_gt c (Some n)) (map (monthly_candidate (fixed_zone off) (Some n) k h m) [0..13]) =
      Some (Some t) \<and> first_after (fires off (Monthly s k)) n t"
proof -
  let ?q = "day_of (n + off)"
  define day where "day j = month_first j + min k (month_days j) - 1" for j
  define c where "c j = day (month_index ?q + j) * ms_per_day + clock_ms s - off" for j
  have hm: "0 \<le> h" "h \<le> 23" "0 \<le> m" "m \<le> 59" using HHMM_clock_hm [OF assms(2,3)] by simp_all
  have ms: "make_time h m 0 0 = clock_ms s" by (simp add: clock_ms_def assms(3))
  note r = clock_ms_range [OF assms(2)]
  have x: "1 \<le> min k (month_days j)" "min k (month_days j) \<le> month_days j" for j
    using assms(4) month_days_range(1) [of j] by simp_all
  have day_mono: "day i < day j" if "i < j" for i j
    using month_first_Suc [of i] month_first_mono [of "i + 1" j] x [of i] x [of j] that unfolding day_def by linarith
  have "date_from_day (day j) = min k (month_end (day j))" for j
    using day_in_month(3,4) [OF x] month_of_day(2) [of "day j"] by (simp add: day_def)
  then have fires_c: "fires off (Monthly s k) (c j)" for j
    using day_of_clock [OF r, of "day (month_index ?q + j)"] by (simp add: c_def)
  have n: "n + off < (?q + 1) * ms_per_day"
    using day_mod_split [of "n + off"] time_within_day_range(2) [of "n + off"] by (simp add: distrib_right)
  have q: "?q < month_first (month_index ?q + 1)"
    using month_of_day [of ?q] month_first_Suc [of "month_index ?q"] by linarith
  show ?thesis
  proof (rule search_first [where c = c and k = 1])
    show "c i < c j" if "i < j" for i j
      using day_mono [of "month_index ?q + i" "month_index ?q + j"] that by (simp add: c_def ms_per_day_def)
    show "(0::int) \<le> 1" "(1::int) \<le> 13" "fires off (Monthly s k) (c 1)" by (simp_all add: fires_c del: fires.simps)
    have "?q + 1 \<le> day (month_index ?q + 1)" 
      using q x(1) [of "month_index ?q + 1"] unfolding day_def by linarith
    from mult_right_mono [OF this, of ms_per_day] show "n < c 1"
      using n r(1) by (simp add: c_def) (simp add: ms_per_day_def)
    show "\<exists>i\<ge>0. u = c i" if u: "n < u" "fires off (Monthly s k) u" for u
    proof (intro exI conjI)
      let ?d = "day_of (u + off)"
      have "?d = day (month_index ?d)" using u(2) month_of_day(1,2) [of ?d] by (simp add: day_def)
      then show "u = c (month_index ?d - month_index ?q)"
        using on_clock [OF r, of "u + off"] u(2) by (simp add: c_def)
      have "?q \<le> ?d" using day_of_less [of "n + off" "u + off"] u(1) by simp
      then have "\<not> month_index ?d < month_index ?q"
        using month_of_day [of ?q] month_of_day [of ?d] month_first_Suc [of "month_index ?d"]
          month_first_mono [of "month_index ?d + 1" "month_index ?q"] by linarith
      then show "0 \<le> month_index ?d - month_index ?q" by simp
    qed
    show "monthly_candidate (fixed_zone off) (Some n) k h m i = Some (c i)" if "0 \<le> i" "i \<le> 13" for i
      using monthly_candidate_fixed [OF assms(1) hm assms(4,5) that] by (simp add: c_def day_def ms)
    show "date_gt (Some (c i)) (Some n) \<longleftrightarrow> fires off (Monthly s k) (c i) \<and> n < c i" for i
      using fires_c [of i] by (simp add: date_gt_def)
  qed
qed

subsection \<open>Hourly and daily schedules\<close>

lemma hourly_next:
  assumes "representable off n" "0 \<le> m" "m \<le> 59"
    and that: "serverNow h tz = Some n" "h_zone h = fixed_zone off"
  defines "b \<equiv> (n + off) div 3600000 * 3600000 + m * 60000 - off"
  shows "nextRunOf h (Hourly m) tz = Some (Some (if b \<le> n then b + 3600000 else b))"
proof -
  let ?t1 = "n - (n + off) mod 60000"
  have off: "\<bar>off\<bar> \<le> ms_per_day" and n: "0 \<le> n" "n \<le> 8000000000000000"
    using assms(1) by (simp_all add: representable_def)
  have r: "0 \<le> (n + off) mod 60000" "(n + off) mod 60000 < 60000" by simp_all
  have l: "?t1 + off = (n + off) - (n + off) mod 60000" by simp
  have "setMinutes (fixed_zone off) ?t1 m = Some b"
    using setMinutes_fixed [of ?t1 off m] assms(2,3) n r
    by (simp only: l minute_floor_mod hour_of_minute_floor b_def)
  moreover have "\<bar>b\<bar> \<le> 8600000000000000"
    using assms(2,3) n off div_mult_mod_eq [of "n + off" 3600000] pos_mod_sign [of 3600000 "n + off"]
      pos_mod_bound [of 3600000 "n + off"] unfolding b_def ms_per_day_def by linarith
  then have "setHours1 (fixed_zone off) b (getHours (fixed_zone off) b + 1) = Some (b + 3600000)"
    using setHours1_fixed [of b off "(n + off) div 3600000" m] assms(2,3) by (simp add: b_def)
  ultimately show ?thesis
    using that setSeconds_fixed [OF assms(1)] by (simp add: nextRunOf_def date_le_def)
qed

lemma daily_next:
  assumes "representable off n" "HHMM s"
    and that: "serverNow h tz = Some n" "h_zone h = fixed_zone off"
  defines "b \<equiv> (n + off) div ms_per_day * ms_per_day + clock_ms s - off"
  shows "nextRunOf h (Daily s) tz = Some (Some (if b \<le> n then b + ms_per_day else b))"
proof -
  obtain hh mm where hm: "clock_hm s = (hh, mm)" by force
  let ?t1 = "n - (n + off) mod 60000"
  have off: "\<bar>off\<bar> \<le> ms_per_day" and n: "0 \<le> n" "n \<le> 8000000000000000"
    using assms(1) by (simp_all add: representable_def)
  have r: "0 \<le> (n + off) mod 60000" "(n + off) mod 60000 < 60000" by simp_all
  have l: "?t1 + off = (n + off) - (n + off) mod 60000" by simp
  have t1: "\<bar>?t1\<bar> \<le> 8600000000000000" using n r by linarith
  have "setHours (fixed_zone off) ?t1 hh mm = Some (day_of (n + off) * ms_per_day + make_time hh mm 0 0 - off)"
    using setHours_fixed [of ?t1 off hh mm] HHMM_clock_hm [OF assms(2) hm] off t1
    by (simp add: l)
  then have "setHours (fixed_zone off) ?t1 hh mm = Some b"
    by (simp add: hm b_def clock_ms_def day_of_def)
  moreover have "\<bar>b\<bar> \<le> 8600000000000000"
    using clock_ms_range [OF assms(2)] n off day_mod_split [of "n + off"] time_within_day_range [of "n + off"]
    unfolding b_def day_of_def ms_per_day_def by linarith
  then have "setDate (fixed_zone off) b (getDate (fixed_zone off) b + 1) = Some (b + ms_per_day)"
    using setDate_fixed [of off b 1] off by simp
  ultimately show ?thesis
    using that setSeconds_fixed [OF assms(1)] timeParts_HHMM [OF assms(2) hm]
    by (simp add: nextRunOf_def date_le_def)
qed

subsection \<open>Properties\<close>

text \<open>
  C5 (the next run is the next run): in a zone with a fixed offset, for a well-formed schedule,
  \<open>nextRunOf\<close> gives nothing exactly for manual and cron schedules, and otherwise the first instant
  after the server's clock at which the schedule fires: nothing is announced too late, too early,
  or for a moment that has passed. The bound on the clock (until the year 255000) keeps the
  computation within the dates the language can represent.
\<close>

theorem nextRunOf_first:
  assumes "representable off n" "h_zone h = fixed_zone off" "serverNow h tz = Some n" "valid_schedule s"
  shows "(\<exists>t. nextRunOf h s tz = Some (Some t) \<and> first_after (fires off s) n t) \<or>
    nextRunOf h s tz = None \<and> (s = Manual \<or> (\<exists>c. s = Advanced c))"
proof (cases s)
  case (Hourly m)
  then have m: "0 \<le> m" "m \<le> 59" using assms(4) by simp_all
  have "first_after (fires off s) n t" if "first_after (\<lambda>t. (t + off) mod 3600000 = m * 60000) n t" for t
    using that by (simp add: Hourly first_after_def)
  then show ?thesis
    using hourly_next [OF assms(1) m assms(3,2)] periodic_first [where c = "m * 60000" and p = 3600000 and n = n and off = off] m
    by (simp add: Hourly)
next
  case (Daily time)
  then have tm: "HHMM time" using assms(4) by simp
  have "first_after (fires off s) n t" if "first_after (\<lambda>t. (t + off) mod ms_per_day = clock_ms time) n t" for t
    using that by (simp add: Daily first_after_def time_within_day_def)
  then show ?thesis
    using daily_next [OF assms(1) tm assms(3,2)] periodic_first [OF clock_ms_range [OF tm], where n = n and off = off]
    by (simp add: Daily)
next
  case (Weekly time ds)
  obtain hh mm where hm: "clock_hm time = (hh, mm)" by force
  then show ?thesis
    using weekly_first [OF assms(1) _ hm, of ds] timeParts_HHMM [OF _ hm] assms(2-4)
    by (simp add: Weekly nextRunOf_def Let_def del: fires.simps)
next
  case (Monthly time k)
  obtain hh mm where hm: "clock_hm time = (hh, mm)" by force
  then show ?thesis
    using monthly_first [OF assms(1) _ hm, of k] timeParts_HHMM [OF _ hm] assms(2-4)
    by (simp add: Monthly nextRunOf_def Let_def del: fires.simps)
qed (simp_all add: nextRunOf_def)

text \<open>A console one hour ahead of UTC, at noon UTC of 10 February 2026.\<close>

definition february :: host where
  "february =
     \<lparr>h_zone = fixed_zone 3600000, h_now = 1770724800000, h_parse = (\<lambda>_. None), h_parts = (\<lambda>_ _. None),
      h_datetime = (\<lambda>_. []), h_clock = (\<lambda>_. []), h_date = (\<lambda>_. []), h_group = num_str, h_log = (\<lambda>x. x)\<rparr>"

theorem nextRunOf_first_witness:
  "\<exists>t. nextRunOf february (Monthly ''01:00'' 31) None = Some (Some t) \<and>
     first_after (fires 3600000 (Monthly ''01:00'' 31)) 1770724800000 t"
proof -
  have "representable 3600000 1770724800000" by (simp add: representable_def ms_per_day_def)
  moreover have "h_zone february = fixed_zone 3600000" "serverNow february None = Some 1770724800000"
    by (simp_all add: february_def serverNow_def)
  moreover have "valid_schedule (Monthly ''01:00'' 31)" using HHMM_defaults(3) by simp
  ultimately show ?thesis
    using nextRunOf_first [of 3600000 1770724800000 february None "Monthly ''01:00'' 31"] by blast
qed

end
