(* ===== verification/Server_Schedule.thy ===== *)
theory Server_Schedule
  imports Next_Run
begin

text \<open>
  The server's reading of a schedule (\<open>internal/store/schedule.go\<close>) next to the console's: the days
  a monthly schedule fires, and the label of a schedule. The cron library the server hands its
  expressions to is a parameter: \<open>covers f d\<close> tells whether the day-of-month field \<open>f\<close> covers day \<open>d\<close>.
\<close>

definition LastDayOfMonth :: int where
  "LastDayOfMonth = 31"

definition lastDayCronDays :: string where
  "lastDayCronDays = ''28-31''"

text \<open>The day-of-month field of \<open>Cron()\<close> for a monthly schedule, and \<open>ShouldRun\<close> on a calendar day.\<close>

definition cron_dom :: "int \<Rightarrow> string" where
  "cron_dom k =
     (if LastDayOfMonth \<le> k then lastDayCronDays else if k < 1 then [] else int_str k)"

definition ShouldRun :: "int \<Rightarrow> int \<Rightarrow> bool" where
  "ShouldRun k d \<longleftrightarrow> k < LastDayOfMonth \<or> date_from_day d = month_end d"

definition server_runs_on :: "(string \<Rightarrow> int \<Rightarrow> bool) \<Rightarrow> int \<Rightarrow> int \<Rightarrow> bool" where
  "server_runs_on covers k d \<longleftrightarrow> covers (cron_dom k) (date_from_day d) \<and> ShouldRun k d"

text \<open>\<open>Label()\<close>, for a schedule in normal form.\<close>

definition weekdayNames :: "string list" where
  "weekdayNames = [''Sun'', ''Mon'', ''Tue'', ''Wed'', ''Thu'', ''Fri'', ''Sat'']"

fun Label :: "schedule \<Rightarrow> string" where
  "Label (Hourly m) = ''Every hour at :'' @ pad_start 2 (CHR ''0'') (int_str m)"
| "Label (Daily t) = ''Daily at '' @ t"
| "Label (Weekly t ds) =
     (let names = map (\<lambda>d. weekdayNames ! nat d) (filter (\<lambda>d. 0 \<le> d \<and> d \<le> 6) ds)
      in if names = [] then ''Weekly at '' @ t
         else ''Weekly on '' @ join_with '', '' names @ '' at '' @ t)"
| "Label (Monthly t k) =
     (if LastDayOfMonth \<le> k then ''Monthly on the last day at '' @ t
      else ''Monthly on day '' @ int_str k @ '' at '' @ t)"
| "Label (Advanced c) = ''Custom ('' @ c @ '')''"
| "Label Manual = ''Manual''"

subsection \<open>Properties\<close>


lemma int_str_days: "1 \<le> j \<Longrightarrow> j \<le> 31 \<Longrightarrow> int_str j = nat_str (nat j)"
  by (simp add: int_str_def)


lemma names_short:
  assumes "\<forall>d\<in>set ds. 0 \<le> d \<and> d \<le> (6 :: int)"
  shows "map (\<lambda>d. weekdayNames ! nat d) (filter (\<lambda>d. 0 \<le> d \<and> d \<le> 6) ds) = map weekdayShort ds"
  using assms by (induction ds) (simp_all add: weekdayShort_def weekdayNames_def WEEKDAY_SHORT_def)

lemma int_str_digit: "0 \<le> d \<Longrightarrow> d \<le> 6 \<Longrightarrow> int_str d = [digit_char (nat d)]"
  by (simp add: int_str_def nat_str.simps)

lemma digit_char_inj:
  assumes "0 \<le> a" "a \<le> 6" "0 \<le> b" "b \<le> (6 :: int)"
  shows "digit_char (nat a) = digit_char (nat b) \<longleftrightarrow> a = b"
proof -
  have "digit_val (digit_char (nat a)) = nat a" "digit_val (digit_char (nat b)) = nat b"
    using assms by (simp_all add: digit_val_digit_char)
  then show ?thesis using assms by (metis eq_nat_nat_iff)
qed

text \<open>Weekday lists of the same length print alike only when they are equal.\<close>

lemma join_days_inj:
  "length ds = length es \<Longrightarrow> \<forall>d\<in>set ds. 0 \<le> d \<and> d \<le> (6 :: int) \<Longrightarrow> \<forall>d\<in>set es. 0 \<le> d \<and> d \<le> 6 \<Longrightarrow>
   join_with '','' (map int_str ds) = join_with '','' (map int_str es) \<longleftrightarrow> ds = es"
proof (induction ds es rule: list_induct2)
  case (Cons a ds b es)
  then show ?case
    by (cases ds; cases es) (auto simp: int_str_digit digit_char_inj)
qed simp

lemma join_named_weeks:
  "''1,2,3,4,5'' = join_with '','' (map int_str [1, 2, 3, 4, 5])" "''0,6'' = join_with '','' (map int_str [0, 6])"
  by (simp_all add: int_str_digit)

lemma schedule_label_Label:
  assumes "valid_schedule s"
  shows "schedule_label s = Label s \<longleftrightarrow>
    (case s of
       Daily t \<Rightarrow> True
     | Weekly t ds \<Rightarrow> length ds \<noteq> 7 \<and> ds \<noteq> [1, 2, 3, 4, 5] \<and> ds \<noteq> [0, 6]
     | Monthly t k \<Rightarrow> k = 31
     | _ \<Rightarrow> False)"
proof (cases s)
  case (Weekly t ds)
  then have ds: "\<forall>d\<in>set ds. 0 \<le> d \<and> d \<le> 6" "ds \<noteq> []" "sort ds = ds"
    using assms by (auto simp: sorted_sort_id)
  have "length ds = 5 \<and> join_with '','' (map int_str ds) = ''1,2,3,4,5'' \<longleftrightarrow> ds = [1, 2, 3, 4, 5]"
    "length ds = 2 \<and> join_with '','' (map int_str ds) = ''0,6'' \<longleftrightarrow> ds = [0, 6]"
    using join_days_inj [of ds "[1, 2, 3, 4, 5]"] join_days_inj [of ds "[0, 6]"] ds(1)
    unfolding join_named_weeks by auto
  moreover have "Label (Weekly t ds) = ''Weekly on '' @ join_with '', '' (map weekdayShort ds) @ '' at '' @ t"
    using ds names_short [OF ds(1)] by (simp add: Let_def del: filter_True)
  ultimately show ?thesis
    unfolding Weekly using ds(3) by (simp add: Let_def del: Label.simps)
next
  case (Monthly t k)
  then show ?thesis using assms by (simp add: LastDayOfMonth_def)
qed simp_all

text \<open>
  The console's own label for a well-formed schedule is the
  server's exactly for daily schedules, for weekly ones other than every day, Monday to Friday and
  the weekend, and for the last day of the month; in the other cases the two word it differently.
\<close>

theorem describeSchedule_label:
  assumes "valid_schedule s"
  shows "describeSchedule (schedule_val s) = Label s \<longleftrightarrow>
    (case s of
       Daily t \<Rightarrow> True
     | Weekly t ds \<Rightarrow> length ds \<noteq> 7 \<and> ds \<noteq> [1, 2, 3, 4, 5] \<and> ds \<noteq> [0, 6]
     | Monthly t k \<Rightarrow> k = 31
     | _ \<Rightarrow> False)"
  unfolding describeSchedule_def sched_norm.parse_encode [OF assms] by (rule schedule_label_Label [OF assms])

theorem describeSchedule_label_witness:
  "describeSchedule (schedule_val (Weekly ''03:00'' [0, 6])) \<noteq> Label (Weekly ''03:00'' [0, 6])"
  using describeSchedule_label [of "Weekly ''03:00'' [0, 6]"] HHMM_defaults(2) by simp

end
