(* ===== verification/Ui_Machine.thy ===== *)
theory Ui_Machine
  imports Prelude
begin

text \<open>
  Components as state machines. A component has a state, a step per event and a predicate that
  tells which events its screen offers in a state; \<open>reaches\<close> is what a sequence of offered events
  leads to. The locale \<open>form_control\<close> is the contract of a controlled form part: it is mounted
  with a value, edits it, and hands the edited value back.
\<close>

inductive reaches :: "('e \<Rightarrow> 'c \<Rightarrow> 'c) \<Rightarrow> ('c \<Rightarrow> 'e \<Rightarrow> bool) \<Rightarrow> 'c \<Rightarrow> 'c \<Rightarrow> bool"
  for step :: "'e \<Rightarrow> 'c \<Rightarrow> 'c" and offered :: "'c \<Rightarrow> 'e \<Rightarrow> bool" where
  reaches_refl: "reaches step offered c c"
| reaches_step: "reaches step offered a b \<Longrightarrow> offered b e \<Longrightarrow> reaches step offered a (step e b)"

lemma reaches_invariant:
  assumes "reaches step offered a b" "I a" "\<And>c e. I c \<Longrightarrow> offered c e \<Longrightarrow> I (step e c)"
  shows "I b"
  using assms by (induction rule: reaches.induct) auto

lemma reaches_trans:
  assumes "reaches step offered b c" "reaches step offered a b"
  shows "reaches step offered a c"
  using assms by (induction rule: reaches.induct) (auto intro: reaches_step)

text \<open>Running a list of events, \<open>None\<close> when one of them is not offered.\<close>

fun run_events :: "('e \<Rightarrow> 'c \<Rightarrow> 'c) \<Rightarrow> ('c \<Rightarrow> 'e \<Rightarrow> bool) \<Rightarrow> 'e list \<Rightarrow> 'c \<Rightarrow> 'c option" where
  "run_events step offered [] c = Some c"
| "run_events step offered (e # es) c =
     (if offered c e then run_events step offered es (step e c) else None)"

lemma run_events_reaches: "run_events step offered es c = Some d \<Longrightarrow> reaches step offered c d"
proof (induction es arbitrary: c)
  case (Cons e es)
  then show ?case
    by (auto split: if_splits intro: reaches_trans reaches_step [OF reaches_refl])
qed (simp add: reaches_refl)

locale form_control =
  fixes mount :: "'v \<Rightarrow> 'c"
    and step :: "'e \<Rightarrow> 'c \<Rightarrow> 'c"
    and offered :: "'c \<Rightarrow> 'e \<Rightarrow> bool"
    and held :: "'c \<Rightarrow> 'v"
    and inv :: "'c \<Rightarrow> bool"
    and ok :: "'v \<Rightarrow> bool"
  assumes mount_inv: "ok v \<Longrightarrow> inv (mount v)"
    and mount_held: "held (mount v) = v"
    and step_inv: "inv c \<Longrightarrow> offered c e \<Longrightarrow> inv (step e c)"
    and inv_ok: "inv c \<Longrightarrow> ok (held c)"
begin

lemma reaches_inv: "ok v \<Longrightarrow> reaches step offered (mount v) c \<Longrightarrow> inv c"
  by (erule reaches_invariant) (auto intro: mount_inv step_inv)

lemma held_ok: "ok v \<Longrightarrow> reaches step offered (mount v) c \<Longrightarrow> ok (held c)"
  by (rule inv_ok [OF reaches_inv])

end

text \<open>
  A dialog of consecutive steps: \<open>stepNo\<close> is the step on screen and \<open>ok\<close> tells whether a step is
  complete. Going forward needs the current step complete and moves by one; nothing undoes a step
  that stays behind. Then every step behind the one on screen is complete.
\<close>

locale step_dialog =
  fixes stepNo :: "'w \<Rightarrow> nat"
    and ok :: "'w \<Rightarrow> nat \<Rightarrow> bool"
    and step :: "'e \<Rightarrow> 'w \<Rightarrow> 'w"
    and offered :: "'w \<Rightarrow> 'e \<Rightarrow> bool"
  assumes forward: "offered w e \<Longrightarrow> stepNo (step e w) \<le> Suc (stepNo w) \<and>
      (stepNo (step e w) = Suc (stepNo w) \<longrightarrow> ok w (stepNo w))"
    and keeps: "offered w e \<Longrightarrow> i < stepNo (step e w) \<Longrightarrow> ok w i \<Longrightarrow> ok (step e w) i"
begin

definition behind_ok :: "'w \<Rightarrow> bool" where
  "behind_ok w \<longleftrightarrow> (\<forall>i<stepNo w. ok w i)"

lemma step_behind_ok: "behind_ok w \<Longrightarrow> offered w e \<Longrightarrow> behind_ok (step e w)"
  using forward [of w e] keeps [of w e] unfolding behind_ok_def
  by (metis le_SucE less_SucE less_le_trans)

lemma reaches_behind_ok: "stepNo a = 0 \<Longrightarrow> reaches step offered a w \<Longrightarrow> behind_ok w"
  by (erule reaches_invariant) (auto simp: behind_ok_def intro: step_behind_ok [unfolded behind_ok_def, rule_format])

lemma behind: "stepNo a = 0 \<Longrightarrow> reaches step offered a w \<Longrightarrow> i < stepNo w \<Longrightarrow> ok w i"
  using reaches_behind_ok by (auto simp: behind_ok_def)

end

text \<open>
  A debounced loader: \<open>question\<close> is what the screen asks now (\<open>None\<close> while it asks nothing), \<open>armed\<close> the
  question a timer holds, \<open>live\<close> the question whose request has not been aborted, \<open>answered\<close> the
  question the answer on screen is for, \<open>failed\<close> whether an error is on screen instead. A step arms
  the timer for the question it leaves, or fires the timer, or settles the live request, or
  leaves all of this alone. Then a live request is always for the current question, and what is
  on screen once nothing is out is the answer to it or an error.
\<close>

locale latest_request =
  fixes step :: "'e \<Rightarrow> 'c \<Rightarrow> 'c"
    and offered :: "'c \<Rightarrow> 'e \<Rightarrow> bool"
    and question armed live answered :: "'c \<Rightarrow> 'q option"
    and failed :: "'c \<Rightarrow> bool"
  assumes law: "offered c e \<Longrightarrow>
      armed (step e c) = question (step e c) \<and> live (step e c) = None \<or>
      question (step e c) = question c \<and>
        (armed (step e c) = armed c \<and> live (step e c) = live c \<and> answered (step e c) = answered c \<and>
           failed (step e c) = failed c \<or>
         armed c \<noteq> None \<and> armed (step e c) = None \<and> live (step e c) = armed c \<or>
         live c \<noteq> None \<and> live (step e c) = None \<and> armed (step e c) = armed c \<and>
           (answered (step e c) = live c \<or> failed (step e c)))"
begin

definition current :: "'c \<Rightarrow> bool" where
  "current c \<longleftrightarrow>
     (armed c = None \<or> armed c = question c \<and> live c = None) \<and>
     (live c = None \<or> live c = question c) \<and>
     (armed c = None \<and> live c = None \<and> question c \<noteq> None \<longrightarrow> failed c \<or> answered c = question c)"

lemma step_current: "current c \<Longrightarrow> offered c e \<Longrightarrow> current (step e c)"
  using law [of c e] unfolding current_def by (elim disjE conjE) auto

lemma reaches_current:
  assumes "reaches step offered a c" "armed a = question a" "live a = None"
  shows "current c"
proof -
  have "current a" using assms(2,3) by (auto simp: current_def)
  with assms(1) show ?thesis using step_current by (rule reaches_invariant)
qed

end

text \<open>
  A screen that sends requests: \<open>sent\<close> are the requests it has made, and \<open>ok\<close> what each of them has
  to satisfy. The screen keeps an invariant from its first state on that covers every request it
  made. Then every request of every run is one that was allowed.
\<close>

locale request_guard =
  fixes start :: 'c
    and step :: "'e \<Rightarrow> 'c \<Rightarrow> 'c"
    and offered :: "'c \<Rightarrow> 'e \<Rightarrow> bool"
    and inv :: "'c \<Rightarrow> bool"
    and sent :: "'c \<Rightarrow> 'r list"
    and ok :: "'r \<Rightarrow> bool"
  assumes start_inv: "inv start"
    and step_inv: "inv c \<Longrightarrow> offered c e \<Longrightarrow> inv (step e c)"
    and inv_ok: "inv c \<Longrightarrow> list_all ok (sent c)"
begin

lemma reachable_inv: "reaches step offered start c \<Longrightarrow> inv c"
  by (erule reaches_invariant) (rule start_inv, rule step_inv)

lemma request_ok: "reaches step offered start c \<Longrightarrow> r \<in> set (sent c) \<Longrightarrow> ok r"
  using inv_ok [OF reachable_inv] by (auto simp: list_all_iff)

end

text \<open>
  Two machines on one screen: a part keeps its own machine inside the state of the screen, reached by
  \<open>part\<close>. When every step of the screen leaves the part alone or makes one offered step of it, the part
  of a reachable screen is a reachable part, and whatever holds of all runs of the part holds on
  the screen.
\<close>

locale embedded_part =
  fixes step :: "'e \<Rightarrow> 'c \<Rightarrow> 'c"
    and offered :: "'c \<Rightarrow> 'e \<Rightarrow> bool"
    and part :: "'c \<Rightarrow> 'p"
    and pstep :: "'f \<Rightarrow> 'p \<Rightarrow> 'p"
    and poffered :: "'p \<Rightarrow> 'f \<Rightarrow> bool"
  assumes moves: "offered c e \<Longrightarrow> part (step e c) = part c \<or>
      (\<exists>f. poffered (part c) f \<and> part (step e c) = pstep f (part c))"
begin

lemma part_reaches: "reaches step offered a c \<Longrightarrow> reaches pstep poffered (part a) (part c)"
proof (induction rule: reaches.induct)
  case (reaches_step a b e)
  then show ?case using moves [of b e] by (auto intro: reaches.reaches_step)
qed (rule reaches_refl)

end

end
