(* ===== verification/Schedule_Editor.thy ===== *)
theory Schedule_Editor
  imports Format Ui_Machine
begin

text \<open>
  The scheduling control (\<open>web/src/components/ScheduleEditor.tsx\<close>): the draft that keeps every field
  alive while the cadence changes, its projection onto a schedule, the handlers of its controls
  and what is on screen. The state of the mounted component is a record with the draft, whether
  the cron disclosure is open, and the schedule the parent holds (what \<open>onChange\<close> reported last).
\<close>

subsection \<open>The draft\<close>

datatype scheduleKind = KManual | KHourly | KDaily | KWeekly | KMonthly | KAdvanced

fun kindOf :: "schedule \<Rightarrow> scheduleKind" where
  "kindOf Manual = KManual"
| "kindOf (Hourly _) = KHourly"
| "kindOf (Daily _) = KDaily"
| "kindOf (Weekly _ _) = KWeekly"
| "kindOf (Monthly _ _) = KMonthly"
| "kindOf (Advanced _) = KAdvanced"

record draft =
  d_kind :: scheduleKind
  d_minute :: int
  d_time :: string
  d_weekdays :: "int list"
  d_dayOfMonth :: int
  d_cron :: string
  d_fallback :: scheduleKind

definition DEFAULT_DRAFT :: draft where
  "DEFAULT_DRAFT =
     \<lparr>d_kind = KDaily, d_minute = 0, d_time = ''02:00'', d_weekdays = [0], d_dayOfMonth = 1,
      d_cron = [], d_fallback = KDaily\<rparr>"

fun draftFrom :: "schedule \<Rightarrow> draft" where
  "draftFrom Manual = DEFAULT_DRAFT\<lparr>d_kind := KManual, d_fallback := KManual\<rparr>"
| "draftFrom (Hourly minute) =
     DEFAULT_DRAFT\<lparr>d_kind := KHourly, d_fallback := KHourly, d_minute := minute\<rparr>"
| "draftFrom (Daily time) =
     DEFAULT_DRAFT\<lparr>d_kind := KDaily, d_fallback := KDaily, d_time := time\<rparr>"
| "draftFrom (Weekly time weekdays) =
     DEFAULT_DRAFT\<lparr>d_kind := KWeekly, d_fallback := KWeekly, d_time := time,
       d_weekdays := (if weekdays \<noteq> [] then weekdays else [0])\<rparr>"
| "draftFrom (Monthly time dayOfMonth) =
     DEFAULT_DRAFT\<lparr>d_kind := KMonthly, d_fallback := KMonthly, d_time := time,
       d_dayOfMonth := dayOfMonth\<rparr>"
| "draftFrom (Advanced cron) = DEFAULT_DRAFT\<lparr>d_kind := KAdvanced, d_cron := cron\<rparr>"

definition toSchedule :: "draft \<Rightarrow> schedule" where
  "toSchedule draft =
     (case d_kind draft of
        KManual \<Rightarrow> Manual
      | KHourly \<Rightarrow> Hourly (d_minute draft)
      | KDaily \<Rightarrow> Daily (d_time draft)
      | KWeekly \<Rightarrow> Weekly (d_time draft) (sort (d_weekdays draft))
      | KMonthly \<Rightarrow> Monthly (d_time draft) (d_dayOfMonth draft)
      | KAdvanced \<Rightarrow> Advanced (trim (d_cron draft)))"

fun isScheduleComplete :: "schedule \<Rightarrow> bool" where
  "isScheduleComplete (Weekly _ weekdays) = (weekdays \<noteq> [])"
| "isScheduleComplete (Advanced cron) = isValidCron cron"
| "isScheduleComplete _ = True"

subsection \<open>The controls\<close>

definition CADENCES :: "(scheduleKind \<times> string \<times> string) list" where
  "CADENCES =
     [(KManual, ''Manual'', ''You start it''), (KHourly, ''Hourly'', ''Every hour''),
      (KDaily, ''Daily'', ''Once a day''), (KWeekly, ''Weekly'', ''Chosen days''),
      (KMonthly, ''Monthly'', ''One day a month'')]"

definition HOURS :: "int list" where
  "HOURS = [0..23]"

definition minuteOptions :: "int \<Rightarrow> int list" where
  "minuteOptions current =
     (let steps = map (\<lambda>index. index * 5) [0..11]
      in if current \<in> set steps then steps else sort (steps @ [current]))"

definition partsOf :: "string \<Rightarrow> jsnum \<times> jsnum" where
  "partsOf time =
     (let fs = split_on (CHR '':'') time;
          hour = str_num (hd fs);
          minute = (if 1 < length fs then str_num (fs ! 1) else NaN)
      in (if js_is_finite hour then hour else Fin 0, if js_is_finite minute then minute else Fin 0))"

definition TIME_PRESETS :: "string list" where
  "TIME_PRESETS = [''22:00'', ''00:00'', ''02:00'', ''04:00'']"

definition WEEKDAY_PRESETS :: "(string \<times> int list) list" where
  "WEEKDAY_PRESETS =
     [(''Mon'' @ en_dash @ ''Fri'', [1, 2, 3, 4, 5]), (''Weekend'', [0, 6]),
      (''Every day'', [0, 1, 2, 3, 4, 5, 6])]"

definition MINUTE_CHOICES :: "int list" where
  "MINUTE_CHOICES = [0, 5, 10, 15, 20, 30, 40, 45, 50]"

definition MONTH_DAYS :: "int list" where
  "MONTH_DAYS = map (\<lambda>index. index + 1) [0..29]"

text \<open>\<open>WeekdayPicker\<close>'s toggle and the state of its preset buttons.\<close>

definition toggleDay :: "int list \<Rightarrow> int \<Rightarrow> int list" where
  "toggleDay selected day =
     (if day \<in> set selected then filter (\<lambda>item. item \<noteq> day) selected else sort (selected @ [day]))"

definition presetActive :: "int list \<Rightarrow> int list \<Rightarrow> bool" where
  "presetActive days selected \<longleftrightarrow>
     length days = length selected \<and> list_all (\<lambda>day. day \<in> set selected) days"

text \<open>\<open>TimeField\<close>: a new hour keeps the minute, a new minute the hour.\<close>

definition withHour :: "string \<Rightarrow> int \<Rightarrow> string" where
  "withHour value hour = padTime hour (int_of (snd (partsOf value)))"

definition withMinute :: "string \<Rightarrow> int \<Rightarrow> string" where
  "withMinute value minute = padTime (int_of (fst (partsOf value))) minute"

subsection \<open>The component\<close>

record editor =
  ed_draft :: draft
  ed_advancedOpen :: bool
  ed_value :: schedule

definition mountEditor :: "schedule \<Rightarrow> editor" where
  "mountEditor value =
     \<lparr>ed_draft = draftFrom value, ed_advancedOpen = (kindOf value = KAdvanced), ed_value = value\<rparr>"

text \<open>\<open>apply\<close>: the patched draft, reported to the parent as a schedule.\<close>

definition applyDraft :: "(draft \<Rightarrow> draft) \<Rightarrow> editor \<Rightarrow> editor" where
  "applyDraft patch e =
     (let next = patch (ed_draft e) in e\<lparr>ed_draft := next, ed_value := toSchedule next\<rparr>)"

datatype editorEvent =
    PickCadence scheduleKind
  | PickMinute int
  | PickHour int
  | PickMinuteOfHour int
  | PickTimePreset string
  | ToggleDay int
  | PickDaysPreset "int list"
  | PickDay int
  | EditCron string
  | ToggleAdvanced bool

definition timed :: "scheduleKind \<Rightarrow> bool" where
  "timed k \<longleftrightarrow> k = KDaily \<or> k = KWeekly \<or> k = KMonthly"

text \<open>Which controls are on screen, with the values they offer.\<close>

fun offered :: "editor \<Rightarrow> editorEvent \<Rightarrow> bool" where
  "offered e (PickCadence k) = (k \<in> set (map fst CADENCES))"
| "offered e (PickMinute m) = (d_kind (ed_draft e) = KHourly \<and> m \<in> set MINUTE_CHOICES)"
| "offered e (PickHour h) = (timed (d_kind (ed_draft e)) \<and> h \<in> set HOURS)"
| "offered e (PickMinuteOfHour m) =
     (timed (d_kind (ed_draft e)) \<and>
      m \<in> set (minuteOptions (int_of (snd (partsOf (d_time (ed_draft e)))))))"
| "offered e (PickTimePreset t) = (timed (d_kind (ed_draft e)) \<and> t \<in> set TIME_PRESETS)"
| "offered e (ToggleDay d) = (d_kind (ed_draft e) = KWeekly \<and> d \<in> set [0..6])"
| "offered e (PickDaysPreset ds) =
     (d_kind (ed_draft e) = KWeekly \<and> ds \<in> set (map snd WEEKDAY_PRESETS))"
| "offered e (PickDay d) = (d_kind (ed_draft e) = KMonthly \<and> (d \<in> set MONTH_DAYS \<or> d = 31))"
| "offered e (EditCron c) = ed_advancedOpen e"
| "offered e (ToggleAdvanced b) = (b \<noteq> ed_advancedOpen e)"

fun editorStep :: "editorEvent \<Rightarrow> editor \<Rightarrow> editor" where
  "editorStep (PickCadence k) e =
     applyDraft (\<lambda>d. d\<lparr>d_kind := k, d_fallback := k\<rparr>) (e\<lparr>ed_advancedOpen := False\<rparr>)"
| "editorStep (PickMinute m) e = applyDraft (\<lambda>d. d\<lparr>d_minute := m\<rparr>) e"
| "editorStep (PickHour h) e = applyDraft (\<lambda>d. d\<lparr>d_time := withHour (d_time d) h\<rparr>) e"
| "editorStep (PickMinuteOfHour m) e = applyDraft (\<lambda>d. d\<lparr>d_time := withMinute (d_time d) m\<rparr>) e"
| "editorStep (PickTimePreset t) e = applyDraft (\<lambda>d. d\<lparr>d_time := t\<rparr>) e"
| "editorStep (ToggleDay day) e = applyDraft (\<lambda>d. d\<lparr>d_weekdays := toggleDay (d_weekdays d) day\<rparr>) e"
| "editorStep (PickDaysPreset ds) e = applyDraft (\<lambda>d. d\<lparr>d_weekdays := ds\<rparr>) e"
| "editorStep (PickDay day) e = applyDraft (\<lambda>d. d\<lparr>d_dayOfMonth := day\<rparr>) e"
| "editorStep (EditCron cron) e =
     applyDraft (\<lambda>d. d\<lparr>d_kind := (if trim cron \<noteq> [] then KAdvanced else d_fallback d), d_cron := cron\<rparr>) e"
| "editorStep (ToggleAdvanced b) e = e\<lparr>ed_advancedOpen := b\<rparr>"

text \<open>The confirmation block and the badge next to the cron field.\<close>

definition cronInvalid :: "draft \<Rightarrow> bool" where
  "cronInvalid d \<longleftrightarrow> d_kind d = KAdvanced \<and> trim (d_cron d) \<noteq> [] \<and> \<not> isValidCron (d_cron d)"

definition confirmation :: "host \<Rightarrow> editor \<Rightarrow> string option \<Rightarrow> string list" where
  "confirmation h e timezone =
     (let schedule = toSchedule (ed_draft e); nextRun = nextRunOf h schedule timezone
      in describeScheduleSentence schedule #
         (case nextRun of
            Some t \<Rightarrow> [''Next run '' @ formatWallClock (h_zone h) nextRun]
          | None \<Rightarrow> if d_kind (ed_draft e) = KAdvanced then [''Next run is calculated by the server.''] else []) @
         (case timezone of
            Some tz \<Rightarrow> if tz \<noteq> [] \<and> tz \<noteq> ''Local'' then [''Server time zone '' @ tz]
                       else [''Times are in the server'' @ rsquo @ ''s local time zone.'']
          | None \<Rightarrow> [''Times are in the server'' @ rsquo @ ''s local time zone.'']))"

definition cronBadge :: "draft \<Rightarrow> string option" where
  "cronBadge d =
     (if d_kind d = KAdvanced \<and> trim (d_cron d) \<noteq> []
      then Some (if cronInvalid d then ''Enter five space-separated fields.'' else ''In use'')
      else None)"

definition monthDayHint :: "int \<Rightarrow> string option" where
  "monthDayHint value =
     (if value \<noteq> 31 \<and> 28 < value
      then Some (''Months without a '' @ ordinal value @ '' run on their last day instead.'')
      else None)"

subsection \<open>Lemmas\<close>

text \<open>A schedule the editor can hold: well formed, or weekly with no day chosen yet.\<close>

definition editable :: "schedule \<Rightarrow> bool" where
  "editable s \<longleftrightarrow> valid_schedule s \<or> (\<exists>t. s = Weekly t [] \<and> HHMM t)"

definition draft_ok :: "draft \<Rightarrow> bool" where
  "draft_ok d \<longleftrightarrow>
     0 \<le> d_minute d \<and> d_minute d \<le> 59 \<and> HHMM (d_time d) \<and>
     sorted (d_weekdays d) \<and> distinct (d_weekdays d) \<and> set (d_weekdays d) \<subseteq> {0..6} \<and>
     1 \<le> d_dayOfMonth d \<and> d_dayOfMonth d \<le> 31 \<and> d_fallback d \<noteq> KAdvanced"

definition editor_inv :: "editor \<Rightarrow> bool" where
  "editor_inv e \<longleftrightarrow> draft_ok (ed_draft e) \<and> editable (ed_value e)"

lemma draft_ok_default: "draft_ok DEFAULT_DRAFT"
  using HHMM_defaults(1) by (simp add: draft_ok_def DEFAULT_DRAFT_def)

lemma draftFrom_ok: "editable s \<Longrightarrow> draft_ok (draftFrom s)"
  using draft_ok_default HHMM_defaults(1)
  by (cases s) (auto simp: editable_def draft_ok_def DEFAULT_DRAFT_def)

lemma toSchedule_editable: "draft_ok d \<Longrightarrow> editable (toSchedule d)"
  by (cases "d_kind d") (auto simp: toSchedule_def draft_ok_def editable_def)

lemma toSchedule_draftFrom: "valid_schedule s \<Longrightarrow> toSchedule (draftFrom s) = s"
  by (cases s) (auto simp: toSchedule_def DEFAULT_DRAFT_def sorted_sort_id)

lemma int_str_pad:
  assumes "0 \<le> n" "n < 100"
  shows "pad_start 2 (CHR ''0'') (int_str n) = [digit_char (nat n div 10), digit_char (nat n mod 10)]"
  using assms length_nat_str_le2 [of "nat n"] by (auto simp: pad_start_def int_str_def nat_str.simps)

lemma padTime_HHMM:
  assumes "0 \<le> h" "h \<le> 23" "0 \<le> m" "m \<le> 59"
  shows "HHMM (padTime h m)"
proof -
  let ?a = "nat h div 10" and ?b = "nat h mod 10" and ?d = "nat m div 10"
  have "n \<le> 23 \<Longrightarrow> n div 10 = 0 \<or> n div 10 = 1 \<or> n div 10 = 2 \<and> n mod 10 \<le> 3" for n :: nat by presburger
  from this [of "nat h"] have "?a = 0 \<or> ?a = 1 \<or> ?a = 2 \<and> ?b \<le> 3" using assms by simp
  moreover have "?d \<le> 5" using assms by simp
  moreover have "digit_char 0 = CHR ''0''" "digit_char 1 = CHR ''1''" "digit_char 2 = CHR ''2''" by simp_all
  ultimately show ?thesis
    using assms by (auto simp: padTime_def int_str_pad)
qed

text \<open>The hour and the minute read back from a clock text are in range.\<close>

lemma partsOf_range:
  assumes "HHMM t"
  shows "0 \<le> int_of (fst (partsOf t))" "int_of (fst (partsOf t)) \<le> 23"
    "0 \<le> int_of (snd (partsOf t))" "int_of (snd (partsOf t)) \<le> 59"
proof -
  obtain h m where hm: "clock_hm t = (h, m)" by force
  obtain x y where "split_on (CHR '':'') t = [x, y]" "str_num x = jsint h" "str_num y = jsint m"
    using assms hm by (rule clock_split)
  then have "partsOf t = (jsint h, jsint m)" by (simp add: partsOf_def)
  with HHMM_clock_hm [OF assms hm]
  show "0 \<le> int_of (fst (partsOf t))" "int_of (fst (partsOf t)) \<le> 23"
    "0 \<le> int_of (snd (partsOf t))" "int_of (snd (partsOf t)) \<le> 59" by simp_all
qed

lemma withTime_HHMM:
  "HHMM t \<Longrightarrow> 0 \<le> h \<Longrightarrow> h \<le> 23 \<Longrightarrow> HHMM (withHour t h)"
  "HHMM t \<Longrightarrow> 0 \<le> m \<Longrightarrow> m \<le> 59 \<Longrightarrow> HHMM (withMinute t m)"
  by (simp_all add: withHour_def withMinute_def padTime_HHMM partsOf_range)

lemma minuteOptions_range: "m \<in> set (minuteOptions c) \<Longrightarrow> 0 \<le> c \<Longrightarrow> c \<le> 59 \<Longrightarrow> 0 \<le> m \<and> m \<le> 59"
  by (auto simp: minuteOptions_def Let_def split: if_splits)

lemma toggleDay_ok:
  assumes "sorted ds" "distinct ds" "set ds \<subseteq> {0..6}" "0 \<le> d" "d \<le> 6"
  shows "sorted (toggleDay ds d) \<and> distinct (toggleDay ds d) \<and> set (toggleDay ds d) \<subseteq> {0..6}"
  using assms by (auto simp: toggleDay_def sorted_filter [of "\<lambda>x. x", simplified])

lemma applyDraft_inv: "draft_ok (patch (ed_draft e)) \<Longrightarrow> editor_inv (applyDraft patch e)"
  by (simp add: editor_inv_def applyDraft_def Let_def toSchedule_editable)

lemma presets_ok:
  "t \<in> set TIME_PRESETS \<Longrightarrow> HHMM t"
  "ds \<in> set (map snd WEEKDAY_PRESETS) \<Longrightarrow> sorted ds \<and> distinct ds \<and> set ds \<subseteq> {0..6}"
  "m \<in> set MINUTE_CHOICES \<Longrightarrow> 0 \<le> m \<and> m \<le> 59"
  by (auto simp: TIME_PRESETS_def WEEKDAY_PRESETS_def MINUTE_CHOICES_def is_digit_def digit_val_def)

lemma editorStep_inv:
  assumes "editor_inv e" "offered e ev"
  shows "editor_inv (editorStep ev e)"
proof -
  have d: "draft_ok (ed_draft e)" using assms(1) by (simp add: editor_inv_def)
  note b = d [unfolded draft_ok_def]
  show ?thesis
  proof (cases ev)
    case (PickCadence k)
    then have "k \<noteq> KAdvanced" using assms(2) by (auto simp: CADENCES_def)
    with b show ?thesis unfolding PickCadence editorStep.simps by (intro applyDraft_inv) (simp add: draft_ok_def)
  next
    case (PickMinute m)
    then have "0 \<le> m \<and> m \<le> 59" using assms(2) presets_ok(3) by simp
    with b show ?thesis unfolding PickMinute editorStep.simps by (intro applyDraft_inv) (simp add: draft_ok_def)
  next
    case (PickHour h)
    then have "HHMM (withHour (d_time (ed_draft e)) h)"
      using assms(2) b by (intro withTime_HHMM) (simp_all add: HOURS_def)
    with b show ?thesis unfolding PickHour editorStep.simps by (intro applyDraft_inv) (simp add: draft_ok_def)
  next
    case (PickMinuteOfHour m)
    then have "0 \<le> m \<and> m \<le> 59"
      using assms(2) minuteOptions_range partsOf_range [of "d_time (ed_draft e)"] b offered.simps(4) by blast
    then have "HHMM (withMinute (d_time (ed_draft e)) m)" using b by (intro withTime_HHMM) simp_all
    with b show ?thesis unfolding PickMinuteOfHour editorStep.simps by (intro applyDraft_inv) (simp add: draft_ok_def)
  next
    case (PickTimePreset t)
    then have "HHMM t" using assms(2) presets_ok(1) by simp
    with b show ?thesis unfolding PickTimePreset editorStep.simps by (intro applyDraft_inv) (simp add: draft_ok_def)
  next
    case (ToggleDay x)
    then have "0 \<le> x" "x \<le> 6" using assms(2) by simp_all
    with b toggleDay_ok [of "d_weekdays (ed_draft e)" x] show ?thesis
      unfolding ToggleDay editorStep.simps by (intro applyDraft_inv) (simp add: draft_ok_def)
  next
    case (PickDaysPreset ds)
    with b presets_ok(2) [of ds] assms(2) show ?thesis
      unfolding PickDaysPreset editorStep.simps by (intro applyDraft_inv) (simp add: draft_ok_def)
  next
    case (PickDay x)
    then have "1 \<le> x \<and> x \<le> 31" using assms(2) by (auto simp: MONTH_DAYS_def)
    with b show ?thesis unfolding PickDay editorStep.simps by (intro applyDraft_inv) (simp add: draft_ok_def)
  next
    case (EditCron c)
    with b show ?thesis unfolding EditCron editorStep.simps by (intro applyDraft_inv) (simp add: draft_ok_def)
  next
    case (ToggleAdvanced x)
    with assms(1) show ?thesis by (simp add: editor_inv_def)
  qed
qed

interpretation schedule_control: form_control mountEditor editorStep offered ed_value editor_inv editable
proof unfold_locales
  show "editor_inv (mountEditor v)" if "editable v" for v
    using that draftFrom_ok [OF that] by (simp add: mountEditor_def editor_inv_def)
qed (simp_all add: mountEditor_def editorStep_inv, simp add: editor_inv_def)

subsection \<open>Properties\<close>

text \<open>The parent holds what the draft says.\<close>

definition in_sync :: "editor \<Rightarrow> bool" where
  "in_sync e \<longleftrightarrow> ed_value e = toSchedule (ed_draft e)"

lemma editorStep_sync: "in_sync e \<Longrightarrow> in_sync (editorStep ev e)"
  by (cases ev) (simp_all add: in_sync_def applyDraft_def Let_def)

lemma complete_valid: "editable s \<Longrightarrow> isScheduleComplete s \<Longrightarrow> valid_schedule s"
  by (auto simp: editable_def)


lemma weekend_run:
  "run_events editorStep offered [PickCadence KWeekly, ToggleDay 6] (mountEditor (Daily ''02:00'')) =
     Some \<lparr>ed_draft = DEFAULT_DRAFT\<lparr>d_kind := KWeekly, d_fallback := KWeekly, d_weekdays := [0, 6]\<rparr>,
           ed_advancedOpen = False, ed_value = Weekly ''02:00'' [0, 6]\<rparr>"
  by (simp add: mountEditor_def DEFAULT_DRAFT_def CADENCES_def applyDraft_def toSchedule_def toggleDay_def Let_def)


text \<open>
  Changing the cadence loses nothing: opening the editor on a well-formed schedule shows that
  schedule, and after a look at any other cadence the original one is back as it was.
\<close>

theorem cadence_round_trip:
  assumes "valid_schedule s" "kindOf s \<noteq> KAdvanced" "k \<in> set (map fst CADENCES)"
  shows "toSchedule (ed_draft (mountEditor s)) = s \<and>
    ed_value (editorStep (PickCadence (kindOf s)) (editorStep (PickCadence k) (mountEditor s))) = s"
  using toSchedule_draftFrom [OF assms(1)] assms(1,2)
  by (cases s) (auto simp: mountEditor_def applyDraft_def toSchedule_def DEFAULT_DRAFT_def sorted_sort_id Let_def)

theorem cadence_round_trip_witness:
  "ed_value (editorStep (PickCadence KMonthly) (editorStep (PickCadence KDaily) (mountEditor (Monthly ''01:00'' 31)))) =
     Monthly ''01:00'' 31"
  using cadence_round_trip [of "Monthly ''01:00'' 31" KDaily] HHMM_defaults(3) by (simp add: CADENCES_def)

text \<open>
  Remounting after clearing every day: a weekly schedule without a day is shown, when the
  editor is mounted again, with Sunday chosen; what the wizard holds still has no day and is not
  complete, so the screen and the held schedule disagree until a control is used.
\<close>

theorem remount_out_of_sync:
  "toSchedule (ed_draft (mountEditor (Weekly t []))) = Weekly t [0] \<and>
   isScheduleComplete (toSchedule (ed_draft (mountEditor (Weekly t [])))) \<and>
   ed_value (mountEditor (Weekly t [])) = Weekly t [] \<and>
   \<not> isScheduleComplete (ed_value (mountEditor (Weekly t [])))"
  by (simp add: mountEditor_def toSchedule_def DEFAULT_DRAFT_def)

end
