(* ===== verification/Job_Sources.thy ===== *)
theory Job_Sources
  imports Endpoints
begin

text \<open>
  Inventory rows and jobs (\<open>web/src/api.ts\<close>: virtual machines, agents, jobs and the job source
  helpers at the end). \<open>sources\<close> and \<open>tags\<close> are read from the wire without trust, so they stay
  values; \<open>schedule\<close>, \<open>retention\<close> and \<open>policy\<close> go through their normalisers. The collation of the
  browser (\<open>localeCompare\<close>) is a parameter.
\<close>

record vm =
  v_vmid :: jsnum
  v_name :: string
  v_node :: string
  v_status :: string
  v_maxdisk :: jsnum
  v_maxmem :: jsnum
  v_uptime :: jsnum
  v_tags :: jval

record cachedVM = vm +
  v_hostId :: js_id
  v_hostName :: string

record agent =
  a_id :: js_id
  a_hostname :: string
  a_os :: string
  a_arch :: string
  a_version :: string
  a_status :: string
  a_lastSeen :: string
  a_registeredAt :: string

record job =
  j_id :: js_id
  j_name :: string
  j_kind :: jobKind
  j_targetId :: js_id
  j_targetName :: string
  j_schedule :: jval
  j_scheduleLabel :: "string option"
  j_retention :: jval
  j_policy :: jval
  j_enabled :: bool
  j_sources :: jval
  j_tagFilter :: "string option"
  j_nextRun :: "string option"
  j_lastRun :: "jobRun option"

text \<open>
  What a job is created or changed with: the sources of either kind. The agent and the paths of an
  edited job come from the wire and are sent back as they are, so they stay values.
\<close>

record vmJobSource =
  s_hostId :: js_id
  s_vmid :: jsnum
  s_name :: string

datatype jobSources = VmSources "vmJobSource list" | AgentSources jval "jval list"

record jobCreate =
  jc_name :: string
  jc_kind :: jobKind
  jc_targetId :: js_id
  jc_schedule :: schedule
  jc_retention :: retentionPolicy
  jc_policy :: jobPolicy
  jc_sources :: jobSources
  jc_enabled :: bool
  jc_tagFilter :: "string option"

fun vmSource_val :: "vmJobSource \<Rightarrow> jval" where
  "vmSource_val s =
     JObj [(''hostId'', id_val (s_hostId s)), (''vmid'', JNum (s_vmid s)), (''name'', JStr (s_name s))]"

fun sources_val :: "jobSources \<Rightarrow> jval" where
  "sources_val (VmSources ss) = JArr (map vmSource_val ss)"
| "sources_val (AgentSources i ps) = JObj [(''agentId'', i), (''paths'', JArr ps)]"

fun kind_val :: "jobKind \<Rightarrow> jval" where
  "kind_val VmJob = JStr ''vm''"
| "kind_val AgentJob = JStr ''agent''"

text \<open>The body of the request: \<open>tagFilter\<close> only where it is set.\<close>

definition jobCreate_val :: "jobCreate \<Rightarrow> jval" where
  "jobCreate_val c = JObj
     ([(''name'', JStr (jc_name c)), (''kind'', kind_val (jc_kind c)), (''targetId'', id_val (jc_targetId c)),
       (''schedule'', schedule_val (jc_schedule c)), (''retention'', retention_val (jc_retention c)),
       (''policy'', policy_val (jc_policy c)), (''sources'', sources_val (jc_sources c)),
       (''enabled'', JBool (jc_enabled c))] @
      (case jc_tagFilter c of Some t \<Rightarrow> [(''tagFilter'', JStr t)] | None \<Rightarrow> []))"

subsection \<open>Source helpers\<close>

definition isAgentJobSource :: "jval \<Rightarrow> bool" where
  "isAgentJobSource value \<longleftrightarrow> is_object value \<and> has_key value ''agentId'' \<and> is_array (jprop value ''paths'')"

definition isVMJobSource :: "jval \<Rightarrow> bool" where
  "isVMJobSource value \<longleftrightarrow> is_object value \<and> has_key value ''vmid'' \<and> has_key value ''hostId''"

definition vmSourcesOf :: "jval \<Rightarrow> jval list" where
  "vmSourcesOf sources = (if is_array sources then filter isVMJobSource (elems sources) else [])"

definition tagsOf :: "jval \<Rightarrow> string list" where
  "tagsOf tags =
     (if \<not> is_array tags then []
      else filter (\<lambda>tag. length tag > 0) (List.map_filter str_of (elems tags)))"

definition allTagsOf :: "(string \<Rightarrow> string \<Rightarrow> int) \<Rightarrow> 'a vm_scheme list \<Rightarrow> string list" where
  "allTagsOf localeCompare vms =
     sort_by localeCompare (rev (remdups (rev (concat (map (\<lambda>vm. tagsOf (v_tags vm)) vms)))))"

definition vmsWithTag :: "'a vm_scheme list \<Rightarrow> string \<Rightarrow> 'a vm_scheme list" where
  "vmsWithTag vms tag = filter (\<lambda>vm. tag \<in> set (tagsOf (v_tags vm))) vms"

definition agentSourceOf :: "jval \<Rightarrow> jval option" where
  "agentSourceOf sources =
     (if isAgentJobSource sources then Some sources
      else if is_array sources then find isAgentJobSource (elems sources)
      else None)"

subsection \<open>Properties\<close>

text \<open>
  Every tag offered has members: the tags offered for a tag-filtered job are distinct, none is
  empty, they are exactly the non-empty tags some machine of the inventory carries (so none of
  them resolves to no machine today), and they are in the order of the browser's collation
  whenever that is a consistent one.
\<close>

theorem allTagsOf_offered:
  "distinct (allTagsOf cmp vms) \<and>
   (t \<in> set (allTagsOf cmp vms) \<longleftrightarrow> t \<noteq> [] \<and> vmsWithTag vms t \<noteq> []) \<and>
   (comparator cmp \<longrightarrow> sorted_wrt (\<lambda>x y. cmp x y \<le> 0) (allTagsOf cmp vms))"
  by (auto simp: allTagsOf_def vmsWithTag_def filter_empty_conv tagsOf_def sorted_sort_by split: if_splits)

text \<open>A comparator by length then text, one consistent collation.\<close>

definition by_length :: "string \<Rightarrow> string \<Rightarrow> int" where
  "by_length a b = int (length a) - int (length b)"

definition tagged :: "jval \<Rightarrow> vm" where
  "tagged ts =
     \<lparr>v_vmid = Fin 100, v_name = ''db'', v_node = ''pve1'', v_status = ''running'', v_maxdisk = Fin 0,
      v_maxmem = Fin 0, v_uptime = Fin 0, v_tags = ts\<rparr>"

theorem allTagsOf_offered_witness:
  "sorted_wrt (\<lambda>x y. by_length x y \<le> 0)
     (allTagsOf by_length [tagged (JArr [JStr ''nightly'', JNull]), tagged (JArr [JStr ''db'', JStr ''nightly''])])"
proof -
  have "comparator by_length" by (simp add: comparator_def by_length_def)
  with allTagsOf_offered
    [of by_length "[tagged (JArr [JStr ''nightly'', JNull]), tagged (JArr [JStr ''db'', JStr ''nightly''])]" "''db''"]
  show ?thesis by blast
qed

text \<open>
  Sources survive the round trip: the sources the console sends for a job are read back as
  what they are: machine sources as machines and no agent, agent sources as that agent and no
  machine, also when a server wraps the agent source in a list.
\<close>

theorem sources_read_back:
  "vmSourcesOf (sources_val (VmSources ss)) = map vmSource_val ss \<and>
   agentSourceOf (sources_val (VmSources ss)) = None \<and>
   vmSourcesOf (sources_val (AgentSources i ps)) = [] \<and>
   agentSourceOf (sources_val (AgentSources i ps)) = Some (sources_val (AgentSources i ps)) \<and>
   agentSourceOf (JArr [sources_val (AgentSources i ps)]) = Some (sources_val (AgentSources i ps))"
proof -
  have "filter isVMJobSource (map vmSource_val ss) = map vmSource_val ss"
    by (auto simp: isVMJobSource_def)
  moreover have "find isAgentJobSource (map vmSource_val ss) = None"
    by (auto simp: find_None_iff isAgentJobSource_def)
  ultimately show ?thesis
    by (simp add: vmSourcesOf_def agentSourceOf_def isAgentJobSource_def del: vmSource_val.simps)
qed

end
