(* ===== verification/Identity.thy ===== *)
theory Identity
  imports Job_Sources Format
begin

text \<open>
  How workloads and targets are named on screen (\<open>web/src/components/Identity.tsx\<close>,
  \<open>web/src/components/TargetIdentity.tsx\<close>): the plain-text identity, the pieces the two layouts
  render, the kind chip and the free-space line. Styling is left out; an element is its text.
\<close>

record workloadRef =
  w_hostName :: "string option"
  w_name :: string
  w_vmid :: jval
  w_node :: "string option"

text \<open>An optional text that is present and not empty, as JavaScript's truth test reads it.\<close>

definition opt_text :: "string option \<Rightarrow> string option" where
  "opt_text x = (case x of Some s \<Rightarrow> if s = [] then None else Some s | None \<Rightarrow> None)"

definition no_vmid :: "jval \<Rightarrow> bool" where
  "no_vmid v \<longleftrightarrow> nullish v \<or> v = JStr []"

definition identityText :: "workloadRef \<Rightarrow> string" where
  "identityText w =
     (case opt_text (w_hostName w) of Some h \<Rightarrow> h @ '' / '' | None \<Rightarrow> []) @ w_name w @
     (if no_vmid (w_vmid w) then [] else '' ('' @ val_str (w_vmid w) @ '')'') @
     (case opt_text (w_node w) of Some n \<Rightarrow> '' / '' @ n | None \<Rightarrow> [])"

text \<open>The title and the visible pieces of \<open>WorkloadIdentity\<close>: one line, or a name and a scope line.\<close>

definition inlineIdentity :: "workloadRef \<Rightarrow> string list" where
  "inlineIdentity w =
     (case opt_text (w_hostName w) of Some h \<Rightarrow> [h, ''/''] | None \<Rightarrow> []) @ [w_name w] @
     (if no_vmid (w_vmid w) then [] else [''('' @ val_str (w_vmid w) @ '')'']) @
     (case opt_text (w_node w) of Some n \<Rightarrow> [''/'', n] | None \<Rightarrow> [])"

definition stackedIdentity :: "workloadRef \<Rightarrow> string list \<times> string option" where
  "stackedIdentity w =
     (let scope = List.map_filter opt_text [w_hostName w, w_node w]
      in (w_name w # (if no_vmid (w_vmid w) then [] else [''('' @ val_str (w_vmid w) @ '')'']),
          if scope = [] then None else Some (join_with '' / '' scope)))"

definition vmIdentity :: "cachedVM \<Rightarrow> workloadRef" where
  "vmIdentity vm =
     \<lparr>w_hostName = Some (v_hostName vm), w_name = v_name vm, w_vmid = JNum (v_vmid vm), w_node = Some (v_node vm)\<rparr>"

subsection \<open>Targets\<close>

definition TargetKindChip :: "targetKind \<Rightarrow> string \<times> string" where
  "TargetKindChip kind = (TARGET_KIND_SHORT kind, TARGET_KIND_LABEL kind)"

definition TargetCapacityLine :: "host \<Rightarrow> target \<Rightarrow> string option" where
  "TargetCapacityLine h target =
     map_option (\<lambda>c. formatBytes h (Some (c_freeBytes c)) 1 @ '' free of '' @
        formatBytes h (Some (c_totalBytes c)) 1 @
        (if c_low c then '' '' @ em_dash @ '' running low'' else []))
       (capacityOf target)"

subsection \<open>Properties\<close>

text \<open>
  The name on screen is the identity: the visible pieces of the one-line layout, set with
  single spaces, are exactly the plain-text identity used in titles, toasts and confirmations, for
  every workload, whether or not cluster, VMID and node are known.
\<close>

lemma inline_is_identity: "join_with '' '' (inlineIdentity w) = identityText w"
  by (cases "opt_text (w_hostName w)"; cases "opt_text (w_node w)")
    (simp_all add: inlineIdentity_def identityText_def)

end
