(* ===== verification/Form_Steps.thy ===== *)
theory Form_Steps
  imports Ui_Machine Endpoints Format
begin

text \<open>
  Two steps of the job wizard: retention (\<open>web/src/components/RetentionStep.tsx\<close>) with the debounced
  preview of what a policy keeps, and advanced protection (\<open>web/src/components/PolicyStep.tsx\<close>).
  Both are controlled parts: the wizard holds the value, every control hands an edited copy back.
\<close>

subsection \<open>Retention: the inputs\<close>

definition PRESETS :: "int list" where
  "PRESETS = [3, 7, 14, 30]"

datatype gfsKey = KeepDaily | KeepWeekly | KeepMonthly | KeepYearly

definition GFS_FIELDS :: "(gfsKey \<times> string \<times> string) list" where
  "GFS_FIELDS =
     [(KeepDaily, ''Daily'', ''newest point of each day''),
      (KeepWeekly, ''Weekly'', ''newest point of each week''),
      (KeepMonthly, ''Monthly'', ''newest point of each month''),
      (KeepYearly, ''Yearly'', ''newest point of each year'')]"

text \<open>\<open>clamp\<close>: the text of a number field as a counter.\<close>

definition clampCount :: "string \<Rightarrow> int" where
  "clampCount value =
     (let n = str_num value
      in if \<not> js_is_finite n then 0 else int_of (js_max (jsint 0) (js_min (jsint 9999) (js_round n))))"

fun patchGfs :: "gfsKey \<Rightarrow> int \<Rightarrow> retentionPolicy \<Rightarrow> retentionPolicy" where
  "patchGfs KeepDaily n r = r\<lparr>keepDaily := n\<rparr>"
| "patchGfs KeepWeekly n r = r\<lparr>keepWeekly := n\<rparr>"
| "patchGfs KeepMonthly n r = r\<lparr>keepMonthly := n\<rparr>"
| "patchGfs KeepYearly n r = r\<lparr>keepYearly := n\<rparr>"

datatype retentionEvent =
    EditKeepLast string
  | PickKeepLast int
  | EditGfs gfsKey string

fun retentionOffered :: "retentionPolicy \<Rightarrow> retentionEvent \<Rightarrow> bool" where
  "retentionOffered r (PickKeepLast n) = (n \<in> set PRESETS)"
| "retentionOffered r (EditKeepLast s) = True"
| "retentionOffered r (EditGfs k s) = (k \<in> set (map fst GFS_FIELDS))"

fun retentionStep :: "retentionEvent \<Rightarrow> retentionPolicy \<Rightarrow> retentionPolicy" where
  "retentionStep (EditKeepLast s) r = r\<lparr>keepLast := clampCount s\<rparr>"
| "retentionStep (PickKeepLast n) r = r\<lparr>keepLast := n\<rparr>"
| "retentionStep (EditGfs k s) r = patchGfs k (clampCount s) r"

text \<open>The summary box: the sentence, and the warning when nothing would be kept.\<close>

definition keepsNothingWarning :: string where
  "keepsNothingWarning =
     ''Every restore point would be pruned after each run and nothing would remain to recover '' @
     ''from. Keep at least one.''"

definition retentionSummary :: "retentionPolicy \<Rightarrow> string list" where
  "retentionSummary r =
     describeRetention (retention_val r) #
     (if retentionRuleCount r = 0 then [keepsNothingWarning] else [])"

definition advancedHint :: "retentionPolicy \<Rightarrow> string" where
  "advancedHint r = (if isSimpleRetention r then ''off'' else ''in use'')"

subsection \<open>Retention: the preview\<close>

text \<open>
  The mounted preview for one job. \<open>pv_timer\<close> is the armed timer (the effect arms it whenever the
  policy changes; it carries the policy its closure was made with), \<open>pv_live\<close> the request whose
  controller has not been aborted, \<open>pv_dead\<close> the number of aborted requests still to settle.
\<close>

record preview =
  pv_shown :: "(retentionPolicy \<times> jval) option"
  pv_loading :: bool
  pv_error :: "string option"
  pv_retention :: retentionPolicy
  pv_timer :: "retentionPolicy option"
  pv_live :: "retentionPolicy option"
  pv_dead :: nat

definition mountPreview :: "retentionPolicy \<Rightarrow> preview" where
  "mountPreview r =
     \<lparr>pv_shown = None, pv_loading = True, pv_error = None, pv_retention = r, pv_timer = Some r,
      pv_live = None, pv_dead = 0\<rparr>"

datatype previewEvent =
    PolicyChanges retentionPolicy
  | TimerFires
  | Answers "jval exn"
  | AbortSettles

fun aborts :: "jval exn \<Rightarrow> bool" where
  "aborts (Inl err) = is_abort err"
| "aborts (Inr _) = False"

fun previewOffered :: "preview \<Rightarrow> previewEvent \<Rightarrow> bool" where
  "previewOffered p (PolicyChanges r) = (r \<noteq> pv_retention p)"
| "previewOffered p TimerFires = (pv_timer p \<noteq> None)"
| "previewOffered p (Answers res) = (pv_live p \<noteq> None \<and> \<not> aborts res)"
| "previewOffered p AbortSettles = (0 < pv_dead p)"

text \<open>A change of policy runs the cleanup (timer cleared, controller aborted) and the effect.\<close>

fun previewStep :: "previewEvent \<Rightarrow> preview \<Rightarrow> preview" where
  "previewStep (PolicyChanges r) p =
     p\<lparr>pv_retention := r, pv_timer := Some r, pv_live := None,
       pv_dead := pv_dead p + (if pv_live p = None then 0 else 1)\<rparr>"
| "previewStep TimerFires p = p\<lparr>pv_timer := None, pv_loading := True, pv_live := pv_timer p\<rparr>"
| "previewStep (Answers (Inr result)) p =
     p\<lparr>pv_shown := map_option (\<lambda>r. (r, result)) (pv_live p), pv_error := None, pv_loading := False,
       pv_live := None\<rparr>"
| "previewStep (Answers (Inl err)) p =
     (if is_abort err then p\<lparr>pv_loading := False, pv_live := None\<rparr>
      else p\<lparr>pv_error := Some (errorMessage err), pv_loading := False, pv_live := None\<rparr>)"
| "previewStep AbortSettles p = p\<lparr>pv_loading := False, pv_dead := pv_dead p - 1\<rparr>"

text \<open>What is rendered: an error, a spinner, nothing, the empty note or the two lists.\<close>

datatype previewView = PvError string | PvSpinner | PvNothing | PvEmpty | PvLists "jval list" "jval list" bool

definition previewView :: "preview \<Rightarrow> previewView" where
  "previewView p =
     (case pv_error p of
        Some e \<Rightarrow> PvError (''The server could not preview this policy: '' @ e)
      | None \<Rightarrow>
          (case pv_shown p of
             None \<Rightarrow> if pv_loading p then PvSpinner else PvNothing
           | Some (r, result) \<Rightarrow>
               let keeps = elems (jprop result ''keeps''); prunes = elems (jprop result ''prunes'')
               in if keeps = [] \<and> prunes = [] then PvEmpty else PvLists keeps prunes (pv_loading p)))"

text \<open>A row of the lists: the day, how long ago, and the reasons a kept point is kept for.\<close>

definition PreviewRow :: "host \<Rightarrow> jval \<Rightarrow> bool \<Rightarrow> string list" where
  "PreviewRow h entry pruned =
     (let created = str_of (jprop entry ''createdAt'')
      in [formatDate h created, formatRelative h created] @
         (if pruned then [] else map val_str (elems (jprop entry ''reasons''))))"

subsection \<open>Protection policy\<close>

definition QUIESCE_OPTIONS :: "(quiesce \<times> string) list" where
  "QUIESCE_OPTIONS = [(NoQuiesce, ''Crash-consistent''), (GuestAgent, ''Guest-agent quiescing'')]"

text \<open>\<open>clampInt\<close> of the step: like the reader's, with the lower bound as the fallback.\<close>

definition clampField :: "string \<Rightarrow> int \<Rightarrow> int \<Rightarrow> int" where
  "clampField value lo hi =
     (let n = str_num value
      in if \<not> js_is_finite n then lo else int_of (js_max (jsint lo) (js_min (jsint hi) (js_round n))))"

text \<open>\<open>TokenList\<close>: the list and the draft of its input; the values after \<open>add\<close> and after a removal.\<close>

definition tokenAdd :: "string list \<Rightarrow> string \<Rightarrow> string list \<times> string" where
  "tokenAdd values draft =
     (let value = trim draft
      in if value = [] \<or> value \<in> set values then (values, []) else (values @ [value], []))"

definition tokenRemove :: "string list \<Rightarrow> string \<Rightarrow> string list" where
  "tokenRemove values value = filter (\<lambda>item. item \<noteq> value) values"

record policyForm =
  pf_policy :: jobPolicy
  pf_kind :: jobKind
  pf_draft :: string

datatype policyEvent =
    ResetPolicy
  | SetQuiesce quiesce
  | TypeToken string
  | AddToken
  | RemoveToken string
  | EditRetryCount string
  | EditRetryDelay string
  | EditMaxDuration string
  | ToggleWindow bool
  | EditWindowStart string
  | EditWindowEnd string
  | EditPreScript string
  | EditPostScript string
  | EditScriptTimeout string
  | EditUploadLimit string

definition mountPolicy :: "jobKind \<Rightarrow> jobPolicy \<Rightarrow> policyForm" where
  "mountPolicy kind value = \<lparr>pf_policy = value, pf_kind = kind, pf_draft = []\<rparr>"

definition scopeTokens :: "policyForm \<Rightarrow> string list" where
  "scopeTokens f = (if pf_kind f = VmJob then p_excludeDisks (pf_policy f) else p_excludePaths (pf_policy f))"

definition setScope :: "string list \<Rightarrow> policyForm \<Rightarrow> policyForm" where
  "setScope ts f =
     (if pf_kind f = VmJob then f\<lparr>pf_policy := (pf_policy f)\<lparr>p_excludeDisks := ts\<rparr>\<rparr>
      else f\<lparr>pf_policy := (pf_policy f)\<lparr>p_excludePaths := ts\<rparr>\<rparr>)"

abbreviation patchPolicy :: "(jobPolicy \<Rightarrow> jobPolicy) \<Rightarrow> policyForm \<Rightarrow> policyForm" where
  "patchPolicy g f \<equiv> f\<lparr>pf_policy := g (pf_policy f)\<rparr>"

text \<open>A time input gives the empty text when it is cleared and a clock text otherwise.\<close>

fun policyOffered :: "policyForm \<Rightarrow> policyEvent \<Rightarrow> bool" where
  "policyOffered f ResetPolicy = (\<not> isDefaultPolicy (pf_policy f))"
| "policyOffered f AddToken = True"
| "policyOffered f (RemoveToken t) = (t \<in> set (scopeTokens f))"
| "policyOffered f (SetQuiesce q) = (q \<in> set (map fst QUIESCE_OPTIONS))"
| "policyOffered f (EditRetryDelay s) = (p_retryCount (pf_policy f) \<noteq> 0)"
| "policyOffered f (EditWindowStart t) = (p_window (pf_policy f) \<noteq> None \<and> (t = [] \<or> HHMM t))"
| "policyOffered f (EditWindowEnd t) = (p_window (pf_policy f) \<noteq> None \<and> (t = [] \<or> HHMM t))"
| "policyOffered f (ToggleWindow b) = (b \<longleftrightarrow> p_window (pf_policy f) = None)"
| "policyOffered f _ = True"

definition windowEnd :: "jobPolicy \<Rightarrow> string" where
  "windowEnd p = (case p_window p of Some w \<Rightarrow> win_end w | None \<Rightarrow> ''06:00'')"

definition windowStart :: "jobPolicy \<Rightarrow> string" where
  "windowStart p = (case p_window p of Some w \<Rightarrow> win_start w | None \<Rightarrow> ''22:00'')"

fun policyStep :: "policyEvent \<Rightarrow> policyForm \<Rightarrow> policyForm" where
  "policyStep ResetPolicy f = f\<lparr>pf_policy := DEFAULT_POLICY\<rparr>"
| "policyStep (SetQuiesce q) f = patchPolicy (p_quiesce_update (\<lambda>_. q)) f"
| "policyStep (TypeToken s) f = f\<lparr>pf_draft := s\<rparr>"
| "policyStep AddToken f =
     (let (ts, d) = tokenAdd (scopeTokens f) (pf_draft f) in (setScope ts f)\<lparr>pf_draft := d\<rparr>)"
| "policyStep (RemoveToken t) f = setScope (tokenRemove (scopeTokens f) t) f"
| "policyStep (EditRetryCount s) f = patchPolicy (p_retryCount_update (\<lambda>_. clampField s 0 5)) f"
| "policyStep (EditRetryDelay s) f = patchPolicy (p_retryDelayMinutes_update (\<lambda>_. clampField s 1 120)) f"
| "policyStep (EditMaxDuration s) f = patchPolicy (p_maxDurationMinutes_update (\<lambda>_. clampField s 0 10080)) f"
| "policyStep (ToggleWindow b) f =
     patchPolicy (p_window_update (\<lambda>_. if b then Some \<lparr>win_start = ''22:00'', win_end = ''06:00''\<rparr> else None)) f"
| "policyStep (EditWindowStart t) f =
     patchPolicy (p_window_update (\<lambda>_. Some \<lparr>win_start = t, win_end = windowEnd (pf_policy f)\<rparr>)) f"
| "policyStep (EditWindowEnd t) f =
     patchPolicy (p_window_update (\<lambda>_. Some \<lparr>win_start = windowStart (pf_policy f), win_end = t\<rparr>)) f"
| "policyStep (EditPreScript s) f = patchPolicy (p_preScript_update (\<lambda>_. s)) f"
| "policyStep (EditPostScript s) f = patchPolicy (p_postScript_update (\<lambda>_. s)) f"
| "policyStep (EditScriptTimeout s) f = patchPolicy (p_scriptTimeoutSeconds_update (\<lambda>_. clampField s 1 3600)) f"
| "policyStep (EditUploadLimit s) f = patchPolicy (p_uploadLimitMbpsOverride_update (\<lambda>_. clampField s 0 10000)) f"

text \<open>The line at the top, and the compact summary of the review step and the job cards.\<close>

definition policyHeadline :: "jobPolicy \<Rightarrow> jobKind \<Rightarrow> string" where
  "policyHeadline value kind =
     (if isDefaultPolicy value then ''Standard protection '' @ em_dash @ '' nothing here is in force.''
      else join_with ('' '' @ middle_dot @ '' '') (policyHighlights value kind))"

definition PolicySummary :: "jobPolicy \<Rightarrow> jobKind \<Rightarrow> string list" where
  "PolicySummary policy kind =
     (let highlights = policyHighlights policy kind
      in if highlights = [] then [''Standard protection''] else highlights)"

text \<open>The hints beside the closed sections.\<close>

definition consistencyHint :: "jobPolicy \<Rightarrow> string \<times> string" where
  "consistencyHint p =
     (if p_quiesce p = NoQuiesce
      then (''Crash-consistent'',
            ''The disk is read as it stands. A database mid-write recovers the way it would after a power cut.'')
      else (''Quiesced'',
            ''ProxBack asks qemu-guest-agent to flush and freeze the filesystem first. Needs the agent '' @
            ''installed and running in the guest.''))"

definition scopeHint :: "policyForm \<Rightarrow> string" where
  "scopeHint f =
     (if scopeTokens f = [] then (if pf_kind f = VmJob then ''All disks'' else ''All selected paths'')
      else nat_str (length (scopeTokens f)) @ '' excluded'')"

definition runControlHint :: "jobPolicy \<Rightarrow> string" where
  "runControlHint p =
     (if p_retryCount p = 0 \<and> p_maxDurationMinutes p = 0 \<and> p_window p = None then ''No limits'' else ''Limited'')"

definition automationHint :: "jobPolicy \<Rightarrow> string" where
  "automationHint p = (if p_preScript p \<noteq> [] \<or> p_postScript p \<noteq> [] then ''Scripts set'' else ''None'')"

definition transferHint :: "jobPolicy \<Rightarrow> string" where
  "transferHint p =
     (if p_uploadLimitMbpsOverride p = 0 then ''Global limit''
      else int_str (p_uploadLimitMbpsOverride p) @ '' Mbps'')"

subsection \<open>Lemmas\<close>

lemma clamp_num_range:
  assumes "lo \<le> hi"
  shows "lo \<le> int_of (js_max (jsint lo) (js_min (jsint hi) (js_round (Fin x)))) \<and>
    int_of (js_max (jsint lo) (js_min (jsint hi) (js_round (Fin x)))) \<le> hi"
proof -
  have "js_max (jsint lo) (js_min (jsint hi) (js_round (Fin x))) = jsint (max lo (min hi \<lfloor>x + 1/2\<rfloor>))"
    by (simp add: of_int_min of_int_max)
  then show ?thesis using assms by simp
qed

lemma clampCount_range: "keep_ok (clampCount s)"
  using clamp_num_range [of 0 9999]
  by (cases "str_num s") (simp_all add: clampCount_def keep_ok_def Let_def del: js_round.simps int_of.simps)

lemma clampField_range: "lo \<le> hi \<Longrightarrow> lo \<le> clampField s lo hi \<and> clampField s lo hi \<le> hi"
  using clamp_num_range [of lo hi]
  by (cases "str_num s") (simp_all add: clampField_def Let_def del: js_round.simps int_of.simps)

text \<open>The retention step as a controlled part of the wizard.\<close>

interpretation retention_control:
  form_control "\<lambda>r. r" retentionStep retentionOffered "\<lambda>r. r" valid_retention valid_retention
proof unfold_locales
  show "valid_retention (retentionStep e c)" if "valid_retention c" "retentionOffered c e" for c e
    using that clampCount_range
    by (cases e; cases "case e of EditGfs k s \<Rightarrow> k | _ \<Rightarrow> KeepDaily")
      (auto simp: valid_retention_def PRESETS_def keep_ok_def)
qed simp_all

text \<open>The protection step: every policy it hands back is well formed up to the times of the window.\<close>

definition window_times :: "backupWindow option \<Rightarrow> bool" where
  "window_times w = (case w of None \<Rightarrow> True
     | Some x \<Rightarrow> (win_start x = [] \<or> HHMM (win_start x)) \<and> (win_end x = [] \<or> HHMM (win_end x)))"

definition policy_ok :: "jobPolicy \<Rightarrow> bool" where
  "policy_ok p \<longleftrightarrow> window_times (p_window p) \<and> valid_policy (p\<lparr>p_window := None\<rparr>)"

definition policyForm_inv :: "policyForm \<Rightarrow> bool" where
  "policyForm_inv f \<longleftrightarrow> policy_ok (pf_policy f)"

lemma tokenAdd_tokens: "token_list ts \<Longrightarrow> token_list (fst (tokenAdd ts d))"
  by (auto simp: token_list_def tokenAdd_def Let_def)

lemma tokenRemove_tokens: "token_list ts \<Longrightarrow> token_list (tokenRemove ts t)"
  by (auto simp: token_list_def tokenRemove_def)

lemma setScope_ok: "policy_ok (pf_policy f) \<Longrightarrow> token_list ts \<Longrightarrow> policy_ok (pf_policy (setScope ts f))"
  by (auto simp: setScope_def policy_ok_def valid_policy_def)

lemma scopeTokens_ok: "policy_ok (pf_policy f) \<Longrightarrow> token_list (scopeTokens f)"
  by (auto simp: scopeTokens_def policy_ok_def valid_policy_def)

lemma HHMM_window: "HHMM ''22:00''" "HHMM ''06:00''"
  by (simp_all add: is_digit_def digit_val_def)

lemma default_policy_ok: "policy_ok DEFAULT_POLICY"
  by (simp add: policy_ok_def window_times_def valid_policy_def DEFAULT_POLICY_def token_list_def)

lemma policyStep_ok:
  assumes "policy_ok (pf_policy f)" "policyOffered f e"
  shows "policy_ok (pf_policy (policyStep e f))"
proof (cases e)
  case AddToken
  then show ?thesis
    using setScope_ok [OF assms(1) tokenAdd_tokens [OF scopeTokens_ok [OF assms(1)]], of "pf_draft f"]
    by (simp add: case_prod_beta)
next
  case (RemoveToken t)
  then show ?thesis
    using setScope_ok [OF assms(1) tokenRemove_tokens [OF scopeTokens_ok [OF assms(1)]]] by simp
next
  case ResetPolicy
  then show ?thesis by (simp add: default_policy_ok)
next
  case (ToggleWindow b)
  then show ?thesis using assms(1) HHMM_window by (simp add: policy_ok_def window_times_def valid_policy_def)
next
  case (EditWindowStart t)
  then show ?thesis using assms
    by (auto simp: policy_ok_def window_times_def valid_policy_def windowEnd_def)
next
  case (EditWindowEnd t)
  then show ?thesis using assms
    by (auto simp: policy_ok_def window_times_def valid_policy_def windowStart_def)
qed (use assms clampField_range [of 0 5] clampField_range [of 1 120] clampField_range [of 0 10080]
    clampField_range [of 1 3600] clampField_range [of 0 10000] in
  \<open>simp_all add: policy_ok_def valid_policy_def\<close>)

interpretation policy_control:
  form_control "mountPolicy kind" policyStep policyOffered pf_policy policyForm_inv policy_ok for kind
  by unfold_locales (simp_all add: mountPolicy_def policyForm_inv_def policyStep_ok)

text \<open>A window with a cleared time is not read back.\<close>

definition window_cleared :: "jobPolicy \<Rightarrow> bool" where
  "window_cleared p = (case p_window p of None \<Rightarrow> False | Some w \<Rightarrow> win_start w = [] \<or> win_end w = [])"

lemma windowOf_cleared:
  assumes "window_times w" "w = Some x" "win_start x = [] \<or> win_end x = []"
  shows "windowOf (window_val w) = None"
  using assms by (auto simp: windowOf_def timeOf_def Let_def)

lemma parsePolicy_window:
  assumes "windowOf (window_val (p_window p)) = None"
  shows "parsePolicy (policy_val p) = parsePolicy (policy_val (p\<lparr>p_window := None\<rparr>))"
  using assms by (simp add: parsePolicy_def policy_val_def windowOf_def)

lemma policy_read_back:
  assumes "policy_ok p"
  shows "parsePolicy (policy_val p) = (if window_cleared p then p\<lparr>p_window := None\<rparr> else p)"
proof (cases "window_cleared p")
  case True
  then obtain x where "p_window p = Some x" "win_start x = [] \<or> win_end x = []"
    by (auto simp: window_cleared_def split: option.splits)
  then have "parsePolicy (policy_val p) = parsePolicy (policy_val (p\<lparr>p_window := None\<rparr>))"
    using assms by (intro parsePolicy_window windowOf_cleared) (simp_all add: policy_ok_def)
  also have "\<dots> = p\<lparr>p_window := None\<rparr>"
    using assms by (intro policy_norm.parse_encode) (simp add: policy_ok_def)
  finally show ?thesis using True by simp
next
  case False
  then have "valid_policy p"
    using assms by (auto simp: policy_ok_def window_cleared_def window_times_def valid_policy_def split: option.splits)
  then show ?thesis using False by (simp add: policy_norm.parse_encode)
qed

subsection \<open>Properties\<close>

text \<open>
  Opened on a policy that was read from the
  server and used in any way its controls allow, the policy it holds keeps every counter in its
  range and every exclusion trimmed and non-empty; sent and read back it is the same policy, except
  that a start window with a cleared time is dropped.
\<close>

theorem policy_step_readable:
  assumes "reaches policyStep policyOffered (mountPolicy kind (parsePolicy v)) f"
  shows "valid_policy ((pf_policy f)\<lparr>p_window := None\<rparr>) \<and>
    parsePolicy (policy_val (pf_policy f)) =
      (if window_cleared (pf_policy f) then (pf_policy f)\<lparr>p_window := None\<rparr> else pf_policy f)"
proof -
  have "policy_ok (parsePolicy v)"
    using policy_norm.parse_valid [of v]
    by (auto simp: policy_ok_def valid_policy_def window_times_def split: option.splits)
  from policy_control.held_ok [OF this assms] show ?thesis
    using policy_read_back by (simp add: policy_ok_def)
qed

lemma cleared_window_run:
  "run_events policyStep policyOffered [ToggleWindow True, EditWindowEnd []] (mountPolicy VmJob (parsePolicy JNull)) =
     Some \<lparr>pf_policy = DEFAULT_POLICY\<lparr>p_window := Some \<lparr>win_start = ''22:00'', win_end = []\<rparr>\<rparr>,
           pf_kind = VmJob, pf_draft = []\<rparr>"
  by (simp add: mountPolicy_def parsePolicy_def windowStart_def DEFAULT_POLICY_def)

theorem policy_step_readable_witness:
  "parsePolicy (policy_val (DEFAULT_POLICY\<lparr>p_window := Some \<lparr>win_start = ''22:00'', win_end = []\<rparr>\<rparr>)) =
     DEFAULT_POLICY\<lparr>p_window := None\<rparr>"
  using policy_step_readable [OF run_events_reaches [OF cleared_window_run]]
  by (simp add: window_cleared_def)

text \<open>The preview is a debounced loader whose question is the policy in the form.\<close>

interpretation preview_loader:
  latest_request previewStep previewOffered "\<lambda>p. Some (pv_retention p)" pv_timer pv_live
    "\<lambda>p. map_option fst (pv_shown p)" "\<lambda>p. pv_error p \<noteq> None"
proof (unfold_locales, goal_cases)
  case (1 p e)
  then show ?case
  proof (cases e)
    case (Answers res)
    with 1 show ?thesis by (cases res) auto
  qed auto
qed

text \<open>
  C24 (the preview is about the policy on screen): however policy changes, the debounce timer, answers,
  failures and aborted requests interleave, at most one request is live and it is for the policy
  now in the form; once nothing is armed or in flight, what is shown is the answer for that policy,
  or an error.
\<close>

theorem preview_current:
  assumes "reaches previewStep previewOffered (mountPreview r) p"
  shows "(pv_live p = None \<or> pv_live p = Some (pv_retention p) \<and> pv_timer p = None) \<and>
    (pv_timer p \<noteq> None \<or> pv_live p \<noteq> None \<or> pv_error p \<noteq> None \<or>
     map_option fst (pv_shown p) = Some (pv_retention p))"
proof -
  have "preview_loader.current p"
    by (rule preview_loader.reaches_current [OF assms]) (simp_all add: mountPreview_def)
  then show ?thesis unfolding preview_loader.current_def by auto
qed

text \<open>A run in which the first request is aborted: while the second is on its way the old answer is
  shown as settled, because settling the aborted one ends the loading state.\<close>

lemma preview_stale_run:
  "\<exists>p. run_events previewStep previewOffered
      [TimerFires, Answers (Inr a), PolicyChanges s, TimerFires, PolicyChanges u, TimerFires, AbortSettles]
      (mountPreview r) = Some p \<and> \<not> pv_loading p \<and> pv_live p = Some u \<and> pv_shown p = Some (r, a)"
  if "r \<noteq> s" "s \<noteq> u"
  using that by (simp add: mountPreview_def)

theorem preview_current_witness:
  "\<exists>p :: preview. pv_shown p = Some (DEFAULT_RETENTION, JNull) \<and> pv_live p = Some (DEFAULT_RETENTION\<lparr>keepDaily := 2\<rparr>) \<and>
     pv_retention p = DEFAULT_RETENTION\<lparr>keepDaily := 2\<rparr>"
proof -
  have "DEFAULT_RETENTION \<noteq> DEFAULT_RETENTION\<lparr>keepDaily := 1\<rparr>"
    "DEFAULT_RETENTION\<lparr>keepDaily := 1\<rparr> \<noteq> DEFAULT_RETENTION\<lparr>keepDaily := 2\<rparr>"
    by (simp_all add: DEFAULT_RETENTION_def)
  from preview_stale_run [OF this, of JNull] obtain p
    where p: "run_events previewStep previewOffered
      [TimerFires, Answers (Inr JNull), PolicyChanges (DEFAULT_RETENTION\<lparr>keepDaily := 1\<rparr>), TimerFires,
       PolicyChanges (DEFAULT_RETENTION\<lparr>keepDaily := 2\<rparr>), TimerFires, AbortSettles]
      (mountPreview DEFAULT_RETENTION) = Some p"
      "pv_shown p = Some (DEFAULT_RETENTION, JNull)" "pv_live p = Some (DEFAULT_RETENTION\<lparr>keepDaily := 2\<rparr>)"
    by blast
  have "pv_retention p = DEFAULT_RETENTION\<lparr>keepDaily := 2\<rparr>"
    using preview_current [OF run_events_reaches [OF p(1)]] p(3) by simp
  with p(2,3) show ?thesis by blast
qed

text \<open>What the timer and the network still have to do for the preview.\<close>

definition preview_work :: "preview \<Rightarrow> nat" where
  "preview_work p = (if pv_timer p = None then 0 else 2) + (if pv_live p = None then 0 else 1) + pv_dead p"

lemma previewStep_work:
  assumes "previewOffered p e" "\<forall>r. e \<noteq> PolicyChanges r"
  shows "preview_work (previewStep e p) < preview_work p"
proof (cases e)
  case (Answers res)
  with assms show ?thesis by (cases res) (auto simp: preview_work_def)
qed (use assms in \<open>auto simp: preview_work_def\<close>)

lemma preview_work_0:
  "preview_work p = 0 \<longleftrightarrow> (\<forall>e. previewOffered p e \<longrightarrow> (\<exists>r. e = PolicyChanges r))"
proof
  show "preview_work p = 0 \<Longrightarrow> \<forall>e. previewOffered p e \<longrightarrow> (\<exists>r. e = PolicyChanges r)"
    using previewStep_work [of p] by (metis less_nat_zero_code)
next
  assume a: "\<forall>e. previewOffered p e \<longrightarrow> (\<exists>r. e = PolicyChanges r)"
  have "pv_timer p = None" "pv_dead p = 0" "pv_live p = None"
    using a [rule_format, of TimerFires] a [rule_format, of AbortSettles] a [rule_format, of "Answers (Inr JNull)"]
    by (fastforce simp del: not_None_eq)+
  then show "preview_work p = 0" by (simp add: preview_work_def)
qed

text \<open>
  C29 (the preview comes to rest): while the policy in the form is left alone, only boundedly many
  timers, answers and aborted requests follow, whatever their order; and when none is left to
  follow, no timer is armed and no request is out.
\<close>

theorem preview_terminates:
  assumes "run_events previewStep previewOffered es p = Some q" "\<forall>r. PolicyChanges r \<notin> set es"
  shows "length es + preview_work q \<le> preview_work p \<and>
    ((\<forall>e. previewOffered q e \<longrightarrow> (\<exists>r. e = PolicyChanges r)) \<longleftrightarrow> pv_timer q = None \<and> pv_live q = None \<and> pv_dead q = 0)"
proof -
  have "length es + preview_work q \<le> preview_work p"
    using assms
  proof (induction es arbitrary: p)
    case (Cons e es)
    then have o: "previewOffered p e" "run_events previewStep previewOffered es (previewStep e p) = Some q"
      by (simp_all split: if_splits)
    have "preview_work (previewStep e p) < preview_work p" using previewStep_work [OF o(1)] Cons.prems(2) by auto
    then show ?case using Cons.IH [OF o(2)] Cons.prems(2) by simp
  qed simp
  moreover have "preview_work q = 0 \<longleftrightarrow> pv_timer q = None \<and> pv_live q = None \<and> pv_dead q = 0"
    by (auto simp: preview_work_def)
  ultimately show ?thesis using preview_work_0 [of q] by simp
qed

theorem preview_terminates_witness:
  "length [TimerFires, Answers (Inr JNull)] + preview_work ((mountPreview DEFAULT_RETENTION)\<lparr>pv_timer := None, pv_loading := False,
     pv_shown := Some (DEFAULT_RETENTION, JNull)\<rparr>) \<le> preview_work (mountPreview DEFAULT_RETENTION)"
proof -
  have "run_events previewStep previewOffered [TimerFires, Answers (Inr JNull)] (mountPreview DEFAULT_RETENTION) =
      Some ((mountPreview DEFAULT_RETENTION)\<lparr>pv_timer := None, pv_loading := False, pv_shown := Some (DEFAULT_RETENTION, JNull)\<rparr>)"
    by (simp add: mountPreview_def)
  from preview_terminates [OF this, THEN conjunct1] show ?thesis by simp
qed

end
