(* ===== verification/Job_Wizard.thy ===== *)
theory Job_Wizard
  imports Identity Schedule_Editor Form_Steps
begin

text \<open>
  The job wizard (\<open>web/src/components/JobWizard.tsx\<close>): its state, every handler of its six steps, the
  guards of its buttons, and the submission, which may still be on its way when the dialog is
  closed and opened again. The schedule editor, the retention step and the protection step are
  the components of their own theories, run inside the wizard.
\<close>

subsection \<open>State\<close>

definition STEPS :: "string list" where
  "STEPS = [''Sources'', ''Target'', ''Schedule'', ''Retention'', ''Protection'', ''Review'']"

definition DEFAULT_SCHEDULE :: schedule where
  "DEFAULT_SCHEDULE = Daily ''02:00''"

datatype vmSourceMode = ByHand | ByTag

definition SOURCE_MODES :: "(vmSourceMode \<times> string) list" where
  "SOURCE_MODES = [(ByHand, ''Pick VMs manually''), (ByTag, ''By Proxmox tag'')]"

record wizardState =
  ws_name :: string
  ws_kind :: jobKind
  ws_sourceMode :: vmSourceMode
  ws_selectedVMs :: "cachedVM list"
  ws_tagFilter :: string
  ws_agentId :: jval
  ws_paths :: "jval list"
  ws_targetId :: js_id
  ws_schedule :: schedule
  ws_retention :: retentionPolicy
  ws_policy :: jobPolicy
  ws_enabled :: bool

text \<open>The properties the page passes, and the facilities of the browser the wizard uses.\<close>

record wizardProps =
  wp_targets :: "target list"
  wp_vms :: "cachedVM list"
  wp_agents :: "agent list"
  wp_initialVM :: "cachedVM option"
  wp_editJob :: "job option"

record browser =
  b_host :: host
  b_localeCompare :: "string \<Rightarrow> string \<Rightarrow> int"
  b_lower :: "string \<Rightarrow> string"
  b_timezone :: "string option"

definition vmKey :: "jval \<Rightarrow> jval \<Rightarrow> string" where
  "vmKey hostId vmid = val_str hostId @ '':'' @ val_str vmid"

definition keyOf :: "cachedVM \<Rightarrow> string" where
  "keyOf vm = vmKey (id_val (v_hostId vm)) (JNum (v_vmid vm))"

definition initialState :: "wizardProps \<Rightarrow> wizardState" where
  "initialState ps =
     (case wp_editJob ps of
        Some editJob \<Rightarrow>
          let agentSource = agentSourceOf (j_sources editJob);
              wanted = map (\<lambda>s. vmKey (jprop s ''hostId'') (jprop s ''vmid'')) (vmSourcesOf (j_sources editJob));
              tagFilter = (case j_tagFilter editJob of Some t \<Rightarrow> t | None \<Rightarrow> [])
          in \<lparr>ws_name = j_name editJob, ws_kind = j_kind editJob,
              ws_sourceMode = (if tagFilter \<noteq> [] then ByTag else ByHand),
              ws_selectedVMs = filter (\<lambda>vm. keyOf vm \<in> set wanted) (wp_vms ps),
              ws_tagFilter = tagFilter,
              ws_agentId = (case agentSource of Some s \<Rightarrow> nullish_or (jprop s ''agentId'') (JStr []) | None \<Rightarrow> JStr []),
              ws_paths = (case agentSource of Some s \<Rightarrow> elems (jprop s ''paths'') | None \<Rightarrow> []),
              ws_targetId = j_targetId editJob,
              ws_schedule = parseSchedule (j_schedule editJob),
              ws_retention = parseRetention (j_retention editJob),
              ws_policy = parsePolicy (j_policy editJob), ws_enabled = j_enabled editJob\<rparr>
      | None \<Rightarrow>
          \<lparr>ws_name = (case wp_initialVM ps of Some vm \<Rightarrow> ''Backup '' @ em_dash @ '' '' @ v_name vm | None \<Rightarrow> []),
           ws_kind = VmJob, ws_sourceMode = ByHand,
           ws_selectedVMs = (case wp_initialVM ps of Some vm \<Rightarrow> [vm] | None \<Rightarrow> []),
           ws_tagFilter = [], ws_agentId = JStr [], ws_paths = [], ws_targetId = IdStr [],
           ws_schedule = DEFAULT_SCHEDULE, ws_retention = DEFAULT_RETENTION, ws_policy = DEFAULT_POLICY,
           ws_enabled = True\<rparr>)"

text \<open>
  The mounted wizard. \<open>wz_editor\<close> is the schedule editor (mounted while step 2 is on screen),
  \<open>wz_token\<close> the draft of the exclusion list (step 4), \<open>wz_pending\<close> the submissions whose answer is
  still out, \<open>wz_sent\<close> every request made so far, newest first, each with the job it edits.
\<close>

record wizard =
  wz_props :: wizardProps
  wz_open :: bool
  wz_step :: nat
  wz_state :: wizardState
  wz_pathDraft :: string
  wz_query :: string
  wz_submitting :: bool
  wz_error :: "string option"
  wz_editor :: editor
  wz_token :: string
  wz_pending :: "(job option \<times> jobCreate) list"
  wz_sent :: "(job option \<times> jobCreate) list"
  wz_saved :: nat
  wz_toasts :: "(string \<times> string) list"

definition mountWizard :: "wizardProps \<Rightarrow> wizard" where
  "mountWizard ps =
     \<lparr>wz_props = ps, wz_open = False, wz_step = 0, wz_state = initialState ps, wz_pathDraft = [], wz_query = [],
      wz_submitting = False, wz_error = None, wz_editor = mountEditor DEFAULT_SCHEDULE, wz_token = [],
      wz_pending = [], wz_sent = [], wz_saved = 0, wz_toasts = []\<rparr>"

subsection \<open>Derived values\<close>

definition byTag :: "wizardState \<Rightarrow> bool" where
  "byTag s \<longleftrightarrow> ws_kind s = VmJob \<and> ws_sourceMode s = ByTag"

definition filteredVMs :: "browser \<Rightarrow> wizard \<Rightarrow> cachedVM list" where
  "filteredVMs b w =
     (let needle = b_lower b (trim (wz_query w)); vms = wp_vms (wz_props w)
      in if needle = [] then vms
         else filter (\<lambda>vm. str_includes (b_lower b (v_name vm)) needle \<or>
                           str_includes (num_str (v_vmid vm)) needle \<or>
                           str_includes (b_lower b (v_node vm)) needle \<or>
                           str_includes (b_lower b (v_hostName vm)) needle) vms)"

definition selectedTarget :: "wizard \<Rightarrow> target option" where
  "selectedTarget w = find (\<lambda>t. id_str (t_id t) = id_str (ws_targetId (wz_state w))) (wp_targets (wz_props w))"

definition selectedAgent :: "wizard \<Rightarrow> agent option" where
  "selectedAgent w = find (\<lambda>a. id_str (a_id a) = val_str (ws_agentId (wz_state w))) (wp_agents (wz_props w))"

definition tagMatches :: "wizard \<Rightarrow> cachedVM list" where
  "tagMatches w =
     (if ws_tagFilter (wz_state w) = [] then []
      else vmsWithTag (wp_vms (wz_props w)) (ws_tagFilter (wz_state w)))"

definition sourcesValid :: "wizardState \<Rightarrow> bool" where
  "sourcesValid s \<longleftrightarrow>
     trim (ws_name s) \<noteq> [] \<and>
     (if ws_kind s = AgentJob then ws_agentId s \<noteq> JStr [] \<and> ws_paths s \<noteq> []
      else if byTag s then ws_tagFilter s \<noteq> [] else ws_selectedVMs s \<noteq> [])"

definition stepValid :: "wizardState \<Rightarrow> nat \<Rightarrow> bool" where
  "stepValid s index =
     (if index = 0 then sourcesValid s
      else if index = 1 then ws_targetId s \<noteq> IdStr []
      else if index = 2 then isScheduleComplete (ws_schedule s)
      else if index = 3 then 1 \<le> retentionRuleCount (ws_retention s)
      else True)"

subsection \<open>Handlers\<close>

definition toggleVM :: "cachedVM \<Rightarrow> wizardState \<Rightarrow> wizardState" where
  "toggleVM vm s =
     s\<lparr>ws_selectedVMs :=
        (if \<exists>item\<in>set (ws_selectedVMs s). keyOf item = keyOf vm
         then filter (\<lambda>item. keyOf item \<noteq> keyOf vm) (ws_selectedVMs s)
         else ws_selectedVMs s @ [vm])\<rparr>"

abbreviation patch :: "(wizardState \<Rightarrow> wizardState) \<Rightarrow> wizard \<Rightarrow> wizard" where
  "patch g w \<equiv> w\<lparr>wz_state := g (wz_state w)\<rparr>"

definition addPath :: "wizard \<Rightarrow> wizard" where
  "addPath w =
     (let value = trim (wz_pathDraft w)
      in if value = [] then w
         else if JStr value \<in> set (ws_paths (wz_state w)) then w\<lparr>wz_pathDraft := []\<rparr>
         else (patch (\<lambda>s. s\<lparr>ws_paths := ws_paths s @ [JStr value]\<rparr>) w)\<lparr>wz_pathDraft := []\<rparr>)"

text \<open>What \<open>onSubmit\<close> sends.\<close>

definition payloadSources :: "wizardState \<Rightarrow> jobSources" where
  "payloadSources s =
     (if ws_kind s = VmJob
      then VmSources
             (if byTag s then []
              else map (\<lambda>vm. \<lparr>s_hostId = v_hostId vm, s_vmid = v_vmid vm, s_name = v_name vm\<rparr>) (ws_selectedVMs s))
      else AgentSources (ws_agentId s) (ws_paths s))"

definition payload :: "wizardState \<Rightarrow> jobCreate" where
  "payload s =
     \<lparr>jc_name = trim (ws_name s), jc_kind = ws_kind s, jc_targetId = ws_targetId s, jc_schedule = ws_schedule s,
      jc_retention = ws_retention s, jc_policy = ws_policy s, jc_sources = payloadSources s,
      jc_enabled = ws_enabled s,
      jc_tagFilter = (if ws_kind s = VmJob then Some (if byTag s then ws_tagFilter s else []) else None)\<rparr>"

definition submitRequest :: "fetch \<Rightarrow> job option \<times> jobCreate \<Rightarrow> jval exn" where
  "submitRequest f r =
     (case fst r of
        Some editJob \<Rightarrow> patchJob f (j_id editJob) (jobCreate_val (snd r))
      | None \<Rightarrow> createJob f (jobCreate_val (snd r)))"

definition beginSubmit :: "wizard \<Rightarrow> wizard" where
  "beginSubmit w =
     (let r = (wp_editJob (wz_props w), payload (wz_state w))
      in w\<lparr>wz_error := None, wz_submitting := True, wz_pending := r # wz_pending w, wz_sent := r # wz_sent w\<rparr>)"

text \<open>The rest of \<open>onSubmit\<close> once the request has settled: toast, \<open>onSaved\<close>, \<open>onClose\<close>, or the error.\<close>

definition savedToast :: "job option \<times> jobCreate \<Rightarrow> string \<times> string" where
  "savedToast r =
     (case fst r of
        Some _ \<Rightarrow> (''Job '' @ ldquo @ jc_name (snd r) @ rdquo @ '' updated.'', [])
      | None \<Rightarrow> (''Job '' @ ldquo @ jc_name (snd r) @ rdquo @ '' created.'',
          if jc_schedule (snd r) = Manual then ''Run it from the Backup Jobs page.''
          else describeSchedule (schedule_val (jc_schedule (snd r)))))"

definition failedToast :: "job option \<times> jobCreate \<Rightarrow> string \<Rightarrow> string \<times> string" where
  "failedToast r message =
     (if fst r \<noteq> None then ''Could not update job'' else ''Could not create job'', message)"

definition settleSubmit :: "fetch \<Rightarrow> job option \<times> jobCreate \<Rightarrow> wizard \<Rightarrow> wizard" where
  "settleSubmit f r w =
     (case submitRequest f r of
        Inr _ \<Rightarrow> w\<lparr>wz_toasts := savedToast r # wz_toasts w, wz_saved := wz_saved w + 1, wz_open := False\<rparr>
      | Inl err \<Rightarrow> w\<lparr>wz_error := Some (errorMessage err),
                     wz_toasts := failedToast r (errorMessage err) # wz_toasts w\<rparr>)
     \<lparr>wz_submitting := False, wz_pending := remove1 r (wz_pending w)\<rparr>"

subsection \<open>Events\<close>

datatype wizardEvent =
    OpenWizard wizardProps
  | Refetched "target list" "cachedVM list" "agent list"
  | CloseWizard
  | Back
  | Continue
  | EditName string
  | PickKind jobKind
  | PickMode vmSourceMode
  | PickTag string
  | EditQuery string
  | ToggleVM cachedVM
  | PickAgent agent
  | EditPathDraft string
  | AddPath
  | RemovePath jval
  | PickTarget target
  | ScheduleControl editorEvent
  | RetentionControl retentionEvent
  | ProtectionControl policyEvent
  | SetEnabled bool
  | Submit
  | Settles fetch "job option \<times> jobCreate"

definition protectionForm :: "wizard \<Rightarrow> policyForm" where
  "protectionForm w =
     \<lparr>pf_policy = ws_policy (wz_state w), pf_kind = ws_kind (wz_state w), pf_draft = wz_token w\<rparr>"

text \<open>What the dialog offers. Escape, the scrim and the close button close it even while submitting.\<close>

fun wizardOffered :: "browser \<Rightarrow> wizard \<Rightarrow> wizardEvent \<Rightarrow> bool" where
  "wizardOffered b w (OpenWizard ps) = (\<not> wz_open w)"
| "wizardOffered b w (Refetched ts vs as) = True"
| "wizardOffered b w CloseWizard = wz_open w"
| "wizardOffered b w Back = (wz_open w \<and> wz_step w \<noteq> 0 \<and> \<not> wz_submitting w)"
| "wizardOffered b w Continue = (wz_open w \<and> wz_step w \<noteq> length STEPS - 1 \<and> stepValid (wz_state w) (wz_step w))"
| "wizardOffered b w (EditName s) = (wz_open w \<and> wz_step w = 0)"
| "wizardOffered b w (PickKind k) = (wz_open w \<and> wz_step w = 0 \<and> wp_editJob (wz_props w) = None)"
| "wizardOffered b w (PickMode m) =
     (wz_open w \<and> wz_step w = 0 \<and> ws_kind (wz_state w) = VmJob \<and> m \<in> set (map fst SOURCE_MODES))"
| "wizardOffered b w (PickTag t) =
     (wz_open w \<and> wz_step w = 0 \<and> byTag (wz_state w) \<and> t \<in> set (allTagsOf (b_localeCompare b) (wp_vms (wz_props w))))"
| "wizardOffered b w (EditQuery q) =
     (wz_open w \<and> wz_step w = 0 \<and> ws_kind (wz_state w) = VmJob \<and> \<not> byTag (wz_state w))"
| "wizardOffered b w (ToggleVM vm) =
     (wz_open w \<and> wz_step w = 0 \<and> ws_kind (wz_state w) = VmJob \<and> \<not> byTag (wz_state w) \<and>
      vm \<in> set (filteredVMs b w))"
| "wizardOffered b w (PickAgent a) =
     (wz_open w \<and> wz_step w = 0 \<and> ws_kind (wz_state w) = AgentJob \<and> a \<in> set (wp_agents (wz_props w)))"
| "wizardOffered b w (EditPathDraft s) = (wz_open w \<and> wz_step w = 0 \<and> ws_kind (wz_state w) = AgentJob)"
| "wizardOffered b w AddPath = (wz_open w \<and> wz_step w = 0 \<and> ws_kind (wz_state w) = AgentJob)"
| "wizardOffered b w (RemovePath p) =
     (wz_open w \<and> wz_step w = 0 \<and> ws_kind (wz_state w) = AgentJob \<and> p \<in> set (ws_paths (wz_state w)))"
| "wizardOffered b w (PickTarget t) = (wz_open w \<and> wz_step w = 1 \<and> t \<in> set (wp_targets (wz_props w)))"
| "wizardOffered b w (ScheduleControl e) = (wz_open w \<and> wz_step w = 2 \<and> offered (wz_editor w) e)"
| "wizardOffered b w (RetentionControl e) =
     (wz_open w \<and> wz_step w = 3 \<and> retentionOffered (ws_retention (wz_state w)) e)"
| "wizardOffered b w (ProtectionControl e) = (wz_open w \<and> wz_step w = 4 \<and> policyOffered (protectionForm w) e)"
| "wizardOffered b w (SetEnabled x) = (wz_open w \<and> wz_step w = 5 \<and> x \<noteq> ws_enabled (wz_state w))"
| "wizardOffered b w Submit = (wz_open w \<and> wz_step w = length STEPS - 1 \<and> \<not> wz_submitting w)"
| "wizardOffered b w (Settles f r) = (r \<in> set (wz_pending w))"

text \<open>Coming to a step mounts its component.\<close>

definition gotoStep :: "nat \<Rightarrow> wizard \<Rightarrow> wizard" where
  "gotoStep n w = w\<lparr>wz_step := n, wz_editor := mountEditor (ws_schedule (wz_state w)), wz_token := []\<rparr>"

fun wizardStep :: "wizardEvent \<Rightarrow> wizard \<Rightarrow> wizard" where
  "wizardStep (OpenWizard ps) w =
     w\<lparr>wz_props := ps, wz_open := True, wz_step := 0, wz_state := initialState ps, wz_pathDraft := [],
       wz_query := [], wz_error := None\<rparr>"
| "wizardStep (Refetched ts vs as) w =
     w\<lparr>wz_props := (wz_props w)\<lparr>wp_targets := ts, wp_vms := vs, wp_agents := as\<rparr>\<rparr>"
| "wizardStep CloseWizard w = w\<lparr>wz_open := False\<rparr>"
| "wizardStep Back w = gotoStep (wz_step w - 1) w"
| "wizardStep Continue w = gotoStep (min (length STEPS - 1) (wz_step w + 1)) w"
| "wizardStep (EditName s) w = patch (ws_name_update (\<lambda>_. s)) w"
| "wizardStep (PickKind k) w = patch (ws_kind_update (\<lambda>_. k)) w"
| "wizardStep (PickMode m) w = patch (ws_sourceMode_update (\<lambda>_. m)) w"
| "wizardStep (PickTag t) w = patch (ws_tagFilter_update (\<lambda>old. if old = t then [] else t)) w"
| "wizardStep (EditQuery q) w = w\<lparr>wz_query := q\<rparr>"
| "wizardStep (ToggleVM vm) w = patch (toggleVM vm) w"
| "wizardStep (PickAgent a) w = patch (ws_agentId_update (\<lambda>_. id_val (a_id a))) w"
| "wizardStep (EditPathDraft s) w = w\<lparr>wz_pathDraft := s\<rparr>"
| "wizardStep AddPath w = addPath w"
| "wizardStep (RemovePath p) w = patch (ws_paths_update (filter (\<lambda>item. item \<noteq> p))) w"
| "wizardStep (PickTarget t) w = patch (ws_targetId_update (\<lambda>_. t_id t)) w"
| "wizardStep (ScheduleControl e) w =
     (let ed = editorStep e (wz_editor w)
      in (patch (ws_schedule_update (\<lambda>_. ed_value ed)) w)\<lparr>wz_editor := ed\<rparr>)"
| "wizardStep (RetentionControl e) w = patch (ws_retention_update (retentionStep e)) w"
| "wizardStep (ProtectionControl e) w =
     (let f = policyStep e (protectionForm w)
      in (patch (ws_policy_update (\<lambda>_. pf_policy f)) w)\<lparr>wz_token := pf_draft f\<rparr>)"
| "wizardStep (SetEnabled x) w = patch (ws_enabled_update (\<lambda>_. x)) w"
| "wizardStep Submit w = beginSubmit w"
| "wizardStep (Settles f r) w = settleSubmit f r w"

subsection \<open>What is on screen\<close>

datatype railMark = StepDone | StepActive nat | StepAhead nat

definition StepRail :: "nat \<Rightarrow> (railMark \<times> string) list" where
  "StepRail step =
     map2 (\<lambda>index label.
         (if index < step then StepDone else if index = step then StepActive (index + 1) else StepAhead (index + 1), label))
       [0..<length STEPS] STEPS"

definition wizardTitle :: "wizard \<Rightarrow> string" where
  "wizardTitle w =
     (case wp_editJob (wz_props w) of
        Some j \<Rightarrow> ''Edit job '' @ em_dash @ '' '' @ j_name j
      | None \<Rightarrow> ''Create backup job'')"

text \<open>The tag panel: the chips with their member counts, and the members of the chosen tag.\<close>

definition tagChips :: "browser \<Rightarrow> wizard \<Rightarrow> (string \<times> bool \<times> nat) list" where
  "tagChips b w =
     map (\<lambda>tag. (tag, ws_tagFilter (wz_state w) = tag, length (vmsWithTag (wp_vms (wz_props w)) tag)))
       (allTagsOf (b_localeCompare b) (wp_vms (wz_props w)))"

definition tagPanel :: "browser \<Rightarrow> wizard \<Rightarrow> (string \<times> (string list \<times> string list) list \<times> string option) option" where
  "tagPanel b w =
     (let tag = ws_tagFilter (wz_state w); ms = tagMatches w
      in if tag = [] then None
         else Some
           (formatCount (b_host b) (Some (jsint (int (length ms)))) @ '' '' @
              (if length ms = 1 then ''VM carries'' else ''VMs carry'') @ '' this tag right now'',
            map (\<lambda>vm. (inlineIdentity (vmIdentity vm), take 3 (filter (\<lambda>x. x \<noteq> tag) (tagsOf (v_tags vm))))) ms,
            if ms = [] then Some (''Nothing carries this tag yet '' @ em_dash @ '' a run that resolves to zero VMs fails.'')
            else None))"

text \<open>A row of the machine list: whether it is chosen, who it is, its disk, its first tags and its status.\<close>

record vmRow =
  r_selected :: bool
  r_identity :: "string list \<times> string option"
  r_disk :: string
  r_tags :: "string list"
  r_status :: string

definition vmRows :: "browser \<Rightarrow> wizard \<Rightarrow> vmRow list" where
  "vmRows b w =
     map (\<lambda>vm. \<lparr>r_selected = (keyOf vm \<in> set (map keyOf (ws_selectedVMs (wz_state w)))),
                r_identity = stackedIdentity (vmIdentity vm),
                r_disk = formatBytes (b_host b) (Some (v_maxdisk vm)) 1 @ '' disk'',
                r_tags = take 3 (tagsOf (v_tags vm)), r_status = v_status vm\<rparr>)
       (filteredVMs b w)"

definition agentTiles :: "wizard \<Rightarrow> (bool \<times> string \<times> string) list" where
  "agentTiles w =
     map (\<lambda>a. (val_str (ws_agentId (wz_state w)) = id_str (a_id a), a_hostname a,
               a_os a @ ''/'' @ a_arch a @ '' '' @ middle_dot @ '' agent '' @ a_version a @ '' '' @ middle_dot @ '' '' @ a_status a))
       (wp_agents (wz_props w))"

definition targetTiles :: "browser \<Rightarrow> wizard \<Rightarrow> (bool \<times> string \<times> string \<times> (string \<times> string) \<times> string option) list" where
  "targetTiles b w =
     map (\<lambda>t. (id_str (ws_targetId (wz_state w)) = id_str (t_id t), t_name t, targetLocation t,
               TargetKindChip (t_kind t), TargetCapacityLine (b_host b) t))
       (wp_targets (wz_props w))"

text \<open>The rows of the review.\<close>

definition reviewSources :: "browser \<Rightarrow> wizard \<Rightarrow> string list" where
  "reviewSources b w =
     (let s = wz_state w
      in if byTag s
         then [''Tag: '', if ws_tagFilter s = [] then em_dash else ws_tagFilter s,
               ''(currently '' @ formatCount (b_host b) (Some (jsint (int (length (tagMatches w))))) @ '' '' @
                 (if length (tagMatches w) = 1 then ''VM'' else ''VMs'') @ '')'']
         else if ws_kind s = VmJob
         then (if ws_selectedVMs s = [] then [em_dash]
               else concat (map (\<lambda>vm. inlineIdentity (vmIdentity vm)) (ws_selectedVMs s)))
         else [(case selectedAgent w of Some a \<Rightarrow> a_hostname a | None \<Rightarrow> em_dash) @ '' '' @ em_dash @ '' '' @
               nat_str (length (ws_paths s)) @ '' '' @ (if length (ws_paths s) = 1 then ''path'' else ''paths'')])"

definition reviewTarget :: "wizard \<Rightarrow> string list" where
  "reviewTarget w =
     (case selectedTarget w of
        Some t \<Rightarrow> [t_name t, fst (TargetKindChip (t_kind t)), targetLocation t]
      | None \<Rightarrow> [em_dash])"

definition reviewSchedule :: "browser \<Rightarrow> wizard \<Rightarrow> string list" where
  "reviewSchedule b w =
     (let schedule = ws_schedule (wz_state w); next = nextRunOf (b_host b) schedule (b_timezone b)
      in describeSchedule (schedule_val schedule) #
         (if next = None then []
          else [''next run '' @ formatWallClock (h_zone (b_host b)) next @
                (case opt_text (b_timezone b) of Some z \<Rightarrow> '' ('' @ z @ '')'' | None \<Rightarrow> [])]))"

definition reviewRows :: "browser \<Rightarrow> wizard \<Rightarrow> (string \<times> string list) list" where
  "reviewRows b w =
     (let s = wz_state w
      in [(''Name'', [if trim (ws_name s) = [] then em_dash else trim (ws_name s)]),
          (''Type'', [if ws_kind s = VmJob then ''Virtual machines (agentless)'' else ''Agent (file level)'']),
          (''Sources'', reviewSources b w),
          (''Target'', reviewTarget w),
          (''Schedule'', reviewSchedule b w),
          (''Retention'', [describeRetention (retention_val (ws_retention s))]),
          (''Protection'', PolicySummary (ws_policy s) (ws_kind s))])"

definition incompleteHint :: "wizard \<Rightarrow> string option" where
  "incompleteHint w =
     (if wz_step w \<noteq> length STEPS - 1 \<and> \<not> stepValid (wz_state w) (wz_step w)
      then Some ''Complete this step to continue.'' else None)"

subsection \<open>Lemmas\<close>

lemma gotoStep_simps [simp]:
  "wz_step (gotoStep n w) = n" "wz_state (gotoStep n w) = wz_state w" "wz_open (gotoStep n w) = wz_open w"
  "wz_props (gotoStep n w) = wz_props w" "wz_submitting (gotoStep n w) = wz_submitting w"
  "wz_pending (gotoStep n w) = wz_pending w" "wz_sent (gotoStep n w) = wz_sent w"
  "wz_toasts (gotoStep n w) = wz_toasts w" "wz_editor (gotoStep n w) = mountEditor (ws_schedule (wz_state w))"
  by (simp_all add: gotoStep_def)

lemma addPath_simps [simp]:
  "wz_step (addPath w) = wz_step w" "wz_open (addPath w) = wz_open w" "wz_submitting (addPath w) = wz_submitting w"
  "wz_pending (addPath w) = wz_pending w" "wz_sent (addPath w) = wz_sent w" "wz_toasts (addPath w) = wz_toasts w"
  "ws_schedule (wz_state (addPath w)) = ws_schedule (wz_state w)"
  "ws_retention (wz_state (addPath w)) = ws_retention (wz_state w)"
  "ws_policy (wz_state (addPath w)) = ws_policy (wz_state w)" "ws_agentId (wz_state (addPath w)) = ws_agentId (wz_state w)"
  "wz_editor (addPath w) = wz_editor w"
  by (simp_all add: addPath_def Let_def)

lemma beginSubmit_simps [simp]:
  "wz_step (beginSubmit w) = wz_step w" "wz_state (beginSubmit w) = wz_state w" "wz_open (beginSubmit w) = wz_open w"
  "wz_submitting (beginSubmit w)" "wz_editor (beginSubmit w) = wz_editor w" "wz_toasts (beginSubmit w) = wz_toasts w"
  "wz_pending (beginSubmit w) = (wp_editJob (wz_props w), payload (wz_state w)) # wz_pending w"
  "wz_sent (beginSubmit w) = (wp_editJob (wz_props w), payload (wz_state w)) # wz_sent w"
  by (simp_all add: beginSubmit_def Let_def)

lemma settleSubmit_simps [simp]:
  "wz_step (settleSubmit f r w) = wz_step w" "wz_state (settleSubmit f r w) = wz_state w"
  "wz_editor (settleSubmit f r w) = wz_editor w" "\<not> wz_submitting (settleSubmit f r w)"
  "wz_pending (settleSubmit f r w) = remove1 r (wz_pending w)" "wz_sent (settleSubmit f r w) = wz_sent w"
  "length (wz_toasts (settleSubmit f r w)) = Suc (length (wz_toasts w))"
  by (simp_all add: settleSubmit_def split: sum.splits)

lemma toggleVM_simps [simp]:
  "ws_schedule (toggleVM vm s) = ws_schedule s" "ws_retention (toggleVM vm s) = ws_retention s"
  "ws_policy (toggleVM vm s) = ws_policy s" "ws_agentId (toggleVM vm s) = ws_agentId s"
  by (simp_all add: toggleVM_def)

text \<open>The six steps are a dialog of consecutive steps.\<close>

interpretation job_dialog:
  step_dialog wz_step "\<lambda>w. stepValid (wz_state w)" wizardStep "wizardOffered b" for b
proof unfold_locales
  show "wz_step (wizardStep e w) \<le> Suc (wz_step w) \<and>
      (wz_step (wizardStep e w) = Suc (wz_step w) \<longrightarrow> stepValid (wz_state w) (wz_step w))"
    if "wizardOffered b w e" for w e
    using that by (cases e) (auto simp: Let_def)
  show "stepValid (wz_state (wizardStep e w)) i"
    if "wizardOffered b w e" "i < wz_step (wizardStep e w)" "stepValid (wz_state w) i" for w e i
    using that by (cases e) (auto simp: Let_def stepValid_def sourcesValid_def byTag_def split: if_splits)
qed

text \<open>What the wizard holds is well formed, and the mounted editor reports to it.\<close>

definition wizard_inv :: "wizard \<Rightarrow> bool" where
  "wizard_inv w \<longleftrightarrow>
     editable (ws_schedule (wz_state w)) \<and> valid_retention (ws_retention (wz_state w)) \<and>
     policy_ok (ws_policy (wz_state w)) \<and> \<not> nullish (ws_agentId (wz_state w)) \<and>
     (wz_step w = 2 \<longrightarrow> editor_inv (wz_editor w) \<and> ed_value (wz_editor w) = ws_schedule (wz_state w))"

lemma parsed_policy_ok: "policy_ok (parsePolicy v)"
  using policy_norm.parse_valid [of v]
  by (auto simp: policy_ok_def valid_policy_def window_times_def split: option.splits)

lemma initialState_ok:
  "editable (ws_schedule (initialState ps)) \<and> valid_retention (ws_retention (initialState ps)) \<and>
   policy_ok (ws_policy (initialState ps)) \<and> \<not> nullish (ws_agentId (initialState ps))"
proof (cases "wp_editJob ps")
  case None
  then show ?thesis
    using HHMM_defaults(1)
    by (simp add: initialState_def editable_def DEFAULT_SCHEDULE_def default_policy_ok valid_retention_def
        DEFAULT_RETENTION_def keep_ok_def)
next
  case (Some j)
  then show ?thesis
    by (simp add: initialState_def Let_def editable_def sched_norm.parse_valid ret_norm.parse_valid parsed_policy_ok
        nullish_or_def split: option.splits)
qed

lemma wizardStep_inv:
  assumes "wizard_inv w" "wizardOffered b w e"
  shows "wizard_inv (wizardStep e w)"
proof (cases e)
  case (OpenWizard ps)
  then show ?thesis using initialState_ok by (simp add: wizard_inv_def)
next
  case (ScheduleControl ev)
  then show ?thesis
    using assms schedule_control.step_inv [of "wz_editor w" ev]
      schedule_control.inv_ok [of "editorStep ev (wz_editor w)"]
    by (auto simp: wizard_inv_def Let_def)
next
  case (RetentionControl ev)
  then show ?thesis
    using assms retention_control.step_inv [of "ws_retention (wz_state w)" ev] by (auto simp: wizard_inv_def)
next
  case (ProtectionControl ev)
  then show ?thesis
    using assms policyStep_ok [of "protectionForm w" ev]
    by (auto simp: wizard_inv_def Let_def protectionForm_def)
next
  case (PickAgent a)
  then show ?thesis using assms by (cases "a_id a") (auto simp: wizard_inv_def)
qed (use assms schedule_control.mount_inv schedule_control.mount_held in \<open>auto simp: wizard_inv_def\<close>)

text \<open>What a saved job must have.\<close>

definition complete_sources :: "jobCreate \<Rightarrow> bool" where
  "complete_sources c =
     (case jc_sources c of
        VmSources ss \<Rightarrow> jc_kind c = VmJob \<and> (\<exists>t. jc_tagFilter c = Some t \<and> (t = [] \<longleftrightarrow> ss \<noteq> []))
      | AgentSources i ps \<Rightarrow> jc_kind c = AgentJob \<and> jc_tagFilter c = None \<and> i \<noteq> JStr [] \<and> \<not> nullish i \<and> ps \<noteq> [])"

definition complete_job :: "jobCreate \<Rightarrow> bool" where
  "complete_job c \<longleftrightarrow>
     jc_name c \<noteq> [] \<and> trim (jc_name c) = jc_name c \<and> jc_targetId c \<noteq> IdStr [] \<and> complete_sources c \<and>
     isScheduleComplete (jc_schedule c) \<and> valid_schedule (jc_schedule c) \<and>
     1 \<le> retentionRuleCount (jc_retention c) \<and> valid_retention (jc_retention c) \<and> policy_ok (jc_policy c)"

lemma payload_sources: "sourcesValid s \<Longrightarrow> \<not> nullish (ws_agentId s) \<Longrightarrow> complete_sources (payload s)"
  by (cases "ws_kind s") (auto simp: sourcesValid_def complete_sources_def payload_def payloadSources_def byTag_def)

lemma payload_complete:
  assumes "wizard_inv w" "\<And>i. i < 5 \<Longrightarrow> stepValid (wz_state w) i"
  shows "complete_job (payload (wz_state w))"
proof -
  have "sourcesValid (wz_state w)" using assms(2) [of 0] by (simp add: stepValid_def)
  moreover from this have "trim (ws_name (wz_state w)) \<noteq> []" by (simp add: sourcesValid_def)
  moreover have "isScheduleComplete (ws_schedule (wz_state w))" using assms(2) [of 2] by (simp add: stepValid_def)
  moreover have "ws_targetId (wz_state w) \<noteq> IdStr []" using assms(2) [of 1] by (simp add: stepValid_def)
  moreover have "1 \<le> retentionRuleCount (ws_retention (wz_state w))" using assms(2) [of 3] by (simp add: stepValid_def)
  ultimately show ?thesis
    using assms(1) payload_sources complete_valid
    by (simp add: complete_job_def wizard_inv_def) (simp add: payload_def)
qed

definition all_complete :: "wizard \<Rightarrow> bool" where
  "all_complete w \<longleftrightarrow> wizard_inv w \<and> job_dialog.behind_ok w \<and> (\<forall>r\<in>set (wz_sent w). complete_job (snd r))"

lemma wizardStep_sent:
  "wizardOffered b w e \<Longrightarrow> set (wz_sent (wizardStep e w)) \<subseteq>
     set (wz_sent w) \<union> (if e = Submit then {(wp_editJob (wz_props w), payload (wz_state w))} else {})"
  by (cases e) (auto simp: Let_def)

lemma wizardStep_complete:
  assumes "all_complete w" "wizardOffered b w e"
  shows "all_complete (wizardStep e w)"
proof -
  have "complete_job (payload (wz_state w))" if "e = Submit"
    using that assms
    by (intro payload_complete) (auto simp: all_complete_def job_dialog.behind_ok_def STEPS_def)
  with wizardStep_sent [OF assms(2)] assms show ?thesis
    using wizardStep_inv job_dialog.step_behind_ok
    by (fastforce simp: all_complete_def split: if_splits)
qed

interpretation job_requests: request_guard "mountWizard ps" wizardStep "wizardOffered b" all_complete wz_sent
  "\<lambda>r. complete_job (snd r)" for ps b
proof unfold_locales
  show "all_complete (mountWizard ps)"
    using initialState_ok by (simp add: all_complete_def wizard_inv_def mountWizard_def job_dialog.behind_ok_def)
qed (rule wizardStep_complete, assumption+, simp add: all_complete_def list_all_iff)

text \<open>One request at a time, each reported once.\<close>

definition one_at_a_time :: "wizard \<Rightarrow> bool" where
  "one_at_a_time w \<longleftrightarrow>
     length (wz_pending w) = (if wz_submitting w then 1 else 0) \<and>
     length (wz_sent w) = length (wz_toasts w) + length (wz_pending w)"

lemma wizardStep_one: "one_at_a_time w \<Longrightarrow> wizardOffered b w e \<Longrightarrow> one_at_a_time (wizardStep e w)"
  by (cases e) (auto simp: one_at_a_time_def Let_def length_remove1 split: if_splits)

text \<open>A way through the wizard: a name, a machine, a target, the defaults for the rest.\<close>

definition way_through :: "wizardProps \<Rightarrow> cachedVM \<Rightarrow> target \<Rightarrow> wizardEvent list" where
  "way_through ps vm t =
     [OpenWizard ps, EditName ''nightly'', ToggleVM vm, Continue, PickTarget t, Continue, Continue, Continue, Continue,
      Submit]"

definition nightly_job :: "cachedVM \<Rightarrow> target \<Rightarrow> jobCreate" where
  "nightly_job vm t =
     \<lparr>jc_name = ''nightly'', jc_kind = VmJob, jc_targetId = t_id t, jc_schedule = DEFAULT_SCHEDULE,
      jc_retention = DEFAULT_RETENTION, jc_policy = DEFAULT_POLICY,
      jc_sources = VmSources [\<lparr>s_hostId = v_hostId vm, s_vmid = v_vmid vm, s_name = v_name vm\<rparr>],
      jc_enabled = True, jc_tagFilter = Some []\<rparr>"

lemma trim_nightly: "trim ''nightly'' = ''nightly''"
  by code_simp

lemma way_through_run:
  assumes "vm \<in> set (wp_vms ps)" "t \<in> set (wp_targets ps)" "t_id t \<noteq> IdStr []"
    "wp_editJob ps = None" "wp_initialVM ps = None" "b_lower b [] = []"
  shows "\<exists>w. run_events wizardStep (wizardOffered b) (way_through ps vm t) (mountWizard p0) = Some w \<and>
    wz_sent w = [(None, nightly_job vm t)] \<and> wz_pending w = [(None, nightly_job vm t)]"
  using assms trim_nightly
  by (simp add: way_through_def mountWizard_def initialState_def filteredVMs_def byTag_def stepValid_def sourcesValid_def
      toggleVM_def STEPS_def gotoStep_def DEFAULT_SCHEDULE_def DEFAULT_RETENTION_def retentionRuleCount_def
      beginSubmit_def payload_def payloadSources_def nightly_job_def Let_def)

text \<open>A small installation: one machine, one target, a browser that formats plainly.\<close>

definition web01 :: cachedVM where
  "web01 = \<lparr>v_vmid = Fin 100, v_name = ''web01'', v_node = ''pve1'', v_status = ''running'', v_maxdisk = Fin 0,
     v_maxmem = Fin 0, v_uptime = Fin 0, v_tags = JNull, v_hostId = IdNum (Fin 1), v_hostName = ''lab''\<rparr>"

definition nas_props :: wizardProps where
  "nas_props = \<lparr>wp_targets = [nas], wp_vms = [web01], wp_agents = [], wp_initialVM = None, wp_editJob = None\<rparr>"

definition plain_browser :: browser where
  "plain_browser =
     \<lparr>b_host = \<lparr>h_zone = fixed_zone 0, h_now = 0, h_parse = (\<lambda>_. None), h_parts = (\<lambda>_ _. None), h_datetime = (\<lambda>_. []),
        h_clock = (\<lambda>_. []), h_date = (\<lambda>_. []), h_group = num_str, h_log = (\<lambda>n. n)\<rparr>,
      b_localeCompare = (\<lambda>_ _. 0), b_lower = (\<lambda>s. s), b_timezone = None\<rparr>"

lemma nas_run:
  "\<exists>w. run_events wizardStep (wizardOffered plain_browser) (way_through nas_props web01 nas) (mountWizard nas_props) = Some w \<and>
     wz_sent w = [(None, nightly_job web01 nas)] \<and> wz_pending w = [(None, nightly_job web01 nas)]"
  by (rule way_through_run) (simp_all add: nas_props_def plain_browser_def nas_def)

text \<open>The dialog that was reopened while a request was out is closed by its answer.\<close>

lemma late_answer_closes:
  assumes "wizardOffered b w Submit" "r = (wp_editJob (wz_props w), payload (wz_state w))" "submitRequest f r = Inr v"
  shows "\<exists>w'. run_events wizardStep (wizardOffered b) [Submit, CloseWizard, OpenWizard ps, EditName s, Settles f r] w = Some w' \<and>
    \<not> wz_open w'"
  using assms by (simp add: beginSubmit_def settleSubmit_def Let_def)

subsection \<open>Properties\<close>

text \<open>
  C2 (only complete jobs are submitted): however the wizard is opened, used, closed and opened again,
  every job it has sent has a trimmed, non-empty name, a target, sources (a tag, or machines, or an
  agent with paths; never both a tag and machines), a complete well-formed schedule, a retention
  policy that keeps something, and a protection policy with every counter in range; schedule and
  retention are read back from the request as they were.
\<close>

theorem job_wizard_complete:
  assumes "reaches wizardStep (wizardOffered b) (mountWizard ps) w" "(j, c) \<in> set (wz_sent w)"
  shows "complete_job c \<and> parseSchedule (schedule_val (jc_schedule c)) = jc_schedule c \<and>
    parseRetention (retention_val (jc_retention c)) = jc_retention c"
proof -
  have "complete_job c" using job_requests.request_ok [OF assms] by simp
  then show ?thesis by (simp add: complete_job_def sched_norm.parse_encode ret_norm.parse_encode)
qed

theorem job_wizard_complete_witness:
  "complete_job (nightly_job web01 nas) \<and> parseSchedule (schedule_val (Daily ''02:00'')) = Daily ''02:00''"
proof -
  obtain w where w: "run_events wizardStep (wizardOffered plain_browser) (way_through nas_props web01 nas)
      (mountWizard nas_props) = Some w" "wz_sent w = [(None, nightly_job web01 nas)]"
    using nas_run by blast
  from job_wizard_complete [OF run_events_reaches [OF w(1)], of None "nightly_job web01 nas"] w(2)
  show ?thesis by (simp add: nightly_job_def DEFAULT_SCHEDULE_def)
qed

text \<open>
  At most one submission is on its way, also
  across closing and reopening the dialog; the submit button is busy exactly then; and every other
  request made so far has been reported by exactly one toast.
\<close>

theorem job_wizard_single:
  assumes "reaches wizardStep (wizardOffered b) (mountWizard ps) w"
  shows "length (wz_pending w) = (if wz_submitting w then 1 else 0) \<and>
    length (wz_sent w) = length (wz_toasts w) + length (wz_pending w)"
proof -
  have "one_at_a_time (mountWizard ps)" by (simp add: one_at_a_time_def mountWizard_def)
  then have "one_at_a_time w" using assms wizardStep_one by (blast intro: reaches_invariant)
  then show ?thesis by (simp add: one_at_a_time_def)
qed

theorem job_wizard_single_witness:
  "\<exists>w :: wizard. wz_submitting w \<and> length (wz_toasts w) = 0 \<and> length (wz_sent w) = 1"
proof -
  obtain w where w: "run_events wizardStep (wizardOffered plain_browser) (way_through nas_props web01 nas)
      (mountWizard nas_props) = Some w" "wz_sent w = [(None, nightly_job web01 nas)]"
      "wz_pending w = [(None, nightly_job web01 nas)]"
    using nas_run by blast
  with job_wizard_single [OF run_events_reaches [OF w(1)]] have "wz_submitting w" "length (wz_toasts w) = 0"
    by (simp_all split: if_splits)
  with w(2) show ?thesis by auto
qed

text \<open>
  C28 (the wizard can be finished): with a machine in the inventory and a storage target configured,
  there is a sequence of controls, each on screen and enabled when it is used, that creates a job
  protecting that machine on that target.
\<close>

theorem job_wizard_finishes:
  fixes ps :: wizardProps
  assumes "vm \<in> set (wp_vms ps)" "t \<in> set (wp_targets ps)" "t_id t \<noteq> IdStr []"
    "wp_editJob ps = None" "wp_initialVM ps = None" "b_lower b [] = []"
  shows "\<exists>es w c. run_events wizardStep (wizardOffered b) es (mountWizard p0) = Some w \<and>
    wz_sent w = [(None, c)] \<and> jc_targetId c = t_id t \<and>
    jc_sources c = VmSources [\<lparr>s_hostId = v_hostId vm, s_vmid = v_vmid vm, s_name = v_name vm\<rparr>]"
proof -
  from way_through_run [OF assms, of p0] obtain w
    where "run_events wizardStep (wizardOffered b) (way_through ps vm t) (mountWizard p0) = Some w"
      "wz_sent w = [(None, nightly_job vm t)]" by blast
  then show ?thesis by (fastforce simp: nightly_job_def)
qed

theorem job_wizard_finishes_witness:
  "\<exists>es w c. run_events wizardStep (wizardOffered plain_browser) es (mountWizard nas_props) = Some w \<and>
     wz_sent w = [(None, c)] \<and> jc_targetId c = IdNum (Fin 1)"
  using job_wizard_finishes [of web01 nas_props nas plain_browser nas_props]
  by (fastforce simp: nas_props_def plain_browser_def nas_def)

text \<open>
  Editing. \<open>saved\<close> is the job as the server reports it after it was saved with \<open>c\<close>.
\<close>

definition saved :: "jobCreate \<Rightarrow> job \<Rightarrow> job" where
  "saved c j = j\<lparr>j_name := jc_name c, j_kind := jc_kind c, j_targetId := jc_targetId c,
     j_schedule := schedule_val (jc_schedule c), j_retention := retention_val (jc_retention c),
     j_policy := policy_val (jc_policy c), j_sources := sources_val (jc_sources c), j_enabled := jc_enabled c,
     j_tagFilter := jc_tagFilter c\<rparr>"

definition sourceKey :: "vmJobSource \<Rightarrow> string" where
  "sourceKey s = vmKey (id_val (s_hostId s)) (JNum (s_vmid s))"

definition inventory_sources :: "cachedVM list \<Rightarrow> jobSources \<Rightarrow> jobSources" where
  "inventory_sources vms ss =
     (case ss of
        VmSources xs \<Rightarrow> VmSources (map (\<lambda>vm. \<lparr>s_hostId = v_hostId vm, s_vmid = v_vmid vm, s_name = v_name vm\<rparr>)
          (filter (\<lambda>vm. keyOf vm \<in> sourceKey ` set xs) vms))
      | AgentSources i ps \<Rightarrow> AgentSources i ps)"

lemma vmSource_keys:
  "map (\<lambda>s. vmKey (jprop s ''hostId'') (jprop s ''vmid'')) (vmSourcesOf (sources_val (VmSources xs))) = map sourceKey xs"
  by (simp add: vmSourcesOf_def isVMJobSource_def sourceKey_def filter_True)

lemma edit_sources:
  assumes "complete_sources c" "wp_editJob ps = Some (saved c j)"
  shows "payloadSources (initialState ps) = inventory_sources (wp_vms ps) (jc_sources c)"
proof (cases "jc_sources c")
  case (VmSources xs)
  with assms show ?thesis
    using vmSource_keys [of xs]
    by (auto simp: complete_sources_def initialState_def saved_def payloadSources_def byTag_def inventory_sources_def
        Let_def simp del: sources_val.simps)
next
  case (AgentSources i ps)
  with assms show ?thesis
    by (simp add: complete_sources_def initialState_def saved_def payloadSources_def inventory_sources_def Let_def
        agentSourceOf_def isAgentJobSource_def nullish_or_def)
qed


definition blank_job :: job where
  "blank_job =
     \<lparr>j_id = IdNum (Fin 7), j_name = [], j_kind = VmJob, j_targetId = IdNum (Fin 1), j_targetName = ''nas'',
      j_schedule = JNull, j_scheduleLabel = None, j_retention = JNull, j_policy = JNull, j_enabled = True,
      j_sources = JNull, j_tagFilter = None, j_nextRun = None, j_lastRun = None\<rparr>"


end
