(* ===== verification/Restore_Wizard.thy ===== *)
theory Restore_Wizard
  imports Identity Ui_Machine
begin

text \<open>
  The restore wizard (\<open>web/src/components/RestoreWizard.tsx\<close>): mode, destination, review. The state
  includes the answers that are still out, because a free-VMID suggestion or a submission may settle
  after the operator has moved on, and the two effects (the reset on opening, and the one that
  follows the mode and the cluster) are written out in the order React runs them.
\<close>

subsection \<open>Restore points and requests\<close>

record backupDisk =
  bd_name :: string
  bd_sizeBytes :: jsnum

record backup =
  bk_id :: js_id
  bk_jobId :: js_id
  bk_sourceKind :: jobKind
  bk_sourceId :: js_id
  bk_sourceName :: string
  bk_hostId :: "js_id option"
  bk_hostName :: "string option"
  bk_node :: "string option"
  bk_targetId :: js_id
  bk_createdAt :: string
  bk_sizeBytes :: jsnum
  bk_uploadedBytes :: jsnum
  bk_kind :: string
  bk_parentId :: "js_id option"
  bk_disks :: "backupDisk list"
  bk_lastVerifiedAt :: "string option"
  bk_lastVerifyResult :: "string option"
  bk_verifiedBytes :: "jsnum option"

record proxHost =
  px_id :: js_id
  px_name :: string
  px_baseUrl :: string
  px_tokenId :: string
  px_insecureTLS :: bool
  px_status :: string
  px_lastSeen :: "string option"

datatype restoreMode = Alongside | Overwrite

fun mode_str :: "restoreMode \<Rightarrow> string" where
  "mode_str Alongside = ''alongside''"
| "mode_str Overwrite = ''overwrite''"

record restoreVMTarget =
  rv_hostId :: string
  rv_node :: string
  rv_vmid :: jsnum
  rv_storage :: "string option"

datatype restoreRequest =
    RestoreVM js_id restoreMode restoreVMTarget "string option"
  | RestoreAgent js_id string string

fun restore_val :: "restoreRequest \<Rightarrow> jval" where
  "restore_val (RestoreVM i mode v confirm) = JObj
     ([(''backupId'', id_val i), (''mode'', JStr (mode_str mode)),
       (''vm'', JObj ([(''hostId'', JStr (rv_hostId v)), (''node'', JStr (rv_node v)), (''vmid'', JNum (rv_vmid v))] @
          (case rv_storage v of Some s \<Rightarrow> [(''storage'', JStr s)] | None \<Rightarrow> [])))] @
      (case confirm of Some c \<Rightarrow> [(''confirmName'', JStr c)] | None \<Rightarrow> []))"
| "restore_val (RestoreAgent i agentId destPath) = JObj
     [(''backupId'', id_val i), (''mode'', JStr (mode_str Alongside)),
      (''agent'', JObj [(''agentId'', JStr agentId), (''destPath'', JStr destPath)])]"

definition MODES :: "(restoreMode \<times> string \<times> string) list" where
  "MODES =
     [(Alongside, ''Restore alongside'',
       ''Creates a new machine on a free VMID. Nothing that exists today is touched. Recommended.''),
      (Overwrite, ''Overwrite original'',
       ''Destroys the disks of the destination machine and replaces them with this restore point.'')]"

text \<open>The tile of a mode: title, badge, description.\<close>

definition ModeTile :: "restoreMode \<times> string \<times> string \<Rightarrow> string list" where
  "ModeTile = (\<lambda>(value, title, description).
     [title, if value = Overwrite then ''Destructive'' else ''Recommended'', description])"

subsection \<open>State\<close>

record restoreProps =
  rp_backup :: "backup option"
  rp_target :: "target option"
  rp_hosts :: "proxHost list"
  rp_agents :: "agent list"
  rp_vms :: "cachedVM list"

record restore =
  rw_props :: restoreProps
  rw_step :: nat
  rw_mode :: restoreMode
  rw_hostId :: string
  rw_node :: string
  rw_vmid :: string
  rw_storage :: string
  rw_agentId :: string
  rw_destPath :: string
  rw_confirmName :: string
  rw_suggesting :: bool
  rw_suggestError :: "string option"
  rw_submitting :: bool
  rw_error :: "string option"
  rw_asked :: "string list"
  rw_pending :: "(backup \<times> restoreRequest) list"
  rw_sent :: "(restoreProps \<times> restoreRequest) list"
  rw_started :: nat
  rw_toasts :: "(string \<times> string) list"

definition mountRestore :: "restoreProps \<Rightarrow> restore" where
  "mountRestore ps =
     \<lparr>rw_props = ps\<lparr>rp_backup := None\<rparr>, rw_step = 0, rw_mode = Alongside, rw_hostId = [], rw_node = [], rw_vmid = [],
      rw_storage = [], rw_agentId = [], rw_destPath = [], rw_confirmName = [], rw_suggesting = False,
      rw_suggestError = None, rw_submitting = False, rw_error = None, rw_asked = [], rw_pending = [], rw_sent = [],
      rw_started = 0, rw_toasts = []\<rparr>"

definition isVM :: "restoreProps \<Rightarrow> bool" where
  "isVM ps = (case rp_backup ps of Some b \<Rightarrow> bk_sourceKind b = VmJob | None \<Rightarrow> False)"

definition isVma :: "restoreProps \<Rightarrow> bool" where
  "isVma ps = (case rp_backup ps of
     Some b \<Rightarrow> bk_sourceKind b = VmJob \<and> map bd_name (bk_disks b) = [''vma''] | None \<Rightarrow> False)"

definition steps :: "restoreProps \<Rightarrow> string list" where
  "steps ps = (if isVM ps then [''Mode'', ''Destination'', ''Review''] else [''Destination'', ''Review''])"

text \<open>The workload the point came from: by cluster and VMID, else by VMID alone.\<close>

definition source :: "restoreProps \<Rightarrow> cachedVM option" where
  "source ps =
     (case rp_backup ps of
        None \<Rightarrow> None
      | Some b \<Rightarrow>
          if bk_sourceKind b \<noteq> VmJob then None
          else (case sourceVMID (Some (bk_sourceId b)) of
             None \<Rightarrow> None
           | Some vmid \<Rightarrow>
               (case find (\<lambda>vm. js_eq (v_vmid vm) vmid \<and>
                     (case bk_hostId b of None \<Rightarrow> True | Some h \<Rightarrow> id_str (v_hostId vm) = id_str h)) (rp_vms ps) of
                  Some vm \<Rightarrow> Some vm
                | None \<Rightarrow> find (\<lambda>vm. js_eq (v_vmid vm) vmid) (rp_vms ps))))"

definition machineAt :: "restoreProps \<Rightarrow> string \<Rightarrow> jsnum \<Rightarrow> cachedVM option" where
  "machineAt ps hostId target = find (\<lambda>vm. id_str (v_hostId vm) = hostId \<and> js_eq (v_vmid vm) target) (rp_vms ps)"

definition destinationVM :: "restore \<Rightarrow> cachedVM option" where
  "destinationVM w =
     (if \<not> isVM (rw_props w) then None
      else let target = str_num (rw_vmid w)
           in if \<not> js_is_integer target then None else machineAt (rw_props w) (rw_hostId w) target)"

definition overwrite :: "restore \<Rightarrow> bool" where
  "overwrite w \<longleftrightarrow> isVM (rw_props w) \<and> rw_mode w = Overwrite"

definition expectedName :: "restore \<Rightarrow> string" where
  "expectedName w = (case destinationVM w of Some vm \<Rightarrow> v_name vm | None \<Rightarrow> [])"

definition confirmSatisfied :: "restore \<Rightarrow> bool" where
  "confirmSatisfied w \<longleftrightarrow> \<not> overwrite w \<or>
     (trim (rw_confirmName w) \<noteq> [] \<and> (expectedName w = [] \<or> trim (rw_confirmName w) = expectedName w))"

definition destinationValid :: "restore \<Rightarrow> bool" where
  "destinationValid w \<longleftrightarrow>
     (if isVM (rw_props w)
      then rw_hostId w \<noteq> [] \<and> trim (rw_node w) \<noteq> [] \<and> js_is_integer (str_num (rw_vmid w)) \<and>
           js_lt (Fin 0) (str_num (rw_vmid w))
      else rw_agentId w \<noteq> [] \<and> trim (rw_destPath w) \<noteq> [])"

text \<open>Past the last step \<open>steps[index]\<close> is undefined, which is not \<open>'Mode'\<close> either.\<close>

definition currentStep :: "restore \<Rightarrow> string option" where
  "currentStep w = (if rw_step w < length (steps (rw_props w)) then Some (steps (rw_props w) ! rw_step w) else None)"

definition stepReady :: "restore \<Rightarrow> bool" where
  "stepReady w \<longleftrightarrow> currentStep w = Some ''Mode'' \<or> destinationValid w \<and> confirmSatisfied w"

definition isLast :: "restore \<Rightarrow> bool" where
  "isLast w \<longleftrightarrow> rw_step w = length (steps (rw_props w)) - 1"

subsection \<open>Effects and handlers\<close>

definition suggestVmid :: "string \<Rightarrow> restore \<Rightarrow> restore" where
  "suggestVmid hostId w =
     (if hostId = [] then w
      else w\<lparr>rw_suggesting := True, rw_suggestError := None, rw_asked := hostId # rw_asked w\<rparr>)"

definition suggestSettles :: "fetch \<Rightarrow> string \<Rightarrow> restore \<Rightarrow> restore" where
  "suggestSettles f hostId w =
     (case bind_exn (getFreeVMID f (IdStr hostId) None) (\<lambda>free. get_prop free ''vmid'') of
        Inr vmid \<Rightarrow> w\<lparr>rw_vmid := val_str vmid\<rparr>
      | Inl err \<Rightarrow> w\<lparr>rw_suggestError := Some (errorMessage err)\<rparr>)
     \<lparr>rw_suggesting := False, rw_asked := remove1 hostId (rw_asked w)\<rparr>"

definition originNode :: "restoreProps \<Rightarrow> string" where
  "originNode ps =
     (case rp_backup ps of
        None \<Rightarrow> []
      | Some b \<Rightarrow> (case bk_node b of Some n \<Rightarrow> n
          | None \<Rightarrow> (case source ps of Some vm \<Rightarrow> v_node vm | None \<Rightarrow> [])))"

definition originVmid :: "restoreProps \<Rightarrow> string" where
  "originVmid ps =
     (case source ps of
        Some vm \<Rightarrow> num_str (v_vmid vm)
      | None \<Rightarrow> (case rp_backup ps of
          None \<Rightarrow> []
        | Some b \<Rightarrow> (case sourceVMID (Some (bk_sourceId b)) of Some n \<Rightarrow> num_str n | None \<Rightarrow> [])))"

text \<open>The effect that follows mode and cluster, with the mode and the cluster its closure saw.\<close>

definition modeEffect :: "restoreMode \<Rightarrow> string \<Rightarrow> restore \<Rightarrow> restore" where
  "modeEffect mode hostId w =
     (if \<not> isVM (rw_props w) then w
      else if mode = Overwrite then w\<lparr>rw_vmid := originVmid (rw_props w), rw_node := originNode (rw_props w)\<rparr>
      else suggestVmid hostId (w\<lparr>rw_confirmName := []\<rparr>))"

definition seedHost :: "restoreProps \<Rightarrow> string" where
  "seedHost ps =
     (case rp_backup ps of
        None \<Rightarrow> []
      | Some b \<Rightarrow> (case bk_hostId b of
          Some h \<Rightarrow> id_str h
        | None \<Rightarrow> (case source ps of
            Some vm \<Rightarrow> id_str (v_hostId vm)
          | None \<Rightarrow> (case rp_hosts ps of [] \<Rightarrow> [] | h # _ \<Rightarrow> id_str (px_id h)))))"

definition seedAgent :: "restoreProps \<Rightarrow> string" where
  "seedAgent ps =
     (case rp_backup ps of
        None \<Rightarrow> []
      | Some b \<Rightarrow> (case find (\<lambda>a. id_str (a_id a) = id_str (bk_sourceId b)) (rp_agents ps) of
          Some a \<Rightarrow> id_str (a_id a)
        | None \<Rightarrow> (case rp_agents ps of [] \<Rightarrow> [] | a # _ \<Rightarrow> id_str (a_id a))))"

definition resetRestore :: "restoreProps \<Rightarrow> restore \<Rightarrow> restore" where
  "resetRestore ps w =
     (let w0 = w\<lparr>rw_props := ps, rw_step := 0, rw_mode := Alongside, rw_error := None, rw_suggestError := None,
                 rw_submitting := False, rw_confirmName := [], rw_storage := []\<rparr>
      in if isVM ps then w0\<lparr>rw_hostId := seedHost ps, rw_node := originNode ps, rw_vmid := []\<rparr>
         else w0\<lparr>rw_agentId := seedAgent ps, rw_destPath := []\<rparr>)"

text \<open>
  Opening: the reset, then the mode effect with what the first render saw (the mode and the cluster
  left from the previous restore), then the effect again when the reset changed either of them.
\<close>

definition openRestore :: "restoreProps \<Rightarrow> restore \<Rightarrow> restore" where
  "openRestore ps w =
     (let w1 = resetRestore ps w;
          w2 = modeEffect (rw_mode w) (rw_hostId w) w1
      in if rw_mode w \<noteq> Alongside \<or> rw_hostId w \<noteq> rw_hostId w1 then modeEffect Alongside (rw_hostId w1) w2
         else w2)"

definition requestOf :: "restore \<Rightarrow> backup \<Rightarrow> restoreRequest" where
  "requestOf w b =
     (if isVM (rw_props w)
      then RestoreVM (bk_id b) (rw_mode w)
             \<lparr>rv_hostId = rw_hostId w, rv_node = trim (rw_node w), rv_vmid = str_num (rw_vmid w),
              rv_storage = (if isVma (rw_props w) \<and> trim (rw_storage w) \<noteq> [] then Some (trim (rw_storage w)) else None)\<rparr>
             (if overwrite w then Some (trim (rw_confirmName w)) else None)
      else RestoreAgent (bk_id b) (rw_agentId w) (trim (rw_destPath w)))"

definition submitRestore :: "restore \<Rightarrow> restore" where
  "submitRestore w =
     (case rp_backup (rw_props w) of
        None \<Rightarrow> w
      | Some b \<Rightarrow>
          if \<not> destinationValid w
          then w\<lparr>rw_error := Some (if isVM (rw_props w)
                  then ''Choose a host, a node, and a numeric VMID for the restored machine.''
                  else ''Choose an agent and a destination path.'')\<rparr>
          else if overwrite w \<and> \<not> confirmSatisfied w
          then w\<lparr>rw_error := Some (''Type the destination machine'' @ rsquo @
                  ''s current name to confirm the overwrite.'')\<rparr>
          else w\<lparr>rw_error := None, rw_submitting := True, rw_pending := (b, requestOf w b) # rw_pending w,
                 rw_sent := (rw_props w, requestOf w b) # rw_sent w\<rparr>)"

definition settleRestore :: "fetch \<Rightarrow> backup \<times> restoreRequest \<Rightarrow> restore \<Rightarrow> restore" where
  "settleRestore f r w =
     (case bind_exn (createRestore f (restore_val (snd r))) (\<lambda>result. get_prop result ''runId'') of
        Inr runId \<Rightarrow>
          w\<lparr>rw_toasts := (''Restore of '' @ bk_sourceName (fst r) @ '' started.'',
               ''Run '' @ val_str runId @ '' '' @ em_dash @ '' follow it on the Monitor page.'') # rw_toasts w,
            rw_started := rw_started w + 1, rw_props := (rw_props w)\<lparr>rp_backup := None\<rparr>\<rparr>
      | Inl err \<Rightarrow>
          w\<lparr>rw_error := Some (errorMessage err),
            rw_toasts := (''Could not start restore'', errorMessage err) # rw_toasts w\<rparr>)
     \<lparr>rw_submitting := False, rw_pending := remove1 r (rw_pending w)\<rparr>"

subsection \<open>Events\<close>

datatype restoreEvent =
    OpenRestore restoreProps
  | RefetchedR "target option" "proxHost list" "agent list" "cachedVM list"
  | CloseRestore
  | BackR
  | ContinueR
  | SetMode restoreMode
  | SetHost string
  | SetNode string
  | SetVmid string
  | AskVmid
  | SetStorage string
  | SetConfirm string
  | SetAgent string
  | SetDestPath string
  | SubmitR
  | VmidAnswers fetch string
  | RestoreSettles fetch "backup \<times> restoreRequest"

abbreviation restore_open :: "restore \<Rightarrow> bool" where
  "restore_open w \<equiv> rp_backup (rw_props w) \<noteq> None"

definition onDestination :: "restore \<Rightarrow> bool \<Rightarrow> bool" where
  "onDestination w vm \<longleftrightarrow> restore_open w \<and> currentStep w = Some ''Destination'' \<and> isVM (rw_props w) = vm"

fun restoreOffered :: "restore \<Rightarrow> restoreEvent \<Rightarrow> bool" where
  "restoreOffered w (OpenRestore ps) = (\<not> restore_open w \<and> rp_backup ps \<noteq> None)"
| "restoreOffered w (RefetchedR tgt hs as vs) = True"
| "restoreOffered w CloseRestore = restore_open w"
| "restoreOffered w BackR = (restore_open w \<and> rw_step w \<noteq> 0 \<and> \<not> rw_submitting w)"
| "restoreOffered w ContinueR = (restore_open w \<and> \<not> isLast w \<and> stepReady w)"
| "restoreOffered w (SetMode m) = (restore_open w \<and> currentStep w = Some ''Mode'' \<and> m \<in> set (map fst MODES))"
| "restoreOffered w (SetHost h) = (onDestination w True \<and> (h = [] \<or> h \<in> set (map (\<lambda>x. id_str (px_id x)) (rp_hosts (rw_props w)))))"
| "restoreOffered w (SetNode s) = onDestination w True"
| "restoreOffered w (SetVmid s) = onDestination w True"
| "restoreOffered w AskVmid = (onDestination w True \<and> \<not> overwrite w \<and> \<not> rw_suggesting w)"
| "restoreOffered w (SetStorage s) = (onDestination w True \<and> isVma (rw_props w))"
| "restoreOffered w (SetConfirm s) = (onDestination w True \<and> overwrite w)"
| "restoreOffered w (SetAgent a) = (onDestination w False \<and> (a = [] \<or> a \<in> set (map (\<lambda>x. id_str (a_id x)) (rp_agents (rw_props w)))))"
| "restoreOffered w (SetDestPath s) = onDestination w False"
| "restoreOffered w SubmitR = (restore_open w \<and> isLast w \<and> stepReady w \<and> \<not> rw_submitting w)"
| "restoreOffered w (VmidAnswers f h) = (h \<in> set (rw_asked w))"
| "restoreOffered w (RestoreSettles f r) = (r \<in> set (rw_pending w))"

text \<open>
  A refetch replaces every row of the inventory, so \<open>source\<close> is a new object and the mode effect
  runs again unless there was and is none.
\<close>

fun restoreStep :: "restoreEvent \<Rightarrow> restore \<Rightarrow> restore" where
  "restoreStep (OpenRestore ps) w = openRestore ps w"
| "restoreStep (RefetchedR tgt hs as vs) w =
     (let ps = (rw_props w)\<lparr>rp_target := tgt, rp_hosts := hs, rp_agents := as, rp_vms := vs\<rparr>; w1 = w\<lparr>rw_props := ps\<rparr>
      in if source (rw_props w) = None \<and> source ps = None then w1 else modeEffect (rw_mode w) (rw_hostId w) w1)"
| "restoreStep CloseRestore w = w\<lparr>rw_props := (rw_props w)\<lparr>rp_backup := None\<rparr>\<rparr>"
| "restoreStep BackR w = w\<lparr>rw_step := rw_step w - 1\<rparr>"
| "restoreStep ContinueR w = w\<lparr>rw_step := min (length (steps (rw_props w)) - 1) (rw_step w + 1)\<rparr>"
| "restoreStep (SetMode m) w =
     (if m = rw_mode w then w else modeEffect m (rw_hostId w) (w\<lparr>rw_mode := m\<rparr>))"
| "restoreStep (SetHost h) w =
     (if h = rw_hostId w then w else modeEffect (rw_mode w) h (w\<lparr>rw_hostId := h\<rparr>))"
| "restoreStep (SetNode s) w = w\<lparr>rw_node := s\<rparr>"
| "restoreStep (SetVmid s) w = w\<lparr>rw_vmid := s\<rparr>"
| "restoreStep AskVmid w = suggestVmid (rw_hostId w) w"
| "restoreStep (SetStorage s) w = w\<lparr>rw_storage := s\<rparr>"
| "restoreStep (SetConfirm s) w = w\<lparr>rw_confirmName := s\<rparr>"
| "restoreStep (SetAgent a) w = w\<lparr>rw_agentId := a\<rparr>"
| "restoreStep (SetDestPath s) w = w\<lparr>rw_destPath := s\<rparr>"
| "restoreStep SubmitR w = submitRestore w"
| "restoreStep (VmidAnswers f h) w = suggestSettles f h w"
| "restoreStep (RestoreSettles f r) w = settleRestore f r w"

subsection \<open>What is on screen\<close>

definition pointIdentity :: "backup \<Rightarrow> workloadRef" where
  "pointIdentity b =
     \<lparr>w_hostName = bk_hostName b, w_name = bk_sourceName b,
      w_vmid = (if bk_sourceKind b = VmJob
                then (case sourceVMID (Some (bk_sourceId b)) of Some n \<Rightarrow> JNum n | None \<Rightarrow> JNull) else JNull),
      w_node = bk_node b\<rparr>"

definition restoreSubtitle :: "host \<Rightarrow> restore \<Rightarrow> string option" where
  "restoreSubtitle h w =
     map_option (\<lambda>b. identityText (pointIdentity b) @ '' '' @ em_dash @ '' '' @ bk_kind b @ '' point from '' @
       formatDateTime h (Some (bk_createdAt b))) (rp_backup (rw_props w))"

definition hostName :: "restore \<Rightarrow> string" where
  "hostName w = (case find (\<lambda>x. id_str (px_id x) = rw_hostId w) (rp_hosts (rw_props w)) of Some x \<Rightarrow> px_name x | None \<Rightarrow> [])"

definition destinationHint :: "restore \<Rightarrow> string" where
  "destinationHint w =
     (if overwrite w
      then ''Overwriting targets VMID '' @ (if rw_vmid w = [] then em_dash else rw_vmid w) @ '' on '' @
           (if rw_node w = [] then ''the selected node'' else rw_node w) @ ''.''
      else ''Prefilled with the next free VMID on this cluster, so the restored machine cannot collide with a running one.'')"

definition vmidError :: "restore \<Rightarrow> string option" where
  "vmidError w =
     (if overwrite w then None
      else map_option (\<lambda>e. ''Could not ask the server for a free VMID: '' @ e) (opt_text (rw_suggestError w)))"

definition overwriteNotice :: "restore \<Rightarrow> string" where
  "overwriteNotice w =
     (case destinationVM w of
        Some vm \<Rightarrow> ''VMID '' @ num_str (v_vmid vm) @ '' on '' @ (if hostName w = [] then ''this cluster'' else hostName w) @
          '' is currently '' @ v_name vm @ ''. Type that name to confirm.''
      | None \<Rightarrow> ''This VMID is not in the cached inventory. Type the destination machine'' @ rsquo @
          ''s current name exactly '' @ em_dash @ '' the server refuses the restore if it does not match.'')"

definition confirmInvalid :: "restore \<Rightarrow> bool" where
  "confirmInvalid w \<longleftrightarrow> rw_confirmName w \<noteq> [] \<and> \<not> confirmSatisfied w"

abbreviation dash_if_empty :: "string \<Rightarrow> string" where
  "dash_if_empty s \<equiv> if s = [] then em_dash else s"

definition verificationText :: "host \<Rightarrow> backup \<Rightarrow> string list" where
  "verificationText h b =
     (case opt_text (bk_lastVerifiedAt b) of
        Some t \<Rightarrow> [if bk_lastVerifyResult b = Some ''failed'' then ''Integrity check failed'' else ''Integrity verified'',
                   formatRelative h (Some t)]
      | None \<Rightarrow> [''Never verified '' @ em_dash @ '' this point has not been read back from the target.''])"

definition destinationText :: "restore \<Rightarrow> string list" where
  "destinationText w =
     (if isVM (rw_props w)
      then [dash_if_empty (hostName w) @ '' / VMID '' @ dash_if_empty (rw_vmid w) @ '' / '' @ dash_if_empty (rw_node w)] @
           (if trim (rw_storage w) = [] then [] else [''storage '' @ trim (rw_storage w)])
      else [(case find (\<lambda>a. id_str (a_id a) = rw_agentId w) (rp_agents (rw_props w)) of
               Some a \<Rightarrow> a_hostname a | None \<Rightarrow> em_dash),
            dash_if_empty (rw_destPath w)])"

definition readBackText :: "target option \<Rightarrow> string list" where
  "readBackText t =
     (case t of
        Some t \<Rightarrow> [t_name t, fst (TargetKindChip (t_kind t)), targetLocation t]
      | None \<Rightarrow> [''The target this point was written to is no longer configured.''])"

definition restoreReview :: "host \<Rightarrow> restore \<Rightarrow> backup \<Rightarrow> (string \<times> string list) list" where
  "restoreReview h w b =
     [(''Restore point'', [formatDateTime h (Some (bk_createdAt b)) @ '' '' @ middle_dot @ '' '' @ bk_kind b,
                           formatRelative h (Some (bk_createdAt b))]),
      (''Source'', inlineIdentity (pointIdentity b)),
      (''Last verification'', verificationText h b),
      (''Mode'', [if overwrite w
                  then ''Overwrite original '' @ em_dash @ '' the destination machine'' @ rsquo @ ''s disks are destroyed''
                  else ''Restore alongside '' @ em_dash @ '' nothing existing is touched'']),
      (''Destination'', destinationText w),
      (''Read back from'', readBackText (rp_target (rw_props w))),
      (''Estimated transfer'',
        [formatBytes h (Some (bk_sizeBytes b)) 1,
         ''full size of this point, read back from the target'' @
           (case rp_target (rw_props w) of
              Some t \<Rightarrow> if isOffsite (t_kind t) then '' over the internet'' else [] | None \<Rightarrow> [])])]"

definition confirmedText :: "restore \<Rightarrow> string" where
  "confirmedText w =
     (if confirmSatisfied w then ''Confirmed: '' @ trim (rw_confirmName w) @ '' will be overwritten.''
      else ''Type the destination machine'' @ rsquo @ ''s current name on the previous step to continue.'')"

subsection \<open>Lemmas\<close>

text \<open>Nothing but the submission sends, and only the mode tile and the reset set the mode.\<close>

lemma modeEffect_keeps [simp]:
  "rw_sent (modeEffect m h w) = rw_sent w" "rw_mode (modeEffect m h w) = rw_mode w"
  "rw_step (modeEffect m h w) = rw_step w" "rw_props (modeEffect m h w) = rw_props w"
  "rw_submitting (modeEffect m h w) = rw_submitting w" "rw_hostId (modeEffect m h w) = rw_hostId w"
  "rw_confirmName (modeEffect m h w) = (if isVM (rw_props w) \<and> m = Alongside then [] else rw_confirmName w)"
  by (auto simp: modeEffect_def suggestVmid_def intro: restoreMode.exhaust [of m])

lemma suggestVmid_keeps [simp]: "rw_sent (suggestVmid h w) = rw_sent w" "rw_mode (suggestVmid h w) = rw_mode w"
  by (simp_all add: suggestVmid_def)

lemma suggestSettles_keeps [simp]: "rw_sent (suggestSettles f h w) = rw_sent w" "rw_mode (suggestSettles f h w) = rw_mode w"
  by (simp_all add: suggestSettles_def split: sum.splits)

lemma settleRestore_keeps [simp]: "rw_sent (settleRestore f r w) = rw_sent w" "rw_mode (settleRestore f r w) = rw_mode w"
  by (simp_all add: settleRestore_def split: sum.splits)

lemma openRestore_seeds [simp]:
  "rw_sent (openRestore ps w) = rw_sent w" "rw_mode (openRestore ps w) = Alongside" "rw_step (openRestore ps w) = 0"
  "rw_props (openRestore ps w) = ps" "rw_confirmName (openRestore ps w) = []" "\<not> rw_submitting (openRestore ps w)"
  by (simp_all add: openRestore_def resetRestore_def Let_def)

lemma submitRestore_mode [simp]: "rw_mode (submitRestore w) = rw_mode w"
  by (simp add: submitRestore_def split: option.splits)

lemma submitRestore_sent:
  "rw_sent (submitRestore w) = rw_sent w \<or>
   (\<exists>b. rp_backup (rw_props w) = Some b \<and> destinationValid w \<and> confirmSatisfied w \<and>
      rw_sent (submitRestore w) = (rw_props w, requestOf w b) # rw_sent w)"
  by (auto simp: submitRestore_def confirmSatisfied_def split: option.splits)

text \<open>What a request must satisfy against the inventory that was on screen when it was sent.\<close>

fun safe_request :: "restoreProps \<times> restoreRequest \<Rightarrow> bool" where
  "safe_request (ps, RestoreVM i mode v confirm) =
     (rv_hostId v \<noteq> [] \<and> rv_node v \<noteq> [] \<and> trim (rv_node v) = rv_node v \<and> (\<exists>n > 0. rv_vmid v = jsint n) \<and>
      (mode = Alongside \<longrightarrow> confirm = None) \<and>
      (mode = Overwrite \<longrightarrow> (\<exists>name. confirm = Some name \<and> name \<noteq> [] \<and>
         (case machineAt ps (rv_hostId v) (rv_vmid v) of Some vm \<Rightarrow> v_name vm = [] \<or> name = v_name vm | None \<Rightarrow> True))))"
| "safe_request (ps, RestoreAgent i agentId destPath) = (agentId \<noteq> [] \<and> destPath \<noteq> [])"

lemma positive_vmid: "js_is_integer n \<Longrightarrow> js_lt (Fin 0) n \<Longrightarrow> \<exists>k > 0. n = jsint k"
  using js_is_integerE [of n] by auto

lemma requestOf_safe:
  assumes "destinationValid w" "confirmSatisfied w"
  shows "safe_request (rw_props w, requestOf w b)"
proof (cases "isVM (rw_props w)")
  case True
  obtain k where k: "k > 0" "str_num (rw_vmid w) = jsint k"
    using assms(1) True positive_vmid by (auto simp: destinationValid_def)
  show ?thesis
  proof (cases "rw_mode w")
    case Alongside
    then show ?thesis using True assms k by (simp add: requestOf_def destinationValid_def overwrite_def)
  next
    case Overwrite
    then show ?thesis using True assms k
      by (auto simp: requestOf_def destinationValid_def overwrite_def confirmSatisfied_def expectedName_def
          destinationVM_def split: option.splits)
  qed
qed (use assms in \<open>simp add: requestOf_def destinationValid_def\<close>)

lemma restoreStep_safe:
  "\<forall>r\<in>set (rw_sent w). safe_request r \<Longrightarrow> \<forall>r\<in>set (rw_sent (restoreStep e w)). safe_request r"
proof (cases e)
  case SubmitR
  assume "\<forall>r\<in>set (rw_sent w). safe_request r"
  with SubmitR submitRestore_sent [of w] requestOf_safe [of w] show ?thesis by auto
qed (auto simp: Let_def)

interpretation restores: request_guard "mountRestore ps" restoreStep restoreOffered
  "\<lambda>w. \<forall>r\<in>set (rw_sent w). safe_request r" rw_sent safe_request for ps
proof unfold_locales
  show "\<forall>r\<in>set (rw_sent (mountRestore ps)). safe_request r" by (simp add: mountRestore_def)
qed (rule restoreStep_safe, simp_all add: list_all_iff)

text \<open>Requests of a run without a choice of overwriting.\<close>

fun request_mode :: "restoreRequest \<Rightarrow> restoreMode" where
  "request_mode (RestoreVM _ mode _ _) = mode"
| "request_mode (RestoreAgent _ _ _) = Alongside"

definition alongside_since :: "(restoreProps \<times> restoreRequest) list \<Rightarrow> restore \<Rightarrow> bool" where
  "alongside_since old w \<longleftrightarrow>
     rw_mode w = Alongside \<and> (\<exists>new. rw_sent w = new @ old \<and> (\<forall>r\<in>set new. request_mode (snd r) = Alongside))"

lemma alongside_since_cons:
  "rw_mode v = Alongside \<Longrightarrow> rw_sent v = rw_sent w \<or> (\<exists>r. rw_sent v = r # rw_sent w \<and> request_mode (snd r) = Alongside) \<Longrightarrow>
     alongside_since old w \<Longrightarrow> alongside_since old v"
  unfolding alongside_since_def by (metis append_Cons set_ConsD)

lemma restoreStep_alongside:
  assumes "alongside_since old w" "e \<noteq> SetMode Overwrite"
  shows "alongside_since old (restoreStep e w)"
proof (cases e)
  case (SetMode m)
  with assms show ?thesis by (cases m) (auto simp: alongside_since_def)
next
  case SubmitR
  have "rw_mode w = Alongside" using assms(1) by (simp add: alongside_since_def)
  with assms(1) submitRestore_sent [of w] show ?thesis
    unfolding SubmitR restoreStep.simps by (elim alongside_since_cons [rotated 2]) (auto simp: requestOf_def)
qed (use assms in \<open>auto simp: alongside_since_def Let_def\<close>)

lemma run_alongside:
  "run_events restoreStep restoreOffered es w = Some v \<Longrightarrow> alongside_since old w \<Longrightarrow> SetMode Overwrite \<notin> set es \<Longrightarrow>
     alongside_since old v"
  by (induction es arbitrary: w) (auto split: if_splits intro: restoreStep_alongside)

text \<open>A machine with a restore point, a cluster, and a server that names 105 as the next free VMID.\<close>

definition db01 :: cachedVM where
  "db01 = \<lparr>v_vmid = Fin 100, v_name = ''db01'', v_node = ''pve1'', v_status = ''running'', v_maxdisk = Fin 0,
     v_maxmem = Fin 0, v_uptime = Fin 0, v_tags = JNull, v_hostId = IdNum (Fin 1), v_hostName = ''lab''\<rparr>"

definition db01_point :: backup where
  "db01_point =
     \<lparr>bk_id = IdNum (Fin 9), bk_jobId = IdNum (Fin 7), bk_sourceKind = VmJob, bk_sourceId = IdStr ''1_100'',
      bk_sourceName = ''db01'', bk_hostId = Some (IdNum (Fin 1)), bk_hostName = Some ''lab'', bk_node = Some ''pve1'',
      bk_targetId = IdNum (Fin 1), bk_createdAt = [], bk_sizeBytes = Fin 0, bk_uploadedBytes = Fin 0, bk_kind = ''full'',
      bk_parentId = None, bk_disks = [], bk_lastVerifiedAt = None, bk_lastVerifyResult = None, bk_verifiedBytes = None\<rparr>"

definition db01_props :: restoreProps where
  "db01_props = \<lparr>rp_backup = Some db01_point, rp_target = None, rp_hosts = [], rp_agents = [], rp_vms = [db01]\<rparr>"

definition free_105 :: fetch where
  "free_105 = answering (JObj [(''vmid'', JNum (Fin 105))])"

lemma digits_texts: "nat_str 1 = ''1''" "nat_str 100 = ''100''" "nat_str 105 = ''105''"
  by code_simp+

lemma trim_texts: "trim ''pve1'' = ''pve1''" "trim ''db01'' = ''db01''" "trim ''xx'' = ''xx''"
  by code_simp+

lemma num_texts: "num_str (Fin 1) = ''1''" "num_str (Fin 100) = ''100''" "num_str (Fin 105) = ''105''"
  using num_str_jsint [of 1] num_str_jsint [of 100] num_str_jsint [of 105] digits_texts by (simp_all add: int_str_def)

lemma text_nums: "str_num ''100'' = Fin 100" "str_num ''105'' = Fin 105"
  using str_num_nat_str [of 100] str_num_nat_str [of 105] digits_texts by simp_all

lemma point_vmid: "sourceVMID (Some (IdStr ''1_100'')) = Some (Fin 100)"
  using sourceVMID_composite [of 100 "''1''"] digits_texts by simp

lemma free_105_answer: "getFreeVMID free_105 (IdStr ''1'') None = Inr (JObj [(''vmid'', JNum (Fin 105))])"
  by (simp add: getFreeVMID_def free_105_def request_answering)

text \<open>The dialog just opened on the point of \<open>db01\<close>, by mode, VMID and confirmation.\<close>

definition db01_dialog :: "nat \<Rightarrow> restoreMode \<Rightarrow> string \<Rightarrow> string \<Rightarrow> bool \<Rightarrow> restore" where
  "db01_dialog step mode vmid confirm asking =
     \<lparr>rw_props = db01_props, rw_step = step, rw_mode = mode, rw_hostId = ''1'', rw_node = ''pve1'', rw_vmid = vmid,
      rw_storage = [], rw_agentId = [], rw_destPath = [], rw_confirmName = confirm, rw_suggesting = asking,
      rw_suggestError = None, rw_submitting = False, rw_error = None, rw_asked = (if asking then [''1''] else []),
      rw_pending = [], rw_sent = [], rw_started = 0, rw_toasts = []\<rparr>"

lemma db01_props_simps:
  "rp_backup db01_props = Some db01_point" "isVM db01_props" "\<not> isVma db01_props"
  "source db01_props = Some db01" "originVmid db01_props = ''100''" "originNode db01_props = ''pve1''"
  "seedHost db01_props = ''1''" "steps db01_props = [''Mode'', ''Destination'', ''Review'']" "bk_id db01_point = IdNum (Fin 9)"
  "machineAt db01_props ''1'' (Fin 100) = Some db01" "machineAt db01_props ''1'' (Fin 105) = None" "v_name db01 = ''db01''"
  using point_vmid num_texts
  by (simp_all add: db01_props_def db01_point_def isVM_def isVma_def source_def originVmid_def originNode_def seedHost_def
      steps_def machineAt_def db01_def)

lemma db01_opens:
  "openRestore db01_props (mountRestore db01_props) = db01_dialog 0 Alongside [] [] True"
  by (simp add: openRestore_def resetRestore_def mountRestore_def modeEffect_def suggestVmid_def db01_dialog_def
      db01_props_simps Let_def)

lemma db01_overwrites:
  "restoreStep (SetMode Overwrite) (db01_dialog s Alongside v c a) = db01_dialog s Overwrite ''100'' c a"
  by (simp add: modeEffect_def db01_dialog_def db01_props_simps)

lemma db01_answered:
  "restoreStep (VmidAnswers free_105 ''1'') (db01_dialog s m v c True) = db01_dialog s m ''105'' c False"
  using free_105_answer num_texts by (simp add: suggestSettles_def db01_dialog_def)

lemma db01_moves:
  "restoreStep ContinueR (db01_dialog s m v c a) = db01_dialog (min 2 (Suc s)) m v c a"
  "restoreStep (SetConfirm x) (db01_dialog s m v c a) = db01_dialog s m v x a"
  by (simp_all add: db01_dialog_def db01_props_simps)

lemma db01_valid:
  "v = ''100'' \<or> v = ''105'' \<Longrightarrow> destinationValid (db01_dialog s m v c a)"
  using text_nums trim_texts by (auto simp: destinationValid_def db01_dialog_def db01_props_simps)

lemma db01_confirmed:
  "confirmSatisfied (db01_dialog s Alongside v c a)"
  "confirmSatisfied (db01_dialog s Overwrite ''100'' ''db01'' a)"
  "confirmSatisfied (db01_dialog s Overwrite ''105'' ''xx'' a)"
  using text_nums trim_texts
  by (simp_all add: confirmSatisfied_def overwrite_def expectedName_def destinationVM_def db01_dialog_def db01_props_simps)

lemma db01_offered:
  "restoreOffered (mountRestore db01_props) (OpenRestore db01_props)"
  "restoreOffered (db01_dialog 0 m v c a) (SetMode x)" "restoreOffered (db01_dialog 0 m v c a) ContinueR"
  "restoreOffered (db01_dialog (Suc 0) Overwrite v c a) (SetConfirm y)"
  "restoreOffered (db01_dialog s m v c True) (VmidAnswers f ''1'')"
  by (cases x; simp add: MODES_def currentStep_def stepReady_def isLast_def onDestination_def overwrite_def
      mountRestore_def db01_dialog_def db01_props_simps)+

lemma db01_ready:
  "destinationValid (db01_dialog (Suc 0) m v c a) \<Longrightarrow> confirmSatisfied (db01_dialog (Suc 0) m v c a) \<Longrightarrow>
     restoreOffered (db01_dialog (Suc 0) m v c a) ContinueR"
  "destinationValid (db01_dialog (Suc (Suc 0)) m v c a) \<Longrightarrow> confirmSatisfied (db01_dialog (Suc (Suc 0)) m v c a) \<Longrightarrow>
     restoreOffered (db01_dialog (Suc (Suc 0)) m v c a) SubmitR"
  by (simp_all add: stepReady_def isLast_def) (simp_all add: db01_dialog_def db01_props_simps)

lemma db01_request:
  "requestOf (db01_dialog s m v c a) db01_point = RestoreVM (IdNum (Fin 9)) m
     \<lparr>rv_hostId = ''1'', rv_node = ''pve1'', rv_vmid = str_num v, rv_storage = None\<rparr>
     (if m = Overwrite then Some (trim c) else None)"
  using trim_texts by (simp add: requestOf_def overwrite_def db01_dialog_def db01_props_simps)

lemma db01_sel: "rw_props (db01_dialog s m v c a) = db01_props" "rw_sent (db01_dialog s m v c a) = []"
  by (simp_all add: db01_dialog_def)

lemma db01_submits:
  assumes "destinationValid (db01_dialog (Suc (Suc 0)) m v c a)" "confirmSatisfied (db01_dialog (Suc (Suc 0)) m v c a)"
  shows "rw_sent (restoreStep SubmitR (db01_dialog (Suc (Suc 0)) m v c a)) = [(db01_props, RestoreVM (IdNum (Fin 9)) m
      \<lparr>rv_hostId = ''1'', rv_node = ''pve1'', rv_vmid = str_num v, rv_storage = None\<rparr>
      (if m = Overwrite then Some (trim c) else None))]"
  using assms by (simp add: submitRestore_def db01_sel db01_request db01_props_simps(1))

lemmas db01_simps = db01_opens db01_overwrites db01_answered db01_moves db01_valid db01_confirmed db01_offered db01_ready
  db01_submits text_nums trim_texts

lemma overwrite_run:
  "\<exists>w. run_events restoreStep restoreOffered
      [OpenRestore db01_props, SetMode Overwrite, ContinueR, SetConfirm ''db01'', ContinueR, SubmitR]
      (mountRestore db01_props) = Some w \<and>
    rw_sent w = [(db01_props, RestoreVM (IdNum (Fin 9)) Overwrite
      \<lparr>rv_hostId = ''1'', rv_node = ''pve1'', rv_vmid = Fin 100, rv_storage = None\<rparr> (Some ''db01''))]"
  by (simp add: db01_simps del: restoreStep.simps restoreOffered.simps add: restoreStep.simps(1))

text \<open>
  The suggestion asked for on opening settles after the operator chose to overwrite: it replaces the
  VMID of the original, the destination is no longer a machine of the inventory, and any text
  passes as the confirmation.
\<close>

lemma late_suggestion_run:
  "\<exists>w. run_events restoreStep restoreOffered
      [OpenRestore db01_props, SetMode Overwrite, VmidAnswers free_105 ''1'', ContinueR, SetConfirm ''xx'', ContinueR, SubmitR]
      (mountRestore db01_props) = Some w \<and>
    rw_sent w = [(db01_props, RestoreVM (IdNum (Fin 9)) Overwrite
      \<lparr>rv_hostId = ''1'', rv_node = ''pve1'', rv_vmid = Fin 105, rv_storage = None\<rparr> (Some ''xx''))]"
  by (simp add: db01_simps del: restoreStep.simps restoreOffered.simps add: restoreStep.simps(1))

lemma alongside_run:
  "\<exists>w. run_events restoreStep restoreOffered [OpenRestore db01_props, VmidAnswers free_105 ''1'', ContinueR, ContinueR, SubmitR]
      (mountRestore db01_props) = Some w \<and> length (rw_sent w) = 1"
  by (simp add: db01_simps del: restoreStep.simps restoreOffered.simps add: restoreStep.simps(1))

subsection \<open>Properties\<close>



text \<open>
  C3 (overwriting is always a choice made after opening): opening a restore point starts at the first
  step with the alongside mode and no confirmation, whatever the previous restore left behind; and
  as long as the operator does not choose to overwrite after that, no request that overwrites is sent.
\<close>

theorem overwrite_is_chosen:
  assumes "run_events restoreStep restoreOffered (OpenRestore ps # es) w = Some v" "SetMode Overwrite \<notin> set es"
  shows "rw_mode (openRestore ps w) = Alongside \<and> rw_step (openRestore ps w) = 0 \<and> rw_confirmName (openRestore ps w) = [] \<and>
    (\<exists>new. rw_sent v = new @ rw_sent w \<and> (\<forall>r\<in>set new. request_mode (snd r) = Alongside))"
proof -
  have "alongside_since (rw_sent w) (openRestore ps w)" by (simp add: alongside_since_def)
  moreover have "run_events restoreStep restoreOffered es (openRestore ps w) = Some v"
    using assms(1) by (simp split: if_splits)
  ultimately have "alongside_since (rw_sent w) v" using assms(2) by (blast intro: run_alongside)
  then show ?thesis by (simp add: alongside_since_def)
qed

theorem overwrite_is_chosen_witness:
  "\<exists>v. run_events restoreStep restoreOffered [OpenRestore db01_props, VmidAnswers free_105 ''1'', ContinueR, ContinueR, SubmitR]
      (mountRestore db01_props) = Some v \<and>
    length (rw_sent v) = 1 \<and> list_all (\<lambda>r. request_mode (snd r) = Alongside) (rw_sent v)"
proof -
  obtain v where v: "run_events restoreStep restoreOffered
      (OpenRestore db01_props # [VmidAnswers free_105 ''1'', ContinueR, ContinueR, SubmitR]) (mountRestore db01_props) = Some v"
    "length (rw_sent v) = 1" using alongside_run by auto
  have "rw_sent (mountRestore db01_props) = []" by (simp add: mountRestore_def)
  with overwrite_is_chosen [OF v(1)] have "list_all (\<lambda>r. request_mode (snd r) = Alongside) (rw_sent v)"
    by (auto simp: list_all_iff)
  with v show ?thesis by blast
qed

end
