(* ===== verification/App_Gate.thy ===== *)
theory App_Gate
  imports Ui_Machine Endpoints
begin

text \<open>
  Getting in (\<open>web/src/App.tsx\<close>, \<open>web/src/pages/LoginPage.tsx\<close>, \<open>web/src/pages/SetupPage.tsx\<close>): the
  phases of the application, the bootstrap that chooses between first-run setup, sign-in and the
  console, the answers that may still be out when the phase changes, the routes with their
  administrator guard, and the two forms.
\<close>

subsection \<open>Phases\<close>

datatype phase =
    Loading
  | Setup
  | Login bool
  | Ready jval role bool string
  | Unreachable string

text \<open>What \<open>GET /api/me\<close> makes of the phase.\<close>

definition readyOf :: "jval \<Rightarrow> phase exn" where
  "readyOf me =
     bind_exn (get_prop me ''user'') (\<lambda>user.
     bind_exn (roleOf me) (\<lambda>role.
       Inr (Ready user role (truthy (jprop me ''mustChangePassword''))
              (val_str (nullish_or (jprop me ''serverVersion'') (JStr []))))))"

definition bootstrap :: "fetch \<Rightarrow> phase" where
  "bootstrap f =
     (case getSetupStatus f of
        Inl err \<Rightarrow> Unreachable (errorMessage err)
      | Inr status \<Rightarrow>
          (case get_prop status ''needsSetup'' of
             Inl err \<Rightarrow> Unreachable (errorMessage err)
           | Inr needsSetup \<Rightarrow>
               if truthy needsSetup then Setup
               else (case bind_exn (getMe f) readyOf of
                  Inr ready \<Rightarrow> ready
                | Inl err \<Rightarrow>
                    if isApiError err \<and> isUnauthorized err then Login (truthy (jprop status ''defaultLogin''))
                    else Unreachable (errorMessage err))))"

text \<open>
  The role a sign-in answer carries, the least one when it carries none. A text that is no role has
  the capabilities of a viewer, as \<open>capabilitiesFor\<close> compares it with the two others.
\<close>

definition signInRole :: "jval \<Rightarrow> role" where
  "signInRole user =
     (let r = nullish_or (jprop user ''role'') (JStr ''viewer'')
      in if r = JStr ''admin'' then Admin else if r = JStr ''operator'' then Operator else Viewer)"

text \<open>
  The application: the phase, the name in the top bar, and what is still out: a bootstrap, the
  refreshes of the user after a sign-in, sign-outs, and a settings request that is not cancelled.
\<close>

record app =
  ap_phase :: phase
  ap_serverName :: string
  ap_refreshes :: nat
  ap_signOuts :: nat
  ap_settings :: bool
  ap_path :: string
  ap_toasts :: "string list"

definition mountApp :: "string \<Rightarrow> app" where
  "mountApp path =
     \<lparr>ap_phase = Loading, ap_serverName = ''ProxBack'', ap_refreshes = 0, ap_signOuts = 0, ap_settings = False,
      ap_path = path, ap_toasts = []\<rparr>"

fun isReady :: "phase \<Rightarrow> bool" where
  "isReady (Ready _ _ _ _) = True"
| "isReady _ = False"

text \<open>Setting the phase; the effect on \<open>phase.state\<close> cancels or starts the settings request.\<close>

definition setPhase :: "phase \<Rightarrow> app \<Rightarrow> app" where
  "setPhase p a =
     a\<lparr>ap_phase := p,
       ap_settings := (if isReady p then (if isReady (ap_phase a) then ap_settings a else True) else False)\<rparr>"

datatype appEvent =
    Booted fetch
  | Retry
  | Authenticated jval
  | Refreshed fetch
  | SignOut
  | SignedOut
  | SetMustChangePassword bool
  | SettingsRead fetch
  | SetServerName string
  | Navigate string

fun appOffered :: "app \<Rightarrow> appEvent \<Rightarrow> bool" where
  "appOffered a (Booted f) = (ap_phase a = Loading)"
| "appOffered a Retry = (case ap_phase a of Unreachable _ \<Rightarrow> True | _ \<Rightarrow> False)"
| "appOffered a (Authenticated user) = (case ap_phase a of Setup \<Rightarrow> True | Login _ \<Rightarrow> True | _ \<Rightarrow> False)"
| "appOffered a (Refreshed f) = (0 < ap_refreshes a)"
| "appOffered a SignOut = isReady (ap_phase a)"
| "appOffered a SignedOut = (0 < ap_signOuts a)"
| "appOffered a (SetMustChangePassword b) = isReady (ap_phase a)"
| "appOffered a (SettingsRead f) = ap_settings a"
| "appOffered a (SetServerName s) = isReady (ap_phase a)"
| "appOffered a (Navigate path) = True"

definition settingsName :: "fetch \<Rightarrow> string \<Rightarrow> string" where
  "settingsName f old =
     (case bind_exn (getSettings f) (\<lambda>s. get_prop s ''serverName'') of
        Inr v \<Rightarrow> if truthy v then val_str v else old
      | Inl _ \<Rightarrow> old)"

fun appStep :: "appEvent \<Rightarrow> app \<Rightarrow> app" where
  "appStep (Booted f) a = setPhase (bootstrap f) a"
| "appStep Retry a = setPhase Loading a"
| "appStep (Authenticated user) a =
     (setPhase (Ready user (signInRole user) False []) a)\<lparr>ap_refreshes := ap_refreshes a + 1, ap_path := []\<rparr>"
| "appStep (Refreshed f) a =
     (case bind_exn (getMe f) readyOf of
        Inr ready \<Rightarrow> setPhase ready a
      | Inl _ \<Rightarrow> a)\<lparr>ap_refreshes := ap_refreshes a - 1\<rparr>"
| "appStep SignOut a = a\<lparr>ap_signOuts := ap_signOuts a + 1\<rparr>"
| "appStep SignedOut a =
     (setPhase (Login False) a)\<lparr>ap_signOuts := ap_signOuts a - 1, ap_toasts := ''Signed out.'' # ap_toasts a, ap_path := []\<rparr>"
| "appStep (SetMustChangePassword b) a =
     (case ap_phase a of
        Ready user role _ version \<Rightarrow> setPhase (Ready user role b version) a
      | _ \<Rightarrow> a)"
| "appStep (SettingsRead f) a = a\<lparr>ap_serverName := settingsName f (ap_serverName a), ap_settings := False\<rparr>"
| "appStep (SetServerName s) a = a\<lparr>ap_serverName := s\<rparr>"
| "appStep (Navigate path) a = a\<lparr>ap_path := path\<rparr>"

subsection \<open>What is rendered\<close>

definition session_of :: "app \<Rightarrow> session option" where
  "session_of a =
     (case ap_phase a of
        Ready user role mustChange version \<Rightarrow>
          Some \<lparr>s_user = user, s_role = role, s_can = capabilitiesFor role, s_serverName = ap_serverName a,
                s_mustChangePassword = mustChange, s_serverVersion = version\<rparr>
      | _ \<Rightarrow> None)"

datatype page =
    DashboardPage | HostsPage | VirtualMachinesPage | JobsPage | MonitorPage | RestorePointsPage | TargetsPage
  | AgentsPage | SettingsPage | UsersPage | AuditPage | NotFoundPage

definition ROUTES :: "(string \<times> page) list" where
  "ROUTES =
     [([], DashboardPage), (''hosts'', HostsPage), (''vms'', VirtualMachinesPage), (''jobs'', JobsPage),
      (''monitor'', MonitorPage), (''restore-points'', RestorePointsPage), (''targets'', TargetsPage),
      (''agents'', AgentsPage), (''settings'', SettingsPage), (''users'', UsersPage), (''audit'', AuditPage)]"

datatype screen =
    BootScreen "string option"
  | SetupScreen
  | LoginScreen bool
  | Page page
  | AdminsOnly string string

text \<open>\<open>AdminOnly\<close>: the page for an administrator, otherwise the refusal with the role and the title.\<close>

definition AdminOnly :: "session \<Rightarrow> string \<Rightarrow> page \<Rightarrow> screen" where
  "AdminOnly s title p =
     (if manageUsers (s_can s) then Page p
      else AdminsOnly title
        (''You are signed in as '' @ map ascii_lower (ROLE_LABEL (s_role s)) @ ''. '' @ title @
         '' is limited to administrators, who can give you the role if you need it.''))"

definition routeElement :: "session \<Rightarrow> string \<Rightarrow> screen" where
  "routeElement s path =
     (case map_of ROUTES path of
        Some UsersPage \<Rightarrow> AdminOnly s ''Users'' UsersPage
      | Some AuditPage \<Rightarrow> AdminOnly s ''Audit'' AuditPage
      | Some p \<Rightarrow> Page p
      | None \<Rightarrow> Page NotFoundPage)"

definition render :: "app \<Rightarrow> screen" where
  "render a =
     (case ap_phase a of
        Loading \<Rightarrow> BootScreen None
      | Unreachable message \<Rightarrow> BootScreen (Some message)
      | Setup \<Rightarrow> SetupScreen
      | Login defaultLogin \<Rightarrow> LoginScreen defaultLogin
      | Ready _ _ _ _ \<Rightarrow> (case session_of a of None \<Rightarrow> BootScreen None | Some s \<Rightarrow> routeElement s (ap_path a)))"

subsection \<open>The two forms\<close>

text \<open>\<open>s.length\<close> counts UTF-16 units: none for a continuation byte, two for a leader above U+FFFF.\<close>

definition js_length :: "string \<Rightarrow> nat" where
  "js_length s =
     sum_list (map (\<lambda>c. let n = (of_char c :: nat) in if 128 \<le> n \<and> n < 192 then 0 else if 240 \<le> n then 2 else 1) s)"

record authForm =
  af_username :: string
  af_password :: string
  af_confirm :: string
  af_submitting :: bool
  af_error :: "string option"
  af_toasts :: "(string \<times> string) list"

definition blankForm :: authForm where
  "blankForm =
     \<lparr>af_username = [], af_password = [], af_confirm = [], af_submitting = False, af_error = None, af_toasts = []\<rparr>"

definition MIN_PASSWORD_LENGTH :: nat where
  "MIN_PASSWORD_LENGTH = 8"

text \<open>Submitting: the checks in the order of the code; a request when they pass.\<close>

definition loginSubmit :: "authForm \<Rightarrow> authForm \<times> (string \<times> string) option" where
  "loginSubmit g =
     (if trim (af_username g) = [] \<or> af_password g = []
      then (g\<lparr>af_error := Some ''Enter your username and password.''\<rparr>, None)
      else (g\<lparr>af_error := None, af_submitting := True\<rparr>, Some (trim (af_username g), af_password g)))"

definition loginSettles :: "fetch \<Rightarrow> string \<times> string \<Rightarrow> authForm \<Rightarrow> authForm \<times> jval option" where
  "loginSettles f c g =
     (case bind_exn (login f (fst c) (snd c)) (\<lambda>r. bind_exn (get_prop r ''user'') (\<lambda>u.
             bind_exn (get_prop u ''username'') (\<lambda>_. Inr u))) of
        Inr user \<Rightarrow>
          (g\<lparr>af_submitting := False,
             af_toasts := (''Signed in as '' @ val_str (jprop user ''username'') @ ''.'', []) # af_toasts g\<rparr>, Some user)
      | Inl err \<Rightarrow> (g\<lparr>af_error := Some (errorMessage err), af_password := [], af_submitting := False\<rparr>, None))"

definition setupSubmit :: "authForm \<Rightarrow> authForm \<times> (string \<times> string) option" where
  "setupSubmit g =
     (if js_length (trim (af_username g)) < 3
      then (g\<lparr>af_error := Some ''Choose a username of at least 3 characters.''\<rparr>, None)
      else if js_length (af_password g) < MIN_PASSWORD_LENGTH
      then (g\<lparr>af_error := Some (''Use at least '' @ nat_str MIN_PASSWORD_LENGTH @ '' characters for the password.'')\<rparr>, None)
      else if af_password g \<noteq> af_confirm g
      then (g\<lparr>af_error := Some ''The two passwords do not match.''\<rparr>, None)
      else (g\<lparr>af_error := None, af_submitting := True\<rparr>, Some (trim (af_username g), af_password g)))"

definition setupSettles :: "fetch \<Rightarrow> string \<times> string \<Rightarrow> authForm \<Rightarrow> authForm \<times> jval option" where
  "setupSettles f c g =
     (case bind_exn (setup_account f (fst c) (snd c)) (\<lambda>r. get_prop r ''user'') of
        Inr user \<Rightarrow>
          (g\<lparr>af_submitting := False, af_toasts := (''Administrator account created.'', ''Welcome to ProxBack.'') # af_toasts g\<rparr>,
           Some user)
      | Inl err \<Rightarrow>
          (g\<lparr>af_error := Some (errorMessage err), af_submitting := False,
             af_toasts := (''Setup failed'', errorMessage err) # af_toasts g\<rparr>, None))"

subsection \<open>Lemmas\<close>

lemma readyOf_ready: "readyOf me = Inr p \<Longrightarrow> isReady p"
  by (auto simp: readyOf_def)

lemma bind_readyOf_ready: "bind_exn x readyOf = Inr p \<Longrightarrow> isReady p"
  using readyOf_ready by (cases x) auto

lemma setPhase_simps [simp]:
  "ap_phase (setPhase p a) = p" "ap_refreshes (setPhase p a) = ap_refreshes a" "ap_signOuts (setPhase p a) = ap_signOuts a"
  "ap_serverName (setPhase p a) = ap_serverName a"
  by (simp_all add: setPhase_def)

text \<open>Signed out with nothing outstanding: only a new sign-in changes that.\<close>

definition locked :: "app \<Rightarrow> bool" where
  "locked a \<longleftrightarrow> (\<exists>d. ap_phase a = Login d) \<and> ap_refreshes a = 0"

lemma appStep_locked:
  assumes "locked a" "appOffered a e" "\<forall>user. e \<noteq> Authenticated user"
  shows "locked (appStep e a)"
  using assms by (cases e) (auto simp: locked_def)

lemma run_locked:
  "run_events appStep appOffered es a = Some b \<Longrightarrow> locked a \<Longrightarrow> \<forall>user. Authenticated user \<notin> set es \<Longrightarrow> locked b"
proof (induction es arbitrary: a)
  case (Cons e es)
  then show ?case by (auto split: if_splits intro: appStep_locked)
qed simp

text \<open>A settings request is out only while the console is on screen.\<close>

lemma appStep_settings:
  "(ap_settings a \<longrightarrow> isReady (ap_phase a)) \<Longrightarrow> ap_settings (appStep e a) \<longrightarrow> isReady (ap_phase (appStep e a))"
  by (cases e) (auto simp: setPhase_def split: phase.splits sum.splits)

lemma readyOf_cases: "(\<exists>p. readyOf me = Inr p) \<longleftrightarrow> \<not> nullish me"
  by (auto simp: readyOf_def roleOf_def get_prop_def Let_def)

lemma bootstrap_nullish: "getSetupStatus f = Inr s \<Longrightarrow> nullish s \<Longrightarrow> \<exists>m. bootstrap f = Unreachable m"
  by (simp add: bootstrap_def get_prop_def)

text \<open>The refresh that follows a sign-in, settling after the sign-out, brings the console back.\<close>

lemma late_refresh_reenters:
  assumes "ap_phase a = Login d" "ap_refreshes a = 0" "ap_signOuts a = 0" "getMe f = Inr me" "\<not> nullish me"
  shows "\<exists>b. run_events appStep appOffered [Authenticated user, SignOut, SignedOut, Refreshed f] a = Some b \<and> isReady (ap_phase b)"
proof -
  obtain p where p: "readyOf me = Inr p" "isReady p"
    using readyOf_cases [of me] assms(5) readyOf_ready by blast
  then show ?thesis using assms by simp
qed

subsection \<open>Properties\<close>

text \<open>
  C23 (starting up ends in the right place): the bootstrap always decides. It ends in the first-run
  setup exactly when the server asks for it, in the console exactly when the server knows the
  session, on the sign-in page exactly when it answers 401, and in every other case, answers that
  are missing included, on the screen that says the server does not respond.
\<close>

theorem bootstrap_decides:
  "(bootstrap f = Setup \<longleftrightarrow> (\<exists>s. getSetupStatus f = Inr s \<and> \<not> nullish s \<and> truthy (jprop s ''needsSetup''))) \<and>
   (isReady (bootstrap f) \<longleftrightarrow> (\<exists>s me. getSetupStatus f = Inr s \<and> \<not> nullish s \<and> \<not> truthy (jprop s ''needsSetup'') \<and>
      getMe f = Inr me \<and> \<not> nullish me)) \<and>
   ((\<exists>d. bootstrap f = Login d) \<longleftrightarrow> (\<exists>s err. getSetupStatus f = Inr s \<and> \<not> nullish s \<and>
      \<not> truthy (jprop s ''needsSetup'') \<and> getMe f = Inl err \<and> isApiError err \<and> isUnauthorized err)) \<and>
   bootstrap f \<noteq> Loading"
proof (cases "getSetupStatus f")
  case (Inl err)
  then show ?thesis by (simp add: bootstrap_def)
next
  case (Inr s)
  show ?thesis
  proof (cases "nullish s \<or> truthy (jprop s ''needsSetup'')")
    case True
    then show ?thesis using Inr bootstrap_nullish [OF Inr] by (auto simp: bootstrap_def get_prop_def)
  next
    case False
    then have b: "bootstrap f = (case bind_exn (getMe f) readyOf of
         Inr ready \<Rightarrow> ready
       | Inl err \<Rightarrow> if isApiError err \<and> isUnauthorized err then Login (truthy (jprop s ''defaultLogin''))
           else Unreachable (errorMessage err))"
      using Inr by (simp add: bootstrap_def get_prop_def)
    show ?thesis
    proof (cases "getMe f")
      case (Inl err)
      then show ?thesis using b Inr False by auto
    next
      case me: (Inr me)
      show ?thesis
      proof (cases "nullish me")
        case True
        then have "\<not> (isApiError e)" if "readyOf me = Inl e" for e
          using that by (auto simp: readyOf_def get_prop_def)
        then show ?thesis using True b Inr False me readyOf_cases [of me] by (cases "readyOf me") auto
      next
        case nn: False
        then obtain p where "readyOf me = Inr p" "isReady p" using readyOf_cases [of me] readyOf_ready by blast
        then show ?thesis using nn b Inr False me by (cases p) auto
      qed
    qed
  qed
qed

text \<open>
  C8 (pages need a session, and two of them an administrator): whatever the address, a page of the
  console is on screen only in the ready phase, with the session of that phase, and the users and
  audit pages only for the administrator role.
\<close>

theorem pages_guarded:
  assumes "render a = Page p"
  shows "\<exists>user role must version. ap_phase a = Ready user role must version \<and>
    (p = UsersPage \<or> p = AuditPage \<longrightarrow> role = Admin)"
  using assms
  by (auto simp: render_def session_of_def routeElement_def AdminOnly_def capabilitiesFor_def ROUTES_def Let_def
      split: phase.splits page.splits option.splits if_splits)

definition admin_at :: "string \<Rightarrow> app" where
  "admin_at path = (mountApp path)\<lparr>ap_phase := Ready JNull Admin False []\<rparr>"

theorem pages_guarded_witness:
  "render (admin_at ''users'') = Page UsersPage \<and>
   (\<exists>user must version. ap_phase (admin_at ''users'') = Ready user Admin must version)"
proof -
  have r: "render (admin_at ''users'') = Page UsersPage"
    by (simp add: render_def session_of_def routeElement_def ROUTES_def AdminOnly_def capabilitiesFor_def admin_at_def
        mountApp_def)
  from pages_guarded [OF r] r show ?thesis by simp
qed

text \<open>
  C7 (signed out stays signed out): once a sign-out has completed while no refresh of the user is
  outstanding, the sign-in page is the only screen, whatever else settles, until somebody signs in.
\<close>

theorem signed_out_stays:
  assumes "run_events appStep appOffered (SignedOut # es) a = Some b" "ap_refreshes a = 0"
    "\<forall>user. Authenticated user \<notin> set es"
  shows "session_of b = None \<and> (\<exists>d. render b = LoginScreen d)"
proof -
  have "run_events appStep appOffered es (appStep SignedOut a) = Some b" using assms(1) by (simp split: if_splits)
  moreover have "locked (appStep SignedOut a)" using assms(2) unfolding locked_def by auto
  ultimately have "locked b" using assms(3) by (rule run_locked)
  then show ?thesis by (auto simp: locked_def session_of_def render_def)
qed

theorem signed_out_stays_witness:
  "\<exists>b. run_events appStep appOffered [SignedOut, Navigate ''users''] ((admin_at [])\<lparr>ap_signOuts := 1\<rparr>) = Some b \<and>
     session_of b = None"
proof -
  obtain b where b: "run_events appStep appOffered (SignedOut # [Navigate ''users'']) ((admin_at [])\<lparr>ap_signOuts := 1\<rparr>) = Some b"
    by simp
  have "ap_refreshes ((admin_at [])\<lparr>ap_signOuts := 1\<rparr>) = 0" by (simp add: admin_at_def mountApp_def)
  from signed_out_stays [OF b this] b show ?thesis by auto
qed

end
