(* ===== verification/Hooks.thy ===== *)
theory Hooks
  imports Ui_Machine Endpoints
begin

text \<open>
  The hooks the pages share: \<open>useAsync\<close> (\<open>web/src/lib/useAsync.ts\<close>), the time zone that is read
  once per session (\<open>web/src/lib/useServerTimezone.ts\<close>) and the confirmation dialog
  (\<open>web/src/components/Confirm.tsx\<close>).
\<close>

subsection \<open>Loading data\<close>

text \<open>\<open>as_out\<close> is the number of runs of the loader that have not settled.\<close>

record 'a async =
  as_data :: "'a option"
  as_loading :: bool
  as_error :: "string option"
  as_mounted :: bool
  as_out :: nat

text \<open>Mounting runs the loader with the loading state.\<close>

definition mountAsync :: "'a async" where
  "mountAsync = \<lparr>as_data = None, as_loading = True, as_error = None, as_mounted = True, as_out = 1\<rparr>"

datatype 'a asyncEvent =
    Reload
  | Refresh
  | LoaderSettles "'a exn"
  | SetData 'a
  | Unmount

fun asyncOffered :: "'a async \<Rightarrow> 'a asyncEvent \<Rightarrow> bool" where
  "asyncOffered a (LoaderSettles r) = (0 < as_out a)"
| "asyncOffered a _ = as_mounted a"

fun asyncStep :: "'a asyncEvent \<Rightarrow> 'a async \<Rightarrow> 'a async" where
  "asyncStep Reload a = a\<lparr>as_loading := True, as_out := as_out a + 1\<rparr>"
| "asyncStep Refresh a = a\<lparr>as_out := as_out a + 1\<rparr>"
| "asyncStep (LoaderSettles r) a =
     (if \<not> as_mounted a then a
      else (case r of
          Inr next \<Rightarrow> a\<lparr>as_data := Some next, as_error := None\<rparr>
        | Inl err \<Rightarrow> a\<lparr>as_error := Some (errorMessage err)\<rparr>)\<lparr>as_loading := False\<rparr>)
     \<lparr>as_out := as_out a - 1\<rparr>"
| "asyncStep (SetData next) a = a\<lparr>as_data := Some next\<rparr>"
| "asyncStep Unmount a = a\<lparr>as_mounted := False\<rparr>"

subsection \<open>The time zone of the server\<close>

text \<open>
  The module's cache and whether a request is in flight (the settled promise the module keeps after
  a success is never awaited again, the cache is read first), shared by every mounted hook; \<open>tz_waiting\<close> are the
  hooks whose effect waits for it, \<open>tz_shown\<close> what each hook has in its state, \<open>tz_asked\<close> the
  number of requests made.
\<close>

record timezones =
  tz_cached :: "string option"
  tz_inFlight :: bool
  tz_waiting :: "nat list"
  tz_shown :: "nat \<Rightarrow> string option"
  tz_asked :: nat

definition freshTimezones :: timezones where
  "freshTimezones = \<lparr>tz_cached = None, tz_inFlight = False, tz_waiting = [], tz_shown = (\<lambda>_. None), tz_asked = 0\<rparr>"

datatype timezoneEvent =
    MountHook nat bool
  | EnableHook nat
  | DropHook nat
  | SettingsAnswer fetch

definition loadTimezone :: "nat \<Rightarrow> timezones \<Rightarrow> timezones" where
  "loadTimezone i z =
     (if tz_inFlight z then z\<lparr>tz_waiting := i # tz_waiting z\<rparr>
      else z\<lparr>tz_inFlight := True, tz_asked := tz_asked z + 1, tz_waiting := i # tz_waiting z\<rparr>)"

definition timezoneRead :: "fetch \<Rightarrow> string option" where
  "timezoneRead f =
     (case bind_exn (getSettings f) (\<lambda>s. get_prop s ''timezone'') of
        Inr v \<Rightarrow> Some (val_str (nullish_or v (JStr [])))
      | Inl _ \<Rightarrow> None)"

fun timezoneOffered :: "timezones \<Rightarrow> timezoneEvent \<Rightarrow> bool" where
  "timezoneOffered z (SettingsAnswer f) = tz_inFlight z"
| "timezoneOffered z _ = True"

fun timezoneStep :: "timezoneEvent \<Rightarrow> timezones \<Rightarrow> timezones" where
  "timezoneStep (MountHook i enabled) z =
     (let z1 = z\<lparr>tz_shown := (tz_shown z)(i := tz_cached z)\<rparr>
      in if \<not> enabled \<or> tz_cached z \<noteq> None then z1 else loadTimezone i z1)"
| "timezoneStep (EnableHook i) z = (if tz_cached z \<noteq> None then z else loadTimezone i z)"
| "timezoneStep (DropHook i) z = z\<lparr>tz_waiting := filter (\<lambda>j. j \<noteq> i) (tz_waiting z)\<rparr>"
| "timezoneStep (SettingsAnswer f) z =
     (let value = timezoneRead f;
          shown = (case value of Some v \<Rightarrow> v | None \<Rightarrow> [])
      in z\<lparr>tz_cached := (if value = None then tz_cached z else value),
           tz_inFlight := False, tz_waiting := [],
           tz_shown := (\<lambda>j. if j \<in> set (tz_waiting z) then Some shown else tz_shown z j)\<rparr>)"

definition useServerTimezone :: "timezones \<Rightarrow> nat \<Rightarrow> string option" where
  "useServerTimezone z i = (case tz_shown z i of Some v \<Rightarrow> if v = [] then None else Some v | None \<Rightarrow> None)"

subsection \<open>Confirmation\<close>

text \<open>\<open>cf_open\<close> is the question on screen with the caller whose promise the resolver answers.\<close>

record 'q confirmation =
  cf_open :: "('q \<times> nat) option"
  cf_resolver :: "nat option"
  cf_answers :: "(nat \<times> bool) list"

definition confirmIdle :: "'q confirmation" where
  "confirmIdle = \<lparr>cf_open = None, cf_resolver = None, cf_answers = []\<rparr>"

datatype 'q confirmEvent = AskConfirm 'q nat | AnswerConfirm bool

fun confirmOffered :: "'q confirmation \<Rightarrow> 'q confirmEvent \<Rightarrow> bool" where
  "confirmOffered c (AskConfirm q i) = True"
| "confirmOffered c (AnswerConfirm b) = (cf_open c \<noteq> None)"

fun confirmStep :: "'q confirmEvent \<Rightarrow> 'q confirmation \<Rightarrow> 'q confirmation" where
  "confirmStep (AskConfirm q i) c = c\<lparr>cf_open := Some (q, i), cf_resolver := Some i\<rparr>"
| "confirmStep (AnswerConfirm b) c =
     c\<lparr>cf_open := None, cf_resolver := None,
       cf_answers := (case cf_resolver c of Some i \<Rightarrow> (i, b) # cf_answers c | None \<Rightarrow> cf_answers c)\<rparr>"

subsection \<open>Lemmas\<close>

definition async_inv :: "'a async \<Rightarrow> bool" where
  "async_inv a \<longleftrightarrow>
     (as_mounted a \<and> as_out a = 0 \<longrightarrow> \<not> as_loading a) \<and>
     (as_loading a \<or> as_data a \<noteq> None \<or> as_error a \<noteq> None)"

lemma asyncStep_inv: "async_inv a \<Longrightarrow> asyncOffered a e \<Longrightarrow> async_inv (asyncStep e a)"
  by (cases e) (auto simp: async_inv_def split: sum.splits)

text \<open>A request is made for every failed answer, and once more for the cache or the request in flight.\<close>

fun tz_failed :: "timezoneEvent \<Rightarrow> bool" where
  "tz_failed (SettingsAnswer f) = (timezoneRead f = None)"
| "tz_failed _ = False"

definition tz_current :: "timezones \<Rightarrow> nat" where
  "tz_current z = (if tz_cached z \<noteq> None \<or> tz_inFlight z then 1 else 0)"

definition tz_inv :: "timezones \<Rightarrow> bool" where
  "tz_inv z \<longleftrightarrow> tz_cached z = None \<or> \<not> tz_inFlight z"

lemma timezoneStep_count:
  assumes "tz_inv z" "timezoneOffered z e"
  shows "tz_inv (timezoneStep e z) \<and>
    tz_asked (timezoneStep e z) + tz_current z =
      tz_asked z + tz_current (timezoneStep e z) + (if tz_failed e then 1 else 0)"
  using assms by (cases e) (auto simp: tz_inv_def tz_current_def loadTimezone_def Let_def)

lemma run_timezones:
  "run_events timezoneStep timezoneOffered es z = Some y \<Longrightarrow> tz_inv z \<Longrightarrow>
     tz_asked y + tz_current z = tz_asked z + tz_current y + length (filter tz_failed es)"
proof (induction es arbitrary: z)
  case (Cons e es)
  then have o: "timezoneOffered z e" by (simp split: if_splits)
  from Cons.prems o have "run_events timezoneStep timezoneOffered es (timezoneStep e z) = Some y" by simp
  with Cons.IH timezoneStep_count [OF Cons.prems(2) o] show ?case by fastforce
qed simp

subsection \<open>Properties\<close>

text \<open>
  C34 (a page is never left blank): whatever reloads, refreshes and answers come in whatever order,
  as long as the hook is mounted and nothing is out, it is not loading and has data or an error to
  show; and at every moment it is loading or has one of the two.
\<close>

theorem useAsync_settled:
  assumes "reaches asyncStep asyncOffered mountAsync a"
  shows "(as_loading a \<or> as_data a \<noteq> None \<or> as_error a \<noteq> None) \<and> (as_mounted a \<and> as_out a = 0 \<longrightarrow> \<not> as_loading a)"
proof -
  have "async_inv (mountAsync :: 'a async)" by (simp add: async_inv_def mountAsync_def)
  with assms have "async_inv a" using asyncStep_inv by (rule reaches_invariant)
  then show ?thesis by (auto simp: async_inv_def)
qed

theorem useAsync_settled_witness:
  "as_loading \<lparr>as_data = Some (3::nat), as_loading = False, as_error = None, as_mounted = True, as_out = 0\<rparr> = False"
proof -
  have "run_events asyncStep asyncOffered [LoaderSettles (Inr (3::nat))] mountAsync =
      Some \<lparr>as_data = Some 3, as_loading = False, as_error = None, as_mounted = True, as_out = 0\<rparr>"
    by (simp add: mountAsync_def)
  from useAsync_settled [OF run_events_reaches [OF this]] show ?thesis by simp
qed

text \<open>
  The time zone is asked for once: however many screens mount the hook, and in whatever order,
  the number of settings requests is the number of failed ones plus one once the zone is cached or
  a request is on its way; while no request fails there is at most one.
\<close>

theorem timezone_asked_once:
  assumes "run_events timezoneStep timezoneOffered es freshTimezones = Some z"
  shows "tz_asked z = length (filter tz_failed es) + (if tz_cached z \<noteq> None \<or> tz_inFlight z then 1 else 0)"
  using run_timezones [OF assms] by (simp add: tz_inv_def tz_current_def freshTimezones_def)

theorem timezone_asked_once_witness:
  "\<exists>z. run_events timezoneStep timezoneOffered [MountHook 0 True, MountHook 1 True, MountHook 2 False] freshTimezones = Some z \<and>
     tz_asked z = 1"
proof -
  obtain z where z: "run_events timezoneStep timezoneOffered [MountHook 0 True, MountHook 1 True, MountHook 2 False] freshTimezones = Some z"
    "tz_inFlight z" by (simp add: freshTimezones_def loadTimezone_def Let_def)
  with timezone_asked_once [OF z(1)] show ?thesis by simp
qed

end
