(* ===== verification/Users_Page.thy ===== *)
theory Users_Page
  imports Hooks Format App_Gate
begin

text \<open>
  Accounts (\<open>web/src/pages/UsersPage.tsx\<close>): the sorted list, the guard of the last administrator,
  and the three dialogs and the deletion with the requests they make.
\<close>

subsection \<open>The list\<close>

record userAccount =
  ua_id :: js_id
  ua_username :: string
  ua_role :: role
  ua_createdAt :: string
  ua_lastLoginAt :: "string option"

definition LAST_ADMIN_REASON :: string where
  "LAST_ADMIN_REASON =
     ''This is the only administrator. Give someone else the administrator role first, or you would lock '' @
     ''everyone out of this server.''"

definition roleIndex :: "role \<Rightarrow> int" where
  "roleIndex r = int (length (takeWhile (\<lambda>x. x \<noteq> r) ROLES))"

definition compareUsers :: "(string \<Rightarrow> string \<Rightarrow> int) \<Rightarrow> userAccount \<Rightarrow> userAccount \<Rightarrow> int" where
  "compareUsers localeCompare a b =
     (let d = roleIndex (ua_role a) - roleIndex (ua_role b)
      in if d \<noteq> 0 then d else localeCompare (ua_username a) (ua_username b))"

definition adminCount :: "userAccount list \<Rightarrow> nat" where
  "adminCount users = length (filter (\<lambda>user. ua_role user = Admin) users)"

definition lastAdmin :: "userAccount list \<Rightarrow> userAccount \<Rightarrow> bool" where
  "lastAdmin users user \<longleftrightarrow> ua_role user = Admin \<and> adminCount users \<le> 1"

definition blocked :: "userAccount list \<Rightarrow> userAccount \<Rightarrow> string option" where
  "blocked users user = (if lastAdmin users user then Some LAST_ADMIN_REASON else None)"

definition isSelf :: "js_id \<Rightarrow> userAccount \<Rightarrow> bool" where
  "isSelf me user \<longleftrightarrow> id_str (ua_id user) = id_str me"

text \<open>A row: name, whether it is you, role chip, created, last sign-in, titles of the two guarded buttons.\<close>

definition userRow :: "host \<Rightarrow> js_id \<Rightarrow> userAccount list \<Rightarrow> userAccount \<Rightarrow> string list" where
  "userRow h me users user =
     [ua_username user, if isSelf me user then ''(you)'' else [], ROLE_LABEL (ua_role user),
      formatDateTime h (Some (ua_createdAt user)),
      (case ua_lastLoginAt user of
         Some t \<Rightarrow> if t = [] then ''Never signed in'' else formatRelative h (Some t)
       | None \<Rightarrow> ''Never signed in''),
      (case blocked users user of Some r \<Rightarrow> r | None \<Rightarrow> ''Change role''),
      (case blocked users user of Some r \<Rightarrow> r | None \<Rightarrow> ''Delete user'')]"

definition accountsSubtitle :: "userAccount list \<Rightarrow> string" where
  "accountsSubtitle users =
     (if adminCount users \<le> 1 then ''One administrator. Add a second so a forgotten password cannot lock you out.''
      else nat_str (length users) @ '' accounts '' @ middle_dot @ '' '' @ nat_str (adminCount users) @ '' administrators'')"

subsection \<open>The page\<close>

datatype userRequest =
    CreateAccount userCreate
  | ChangeRole userAccount role
  | ResetPassword userAccount string
  | DeleteAccount userAccount

record addForm =
  au_username :: string
  au_password :: string
  au_role :: role
  au_submitting :: bool
  au_error :: "string option"

definition blankAdd :: addForm where
  "blankAdd = \<lparr>au_username = [], au_password = [], au_role = Operator, au_submitting = False, au_error = None\<rparr>"

record usersPage =
  us_list :: "userAccount list async"
  us_addOpen :: bool
  us_add :: addForm
  us_roleFor :: "userAccount option"
  us_role :: role
  us_roleSubmitting :: bool
  us_roleError :: "string option"
  us_passwordFor :: "userAccount option"
  us_password :: string
  us_passwordSubmitting :: bool
  us_passwordError :: "string option"
  us_asking :: "userAccount option"
  us_deleting :: "string option"
  us_out :: "userRequest list"
  us_sent :: "userRequest list"
  us_toasts :: "(string \<times> string) list"
  us_signOuts :: nat

definition mountUsers :: usersPage where
  "mountUsers =
     \<lparr>us_list = mountAsync, us_addOpen = False, us_add = blankAdd, us_roleFor = None, us_role = Viewer,
      us_roleSubmitting = False, us_roleError = None, us_passwordFor = None, us_password = [],
      us_passwordSubmitting = False, us_passwordError = None, us_asking = None, us_deleting = None, us_out = [],
      us_sent = [], us_toasts = [], us_signOuts = 0\<rparr>"

definition usersShown :: "(string \<Rightarrow> string \<Rightarrow> int) \<Rightarrow> usersPage \<Rightarrow> userAccount list" where
  "usersShown lc p = sort_by (compareUsers lc) (case as_data (us_list p) of Some us \<Rightarrow> us | None \<Rightarrow> [])"

definition shortPassword :: string where
  "shortPassword = ''The password must be at least '' @ nat_str MIN_PASSWORD_LENGTH @ '' characters.''"

definition sendUser :: "userRequest \<Rightarrow> usersPage \<Rightarrow> usersPage" where
  "sendUser r p = p\<lparr>us_out := r # us_out p, us_sent := r # us_sent p\<rparr>"

definition submitAdd :: "usersPage \<Rightarrow> usersPage" where
  "submitAdd p =
     (let g = us_add p; name = trim (au_username g)
      in if name = [] then p\<lparr>us_add := g\<lparr>au_error := Some ''Enter a username.''\<rparr>\<rparr>
         else if js_length (au_password g) < MIN_PASSWORD_LENGTH then p\<lparr>us_add := g\<lparr>au_error := Some shortPassword\<rparr>\<rparr>
         else sendUser (CreateAccount \<lparr>uc_username = name, uc_password = au_password g, uc_role = au_role g\<rparr>)
                (p\<lparr>us_add := g\<lparr>au_error := None, au_submitting := True\<rparr>\<rparr>))"

definition submitRole :: "usersPage \<Rightarrow> usersPage" where
  "submitRole p =
     (case us_roleFor p of
        None \<Rightarrow> p
      | Some user \<Rightarrow>
          if us_role p = ua_role user then p\<lparr>us_roleFor := None, us_role := Viewer, us_roleError := None\<rparr>
          else sendUser (ChangeRole user (us_role p)) (p\<lparr>us_roleError := None, us_roleSubmitting := True\<rparr>))"

definition submitReset :: "usersPage \<Rightarrow> usersPage" where
  "submitReset p =
     (case us_passwordFor p of
        None \<Rightarrow> p
      | Some user \<Rightarrow>
          if js_length (us_password p) < MIN_PASSWORD_LENGTH then p\<lparr>us_passwordError := Some shortPassword\<rparr>
          else sendUser (ResetPassword user (us_password p))
                 (p\<lparr>us_passwordError := None, us_passwordSubmitting := True\<rparr>))"

definition answerDelete :: "bool \<Rightarrow> usersPage \<Rightarrow> usersPage" where
  "answerDelete ok p =
     (case us_asking p of
        None \<Rightarrow> p
      | Some user \<Rightarrow>
          let q = p\<lparr>us_asking := None\<rparr>
          in if \<not> ok then q
             else sendUser (DeleteAccount user) (q\<lparr>us_deleting := Some (id_str (ua_id user))\<rparr>))"

definition refreshUsers :: "usersPage \<Rightarrow> usersPage" where
  "refreshUsers p = p\<lparr>us_list := asyncStep Refresh (us_list p)\<rparr>"

definition toastUser :: "string \<Rightarrow> string \<Rightarrow> usersPage \<Rightarrow> usersPage" where
  "toastUser title detail p = p\<lparr>us_toasts := (title, detail) # us_toasts p\<rparr>"

text \<open>The rest of each handler once its request has settled.\<close>

definition settleAdd :: "fetch \<Rightarrow> userCreate \<Rightarrow> usersPage \<Rightarrow> usersPage" where
  "settleAdd f c p =
     (case bind_exn (createUser f c) (\<lambda>u. get_prop u ''username'') of
        Inr name \<Rightarrow>
          refreshUsers (toastUser (''User '' @ ldquo @ val_str name @ rdquo @ '' added.'')
              (''Signed in as '' @ map ascii_lower (ROLE_LABEL (uc_role c)) @ ''.'')
            (p\<lparr>us_addOpen := False, us_add := blankAdd\<rparr>))
      | Inl err \<Rightarrow>
          toastUser ''Could not add user'' (errorMessage err)
            (p\<lparr>us_add := (us_add p)\<lparr>au_error := Some (errorMessage err), au_submitting := False\<rparr>\<rparr>))"

definition settleRole :: "fetch \<Rightarrow> userAccount \<Rightarrow> role \<Rightarrow> usersPage \<Rightarrow> usersPage" where
  "settleRole f user role p =
     (case patchUser f (ua_id user) \<lparr>up_role = Some role, up_password = None\<rparr> of
        Inr _ \<Rightarrow>
          refreshUsers (toastUser (ua_username user @ '' is now '' @ map ascii_lower (ROLE_LABEL role) @ ''.'') []
            (p\<lparr>us_roleFor := None, us_role := Viewer, us_roleError := None, us_roleSubmitting := False\<rparr>))
      | Inl err \<Rightarrow>
          toastUser ''Could not change the role'' (errorMessage err)
            (p\<lparr>us_roleError := Some (errorMessage err), us_roleSubmitting := False\<rparr>))"

definition settleReset :: "fetch \<Rightarrow> userAccount \<Rightarrow> string \<Rightarrow> usersPage \<Rightarrow> usersPage" where
  "settleReset f user password p =
     (case patchUser f (ua_id user) \<lparr>up_role = None, up_password = Some password\<rparr> of
        Inr _ \<Rightarrow>
          toastUser (''Password reset for '' @ ua_username user @ ''.'') ''Tell them to change it after signing in.''
            (p\<lparr>us_passwordFor := None, us_password := [], us_passwordError := None, us_passwordSubmitting := False\<rparr>)
      | Inl err \<Rightarrow>
          toastUser ''Could not reset the password'' (errorMessage err)
            (p\<lparr>us_passwordError := Some (errorMessage err), us_passwordSubmitting := False\<rparr>))"

definition settleDelete :: "fetch \<Rightarrow> js_id \<Rightarrow> userAccount \<Rightarrow> usersPage \<Rightarrow> usersPage" where
  "settleDelete f me user p =
     (case deleteUser f (ua_id user) of
        Inr _ \<Rightarrow>
          (let q = toastUser (''User '' @ ldquo @ ua_username user @ rdquo @ '' deleted.'') [] (p\<lparr>us_deleting := None\<rparr>)
           in if isSelf me user then q\<lparr>us_signOuts := us_signOuts q + 1\<rparr> else refreshUsers q)
      | Inl err \<Rightarrow> toastUser ''Could not delete the user'' (errorMessage err) (p\<lparr>us_deleting := None\<rparr>))"

fun settleUser :: "fetch \<Rightarrow> js_id \<Rightarrow> userRequest \<Rightarrow> usersPage \<Rightarrow> usersPage" where
  "settleUser f me (CreateAccount c) p = settleAdd f c p"
| "settleUser f me (ChangeRole user role) p = settleRole f user role p"
| "settleUser f me (ResetPassword user password) p = settleReset f user password p"
| "settleUser f me (DeleteAccount user) p = settleDelete f me user p"

subsection \<open>Events\<close>

datatype usersEvent =
    ReloadUsers
  | UsersAnswer "userAccount list exn"
  | OpenAdd
  | CloseAdd
  | TypeUsername string
  | TypePassword string
  | PickRole role
  | SubmitAdd
  | OpenRole userAccount
  | CloseRole
  | PickNewRole role
  | SubmitRole
  | OpenReset userAccount
  | CloseReset
  | TypeReset string
  | SubmitReset
  | AskDelete userAccount
  | AnswerDelete bool
  | UserSettles fetch userRequest

fun usersOffered :: "(string \<Rightarrow> string \<Rightarrow> int) \<Rightarrow> usersPage \<Rightarrow> usersEvent \<Rightarrow> bool" where
  "usersOffered lc p ReloadUsers = (\<not> as_loading (us_list p) \<or> as_data (us_list p) = Some [])"
| "usersOffered lc p (UsersAnswer r) = (0 < as_out (us_list p))"
| "usersOffered lc p OpenAdd = True"
| "usersOffered lc p CloseAdd = us_addOpen p"
| "usersOffered lc p (TypeUsername s) = us_addOpen p"
| "usersOffered lc p (TypePassword s) = us_addOpen p"
| "usersOffered lc p (PickRole r) = (us_addOpen p \<and> r \<in> set ROLES)"
| "usersOffered lc p SubmitAdd = (us_addOpen p \<and> \<not> au_submitting (us_add p))"
| "usersOffered lc p (OpenRole u) = (u \<in> set (usersShown lc p) \<and> \<not> lastAdmin (usersShown lc p) u)"
| "usersOffered lc p CloseRole = (us_roleFor p \<noteq> None)"
| "usersOffered lc p (PickNewRole r) = (us_roleFor p \<noteq> None \<and> r \<in> set ROLES)"
| "usersOffered lc p SubmitRole =
     (case us_roleFor p of Some u \<Rightarrow> us_role p \<noteq> ua_role u \<and> \<not> us_roleSubmitting p | None \<Rightarrow> False)"
| "usersOffered lc p (OpenReset u) = (u \<in> set (usersShown lc p))"
| "usersOffered lc p CloseReset = (us_passwordFor p \<noteq> None)"
| "usersOffered lc p (TypeReset s) = (us_passwordFor p \<noteq> None)"
| "usersOffered lc p SubmitReset = (us_passwordFor p \<noteq> None \<and> \<not> us_passwordSubmitting p)"
| "usersOffered lc p (AskDelete u) =
     (u \<in> set (usersShown lc p) \<and> \<not> lastAdmin (usersShown lc p) u \<and> us_deleting p \<noteq> Some (id_str (ua_id u)))"
| "usersOffered lc p (AnswerDelete ok) = (us_asking p \<noteq> None)"
| "usersOffered lc p (UserSettles f r) = (r \<in> set (us_out p))"

fun usersStep :: "js_id \<Rightarrow> usersEvent \<Rightarrow> usersPage \<Rightarrow> usersPage" where
  "usersStep me ReloadUsers p = p\<lparr>us_list := asyncStep Reload (us_list p)\<rparr>"
| "usersStep me (UsersAnswer r) p = p\<lparr>us_list := asyncStep (LoaderSettles r) (us_list p)\<rparr>"
| "usersStep me OpenAdd p = p\<lparr>us_addOpen := True\<rparr>"
| "usersStep me CloseAdd p =
     p\<lparr>us_addOpen := False, us_add := blankAdd\<lparr>au_submitting := au_submitting (us_add p)\<rparr>\<rparr>"
| "usersStep me (TypeUsername s) p = p\<lparr>us_add := (us_add p)\<lparr>au_username := s\<rparr>\<rparr>"
| "usersStep me (TypePassword s) p = p\<lparr>us_add := (us_add p)\<lparr>au_password := s\<rparr>\<rparr>"
| "usersStep me (PickRole r) p = p\<lparr>us_add := (us_add p)\<lparr>au_role := r\<rparr>\<rparr>"
| "usersStep me SubmitAdd p = submitAdd p"
| "usersStep me (OpenRole u) p = p\<lparr>us_roleFor := Some u, us_role := ua_role u, us_roleError := None\<rparr>"
| "usersStep me CloseRole p = p\<lparr>us_roleFor := None, us_role := Viewer, us_roleError := None\<rparr>"
| "usersStep me (PickNewRole r) p = p\<lparr>us_role := r\<rparr>"
| "usersStep me SubmitRole p = submitRole p"
| "usersStep me (OpenReset u) p = p\<lparr>us_passwordFor := Some u\<rparr>"
| "usersStep me CloseReset p = p\<lparr>us_passwordFor := None, us_password := [], us_passwordError := None\<rparr>"
| "usersStep me (TypeReset s) p = p\<lparr>us_password := s\<rparr>"
| "usersStep me SubmitReset p = submitReset p"
| "usersStep me (AskDelete u) p = p\<lparr>us_asking := Some u\<rparr>"
| "usersStep me (AnswerDelete ok) p = answerDelete ok p"
| "usersStep me (UserSettles f r) p = settleUser f me r (p\<lparr>us_out := remove1 r (us_out p)\<rparr>)"

subsection \<open>Lemmas\<close>

lemma filter_insert_by: "length (filter P (insert_by cmp x ys)) = length (filter P (x # ys))"
  by (induction ys) auto

lemma filter_sort_by: "length (filter P (sort_by cmp xs)) = length (filter P xs)"
  by (induction xs) (simp_all add: sort_by_def filter_insert_by)

text \<open>An account whose role may be changed or which may be deleted, and the requests that do so.\<close>

definition replaceable :: "userAccount list \<Rightarrow> userAccount \<Rightarrow> bool" where
  "replaceable L u \<longleftrightarrow> u \<in> set L \<and> \<not> lastAdmin L u"

fun request_ok :: "userAccount list \<Rightarrow> userRequest \<Rightarrow> bool" where
  "request_ok L (ChangeRole u r) = replaceable L u"
| "request_ok L (DeleteAccount u) = replaceable L u"
| "request_ok L _ = True"

definition page_inv :: "userAccount list \<Rightarrow> usersPage \<Rightarrow> bool" where
  "page_inv L p \<longleftrightarrow>
     as_data (us_list p) = Some L \<and> pred_option (replaceable L) (us_roleFor p) \<and>
     pred_option (replaceable L) (us_asking p) \<and> list_all (request_ok L) (us_sent p)"

lemma shown_replaceable:
  "as_data (us_list p) = Some L \<Longrightarrow> u \<in> set (usersShown lc p) \<Longrightarrow> \<not> lastAdmin (usersShown lc p) u \<Longrightarrow> replaceable L u"
  by (simp add: usersShown_def replaceable_def lastAdmin_def adminCount_def filter_sort_by)

lemma settleUser_inv: "page_inv L p \<Longrightarrow> page_inv L (settleUser f me r p)"
  by (cases r) (simp_all add: page_inv_def settleAdd_def settleRole_def settleReset_def settleDelete_def refreshUsers_def
      toastUser_def Let_def split: sum.splits)

lemma submits_inv:
  "page_inv L p \<Longrightarrow> page_inv L (submitAdd p)" "page_inv L p \<Longrightarrow> page_inv L (submitRole p)"
  "page_inv L p \<Longrightarrow> page_inv L (submitReset p)" "page_inv L p \<Longrightarrow> page_inv L (answerDelete ok p)"
  by (auto simp: page_inv_def submitAdd_def submitRole_def submitReset_def answerDelete_def sendUser_def Let_def
      split: option.splits)

lemma usersStep_inv:
  assumes "page_inv L p" "usersOffered lc p e" "\<forall>r. e \<noteq> UsersAnswer r"
  shows "page_inv L (usersStep me e p)"
proof (cases e)
  case (OpenRole u)
  with assms shown_replaceable show ?thesis by (auto simp: page_inv_def)
next
  case (AskDelete u)
  with assms shown_replaceable show ?thesis by (auto simp: page_inv_def)
next
  case (UserSettles f r)
  have "page_inv L (p\<lparr>us_out := remove1 r (us_out p)\<rparr>)" using assms(1) by (simp add: page_inv_def)
  then show ?thesis using UserSettles settleUser_inv by simp
qed (use assms submits_inv in \<open>auto simp: page_inv_def\<close>)

lemma run_users_inv:
  "run_events (usersStep me) (usersOffered lc) es p = Some q \<Longrightarrow> page_inv L p \<Longrightarrow> \<forall>r. UsersAnswer r \<notin> set es \<Longrightarrow> page_inv L q"
proof (induction es arbitrary: p)
  case (Cons e es)
  then show ?case by (auto split: if_splits intro: usersStep_inv)
qed simp

text \<open>The accounts a request leaves.\<close>

abbreviation userKey :: "userAccount \<Rightarrow> string" where
  "userKey u \<equiv> id_str (ua_id u)"

fun after_request :: "userRequest \<Rightarrow> userAccount list \<Rightarrow> userAccount list" where
  "after_request (ChangeRole u r) L = map (\<lambda>x. if userKey x = userKey u then x\<lparr>ua_role := r\<rparr> else x) L"
| "after_request (DeleteAccount u) L = filter (\<lambda>x. userKey x \<noteq> userKey u) L"
| "after_request _ L = L"

lemma other_admin:
  assumes "distinct (map userKey L)" "replaceable L u" "1 \<le> adminCount L"
  shows "\<exists>v\<in>set L. ua_role v = Admin \<and> userKey v \<noteq> userKey u"
proof -
  have inj: "inj_on userKey (set L)" and d: "distinct L" using assms(1) by (auto simp: distinct_map)
  have "\<exists>v\<in>set (filter (\<lambda>x. ua_role x = Admin) L). v \<noteq> u"
  proof (rule ccontr)
    assume "\<not> ?thesis"
    then have sub: "set (filter (\<lambda>x. ua_role x = Admin) L) \<subseteq> {u}" by auto
    have "adminCount L = card (set (filter (\<lambda>x. ua_role x = Admin) L))"
      unfolding adminCount_def by (rule distinct_card [symmetric]) (simp add: d)
    also have "\<dots> \<le> 1" using card_mono [OF _ sub] by simp
    finally have "adminCount L \<le> 1" .
    moreover from this have "ua_role u \<noteq> Admin" using assms(2) by (simp add: replaceable_def lastAdmin_def)
    then have "filter (\<lambda>x. ua_role x = Admin) L = []" using sub by (auto simp: filter_empty_conv)
    ultimately show False using assms(3) by (simp add: adminCount_def)
  qed
  then show ?thesis using inj assms(2) by (auto simp: replaceable_def inj_on_def)
qed

lemma admin_remains: "v \<in> set L \<Longrightarrow> ua_role v = Admin \<Longrightarrow> 1 \<le> adminCount L"
  by (auto simp: adminCount_def Suc_le_eq filter_empty_conv)

subsection \<open>Properties\<close>


definition account :: "string \<Rightarrow> role \<Rightarrow> userAccount" where
  "account name r = \<lparr>ua_id = IdStr name, ua_username = name, ua_role = r, ua_createdAt = [], ua_lastLoginAt = None\<rparr>"


end
