(* ===== verification/File_Browser.thy ===== *)
theory File_Browser
  imports Restore_Wizard
begin

text \<open>
  Browsing the files of a restore point (\<open>web/src/components/FileBrowser.tsx\<close>): the folder and the
  search that make up the question, the debounced request with its abort controller, the retry
  button, which starts a request of its own, and the rows with the download link.
\<close>

subsection \<open>Entries\<close>

record backupEntry =
  be_name :: string
  be_path :: string
  be_size :: jsnum
  be_dir :: bool
  be_mtime :: "string option"
  be_link :: "string option"

definition TEXTUAL_EXTENSIONS :: "string list" where
  "TEXTUAL_EXTENSIONS =
     [''txt'', ''log'', ''md'', ''conf'', ''cfg'', ''ini'', ''yml'', ''yaml'', ''json'', ''xml'', ''csv'', ''sql'',
      ''sh'', ''ps1'', ''bat'', ''env'']"

definition TEXTUAL :: "string \<Rightarrow> bool" where
  "TEXTUAL name \<longleftrightarrow> (\<exists>x\<in>set TEXTUAL_EXTENSIONS. ends_with (''.'' @ x) (map ascii_lower name))"

datatype entryIcon = FolderIcon | LinkIcon | TextIcon | FileIcon

definition EntryIcon :: "backupEntry \<Rightarrow> entryIcon" where
  "EntryIcon e =
     (if be_dir e then FolderIcon else if opt_text (be_link e) \<noteq> None then LinkIcon
      else if TEXTUAL (be_name e) then TextIcon else FileIcon)"

text \<open>The path split into clickable ancestors: each label with the path it goes to, the root first.\<close>

definition pathParts :: "string \<Rightarrow> string list" where
  "pathParts path = (if path = [] then [] else filter (\<lambda>p. p \<noteq> []) (split_on (CHR ''/'') path))"

definition Breadcrumb :: "string \<Rightarrow> (string \<times> string) list" where
  "Breadcrumb path =
     (''Backup root'', []) #
     map (\<lambda>i. (pathParts path ! i, join_with ''/'' (take (i + 1) (pathParts path)))) [0..<length (pathParts path)]"

subsection \<open>State\<close>

text \<open>A question: the restore point, the folder and the trimmed search text.\<close>

type_synonym question = "js_id \<times> string \<times> string"

text \<open>
  \<open>fb_entries\<close> keeps with the rows the question they answer (\<open>None\<close> when there are none), \<open>fb_retries\<close>
  the requests of the retry button, whose controller nothing aborts.
\<close>

record fileBrowser =
  fb_backup :: "backup option"
  fb_path :: string
  fb_query :: string
  fb_entries :: "(question \<times> backupEntry list) option"
  fb_truncated :: bool
  fb_loading :: bool
  fb_error :: "string option"
  fb_timer :: "question option"
  fb_live :: "question option"
  fb_dead :: nat
  fb_retries :: "question list"
  fb_downloads :: "string list"
  fb_notices :: "backupEntry list"

definition mountFiles :: fileBrowser where
  "mountFiles =
     \<lparr>fb_backup = None, fb_path = [], fb_query = [], fb_entries = None, fb_truncated = False, fb_loading = False,
      fb_error = None, fb_timer = None, fb_live = None, fb_dead = 0, fb_retries = [], fb_downloads = [], fb_notices = []\<rparr>"

definition questionOf :: "fileBrowser \<Rightarrow> question option" where
  "questionOf w = map_option (\<lambda>b. (bk_id b, fb_path w, trim (fb_query w))) (fb_backup w)"

definition searching :: "fileBrowser \<Rightarrow> bool" where
  "searching w \<longleftrightarrow> trim (fb_query w) \<noteq> []"

text \<open>The effect after a change: the cleanup (timer cleared, request aborted), then a new timer.\<close>

definition reask :: "fileBrowser \<Rightarrow> fileBrowser" where
  "reask w = w\<lparr>fb_timer := questionOf w, fb_live := None, fb_dead := fb_dead w + (if fb_live w = None then 0 else 1)\<rparr>"

definition startLoad :: "fileBrowser \<Rightarrow> fileBrowser" where
  "startLoad w = w\<lparr>fb_loading := True, fb_error := None\<rparr>"

text \<open>A request settles that was not aborted.\<close>

fun finishLoad :: "question \<Rightarrow> (backupEntry list \<times> bool) exn \<Rightarrow> fileBrowser \<Rightarrow> fileBrowser" where
  "finishLoad q (Inr (entries, truncated)) w =
     w\<lparr>fb_entries := Some (q, entries), fb_truncated := truncated, fb_loading := False\<rparr>"
| "finishLoad q (Inl err) w =
     (if is_abort err then w\<lparr>fb_loading := False\<rparr>
      else w\<lparr>fb_error := Some (errorMessage err), fb_entries := None, fb_loading := False\<rparr>)"

definition onDownload :: "backupEntry \<Rightarrow> fileBrowser \<Rightarrow> fileBrowser" where
  "onDownload e w =
     (case fb_backup w of
        None \<Rightarrow> w
      | Some b \<Rightarrow> w\<lparr>fb_downloads := backupFileURL (bk_id b) (be_path e) # fb_downloads w, fb_notices := e # fb_notices w\<rparr>)"

text \<open>The toast that announces a download.\<close>

definition downloadNotice :: "host \<Rightarrow> backupEntry \<Rightarrow> string \<times> string" where
  "downloadNotice h e =
     (''Downloading '' @ be_name e,
      ''Only the part of the backup holding this file is read '' @ em_dash @ '' '' @ formatBytes h (Some (be_size e)) 1 @ ''.'')"

text \<open>Setting folder and search; nothing happens when neither changes.\<close>

definition goTo :: "string \<Rightarrow> string \<Rightarrow> fileBrowser \<Rightarrow> fileBrowser" where
  "goTo path query w =
     (if path = fb_path w \<and> query = fb_query w then w else reask (w\<lparr>fb_path := path, fb_query := query\<rparr>))"

definition openEntry :: "backupEntry \<Rightarrow> fileBrowser \<Rightarrow> fileBrowser" where
  "openEntry e w = (if be_dir e then goTo (be_path e) [] w else onDownload e w)"

datatype filesEvent =
    OpenFiles backup
  | CloseFiles
  | GoTo string
  | TypeSearch string
  | OpenEntry backupEntry
  | Download backupEntry
  | FilesTimer
  | FilesAnswer "(backupEntry list \<times> bool) exn"
  | AbortedSettles
  | RetryFiles
  | RetryAnswer question "(backupEntry list \<times> bool) exn"

definition shownEntries :: "fileBrowser \<Rightarrow> backupEntry list" where
  "shownEntries w = (case fb_entries w of Some (q, es) \<Rightarrow> es | None \<Rightarrow> [])"

datatype filesView = FvSkeleton | FvError string | FvEmpty string | FvRows "backupEntry list"

definition filesView :: "fileBrowser \<Rightarrow> filesView" where
  "filesView w =
     (if fb_loading w \<and> shownEntries w = [] then FvSkeleton
      else case fb_error w of
        Some m \<Rightarrow> FvError m
      | None \<Rightarrow>
          if shownEntries w = [] then FvEmpty (if searching w then ''Nothing matched'' else ''This folder is empty'')
          else FvRows (shownEntries w))"

fun is_abort_answer :: "(backupEntry list \<times> bool) exn \<Rightarrow> bool" where
  "is_abort_answer (Inl err) = is_abort err"
| "is_abort_answer (Inr _) = False"

fun filesOffered :: "fileBrowser \<Rightarrow> filesEvent \<Rightarrow> bool" where
  "filesOffered w (OpenFiles b) = (fb_backup w = None)"
| "filesOffered w CloseFiles = (fb_backup w \<noteq> None)"
| "filesOffered w (GoTo p) =
     (fb_backup w \<noteq> None \<and> p \<in> set (map snd (Breadcrumb (if searching w then [] else fb_path w))))"
| "filesOffered w (TypeSearch s) = (fb_backup w \<noteq> None)"
| "filesOffered w (OpenEntry e) = (fb_backup w \<noteq> None \<and> filesView w = FvRows (shownEntries w) \<and> e \<in> set (shownEntries w))"
| "filesOffered w (Download e) =
     (fb_backup w \<noteq> None \<and> filesView w = FvRows (shownEntries w) \<and> e \<in> set (shownEntries w) \<and> \<not> be_dir e)"
| "filesOffered w FilesTimer = (fb_timer w \<noteq> None)"
| "filesOffered w (FilesAnswer r) = (fb_live w \<noteq> None \<and> \<not> is_abort_answer r)"
| "filesOffered w AbortedSettles = (0 < fb_dead w)"
| "filesOffered w RetryFiles = (fb_backup w \<noteq> None \<and> (case filesView w of FvError _ \<Rightarrow> True | _ \<Rightarrow> False))"
| "filesOffered w (RetryAnswer q r) = (q \<in> set (fb_retries w))"

fun filesStep :: "filesEvent \<Rightarrow> fileBrowser \<Rightarrow> fileBrowser" where
  "filesStep (OpenFiles b) w =
     reask (w\<lparr>fb_backup := Some b, fb_path := [], fb_query := [], fb_entries := None, fb_truncated := False, fb_error := None\<rparr>)"
| "filesStep CloseFiles w = reask (w\<lparr>fb_backup := None\<rparr>)"
| "filesStep (GoTo p) w = goTo p (fb_query w) w"
| "filesStep (TypeSearch s) w = goTo (fb_path w) s w"
| "filesStep (OpenEntry e) w = openEntry e w"
| "filesStep (Download e) w = onDownload e w"
| "filesStep FilesTimer w = (startLoad w)\<lparr>fb_live := fb_timer w, fb_timer := None\<rparr>"
| "filesStep (FilesAnswer r) w =
     (case fb_live w of Some q \<Rightarrow> (finishLoad q r w)\<lparr>fb_live := None\<rparr> | None \<Rightarrow> w)"
| "filesStep AbortedSettles w = w\<lparr>fb_dead := fb_dead w - 1\<rparr>"
| "filesStep RetryFiles w =
     (case questionOf w of Some q \<Rightarrow> (startLoad w)\<lparr>fb_retries := q # fb_retries w\<rparr> | None \<Rightarrow> w)"
| "filesStep (RetryAnswer q r) w = (finishLoad q r w)\<lparr>fb_retries := remove1 q (fb_retries w)\<rparr>"

text \<open>The query parameters of the request for a question.\<close>

definition browseParams :: "question \<Rightarrow> string option \<times> string option" where
  "browseParams q = (case q of (_, dir, search) \<Rightarrow> (if search \<noteq> [] then None else Some dir, if search = [] then None else Some search))"

definition loadFiles :: "fetch \<Rightarrow> question \<Rightarrow> jval exn" where
  "loadFiles f q = browseBackup f (fst q) (fst (browseParams q)) (snd (browseParams q)) (Some (Fin 300))"

text \<open>A row: icon, name, second line, and what is at its right end.\<close>

definition entryRow :: "host \<Rightarrow> fileBrowser \<Rightarrow> backupEntry \<Rightarrow> entryIcon \<times> string \<times> string option \<times> string" where
  "entryRow h w e =
     (EntryIcon e, be_name e,
      (if searching w then Some (be_path e)
       else map_option (\<lambda>l. [CHR 0xE2, CHR 0x86, CHR 0x92] @ '' '' @ l) (opt_text (be_link e))),
      if be_dir e then ''folder'' else formatBytes h (Some (be_size e)) 1)"

subsection \<open>Lemmas\<close>

text \<open>Without the retry button the browser is a debounced loader.\<close>

fun is_retry :: "filesEvent \<Rightarrow> bool" where
  "is_retry RetryFiles = True"
| "is_retry (RetryAnswer _ _) = True"
| "is_retry _ = False"

definition filesPlain :: "fileBrowser \<Rightarrow> filesEvent \<Rightarrow> bool" where
  "filesPlain w e \<longleftrightarrow> filesOffered w e \<and> \<not> is_retry e"

lemma reask_simps [simp]:
  "fb_timer (reask w) = questionOf w" "fb_live (reask w) = None" "questionOf (reask w) = questionOf w"
  "fb_entries (reask w) = fb_entries w" "fb_error (reask w) = fb_error w"
  by (simp_all add: reask_def questionOf_def)

lemma onDownload_simps [simp]:
  "questionOf (onDownload e w) = questionOf w" "fb_timer (onDownload e w) = fb_timer w" "fb_live (onDownload e w) = fb_live w"
  "fb_entries (onDownload e w) = fb_entries w" "fb_error (onDownload e w) = fb_error w"
  by (simp_all add: onDownload_def questionOf_def split: option.splits)

lemma finishLoad_simps [simp]:
  "questionOf (finishLoad q r w) = questionOf w" "fb_timer (finishLoad q r w) = fb_timer w"
  by (cases "(q, r, w)" rule: finishLoad.cases; simp add: questionOf_def)+

lemma finishLoad_result:
  "\<not> is_abort_answer r \<Longrightarrow> map_option fst (fb_entries (finishLoad q r w)) = Some q \<or> fb_error (finishLoad q r w) \<noteq> None"
  by (cases "(q, r, w)" rule: finishLoad.cases) auto

lemma questionOf_live [simp]: "questionOf (w\<lparr>fb_live := x\<rparr>) = questionOf w" "questionOf (w\<lparr>fb_timer := x\<rparr>) = questionOf w"
  "questionOf (w\<lparr>fb_dead := n\<rparr>) = questionOf w" "questionOf (startLoad w) = questionOf w"
  by (simp_all add: questionOf_def startLoad_def)

interpretation files_loader:
  latest_request filesStep filesPlain questionOf fb_timer fb_live "\<lambda>w. map_option fst (fb_entries w)" "\<lambda>w. fb_error w \<noteq> None"
proof (unfold_locales, goal_cases)
  case (1 w e)
  then show ?case
  proof (cases e)
    case (FilesAnswer r)
    with 1 obtain q where q: "fb_live w = Some q" "\<not> is_abort_answer r" by (auto simp: filesPlain_def)
    then show ?thesis using FilesAnswer finishLoad_result [OF q(2), of q w] by auto
  next
    case FilesTimer
    with 1 show ?thesis by (auto simp: filesPlain_def startLoad_def questionOf_def)
  qed (auto simp: filesPlain_def goTo_def openEntry_def)
qed

subsection \<open>The abstract viewer\<close>

text \<open>
  What the dialog promises: it holds a question and at most one answer to it. A question may be
  asked (again) at any time, which takes the answer away; an answer comes only for the question
  that is held, and stays until the next question.
\<close>

type_synonym viewer = "question option \<times> (string + backupEntry list) option"

inductive viewer_step :: "viewer \<Rightarrow> viewer \<Rightarrow> bool" where
  asks: "viewer_step (q, a) (q', None)"
| delivers: "viewer_step (Some q, None) (Some q, Some r)"

definition viewerOf :: "fileBrowser \<Rightarrow> viewer" where
  "viewerOf w =
     (questionOf w,
      if questionOf w \<noteq> None \<and> fb_timer w = None \<and> fb_live w = None
      then Some (case fb_error w of Some m \<Rightarrow> Inl m | None \<Rightarrow> Inr (shownEntries w)) else None)"

lemma viewerOf_cong:
  "questionOf v = questionOf w \<Longrightarrow> fb_timer v = fb_timer w \<Longrightarrow> fb_live v = fb_live w \<Longrightarrow> fb_error v = fb_error w \<Longrightarrow>
     fb_entries v = fb_entries w \<Longrightarrow> viewerOf v = viewerOf w"
  unfolding viewerOf_def shownEntries_def by presburger

lemma reask_viewer: "viewer_step a (viewerOf (reask w))"
proof -
  have "viewerOf (reask w) = (questionOf w, None)" by (cases "questionOf w") (simp_all add: viewerOf_def)
  then show ?thesis by (cases a) (simp add: asks)
qed

lemma goTo_viewer: "viewerOf (goTo p s w) = viewerOf w \<or> viewer_step (viewerOf w) (viewerOf (goTo p s w))"
  by (simp add: goTo_def reask_viewer)

lemma answer_viewer:
  assumes "files_loader.current w" "fb_live w = Some q" "\<not> is_abort_answer r"
  shows "viewer_step (viewerOf w) (viewerOf ((finishLoad q r w)\<lparr>fb_live := None\<rparr>))"
proof -
  have w: "questionOf w = Some q" "fb_timer w = None"
    using assms(1,2) unfolding files_loader.current_def by auto
  then have "viewerOf w = (Some q, None)" using assms(2) by (simp add: viewerOf_def)
  moreover have "\<exists>a. viewerOf ((finishLoad q r w)\<lparr>fb_live := None\<rparr>) = (Some q, Some a)"
    using w by (simp add: viewerOf_def)
  ultimately show ?thesis by (metis delivers)
qed

lemma files_step_refines:
  assumes "files_loader.current w" "filesPlain w e"
  shows "viewerOf (filesStep e w) = viewerOf w \<or> viewer_step (viewerOf w) (viewerOf (filesStep e w))"
proof (cases e)
  case (FilesAnswer r)
  with assms(2) obtain q where "fb_live w = Some q" "\<not> is_abort_answer r" by (auto simp: filesPlain_def)
  with FilesAnswer answer_viewer [OF assms(1)] show ?thesis by simp
next
  case FilesTimer
  then have "fb_timer w \<noteq> None" using assms(2) by (simp add: filesPlain_def)
  then show ?thesis using FilesTimer by (auto simp: viewerOf_def)
next
  case (OpenEntry x)
  then show ?thesis using goTo_viewer by (auto simp: openEntry_def intro: viewerOf_cong)
next
  case AbortedSettles
  then show ?thesis by (auto intro: viewerOf_cong)
next
  case (Download x)
  then show ?thesis by (auto intro: viewerOf_cong)
qed (use assms(2) goTo_viewer reask_viewer in \<open>auto simp: filesPlain_def\<close>)

text \<open>A retry of one folder that settles after another folder has been listed replaces that listing.\<close>

lemma stale_retry_run:
  assumes "fb_backup w = Some b" "fb_error w = Some m" "\<not> fb_loading w" "fb_timer w = None" "fb_live w = None"
    "fb_path w = p" "p \<noteq> []" "fb_query w = []"
  shows "\<exists>v. run_events filesStep filesOffered
      [RetryFiles, GoTo [], FilesTimer, FilesAnswer (Inr (es, t)), RetryAnswer (bk_id b, p, []) (Inr (es', t'))] w = Some v \<and>
    fb_path v = [] \<and> fb_entries v = Some ((bk_id b, p, []), es')"
  using assms
  by (simp add: filesView_def questionOf_def Breadcrumb_def goTo_def reask_def startLoad_def split: option.splits)

subsection \<open>Properties\<close>



end
