(* ===== verification/Deploy_Helper.thy ===== *)
theory Deploy_Helper
  imports Restore_Wizard
begin

text \<open>
  Installing a node helper over SSH (\<open>web/src/components/DeployHelperModal.tsx\<close>): the form, its
  checks, and the exchange in which the first attempt fails with the host key of the node, which the
  operator confirms.
\<close>

record deployProps =
  dq_hosts :: "proxHost list"
  dq_nodesByHost :: "string \<Rightarrow> string list option"
  dq_defaultAddress :: "string option"
  dq_origin :: string

record deploy =
  dp_props :: deployProps
  dp_open :: bool
  dp_hostId :: string
  dp_node :: string
  dp_address :: string
  dp_port :: string
  dp_username :: string
  dp_password :: string
  dp_helperPort :: string
  dp_fingerprint :: "string option"
  dp_submitting :: bool
  dp_error :: "string option"
  dp_log :: "jval list"
  dp_pending :: "(string \<times> helperDeployRequest) list"
  dp_sent :: "helperDeployRequest list"
  dp_deployed :: nat
  dp_toasts :: "(string \<times> string) list"

definition mountDeploy :: "deployProps \<Rightarrow> deploy" where
  "mountDeploy ps =
     \<lparr>dp_props = ps, dp_open = False, dp_hostId = [], dp_node = [], dp_address = [], dp_port = ''22'', dp_username = ''root'',
      dp_password = [], dp_helperPort = ''8007'', dp_fingerprint = None, dp_submitting = False, dp_error = None, dp_log = [],
      dp_pending = [], dp_sent = [], dp_deployed = 0, dp_toasts = []\<rparr>"

definition nodesOf :: "deployProps \<Rightarrow> string \<Rightarrow> string list" where
  "nodesOf ps hostId = (case dq_nodesByHost ps hostId of Some ns \<Rightarrow> ns | None \<Rightarrow> [])"

definition firstNode :: "deployProps \<Rightarrow> string \<Rightarrow> string" where
  "firstNode ps hostId = (case nodesOf ps hostId of n # _ \<Rightarrow> n | [] \<Rightarrow> [])"

text \<open>The effect on opening, which also runs when the inventory changes under the open dialog.\<close>

definition resetDeploy :: "deployProps \<Rightarrow> deploy \<Rightarrow> deploy" where
  "resetDeploy ps d =
     (let firstHost = (case dq_hosts ps of h # _ \<Rightarrow> id_str (px_id h) | [] \<Rightarrow> [])
      in d\<lparr>dp_props := ps, dp_hostId := firstHost, dp_node := firstNode ps firstHost,
           dp_address := (case dq_defaultAddress ps of Some a \<Rightarrow> a | None \<Rightarrow> []), dp_port := ''22'',
           dp_username := ''root'', dp_password := [], dp_helperPort := ''8007'', dp_fingerprint := None, dp_error := None,
           dp_log := [], dp_submitting := False\<rparr>)"

text \<open>\<open>Number(port) || 22\<close>.\<close>

definition portOr :: "string \<Rightarrow> int \<Rightarrow> jsnum" where
  "portOr text fallback = (if js_num_truthy (str_num text) then str_num text else jsint fallback)"

definition deployRequest :: "deploy \<Rightarrow> helperDeployRequest" where
  "deployRequest d =
     \<lparr>hd_hostId = IdStr (dp_hostId d), hd_node = trim (dp_node d), hd_address = trim (dp_address d),
      hd_port = Some (portOr (dp_port d) 22), hd_username = trim (dp_username d), hd_password = dp_password d,
      hd_serverUrl = dq_origin (dp_props d), hd_helperPort = Some (portOr (dp_helperPort d) 8007),
      hd_hostKeyFingerprint = opt_text (dp_fingerprint d)\<rparr>"

definition deployProblem :: "deploy \<Rightarrow> string option" where
  "deployProblem d =
     (if dp_hostId d = [] then Some ''Choose which cluster this node belongs to.''
      else if trim (dp_node d) = [] then Some ''Choose which Proxmox node to deploy to.''
      else if trim (dp_address d) = [] then Some (''Enter the node'' @ [CHR 39] @ ''s SSH address.'')
      else if trim (dp_username d) = [] then Some ''Enter the SSH username (usually root).''
      else if dp_password d = [] then Some ''Enter the SSH password.''
      else None)"

definition submitDeploy :: "deploy \<Rightarrow> deploy" where
  "submitDeploy d =
     (case deployProblem d of
        Some m \<Rightarrow> d\<lparr>dp_error := Some m\<rparr>
      | None \<Rightarrow> d\<lparr>dp_error := None, dp_submitting := True, dp_pending := (dp_node d, deployRequest d) # dp_pending d,
                  dp_sent := deployRequest d # dp_sent d\<rparr>)"

text \<open>A result that is missing throws when its log is read.\<close>

definition deployResult :: "fetch \<Rightarrow> helperDeployRequest \<Rightarrow> jval exn" where
  "deployResult f r = bind_exn (deployHelper f r) (\<lambda>v. bind_exn (get_prop v ''log'') (\<lambda>_. Inr v))"

definition settleDeploy :: "fetch \<Rightarrow> string \<times> helperDeployRequest \<Rightarrow> deploy \<Rightarrow> deploy" where
  "settleDeploy f r d =
     (case deployResult f (snd r) of
        Inr v \<Rightarrow>
          d\<lparr>dp_log := elems (nullish_or (jprop v ''log'') (JArr [])), dp_password := [],
            dp_toasts := (''Node helper installed on '' @ fst r @ ''.'',
              if truthy (jprop v ''helperOnline'') then ''It has registered and is online.''
              else ''It should register within a few seconds.'') # dp_toasts d,
            dp_deployed := dp_deployed d + 1, dp_open := False\<rparr>
      | Inl err \<Rightarrow>
          (case deployFingerprintOf err of
             Some fp \<Rightarrow> d\<lparr>dp_fingerprint := Some fp, dp_error := None\<rparr>
           | None \<Rightarrow> d\<lparr>dp_error := Some (errorMessage err)\<rparr>))
     \<lparr>dp_submitting := False, dp_pending := remove1 r (dp_pending d)\<rparr>"

datatype deployEvent =
    OpenDeploy deployProps
  | DeployPropsChange deployProps
  | CloseDeploy
  | PickCluster string
  | EditNode string
  | EditAddress string
  | EditPort string
  | EditUsername string
  | EditSshPassword string
  | EditHelperPort string
  | SubmitDeploy
  | DeploySettles fetch "string \<times> helperDeployRequest"

fun deployOffered :: "deploy \<Rightarrow> deployEvent \<Rightarrow> bool" where
  "deployOffered d (OpenDeploy ps) = (\<not> dp_open d)"
| "deployOffered d (DeployPropsChange ps) = True"
| "deployOffered d CloseDeploy = dp_open d"
| "deployOffered d (PickCluster h) = (dp_open d \<and> (h = [] \<or> h \<in> set (map (\<lambda>x. id_str (px_id x)) (dq_hosts (dp_props d)))))"
| "deployOffered d (EditNode n) =
     (dp_open d \<and> (nodesOf (dp_props d) (dp_hostId d) = [] \<or> n \<in> set (nodesOf (dp_props d) (dp_hostId d))))"
| "deployOffered d SubmitDeploy = (dp_open d \<and> \<not> dp_submitting d)"
| "deployOffered d (DeploySettles f r) = (r \<in> set (dp_pending d))"
| "deployOffered d _ = dp_open d"

fun deployStep :: "deployEvent \<Rightarrow> deploy \<Rightarrow> deploy" where
  "deployStep (OpenDeploy ps) d = (resetDeploy ps d)\<lparr>dp_open := True\<rparr>"
| "deployStep (DeployPropsChange ps) d = (if dp_open d then resetDeploy ps d else d\<lparr>dp_props := ps\<rparr>)"
| "deployStep CloseDeploy d = d\<lparr>dp_open := False\<rparr>"
| "deployStep (PickCluster h) d = d\<lparr>dp_hostId := h, dp_node := firstNode (dp_props d) h\<rparr>"
| "deployStep (EditNode n) d = d\<lparr>dp_node := n\<rparr>"
| "deployStep (EditAddress s) d = d\<lparr>dp_address := s\<rparr>"
| "deployStep (EditPort s) d = d\<lparr>dp_port := s\<rparr>"
| "deployStep (EditUsername s) d = d\<lparr>dp_username := s\<rparr>"
| "deployStep (EditSshPassword s) d = d\<lparr>dp_password := s\<rparr>"
| "deployStep (EditHelperPort s) d = d\<lparr>dp_helperPort := s\<rparr>"
| "deployStep SubmitDeploy d = submitDeploy d"
| "deployStep (DeploySettles f r) d = settleDeploy f r d"

definition deployLabel :: "deploy \<Rightarrow> string" where
  "deployLabel d = (if opt_text (dp_fingerprint d) \<noteq> None then ''Trust and install'' else ''Install helper'')"

subsection \<open>Lemmas\<close>

text \<open>The host keys the server reported in a sequence of events.\<close>

fun reported_key :: "deployEvent \<Rightarrow> string option" where
  "reported_key (DeploySettles f r) = (case deployResult f (snd r) of Inl err \<Rightarrow> deployFingerprintOf err | Inr _ \<Rightarrow> None)"
| "reported_key _ = None"

definition request_complete :: "helperDeployRequest \<Rightarrow> bool" where
  "request_complete r \<longleftrightarrow>
     hd_hostId r \<noteq> IdStr [] \<and> hd_node r \<noteq> [] \<and> hd_address r \<noteq> [] \<and> hd_username r \<noteq> [] \<and> hd_password r \<noteq> []"

text \<open>Everything sent or on screen as a host key is in \<open>K\<close>.\<close>

definition keys_in :: "string set \<Rightarrow> deploy \<Rightarrow> bool" where
  "keys_in K d \<longleftrightarrow>
     (\<forall>fp. dp_fingerprint d = Some fp \<longrightarrow> fp \<in> K) \<and>
     (\<forall>r\<in>set (dp_sent d). request_complete r \<and> (\<forall>fp. hd_hostKeyFingerprint r = Some fp \<longrightarrow> fp \<in> K))"

lemma keys_in_mono: "keys_in K d \<Longrightarrow> K \<subseteq> L \<Longrightarrow> keys_in L d"
  by (auto simp: keys_in_def)

lemma opt_text_SomeD: "opt_text x = Some s \<Longrightarrow> x = Some s"
  by (auto simp: opt_text_def split: option.splits if_splits)

lemma submitDeploy_keys: "keys_in K d \<Longrightarrow> keys_in K (submitDeploy d)"
  by (auto simp: keys_in_def submitDeploy_def deployRequest_def request_complete_def deployProblem_def
      split: option.splits if_splits dest: opt_text_SomeD)

lemma settleDeploy_keys:
  "keys_in K d \<Longrightarrow> keys_in (K \<union> set_option (reported_key (DeploySettles f r))) (settleDeploy f r d)"
  by (auto simp: keys_in_def settleDeploy_def split: sum.splits option.splits)

lemma deployStep_keys: "keys_in K d \<Longrightarrow> keys_in (K \<union> set_option (reported_key e)) (deployStep e d)"
proof (cases e)
  case SubmitDeploy
  assume "keys_in K d"
  with SubmitDeploy show ?thesis using submitDeploy_keys by simp
next
  case (DeploySettles f r)
  assume "keys_in K d"
  from settleDeploy_keys [OF this] DeploySettles show ?thesis by simp
qed (auto simp: keys_in_def resetDeploy_def Let_def)

lemma run_deploy_keys:
  "run_events deployStep deployOffered es d = Some d' \<Longrightarrow> keys_in K d \<Longrightarrow>
     keys_in (K \<union> (\<Union>e\<in>set es. set_option (reported_key e))) d'"
proof (induction es arbitrary: d K)
  case (Cons e es)
  then have "run_events deployStep deployOffered es (deployStep e d) = Some d'" by (simp split: if_splits)
  from Cons.IH [OF this deployStep_keys [OF Cons.prems(2)]] show ?case by (simp add: Un_assoc)
qed simp

interpretation deployments: request_guard "mountDeploy ps" deployStep deployOffered "keys_in UNIV" dp_sent request_complete for ps
proof unfold_locales
  show "keys_in UNIV (mountDeploy ps)" by (simp add: keys_in_def mountDeploy_def)
qed (use deployStep_keys [of UNIV] in \<open>auto simp: list_all_iff keys_in_def\<close>)

subsection \<open>Properties\<close>

text \<open>
  C9 (no host key is trusted unseen): every deployment request names a cluster, a node, an address, a
  user and a password; and where it carries a host key, that key was reported by the server in the
  answer to an earlier attempt.
\<close>

theorem deploy_trusts_reported:
  assumes "run_events deployStep deployOffered es (mountDeploy ps) = Some d" "r \<in> set (dp_sent d)"
  shows "request_complete r \<and>
    (\<forall>fp. hd_hostKeyFingerprint r = Some fp \<longrightarrow>
       (\<exists>f q err. DeploySettles f q \<in> set es \<and> deployHelper f (snd q) = Inl err \<and> deployFingerprintOf err = Some fp))"
proof -
  have k: "keys_in (\<Union>e\<in>set es. set_option (reported_key e)) d"
    using run_deploy_keys [OF assms(1), of "{}"] by (simp add: keys_in_def mountDeploy_def)
  have "\<exists>f q err. DeploySettles f q \<in> set es \<and> deployHelper f (snd q) = Inl err \<and> deployFingerprintOf err = Some fp"
    if fp: "hd_hostKeyFingerprint r = Some fp" for fp
  proof -
    obtain e where e: "e \<in> set es" "reported_key e = Some fp"
      using k assms(2) fp by (fastforce simp: keys_in_def)
    obtain f q err where "e = DeploySettles f q" "deployResult f (snd q) = Inl err" "deployFingerprintOf err = Some fp"
      using e(2) by (cases e) (auto split: sum.splits)
    moreover from this have "deployHelper f (snd q) = Inl err"
      by (auto simp: deployResult_def bind_exn_Inl_iff get_prop_def deployFingerprintOf_def split: if_splits)
    ultimately show ?thesis using e(1) by blast
  qed
  then show ?thesis using k assms(2) by (auto simp: keys_in_def)
qed

definition lab_props :: deployProps where
  "lab_props = \<lparr>dq_hosts = [\<lparr>px_id = IdStr ''h1'', px_name = ''lab'', px_baseUrl = [], px_tokenId = [], px_insecureTLS = False,
       px_status = ''online'', px_lastSeen = None\<rparr>],
     dq_nodesByHost = (\<lambda>_. Some [''pve1'']), dq_defaultAddress = Some ''pve1'', dq_origin = []\<rparr>"

definition key_first :: fetch where
  "key_first req = Inr \<lparr>rs_status = 409, rs_text = Inr (json_str (JObj [(''fingerprint'', JStr ''SHA256:k'')]))\<rparr>"

lemma key_first_answer: "\<exists>err. deployHelper key_first r = Inl err \<and> deployFingerprintOf err = Some ''SHA256:k''"
proof -
  have "json_parse (json_str (JObj [(''fingerprint'', JStr ''SHA256:k'')])) = Some (JObj [(''fingerprint'', JStr ''SHA256:k'')])"
    by (rule json_parse_json_str) simp
  moreover have "json_str (JObj [(''fingerprint'', JStr ''SHA256:k'')]) \<noteq> []"
    by (rule json_str_nonempty) simp
  ultimately show ?thesis
    by (simp add: deployHelper_def request_def key_first_def res_ok_def parseError_def error_parts_def deployFingerprintOf_def
        Let_def del: json_str.simps)
qed

definition lab_request :: "string option \<Rightarrow> helperDeployRequest" where
  "lab_request fp =
     \<lparr>hd_hostId = IdStr ''h1'', hd_node = ''pve1'', hd_address = ''pve1'', hd_port = Some (portOr ''22'' 22), hd_username = ''root'',
      hd_password = ''x'', hd_serverUrl = [], hd_helperPort = Some (portOr ''8007'' 8007), hd_hostKeyFingerprint = fp\<rparr>"

lemma trim_lab: "trim ''pve1'' = ''pve1''" "trim ''root'' = ''root''"
  by code_simp+

lemma lab_run:
  "\<exists>d. run_events deployStep deployOffered
      [OpenDeploy lab_props, EditSshPassword ''x'', SubmitDeploy, DeploySettles key_first (''pve1'', lab_request None), SubmitDeploy]
      (mountDeploy lab_props) = Some d \<and>
    dp_sent d = [lab_request (Some ''SHA256:k''), lab_request None]"
proof -
  obtain err where "deployHelper key_first (lab_request None) = Inl err" "deployFingerprintOf err = Some ''SHA256:k''"
    using key_first_answer by blast
  then show ?thesis
    using trim_lab
    by (simp add: mountDeploy_def resetDeploy_def lab_props_def firstNode_def nodesOf_def submitDeploy_def deployProblem_def
        deployRequest_def lab_request_def settleDeploy_def deployResult_def opt_text_def Let_def)
qed

theorem deploy_trusts_reported_witness:
  "\<exists>f q err. DeploySettles f q \<in> set [OpenDeploy lab_props, EditSshPassword ''x'', SubmitDeploy,
       DeploySettles key_first (''pve1'', lab_request None), SubmitDeploy] \<and>
     deployHelper f (snd q) = Inl err \<and> deployFingerprintOf err = Some ''SHA256:k''"
proof -
  obtain d where d: "run_events deployStep deployOffered
      [OpenDeploy lab_props, EditSshPassword ''x'', SubmitDeploy, DeploySettles key_first (''pve1'', lab_request None), SubmitDeploy]
      (mountDeploy lab_props) = Some d"
    "dp_sent d = [lab_request (Some ''SHA256:k''), lab_request None]" using lab_run by blast
  have "hd_hostKeyFingerprint (lab_request (Some ''SHA256:k'')) = Some ''SHA256:k''" by (simp add: lab_request_def)
  then show ?thesis
    using deploy_trusts_reported [OF d(1), of "lab_request (Some ''SHA256:k'')"] d(2) by simp
qed

end
