(* ===== verification/Shell.thy ===== *)
theory Shell
  imports Ui_Machine Js_Value
begin

text \<open>
  What surrounds every page: the queue of notifications with its timers
  (\<open>web/src/components/Toast.tsx\<close>) and the colour theme with its stored choice
  (\<open>web/src/theme.tsx\<close>).
\<close>

subsection \<open>Notifications\<close>

datatype toastKind = ToastSuccess | ToastError | ToastInfo

text \<open>The callback of an action is named by a number; calling it is recorded.\<close>

record toastAction =
  ta_label :: string
  ta_onClick :: nat

record toast =
  t_id :: nat
  t_kind :: toastKind
  t_title :: string
  t_detail :: "string option"
  t_action :: "toastAction option"

text \<open>
  \<open>ts_timers\<close> are the timers that have not fired, each with the toast it dismisses and the
  millisecond it is due; a dismissal leaves the timer of the toast armed.
\<close>

record toasts =
  ts_list :: "toast list"
  ts_nextId :: nat
  ts_timers :: "(nat \<times> nat) list"
  ts_now :: nat
  ts_called :: "nat list"

definition ToastProvider :: toasts where
  "ToastProvider = \<lparr>ts_list = [], ts_nextId = 1, ts_timers = [], ts_now = 0, ts_called = []\<rparr>"

definition dismiss :: "nat \<Rightarrow> toasts \<Rightarrow> toasts" where
  "dismiss i s = s\<lparr>ts_list := filter (\<lambda>t. t_id t \<noteq> i) (ts_list s)\<rparr>"

definition toastDelay :: "toastKind \<Rightarrow> toastAction option \<Rightarrow> nat" where
  "toastDelay kind action = (if kind = ToastError \<or> action \<noteq> None then 8000 else 4500)"

definition pushToast :: "toastKind \<Rightarrow> string \<Rightarrow> string option \<Rightarrow> toastAction option \<Rightarrow> toasts \<Rightarrow> toasts" where
  "pushToast kind title detail action s =
     (let i = ts_nextId s
      in s\<lparr>ts_nextId := i + 1,
           ts_list := slice_last 4 (ts_list s) @
             [\<lparr>t_id = i, t_kind = kind, t_title = title, t_detail = detail, t_action = action\<rparr>],
           ts_timers := (i, ts_now s + toastDelay kind action) # ts_timers s\<rparr>)"

datatype toastEvent =
    PushToast toastKind string "string option" "toastAction option"
  | Dismiss nat
  | RunAction toast
  | ToastTimer nat nat
  | Elapse nat

fun toastOffered :: "toasts \<Rightarrow> toastEvent \<Rightarrow> bool" where
  "toastOffered s (PushToast k title detail action) = True"
| "toastOffered s (Dismiss i) = (i \<in> set (map t_id (ts_list s)))"
| "toastOffered s (RunAction t) = (t \<in> set (ts_list s) \<and> t_action t \<noteq> None)"
| "toastOffered s (ToastTimer i due) = ((i, due) \<in> set (ts_timers s) \<and> due \<le> ts_now s)"
| "toastOffered s (Elapse ms) = True"

fun toastStep :: "toastEvent \<Rightarrow> toasts \<Rightarrow> toasts" where
  "toastStep (PushToast k title detail action) s = pushToast k title detail action s"
| "toastStep (Dismiss i) s = dismiss i s"
| "toastStep (RunAction t) s =
     dismiss (t_id t)
       (case t_action t of Some a \<Rightarrow> s\<lparr>ts_called := ta_onClick a # ts_called s\<rparr> | None \<Rightarrow> s)"
| "toastStep (ToastTimer i due) s = dismiss i (s\<lparr>ts_timers := remove1 (i, due) (ts_timers s)\<rparr>)"
| "toastStep (Elapse ms) s = s\<lparr>ts_now := ts_now s + ms\<rparr>"

subsection \<open>Theme\<close>

datatype themeChoice = ChooseLight | ChooseDark | ChooseSystem

datatype resolvedTheme = LightTheme | DarkTheme

text \<open>
  The browser: the stored value of the key \<open>proxback.theme\<close>, whether \<open>localStorage\<close> may be used (it throws in a
  private window), and what \<open>matchMedia\<close> says, \<open>None\<close> where it does not exist.
\<close>

record themeHost =
  th_stored :: "string option"
  th_storage :: bool
  th_prefersLight :: "bool option"

record theme =
  th_choice :: themeChoice
  th_system :: resolvedTheme
  th_applied :: resolvedTheme
  th_host :: themeHost

definition readStored :: "themeHost \<Rightarrow> themeChoice" where
  "readStored h =
     (if \<not> th_storage h then ChooseSystem
      else if th_stored h = Some ''light'' then ChooseLight
      else if th_stored h = Some ''dark'' then ChooseDark
      else ChooseSystem)"

definition systemTheme :: "themeHost \<Rightarrow> resolvedTheme" where
  "systemTheme h = (if th_prefersLight h = Some True then LightTheme else DarkTheme)"

fun resolveTheme :: "themeChoice \<Rightarrow> resolvedTheme \<Rightarrow> resolvedTheme" where
  "resolveTheme ChooseLight system = LightTheme"
| "resolveTheme ChooseDark system = DarkTheme"
| "resolveTheme ChooseSystem system = system"

text \<open>The effect that writes the resolved theme on the root element follows every change.\<close>

definition applyTheme :: "theme \<Rightarrow> theme" where
  "applyTheme t = t\<lparr>th_applied := resolveTheme (th_choice t) (th_system t)\<rparr>"

definition ThemeProvider :: "themeHost \<Rightarrow> theme" where
  "ThemeProvider h =
     (let choice = readStored h; system = systemTheme h
      in \<lparr>th_choice = choice, th_system = system, th_applied = resolveTheme choice system, th_host = h\<rparr>)"

definition storeChoice :: "themeChoice \<Rightarrow> themeHost \<Rightarrow> themeHost" where
  "storeChoice next h =
     (if \<not> th_storage h then h
      else h\<lparr>th_stored := (case next of ChooseSystem \<Rightarrow> None | ChooseLight \<Rightarrow> Some ''light'' | ChooseDark \<Rightarrow> Some ''dark'')\<rparr>)"

definition setChoice :: "themeChoice \<Rightarrow> theme \<Rightarrow> theme" where
  "setChoice next t = applyTheme (t\<lparr>th_choice := next, th_host := storeChoice next (th_host t)\<rparr>)"

text \<open>\<open>SystemFlips\<close> is the change event of the media query, \<open>ReloadConsole\<close> a reload of the page.\<close>

datatype themeEvent = PickTheme themeChoice | SystemFlips bool | ReloadConsole

fun themeOffered :: "theme \<Rightarrow> themeEvent \<Rightarrow> bool" where
  "themeOffered t (SystemFlips light) = (th_prefersLight (th_host t) \<noteq> None)"
| "themeOffered t _ = True"

fun themeStep :: "themeEvent \<Rightarrow> theme \<Rightarrow> theme" where
  "themeStep (PickTheme c) t = setChoice c t"
| "themeStep (SystemFlips light) t =
     (let h = (th_host t)\<lparr>th_prefersLight := Some light\<rparr>
      in applyTheme (t\<lparr>th_host := h, th_system := (if light then LightTheme else DarkTheme)\<rparr>))"
| "themeStep ReloadConsole t = ThemeProvider (th_host t)"

definition OPTIONS :: "(themeChoice \<times> string) list" where
  "OPTIONS = [(ChooseLight, ''Light''), (ChooseSystem, ''System''), (ChooseDark, ''Dark'')]"

text \<open>The switch: label and whether it is the current choice.\<close>

definition ThemeToggle :: "theme \<Rightarrow> (string \<times> bool) list" where
  "ThemeToggle t = map (\<lambda>(c, label). (label @ '' theme'', c = th_choice t)) OPTIONS"

subsection \<open>Lemmas: notifications\<close>

text \<open>
  The queue: at most five, ids in the order of arrival and below the next one, and for every toast a
  timer that is due within eight seconds.
\<close>

definition toasts_inv :: "toasts \<Rightarrow> bool" where
  "toasts_inv s \<longleftrightarrow>
     length (ts_list s) \<le> 5 \<and> sorted_wrt (<) (map t_id (ts_list s)) \<and>
     list_all (\<lambda>t. t_id t < ts_nextId s) (ts_list s) \<and>
     list_all (\<lambda>t. \<exists>due. (t_id t, due) \<in> set (ts_timers s) \<and> due \<le> ts_now s + 8000) (ts_list s)"

lemma dismiss_inv: "toasts_inv s \<Longrightarrow> toasts_inv (dismiss i s)"
  unfolding toasts_inv_def dismiss_def
  by (auto simp: list_all_iff filter_map [symmetric, unfolded comp_def] sorted_wrt_map
      intro: sorted_wrt_filter le_trans [OF length_filter_le])

lemma push_inv:
  assumes "toasts_inv s"
  shows "toasts_inv (pushToast k title detail action s)"
proof -
  let ?xs = "slice_last 4 (ts_list s)"
  have sub: "set ?xs \<subseteq> set (ts_list s)" by (rule set_slice_last)
  have "sorted_wrt (<) (map t_id ?xs)"
    using assms by (simp add: toasts_inv_def slice_last_def drop_map [symmetric] sorted_wrt_drop)
  then show ?thesis
    using assms sub
    by (auto simp: toasts_inv_def pushToast_def Let_def list_all_iff sorted_wrt_append toastDelay_def
        intro: less_SucI)
qed

lemma toastStep_inv:
  assumes "toasts_inv s" "toastOffered s e"
  shows "toasts_inv (toastStep e s)"
proof (cases e)
  case (RunAction t)
  have "toasts_inv (case t_action t of Some a \<Rightarrow> s\<lparr>ts_called := ta_onClick a # ts_called s\<rparr> | None \<Rightarrow> s)"
    using assms(1) by (simp add: toasts_inv_def split: option.splits)
  then show ?thesis using RunAction dismiss_inv by simp
next
  case (ToastTimer i due)
  have "list_all (\<lambda>t. \<exists>d. (t_id t, d) \<in> set (remove1 (i, due) (ts_timers s)) \<and> d \<le> ts_now s + 8000)
      (filter (\<lambda>t. t_id t \<noteq> i) (ts_list s))"
    using assms(1) by (fastforce simp: toasts_inv_def list_all_iff)
  moreover have "toasts_inv (dismiss i s)" by (rule dismiss_inv [OF assms(1)])
  ultimately show ?thesis using ToastTimer by (simp add: toasts_inv_def dismiss_def)
next
  case (Elapse ms)
  then show ?thesis using assms(1) by (fastforce simp: toasts_inv_def list_all_iff)
qed (use assms dismiss_inv push_inv in simp_all)

text \<open>The toasts that came after one, and the events that take one away.\<close>

definition newer :: "nat \<Rightarrow> toasts \<Rightarrow> nat" where
  "newer i s = length (filter (\<lambda>t. i < t_id t) (ts_list s))"

fun removes :: "nat \<Rightarrow> toastEvent \<Rightarrow> bool" where
  "removes i (Dismiss j) = (j = i)"
| "removes i (RunAction t) = (t_id t = i)"
| "removes i (ToastTimer j due) = (j = i)"
| "removes i _ = False"

fun is_push :: "toastEvent \<Rightarrow> bool" where
  "is_push (PushToast k title detail action) = True"
| "is_push _ = False"

lemma slice_last_keeps:
  assumes "sorted_wrt (<) (map t_id xs)" "t \<in> set xs" "length (filter (\<lambda>u. t_id t < t_id u) xs) < n"
  shows "t \<in> set (slice_last n xs)"
proof (rule ccontr)
  assume out: "t \<notin> set (slice_last n xs)"
  let ?k = "length xs - n"
  have split: "xs = take ?k xs @ slice_last n xs" by (simp add: slice_last_def)
  then have "t \<in> set (take ?k xs)" using assms(2) out by (metis Un_iff set_append)
  moreover have "sorted_wrt (<) (map t_id (take ?k xs @ slice_last n xs))" using assms(1) split by metis
  ultimately have "\<forall>u\<in>set (slice_last n xs). t_id t < t_id u" by (auto simp: sorted_wrt_append)
  then have "filter (\<lambda>u. t_id t < t_id u) (slice_last n xs) = slice_last n xs" by (simp add: filter_id_conv)
  then have "length (slice_last n xs) \<le> length (filter (\<lambda>u. t_id t < t_id u) xs)"
    by (metis split filter_append length_append le_add2)
  moreover have "n \<le> length xs" using out assms(2) by (cases "n \<le> length xs") (simp_all add: slice_last_def)
  ultimately show False using assms(3) by simp
qed

lemma newer_dismiss: "newer i (dismiss j s) \<le> newer i s"
  by (simp add: newer_def dismiss_def filter_filter [symmetric] del: filter_filter)
    (metis (no_types, lifting) filter_filter length_filter_le conj_commute filter_cong)

lemma newer_push: "newer i (pushToast k title detail action s) \<le> newer i s + 1"
proof -
  have "length (filter P (slice_last 4 xs)) \<le> length (filter P xs)" for P and xs :: "toast list"
    by (metis slice_last_def append_take_drop_id filter_append length_append le_add2)
  then show ?thesis by (simp add: newer_def pushToast_def Let_def le_SucI)
qed

lemma toastStep_keeps:
  assumes "toasts_inv s" "toastOffered s e" "t \<in> set (ts_list s)" "\<not> removes (t_id t) e"
    "newer (t_id t) s + (if is_push e then 1 else 0) \<le> 4"
  shows "t \<in> set (ts_list (toastStep e s)) \<and>
    newer (t_id t) (toastStep e s) \<le> newer (t_id t) s + (if is_push e then 1 else 0)"
proof (cases e)
  case (PushToast k title detail action)
  have "t \<in> set (slice_last 4 (ts_list s))"
    using assms PushToast by (intro slice_last_keeps) (simp_all add: toasts_inv_def newer_def)
  then show ?thesis
    using PushToast newer_push [of "t_id t" k title detail action s] by (simp add: pushToast_def Let_def)
next
  case (RunAction u)
  then show ?thesis using assms(3,4) newer_dismiss [of "t_id t" "t_id u" "case t_action u of Some a \<Rightarrow> s\<lparr>ts_called := ta_onClick a # ts_called s\<rparr> | None \<Rightarrow> s"]
    by (auto simp: dismiss_def newer_def split: option.splits)
next
  case (ToastTimer i due)
  then show ?thesis using assms(3,4) newer_dismiss [of "t_id t" i "s\<lparr>ts_timers := remove1 (i, due) (ts_timers s)\<rparr>"]
    by (simp add: dismiss_def newer_def)
qed (use assms newer_dismiss in \<open>auto simp: dismiss_def newer_def\<close>)

lemma run_toasts_keep:
  "run_events toastStep toastOffered es s = Some s' \<Longrightarrow> toasts_inv s \<Longrightarrow> t \<in> set (ts_list s) \<Longrightarrow>
     list_all (\<lambda>e. \<not> removes (t_id t) e) es \<Longrightarrow> newer (t_id t) s + length (filter is_push es) \<le> 4 \<Longrightarrow>
     t \<in> set (ts_list s')"
proof (induction es arbitrary: s)
  case (Cons e es)
  then have o: "toastOffered s e" and r: "run_events toastStep toastOffered es (toastStep e s) = Some s'"
    by (simp_all split: if_splits)
  have k: "t \<in> set (ts_list (toastStep e s))"
      "newer (t_id t) (toastStep e s) \<le> newer (t_id t) s + (if is_push e then 1 else 0)"
    using toastStep_keeps [OF Cons.prems(2) o Cons.prems(3)] Cons.prems(4,5) by (auto split: if_splits)
  show ?case
    by (rule Cons.IH [OF r toastStep_inv [OF Cons.prems(2) o] k(1)]) (use Cons.prems(4,5) k(2) in \<open>auto split: if_splits\<close>)
qed simp

subsection \<open>Lemmas: theme\<close>

definition theme_inv :: "theme \<Rightarrow> bool" where
  "theme_inv t \<longleftrightarrow>
     th_applied t = resolveTheme (th_choice t) (th_system t) \<and> th_system t = systemTheme (th_host t) \<and>
     (th_storage (th_host t) \<longrightarrow> readStored (th_host t) = th_choice t)"

lemma themeStep_inv: "theme_inv t \<Longrightarrow> themeOffered t e \<Longrightarrow> theme_inv (themeStep e t)"
  by (cases e)
    (auto simp: theme_inv_def setChoice_def applyTheme_def storeChoice_def readStored_def systemTheme_def
      ThemeProvider_def Let_def split: themeChoice.splits)

subsection \<open>Properties\<close>

text \<open>
  At every moment at most five notifications are on screen,
  in the order they came, and each has a timer that takes it away within eight seconds; and a
  notification on screen that is neither dismissed, used nor expired stays there while fewer than
  five newer ones exist.
\<close>

theorem toast_queue:
  assumes "reaches toastStep toastOffered ToastProvider s"
  shows "length (ts_list s) \<le> 5 \<and> sorted_wrt (<) (map t_id (ts_list s)) \<and>
    (\<forall>t\<in>set (ts_list s). \<exists>due. (t_id t, due) \<in> set (ts_timers s) \<and> due \<le> ts_now s + 8000) \<and>
    (\<forall>t\<in>set (ts_list s). \<forall>es s'. run_events toastStep toastOffered es s = Some s' \<longrightarrow>
       (\<forall>e\<in>set es. \<not> removes (t_id t) e) \<longrightarrow> newer (t_id t) s + length (filter is_push es) \<le> 4 \<longrightarrow>
       t \<in> set (ts_list s'))"
proof -
  have "toasts_inv ToastProvider" by (simp add: toasts_inv_def ToastProvider_def)
  with assms have inv: "toasts_inv s" using toastStep_inv by (rule reaches_invariant)
  then have "t \<in> set (ts_list s')"
    if "t \<in> set (ts_list s)" "run_events toastStep toastOffered es s = Some s'" "\<forall>e\<in>set es. \<not> removes (t_id t) e"
      "newer (t_id t) s + length (filter is_push es) \<le> 4" for t es s'
    using that run_toasts_keep by (simp add: list_all_iff)
  with inv show ?thesis by (auto simp: toasts_inv_def list_all_iff)
qed

theorem toast_queue_witness:
  "\<exists>s. run_events toastStep toastOffered
     [PushToast ToastError ''a'' None None, PushToast ToastInfo ''b'' None None, PushToast ToastInfo ''c'' None None,
      PushToast ToastInfo ''d'' None None, PushToast ToastInfo ''e'' None None, PushToast ToastInfo ''f'' None None,
      Elapse 5000, ToastTimer 4 4500] ToastProvider = Some s \<and>
     map t_title (ts_list s) = [''b'', ''c'', ''e'', ''f''] \<and> length (ts_list s) \<le> 5"
proof -
  obtain s where s: "run_events toastStep toastOffered
     [PushToast ToastError ''a'' None None, PushToast ToastInfo ''b'' None None, PushToast ToastInfo ''c'' None None,
      PushToast ToastInfo ''d'' None None, PushToast ToastInfo ''e'' None None, PushToast ToastInfo ''f'' None None,
      Elapse 5000, ToastTimer 4 4500] ToastProvider = Some s"
     "map t_title (ts_list s) = [''b'', ''c'', ''e'', ''f'']"
    by (simp add: ToastProvider_def pushToast_def toastDelay_def slice_last_def dismiss_def Let_def)
  have "length (ts_list s) \<le> 5" using toast_queue [OF run_events_reaches [OF s(1)]] by (rule conjunct1)
  with s show ?thesis by (intro exI conjI)
qed

text \<open>
  The root element always carries the theme the choice resolves
  to, which is the one of the operating system as it is now when the choice is to follow it; and
  where the browser can store it, reloading the console keeps the choice and the theme.
\<close>

theorem theme_persists:
  assumes "reaches themeStep themeOffered (ThemeProvider h) t"
  shows "th_applied t = resolveTheme (th_choice t) (systemTheme (th_host t)) \<and>
    (th_storage (th_host t) \<longrightarrow> themeStep ReloadConsole t = t)"
proof -
  have "theme_inv (ThemeProvider h)" by (simp add: theme_inv_def ThemeProvider_def Let_def)
  with assms have "theme_inv t" using themeStep_inv by (rule reaches_invariant)
  then show ?thesis by (auto simp: theme_inv_def ThemeProvider_def Let_def)
qed

theorem theme_persists_witness:
  "themeStep ReloadConsole (themeStep (PickTheme ChooseLight) (ThemeProvider \<lparr>th_stored = None, th_storage = True, th_prefersLight = Some False\<rparr>)) =
    themeStep (PickTheme ChooseLight) (ThemeProvider \<lparr>th_stored = None, th_storage = True, th_prefersLight = Some False\<rparr>)"
proof -
  let ?h = "\<lparr>th_stored = None, th_storage = True, th_prefersLight = Some False\<rparr>"
  have "reaches themeStep themeOffered (ThemeProvider ?h) (themeStep (PickTheme ChooseLight) (ThemeProvider ?h))"
    by (rule reaches_step [OF reaches_refl]) simp
  from theme_persists [OF this] show ?thesis
    by (simp add: setChoice_def applyTheme_def storeChoice_def ThemeProvider_def Let_def)
qed

end
