(* ===== verification/Run_Views.thy ===== *)
theory Run_Views
  imports Restore_Wizard
begin

text \<open>
  What the console shows of a run (\<open>web/src/components/RunLive.tsx\<close>): the throughput samples, the
  table of workloads and the card of a run in flight, with the progress bar, the gauge and the
  sparkline they draw (\<open>web/src/components/ui.tsx\<close>). Styling is left out; an element is its text and
  the numbers it is drawn with.
\<close>

subsection \<open>Runs\<close>

datatype sourceStatus = SourcePending | SourceRunning | SourceSuccess | SourceFailed | SourceSkipped

text \<open>The position is the index the server counts the sources with.\<close>

record runSource =
  rs_seq :: int
  rs_name :: string
  rs_kind :: jobKind
  rs_node :: "string option"
  rs_hostName :: "string option"
  rs_vmid :: "jsnum option"
  rs_status :: sourceStatus
  rs_bytesProcessed :: jsnum
  rs_bytesUploaded :: jsnum
  rs_sizeBytes :: jsnum
  rs_progressPct :: jsnum
  rs_startedAt :: "string option"
  rs_finishedAt :: "string option"
  rs_error :: "string option"

record restoreDestination =
  de_host :: "string option"
  de_node :: "string option"
  de_vmid :: "jsnum option"
  de_storage :: "string option"
  de_mode :: "restoreMode option"
  de_destPath :: "string option"

record runDetail = jobRun +
  rd_sources :: "runSource list"
  rd_throughputBps :: jsnum
  rd_destination :: "restoreDestination option"

text \<open>What \<open>reductionOf\<close> reads of a run.\<close>

definition figuresOf :: "'a jobRun_scheme \<Rightarrow> runFigures" where
  "figuresOf run =
     \<lparr>rf_kind = jr_kind run, rf_bytesProcessed = jr_bytesProcessed run, rf_bytesUploaded = jr_bytesUploaded run,
      rf_reductionPct = jr_reductionPct run, rf_reductionRatio = jr_reductionRatio run\<rparr>"

subsection \<open>Drawing\<close>

datatype pillTone = OkTone | WarnTone | FailTone | BrandTone | NeutralTone

definition toneForStatus :: "string option \<Rightarrow> pillTone" where
  "toneForStatus status =
     (let s = map ascii_lower (case status of Some s \<Rightarrow> s | None \<Rightarrow> [])
      in if s \<in> set [''online'', ''ok'', ''success'', ''connected'', ''healthy'', ''passed'', ''verified''] then OkTone
         else if s = ''running'' then BrandTone
         else if s \<in> set [''stopped'', ''offline'', ''paused'', ''suspended'', ''canceled'', ''cancelled'', ''disabled'']
         then NeutralTone
         else if s \<in> set [''error'', ''failed'', ''unreachable''] then FailTone
         else if s \<in> set [''warning'', ''degraded'', ''pending'', ''limited'', ''unassigned''] then WarnTone
         else NeutralTone)"

text \<open>Tone, label and whether the pill pulses.\<close>

definition RunStatusPill :: "string \<Rightarrow> pillTone \<times> string \<times> bool" where
  "RunStatusPill status =
     (if status = ''success'' then OkTone else if status = ''failed'' then FailTone
      else if status = ''running'' then BrandTone else NeutralTone,
      status, status = ''running'')"

definition barPct :: "jsnum \<Rightarrow> jsnum" where
  "barPct value = js_max (Fin 0) (js_min (Fin 100) (if js_is_finite value then value else Fin 0))"

text \<open>The announced value and the width of the bar.\<close>

definition ProgressBar :: "jsnum \<Rightarrow> jsnum \<times> string" where
  "ProgressBar value = (js_round (barPct value), num_str (barPct value) @ ''%'')"

text \<open>The double \<open>Math.PI\<close>; the length of the dash and its offset.\<close>

definition MATH_PI :: jsnum where
  "MATH_PI = Fin (884279719003555 / 281474976710656)"

definition ArcProgress :: "jsnum \<Rightarrow> jsnum \<Rightarrow> jsnum \<Rightarrow> jsnum \<times> jsnum" where
  "ArcProgress value diameter thickness =
     (let radius = js_div (js_sub diameter thickness) (Fin 2);
          circumference = js_mul (js_mul (Fin 2) MATH_PI) radius;
          sweep = js_mul circumference (Fin (3/4))
      in (sweep, js_mul sweep (js_sub (Fin 1) (js_div (barPct value) (Fin 100)))))"

definition cleanSamples :: "jsnum list \<Rightarrow> jsnum list" where
  "cleanSamples values = filter (\<lambda>v. js_is_finite v \<and> js_le (Fin 0) v) values"

definition sparkPeak :: "jsnum list \<Rightarrow> jsnum" where
  "sparkPeak clean = foldr js_max clean (Fin 1)"

definition sparkPoint :: "jsnum \<Rightarrow> jsnum \<Rightarrow> jsnum list \<Rightarrow> nat \<Rightarrow> jsnum \<times> jsnum" where
  "sparkPoint width height clean index =
     (let padding = Fin 3;
          usableH = js_sub height (js_mul padding (Fin 2));
          x = (if length clean = 1 then width
               else js_mul (js_div (jsint (int index)) (jsint (int (length clean) - 1))) width);
          y = js_sub (js_add padding usableH) (js_mul (js_div (clean ! index) (sparkPeak clean)) usableH)
      in (x, y))"

definition sparkPoints :: "jsnum \<Rightarrow> jsnum \<Rightarrow> jsnum list \<Rightarrow> (jsnum \<times> jsnum) list" where
  "sparkPoints width height values =
     (let clean = cleanSamples values in map (sparkPoint width height clean) [0..<length clean])"

definition point_str :: "jsnum \<times> jsnum \<Rightarrow> string" where
  "point_str p = to_fixed 1 (fst p) @ '','' @ to_fixed 1 (snd p)"

definition sparkLine :: "(jsnum \<times> jsnum) list \<Rightarrow> string" where
  "sparkLine points = join_with '' '' (map point_str points)"

definition sparkArea :: "jsnum \<Rightarrow> (jsnum \<times> jsnum) list \<Rightarrow> string" where
  "sparkArea height points =
     (if 1 < length points
      then to_fixed 1 (fst (hd points)) @ '','' @ num_str height @ '' '' @ sparkLine points @ '' '' @
        to_fixed 1 (fst (last points)) @ '','' @ num_str height
      else [])"

text \<open>The area and the line, or nothing but the dashed floor when there are fewer than two points.\<close>

definition Sparkline :: "jsnum \<Rightarrow> jsnum \<Rightarrow> jsnum list \<Rightarrow> (string \<times> string) option" where
  "Sparkline width height values =
     (let points = sparkPoints width height values
      in if length points < 2 then None else Some (sparkArea height points, sparkLine points))"

subsection \<open>Samples\<close>

definition SAMPLE_CAP :: nat where
  "SAMPLE_CAP = 60"

definition sampleOf :: "jsnum \<Rightarrow> jsnum" where
  "sampleOf value = (if js_is_finite value then js_max (Fin 0) value else Fin 0)"

definition appendSample :: "jsnum list option \<Rightarrow> jsnum \<Rightarrow> jsnum list" where
  "appendSample samples value =
     (let next = (case samples of Some xs \<Rightarrow> xs | None \<Rightarrow> []) @ [sampleOf value]
      in if SAMPLE_CAP < length next then slice_last SAMPLE_CAP next else next)"

subsection \<open>Workload rows\<close>

fun SOURCE_TONE :: "sourceStatus \<Rightarrow> pillTone" where
  "SOURCE_TONE SourcePending = NeutralTone"
| "SOURCE_TONE SourceRunning = BrandTone"
| "SOURCE_TONE SourceSuccess = OkTone"
| "SOURCE_TONE SourceFailed = FailTone"
| "SOURCE_TONE SourceSkipped = NeutralTone"

fun SOURCE_LABEL :: "sourceStatus \<Rightarrow> string" where
  "SOURCE_LABEL SourcePending = ''Queued''"
| "SOURCE_LABEL SourceRunning = ''Running''"
| "SOURCE_LABEL SourceSuccess = ''Done''"
| "SOURCE_LABEL SourceFailed = ''Failed''"
| "SOURCE_LABEL SourceSkipped = ''Skipped''"

datatype sourceGlyph = CheckGlyph | CrossGlyph | LiveGlyph | MinusGlyph | DashedGlyph

fun SourceGlyph :: "sourceStatus \<Rightarrow> sourceGlyph" where
  "SourceGlyph SourceSuccess = CheckGlyph"
| "SourceGlyph SourceFailed = CrossGlyph"
| "SourceGlyph SourceRunning = LiveGlyph"
| "SourceGlyph SourceSkipped = MinusGlyph"
| "SourceGlyph SourcePending = DashedGlyph"

record sourceRow =
  sr_dimmed :: bool
  sr_glyph :: sourceGlyph
  sr_identity :: "string list"
  sr_bar :: "jsnum \<times> string"
  sr_tone :: pillTone
  sr_active :: bool
  sr_pct :: string
  sr_error :: "string option"
  sr_size :: string
  sr_processed :: string
  sr_avoided :: string
  sr_label :: string

definition SourceRow :: "host \<Rightarrow> runSource \<Rightarrow> sourceRow" where
  "SourceRow h s =
     (let running = rs_status s = SourceRunning;
          pending = rs_status s = SourcePending \<or> rs_status s = SourceSkipped;
          saved = js_max (Fin 0) (js_sub (rs_bytesProcessed s) (rs_bytesUploaded s));
          finished = rs_status s = SourceSuccess
      in \<lparr>sr_dimmed = pending, sr_glyph = SourceGlyph (rs_status s),
          sr_identity = inlineIdentity
            \<lparr>w_hostName = rs_hostName s, w_name = rs_name s,
             w_vmid = (case rs_vmid s of Some n \<Rightarrow> JNum n | None \<Rightarrow> JUndef), w_node = rs_node s\<rparr>,
          sr_bar = ProgressBar (rs_progressPct s), sr_tone = SOURCE_TONE (rs_status s), sr_active = running,
          sr_pct = to_fixed 0 (clampPct (Some (rs_progressPct s))) @ ''%'', sr_error = opt_text (rs_error s),
          sr_size = formatBytes h (Some (rs_sizeBytes s)) 1,
          sr_processed = formatBytes h (Some (rs_bytesProcessed s)) 1,
          sr_avoided = (if finished \<or> running then formatBytes h (Some saved) 1 else em_dash),
          sr_label = SOURCE_LABEL (rs_status s)\<rparr>)"

text \<open>The rows in the order the run walks its sources, \<open>None\<close> when it has reported none.\<close>

definition orderedSources :: "runSource list \<Rightarrow> runSource list" where
  "orderedSources sources = sort_by (\<lambda>a b. rs_seq a - rs_seq b) sources"

definition SourceBreakdown :: "host \<Rightarrow> runSource list \<Rightarrow> sourceRow list option" where
  "SourceBreakdown h sources = (if sources = [] then None else Some (map (SourceRow h) (orderedSources sources)))"

subsection \<open>The card of a run in flight\<close>

definition finishedSources :: "runSource list \<Rightarrow> nat" where
  "finishedSources sources = length (filter (\<lambda>s. rs_status s = SourceSuccess \<or> rs_status s = SourceSkipped) sources)"

definition failedSources :: "runSource list \<Rightarrow> nat" where
  "failedSources sources = length (filter (\<lambda>s. rs_status s = SourceFailed) sources)"

definition totalBytes :: "runSource list \<Rightarrow> jsnum" where
  "totalBytes sources = foldl (\<lambda>sum s. js_add sum (js_max (Fin 0) (rs_sizeBytes s))) (Fin 0) sources"

definition remainingOf :: "host \<Rightarrow> runDetail \<Rightarrow> jsnum option" where
  "remainingOf h detail =
     estimateRemainingSeconds h
       \<lparr>pr_startedAt = Some (jr_startedAt detail), pr_progressPct = jr_progressPct detail,
        pr_bytesProcessed = jr_bytesProcessed detail, pr_totalBytes = totalBytes (rd_sources detail),
        pr_throughputBps = rd_throughputBps detail\<rparr>"

definition peakOf :: "jsnum list \<Rightarrow> jsnum" where
  "peakOf samples = (if samples = [] then Fin 0 else foldr js_max samples NInf)"

text \<open>The step, with the running workload when the step does not name it.\<close>

definition headline :: "runDetail \<Rightarrow> string" where
  "headline detail =
     (if jr_currentStep detail = [] then ''Working'' else jr_currentStep detail) @
     (case find (\<lambda>s. rs_status s = SourceRunning) (rd_sources detail) of
        Some active \<Rightarrow>
          if str_includes (jr_currentStep detail) (rs_name active) then []
          else '' '' @ middle_dot @ '' '' @ rs_name active
      | None \<Rightarrow> [])"

text \<open>The reduction beside the transferred bytes: the ratio when there is one, else the percentage.\<close>

definition reductionText :: "dataReduction \<Rightarrow> string option" where
  "reductionText reduction =
     (if \<not> dr_applies reduction then None
      else Some (case dr_ratio reduction of
             None \<Rightarrow> formatReduction (Some (dr_pct reduction))
           | Some r \<Rightarrow> formatRatio (Some r)))"

record liveCard =
  lc_title :: string
  lc_headline :: string
  lc_gauge :: "jsnum \<times> jsnum"
  lc_tone :: pillTone
  lc_pct :: string
  lc_aria :: string
  lc_caption :: string
  lc_throughput :: string
  lc_peak :: string
  lc_window :: jsnum
  lc_spark :: "(string \<times> string) option"
  lc_elapsed :: string
  lc_remaining :: string
  lc_processed :: string
  lc_transferred :: "string \<times> string option"
  lc_summary :: "string list"
  lc_rows :: "sourceRow list option"

definition cardSummary :: "host \<Rightarrow> runSource list \<Rightarrow> string list" where
  "cardSummary h sources =
     (if sources = [] then []
      else [nat_str (finishedSources sources) @ '' of '' @ nat_str (length sources) @ '' complete''] @
        (if 0 < failedSources sources then [nat_str (failedSources sources) @ '' failed''] else []) @
        (if js_lt (Fin 0) (totalBytes sources) then [formatBytes h (Some (totalBytes sources)) 1 @ '' in scope''] else []))"

definition LiveRunCard :: "host \<Rightarrow> runDetail \<Rightarrow> jsnum list \<Rightarrow> int \<Rightarrow> liveCard" where
  "LiveRunCard h detail samples sampleIntervalMs =
     (let sources = rd_sources detail;
          pct = to_fixed 0 (clampPct (Some (jr_progressPct detail)))
      in \<lparr>lc_title = jr_jobName detail, lc_headline = headline detail,
          lc_gauge = ArcProgress (jr_progressPct detail) (Fin 148) (Fin 9),
          lc_tone = (if 0 < failedSources sources then WarnTone else BrandTone), lc_pct = pct,
          lc_aria = jr_jobName detail @ '' is '' @ pct @ '' percent complete'',
          lc_caption = (if sources = [] then ''in progress''
            else nat_str (finishedSources sources) @ '' of '' @ nat_str (length sources) @ '' done''),
          lc_throughput = formatThroughput h (Some (rd_throughputBps detail)),
          lc_peak = formatThroughput h (Some (peakOf samples)),
          lc_window = js_round (js_div (jsint (int (length samples) * sampleIntervalMs)) (Fin 1000)),
          lc_spark = Sparkline (Fin 220) (Fin 44) samples,
          lc_elapsed = formatDuration h (Some (jr_startedAt detail)) None,
          lc_remaining = (case remainingOf h detail of None \<Rightarrow> ''estimating'' | Some r \<Rightarrow> formatSeconds (Some r)),
          lc_processed = formatBytes h (Some (jr_bytesProcessed detail)) 1,
          lc_transferred = (formatBytes h (Some (jr_bytesUploaded detail)) 1, reductionText (reductionOf (figuresOf detail))),
          lc_summary = cardSummary h sources, lc_rows = SourceBreakdown h sources\<rparr>)"

subsection \<open>Lemmas\<close>

lemma appendSample_slice:
  "appendSample prev v = slice_last SAMPLE_CAP ((case prev of Some xs \<Rightarrow> xs | None \<Rightarrow> []) @ [sampleOf v])"
  by (simp add: appendSample_def Let_def slice_last_def)

lemma sampleOf_nonneg: "\<exists>x. sampleOf v = Fin x \<and> 0 \<le> x"
  by (cases v) (auto simp: sampleOf_def)

lemma comparator_seq: "comparator (\<lambda>a b. rs_seq a - rs_seq b)"
  by (simp add: comparator_def)

lemma cleanSamples_Fin: "v \<in> set (cleanSamples values) \<Longrightarrow> \<exists>a. v = Fin a \<and> 0 \<le> a"
  by (cases v) (auto simp: cleanSamples_def)

lemma sparkPeak_bound:
  assumes "\<forall>v\<in>set clean. \<exists>a. v = Fin a \<and> 0 \<le> a"
  shows "\<exists>m. sparkPeak clean = Fin m \<and> 1 \<le> m \<and> (\<forall>a. Fin a \<in> set clean \<longrightarrow> a \<le> m)"
  using assms
proof (induction clean)
  case (Cons v clean)
  then obtain m where m: "sparkPeak clean = Fin m" "1 \<le> m" "\<forall>a. Fin a \<in> set clean \<longrightarrow> a \<le> m" by auto
  from Cons.prems obtain a where "v = Fin a" by auto
  then have "sparkPeak (v # clean) = Fin (max a m)" using m(1) by (simp add: sparkPeak_def)
  with m \<open>v = Fin a\<close> show ?case by (intro exI [of _ "max a m"]) (auto simp: le_max_iff_disj)
qed (simp add: sparkPeak_def)

text \<open>A quotient within the unit interval, scaled to a length that is an exact integer.\<close>

lemma scaled_range:
  assumes "0 \<le> a" "a \<le> b" "0 < b" "0 \<le> n" "n \<le> 2 ^ 53"
  shows "\<exists>r. js_mul (js_div (Fin a) (Fin b)) (jsint n) = Fin r \<and> 0 \<le> r \<and> r \<le> of_int n"
proof -
  have "\<exists>q. fl (a / b) = Fin q \<and> 0 \<le> q \<and> q \<le> 1"
    using assms by (intro fl_range) simp_all
  then obtain q where q: "js_div (Fin a) (Fin b) = Fin q" "0 \<le> q" "q \<le> 1" using assms(3) by auto
  have n: "(0::rat) \<le> of_int n" "rnd (of_int n) = of_int n" "(of_int n :: rat) < 2 ^ 1024"
    using assms(4,5) rnd_of_int [of n] of_int_le_iff [of n "2 ^ 53", where ?'a = rat] by simp_all
  have "\<exists>r. fl (q * of_int n) = Fin r \<and> 0 \<le> r \<and> r \<le> of_int n"
    using q n mult_right_mono [OF q(3) n(1)] by (intro fl_range) simp_all
  with q(1) show ?thesis by simp
qed

lemma sub_range:
  assumes "0 \<le> r" "r \<le> of_int n" "0 \<le> n" "n + k \<le> 2 ^ 53" "0 \<le> k"
  shows "\<exists>y. js_sub (jsint (n + k)) (Fin r) = Fin y \<and> of_int k \<le> y \<and> y \<le> of_int (n + k)"
proof -
  have k: "rnd (of_int k) = of_int k" "rnd (of_int (n + k)) = of_int (n + k)"
    using assms rnd_of_int [of k] rnd_of_int [of "n + k"] by simp_all
  have "(of_int (n + k) :: rat) < 2 ^ 1024"
    using of_int_le_iff [of "n + k" "2 ^ 53", where ?'a = rat] assms(4) by simp
  moreover have "(0::rat) \<le> of_int k" using assms(5) by simp
  ultimately have "\<exists>y. fl (of_int (n + k) - r) = Fin y \<and> of_int k \<le> y \<and> y \<le> of_int (n + k)"
    using assms(1,2) k by (intro fl_range) (simp_all add: less_le_trans [of _ 0])
  then show ?thesis by (simp add: js_sub_def)
qed

subsection \<open>Properties\<close>

text \<open>
  The sample window: whatever rates are reported, the samples kept after them are the last
  sixty, each made finite and non-negative, in the order they came.
\<close>

theorem sample_window:
  "foldl (\<lambda>samples v. appendSample (Some samples) v) [] rates = slice_last SAMPLE_CAP (map sampleOf rates)"
proof (induction rates rule: rev_induct)
  case (snoc v rates)
  then show ?case by (simp add: appendSample_slice slice_last_snoc)
qed (simp add: slice_last_def)

text \<open>
  For every width and height the drawing can have, whatever
  the samples are, there is one point per finite non-negative sample, and every point lies within the
  width and between the paddings, rounding of the arithmetic included.
\<close>

theorem sparkline_in_box:
  assumes "0 \<le> w" "w \<le> 2 ^ 53" "6 \<le> ht" "ht \<le> 2 ^ 53"
  shows "length (sparkPoints (jsint w) (jsint ht) values) = length (cleanSamples values) \<and>
    (\<forall>p\<in>set (sparkPoints (jsint w) (jsint ht) values).
       \<exists>x y. p = (Fin x, Fin y) \<and> 0 \<le> x \<and> x \<le> of_int w \<and> 3 \<le> y \<and> y \<le> of_int (ht - 3))"
proof -
  let ?clean = "cleanSamples values"
  obtain m where m: "sparkPeak ?clean = Fin m" "1 \<le> m" "\<forall>a. Fin a \<in> set ?clean \<longrightarrow> a \<le> m"
    using sparkPeak_bound [of ?clean] cleanSamples_Fin by blast
  have usable: "js_sub (jsint ht) (js_mul (Fin 3) (Fin 2)) = jsint (ht - 6)" "js_add (Fin 3) (jsint (ht - 6)) = jsint ((ht - 6) + 3)"
    using assms fl_of_int [of "6"] fl_of_int [of "ht - 6"] fl_of_int [of "ht - 3"] by (simp_all add: js_sub_def)
  have "\<exists>x y. sparkPoint (jsint w) (jsint ht) ?clean i = (Fin x, Fin y) \<and>
      0 \<le> x \<and> x \<le> of_int w \<and> 3 \<le> y \<and> y \<le> of_int (ht - 3)" if i: "i < length ?clean" for i
  proof -
    obtain a where a: "?clean ! i = Fin a" "0 \<le> a" using cleanSamples_Fin [of "?clean ! i" "values"] i by auto
    then have "a \<le> m" using m(3) i nth_mem by metis
    with a m(2) obtain r where r: "js_mul (js_div (?clean ! i) (Fin m)) (jsint (ht - 6)) = Fin r" "0 \<le> r" "r \<le> of_int (ht - 6)"
      using scaled_range [of a m "ht - 6"] assms by auto
    obtain y where y: "js_sub (jsint ((ht - 6) + 3)) (Fin r) = Fin y" "3 \<le> y" "y \<le> of_int (ht - 3)"
      using sub_range [of r "ht - 6" 3] r assms by auto
    have "\<exists>x. (if length ?clean = 1 then jsint w
        else js_mul (js_div (jsint (int i)) (jsint (int (length ?clean) - 1))) (jsint w)) = Fin x \<and> 0 \<le> x \<and> x \<le> of_int w"
    proof (cases "length ?clean = 1")
      case False
      then show ?thesis using scaled_range [of "of_int (int i)" "of_int (int (length ?clean) - 1)" w] i assms
        by (simp add: of_nat_diff)
    qed (use assms in simp)
    then show ?thesis using y r(1) m(1) usable by (auto simp: sparkPoint_def Let_def)
  qed
  then show ?thesis by (auto simp: sparkPoints_def Let_def)
qed

theorem sparkline_in_box_witness:
  "length (sparkPoints (Fin 220) (Fin 44) [Fin 5, NaN, Fin 9]) = 2 \<and>
    (\<exists>x y. sparkPoints (Fin 220) (Fin 44) [Fin 5, NaN, Fin 9] ! 0 = (Fin x, Fin y) \<and> x \<le> 220 \<and> 3 \<le> y \<and> y \<le> 41)"
proof -
  have box: "length (sparkPoints (Fin 220) (Fin 44) [Fin 5, NaN, Fin 9]) = 2"
    "\<forall>p\<in>set (sparkPoints (Fin 220) (Fin 44) [Fin 5, NaN, Fin 9]).
       \<exists>x y. p = (Fin x, Fin y) \<and> 0 \<le> x \<and> x \<le> 220 \<and> 3 \<le> y \<and> y \<le> 41"
    using sparkline_in_box [of 220 44 "[Fin 5, NaN, Fin 9]"] by (simp_all add: cleanSamples_def js_le_def)
  then have "sparkPoints (Fin 220) (Fin 44) [Fin 5, NaN, Fin 9] ! 0 \<in> set (sparkPoints (Fin 220) (Fin 44) [Fin 5, NaN, Fin 9])"
    by (intro nth_mem) simp
  with box show ?thesis by blast
qed

text \<open>
  The table walks the run: its rows are the reported workloads, each once, in the order of
  their positions; and the card never counts a workload twice.
\<close>

lemma breakdown_in_order:
  "sorted_wrt (\<lambda>a b. rs_seq a \<le> rs_seq b) (orderedSources sources) \<and> set (orderedSources sources) = set sources \<and>
   length (orderedSources sources) = length sources"
  using sorted_sort_by [OF comparator_seq, of sources] by (simp add: orderedSources_def)

lemma card_counts: "finishedSources sources + failedSources sources \<le> length sources"
  by (induction sources) (auto simp: finishedSources_def failedSources_def)

end
