(* ===== verification/Run_Dialog.thy ===== *)
theory Run_Dialog
  imports Run_Views Hooks
begin

text \<open>
  The dialog with everything about one run (\<open>web/src/components/RunDetailModal.tsx\<close>): opening it
  loads the run and its log, a running run is read again every two seconds, and the operator may
  cancel, retry or delete it.
\<close>

subsection \<open>State\<close>

record runLogLine =
  ll_ts :: string
  ll_line :: string

text \<open>
  A reading of run and log that has not settled, with the id it asks for: the first one of an
  opening (whose controller closing aborts), an aborted one, one of the timer, and the one that
  follows a cancellation. The last two carry no signal.
\<close>

datatype runLoad = OpeningLoad js_id | AbortedLoad js_id | PollLoad js_id | CancelLoad js_id

fun ld_id :: "runLoad \<Rightarrow> js_id" where
  "ld_id (OpeningLoad i) = i"
| "ld_id (AbortedLoad i) = i"
| "ld_id (PollLoad i) = i"
| "ld_id (CancelLoad i) = i"

fun abortLoad :: "runLoad \<Rightarrow> runLoad" where
  "abortLoad (OpeningLoad i) = AbortedLoad i"
| "abortLoad l = l"

text \<open>A request keeps the run its handler was called with; a cancellation also the id the dialog was open for.\<close>

datatype runAction =
    CancelOpen runDetail js_id
  | RetryOpen runDetail
  | DeleteOpen runDetail

record runDialog =
  dm_runId :: "js_id option"
  dm_run :: "runDetail option"
  dm_lines :: "runLogLine list"
  dm_loading :: bool
  dm_error :: "string option"
  dm_busy :: bool
  dm_asking :: "runDetail option"
  dm_loads :: "runLoad list"
  dm_out :: "runAction list"
  dm_sent :: "runAction list"
  dm_toasts :: "(string \<times> string) list"
  dm_changed :: nat

definition mountRunDialog :: runDialog where
  "mountRunDialog =
     \<lparr>dm_runId = None, dm_run = None, dm_lines = [], dm_loading = False, dm_error = None, dm_busy = False,
      dm_asking = None, dm_loads = [], dm_out = [], dm_sent = [], dm_toasts = [], dm_changed = 0\<rparr>"

subsection \<open>Handlers\<close>

text \<open>Opening, and closing: the state is cleared and the controller of the first reading aborted.\<close>

definition openRun :: "js_id \<Rightarrow> runDialog \<Rightarrow> runDialog" where
  "openRun i d = d\<lparr>dm_runId := Some i, dm_loading := True, dm_loads := OpeningLoad i # dm_loads d\<rparr>"

definition closeRun :: "runDialog \<Rightarrow> runDialog" where
  "closeRun d =
     d\<lparr>dm_runId := None, dm_run := None, dm_lines := [], dm_error := None, dm_loads := map abortLoad (dm_loads d)\<rparr>"

fun applyLoad :: "(runDetail \<times> runLogLine list option) exn \<Rightarrow> runDialog \<Rightarrow> runDialog" where
  "applyLoad (Inr (detail, lines)) d =
     d\<lparr>dm_run := Some detail, dm_lines := (case lines of Some ls \<Rightarrow> ls | None \<Rightarrow> []), dm_error := None\<rparr>"
| "applyLoad (Inl err) d = (if is_abort err then d else d\<lparr>dm_error := Some (errorMessage err)\<rparr>)"

text \<open>What follows a reading: the first one ends the loading state, the one of a cancellation its handler.\<close>

fun afterLoad :: "runLoad \<Rightarrow> runDialog \<Rightarrow> runDialog" where
  "afterLoad (OpeningLoad i) d = d\<lparr>dm_loading := False\<rparr>"
| "afterLoad (AbortedLoad i) d = d\<lparr>dm_loading := False\<rparr>"
| "afterLoad (PollLoad i) d = d"
| "afterLoad (CancelLoad i) d = d\<lparr>dm_changed := dm_changed d + 1, dm_busy := False\<rparr>"

definition sendRun :: "runAction \<Rightarrow> runDialog \<Rightarrow> runDialog" where
  "sendRun r d = d\<lparr>dm_busy := True, dm_out := r # dm_out d, dm_sent := r # dm_sent d\<rparr>"

definition toastRun :: "string \<Rightarrow> string \<Rightarrow> runDialog \<Rightarrow> runDialog" where
  "toastRun title detail d = d\<lparr>dm_toasts := (title, detail) # dm_toasts d\<rparr>"

definition changedRun :: "runDialog \<Rightarrow> runDialog" where
  "changedRun d = d\<lparr>dm_changed := dm_changed d + 1\<rparr>"

fun settleRun :: "fetch \<Rightarrow> runAction \<Rightarrow> runDialog \<Rightarrow> runDialog" where
  "settleRun f (CancelOpen run i) d =
     (case cancelRun f (jr_id run) of
        Inr _ \<Rightarrow> (let t = toastRun ''Cancellation requested.'' [] d in t\<lparr>dm_loads := CancelLoad i # dm_loads t\<rparr>)
      | Inl err \<Rightarrow> (toastRun ''Could not cancel the run'' (errorMessage err) d)\<lparr>dm_busy := False\<rparr>)"
| "settleRun f (RetryOpen run) d =
     (case retryRun f (jr_id run) of
        Inr _ \<Rightarrow>
          (closeRun (changedRun (toastRun (''Retrying '' @ ldquo @ jr_jobName run @ rdquo @ ''.'')
            ''Watch it on the Monitor page.'' d)))\<lparr>dm_busy := False\<rparr>
      | Inl err \<Rightarrow> (toastRun ''Could not retry the run'' (errorMessage err) d)\<lparr>dm_busy := False\<rparr>)"
| "settleRun f (DeleteOpen run) d =
     (case deleteRun f (jr_id run) of
        Inr _ \<Rightarrow> (closeRun (changedRun (toastRun ''Run deleted from history.'' [] d)))\<lparr>dm_busy := False\<rparr>
      | Inl err \<Rightarrow> (toastRun ''Could not delete the run'' (errorMessage err) d)\<lparr>dm_busy := False\<rparr>)"

subsection \<open>Events\<close>

datatype runDialogEvent =
    OpenRun js_id
  | CloseRun
  | PollTick
  | LoadSettles runLoad "(runDetail \<times> runLogLine list option) exn"
  | ClickCancel
  | ClickRetry
  | ClickDelete
  | AnswerDeleteRun bool
  | RunSettles fetch runAction

definition dialogStatus :: "runDialog \<Rightarrow> runStatus option" where
  "dialogStatus d = map_option jr_status (dm_run d)"

text \<open>
  A button of the footer: the dialog is open and not covered by the confirmation, the role allows
  it and no handler is under way.
\<close>

definition footerReady :: "role \<Rightarrow> runDialog \<Rightarrow> bool" where
  "footerReady role d \<longleftrightarrow>
     dm_runId d \<noteq> None \<and> dm_asking d = None \<and> operateJobs (capabilitiesFor role) \<and> \<not> dm_busy d"

fun load_answer_ok :: "runLoad \<Rightarrow> 'a exn \<Rightarrow> bool" where
  "load_answer_ok (AbortedLoad i) r = (case r of Inl err \<Rightarrow> is_abort err | Inr _ \<Rightarrow> False)"
| "load_answer_ok _ r = (case r of Inl err \<Rightarrow> \<not> is_abort err | Inr _ \<Rightarrow> True)"

text \<open>The page under the dialog cannot be clicked, so it is opened only when it is closed.\<close>

fun runDialogOffered :: "role \<Rightarrow> runDialog \<Rightarrow> runDialogEvent \<Rightarrow> bool" where
  "runDialogOffered role d (OpenRun i) = (dm_runId d = None)"
| "runDialogOffered role d CloseRun = (dm_runId d \<noteq> None)"
| "runDialogOffered role d PollTick = (dm_runId d \<noteq> None \<and> dialogStatus d = Some RunRunning)"
| "runDialogOffered role d (LoadSettles l r) = (l \<in> set (dm_loads d) \<and> load_answer_ok l r)"
| "runDialogOffered role d ClickCancel = (footerReady role d \<and> dialogStatus d = Some RunRunning)"
| "runDialogOffered role d ClickRetry =
     (footerReady role d \<and> (dialogStatus d = Some RunFailed \<or> dialogStatus d = Some RunCanceled))"
| "runDialogOffered role d ClickDelete = (footerReady role d \<and> dm_run d \<noteq> None \<and> dialogStatus d \<noteq> Some RunRunning)"
| "runDialogOffered role d (AnswerDeleteRun ok) = (dm_asking d \<noteq> None)"
| "runDialogOffered role d (RunSettles f r) = (r \<in> set (dm_out d))"

fun runDialogStep :: "runDialogEvent \<Rightarrow> runDialog \<Rightarrow> runDialog" where
  "runDialogStep (OpenRun i) d = openRun i d"
| "runDialogStep CloseRun d = closeRun d"
| "runDialogStep PollTick d =
     (case dm_runId d of None \<Rightarrow> d | Some i \<Rightarrow> d\<lparr>dm_loads := PollLoad i # dm_loads d\<rparr>)"
| "runDialogStep (LoadSettles l r) d = afterLoad l (applyLoad r (d\<lparr>dm_loads := remove1 l (dm_loads d)\<rparr>))"
| "runDialogStep ClickCancel d =
     (case (dm_run d, dm_runId d) of (Some run, Some i) \<Rightarrow> sendRun (CancelOpen run i) d | _ \<Rightarrow> d)"
| "runDialogStep ClickRetry d = (case dm_run d of Some run \<Rightarrow> sendRun (RetryOpen run) d | None \<Rightarrow> d)"
| "runDialogStep ClickDelete d = d\<lparr>dm_asking := dm_run d\<rparr>"
| "runDialogStep (AnswerDeleteRun ok) d =
     (case dm_asking d of
        None \<Rightarrow> d
      | Some run \<Rightarrow> (let q = d\<lparr>dm_asking := None\<rparr> in if ok then sendRun (DeleteOpen run) q else q))"
| "runDialogStep (RunSettles f r) d = settleRun f r (d\<lparr>dm_out := remove1 r (dm_out d)\<rparr>)"

subsection \<open>What it shows\<close>

definition runTitle :: "runDialog \<Rightarrow> string" where
  "runTitle d = (case dm_run d of Some run \<Rightarrow> jr_jobName run | None \<Rightarrow> ''Run detail'')"

definition runSubtitle :: "host \<Rightarrow> runDialog \<Rightarrow> string option" where
  "runSubtitle h d =
     map_option (\<lambda>run. ''Started '' @ formatDateTime h (Some (jr_startedAt run)) @ '' '' @ middle_dot @ '' '' @
       (case opt_text (jr_finishedAt run) of
          Some t \<Rightarrow> ''finished '' @ formatRelative h (Some t) | None \<Rightarrow> ''in progress'')) (dm_run d)"

definition deniedReason :: "role \<Rightarrow> string option" where
  "deniedReason role =
     (if operateJobs (capabilitiesFor role) then None else Some (roleDeniedReason role ''cancel, retry or delete runs''))"

text \<open>The destination of a restore: mode, place and storage.\<close>

definition destinationPlace :: "restoreDestination \<Rightarrow> string" where
  "destinationPlace dest =
     (case opt_text (de_destPath dest) of
        Some path \<Rightarrow> path
      | None \<Rightarrow>
          let parts = List.map_filter opt_text
                [de_host dest, map_option (\<lambda>n. ''VMID '' @ num_str n) (de_vmid dest), de_node dest]
          in if parts = [] then em_dash else join_with '' / '' parts)"

definition destinationRows :: "restoreDestination \<Rightarrow> (string \<times> string) list" where
  "destinationRows dest =
     [(''Mode'', if de_mode dest = Some Overwrite then ''Overwrite original'' else ''Restore alongside''),
      (''Destination'', destinationPlace dest)] @
     (case opt_text (de_storage dest) of Some s \<Rightarrow> [(''Storage'', s)] | None \<Rightarrow> [])"

definition logRows :: "host \<Rightarrow> runLogLine list \<Rightarrow> (string \<times> string) list option" where
  "logRows h lines =
     (if lines = [] then None else Some (map (\<lambda>e. (formatTime h (Some (ll_ts e)), ll_line e)) lines))"

record runBody =
  rb_pill :: "pillTone \<times> string \<times> bool"
  rb_step :: string
  rb_throughput :: "string option"
  rb_progress :: "((jsnum \<times> string) \<times> string) option"
  rb_figures :: "(string \<times> string) list"
  rb_destination :: "(string \<times> string) list"
  rb_error :: "string option"
  rb_rows :: "sourceRow list option"
  rb_log :: "(string \<times> string) list option"

definition reductionFigure :: "dataReduction \<Rightarrow> string" where
  "reductionFigure reduction =
     (if \<not> dr_applies reduction then em_dash
      else formatReduction (Some (dr_pct reduction)) @
        (case dr_ratio reduction of None \<Rightarrow> [] | Some r \<Rightarrow> '' '' @ formatRatio (Some r)))"

definition runBodyOf :: "host \<Rightarrow> runDetail \<Rightarrow> runLogLine list \<Rightarrow> runBody" where
  "runBodyOf h run lines =
     (let running = jr_status run = RunRunning
      in \<lparr>rb_pill = RunStatusPill (run_status_str (jr_status run)), rb_step = jr_currentStep run,
          rb_throughput = (if running then Some (formatThroughput h (Some (rd_throughputBps run))) else None),
          rb_progress =
            (if running
             then Some (ProgressBar (jr_progressPct run), to_fixed 0 (clampPct (Some (jr_progressPct run))) @ ''%'')
             else None),
          rb_figures =
            [(''Source data processed'', formatBytes h (Some (jr_bytesProcessed run)) 1),
             (''Transferred to target'', formatBytes h (Some (jr_bytesUploaded run)) 1),
             (''Data reduction'', reductionFigure (reductionOf (figuresOf run))),
             (''Duration'', formatDuration h (Some (jr_startedAt run)) (jr_finishedAt run))],
          rb_destination = (case rd_destination run of Some dest \<Rightarrow> destinationRows dest | None \<Rightarrow> []),
          rb_error = opt_text (jr_error run), rb_rows = SourceBreakdown h (rd_sources run),
          rb_log = logRows h lines\<rparr>)"

datatype runView = LoadingView | ErrorView string | BodyView runBody | BlankView

definition runViewOf :: "host \<Rightarrow> runDialog \<Rightarrow> runView" where
  "runViewOf h d =
     (case dm_run d of
        Some run \<Rightarrow> BodyView (runBodyOf h run (dm_lines d))
      | None \<Rightarrow> if dm_loading d then LoadingView
                else (case opt_text (dm_error d) of Some e \<Rightarrow> ErrorView e | None \<Rightarrow> BlankView))"

subsection \<open>Lemmas: what is sent\<close>

fun action_ok :: "runAction \<Rightarrow> bool" where
  "action_ok (CancelOpen run i) = (jr_status run = RunRunning)"
| "action_ok (RetryOpen run) = (jr_status run = RunFailed \<or> jr_status run = RunCanceled)"
| "action_ok (DeleteOpen run) = (jr_status run \<noteq> RunRunning)"

fun is_cancel_load :: "runLoad \<Rightarrow> bool" where
  "is_cancel_load (CancelLoad i) = True"
| "is_cancel_load _ = False"

definition cancel_loads :: "runDialog \<Rightarrow> nat" where
  "cancel_loads d = length (filter is_cancel_load (dm_loads d))"

text \<open>The handlers under way: a request that is out, or the reading after a cancellation.\<close>

definition actions_inv :: "role \<Rightarrow> runDialog \<Rightarrow> bool" where
  "actions_inv role d \<longleftrightarrow>
     list_all action_ok (dm_sent d) \<and> (dm_sent d = [] \<or> operateJobs (capabilitiesFor role)) \<and>
     pred_option (\<lambda>run. jr_status run \<noteq> RunRunning \<and> operateJobs (capabilitiesFor role) \<and> \<not> dm_busy d) (dm_asking d) \<and>
     length (dm_out d) + cancel_loads d = (if dm_busy d then 1 else 0)"

lemma applyLoad_frame [simp]:
  "dm_loads (applyLoad r d) = dm_loads d" "dm_out (applyLoad r d) = dm_out d" "dm_sent (applyLoad r d) = dm_sent d"
  "dm_busy (applyLoad r d) = dm_busy d" "dm_asking (applyLoad r d) = dm_asking d" "dm_runId (applyLoad r d) = dm_runId d"
  by (cases r; auto split: prod.splits)+

lemma cancel_loads_abort [simp]: "filter is_cancel_load (map abortLoad ls) = filter is_cancel_load ls"
proof (induction ls)
  case (Cons l ls)
  then show ?case by (cases l) simp_all
qed simp

lemma length_filter_remove1: "l \<in> set ls \<Longrightarrow> length (filter P ls) = length (filter P (remove1 l ls)) + (if P l then 1 else 0)"
  by (induction ls) auto

lemma actions_inv_load:
  assumes "actions_inv role d" "l \<in> set (dm_loads d)"
  shows "actions_inv role (afterLoad l (applyLoad r (d\<lparr>dm_loads := remove1 l (dm_loads d)\<rparr>)))"
  using assms(1) length_filter_remove1 [OF assms(2), of is_cancel_load]
  by (cases l) (auto simp: actions_inv_def cancel_loads_def pred_option_def split: if_splits)

lemma actions_inv_settle:
  assumes "actions_inv role d" "r \<in> set (dm_out d)"
  shows "actions_inv role (settleRun f r (d\<lparr>dm_out := remove1 r (dm_out d)\<rparr>))"
proof -
  have "dm_busy d" "dm_out d = [r]" "cancel_loads d = 0"
    using assms by (cases "dm_out d"; auto simp: actions_inv_def split: if_splits)+
  with assms show ?thesis
    by (cases r)
      (auto simp: actions_inv_def cancel_loads_def toastRun_def closeRun_def changedRun_def Let_def
        pred_option_def split: sum.splits if_splits)
qed

lemma runDialogStep_actions:
  assumes "actions_inv role d" "runDialogOffered role d e"
  shows "actions_inv role (runDialogStep e d)"
proof (cases e)
  case (LoadSettles l r)
  then show ?thesis using actions_inv_load assms by simp
next
  case (RunSettles f r)
  then show ?thesis using actions_inv_settle assms by simp
qed (use assms in \<open>auto simp: actions_inv_def cancel_loads_def footerReady_def dialogStatus_def openRun_def closeRun_def
    sendRun_def pred_option_def Let_def split: option.splits\<close>)

subsection \<open>Lemmas: what is shown\<close>

fun aborted :: "runLoad \<Rightarrow> bool" where
  "aborted (AbortedLoad i) = True"
| "aborted _ = False"

fun signalled :: "runLoad \<Rightarrow> bool" where
  "signalled (PollLoad i) = False"
| "signalled (CancelLoad i) = False"
| "signalled _ = True"

fun is_cancel :: "runAction \<Rightarrow> bool" where
  "is_cancel (CancelOpen run i) = True"
| "is_cancel _ = False"

text \<open>No reading is out that closing cannot abort, and no cancellation that would start one.\<close>

definition quiet :: "runDialog \<Rightarrow> bool" where
  "quiet d \<longleftrightarrow> list_all signalled (dm_loads d) \<and> list_all (\<lambda>r. \<not> is_cancel r) (dm_out d)"

text \<open>The server answers for the run it was asked for, and the dialog closes only when it is quiet.\<close>

fun answers_asked :: "runDialogEvent \<Rightarrow> bool" where
  "answers_asked (LoadSettles l (Inr (detail, lines))) = (id_str (jr_id detail) = id_str (ld_id l))"
| "answers_asked _ = True"

definition orderly :: "runDialog \<Rightarrow> runDialogEvent \<Rightarrow> bool" where
  "orderly d e \<longleftrightarrow> answers_asked e \<and> (dm_runId (runDialogStep e d) = None \<longrightarrow> dm_runId d = None \<or> quiet d)"

definition shown_inv :: "runDialog \<Rightarrow> bool" where
  "shown_inv d \<longleftrightarrow>
     (\<forall>run. dm_run d = Some run \<longrightarrow> map_option id_str (dm_runId d) = Some (id_str (jr_id run))) \<and>
     (\<forall>l\<in>set (dm_loads d). aborted l \<or> dm_runId d = Some (ld_id l)) \<and>
     (\<forall>run i. CancelOpen run i \<in> set (dm_out d) \<longrightarrow> dm_runId d = Some i)"

lemma shown_inv_close: "shown_inv d \<Longrightarrow> dm_runId d = None \<or> quiet d \<Longrightarrow> shown_inv (closeRun d)"
proof -
  assume d: "shown_inv d" "dm_runId d = None \<or> quiet d"
  have "aborted (abortLoad l)" if "l \<in> set (dm_loads d)" for l
    using d that by (cases l) (fastforce simp: shown_inv_def quiet_def list_all_iff)+
  moreover have "CancelOpen run i \<notin> set (dm_out d)" for run i
    using d by (fastforce simp: shown_inv_def quiet_def list_all_iff)
  ultimately show ?thesis by (simp add: shown_inv_def closeRun_def)
qed

lemma shown_inv_load:
  assumes "shown_inv d" "l \<in> set (dm_loads d)" "load_answer_ok l r" "answers_asked (LoadSettles l r)"
  shows "shown_inv (afterLoad l (applyLoad r (d\<lparr>dm_loads := remove1 l (dm_loads d)\<rparr>)))"
proof -
  have "shown_inv (applyLoad r (d\<lparr>dm_loads := remove1 l (dm_loads d)\<rparr>))"
  proof (cases r)
    case (Inl err)
    then show ?thesis using assms(1) notin_set_remove1 by (fastforce simp: shown_inv_def)
  next
    case (Inr x)
    obtain detail lines where x: "x = (detail, lines)" by (cases x)
    have "dm_runId d = Some (ld_id l)" using assms(1-3) Inr by (cases l) (auto simp: shown_inv_def)
    then show ?thesis using assms(1,4) Inr x notin_set_remove1 by (fastforce simp: shown_inv_def)
  qed
  then show ?thesis by (cases l) (simp_all add: shown_inv_def)
qed

lemma shown_inv_settle:
  assumes "shown_inv d" "r \<in> set (dm_out d)" "orderly d (RunSettles f r)"
  shows "shown_inv (settleRun f r (d\<lparr>dm_out := remove1 r (dm_out d)\<rparr>))"
proof -
  let ?d = "d\<lparr>dm_out := remove1 r (dm_out d)\<rparr>"
  have d: "shown_inv ?d" using assms(1) notin_set_remove1 by (fastforce simp: shown_inv_def)
  have frame: "shown_inv (e\<lparr>dm_busy := b\<rparr>) = shown_inv e" "shown_inv (toastRun x y e) = shown_inv e"
    "shown_inv (changedRun e) = shown_inv e" for e b x y
    by (simp_all add: shown_inv_def toastRun_def changedRun_def)
  have close: "shown_inv (closeRun (changedRun (toastRun x y ?d)))" if "dm_runId d = None \<or> quiet d" for x y
  proof (rule shown_inv_close)
    show "shown_inv (changedRun (toastRun x y ?d))" using d by (simp add: frame)
    show "dm_runId (changedRun (toastRun x y ?d)) = None \<or> quiet (changedRun (toastRun x y ?d))"
      using that set_remove1_subset [of r "dm_out d"] by (auto simp: quiet_def list_all_iff toastRun_def changedRun_def)
  qed
  show ?thesis
  proof (cases r)
    case (CancelOpen run i)
    then have "dm_runId d = Some i" using assms(1,2) by (simp add: shown_inv_def)
    then show ?thesis using CancelOpen d by (auto simp: frame Let_def toastRun_def shown_inv_def split: sum.splits)
  next
    case (RetryOpen run)
    then show ?thesis using assms(3) d close by (auto simp: frame orderly_def closeRun_def split: sum.splits)
  next
    case (DeleteOpen run)
    then show ?thesis using assms(3) d close by (auto simp: frame orderly_def closeRun_def split: sum.splits)
  qed
qed

lemma runDialogStep_shown:
  assumes "shown_inv d" "runDialogOffered role d e" "orderly d e"
  shows "shown_inv (runDialogStep e d)"
proof (cases e)
  case (OpenRun i)
  then show ?thesis using assms by (fastforce simp: shown_inv_def openRun_def)
next
  case CloseRun
  then show ?thesis using assms shown_inv_close by (simp add: orderly_def closeRun_def)
next
  case (LoadSettles l r)
  then show ?thesis using assms shown_inv_load by (simp add: orderly_def)
next
  case (RunSettles f r)
  then show ?thesis using assms shown_inv_settle by simp
qed (use assms in \<open>auto simp: shown_inv_def sendRun_def Let_def split: option.splits\<close>)

text \<open>A run to evaluate the dialog on.\<close>

definition nightly_run :: "string \<Rightarrow> runStatus \<Rightarrow> runDetail" where
  "nightly_run i status =
     \<lparr>jr_id = IdStr i, jr_jobId = IdStr ''j1'', jr_jobName = ''Nightly'', jr_kind = Some RunBackup, jr_status = status,
      jr_startedAt = [], jr_finishedAt = None, jr_bytesProcessed = Fin 0, jr_bytesUploaded = Fin 0, jr_dedupRatio = Fin 1,
      jr_reductionPct = None, jr_reductionRatio = None, jr_error = None, jr_progressPct = Fin 0, jr_currentStep = [],
      rd_sources = [], rd_throughputBps = Fin 0, rd_destination = None\<rparr>"

lemmas run_dialog_eval = mountRunDialog_def openRun_def closeRun_def footerReady_def dialogStatus_def sendRun_def nightly_run_def

subsection \<open>Properties\<close>

text \<open>
  However the dialog is opened, closed and
  used and however answers interleave, every cancellation it sends is for a run it showed as running, every retry
  for one it showed as failed or canceled and every deletion for one that was not running; a viewer
  sends none; and at most one handler is under way, with the buttons busy exactly then.
\<close>

theorem run_dialog_guarded:
  assumes "reaches runDialogStep (runDialogOffered role) mountRunDialog d"
  shows "(\<forall>r\<in>set (dm_sent d). action_ok r \<and> operateJobs (capabilitiesFor role)) \<and>
    length (dm_out d) \<le> 1 \<and> (dm_busy d \<longleftrightarrow> dm_out d \<noteq> [] \<or> (\<exists>i. CancelLoad i \<in> set (dm_loads d)))"
proof -
  have "actions_inv role mountRunDialog" by (simp add: actions_inv_def mountRunDialog_def cancel_loads_def)
  with assms have inv: "actions_inv role d" using runDialogStep_actions by (rule reaches_invariant)
  have "is_cancel_load l \<longleftrightarrow> (\<exists>i. l = CancelLoad i)" for l by (cases l) simp_all
  then have "cancel_loads d \<noteq> 0 \<longleftrightarrow> (\<exists>i. CancelLoad i \<in> set (dm_loads d))"
    by (auto simp: cancel_loads_def filter_empty_conv)
  moreover have "length (dm_out d) + cancel_loads d = (if dm_busy d then 1 else 0)" using inv by (simp add: actions_inv_def)
  ultimately have "length (dm_out d) \<le> 1 \<and> (dm_busy d \<longleftrightarrow> dm_out d \<noteq> [] \<or> (\<exists>i. CancelLoad i \<in> set (dm_loads d)))"
    by (cases "dm_busy d") (auto simp: add_is_1)
  with inv show ?thesis by (auto simp: actions_inv_def list_all_iff)
qed

theorem run_dialog_guarded_witness:
  "\<exists>d. run_events runDialogStep (runDialogOffered Operator)
     [OpenRun (IdStr ''r1''), LoadSettles (OpeningLoad (IdStr ''r1'')) (Inr (nightly_run ''r1'' RunFailed, None)),
      ClickDelete, AnswerDeleteRun True] mountRunDialog = Some d \<and>
     dm_sent d = [DeleteOpen (nightly_run ''r1'' RunFailed)] \<and> action_ok (DeleteOpen (nightly_run ''r1'' RunFailed))"
proof -
  obtain d where d: "run_events runDialogStep (runDialogOffered Operator)
     [OpenRun (IdStr ''r1''), LoadSettles (OpeningLoad (IdStr ''r1'')) (Inr (nightly_run ''r1'' RunFailed, None)),
      ClickDelete, AnswerDeleteRun True] mountRunDialog = Some d"
     "dm_sent d = [DeleteOpen (nightly_run ''r1'' RunFailed)]"
    by (simp add: run_dialog_eval Let_def)
  with run_dialog_guarded [OF run_events_reaches [OF d(1)]] show ?thesis by auto
qed

text \<open>
  When the server answers for the run it is
  asked for and the dialog is closed only while no reading of the timer and no cancellation is
  under way, the run shown is always the one the dialog was opened for, and nothing is kept of a closed one.
\<close>

theorem run_dialog_shows_opened:
  assumes "reaches runDialogStep (\<lambda>d e. runDialogOffered role d e \<and> orderly d e) mountRunDialog d" "dm_run d = Some run"
  shows "map_option id_str (dm_runId d) = Some (id_str (jr_id run))"
proof -
  have "shown_inv mountRunDialog" by (simp add: shown_inv_def mountRunDialog_def)
  with assms(1) have "shown_inv d"
    by (rule reaches_invariant) (blast intro: runDialogStep_shown)
  with assms(2) show ?thesis by (simp add: shown_inv_def)
qed

theorem run_dialog_shows_opened_witness:
  "\<exists>d. run_events runDialogStep (\<lambda>d e. runDialogOffered Viewer d e \<and> orderly d e)
     [OpenRun (IdStr ''r1''), CloseRun, OpenRun (IdStr ''r2''),
      LoadSettles (OpeningLoad (IdStr ''r2'')) (Inr (nightly_run ''r2'' RunRunning, None))] mountRunDialog = Some d \<and>
     dm_run d = Some (nightly_run ''r2'' RunRunning) \<and> map_option id_str (dm_runId d) = Some ''r2''"
proof -
  obtain d where d: "run_events runDialogStep (\<lambda>d e. runDialogOffered Viewer d e \<and> orderly d e)
     [OpenRun (IdStr ''r1''), CloseRun, OpenRun (IdStr ''r2''),
      LoadSettles (OpeningLoad (IdStr ''r2'')) (Inr (nightly_run ''r2'' RunRunning, None))] mountRunDialog = Some d"
     "dm_run d = Some (nightly_run ''r2'' RunRunning)"
    by (simp add: run_dialog_eval orderly_def quiet_def)
  with run_dialog_shows_opened [OF run_events_reaches [OF d(1)] d(2)] show ?thesis by (simp add: nightly_run_def)
qed

text \<open>
  Without that condition it is not: a reading of the timer that settles after the dialog was closed
  and opened for another run puts the first run back on screen, and the buttons act on it.
\<close>

lemma stale_poll_run:
  "\<exists>d. run_events runDialogStep (runDialogOffered Operator)
     [OpenRun (IdStr ''r1''), LoadSettles (OpeningLoad (IdStr ''r1'')) (Inr (nightly_run ''r1'' RunRunning, None)), PollTick,
      CloseRun, OpenRun (IdStr ''r2''), LoadSettles (PollLoad (IdStr ''r1'')) (Inr (nightly_run ''r1'' RunRunning, None)),
      ClickCancel] mountRunDialog = Some d \<and>
     dm_runId d = Some (IdStr ''r2'') \<and> dm_sent d = [CancelOpen (nightly_run ''r1'' RunRunning) (IdStr ''r2'')]"
  by (simp add: run_dialog_eval)

text \<open>
  The reading that closing aborted ends the loading state of the next opening, whose dialog is then
  blank while its own reading is still on the way.
\<close>

lemma aborted_load_blanks:
  "\<exists>d. run_events runDialogStep (runDialogOffered Viewer)
     [OpenRun (IdStr ''r1''), CloseRun, OpenRun (IdStr ''r2''),
      LoadSettles (AbortedLoad (IdStr ''r1'')) (Inl (AbortError m))] mountRunDialog = Some d \<and>
     OpeningLoad (IdStr ''r2'') \<in> set (dm_loads d) \<and> runViewOf h d = BlankView"
  by (simp add: run_dialog_eval runViewOf_def opt_text_def)

end
