(* ===== verification/Run_Monitor.thy ===== *)
theory Run_Monitor
  imports Run_Dialog "HOL-Library.Multiset"
begin

text \<open>
  The monitor page (\<open>web/src/pages/MonitorPage.tsx\<close>): the loader that reads the runs and the
  details of those in flight, the throughput samples it collects, the history below the cards, and
  what can be done to a run from a row, a card or the dialog of \<open>Run_Dialog\<close>, which it embeds.
\<close>

subsection \<open>Loading\<close>

record monitorData =
  md_runs :: "jobRun list"
  md_jobs :: "job list"
  md_live :: "runDetail list"

definition RUN_LIMIT :: jsnum where
  "RUN_LIMIT = Fin 100"

text \<open>The arguments of \<open>listRuns\<close>.\<close>

definition monitorQuery :: "string \<Rightarrow> js_id option \<times> jsnum option" where
  "monitorQuery jobIdParam = (if jobIdParam = ''all'' then None else Some (IdStr jobIdParam), Some RUN_LIMIT)"

text \<open>\<open>Promise.all\<close> of two: when both reject, the flag says which one does first.\<close>

fun both_exn :: "bool \<Rightarrow> 'a exn \<Rightarrow> 'b exn \<Rightarrow> ('a \<times> 'b) exn" where
  "both_exn first (Inr x) (Inr y) = Inr (x, y)"
| "both_exn first (Inl e) (Inr y) = Inl e"
| "both_exn first (Inr x) (Inl e) = Inl e"
| "both_exn first (Inl e) (Inl e') = Inl (if first then e else e')"

text \<open>The answers to the three kinds of requests; a detail that cannot be read is left out.\<close>

definition liveDetails :: "(js_id \<Rightarrow> runDetail exn) \<Rightarrow> jobRun list \<Rightarrow> runDetail list" where
  "liveDetails details runs =
     List.map_filter (\<lambda>run. case details (jr_id run) of Inr d \<Rightarrow> Some d | Inl _ \<Rightarrow> None)
       (filter (\<lambda>run. jr_status run = RunRunning) runs)"

definition loadMonitor :: "bool \<Rightarrow> jobRun list exn \<Rightarrow> job list exn \<Rightarrow> (js_id \<Rightarrow> runDetail exn) \<Rightarrow> monitorData exn" where
  "loadMonitor first runs jobs details =
     bind_exn (both_exn first runs jobs)
       (\<lambda>(rs, js). Inr \<lparr>md_runs = rs, md_jobs = js, md_live = liveDetails details rs\<rparr>)"

subsection \<open>State\<close>

datatype monitorQuestion =
    ConfirmCancel jobRun
  | ConfirmCancelLive runDetail
  | ConfirmClear clearRunsScope

datatype monitorRequest =
    CancelRow jobRun
  | RetryRow jobRun
  | CancelLive runDetail
  | ClearRuns clearRunsScope "js_id option"

datatype rowBusy = BusyCancel | BusyRetry

text \<open>A reading that has not settled, with the filter of its loader; one is awaited by the clearing.\<close>

datatype monitorLoad = PageLoad string | ClearLoad string

text \<open>
  A handler keeps the filter its render had, which its reading at the end uses: \<open>mo_asking\<close> and
  \<open>mo_out\<close> hold it with the question and the request, \<open>mo_dialogJob\<close> for the handler of the dialog.
  \<open>mo_busy\<close> is the state of the rows and \<open>mo_samples\<close> the samples, both by run id.
\<close>

record monitor =
  mo_jobId :: string
  mo_async :: "monitorData async"
  mo_loads :: "monitorLoad list"
  mo_samples :: "string \<Rightarrow> jsnum list option"
  mo_busy :: "string \<Rightarrow> rowBusy option"
  mo_clearing :: bool
  mo_asking :: "(monitorQuestion \<times> string) option"
  mo_out :: "(monitorRequest \<times> string) list"
  mo_sent :: "monitorRequest list"
  mo_toasts :: "(string \<times> string) list"
  mo_dialog :: runDialog
  mo_dialogJob :: string

abbreviation runKey :: "'a jobRun_scheme \<Rightarrow> string" where
  "runKey run \<equiv> id_str (jr_id run)"

text \<open>Mounting with the job id of the address, \<open>all\<close> without one.\<close>

definition mountMonitor :: "string option \<Rightarrow> monitor" where
  "mountMonitor param =
     (let jobId = (case param of Some p \<Rightarrow> p | None \<Rightarrow> ''all'')
      in \<lparr>mo_jobId = jobId, mo_async = mountAsync, mo_loads = [PageLoad jobId], mo_samples = (\<lambda>_. None), mo_busy = (\<lambda>_. None),
          mo_clearing = False, mo_asking = None, mo_out = [], mo_sent = [], mo_toasts = [], mo_dialog = mountRunDialog, mo_dialogJob = jobId\<rparr>)"

definition monitorRuns :: "monitor \<Rightarrow> jobRun list" where
  "monitorRuns m = (case as_data (mo_async m) of Some d \<Rightarrow> md_runs d | None \<Rightarrow> [])"

definition monitorLive :: "monitor \<Rightarrow> runDetail list" where
  "monitorLive m = (case as_data (mo_async m) of Some d \<Rightarrow> md_live d | None \<Rightarrow> [])"

definition monitorJobs :: "monitor \<Rightarrow> job list" where
  "monitorJobs m = (case as_data (mo_async m) of Some d \<Rightarrow> md_jobs d | None \<Rightarrow> [])"

definition anyRunning :: "monitor \<Rightarrow> bool" where
  "anyRunning m \<longleftrightarrow> monitorLive m \<noteq> [] \<or> (\<exists>run\<in>set (monitorRuns m). jr_status run = RunRunning)"

text \<open>The rows: the runs that have no card.\<close>

definition historyOf :: "runDetail list \<Rightarrow> jobRun list \<Rightarrow> jobRun list" where
  "historyOf live runs = filter (\<lambda>run. runKey run \<notin> set (map runKey live)) runs"

definition monitorHistory :: "monitor \<Rightarrow> jobRun list" where
  "monitorHistory m = historyOf (monitorLive m) (monitorRuns m)"

definition finishedCount :: "monitor \<Rightarrow> nat" where
  "finishedCount m = length (filter (\<lambda>run. jr_status run \<noteq> RunRunning) (monitorRuns m))"

text \<open>The effect on new data: one sample per live run, built from the samples as they were.\<close>

definition nextSamples :: "(string \<Rightarrow> jsnum list option) \<Rightarrow> runDetail list \<Rightarrow> string \<Rightarrow> jsnum list option" where
  "nextSamples current live =
     foldl (\<lambda>next detail. next(runKey detail := Some (appendSample (current (runKey detail)) (rd_throughputBps detail))))
       (\<lambda>_. None) live"

subsection \<open>Handlers\<close>

text \<open>A reading for a filter, with or without the loading state.\<close>

definition refreshRuns :: "string \<Rightarrow> monitor \<Rightarrow> monitor" where
  "refreshRuns jobId m = m\<lparr>mo_async := asyncStep Refresh (mo_async m), mo_loads := PageLoad jobId # mo_loads m\<rparr>"

definition reloadRuns :: "monitorLoad \<Rightarrow> monitor \<Rightarrow> monitor" where
  "reloadRuns l m = m\<lparr>mo_async := asyncStep Reload (mo_async m), mo_loads := l # mo_loads m\<rparr>"

text \<open>Another filter changes the loader, which runs again.\<close>

definition onFilterChange :: "string \<Rightarrow> monitor \<Rightarrow> monitor" where
  "onFilterChange v m = (if v = mo_jobId m then m else reloadRuns (PageLoad v) (m\<lparr>mo_jobId := v\<rparr>))"

text \<open>New data: their samples, and the rows that remain keep their state.\<close>

definition receiveData :: "monitorData \<Rightarrow> monitor \<Rightarrow> monitor" where
  "receiveData d m =
     m\<lparr>mo_samples := nextSamples (mo_samples m) (md_live d),
       mo_busy := (\<lambda>k. if k \<in> set (map runKey (historyOf (md_live d) (md_runs d))) then mo_busy m k else None)\<rparr>"

definition settleLoad :: "monitorLoad \<Rightarrow> monitorData exn \<Rightarrow> monitor \<Rightarrow> monitor" where
  "settleLoad l r m =
     (let q = m\<lparr>mo_async := asyncStep (LoaderSettles r) (mo_async m), mo_loads := remove1 l (mo_loads m),
                mo_clearing := (case l of ClearLoad _ \<Rightarrow> False | PageLoad _ \<Rightarrow> mo_clearing m)\<rparr>
      in case r of Inl _ \<Rightarrow> q | Inr d \<Rightarrow> receiveData d q)"

definition sendMonitor :: "monitorRequest \<Rightarrow> string \<Rightarrow> monitor \<Rightarrow> monitor" where
  "sendMonitor r jobId m = m\<lparr>mo_out := (r, jobId) # mo_out m, mo_sent := r # mo_sent m\<rparr>"

definition toastMonitor :: "string \<Rightarrow> string \<Rightarrow> monitor \<Rightarrow> monitor" where
  "toastMonitor title detail m = m\<lparr>mo_toasts := (title, detail) # mo_toasts m\<rparr>"

text \<open>The state of a row, which exists while the run is in the history.\<close>

definition setBusy :: "jobRun \<Rightarrow> rowBusy option \<Rightarrow> monitor \<Rightarrow> monitor" where
  "setBusy run b m =
     (if runKey run \<in> set (map runKey (monitorHistory m)) then m\<lparr>mo_busy := (mo_busy m)(runKey run := b)\<rparr> else m)"

definition onRetryRow :: "jobRun \<Rightarrow> monitor \<Rightarrow> monitor" where
  "onRetryRow run m = sendMonitor (RetryRow run) (mo_jobId m) (setBusy run (Some BusyRetry) m)"

text \<open>A confirmed question.\<close>

fun proceed :: "monitorQuestion \<Rightarrow> string \<Rightarrow> monitor \<Rightarrow> monitor" where
  "proceed (ConfirmCancel run) jobId m = sendMonitor (CancelRow run) jobId (setBusy run (Some BusyCancel) m)"
| "proceed (ConfirmCancelLive detail) jobId m = sendMonitor (CancelLive detail) jobId m"
| "proceed (ConfirmClear scope) jobId m =
     sendMonitor (ClearRuns scope (if jobId = ''all'' then None else Some (IdStr jobId))) jobId (m\<lparr>mo_clearing := True\<rparr>)"

definition answerMonitor :: "bool \<Rightarrow> monitor \<Rightarrow> monitor" where
  "answerMonitor ok m =
     (case mo_asking m of
        None \<Rightarrow> m
      | Some (q, jobId) \<Rightarrow> (let n = m\<lparr>mo_asking := None\<rparr> in if ok then proceed q jobId n else n))"

text \<open>The toast of a clearing: \<open>result.deleted\<close> as it came.\<close>

definition clearedText :: "jval \<Rightarrow> string" where
  "clearedText deleted =
     (if deleted = JNum (Fin 1) then ''1 run removed from history.''
      else val_str deleted @ '' runs removed from history.'')"

definition settleCancel :: "fetch \<Rightarrow> js_id \<Rightarrow> string \<Rightarrow> monitor \<Rightarrow> monitor" where
  "settleCancel f i jobId m =
     (case cancelRun f i of
        Inr _ \<Rightarrow> refreshRuns jobId (toastMonitor ''Cancellation requested.'' ''The run stops at the next safe boundary.'' m)
      | Inl err \<Rightarrow> toastMonitor ''Could not cancel run'' (errorMessage err) m)"

definition settleRetry :: "fetch \<Rightarrow> jobRun \<Rightarrow> string \<Rightarrow> monitor \<Rightarrow> monitor" where
  "settleRetry f run jobId m =
     (case retryRun f (jr_id run) of
        Inr _ \<Rightarrow>
          refreshRuns jobId (toastMonitor (''Retrying '' @ ldquo @ jr_jobName run @ rdquo @ ''.'')
            ''The new run appears at the top of this page.'' m)
      | Inl err \<Rightarrow> toastMonitor ''Could not retry run'' (errorMessage err) m)"

definition settleClear :: "fetch \<Rightarrow> clearRunsScope \<Rightarrow> js_id option \<Rightarrow> string \<Rightarrow> monitor \<Rightarrow> monitor" where
  "settleClear f scope job jobId m =
     (case bind_exn (clearRuns f scope job) (\<lambda>v. get_prop v ''deleted'') of
        Inr deleted \<Rightarrow> reloadRuns (ClearLoad jobId) (toastMonitor (clearedText deleted) [] m)
      | Inl err \<Rightarrow> (toastMonitor ''Could not clear run history'' (errorMessage err) m)\<lparr>mo_clearing := False\<rparr>)"

fun settleMonitor :: "fetch \<Rightarrow> monitorRequest \<Rightarrow> string \<Rightarrow> monitor \<Rightarrow> monitor" where
  "settleMonitor f (CancelRow run) jobId m = setBusy run None (settleCancel f (jr_id run) jobId m)"
| "settleMonitor f (RetryRow run) jobId m = setBusy run None (settleRetry f run jobId m)"
| "settleMonitor f (CancelLive detail) jobId m = settleCancel f (jr_id detail) jobId m"
| "settleMonitor f (ClearRuns scope job) jobId m = settleClear f scope job jobId m"

text \<open>
  An event of the dialog: its handlers keep the filter of the click, and each call of
  \<open>onChanged\<close> reads the runs again.
\<close>

fun isClick :: "runDialogEvent \<Rightarrow> bool" where
  "isClick ClickCancel = True"
| "isClick ClickRetry = True"
| "isClick ClickDelete = True"
| "isClick _ = False"

definition dialogEvent :: "runDialogEvent \<Rightarrow> monitor \<Rightarrow> monitor" where
  "dialogEvent e m =
     (let d = runDialogStep e (mo_dialog m);
          jobId = (if isClick e then mo_jobId m else mo_dialogJob m)
      in (refreshRuns jobId ^^ (dm_changed d - dm_changed (mo_dialog m))) (m\<lparr>mo_dialog := d, mo_dialogJob := jobId\<rparr>))"

subsection \<open>Events\<close>

datatype monitorEvent =
    ReloadRuns
  | PollRuns
  | SelectJob string
  | MonitorAnswer monitorLoad bool "jobRun list exn" "job list exn" "js_id \<Rightarrow> runDetail exn"
  | OpenRow jobRun
  | OpenLive runDetail
  | AskCancelRow jobRun
  | ClickRetryRow jobRun
  | AskCancelLive runDetail
  | AskClear
  | AnswerMonitor bool
  | MonitorSettles fetch monitorRequest string
  | DialogEvent runDialogEvent

text \<open>Neither the dialog nor a confirmation covers the page.\<close>

definition uncovered :: "monitor \<Rightarrow> bool" where
  "uncovered m \<longleftrightarrow> mo_asking m = None \<and> dm_runId (mo_dialog m) = None \<and> dm_asking (mo_dialog m) = None"

definition monitorCan :: "role \<Rightarrow> monitor \<Rightarrow> bool" where
  "monitorCan role m \<longleftrightarrow> uncovered m \<and> operateJobs (capabilitiesFor role)"

fun monitorOffered :: "role \<Rightarrow> monitor \<Rightarrow> monitorEvent \<Rightarrow> bool" where
  "monitorOffered role m ReloadRuns = (uncovered m \<and> \<not> as_loading (mo_async m))"
| "monitorOffered role m PollRuns = anyRunning m"
| "monitorOffered role m (SelectJob v) = (uncovered m \<and> v \<in> set (''all'' # map (\<lambda>j. id_str (j_id j)) (monitorJobs m)))"
| "monitorOffered role m (MonitorAnswer l first runs jobs details) = (l \<in> set (mo_loads m))"
| "monitorOffered role m (OpenRow run) = (uncovered m \<and> run \<in> set (monitorHistory m))"
| "monitorOffered role m (OpenLive detail) = (uncovered m \<and> detail \<in> set (monitorLive m))"
| "monitorOffered role m (AskCancelRow run) =
     (monitorCan role m \<and> run \<in> set (monitorHistory m) \<and> jr_status run = RunRunning \<and>
      mo_busy m (runKey run) \<noteq> Some BusyCancel)"
| "monitorOffered role m (ClickRetryRow run) =
     (monitorCan role m \<and> run \<in> set (monitorHistory m) \<and> jr_status run = RunFailed \<and>
      mo_busy m (runKey run) \<noteq> Some BusyRetry)"
| "monitorOffered role m (AskCancelLive detail) = (monitorCan role m \<and> detail \<in> set (monitorLive m))"
| "monitorOffered role m AskClear = (monitorCan role m \<and> 0 < finishedCount m \<and> \<not> mo_clearing m)"
| "monitorOffered role m (AnswerMonitor ok) = (mo_asking m \<noteq> None)"
| "monitorOffered role m (MonitorSettles f r jobId) = ((r, jobId) \<in> set (mo_out m))"
| "monitorOffered role m (DialogEvent e) =
     (runDialogOffered role (mo_dialog m) e \<and> (\<forall>i. e \<noteq> OpenRun i))"

fun monitorStep :: "monitorEvent \<Rightarrow> monitor \<Rightarrow> monitor" where
  "monitorStep ReloadRuns m = reloadRuns (PageLoad (mo_jobId m)) m"
| "monitorStep PollRuns m = refreshRuns (mo_jobId m) m"
| "monitorStep (SelectJob v) m = onFilterChange v m"
| "monitorStep (MonitorAnswer l first runs jobs details) m = settleLoad l (loadMonitor first runs jobs details) m"
| "monitorStep (OpenRow run) m = m\<lparr>mo_dialog := openRun (jr_id run) (mo_dialog m)\<rparr>"
| "monitorStep (OpenLive detail) m = m\<lparr>mo_dialog := openRun (jr_id detail) (mo_dialog m)\<rparr>"
| "monitorStep (AskCancelRow run) m = m\<lparr>mo_asking := Some (ConfirmCancel run, mo_jobId m)\<rparr>"
| "monitorStep (ClickRetryRow run) m = onRetryRow run m"
| "monitorStep (AskCancelLive detail) m = m\<lparr>mo_asking := Some (ConfirmCancelLive detail, mo_jobId m)\<rparr>"
| "monitorStep AskClear m = m\<lparr>mo_asking := Some (ConfirmClear ClearFinished, mo_jobId m)\<rparr>"
| "monitorStep (AnswerMonitor ok) m = answerMonitor ok m"
| "monitorStep (MonitorSettles f r jobId) m = settleMonitor f r jobId (m\<lparr>mo_out := remove1 (r, jobId) (mo_out m)\<rparr>)"
| "monitorStep (DialogEvent e) m = dialogEvent e m"

subsection \<open>What it shows\<close>

record historyRow =
  hr_live :: bool
  hr_name :: string
  hr_note :: "string option"
  hr_pill :: "pillTone \<times> string \<times> bool"
  hr_started :: string
  hr_duration :: string
  hr_processed :: string
  hr_uploaded :: string
  hr_reduction :: string
  hr_retry :: "string option"
  hr_cancel :: "string option"

text \<open>The titles of the buttons a row has: retry when it failed, cancel when it runs.\<close>

definition rowDenied :: "role \<Rightarrow> string option" where
  "rowDenied role =
     (if operateJobs (capabilitiesFor role) then None else Some (roleDeniedReason role ''cancel or retry runs''))"

definition HistoryRow :: "host \<Rightarrow> role \<Rightarrow> jobRun \<Rightarrow> historyRow" where
  "HistoryRow h role run =
     (let running = jr_status run = RunRunning; failed = jr_status run = RunFailed;
          titled = (\<lambda>text. case rowDenied role of Some d \<Rightarrow> d | None \<Rightarrow> text)
      in \<lparr>hr_live = running, hr_name = jr_jobName run,
          hr_note = (if failed \<and> opt_text (jr_error run) \<noteq> None then jr_error run
            else if jr_currentStep run \<noteq> [] then Some (jr_currentStep run) else None),
          hr_pill = RunStatusPill (run_status_str (jr_status run)),
          hr_started = formatRelative h (Some (jr_startedAt run)),
          hr_duration = formatDuration h (Some (jr_startedAt run)) (jr_finishedAt run),
          hr_processed = formatBytes h (Some (jr_bytesProcessed run)) 1,
          hr_uploaded = formatBytes h (Some (jr_bytesUploaded run)) 1,
          hr_reduction = reductionFigure (reductionOf (figuresOf run)),
          hr_retry = (if failed then Some (titled ''Run this job again'') else None),
          hr_cancel = (if running then Some (titled ''Cancel this run'') else None)\<rparr>)"

datatype monitorView =
    MonitorLoading
  | MonitorError string
  | MonitorEmpty string string
  | MonitorLists "liveCard list" "historyRow list"

definition activeJob :: "monitor \<Rightarrow> job option" where
  "activeJob m = find (\<lambda>j. id_str (j_id j) = mo_jobId m) (monitorJobs m)"

definition emptyMonitor :: "monitor \<Rightarrow> monitorView" where
  "emptyMonitor m =
     (case activeJob m of
        Some j \<Rightarrow> MonitorEmpty (''No runs for '' @ ldquo @ j_name j @ rdquo @ '' yet'')
          ''This job has not run. Start it from the Backup Jobs page, or wait for its schedule.''
      | None \<Rightarrow> MonitorEmpty ''Nothing has run yet''
          (''A run appears here the moment a backup job starts, manually or on schedule. '' @
           ''Restores and verifications show up too.''))"

definition liveCards :: "host \<Rightarrow> monitor \<Rightarrow> liveCard list" where
  "liveCards h m =
     map (\<lambda>d. LiveRunCard h d (case mo_samples m (runKey d) of Some xs \<Rightarrow> xs | None \<Rightarrow> []) 2000) (monitorLive m)"

definition monitorViewOf :: "host \<Rightarrow> role \<Rightarrow> monitor \<Rightarrow> monitorView" where
  "monitorViewOf h role m =
     (if as_loading (mo_async m) \<and> as_data (mo_async m) = None then MonitorLoading
      else case (opt_text (as_error (mo_async m)), as_data (mo_async m)) of
          (Some err, None) \<Rightarrow> MonitorError err
        | _ \<Rightarrow> if monitorRuns m = [] then emptyMonitor m
               else MonitorLists (liveCards h m) (map (HistoryRow h role) (monitorHistory m)))"

subsection \<open>Lemmas: cards and rows\<close>

definition detailed :: "(js_id \<Rightarrow> runDetail exn) \<Rightarrow> jobRun \<Rightarrow> bool" where
  "detailed details run \<longleftrightarrow> jr_status run = RunRunning \<and> (\<exists>d. details (jr_id run) = Inr d)"

lemma liveDetails_keys:
  assumes "\<forall>run\<in>set runs. \<forall>d. details (jr_id run) = Inr d \<longrightarrow> runKey d = runKey run"
  shows "map runKey (liveDetails details runs) = map runKey (filter (detailed details) runs)"
  using assms
proof (induction runs)
  case (Cons run runs)
  then show ?case
    by (auto simp: liveDetails_def detailed_def map_filter_simps split: sum.splits)
qed (simp add: liveDetails_def map_filter_simps)

lemma historyOf_filter:
  assumes "distinct (map runKey runs)" "map runKey live = map runKey (filter P runs)"
  shows "historyOf live runs = filter (\<lambda>run. \<not> P run) runs"
  unfolding historyOf_def
proof (rule filter_cong [OF refl])
  fix run assume run: "run \<in> set runs"
  have "runKey run \<in> set (map runKey live) \<longleftrightarrow> (\<exists>r\<in>set runs. P r \<and> runKey r = runKey run)"
    unfolding assms(2) by (auto simp: image_iff intro: bexI sym)
  also have "\<dots> \<longleftrightarrow> P run" using assms(1) run by (auto simp: distinct_map inj_on_def)
  finally show "(runKey run \<notin> set (map runKey live)) = (\<not> P run)" by blast
qed

subsection \<open>Lemmas: samples\<close>

definition sample_ok :: "runDetail list \<Rightarrow> string \<Rightarrow> jsnum list \<Rightarrow> bool" where
  "sample_ok live k xs \<longleftrightarrow>
     xs \<noteq> [] \<and> length xs \<le> SAMPLE_CAP \<and> list_all (\<lambda>v. \<exists>x. v = Fin x \<and> 0 \<le> x) xs \<and>
     (\<exists>d\<in>set live. runKey d = k \<and> last xs = sampleOf (rd_throughputBps d))"

definition samples_ok :: "runDetail list \<Rightarrow> (string \<Rightarrow> jsnum list option) \<Rightarrow> bool" where
  "samples_ok live s \<longleftrightarrow> dom s = set (map runKey live) \<and> (\<forall>k xs. s k = Some xs \<longrightarrow> sample_ok live k xs)"

definition nonneg_samples :: "(string \<Rightarrow> jsnum list option) \<Rightarrow> bool" where
  "nonneg_samples s \<longleftrightarrow> (\<forall>k xs. s k = Some xs \<longrightarrow> list_all (\<lambda>v. \<exists>x. v = Fin x \<and> 0 \<le> x) xs)"

lemma appendSample_ok:
  assumes "\<forall>xs. prev = Some xs \<longrightarrow> list_all (\<lambda>v. \<exists>x. v = Fin x \<and> 0 \<le> x) xs" "d \<in> set live"
  shows "sample_ok live (runKey d) (appendSample prev (rd_throughputBps d))"
proof -
  let ?ys = "(case prev of Some xs \<Rightarrow> xs | None \<Rightarrow> []) @ [sampleOf (rd_throughputBps d)]"
  have eq: "appendSample prev (rd_throughputBps d) = slice_last SAMPLE_CAP ?ys" by (rule appendSample_slice)
  have len: "0 < length (slice_last SAMPLE_CAP ?ys)" by (simp add: SAMPLE_CAP_def)
  have "last (slice_last SAMPLE_CAP ?ys) = sampleOf (rd_throughputBps d)"
    using len unfolding slice_last_def by (subst last_drop) simp_all
  moreover have "list_all (\<lambda>v. \<exists>x. v = Fin x \<and> 0 \<le> x) ?ys"
    using assms(1) sampleOf_nonneg by (simp split: option.splits)
  then have "list_all (\<lambda>v. \<exists>x. v = Fin x \<and> 0 \<le> x) (slice_last SAMPLE_CAP ?ys)"
    using set_slice_last [of SAMPLE_CAP ?ys] unfolding list_all_iff by blast
  moreover have "slice_last SAMPLE_CAP ?ys \<noteq> []" using len by (metis length_greater_0_conv)
  ultimately show ?thesis using assms(2) unfolding eq sample_ok_def by auto
qed

lemma nextSamples_snoc:
  "nextSamples current (live @ [d]) =
     (nextSamples current live)(runKey d := Some (appendSample (current (runKey d)) (rd_throughputBps d)))"
  by (simp add: nextSamples_def)

lemma nextSamples_ok: "nonneg_samples current \<Longrightarrow> samples_ok live (nextSamples current live)"
proof (induction live rule: rev_induct)
  case (snoc d live)
  then have "sample_ok (live @ [d]) k xs" if "nextSamples current live k = Some xs" for k xs
    using that by (fastforce simp: samples_ok_def sample_ok_def)
  moreover have "sample_ok (live @ [d]) (runKey d) (appendSample (current (runKey d)) (rd_throughputBps d))"
    using snoc.prems by (intro appendSample_ok) (auto simp: nonneg_samples_def)
  moreover have "dom (nextSamples current (live @ [d])) = set (map runKey (live @ [d]))"
    using snoc by (simp add: samples_ok_def nextSamples_snoc)
  ultimately show ?case unfolding samples_ok_def by (intro conjI) (simp_all add: nextSamples_snoc)
qed (simp add: samples_ok_def nextSamples_def)

definition samples_inv :: "monitor \<Rightarrow> bool" where
  "samples_inv m \<longleftrightarrow>
     as_mounted (mo_async m) \<and>
     (case as_data (mo_async m) of
        None \<Rightarrow> mo_samples m = (\<lambda>_. None)
      | Some d \<Rightarrow> samples_ok (md_live d) (mo_samples m))"

lemma samples_inv_nonneg: "samples_inv m \<Longrightarrow> nonneg_samples (mo_samples m)"
  by (auto simp: samples_inv_def nonneg_samples_def samples_ok_def sample_ok_def split: option.splits)

text \<open>What a handler leaves as it is: the data, the samples and whether the page is mounted.\<close>

definition same_data :: "monitor \<Rightarrow> monitor \<Rightarrow> bool" where
  "same_data m n \<longleftrightarrow>
     as_data (mo_async n) = as_data (mo_async m) \<and> as_mounted (mo_async n) = as_mounted (mo_async m) \<and>
     mo_samples n = mo_samples m"

lemma same_data_inv: "same_data m n \<Longrightarrow> samples_inv m \<Longrightarrow> samples_inv n"
  by (auto simp: same_data_def samples_inv_def split: option.splits)

lemma same_data_refresh: "same_data m n \<Longrightarrow> same_data m ((refreshRuns j ^^ k) n)"
  by (induction k) (simp_all add: same_data_def refreshRuns_def)

lemmas monitor_handlers =
  refreshRuns_def reloadRuns_def onFilterChange_def sendMonitor_def toastMonitor_def setBusy_def onRetryRow_def
  answerMonitor_def settleCancel_def settleRetry_def settleClear_def

lemma proceed_same: "same_data m (proceed q j m)"
  by (cases q) (simp_all add: same_data_def monitor_handlers)

lemma settleMonitor_same: "same_data m (settleMonitor f r j m)"
  by (cases r) (simp_all add: same_data_def monitor_handlers split: sum.splits)

lemma monitorStep_same:
  assumes "\<forall>l first runs jobs details. e \<noteq> MonitorAnswer l first runs jobs details"
  shows "same_data m (monitorStep e m)"
proof (cases e)
  case (AnswerMonitor ok)
  have "same_data m (proceed q j (m\<lparr>mo_asking := None\<rparr>))" for q j
    using proceed_same [of "m\<lparr>mo_asking := None\<rparr>" q j] by (simp add: same_data_def)
  then show ?thesis using AnswerMonitor by (auto simp: answerMonitor_def same_data_def Let_def split: option.splits)
next
  case (MonitorSettles f r j)
  then show ?thesis
    using settleMonitor_same [of "m\<lparr>mo_out := remove1 (r, j) (mo_out m)\<rparr>" f r j] by (simp add: same_data_def)
next
  case (DialogEvent de)
  then show ?thesis by (auto simp: dialogEvent_def Let_def same_data_def intro!: same_data_refresh [unfolded same_data_def])
qed (use assms in \<open>simp_all add: same_data_def monitor_handlers\<close>)

lemma monitorStep_samples: "samples_inv m \<Longrightarrow> samples_inv (monitorStep e m)"
proof (cases "\<exists>l first runs jobs details. e = MonitorAnswer l first runs jobs details")
  case True
  assume inv: "samples_inv m"
  from True obtain l first runs jobs details where e: "e = MonitorAnswer l first runs jobs details" by blast
  show ?thesis
  proof (cases "loadMonitor first runs jobs details")
    case (Inl err)
    then have "same_data m (monitorStep e m)" using inv e by (simp add: settleLoad_def same_data_def samples_inv_def)
    then show ?thesis using inv by (rule same_data_inv)
  next
    case (Inr d)
    have "samples_ok (md_live d) (nextSamples (mo_samples m) (md_live d))"
      by (rule nextSamples_ok [OF samples_inv_nonneg [OF inv]])
    then show ?thesis using inv e Inr by (simp add: settleLoad_def receiveData_def samples_inv_def Let_def)
  qed
next
  case False
  assume "samples_inv m"
  with False show ?thesis using same_data_inv monitorStep_same by blast
qed

subsection \<open>Lemmas: requests\<close>

fun monitor_ok :: "monitorRequest \<Rightarrow> bool" where
  "monitor_ok (CancelRow run) = (jr_status run = RunRunning)"
| "monitor_ok (RetryRow run) = (jr_status run = RunFailed)"
| "monitor_ok (CancelLive detail) = True"
| "monitor_ok (ClearRuns scope job) = (scope = ClearFinished \<and> job \<noteq> Some (IdStr ''all''))"

fun question_ok :: "monitorQuestion \<Rightarrow> bool" where
  "question_ok (ConfirmCancel run) = (jr_status run = RunRunning)"
| "question_ok (ConfirmCancelLive detail) = True"
| "question_ok (ConfirmClear scope) = (scope = ClearFinished)"

definition requests_inv :: "role \<Rightarrow> monitor \<Rightarrow> bool" where
  "requests_inv role m \<longleftrightarrow>
     list_all (\<lambda>r. monitor_ok r \<and> operateJobs (capabilitiesFor role)) (mo_sent m) \<and>
     pred_option (\<lambda>(q, j). question_ok q \<and> operateJobs (capabilitiesFor role)) (mo_asking m) \<and>
     actions_inv role (mo_dialog m)"

lemma requests_inv_refresh [simp]: "requests_inv role ((refreshRuns j ^^ k) m) = requests_inv role m"
  by (induction k) (simp_all add: requests_inv_def refreshRuns_def)

lemma setBusy_frame [simp]:
  "mo_sent (setBusy run b m) = mo_sent m" "mo_asking (setBusy run b m) = mo_asking m" "mo_dialog (setBusy run b m) = mo_dialog m"
  "mo_jobId (setBusy run b m) = mo_jobId m" "mo_loads (setBusy run b m) = mo_loads m" "mo_out (setBusy run b m) = mo_out m"
  "mo_dialogJob (setBusy run b m) = mo_dialogJob m"
  by (simp_all add: setBusy_def)

lemma settleMonitor_frame [simp]:
  "mo_sent (settleMonitor f r j m) = mo_sent m" "mo_asking (settleMonitor f r j m) = mo_asking m"
  "mo_dialog (settleMonitor f r j m) = mo_dialog m" "mo_out (settleMonitor f r j m) = mo_out m"
  "mo_jobId (settleMonitor f r j m) = mo_jobId m" "mo_dialogJob (settleMonitor f r j m) = mo_dialogJob m"
  by (cases r; simp add: settleCancel_def settleRetry_def settleClear_def refreshRuns_def reloadRuns_def toastMonitor_def
      split: sum.splits)+

lemma settleLoad_frame [simp]:
  "mo_sent (settleLoad l r m) = mo_sent m" "mo_asking (settleLoad l r m) = mo_asking m" "mo_dialog (settleLoad l r m) = mo_dialog m"
  "mo_jobId (settleLoad l r m) = mo_jobId m" "mo_loads (settleLoad l r m) = remove1 l (mo_loads m)"
  "mo_out (settleLoad l r m) = mo_out m" "mo_dialogJob (settleLoad l r m) = mo_dialogJob m"
  by (simp_all add: settleLoad_def receiveData_def Let_def split: sum.splits)

lemma proceed_sent:
  "mo_asking m = None \<Longrightarrow> requests_inv role m \<Longrightarrow> question_ok q \<Longrightarrow> operateJobs (capabilitiesFor role) \<Longrightarrow>
     requests_inv role (proceed q j m)"
  by (cases q) (simp_all add: requests_inv_def sendMonitor_def)

lemma monitorStep_requests:
  assumes "requests_inv role m" "monitorOffered role m e"
  shows "requests_inv role (monitorStep e m)"
proof (cases e)
  case (AnswerMonitor ok)
  then obtain q j where q: "mo_asking m = Some (q, j)" using assms(2) by auto
  then have "requests_inv role (m\<lparr>mo_asking := None\<rparr>)" "question_ok q" "operateJobs (capabilitiesFor role)"
    using assms(1) by (simp_all add: requests_inv_def list_all_iff)
  then show ?thesis using AnswerMonitor q by (simp add: answerMonitor_def Let_def proceed_sent)
next
  case (DialogEvent de)
  have "actions_inv role (runDialogStep de (mo_dialog m))"
    using assms DialogEvent runDialogStep_actions by (simp add: requests_inv_def)
  then show ?thesis using assms(1) DialogEvent by (simp add: dialogEvent_def Let_def) (simp add: requests_inv_def)
next
  case (OpenRow run)
  then show ?thesis using assms by (simp add: requests_inv_def uncovered_def actions_inv_def openRun_def cancel_loads_def)
next
  case (OpenLive run)
  then show ?thesis using assms by (simp add: requests_inv_def uncovered_def actions_inv_def openRun_def cancel_loads_def)
qed (use assms in \<open>simp_all add: requests_inv_def monitorCan_def reloadRuns_def refreshRuns_def onFilterChange_def onRetryRow_def sendMonitor_def\<close>)

subsection \<open>Lemmas: the filter of a reading\<close>

fun load_job :: "monitorLoad \<Rightarrow> string" where
  "load_job (PageLoad j) = j"
| "load_job (ClearLoad j) = j"

text \<open>A handler of the dialog is under way.\<close>

definition handling :: "runDialog \<Rightarrow> bool" where
  "handling d \<longleftrightarrow> dm_busy d \<or> dm_asking d \<noteq> None"

definition current_inv :: "monitor \<Rightarrow> bool" where
  "current_inv m \<longleftrightarrow>
     (\<forall>l\<in>set (mo_loads m). load_job l = mo_jobId m) \<and> (\<forall>x\<in>set (mo_out m). snd x = mo_jobId m) \<and>
     pred_option (\<lambda>x. snd x = mo_jobId m) (mo_asking m) \<and> (handling (mo_dialog m) \<longrightarrow> mo_dialogJob m = mo_jobId m)"

text \<open>Nothing is out that would read the runs or is reading them.\<close>

definition settled :: "monitor \<Rightarrow> bool" where
  "settled m \<longleftrightarrow> mo_loads m = [] \<and> mo_out m = [] \<and> \<not> handling (mo_dialog m)"

definition filterOrderly :: "monitor \<Rightarrow> monitorEvent \<Rightarrow> bool" where
  "filterOrderly m e \<longleftrightarrow> (\<forall>v. e = SelectJob v \<longrightarrow> settled m)"

lemma refresh_frame [simp]:
  "mo_loads ((refreshRuns j ^^ k) m) = replicate k (PageLoad j) @ mo_loads m" "mo_jobId ((refreshRuns j ^^ k) m) = mo_jobId m"
  "mo_out ((refreshRuns j ^^ k) m) = mo_out m" "mo_asking ((refreshRuns j ^^ k) m) = mo_asking m"
  "mo_dialog ((refreshRuns j ^^ k) m) = mo_dialog m" "mo_dialogJob ((refreshRuns j ^^ k) m) = mo_dialogJob m"
  by (induction k) (simp_all add: refreshRuns_def)

lemma applyLoad_changed [simp]: "dm_changed (applyLoad r d) = dm_changed d"
  by (cases r) (auto split: prod.splits)

lemma dialog_changed:
  assumes "actions_inv role d" "runDialogOffered role d e" "dm_changed (runDialogStep e d) \<noteq> dm_changed d"
  shows "dm_busy d"
proof (cases e)
  case (LoadSettles l r)
  then obtain i where "l = CancelLoad i" using assms(3) by (cases l) simp_all
  then have "cancel_loads d \<noteq> 0" using LoadSettles assms(2) by (auto simp: cancel_loads_def filter_empty_conv intro!: bexI [of _ "CancelLoad i"])
  then show ?thesis using assms(1) by (auto simp: actions_inv_def split: if_splits)
next
  case (RunSettles f r)
  then have "dm_out d \<noteq> []" using assms(2) by auto
  then show ?thesis using assms(1) by (auto simp: actions_inv_def split: if_splits)
qed (use assms(3) in \<open>auto simp: openRun_def closeRun_def sendRun_def Let_def split: option.splits if_splits\<close>)

lemma dialog_handling:
  assumes "handling (runDialogStep e d)" "\<not> isClick e"
  shows "handling d"
proof (cases e)
  case (LoadSettles l r)
  then show ?thesis using assms(1) by (cases l) (simp_all add: handling_def)
next
  case (RunSettles f r)
  then show ?thesis using assms(1)
    by (cases r) (auto simp: handling_def toastRun_def closeRun_def changedRun_def Let_def split: sum.splits)
qed (use assms in \<open>auto simp: handling_def openRun_def closeRun_def sendRun_def Let_def split: option.splits if_splits\<close>)

lemma settleMonitor_loads:
  "set (mo_loads (settleMonitor f r j m)) \<subseteq> insert (PageLoad j) (insert (ClearLoad j) (set (mo_loads m)))"
  by (cases r)
    (auto simp: settleCancel_def settleRetry_def settleClear_def refreshRuns_def reloadRuns_def toastMonitor_def split: sum.splits)

lemma monitorStep_current:
  assumes "current_inv m" "requests_inv role m" "monitorOffered role m e" "filterOrderly m e"
  shows "current_inv (monitorStep e m)"
proof (cases e)
  case (MonitorAnswer l first runs jobs details)
  then show ?thesis using assms(1) notin_set_remove1 by (fastforce simp: current_inv_def)
next
  case (MonitorSettles f r j)
  then have "j = mo_jobId m" using assms(1,3) by (fastforce simp: current_inv_def)
  then have "load_job l = mo_jobId m" if "l \<in> set (mo_loads (settleMonitor f r j (m\<lparr>mo_out := remove1 (r, j) (mo_out m)\<rparr>)))" for l
    using subsetD [OF settleMonitor_loads that] assms(1) by (auto simp: current_inv_def)
  then show ?thesis using MonitorSettles assms(1) set_remove1_subset [of "(r, j)" "mo_out m"] by (auto simp: current_inv_def)
next
  case (AnswerMonitor ok)
  then obtain q j where q: "mo_asking m = Some (q, j)" "j = mo_jobId m" using assms(1,3) by (auto simp: current_inv_def)
  then show ?thesis using AnswerMonitor assms(1)
    by (cases q) (auto simp: answerMonitor_def sendMonitor_def current_inv_def Let_def)
next
  case (DialogEvent de)
  let ?j = "if isClick de then mo_jobId m else mo_dialogJob m"
  have d: "actions_inv role (mo_dialog m)" "runDialogOffered role (mo_dialog m) de"
    using assms(2,3) DialogEvent by (simp_all add: requests_inv_def)
  have "?j = mo_jobId m" if "dm_changed (runDialogStep de (mo_dialog m)) - dm_changed (mo_dialog m) \<noteq> 0"
    using dialog_changed [OF d] that assms(1) by (auto simp: current_inv_def handling_def)
  moreover have "?j = mo_jobId m" if "handling (runDialogStep de (mo_dialog m))"
    using dialog_handling that assms(1) by (auto simp: current_inv_def)
  ultimately show ?thesis using DialogEvent assms(1)
    by (auto simp: dialogEvent_def current_inv_def Let_def set_replicate_conv_if split: if_splits)
next
  case (SelectJob v)
  then show ?thesis using assms(1,3,4)
    by (auto simp: current_inv_def filterOrderly_def settled_def uncovered_def onFilterChange_def reloadRuns_def)
next
  case (ClickRetryRow run)
  then show ?thesis using assms(1) by (auto simp: current_inv_def onRetryRow_def sendMonitor_def)
qed (use assms(1) in \<open>auto simp: current_inv_def reloadRuns_def refreshRuns_def openRun_def handling_def\<close>)

text \<open>Two runs and their job to evaluate the page on.\<close>

definition listed :: "string \<Rightarrow> runStatus \<Rightarrow> jobRun" where
  "listed i status = jobRun.truncate (nightly_run i status)"

definition nightly_details :: "js_id \<Rightarrow> runDetail exn" where
  "nightly_details i = Inr (nightly_run (id_str i) RunRunning)"

lemma listed_simps [simp]: "jr_id (listed i st) = IdStr i" "jr_status (listed i st) = st"
  by (simp_all add: listed_def jobRun.truncate_def nightly_run_def)

lemma nightly_simps [simp]: "jr_id (nightly_run i st) = IdStr i" "jr_status (nightly_run i st) = st"
  "rd_throughputBps (nightly_run i st) = Fin 0"
  by (simp_all add: nightly_run_def)

lemmas monitor_eval =
  mountMonitor_def mountAsync_def settleLoad_def receiveData_def loadMonitor_def liveDetails_def nightly_details_def
  monitorHistory_def monitorRuns_def monitorLive_def monitorJobs_def historyOf_def uncovered_def monitorCan_def
  mountRunDialog_def map_filter_simps Let_def

subsection \<open>Properties\<close>

text \<open>
  C26 (every run is shown once): when run ids are distinct and the server answers for the run it
  is asked for, the cards and the rows of the page together are the listed runs, each exactly once; a run is a
  row when it is over or its detail could not be read, so no running run disappears.
\<close>

theorem monitor_shows_each_once:
  assumes "distinct (map (\<lambda>run. id_str (jr_id run)) runs)"
    "\<forall>run\<in>set runs. \<forall>d. details (jr_id run) = Inr d \<longrightarrow> id_str (jr_id d) = id_str (jr_id run)"
  shows "mset (map (\<lambda>d. id_str (jr_id d)) (liveDetails details runs)) +
      mset (map (\<lambda>run. id_str (jr_id run)) (historyOf (liveDetails details runs) runs)) =
      mset (map (\<lambda>run. id_str (jr_id run)) runs) \<and>
    (\<forall>run\<in>set runs. run \<in> set (historyOf (liveDetails details runs) runs) \<longleftrightarrow>
       jr_status run \<noteq> RunRunning \<or> (\<exists>e. details (jr_id run) = Inl e))"
proof -
  have live: "map runKey (liveDetails details runs) = map runKey (filter (detailed details) runs)"
    by (rule liveDetails_keys [OF assms(2)])
  have hist: "historyOf (liveDetails details runs) runs = filter (\<lambda>run. \<not> detailed details run) runs"
    by (rule historyOf_filter [OF assms(1) live])
  have "mset (filter (detailed details) runs) + mset (filter (\<lambda>run. \<not> detailed details run) runs) = mset runs"
    by (simp add: multiset_partition [symmetric])
  then have "image_mset runKey (mset (filter (detailed details) runs)) +
      image_mset runKey (mset (filter (\<lambda>run. \<not> detailed details run) runs)) = image_mset runKey (mset runs)"
    by (metis image_mset_union)
  moreover have "\<not> detailed details run \<longleftrightarrow> jr_status run \<noteq> RunRunning \<or> (\<exists>e. details (jr_id run) = Inl e)" for run
    by (cases "details (jr_id run)") (auto simp: detailed_def)
  ultimately show ?thesis using live hist by (simp add: mset_map)
qed

theorem monitor_shows_each_once_witness:
  "map (\<lambda>d. id_str (jr_id d)) (liveDetails nightly_details [listed ''r2'' RunRunning, listed ''r1'' RunSuccess]) = [''r2''] \<and>
   mset [''r2''] + mset (map (\<lambda>run. id_str (jr_id run))
       (historyOf (liveDetails nightly_details [listed ''r2'' RunRunning, listed ''r1'' RunSuccess])
         [listed ''r2'' RunRunning, listed ''r1'' RunSuccess])) = mset [''r2'', ''r1'']"
proof -
  have live: "map (\<lambda>d. id_str (jr_id d)) (liveDetails nightly_details [listed ''r2'' RunRunning, listed ''r1'' RunSuccess]) = [''r2'']"
    by (simp add: liveDetails_def nightly_details_def map_filter_simps)
  from monitor_shows_each_once [of "[listed ''r2'' RunRunning, listed ''r1'' RunSuccess]" nightly_details] live
  show ?thesis by (simp add: nightly_details_def)
qed

text \<open>
  However the page is used and answers come, samples are
  kept for exactly the runs shown as cards, between one and sixty of them, all finite and
  non-negative, and the last one is the rate the card shows; before the first answer there are none.
\<close>

theorem monitor_samples_current:
  assumes "reaches monitorStep (monitorOffered role) (mountMonitor param) m"
  shows "{k. mo_samples m k \<noteq> None} = set (map (\<lambda>d. id_str (jr_id d)) (monitorLive m)) \<and>
    (\<forall>k xs. mo_samples m k = Some xs \<longrightarrow> 1 \<le> length xs \<and> length xs \<le> 60 \<and> (\<forall>v\<in>set xs. \<exists>x. v = Fin x \<and> 0 \<le> x) \<and>
       (\<exists>d\<in>set (monitorLive m). id_str (jr_id d) = k \<and> last xs = sampleOf (rd_throughputBps d)))"
proof -
  have "samples_inv (mountMonitor param)" by (simp add: samples_inv_def mountMonitor_def mountAsync_def Let_def)
  with assms have "samples_inv m" by (rule reaches_invariant) (rule monitorStep_samples)
  then have ok: "samples_ok (monitorLive m) (mo_samples m)"
    by (auto simp: samples_inv_def monitorLive_def samples_ok_def split: option.splits)
  have "sample_ok (monitorLive m) k xs \<longleftrightarrow> 1 \<le> length xs \<and> length xs \<le> 60 \<and> (\<forall>v\<in>set xs. \<exists>x. v = Fin x \<and> 0 \<le> x) \<and>
      (\<exists>d\<in>set (monitorLive m). id_str (jr_id d) = k \<and> last xs = sampleOf (rd_throughputBps d))" for k xs
    by (simp add: sample_ok_def SAMPLE_CAP_def list_all_iff Suc_le_eq)
  with ok show ?thesis by (simp add: samples_ok_def dom_def)
qed

theorem monitor_samples_current_witness:
  "\<exists>m. run_events monitorStep (monitorOffered Viewer)
     [MonitorAnswer (PageLoad ''all'') True (Inr [listed ''r1'' RunRunning]) (Inr []) nightly_details] (mountMonitor None) = Some m \<and>
     {k. mo_samples m k \<noteq> None} = {''r1''}"
proof -
  obtain m where m: "run_events monitorStep (monitorOffered Viewer)
     [MonitorAnswer (PageLoad ''all'') True (Inr [listed ''r1'' RunRunning]) (Inr []) nightly_details] (mountMonitor None) = Some m"
     "map (\<lambda>d. id_str (jr_id d)) (monitorLive m) = [''r1'']"
    by (simp add: monitor_eval)
  with monitor_samples_current [OF run_events_reaches [OF m(1)]] show ?thesis by auto
qed



text \<open>
  While the filter is changed only when no reading, no
  request and no handler of the dialog is under way, every reading that is out was started for the filter on
  screen, so no answer can show the runs of another job.
\<close>

theorem monitor_answers_current:
  assumes "reaches monitorStep (\<lambda>m e. monitorOffered role m e \<and> filterOrderly m e) (mountMonitor param) m" "l \<in> set (mo_loads m)"
  shows "load_job l = mo_jobId m"
proof -
  have "current_inv (mountMonitor param) \<and> requests_inv role (mountMonitor param)"
    by (simp add: current_inv_def requests_inv_def mountMonitor_def actions_inv_def mountRunDialog_def cancel_loads_def handling_def Let_def)
  with assms(1) have "current_inv m \<and> requests_inv role m"
    by (rule reaches_invariant) (blast intro: monitorStep_current monitorStep_requests)
  with assms(2) show ?thesis by (simp add: current_inv_def)
qed

theorem monitor_answers_current_witness:
  "\<exists>m. run_events monitorStep (\<lambda>m e. monitorOffered Viewer m e \<and> filterOrderly m e)
     [MonitorAnswer (PageLoad ''j1'') True (Inr []) (Inr []) nightly_details, SelectJob ''all''] (mountMonitor (Some ''j1'')) = Some m \<and>
     mo_loads m = [PageLoad ''all''] \<and> mo_jobId m = load_job (PageLoad ''all'')"
proof -
  obtain m where m: "run_events monitorStep (\<lambda>m e. monitorOffered Viewer m e \<and> filterOrderly m e)
     [MonitorAnswer (PageLoad ''j1'') True (Inr []) (Inr []) nightly_details, SelectJob ''all''] (mountMonitor (Some ''j1'')) = Some m"
     "mo_loads m = [PageLoad ''all'']"
    by (simp add: monitor_eval filterOrderly_def settled_def handling_def onFilterChange_def reloadRuns_def)
  with monitor_answers_current [OF run_events_reaches [OF m(1)], of "PageLoad ''all''"] show ?thesis by simp
qed

text \<open>
  Without that condition they are not: a retry that settles after the filter was changed reads the runs
  with the filter of its click, and that answer fills the page that shows another job.
\<close>

lemma late_filter_run:
  assumes "retryRun f (IdStr ''r1'') = Inr v"
  shows "\<exists>m. run_events monitorStep (monitorOffered Operator)
     [MonitorAnswer (PageLoad ''j1'') True (Inr [listed ''r1'' RunFailed]) (Inr []) nightly_details,
      ClickRetryRow (listed ''r1'' RunFailed), SelectJob ''all'',
      MonitorAnswer (PageLoad ''all'') True (Inr [listed ''r2'' RunSuccess, listed ''r1'' RunFailed]) (Inr []) nightly_details,
      MonitorSettles f (RetryRow (listed ''r1'' RunFailed)) ''j1'',
      MonitorAnswer (PageLoad ''j1'') True (Inr [listed ''r1'' RunFailed]) (Inr []) nightly_details]
     (mountMonitor (Some ''j1'')) = Some m \<and>
     mo_jobId m = ''all'' \<and> mo_loads m = [] \<and> monitorRuns m = [listed ''r1'' RunFailed]"
  using assms
  by (simp add: monitor_eval onRetryRow_def sendMonitor_def setBusy_def settleRetry_def onFilterChange_def reloadRuns_def
      refreshRuns_def toastMonitor_def)

end
