(* ===== verification/Row_State.thy ===== *)
theory Row_State
  imports Hooks "HOL-Library.Multiset"
begin

text \<open>
  Rows and cards of the list pages. React keeps the state of a row while a row with its key is on
  screen. A handler that is still waiting for an answer when its row leaves the screen carries on, but
  its changes reach no row, also when a row with the same key comes back. So a request that is out
  carries whether the row that made it is still there.
\<close>

type_synonym 'r rowRequests = "(bool \<times> 'r) list"

definition keep_alive :: "('r \<Rightarrow> 'k) \<Rightarrow> 'k list \<Rightarrow> 'r rowRequests \<Rightarrow> 'r rowRequests" where
  "keep_alive key keys out = map (\<lambda>(alive, r). (alive \<and> key r \<in> set keys, r)) out"

definition keep_asking :: "('q \<Rightarrow> 'k) \<Rightarrow> 'k list \<Rightarrow> (bool \<times> 'q) option \<Rightarrow> (bool \<times> 'q) option" where
  "keep_asking key keys = map_option (\<lambda>(alive, q). (alive \<and> key q \<in> set keys, q))"

definition keep_busy :: "'k list \<Rightarrow> ('k \<Rightarrow> 'b option) \<Rightarrow> 'k \<Rightarrow> 'b option" where
  "keep_busy keys busy = (\<lambda>k. if k \<in> set keys then busy k else None)"

lemma keep_asking_None [simp]: "keep_asking key keys a = None \<longleftrightarrow> a = None"
  by (simp add: keep_asking_def)

lemma keep_asking_snd [simp]: "map_option snd (keep_asking key keys a) = map_option snd a"
  by (cases a) (auto simp: keep_asking_def)

lemma keep_alive_requests [simp]: "map snd (keep_alive key keys out) = map snd out"
  by (induction out) (auto simp: keep_alive_def)

lemma remove1_requests: "set (map snd (remove1 x out)) \<subseteq> set (map snd out)"
  using set_remove1_subset by fastforce

lemma keep_alive_mem: "(True, r) \<in> set (keep_alive key keys out) \<longleftrightarrow> (True, r) \<in> set out \<and> key r \<in> set keys"
  by (force simp: keep_alive_def)

text \<open>The first item of every id, in the order of the server.\<close>

fun unique_by :: "('a \<Rightarrow> 'k) \<Rightarrow> 'k list \<Rightarrow> 'a list \<Rightarrow> 'a list" where
  "unique_by key seen [] = []"
| "unique_by key seen (x # xs) =
     (if key x \<in> set seen then unique_by key seen xs else x # unique_by key (key x # seen) xs)"

lemma unique_by_keys: "distinct (map key (unique_by key seen xs)) \<and> key ` set (unique_by key seen xs) = key ` set xs - set seen"
  by (induction xs arbitrary: seen) auto

lemma unique_by_subset: "set (unique_by key seen xs) \<subseteq> set xs"
  by (induction xs arbitrary: seen) auto

text \<open>\<open>/^https?:\/\//i\<close>.\<close>

definition httpUrl :: "string \<Rightarrow> bool" where
  "httpUrl s \<longleftrightarrow> starts_with ''http://'' (map ascii_lower s) \<or> starts_with ''https://'' (map ascii_lower s)"

lemma strip_slashes_last: "strip_slashes s \<noteq> [] \<Longrightarrow> last (strip_slashes s) \<noteq> CHR ''/''"
proof -
  assume "strip_slashes s \<noteq> []"
  then have "dropWhile (\<lambda>c. c = CHR ''/'') (rev s) \<noteq> []" by (simp add: strip_slashes_def)
  then show ?thesis using hd_dropWhile [of "\<lambda>c. c = CHR ''/''" "rev s"] by (simp add: strip_slashes_def last_rev)
qed

lemma strip_slashes_append: "\<exists>n. strip_slashes s @ replicate n (CHR ''/'') = s"
proof -
  let ?t = "takeWhile (\<lambda>c. c = CHR ''/'') (rev s)"
  have "\<forall>c\<in>set ?t. c = CHR ''/''" by (auto dest: set_takeWhileD)
  then have "replicate (length ?t) (CHR ''/'') = ?t" by (rule replicate_length_same)
  then have "rev ?t = replicate (length ?t) (CHR ''/'')" by (metis rev_replicate)
  then have "strip_slashes s @ replicate (length ?t) (CHR ''/'') = rev (dropWhile (\<lambda>c. c = CHR ''/'') (rev s)) @ rev ?t"
    by (simp only: strip_slashes_def)
  also have "\<dots> = s" by (metis rev_append rev_rev_ident takeWhile_dropWhile_id)
  finally show ?thesis ..
qed

text \<open>
  \<open>Array.prototype.sort()\<close> on texts compares UTF-16 code units; on UTF-8 bytes the same order has the lead
  bytes of the characters beyond the basic plane before those of its last two blocks.
\<close>

definition unit_rank :: "char \<Rightarrow> nat" where
  "unit_rank c = (let n = (of_char c :: nat) in if n = 0xEE then 0xF5 else if n = 0xEF then 0xF6 else n)"

fun unit_cmp :: "string \<Rightarrow> string \<Rightarrow> int" where
  "unit_cmp [] [] = 0"
| "unit_cmp [] (b # t) = - 1"
| "unit_cmp (a # s) [] = 1"
| "unit_cmp (a # s) (b # t) =
     (if unit_rank a < unit_rank b then - 1 else if unit_rank b < unit_rank a then 1 else unit_cmp s t)"

text \<open>\<open>new Date(s).getTime()\<close> is an instant, \<open>None\<close> for NaN. A difference with NaN is NaN, which a sort counts as equal.\<close>

fun time_ge :: "int option \<Rightarrow> int option \<Rightarrow> bool" where
  "time_ge (Some x) (Some y) = (y \<le> x)"
| "time_ge _ _ = False"

fun time_gt :: "int option \<Rightarrow> int option \<Rightarrow> bool" where
  "time_gt (Some x) (Some y) = (y < x)"
| "time_gt _ _ = False"

fun time_minus :: "int option \<Rightarrow> int option \<Rightarrow> int" where
  "time_minus (Some x) (Some y) = x - y"
| "time_minus _ _ = 0"

lemma mset_insert_by [simp]: "mset (insert_by cmp x ys) = add_mset x (mset ys)"
  by (induction ys) auto

lemma mset_sort_by [simp]: "mset (sort_by cmp xs) = mset xs"
  by (induction xs) (simp_all add: sort_by_def)

text \<open>A comparator need only be consistent on what is sorted.\<close>

lemma insert_by_cong: "(\<And>y. y \<in> set ys \<Longrightarrow> cmp x y = cmp' x y) \<Longrightarrow> insert_by cmp x ys = insert_by cmp' x ys"
  by (induction ys) auto

lemma sort_by_cong: "(\<And>x y. x \<in> set xs \<Longrightarrow> y \<in> set xs \<Longrightarrow> cmp x y = cmp' x y) \<Longrightarrow> sort_by cmp xs = sort_by cmp' xs"
proof (induction xs)
  case (Cons x xs)
  then have "sort_by cmp xs = sort_by cmp' xs" by simp
  moreover have "insert_by cmp x (sort_by cmp' xs) = insert_by cmp' x (sort_by cmp' xs)"
    by (rule insert_by_cong) (use Cons.prems in auto)
  ultimately show ?case by (simp add: sort_by_def)
qed (simp add: sort_by_def)

lemma sorted_by_time:
  assumes "\<forall>x\<in>set xs. t x \<noteq> None"
  shows "sorted_wrt (\<lambda>x y. the (t x) \<le> the (t y)) (sort_by (\<lambda>x y. time_minus (t x) (t y)) xs)"
    and "sorted_wrt (\<lambda>x y. the (t y) \<le> the (t x)) (sort_by (\<lambda>x y. time_minus (t y) (t x)) xs)"
proof -
  have m: "time_minus (t x) (t y) = the (t x) - the (t y)" if "x \<in> set xs" "y \<in> set xs" for x y
    using assms that by (cases "t x"; cases "t y") auto
  have "sort_by (\<lambda>x y. time_minus (t x) (t y)) xs = sort_by (\<lambda>x y. the (t x) - the (t y)) xs"
    "sort_by (\<lambda>x y. time_minus (t y) (t x)) xs = sort_by (\<lambda>x y. the (t y) - the (t x)) xs"
    by (rule sort_by_cong, simp add: m)+
  moreover have "comparator (\<lambda>x y. the (t x) - the (t y))" "comparator (\<lambda>x y. the (t y) - the (t x))"
    by (auto simp: comparator_def)
  ultimately show "sorted_wrt (\<lambda>x y. the (t x) \<le> the (t y)) (sort_by (\<lambda>x y. time_minus (t x) (t y)) xs)"
    "sorted_wrt (\<lambda>x y. the (t y) \<le> the (t x)) (sort_by (\<lambda>x y. time_minus (t y) (t x)) xs)"
    using sorted_sort_by [of "\<lambda>x y. the (t x) - the (t y)" xs] sorted_sort_by [of "\<lambda>x y. the (t y) - the (t x)" xs] by simp_all
qed

text \<open>What every page shows before it has data.\<close>

datatype 'v pageView = PageLoading | PageError string | PageReady 'v

definition pageViewOf :: "'a async \<Rightarrow> 'v \<Rightarrow> 'v pageView" where
  "pageViewOf a v =
     (if as_loading a \<and> as_data a = None then PageLoading
      else case (as_error a, as_data a) of
          (Some err, None) \<Rightarrow> if err = [] then PageReady v else PageError err
        | _ \<Rightarrow> PageReady v)"

lemma pageViewOf_data: "as_data a \<noteq> None \<Longrightarrow> pageViewOf a v = PageReady v"
  by (auto simp: pageViewOf_def split: option.splits)

end
