(* ===== verification/Targets_Page.thy ===== *)
theory Targets_Page
  imports Row_State Run_Views
begin

text \<open>
  Storage targets (\<open>web/src/pages/TargetsPage.tsx\<close>): the form that adds one (kind first, then only
  that kind's fields), its checks and the probe that follows, the cards with their capacity and connection
  tests, and removal.
\<close>

subsection \<open>The form\<close>

record s3Form =
  s3_name :: string
  s3_endpoint :: string
  s3_region :: string
  s3_bucket :: string
  s3_accessKey :: string
  s3_secretKey :: string
  s3_pathStyle :: bool

record filesystemForm =
  fs_name :: string
  fs_path :: string
  fs_allow :: bool

definition EMPTY_S3 :: s3Form where
  "EMPTY_S3 =
     \<lparr>s3_name = [], s3_endpoint = [], s3_region = [], s3_bucket = [], s3_accessKey = [], s3_secretKey = [], s3_pathStyle = False\<rparr>"

definition EMPTY_FS :: filesystemForm where
  "EMPTY_FS = \<lparr>fs_name = [], fs_path = [], fs_allow = False\<rparr>"

text \<open>\<open>replace(/(?!^)[/\\]+$/, '')\<close>: trailing separators, but never the first character.\<close>

definition is_sep :: "char \<Rightarrow> bool" where
  "is_sep c \<longleftrightarrow> c = CHR ''/'' \<or> c = CHR 0x5C"

fun strip_seps :: "string \<Rightarrow> string" where
  "strip_seps [] = []"
| "strip_seps (c # cs) = c # rev (dropWhile is_sep (rev cs))"

text \<open>The test for an absolute path: a slash or tilde, a drive, or two backslashes.\<close>

definition is_ascii_letter :: "char \<Rightarrow> bool" where
  "is_ascii_letter c \<longleftrightarrow> (let n = (of_char c :: nat) in 65 \<le> n \<and> n \<le> 90 \<or> 97 \<le> n \<and> n \<le> 122)"

fun absolutePath :: "string \<Rightarrow> bool" where
  "absolutePath (a # b # c # cs) =
     (a = CHR ''/'' \<or> a = CHR ''~'' \<or> (is_ascii_letter a \<and> b = CHR '':'' \<and> is_sep c) \<or> (a = CHR 0x5C \<and> b = CHR 0x5C))"
| "absolutePath [a, b] = (a = CHR ''/'' \<or> a = CHR ''~'' \<or> (a = CHR 0x5C \<and> b = CHR 0x5C))"
| "absolutePath [a] = (a = CHR ''/'' \<or> a = CHR ''~'')"
| "absolutePath [] = False"

text \<open>What a submission leads to: the message of the first failed check, or the payload.\<close>

definition s3Payload :: "s3Form \<Rightarrow> string + targetCreate" where
  "s3Payload s =
     (if trim (s3_name s) = [] then Inl ''Give the target a display name.''
      else if trim (s3_endpoint s) = [] then Inl ''Enter the S3 endpoint URL.''
      else if trim (s3_bucket s) = [] then Inl ''Enter the bucket name.''
      else if trim (s3_accessKey s) = [] then Inl ''Enter the access key.''
      else if trim (s3_secretKey s) = [] then Inl ''Enter the secret key.''
      else Inr (S3TargetCreate (trim (s3_name s)) (strip_slashes (trim (s3_endpoint s))) (trim (s3_region s))
                 (trim (s3_bucket s)) (trim (s3_accessKey s)) (s3_secretKey s) (s3_pathStyle s)))"

definition filesystemPayload :: "filesystemForm \<Rightarrow> string + targetCreate" where
  "filesystemPayload s =
     (let path = strip_seps (trim (fs_path s))
      in if trim (fs_name s) = [] then Inl ''Give the target a display name.''
         else if path = [] then Inl ''Enter the directory ProxBack should write into.''
         else if \<not> absolutePath path then Inl ''Enter an absolute path, for example /mnt/nas/proxback.''
         else Inr (FilesystemTargetCreate (trim (fs_name s)) path (fs_allow s)))"

subsection \<open>State\<close>

record targetTestResult =
  tr_ok :: bool
  tr_error :: "string option"
  tr_warnings :: "targetWarning list"
  tr_filesystemType :: "string option"
  tr_freeBytes :: "jsnum option"
  tr_totalBytes :: "jsnum option"
  tr_path :: "string option"

text \<open>The probe is the test that follows a creation; a test and a removal belong to a card.\<close>

datatype targetAction =
    AddTarget targetCreate
  | ProbeTarget target
  | TestTarget target
  | RemoveTarget target

record targetsPage =
  tp_list :: "target list async"
  tp_addOpen :: bool
  tp_kind :: "targetKind option"
  tp_s3 :: s3Form
  tp_fs :: filesystemForm
  tp_submitting :: bool
  tp_error :: "string option"
  tp_testing :: "string list"
  tp_deleting :: "string list"
  tp_results :: "string \<Rightarrow> targetTestResult option"
  tp_asking :: "(bool \<times> target) option"
  tp_out :: "targetAction rowRequests"
  tp_sent :: "targetAction list"
  tp_toasts :: "(string \<times> string) list"

definition mountTargets :: targetsPage where
  "mountTargets =
     \<lparr>tp_list = mountAsync, tp_addOpen = False, tp_kind = None, tp_s3 = EMPTY_S3, tp_fs = EMPTY_FS, tp_submitting = False,
      tp_error = None, tp_testing = [], tp_deleting = [], tp_results = (\<lambda>_. None), tp_asking = None, tp_out = [],
      tp_sent = [], tp_toasts = []\<rparr>"

abbreviation targetKey :: "target \<Rightarrow> string" where
  "targetKey t \<equiv> id_str (t_id t)"

definition targetsShown :: "targetsPage \<Rightarrow> target list" where
  "targetsShown p = unique_by t_id [] (case as_data (tp_list p) of Some ts \<Rightarrow> ts | None \<Rightarrow> [])"

subsection \<open>Handlers\<close>

definition closeAddTarget :: "targetsPage \<Rightarrow> targetsPage" where
  "closeAddTarget p = p\<lparr>tp_kind := None, tp_s3 := EMPTY_S3, tp_fs := EMPTY_FS, tp_error := None, tp_addOpen := False\<rparr>"

definition sendTarget :: "bool \<Rightarrow> targetAction \<Rightarrow> targetsPage \<Rightarrow> targetsPage" where
  "sendTarget alive r p = p\<lparr>tp_out := (alive, r) # tp_out p, tp_sent := r # tp_sent p\<rparr>"

definition toastTarget :: "string \<Rightarrow> string \<Rightarrow> targetsPage \<Rightarrow> targetsPage" where
  "toastTarget title detail p = p\<lparr>tp_toasts := (title, detail) # tp_toasts p\<rparr>"

definition refreshTargets :: "targetsPage \<Rightarrow> targetsPage" where
  "refreshTargets p = p\<lparr>tp_list := asyncStep Refresh (tp_list p)\<rparr>"

text \<open>A failed check ends the handler; otherwise the creation is sent and the form stays busy.\<close>

definition onSubmitTarget :: "targetsPage \<Rightarrow> targetsPage" where
  "onSubmitTarget p =
     (case (if tp_kind p = Some Filesystem then filesystemPayload (tp_fs p) else s3Payload (tp_s3 p)) of
        Inl message \<Rightarrow> p\<lparr>tp_error := Some message, tp_submitting := False\<rparr>
      | Inr payload \<Rightarrow> sendTarget True (AddTarget payload) (p\<lparr>tp_error := None, tp_submitting := True\<rparr>))"

fun checkingText :: "targetCreate \<Rightarrow> string" where
  "checkingText (S3TargetCreate n e r b a s ps) = ''Checking bucket access'' @ ellipsis"
| "checkingText (FilesystemTargetCreate n path allow) = ''Checking the path'' @ ellipsis"

definition settleCreate :: "targetCreate \<Rightarrow> target exn \<Rightarrow> targetsPage \<Rightarrow> targetsPage" where
  "settleCreate payload r p =
     (case r of
        Inr t \<Rightarrow>
          sendTarget True (ProbeTarget t)
            (closeAddTarget (toastTarget (''Target '' @ ldquo @ t_name t @ rdquo @ '' added.'') (checkingText payload) p))
      | Inl err \<Rightarrow>
          toastTarget ''Could not add target'' (errorMessage err)
            (p\<lparr>tp_error := Some (errorMessage err), tp_submitting := False\<rparr>))"

text \<open>The text of a warning; a code that names an inherited member shows no text.\<close>

definition warningText :: "targetWarning \<Rightarrow> string" where
  "warningText w = (case describeTargetWarning w of Some s \<Rightarrow> s | None \<Rightarrow> [])"

definition refused :: "targetTestResult \<Rightarrow> string" where
  "refused r = (case tr_error r of Some e \<Rightarrow> e | None \<Rightarrow> ''The probe was refused.'')"

definition probeToast :: "target \<Rightarrow> targetTestResult \<Rightarrow> string \<times> string" where
  "probeToast t r =
     (if \<not> tr_ok r then (t_name t @ '' is not usable yet'', refused r)
      else case tr_warnings r of
          w # _ \<Rightarrow> (t_name t @ '' is writable, with warnings'', warningText w)
        | [] \<Rightarrow> (t_name t @ '' is writable.'', []))"

definition settleProbe :: "target \<Rightarrow> targetTestResult exn \<Rightarrow> targetsPage \<Rightarrow> targetsPage" where
  "settleProbe t r p =
     (let (title, detail) = (case r of Inr test \<Rightarrow> probeToast t test | Inl err \<Rightarrow> (''Test failed'', errorMessage err))
      in (refreshTargets (toastTarget title detail p))\<lparr>tp_submitting := False\<rparr>)"

definition testToast :: "target \<Rightarrow> targetTestResult \<Rightarrow> string \<times> string" where
  "testToast t r =
     (if \<not> tr_ok r then (t_name t @ '' is not usable'', refused r)
      else if tr_warnings r \<noteq> []
      then (t_name t @ '' is writable, with warnings'', ''See the target card for details.'')
      else (t_name t @ '' is writable.'', []))"

definition settleTest :: "bool \<Rightarrow> target \<Rightarrow> targetTestResult exn \<Rightarrow> targetsPage \<Rightarrow> targetsPage" where
  "settleTest alive t r p =
     (let q = (case r of
                 Inr test \<Rightarrow>
                   (let (title, detail) = testToast t test;
                        shown = (if alive then (tp_results p)(targetKey t := Some test) else tp_results p)
                    in refreshTargets (toastTarget title detail (p\<lparr>tp_results := shown\<rparr>)))
               | Inl err \<Rightarrow> toastTarget ''Test failed'' (errorMessage err) p)
      in if alive then q\<lparr>tp_testing := removeAll (targetKey t) (tp_testing q)\<rparr> else q)"

definition settleRemove :: "bool \<Rightarrow> target \<Rightarrow> unit exn \<Rightarrow> targetsPage \<Rightarrow> targetsPage" where
  "settleRemove alive t r p =
     (let q = (case r of
                 Inr _ \<Rightarrow>
                   refreshTargets (toastTarget (''Target '' @ ldquo @ t_name t @ rdquo @ '' removed.'') [] p)
               | Inl err \<Rightarrow> toastTarget ''Could not remove target'' (errorMessage err) p)
      in if alive then q\<lparr>tp_deleting := removeAll (targetKey t) (tp_deleting q)\<rparr> else q)"

definition answerRemove :: "bool \<Rightarrow> targetsPage \<Rightarrow> targetsPage" where
  "answerRemove ok p =
     (case tp_asking p of
        None \<Rightarrow> p
      | Some (alive, t) \<Rightarrow>
          let q = p\<lparr>tp_asking := None\<rparr>
          in if ok then sendTarget alive (RemoveTarget t) (if alive then q\<lparr>tp_deleting := targetKey t # tp_deleting q\<rparr> else q) else q)"

text \<open>A new list drops the state of the cards that are gone; the form stays.\<close>

fun targetActionKey :: "targetAction \<Rightarrow> string option" where
  "targetActionKey (TestTarget t) = Some (targetKey t)"
| "targetActionKey (RemoveTarget t) = Some (targetKey t)"
| "targetActionKey _ = None"

definition receiveTargets :: "target list exn \<Rightarrow> targetsPage \<Rightarrow> targetsPage" where
  "receiveTargets r p =
     (let q = p\<lparr>tp_list := asyncStep (LoaderSettles r) (tp_list p)\<rparr>;
          keys = map targetKey (targetsShown q)
      in q\<lparr>tp_testing := filter (\<lambda>k. k \<in> set keys) (tp_testing p),
           tp_deleting := filter (\<lambda>k. k \<in> set keys) (tp_deleting p),
           tp_results := keep_busy keys (tp_results p),
           tp_asking := keep_asking targetKey keys (tp_asking p), tp_out := keep_alive targetActionKey (None # map Some keys) (tp_out p)\<rparr>)"

subsection \<open>Events\<close>

text \<open>\<open>EditS3\<close> is an edit of any input of that form, with the form it leaves.\<close>

datatype targetsEvent =
    ReloadTargets
  | TargetsAnswer "target list exn"
  | OpenAddTarget
  | CloseAddTarget
  | PickKind targetKind
  | BackToKinds
  | TypeFsName string
  | TypeFsPath string
  | TickSameFilesystem bool
  | EditS3 s3Form
  | SubmitTarget
  | ClickTest target
  | AskRemove target
  | AnswerRemove bool
  | CreateSettles targetCreate "target exn"
  | ProbeSettles target "targetTestResult exn"
  | TestSettles bool target "targetTestResult exn"
  | RemoveSettles bool target "unit exn"

definition mayManage :: "role \<Rightarrow> bool" where
  "mayManage role \<longleftrightarrow> manageInfrastructure (capabilitiesFor role)"

fun targetsOffered :: "role \<Rightarrow> targetsPage \<Rightarrow> targetsEvent \<Rightarrow> bool" where
  "targetsOffered role p ReloadTargets = (\<not> as_loading (tp_list p))"
| "targetsOffered role p (TargetsAnswer r) = (0 < as_out (tp_list p))"
| "targetsOffered role p OpenAddTarget = (mayManage role)"
| "targetsOffered role p CloseAddTarget = tp_addOpen p"
| "targetsOffered role p (PickKind k) = (tp_addOpen p \<and> tp_kind p = None)"
| "targetsOffered role p BackToKinds = (tp_addOpen p \<and> tp_kind p \<noteq> None)"
| "targetsOffered role p (TypeFsName s) = (tp_addOpen p \<and> tp_kind p = Some Filesystem)"
| "targetsOffered role p (TypeFsPath s) = (tp_addOpen p \<and> tp_kind p = Some Filesystem)"
| "targetsOffered role p (TickSameFilesystem b) = (tp_addOpen p \<and> tp_kind p = Some Filesystem)"
| "targetsOffered role p (EditS3 s) = (tp_addOpen p \<and> tp_kind p = Some S3)"
| "targetsOffered role p SubmitTarget = (tp_addOpen p \<and> tp_kind p \<noteq> None \<and> \<not> tp_submitting p)"
| "targetsOffered role p (ClickTest t) =
     (mayManage role \<and> t \<in> set (targetsShown p) \<and> targetKey t \<notin> set (tp_testing p))"
| "targetsOffered role p (AskRemove t) =
     (mayManage role \<and> t \<in> set (targetsShown p) \<and> targetKey t \<notin> set (tp_deleting p))"
| "targetsOffered role p (AnswerRemove ok) = (tp_asking p \<noteq> None)"
| "targetsOffered role p (CreateSettles payload r) = ((True, AddTarget payload) \<in> set (tp_out p))"
| "targetsOffered role p (ProbeSettles t r) = ((True, ProbeTarget t) \<in> set (tp_out p))"
| "targetsOffered role p (TestSettles alive t r) = ((alive, TestTarget t) \<in> set (tp_out p))"
| "targetsOffered role p (RemoveSettles alive t r) = ((alive, RemoveTarget t) \<in> set (tp_out p))"

definition settledTarget :: "bool \<Rightarrow> targetAction \<Rightarrow> targetsPage \<Rightarrow> targetsPage" where
  "settledTarget alive r p = p\<lparr>tp_out := remove1 (alive, r) (tp_out p)\<rparr>"

fun targetsStep :: "targetsEvent \<Rightarrow> targetsPage \<Rightarrow> targetsPage" where
  "targetsStep ReloadTargets p = p\<lparr>tp_list := asyncStep Reload (tp_list p)\<rparr>"
| "targetsStep (TargetsAnswer r) p = receiveTargets r p"
| "targetsStep OpenAddTarget p = p\<lparr>tp_addOpen := True\<rparr>"
| "targetsStep CloseAddTarget p = closeAddTarget p"
| "targetsStep (PickKind k) p = p\<lparr>tp_kind := Some k\<rparr>"
| "targetsStep BackToKinds p = p\<lparr>tp_kind := None\<rparr>"
| "targetsStep (TypeFsName s) p = p\<lparr>tp_fs := (tp_fs p)\<lparr>fs_name := s\<rparr>\<rparr>"
| "targetsStep (TypeFsPath s) p = p\<lparr>tp_fs := (tp_fs p)\<lparr>fs_path := s\<rparr>\<rparr>"
| "targetsStep (TickSameFilesystem b) p = p\<lparr>tp_fs := (tp_fs p)\<lparr>fs_allow := b\<rparr>\<rparr>"
| "targetsStep (EditS3 s) p = p\<lparr>tp_s3 := s\<rparr>"
| "targetsStep SubmitTarget p = onSubmitTarget p"
| "targetsStep (ClickTest t) p = sendTarget True (TestTarget t) (p\<lparr>tp_testing := targetKey t # tp_testing p\<rparr>)"
| "targetsStep (AskRemove t) p = p\<lparr>tp_asking := Some (True, t)\<rparr>"
| "targetsStep (AnswerRemove ok) p = answerRemove ok p"
| "targetsStep (CreateSettles payload r) p = settleCreate payload r (settledTarget True (AddTarget payload) p)"
| "targetsStep (ProbeSettles t r) p = settleProbe t r (settledTarget True (ProbeTarget t) p)"
| "targetsStep (TestSettles alive t r) p = settleTest alive t r (settledTarget alive (TestTarget t) p)"
| "targetsStep (RemoveSettles alive t r) p = settleRemove alive t r (settledTarget alive (RemoveTarget t) p)"

subsection \<open>What it shows\<close>

record capacityView =
  cv_free :: string
  cv_bar :: "jsnum \<times> string"
  cv_tone :: pillTone
  cv_aria :: string
  cv_used :: string
  cv_low :: "string option"

definition Capacity :: "host \<Rightarrow> target \<Rightarrow> capacityView option" where
  "Capacity h t =
     map_option (\<lambda>c.
       let bytes = (\<lambda>n. formatBytes h (Some n) 1); used = formatPct (Some (c_usedPct c)) 0
       in \<lparr>cv_free = bytes (c_freeBytes c) @ '' free'', cv_bar = ProgressBar (c_usedPct c),
           cv_tone = (if c_low c then WarnTone else NeutralTone),
           cv_aria = t_name t @ '': '' @ used @ '' of '' @ bytes (c_totalBytes c) @ '' used, '' @ bytes (c_freeBytes c) @ '' free'',
           cv_used = bytes (c_usedBytes c) @ '' used of '' @ bytes (c_totalBytes c) @ '' ('' @ used @ '')'',
           cv_low = (if c_low c
             then Some (''Under '' @ num_str LOW_SPACE_PCT @ ''% free. Trim retention or add space before the next run needs it.'')
             else None)\<rparr>) (capacityOf t)"

text \<open>A blocking failure or that it is writable, and the cautions beside it.\<close>

datatype testOutcome = Writable string | CannotBeUsed string

definition outcomeOf :: "host \<Rightarrow> targetTestResult \<Rightarrow> testOutcome" where
  "outcomeOf h r =
     (if tr_ok r
      then Writable (case opt_text (tr_filesystemType r) of
             None \<Rightarrow> ''Wrote, read back, and removed a probe.''
           | Some fs \<Rightarrow> ''Detected '' @ fs @
               (case tr_totalBytes r of
                  Some whole \<Rightarrow>
                    if js_num_truthy whole
                    then '' '' @ middle_dot @ '' '' @ formatBytes h (tr_freeBytes r) 1 @ '' free of '' @ formatBytes h (Some whole) 1
                    else []
                | None \<Rightarrow> []))
      else CannotBeUsed (case opt_text (tr_error r) of Some e \<Rightarrow> e | None \<Rightarrow> ''The target refused the probe.''))"

definition TestOutcome :: "host \<Rightarrow> targetTestResult \<Rightarrow> testOutcome \<times> string list" where
  "TestOutcome h r = (outcomeOf h r, map warningText (tr_warnings r))"

datatype targetBody =
    FilesystemBody string "capacityView option" bool
  | BucketBody string string string

record targetCard =
  tc_name :: string
  tc_chip :: "string \<times> string"
  tc_location :: string
  tc_pill :: "pillTone \<times> string"
  tc_body :: targetBody
  tc_outcome :: "(testOutcome \<times> string list) option"
  tc_denied :: "string option"

definition TargetCard :: "host \<Rightarrow> role \<Rightarrow> (string \<Rightarrow> targetTestResult option) \<Rightarrow> target \<Rightarrow> targetCard" where
  "TargetCard h role results t =
     \<lparr>tc_name = t_name t, tc_chip = TargetKindChip (t_kind t), tc_location = targetLocation t,
      tc_pill = (toneForStatus (Some (t_status t)), if t_status t = [] then ''unknown'' else t_status t),
      tc_body =
        (if t_kind t = Filesystem
         then FilesystemBody (or_dash (case t_path t of Some s \<Rightarrow> s | None \<Rightarrow> [])) (Capacity h t) (t_allowSameFilesystem t = Some True)
         else BucketBody (or_dash (t_bucket t)) (or_dash (t_region t)) (if t_pathStyle t then ''Path-style'' else ''Virtual-hosted'')),
      tc_outcome = map_option (TestOutcome h) (results (targetKey t)),
      tc_denied = (if mayManage role then None else Some (roleDeniedReason role ''change storage targets''))\<rparr>"

datatype targetsView =
    TargetsLoading
  | TargetsError string
  | TargetsEmpty
  | TargetsCards bool bool "targetCard list"

text \<open>The cards with the two notes: no target is offsite, no target is local.\<close>

definition localCount :: "target list \<Rightarrow> nat" where
  "localCount ts = length (filter (\<lambda>t. t_kind t = Filesystem) ts)"

definition targetsViewOf :: "host \<Rightarrow> role \<Rightarrow> targetsPage \<Rightarrow> targetsView" where
  "targetsViewOf h role p =
     (let ts = targetsShown p
      in if as_loading (tp_list p) \<and> as_data (tp_list p) = None then TargetsLoading
         else case (opt_text (as_error (tp_list p)), as_data (tp_list p)) of
             (Some err, None) \<Rightarrow> TargetsError err
           | _ \<Rightarrow> if ts = [] then TargetsEmpty
                  else TargetsCards (length ts - localCount ts = 0) (localCount ts = 0) (map (TargetCard h role (tp_results p)) ts))"

subsection \<open>Lemmas\<close>

lemma strip_seps_last: "1 < length (strip_seps s) \<Longrightarrow> \<not> is_sep (last (strip_seps s))"
proof (cases s)
  case (Cons c cs)
  assume "1 < length (strip_seps s)"
  with Cons have "dropWhile is_sep (rev cs) \<noteq> []" by auto
  then show ?thesis using Cons hd_dropWhile [of is_sep "rev cs"] by (auto simp: last_rev)
qed simp

text \<open>What a creation must carry.\<close>

fun target_complete :: "targetCreate \<Rightarrow> bool" where
  "target_complete (S3TargetCreate name endpoint region bucket accessKey secretKey pathStyle) =
     (name \<noteq> [] \<and> bucket \<noteq> [] \<and> accessKey \<noteq> [] \<and> trim secretKey \<noteq> [] \<and> (endpoint = [] \<or> last endpoint \<noteq> CHR ''/''))"
| "target_complete (FilesystemTargetCreate name path allow) =
     (name \<noteq> [] \<and> absolutePath path \<and> (length path = 1 \<or> \<not> is_sep (last path)))"

lemma target_payload_complete:
  "s3Payload s = Inr c \<Longrightarrow> target_complete c" "filesystemPayload g = Inr c \<Longrightarrow> target_complete c"
proof -
  show "target_complete c" if "s3Payload s = Inr c"
    using that strip_slashes_last [of "trim (s3_endpoint s)"] by (auto simp: s3Payload_def split: if_splits)
  have "length (strip_seps x) = 1 \<or> \<not> is_sep (last (strip_seps x))" if "strip_seps x \<noteq> []" for x
    using that strip_seps_last [of x] by (cases "length (strip_seps x) = 1") (auto simp: nat_neq_iff)
  then show "target_complete c" if "filesystemPayload g = Inr c"
    using that by (auto simp: filesystemPayload_def Let_def split: if_splits)
qed

fun target_action_ok :: "targetAction \<Rightarrow> bool" where
  "target_action_ok (AddTarget c) = target_complete c"
| "target_action_ok _ = True"

text \<open>Everything sent is complete and allowed; while an add form is open or a removal is asked, it is allowed too.\<close>

definition targets_inv :: "role \<Rightarrow> targetsPage \<Rightarrow> bool" where
  "targets_inv role p \<longleftrightarrow>
     list_all target_action_ok (tp_sent p) \<and> (tp_sent p \<noteq> [] \<or> tp_addOpen p \<or> tp_asking p \<noteq> None \<longrightarrow> mayManage role) \<and>
     set (map snd (tp_out p)) \<subseteq> set (tp_sent p)"

lemmas targets_handlers =
  sendTarget_def toastTarget_def refreshTargets_def closeAddTarget_def settledTarget_def settleCreate_def settleProbe_def
  settleTest_def settleRemove_def receiveTargets_def

lemma targetsStep_inv:
  assumes "targets_inv role p" "targetsOffered role p e"
  shows "targets_inv role (targetsStep e p)"
proof (cases e)
  case SubmitTarget
  then have m: "mayManage role" using assms by (auto simp: targets_inv_def)
  have "target_complete c" if "(if tp_kind p = Some Filesystem then filesystemPayload (tp_fs p) else s3Payload (tp_s3 p)) = Inr c" for c
    using that target_payload_complete by (simp split: if_splits)
  then show ?thesis using SubmitTarget assms(1) m
    by (auto simp: onSubmitTarget_def targets_inv_def sendTarget_def split: sum.splits)
next
  case (CreateSettles c r)
  then have "mayManage role" using assms by (auto simp: targets_inv_def)
  then show ?thesis using CreateSettles assms(1) remove1_requests [of "(True, AddTarget c)" "tp_out p"]
    by (auto simp: targets_inv_def targets_handlers split: sum.splits)
next
  case (ProbeSettles t r)
  then show ?thesis using assms(1) remove1_requests [of "(True, ProbeTarget t)" "tp_out p"]
    by (auto simp: targets_inv_def targets_handlers split: sum.splits prod.splits)
next
  case (TestSettles alive t r)
  then show ?thesis using assms(1) remove1_requests [of "(alive, TestTarget t)" "tp_out p"]
    by (auto simp: targets_inv_def targets_handlers Let_def split: sum.splits prod.splits)
next
  case (RemoveSettles alive t r)
  then show ?thesis using assms(1) remove1_requests [of "(alive, RemoveTarget t)" "tp_out p"]
    by (auto simp: targets_inv_def targets_handlers Let_def split: sum.splits)
next
  case (TargetsAnswer r)
  then show ?thesis using assms keep_alive_requests [of targetActionKey _ "tp_out p"]
    by (auto simp: targets_inv_def targets_handlers Let_def simp flip: set_map)
next
  case (AnswerRemove ok)
  then obtain alive t where a: "tp_asking p = Some (alive, t)" using assms(2) by auto
  then have "mayManage role" using assms(1) by (simp add: targets_inv_def)
  then show ?thesis using AnswerRemove assms(1) a
    by (cases ok; cases alive; simp add: answerRemove_def targets_inv_def sendTarget_def Let_def subset_insertI2)
qed (use assms in \<open>auto simp: targets_inv_def targets_handlers Let_def\<close>)

interpretation target_actions: request_guard mountTargets targetsStep "targetsOffered role" "targets_inv role" tp_sent
  "\<lambda>r. target_action_ok r \<and> mayManage role" for role
proof unfold_locales
  show "targets_inv role mountTargets" by (simp add: targets_inv_def mountTargets_def)
  show "targets_inv role p \<Longrightarrow> list_all (\<lambda>r. target_action_ok r \<and> mayManage role) (tp_sent p)" for p
    by (auto simp: targets_inv_def list_all_iff)
qed (rule targetsStep_inv)

fun allows_same :: "targetAction \<Rightarrow> bool" where
  "allows_same (AddTarget (FilesystemTargetCreate name path allow)) = allow"
| "allows_same _ = False"

definition unticked_since :: "targetAction list \<Rightarrow> targetsPage \<Rightarrow> bool" where
  "unticked_since old p \<longleftrightarrow>
     \<not> fs_allow (tp_fs p) \<and> (\<exists>new. tp_sent p = new @ old \<and> list_all (\<lambda>r. \<not> allows_same r) new)"

lemma unticked_send: "unticked_since old p \<Longrightarrow> \<not> allows_same r \<Longrightarrow> unticked_since old (sendTarget alive r p)"
  by (force simp: unticked_since_def sendTarget_def intro: exI [of _ "r # _"])

lemma unticked_close: "unticked_since old p \<Longrightarrow> unticked_since old (closeAddTarget p)"
  by (simp add: unticked_since_def closeAddTarget_def EMPTY_FS_def)

lemma unticked_submit: "unticked_since old p \<Longrightarrow> unticked_since old (onSubmitTarget p)"
proof -
  assume p: "unticked_since old p"
  let ?r = "if tp_kind p = Some Filesystem then filesystemPayload (tp_fs p) else s3Payload (tp_s3 p)"
  have "\<not> allows_same (AddTarget c)" if "?r = Inr c" for c
    using that p by (auto simp: s3Payload_def filesystemPayload_def unticked_since_def Let_def split: if_splits)
  moreover have "unticked_since old (p\<lparr>tp_error := None, tp_submitting := True\<rparr>)" using p by (simp add: unticked_since_def)
  ultimately have sent: "?r = Inr c \<Longrightarrow> unticked_since old (sendTarget True (AddTarget c) (p\<lparr>tp_error := None, tp_submitting := True\<rparr>))" for c
    by (simp add: unticked_send)
  show ?thesis
  proof (cases ?r)
    case (Inl m)
    then show ?thesis using p by (simp add: onSubmitTarget_def unticked_since_def)
  next
    case (Inr c)
    with sent show ?thesis by (simp add: onSubmitTarget_def)
  qed
qed

lemma targetsStep_unticked:
  assumes "unticked_since old p" "e \<noteq> TickSameFilesystem True"
  shows "unticked_since old (targetsStep e p)"
proof (cases e)
  case SubmitTarget
  then show ?thesis using assms(1) unticked_submit by simp
next
  case CloseAddTarget
  then show ?thesis using assms(1) unticked_close by simp
next
  case (TickSameFilesystem b)
  then show ?thesis using assms by (simp add: unticked_since_def)
next
  case (CreateSettles c r)
  show ?thesis
  proof (cases r)
    case (Inl err)
    then show ?thesis using CreateSettles assms(1) by (simp add: settleCreate_def unticked_since_def toastTarget_def settledTarget_def)
  next
    case (Inr t)
    have "unticked_since old (toastTarget x y (settledTarget True a p))" for x y a
      using assms(1) by (simp add: unticked_since_def toastTarget_def settledTarget_def)
    then show ?thesis using CreateSettles Inr by (simp add: settleCreate_def unticked_send unticked_close)
  qed
next
  case (AnswerRemove ok)
  have "unticked_since old (p\<lparr>tp_asking := None, tp_deleting := k\<rparr>)" for k using assms(1) by (simp add: unticked_since_def)
  moreover have "unticked_since old (p\<lparr>tp_asking := None\<rparr>)" using assms(1) by (simp add: unticked_since_def)
  ultimately show ?thesis using AnswerRemove assms(1)
    by (auto simp: answerRemove_def unticked_send Let_def split: option.splits)
next
  case (ClickTest t)
  have "unticked_since old (p\<lparr>tp_testing := k\<rparr>)" for k using assms(1) by (simp add: unticked_since_def)
  then show ?thesis using ClickTest by (simp add: unticked_send)
next
  case (ProbeSettles t r)
  then show ?thesis using assms(1) by (auto simp: unticked_since_def targets_handlers split: sum.splits prod.splits)
next
  case (TestSettles alive t r)
  then show ?thesis using assms(1) by (auto simp: unticked_since_def targets_handlers Let_def split: sum.splits prod.splits)
next
  case (RemoveSettles alive t r)
  then show ?thesis using assms(1) by (auto simp: unticked_since_def targets_handlers Let_def split: sum.splits)
qed (use assms(1) in \<open>simp_all add: unticked_since_def receiveTargets_def Let_def\<close>)

lemma run_unticked:
  "run_events targetsStep (targetsOffered role) es p = Some q \<Longrightarrow> unticked_since old p \<Longrightarrow> TickSameFilesystem True \<notin> set es \<Longrightarrow>
     unticked_since old q"
proof (induction es arbitrary: p)
  case (Cons e es)
  then show ?case by (auto split: if_splits intro: targetsStep_unticked)
qed simp

subsection \<open>Properties\<close>


lemma directory_eval:
  "filesystemPayload \<lparr>fs_name = ''nas'', fs_path = ''/mnt/nas//'', fs_allow = False\<rparr> = Inr (FilesystemTargetCreate ''nas'' ''/mnt/nas'' False)"
  "filesystemPayload \<lparr>fs_name = ''nas'', fs_path = ''/srv'', fs_allow = False\<rparr> = Inr (FilesystemTargetCreate ''nas'' ''/srv'' False)"
  by code_simp+

lemma directory_run:
  "\<exists>p. run_events targetsStep (targetsOffered Admin)
     [OpenAddTarget, PickKind Filesystem, TypeFsName ''nas'', TypeFsPath ''/mnt/nas//'', SubmitTarget] mountTargets = Some p \<and>
     tp_sent p = [AddTarget (FilesystemTargetCreate ''nas'' ''/mnt/nas'' False)]"
  by (simp add: mountTargets_def mayManage_def onSubmitTarget_def directory_eval EMPTY_FS_def sendTarget_def)


text \<open>
  Closing the form forgets the permission, and
  unless the operator ticks it afterwards no target that allows the server's own filesystem is asked for,
  whatever else happens on the page.
\<close>

theorem same_filesystem_is_chosen:
  assumes "run_events targetsStep (targetsOffered role) (CloseAddTarget # es) p = Some q" "TickSameFilesystem True \<notin> set es"
  shows "\<exists>new. tp_sent q = new @ tp_sent p \<and> (\<forall>name path. AddTarget (FilesystemTargetCreate name path True) \<notin> set new)"
proof -
  have "unticked_since (tp_sent p) (closeAddTarget p)" by (simp add: unticked_since_def closeAddTarget_def EMPTY_FS_def)
  moreover have "run_events targetsStep (targetsOffered role) es (closeAddTarget p) = Some q"
    using assms(1) by (simp split: if_splits)
  ultimately have "unticked_since (tp_sent p) q" using assms(2) by (blast intro: run_unticked)
  then obtain new where new: "tp_sent q = new @ tp_sent p" "list_all (\<lambda>r. \<not> allows_same r) new" by (auto simp: unticked_since_def)
  have "AddTarget (FilesystemTargetCreate name path True) \<notin> set new" for name path
    using new(2) by (force simp: list_all_iff)
  with new(1) show ?thesis by blast
qed

theorem same_filesystem_is_chosen_witness:
  "\<exists>q. run_events targetsStep (targetsOffered Admin)
     (CloseAddTarget # [OpenAddTarget, PickKind Filesystem, TypeFsName ''nas'', TypeFsPath ''/srv'', SubmitTarget])
     (mountTargets\<lparr>tp_addOpen := True, tp_fs := \<lparr>fs_name = [], fs_path = [], fs_allow = True\<rparr>\<rparr>) = Some q \<and>
     length (tp_sent q) = 1 \<and> AddTarget (FilesystemTargetCreate ''nas'' ''/srv'' True) \<notin> set (tp_sent q)"
proof -
  let ?p = "mountTargets\<lparr>tp_addOpen := True, tp_fs := \<lparr>fs_name = [], fs_path = [], fs_allow = True\<rparr>\<rparr>"
  let ?es = "[OpenAddTarget, PickKind Filesystem, TypeFsName ''nas'', TypeFsPath ''/srv'', SubmitTarget]"
  obtain q where q: "run_events targetsStep (targetsOffered Admin) (CloseAddTarget # ?es) ?p = Some q" "length (tp_sent q) = 1"
    by (simp add: mountTargets_def mayManage_def onSubmitTarget_def directory_eval EMPTY_FS_def
        closeAddTarget_def sendTarget_def)
  have "tp_sent ?p = []" by (simp add: mountTargets_def)
  with same_filesystem_is_chosen [OF q(1)] q show ?thesis by auto
qed

text \<open>
  Two inputs the checks treat wrongly: the root of a drive is refused, because its separator is
  removed before the path is tested, and an endpoint of slashes only passes and is sent empty.
\<close>

lemma drive_root_refused:
  "filesystemPayload \<lparr>fs_name = ''d'', fs_path = [CHR ''D'', CHR '':'', CHR 0x5C], fs_allow = False\<rparr> =
     Inl ''Enter an absolute path, for example /mnt/nas/proxback.''"
  by code_simp

lemma slash_endpoint_sent:
  "s3Payload \<lparr>s3_name = ''b'', s3_endpoint = ''//'', s3_region = [], s3_bucket = ''k'', s3_accessKey = ''a'', s3_secretKey = ''s'',
     s3_pathStyle = False\<rparr> = Inr (S3TargetCreate ''b'' [] [] ''k'' ''a'' ''s'' False)"
  by code_simp

end
