(* ===== verification/Settings_Page.thy ===== *)
theory Settings_Page
  imports Row_State App_Gate Identity
begin

text \<open>
  Settings (\<open>web/src/pages/SettingsPage.tsx\<close>): the three cards that write through one request
  (server, performance, notifications), the card that changes the password and the card that installs an
  update. They share no state, so they are three machines.
\<close>

subsection \<open>Server, performance and notifications\<close>

definition MAX_CONCURRENCY :: int where "MAX_CONCURRENCY = 32"

definition MAX_UPLOAD_CONCURRENCY :: int where "MAX_UPLOAD_CONCURRENCY = 16"

definition MAX_UPLOAD_LIMIT :: int where "MAX_UPLOAD_LIMIT = 10000"

definition DEFAULT_SETTINGS :: settings where
  "DEFAULT_SETTINGS =
     \<lparr>st_serverName = [], st_concurrency = Fin 2, st_webhookUrl = [], st_notifyOn = NotifyOff, st_uploadConcurrency = Fin 4,
      st_compression = Zstd, st_uploadLimitMbps = Fin 0, st_timezone = None\<rparr>"

datatype settingsCard = ServerCard | NotifyCard | PerfCard

text \<open>An edit of one input; a number input gives \<open>Number\<close> of its text.\<close>

datatype settingsPatch =
    PatchName string
  | PatchConcurrency string
  | PatchWebhook string
  | PatchNotify notifyOn
  | PatchUploadConcurrency string
  | PatchCompression compression
  | PatchUploadLimit string

fun patchSettings :: "settingsPatch \<Rightarrow> settings \<Rightarrow> settings" where
  "patchSettings (PatchName s) f = f\<lparr>st_serverName := s\<rparr>"
| "patchSettings (PatchConcurrency s) f = f\<lparr>st_concurrency := str_num s\<rparr>"
| "patchSettings (PatchWebhook s) f = f\<lparr>st_webhookUrl := s\<rparr>"
| "patchSettings (PatchNotify n) f = f\<lparr>st_notifyOn := n\<rparr>"
| "patchSettings (PatchUploadConcurrency s) f = f\<lparr>st_uploadConcurrency := str_num s\<rparr>"
| "patchSettings (PatchCompression c) f = f\<lparr>st_compression := c\<rparr>"
| "patchSettings (PatchUploadLimit s) f = f\<lparr>st_uploadLimitMbps := str_num s\<rparr>"

text \<open>A card differs from what is saved.\<close>

fun cardDirty :: "settingsCard \<Rightarrow> settings \<Rightarrow> settings \<Rightarrow> bool" where
  "cardDirty ServerCard d f =
     (st_serverName d \<noteq> st_serverName f \<or> \<not> js_eq (st_concurrency d) (st_concurrency f))"
| "cardDirty NotifyCard d f = (st_webhookUrl d \<noteq> st_webhookUrl f \<or> st_notifyOn d \<noteq> st_notifyOn f)"
| "cardDirty PerfCard d f =
     (\<not> js_eq (st_uploadConcurrency d) (st_uploadConcurrency f) \<or> st_compression d \<noteq> st_compression f \<or>
      \<not> js_eq (st_uploadLimitMbps d) (st_uploadLimitMbps f))"

fun discardCard :: "settingsCard \<Rightarrow> settings \<Rightarrow> settings \<Rightarrow> settings" where
  "discardCard ServerCard d f = f\<lparr>st_serverName := st_serverName d, st_concurrency := st_concurrency d\<rparr>"
| "discardCard NotifyCard d f = f\<lparr>st_webhookUrl := st_webhookUrl d, st_notifyOn := st_notifyOn d\<rparr>"
| "discardCard PerfCard d f =
     f\<lparr>st_uploadConcurrency := st_uploadConcurrency d, st_compression := st_compression d,
       st_uploadLimitMbps := st_uploadLimitMbps d\<rparr>"

text \<open>\<open>!Number.isInteger(n) || n < lo || n > hi\<close>.\<close>

definition outside :: "int \<Rightarrow> int \<Rightarrow> jsnum \<Rightarrow> bool" where
  "outside lo hi n \<longleftrightarrow> \<not> js_is_integer n \<or> js_lt n (jsint lo) \<or> js_lt (jsint hi) n"

definition settingsProblem :: "settings \<Rightarrow> string option" where
  "settingsProblem f =
     (let webhookUrl = trim (st_webhookUrl f)
      in if trim (st_serverName f) = [] then Some ''Give this server a display name.''
         else if outside 1 MAX_CONCURRENCY (st_concurrency f)
         then Some (''Concurrency must be a whole number between 1 and '' @ num_str (jsint MAX_CONCURRENCY) @ ''.'')
         else if webhookUrl \<noteq> [] \<and> \<not> httpUrl webhookUrl then Some ''The webhook URL must start with http:// or https://.''
         else if webhookUrl = [] \<and> st_notifyOn f \<noteq> NotifyOff then Some ''Add a webhook URL, or set notifications to Off.''
         else if outside 1 MAX_UPLOAD_CONCURRENCY (st_uploadConcurrency f)
         then Some (''Parallel transfers must be a whole number between 1 and '' @ num_str (jsint MAX_UPLOAD_CONCURRENCY) @ ''.'')
         else if outside 0 MAX_UPLOAD_LIMIT (st_uploadLimitMbps f)
         then Some (''The upload limit must be a whole number between 0 and '' @ num_str (jsint MAX_UPLOAD_LIMIT) @ '' Mbps.'')
         else None)"

text \<open>What a save sends: the whole form, with the two texts trimmed and without the time zone.\<close>

definition settingsBody :: "settings \<Rightarrow> settings" where
  "settingsBody f = f\<lparr>st_serverName := trim (st_serverName f), st_webhookUrl := trim (st_webhookUrl f), st_timezone := None\<rparr>"

text \<open>
  \<open>se_loads\<close> are the readings that have not settled; one started by a save (\<open>True\<close>) ends the save when
  it settles. \<open>se_names\<close> are the server names handed to the session.
\<close>

record settingsPage =
  se_async :: "settings async"
  se_loads :: "bool list"
  se_form :: settings
  se_submitting :: "settingsCard option"
  se_errors :: "settingsCard \<Rightarrow> string option"
  se_testing :: bool
  se_out :: "(settingsCard \<times> settings) list"
  se_sent :: "(settingsCard \<times> settings) list"
  se_tests :: nat
  se_names :: "string list"
  se_toasts :: "(string \<times> string) list"

definition mountSettings :: settingsPage where
  "mountSettings =
     \<lparr>se_async = mountAsync, se_loads = [False], se_form = DEFAULT_SETTINGS, se_submitting = None, se_errors = (\<lambda>_. None),
      se_testing = False, se_out = [], se_sent = [], se_tests = 0, se_names = [], se_toasts = []\<rparr>"

definition toastSettings :: "string \<Rightarrow> string \<Rightarrow> settingsPage \<Rightarrow> settingsPage" where
  "toastSettings title detail p = p\<lparr>se_toasts := (title, detail) # se_toasts p\<rparr>"

definition persist :: "settingsCard \<Rightarrow> settingsPage \<Rightarrow> settingsPage" where
  "persist which p =
     (case settingsProblem (se_form p) of
        Some message \<Rightarrow> p\<lparr>se_errors := (\<lambda>_. None)(which := Some message)\<rparr>
      | None \<Rightarrow>
          (let put = (which, settingsBody (se_form p))
           in p\<lparr>se_errors := (\<lambda>_. None), se_submitting := Some which, se_out := put # se_out p, se_sent := put # se_sent p\<rparr>))"

fun savedText :: "settingsCard \<Rightarrow> string" where
  "savedText ServerCard = ''Settings saved.''"
| "savedText NotifyCard = ''Notification settings saved.''"
| "savedText PerfCard = ''Performance settings saved '' @ em_dash @ '' they apply to the next run.''"

definition settlePut :: "settingsCard \<Rightarrow> settings exn \<Rightarrow> settingsPage \<Rightarrow> settingsPage" where
  "settlePut which r p =
     (case r of
        Inr saved \<Rightarrow>
          toastSettings (savedText which) []
            (p\<lparr>se_form := saved, se_names := st_serverName saved # se_names p, se_async := asyncStep Reload (se_async p),
               se_loads := True # se_loads p\<rparr>)
      | Inl err \<Rightarrow>
          toastSettings ''Could not save settings'' (errorMessage err)
            (p\<lparr>se_errors := (se_errors p)(which := Some (errorMessage err)), se_submitting := None\<rparr>))"

text \<open>New data replace the form.\<close>

definition settleSettings :: "bool \<Rightarrow> settings exn \<Rightarrow> settingsPage \<Rightarrow> settingsPage" where
  "settleSettings awaited r p =
     p\<lparr>se_async := asyncStep (LoaderSettles r) (se_async p), se_loads := remove1 awaited (se_loads p),
       se_form := (case r of Inr d \<Rightarrow> d | Inl _ \<Rightarrow> se_form p),
       se_submitting := (if awaited then None else se_submitting p)\<rparr>"

text \<open>The answer of the webhook test: whether it was accepted, and the error the server reports.\<close>

definition settleWebhook :: "(bool \<times> string option) exn \<Rightarrow> settingsPage \<Rightarrow> settingsPage" where
  "settleWebhook r p =
     (case r of
        Inr (True, _) \<Rightarrow> toastSettings ''Test notification sent.'' ''A sample run.finished payload went to the saved URL.'' p
      | Inr (False, e) \<Rightarrow>
          toastSettings ''The endpoint did not accept the test''
            (case e of Some m \<Rightarrow> m | None \<Rightarrow> ''No further detail was reported.'') p
      | Inl err \<Rightarrow> toastSettings ''Could not send the test'' (errorMessage err) p)\<lparr>se_testing := False\<rparr>"

datatype settingsEvent =
    ReloadSettings
  | SettingsLoaded bool "settings exn"
  | Patch settingsPatch
  | Discard settingsCard
  | Save settingsCard
  | PutSettles settingsCard settings "settings exn"
  | ClickWebhookTest
  | WebhookSettles "(bool \<times> string option) exn"

text \<open>An operator or viewer is shown none of these cards.\<close>

fun settingsOffered :: "role \<Rightarrow> settingsPage \<Rightarrow> settingsEvent \<Rightarrow> bool" where
  "settingsOffered role p ReloadSettings = (manageInfrastructure (capabilitiesFor role) \<and> \<not> as_loading (se_async p))"
| "settingsOffered role p (SettingsLoaded awaited r) = (awaited \<in> set (se_loads p))"
| "settingsOffered role p (Patch x) = (manageInfrastructure (capabilitiesFor role) \<and> as_data (se_async p) \<noteq> None)"
| "settingsOffered role p (Discard which) =
     (manageInfrastructure (capabilitiesFor role) \<and>
      (case as_data (se_async p) of
         Some d \<Rightarrow> cardDirty which d (se_form p) \<and>
           (if which = ServerCard then se_submitting p = None else se_submitting p \<noteq> Some which)
       | None \<Rightarrow> False))"
| "settingsOffered role p (Save which) =
     (manageInfrastructure (capabilitiesFor role) \<and> se_submitting p \<noteq> Some which \<and>
      (case as_data (se_async p) of Some d \<Rightarrow> cardDirty which d (se_form p) | None \<Rightarrow> False))"
| "settingsOffered role p (PutSettles which s r) = ((which, s) \<in> set (se_out p))"
| "settingsOffered role p ClickWebhookTest =
     (manageInfrastructure (capabilitiesFor role) \<and> \<not> se_testing p \<and>
      (case as_data (se_async p) of Some d \<Rightarrow> st_webhookUrl d \<noteq> [] \<and> \<not> cardDirty NotifyCard d (se_form p) | None \<Rightarrow> False))"
| "settingsOffered role p (WebhookSettles r) = se_testing p"

fun settingsStep :: "settingsEvent \<Rightarrow> settingsPage \<Rightarrow> settingsPage" where
  "settingsStep ReloadSettings p = p\<lparr>se_async := asyncStep Reload (se_async p), se_loads := False # se_loads p\<rparr>"
| "settingsStep (SettingsLoaded awaited r) p = settleSettings awaited r p"
| "settingsStep (Patch x) p = p\<lparr>se_form := patchSettings x (se_form p)\<rparr>"
| "settingsStep (Discard which) p =
     (case as_data (se_async p) of Some d \<Rightarrow> p\<lparr>se_form := discardCard which d (se_form p)\<rparr> | None \<Rightarrow> p)"
| "settingsStep (Save which) p = persist which p"
| "settingsStep (PutSettles which s r) p = settlePut which r (p\<lparr>se_out := remove1 (which, s) (se_out p)\<rparr>)"
| "settingsStep ClickWebhookTest p = p\<lparr>se_testing := True, se_tests := se_tests p + 1\<rparr>"
| "settingsStep (WebhookSettles r) p = settleWebhook r p"

text \<open>The lines under the cards.\<close>

fun notifyHint :: "notifyOn \<Rightarrow> string" where
  "notifyHint NotifyOff = ''Nothing is sent, even with a URL saved.''"
| "notifyHint NotifyFailures = ''Only failed backup, restore, and verify runs are reported.''"
| "notifyHint NotifyAll = ''Every finished backup, restore, and verify run is reported.''"

definition notifyState :: "settings \<Rightarrow> settings \<Rightarrow> string" where
  "notifyState d f =
     (if st_webhookUrl d = [] then ''No webhook configured''
      else if st_notifyOn f = NotifyOff then ''URL saved '' @ em_dash @ '' notifications are off'' else ''Notifications are active'')"

definition testTitle :: "settings \<Rightarrow> settings \<Rightarrow> string option" where
  "testTitle d f =
     (if st_webhookUrl d = [] then Some ''Save a webhook URL first.''
      else if cardDirty NotifyCard d f then Some ''Save your changes first.'' else None)"

fun compressionHint :: "compression \<Rightarrow> string" where
  "compressionHint Zstd = ''Data is zstd-compressed before it is sent '' @ em_dash @ '' less bandwidth and less stored data.''"
| "compressionHint NoCompression =
     ''Data is sent as it is read. Choose this only if your sources are already compressed or encrypted.''"

definition uploadState :: "settings \<Rightarrow> string" where
  "uploadState f =
     num_str (st_uploadConcurrency f) @ '' parallel uploads, '' @
     (if js_lt (Fin 0) (st_uploadLimitMbps f) then ''capped at '' @ num_str (st_uploadLimitMbps f) @ '' Mbps'' else ''unthrottled'')"

definition timezoneText :: "settings option \<Rightarrow> string" where
  "timezoneText d =
     (case d of
        Some s \<Rightarrow> (case st_timezone s of Some z \<Rightarrow> if z = [] then ''server local'' else z | None \<Rightarrow> ''server local'')
      | None \<Rightarrow> ''server local'')"

subsection \<open>Password\<close>

text \<open>\<open>pw_must\<close> is the flag of the session, \<open>pw_sent\<close> the current and new passwords of the requests.\<close>

record passwordCard =
  pw_current :: string
  pw_next :: string
  pw_confirm :: string
  pw_submitting :: bool
  pw_error :: "string option"
  pw_must :: bool
  pw_sent :: "(string \<times> string) list"
  pw_toasts :: "(string \<times> string) list"

definition mountPassword :: "bool \<Rightarrow> passwordCard" where
  "mountPassword must =
     \<lparr>pw_current = [], pw_next = [], pw_confirm = [], pw_submitting = False, pw_error = None, pw_must = must, pw_sent = [], pw_toasts = []\<rparr>"

definition submitPassword :: "passwordCard \<Rightarrow> passwordCard" where
  "submitPassword c =
     (if pw_current c = [] \<or> pw_next c = [] then c\<lparr>pw_error := Some ''Enter your current password and the new one.''\<rparr>
      else if js_length (pw_next c) < 8 then c\<lparr>pw_error := Some ''The new password must be at least 8 characters.''\<rparr>
      else if pw_next c \<noteq> pw_confirm c then c\<lparr>pw_error := Some ''The new passwords do not match.''\<rparr>
      else c\<lparr>pw_error := None, pw_submitting := True, pw_sent := (pw_current c, pw_next c) # pw_sent c\<rparr>)"

definition settlePassword :: "unit exn \<Rightarrow> passwordCard \<Rightarrow> passwordCard" where
  "settlePassword r c =
     (case r of
        Inr _ \<Rightarrow>
          c\<lparr>pw_current := [], pw_next := [], pw_confirm := [], pw_must := False, pw_submitting := False,
            pw_toasts := (''Password changed.'', ''Other signed-in sessions have been revoked.'') # pw_toasts c\<rparr>
      | Inl err \<Rightarrow>
          c\<lparr>pw_error := Some (errorMessage err), pw_submitting := False,
            pw_toasts := (''Could not change the password'', errorMessage err) # pw_toasts c\<rparr>)"

definition passwordSubtitle :: "passwordCard \<Rightarrow> string" where
  "passwordSubtitle c =
     (if pw_must c then ''This server still uses the default admin / admin password '' @ em_dash @ '' change it now.''
      else ''Change the password you sign in with.'')"

datatype passwordEvent =
    TypeCurrent string
  | TypeNext string
  | TypeConfirmation string
  | SubmitPassword
  | PasswordSettles "unit exn"

fun passwordOffered :: "passwordCard \<Rightarrow> passwordEvent \<Rightarrow> bool" where
  "passwordOffered c SubmitPassword = (\<not> pw_submitting c)"
| "passwordOffered c (PasswordSettles r) = pw_submitting c"
| "passwordOffered c _ = True"

fun passwordStep :: "passwordEvent \<Rightarrow> passwordCard \<Rightarrow> passwordCard" where
  "passwordStep (TypeCurrent s) c = c\<lparr>pw_current := s\<rparr>"
| "passwordStep (TypeNext s) c = c\<lparr>pw_next := s\<rparr>"
| "passwordStep (TypeConfirmation s) c = c\<lparr>pw_confirm := s\<rparr>"
| "passwordStep SubmitPassword c = submitPassword c"
| "passwordStep (PasswordSettles r) c = settlePassword r c"

subsection \<open>Software update\<close>

record updateStatus =
  us_currentVersion :: string
  us_latestVersion :: "string option"
  us_updateAvailable :: bool
  us_releaseNotes :: "string option"
  us_releaseUrl :: "string option"
  us_publishedAt :: "string option"
  us_assetName :: "string option"
  us_assetAvailable :: bool
  us_checkError :: "string option"

record updateApplyResult =
  ur_ok :: bool
  ur_version :: string
  ur_restarting :: bool

text \<open>
  \<open>up_asking\<close> is the open confirmation (whether it forces), \<open>up_polling\<close> the time the restart was
  announced while its timer runs, \<open>up_pings\<close> the requests of that timer that are out, \<open>up_reloaded\<close>
  whether the page was reloaded. \<open>up_sent\<close> are the installations asked for, newest first.
\<close>

record updateCard =
  up_status :: "updateStatus async"
  up_applying :: bool
  up_restarting :: bool
  up_blocked :: "string option"
  up_asking :: "bool option"
  up_out :: "bool list"
  up_sent :: "bool list"
  up_polling :: "nat option"
  up_pings :: nat
  up_now :: nat
  up_reloaded :: bool
  up_toasts :: "(string \<times> string) list"

definition mountUpdate :: updateCard where
  "mountUpdate =
     \<lparr>up_status = mountAsync, up_applying = False, up_restarting = False, up_blocked = None, up_asking = None, up_out = [],
      up_sent = [], up_polling = None, up_pings = 0, up_now = 0, up_reloaded = False, up_toasts = []\<rparr>"

definition versionText :: "string option \<Rightarrow> string" where
  "versionText v = (case v of Some s \<Rightarrow> s | None \<Rightarrow> ''undefined'')"

definition installTitle :: "bool \<Rightarrow> updateStatus \<Rightarrow> string" where
  "installTitle force s =
     (if force then ''Install '' @ versionText (us_latestVersion s) @ '' and cancel running work?''
      else ''Install ProxBack '' @ versionText (us_latestVersion s) @ ''?'')"

definition answerInstall :: "bool \<Rightarrow> updateCard \<Rightarrow> updateCard" where
  "answerInstall ok c =
     (case up_asking c of
        None \<Rightarrow> c
      | Some force \<Rightarrow>
          let q = c\<lparr>up_asking := None\<rparr>
          in if ok then q\<lparr>up_applying := True, up_out := force # up_out q, up_sent := force # up_sent q\<rparr> else q)"

text \<open>The refusal that offers the override: a conflict that speaks of runs in progress.\<close>

definition refusedByRuns :: "bool \<Rightarrow> js_error \<Rightarrow> bool" where
  "refusedByRuns force err \<longleftrightarrow>
     \<not> force \<and> isApiError err \<and> isConflict err \<and> str_includes (map ascii_lower (err_message err)) ''in progress''"

definition settleInstall :: "bool \<Rightarrow> updateApplyResult exn \<Rightarrow> updateCard \<Rightarrow> updateCard" where
  "settleInstall force r c =
     (case r of
        Inr result \<Rightarrow>
          if ur_restarting result then c\<lparr>up_restarting := True, up_polling := Some (up_now c)\<rparr>
          else c\<lparr>up_toasts := (''Version '' @ ur_version result @ '' installed.'',
                   ''Restart the ProxBack service to start running it.'') # up_toasts c,
                 up_status := asyncStep Reload (up_status c)\<rparr>
      | Inl err \<Rightarrow>
          let q = c\<lparr>up_applying := False\<rparr>
          in if refusedByRuns force err then q\<lparr>up_blocked := Some (err_message err)\<rparr>
             else q\<lparr>up_toasts := (''Update failed'', errorMessage err) # up_toasts q\<rparr>)"

text \<open>The answer to a ping of the setup endpoint: up again, or given up after two minutes.\<close>

definition settlePing :: "bool \<Rightarrow> updateCard \<Rightarrow> updateCard" where
  "settlePing up c =
     (let q = c\<lparr>up_pings := up_pings c - 1\<rparr>
      in if up then q\<lparr>up_polling := None, up_reloaded := True\<rparr>
         else case up_polling q of
             Some started \<Rightarrow> if 120000 < up_now q - started then q\<lparr>up_polling := None\<rparr> else q
           | None \<Rightarrow> q)"

datatype updateEvent =
    CheckAgain
  | StatusAnswer "updateStatus exn"
  | ClickInstall
  | ClickWait
  | ClickInstallAnyway
  | AnswerInstall bool
  | InstallSettles bool "updateApplyResult exn"
  | PingTick
  | PingSettles bool
  | UpdateElapse nat

text \<open>The card shows its controls while a status is known and no restart is under way.\<close>

definition updateShown :: "updateCard \<Rightarrow> updateStatus option" where
  "updateShown c = (if up_restarting c then None else as_data (up_status c))"

fun updateOffered :: "updateCard \<Rightarrow> updateEvent \<Rightarrow> bool" where
  "updateOffered c CheckAgain = (updateShown c \<noteq> None \<and> up_asking c = None \<and> \<not> as_loading (up_status c))"
| "updateOffered c (StatusAnswer r) = (0 < as_out (up_status c))"
| "updateOffered c ClickInstall =
     (up_asking c = None \<and> \<not> up_applying c \<and>
      (case updateShown c of Some s \<Rightarrow> us_updateAvailable s \<and> us_assetAvailable s | None \<Rightarrow> False))"
| "updateOffered c ClickWait = (updateShown c \<noteq> None \<and> up_asking c = None \<and> up_blocked c \<noteq> None)"
| "updateOffered c ClickInstallAnyway =
     (updateShown c \<noteq> None \<and> up_asking c = None \<and> up_blocked c \<noteq> None \<and> \<not> up_applying c)"
| "updateOffered c (AnswerInstall ok) = (up_asking c \<noteq> None)"
| "updateOffered c (InstallSettles force r) = (force \<in> set (up_out c))"
| "updateOffered c PingTick = (up_polling c \<noteq> None)"
| "updateOffered c (PingSettles up) = (0 < up_pings c)"
| "updateOffered c (UpdateElapse ms) = True"

fun updateStep :: "updateEvent \<Rightarrow> updateCard \<Rightarrow> updateCard" where
  "updateStep CheckAgain c = c\<lparr>up_status := asyncStep Reload (up_status c)\<rparr>"
| "updateStep (StatusAnswer r) c = c\<lparr>up_status := asyncStep (LoaderSettles r) (up_status c)\<rparr>"
| "updateStep ClickInstall c = c\<lparr>up_asking := Some False\<rparr>"
| "updateStep ClickWait c = c\<lparr>up_blocked := None\<rparr>"
| "updateStep ClickInstallAnyway c = c\<lparr>up_blocked := None, up_asking := Some True\<rparr>"
| "updateStep (AnswerInstall ok) c = answerInstall ok c"
| "updateStep (InstallSettles force r) c = settleInstall force r (c\<lparr>up_out := remove1 force (up_out c)\<rparr>)"
| "updateStep PingTick c = c\<lparr>up_pings := up_pings c + 1\<rparr>"
| "updateStep (PingSettles up) c = settlePing up c"
| "updateStep (UpdateElapse ms) c = c\<lparr>up_now := up_now c + ms\<rparr>"

text \<open>What the card says of the versions.\<close>

datatype updateNotice =
    RepositoryUnreachable string
  | UpdateAvailable string "string option" bool
  | UpToDate
  | NothingPublished

definition updateNoticeOf :: "updateStatus \<Rightarrow> updateNotice" where
  "updateNoticeOf s =
     (case opt_text (us_checkError s) of
        Some e \<Rightarrow> RepositoryUnreachable e
      | None \<Rightarrow>
          if us_updateAvailable s
          then UpdateAvailable (versionText (us_latestVersion s)) (opt_text (us_releaseNotes s)) (us_assetAvailable s)
          else if opt_text (us_latestVersion s) \<noteq> None then UpToDate else NothingPublished)"

subsection \<open>Lemmas\<close>

text \<open>What a save must carry.\<close>

definition int_between :: "int \<Rightarrow> int \<Rightarrow> jsnum \<Rightarrow> bool" where
  "int_between lo hi n \<longleftrightarrow> (\<exists>k. n = jsint k \<and> lo \<le> k \<and> k \<le> hi)"

definition settings_ok :: "settings \<Rightarrow> bool" where
  "settings_ok s \<longleftrightarrow>
     st_serverName s \<noteq> [] \<and> int_between 1 32 (st_concurrency s) \<and> int_between 1 16 (st_uploadConcurrency s) \<and>
     int_between 0 10000 (st_uploadLimitMbps s) \<and>
     (if st_webhookUrl s = [] then st_notifyOn s = NotifyOff else httpUrl (st_webhookUrl s)) \<and> st_timezone s = None"

lemma outside_iff: "\<not> outside lo hi n \<longleftrightarrow> int_between lo hi n"
proof
  assume "\<not> outside lo hi n"
  then have n: "js_is_integer n" "\<not> js_lt n (jsint lo)" "\<not> js_lt (jsint hi) n" by (simp_all add: outside_def)
  then obtain k where "n = jsint k" using js_is_integerE by blast
  with n show "int_between lo hi n" by (auto simp: int_between_def)
qed (auto simp: outside_def int_between_def)

lemma settingsProblem_None: "settingsProblem f = None \<Longrightarrow> settings_ok (settingsBody f)"
  by (auto simp: settingsProblem_def settingsBody_def settings_ok_def outside_iff MAX_CONCURRENCY_def MAX_UPLOAD_CONCURRENCY_def
      MAX_UPLOAD_LIMIT_def Let_def split: if_splits)

definition saves_ok :: "role \<Rightarrow> settingsPage \<Rightarrow> bool" where
  "saves_ok role p \<longleftrightarrow>
     list_all (\<lambda>(which, s). settings_ok s \<and> manageInfrastructure (capabilitiesFor role)) (se_sent p)"

lemma settingsStep_saves:
  assumes "saves_ok role p" "settingsOffered role p e"
  shows "saves_ok role (settingsStep e p)"
proof (cases e)
  case (Save which)
  then show ?thesis using assms settingsProblem_None
    by (auto simp: saves_ok_def persist_def Let_def split: option.splits)
qed (use assms in \<open>auto simp: saves_ok_def settleSettings_def settlePut_def toastSettings_def settleWebhook_def
    split: sum.splits option.splits bool.splits\<close>)

definition password_ok :: "string \<times> string \<Rightarrow> bool" where
  "password_ok x \<longleftrightarrow> fst x \<noteq> [] \<and> 8 \<le> js_length (snd x)"

lemma passwordStep_ok: "list_all password_ok (pw_sent c) \<Longrightarrow> list_all password_ok (pw_sent (passwordStep e c))"
  by (cases e) (auto simp: submitPassword_def settlePassword_def password_ok_def split: sum.splits)

text \<open>
  Every forced installation, asked for or about to be, has used up a refusal, and every refusal an
  unforced request that has settled.
\<close>

definition count_if :: "bool \<Rightarrow> nat" where
  "count_if b = (if b then 1 else 0)"

definition force_inv :: "updateCard \<Rightarrow> bool" where
  "force_inv c \<longleftrightarrow>
     count_list (up_sent c) True + count_if (up_asking c = Some True) + count_if (up_blocked c \<noteq> None) +
       count_list (up_out c) False \<le> count_list (up_sent c) False"

lemma count_remove1: "x \<in> set xs \<Longrightarrow> count_list xs x = Suc (count_list (remove1 x xs) x)"
  by (induction xs) auto

lemma count_remove1_other: "x \<noteq> y \<Longrightarrow> count_list (remove1 x xs) y = count_list xs y"
  by (induction xs) auto

lemma updateStep_force:
  assumes "force_inv c" "updateOffered c e"
  shows "force_inv (updateStep e c)"
proof (cases e)
  case (InstallSettles force r)
  then show ?thesis using assms count_remove1 [of force "up_out c"] count_remove1_other [of force False "up_out c"]
    by (cases force)
      (auto simp: force_inv_def count_if_def settleInstall_def refusedByRuns_def Let_def split: sum.splits if_splits)
next
  case (AnswerInstall ok)
  then show ?thesis using assms
    by (auto simp: force_inv_def count_if_def answerInstall_def Let_def split: option.splits if_splits)
qed (use assms in \<open>auto simp: force_inv_def count_if_def settlePing_def Let_def split: if_splits option.splits\<close>)

text \<open>At every moment in the past too: the installations are listed newest first.\<close>

definition ballot :: "bool list \<Rightarrow> bool" where
  "ballot xs \<longleftrightarrow> (\<forall>k. count_list (drop k xs) True \<le> count_list (drop k xs) False)"

lemma ballot_Cons: "ballot xs \<Longrightarrow> count_list (x # xs) True \<le> count_list (x # xs) False \<Longrightarrow> ballot (x # xs)"
  unfolding ballot_def
proof
  fix k assume "\<forall>k. count_list (drop k xs) True \<le> count_list (drop k xs) False" "count_list (x # xs) True \<le> count_list (x # xs) False"
  then show "count_list (drop k (x # xs)) True \<le> count_list (drop k (x # xs)) False" by (cases k) auto
qed

lemma updateStep_sent: "up_sent (updateStep e c) = up_sent c \<or> (\<exists>force. up_sent (updateStep e c) = force # up_sent c)"
  by (cases e) (auto simp: answerInstall_def settleInstall_def settlePing_def Let_def split: option.splits sum.splits)

lemma updateStep_ballot:
  assumes "force_inv c \<and> ballot (up_sent c)" "updateOffered c e"
  shows "force_inv (updateStep e c) \<and> ballot (up_sent (updateStep e c))"
proof -
  have f: "force_inv (updateStep e c)" using assms updateStep_force by blast
  then have le: "count_list (up_sent (updateStep e c)) True \<le> count_list (up_sent (updateStep e c)) False"
    by (simp add: force_inv_def)
  have "ballot (up_sent (updateStep e c))"
    using updateStep_sent [of e c] assms(1) le ballot_Cons [of "up_sent c"] by metis
  with f show ?thesis ..
qed

interpretation saves: request_guard mountSettings settingsStep "settingsOffered role" "saves_ok role" se_sent
  "\<lambda>(which, s). settings_ok s \<and> manageInfrastructure (capabilitiesFor role)" for role
proof unfold_locales
  show "saves_ok role mountSettings" by (simp add: saves_ok_def mountSettings_def)
qed (auto simp: settingsStep_saves, simp add: saves_ok_def)

interpretation passwords: request_guard "mountPassword must" passwordStep passwordOffered
  "\<lambda>c. list_all password_ok (pw_sent c)" pw_sent password_ok for must
  by unfold_locales (auto simp: mountPassword_def passwordStep_ok)

lemma reachable_ballot:
  assumes "reaches updateStep updateOffered mountUpdate c"
  shows "force_inv c \<and> ballot (up_sent c)"
  using assms
proof (rule reaches_invariant)
  show "force_inv mountUpdate \<and> ballot (up_sent mountUpdate)"
    by (simp add: force_inv_def mountUpdate_def count_if_def ballot_def)
qed (rule updateStep_ballot)

subsection \<open>Properties\<close>

text \<open>
  C18 (only valid settings are saved): however the cards are used and however saves and readings
  interleave, every save carries the complete settings with a name, whole numbers within their ranges and
  a webhook that is a web address or, when notifications are off, may be missing; only an
  administrator sends one.
\<close>

theorem settings_requests_valid:
  assumes "reaches settingsStep (settingsOffered role) mountSettings p" "(which, s) \<in> set (se_sent p)"
  shows "settings_ok s \<and> manageInfrastructure (capabilitiesFor role)"
  using saves.request_ok [OF assms] by simp

definition saved_settings :: settings where
  "saved_settings = DEFAULT_SETTINGS\<lparr>st_serverName := ''pb''\<rparr>"

lemma save_eval:
  "settingsProblem (saved_settings\<lparr>st_serverName := '' lab ''\<rparr>) = None"
  "settingsBody (saved_settings\<lparr>st_serverName := '' lab ''\<rparr>) = saved_settings\<lparr>st_serverName := ''lab''\<rparr>"
proof -
  have t: "trim '' lab '' = ''lab''" "trim [] = []" by code_simp+
  show "settingsProblem (saved_settings\<lparr>st_serverName := '' lab ''\<rparr>) = None"
    by (simp add: settingsProblem_def saved_settings_def DEFAULT_SETTINGS_def t outside_def MAX_CONCURRENCY_def
        MAX_UPLOAD_CONCURRENCY_def MAX_UPLOAD_LIMIT_def)
  show "settingsBody (saved_settings\<lparr>st_serverName := '' lab ''\<rparr>) = saved_settings\<lparr>st_serverName := ''lab''\<rparr>"
    by (simp add: settingsBody_def saved_settings_def DEFAULT_SETTINGS_def t)
qed

lemma saved_dirty:
  "st_serverName saved_settings = ''pb''" "st_timezone saved_settings = None" "st_webhookUrl saved_settings = []"
  by (simp_all add: saved_settings_def DEFAULT_SETTINGS_def)

theorem settings_requests_valid_witness:
  "settings_ok (saved_settings\<lparr>st_serverName := ''lab''\<rparr>)"
proof -
  obtain p where p: "run_events settingsStep (settingsOffered Admin)
      [SettingsLoaded False (Inr saved_settings), Patch (PatchName '' lab ''), Save ServerCard] mountSettings = Some p"
      "se_sent p = [(ServerCard, saved_settings\<lparr>st_serverName := ''lab''\<rparr>)]"
    by (simp add: mountSettings_def mountAsync_def settleSettings_def persist_def save_eval Let_def saved_dirty)
  with settings_requests_valid [OF run_events_reaches [OF p(1)]] show ?thesis by auto
qed


definition offered_update :: updateStatus where
  "offered_update =
     \<lparr>us_currentVersion = ''1'', us_latestVersion = Some ''2'', us_updateAvailable = True, us_releaseNotes = None, us_releaseUrl = None,
      us_publishedAt = None, us_assetName = None, us_assetAvailable = True, us_checkError = None\<rparr>"

definition runs_conflict :: js_error where
  "runs_conflict = ApiError (Fin 409) ''1 run still in progress'' [] JUndef"

lemma runs_refuse: "refusedByRuns False runs_conflict"
  by (simp add: refusedByRuns_def runs_conflict_def isConflict_def) code_simp


text \<open>Passwords that are sent have a current one and at least eight characters in the new one.\<close>

lemma password_requests_ok:
  "reaches passwordStep passwordOffered (mountPassword must) c \<Longrightarrow> x \<in> set (pw_sent c) \<Longrightarrow> fst x \<noteq> [] \<and> 8 \<le> js_length (snd x)"
  using passwords.request_ok by (fastforce simp: password_ok_def)

text \<open>
  A save writes the whole form, so edits of another card that were never saved go with it: saving the
  name of the server also raises its transfer limit here.
\<close>

lemma save_takes_other_cards:
  assumes "settingsProblem (se_form p) = None"
  shows "se_sent (settingsStep (Save ServerCard) p) = (ServerCard, settingsBody (se_form p)) # se_sent p \<and>
    st_uploadLimitMbps (settingsBody (se_form p)) = st_uploadLimitMbps (se_form p)"
  using assms by (simp add: persist_def settingsBody_def Let_def)

text \<open>An installation that does not restart the server leaves the card busy for good.\<close>

lemma install_stays_busy:
  assumes "up_applying c" "up_out c = []" "updateOffered c e"
  shows "up_applying (updateStep e c)"
  using assms by (cases e) (auto simp: answerInstall_def settlePing_def Let_def split: option.splits)

end
