(* ===== verification/Restore_Points.thy ===== *)
theory Restore_Points
  imports Restore_Wizard File_Browser Row_State Run_Views
begin

text \<open>
  Restore points (\<open>web/src/pages/RestorePointsPage.tsx\<close>): the grouping of points by workload, the depth of
  a point in its chain, what is shown, and the page as a machine that holds the restore wizard and
  the file browser.
\<close>

subsection \<open>Groups\<close>

record sourceGroup =
  sg_key :: string
  sg_sourceKind :: jobKind
  sg_sourceId :: js_id
  sg_sourceName :: string
  sg_hostId :: "js_id option"
  sg_hostName :: "string option"
  sg_node :: "string option"
  sg_count :: nat
  sg_latest :: string
  sg_totalBytes :: jsnum
  sg_lastVerifiedAt :: "string option"

fun source_kind_str :: "jobKind \<Rightarrow> string" where
  "source_kind_str VmJob = ''vm''"
| "source_kind_str AgentJob = ''agent''"

definition sourceKey :: "backup \<Rightarrow> string" where
  "sourceKey b =
     source_kind_str (bk_sourceKind b) @ '':'' @ (case bk_hostId b of Some i \<Rightarrow> id_str i | None \<Rightarrow> []) @ '':'' @ id_str (bk_sourceId b)"

definition newerStamp :: "host \<Rightarrow> string option \<Rightarrow> string option \<Rightarrow> string option" where
  "newerStamp h a b =
     (case (opt_text a, opt_text b) of
        (None, _) \<Rightarrow> b
      | (Some _, None) \<Rightarrow> a
      | (Some s, Some t) \<Rightarrow> if time_ge (h_parse h s) (h_parse h t) then a else b)"

text \<open>The time of a verification that did not fail.\<close>

definition verifiedOf :: "backup \<Rightarrow> string option" where
  "verifiedOf b = (if bk_lastVerifyResult b = Some ''failed'' then None else bk_lastVerifiedAt b)"

definition newGroup :: "backup \<Rightarrow> sourceGroup" where
  "newGroup b =
     \<lparr>sg_key = sourceKey b, sg_sourceKind = bk_sourceKind b, sg_sourceId = bk_sourceId b, sg_sourceName = bk_sourceName b,
      sg_hostId = bk_hostId b, sg_hostName = bk_hostName b, sg_node = bk_node b, sg_count = 1, sg_latest = bk_createdAt b,
      sg_totalBytes = bk_sizeBytes b, sg_lastVerifiedAt = verifiedOf b\<rparr>"

definition joinGroup :: "host \<Rightarrow> sourceGroup \<Rightarrow> backup \<Rightarrow> sourceGroup" where
  "joinGroup h g b =
     g\<lparr>sg_count := sg_count g + 1, sg_totalBytes := js_add (sg_totalBytes g) (bk_sizeBytes b),
       sg_lastVerifiedAt := newerStamp h (sg_lastVerifiedAt g) (verifiedOf b),
       sg_latest := (if time_gt (h_parse h (bk_createdAt b)) (h_parse h (sg_latest g)) then bk_createdAt b else sg_latest g)\<rparr>"

text \<open>A \<open>Map\<close> from keys to groups lists them in the order of insertion.\<close>

fun addToGroups :: "host \<Rightarrow> sourceGroup list \<Rightarrow> backup \<Rightarrow> sourceGroup list" where
  "addToGroups h [] b = [newGroup b]"
| "addToGroups h (g # gs) b = (if sg_key g = sourceKey b then joinGroup h g b # gs else g # addToGroups h gs b)"

text \<open>The difference of two times is NaN, and counts as equal, when either cannot be read.\<close>

definition groupSources :: "host \<Rightarrow> backup list \<Rightarrow> sourceGroup list" where
  "groupSources h backups =
     sort_by (\<lambda>a b. time_minus (h_parse h (sg_latest b)) (h_parse h (sg_latest a))) (foldl (addToGroups h) [] backups)"

subsection \<open>Chains\<close>

fun addToChains :: "(string \<times> backup list) list \<Rightarrow> backup \<Rightarrow> (string \<times> backup list) list" where
  "addToChains [] b = [(sourceKey b, [b])]"
| "addToChains ((k, chain) # cs) b =
     (if k = sourceKey b then (k, chain @ [b]) # cs else (k, chain) # addToChains cs b)"

definition newestFirst :: "host \<Rightarrow> backup \<Rightarrow> backup \<Rightarrow> int" where
  "newestFirst h a b = time_minus (h_parse h (bk_createdAt b)) (h_parse h (bk_createdAt a))"

definition chains :: "host \<Rightarrow> backup list \<Rightarrow> (string \<times> backup list) list" where
  "chains h backups = map (\<lambda>(k, chain). (k, sort_by (newestFirst h) chain)) (foldl addToChains [] backups)"

definition chainOf :: "host \<Rightarrow> backup list \<Rightarrow> string \<Rightarrow> backup list" where
  "chainOf h backups key = (case map_of (chains h backups) key of Some chain \<Rightarrow> chain | None \<Rightarrow> [])"

text \<open>
  Depth through the parent ids, remembered per id; the guard bounds the recursion when the parents
  form a cycle. In the map of points by id the last one of an id wins.
\<close>

abbreviation pointKey :: "backup \<Rightarrow> string" where
  "pointKey b \<equiv> id_str (bk_id b)"

definition byId :: "backup list \<Rightarrow> string \<Rightarrow> backup option" where
  "byId backups = map_of (rev (map (\<lambda>b. (pointKey b, b)) backups))"

definition parentOf :: "(string \<Rightarrow> backup option) \<Rightarrow> backup \<Rightarrow> backup option" where
  "parentOf ids b = (case bk_parentId b of None \<Rightarrow> None | Some i \<Rightarrow> ids (id_str i))"

fun depthOf :: "(string \<Rightarrow> backup option) \<Rightarrow> nat \<Rightarrow> backup \<Rightarrow> (string \<Rightarrow> nat option) \<Rightarrow> nat \<times> (string \<Rightarrow> nat option)" where
  "depthOf ids 0 b depths =
     (case depths (pointKey b) of Some d \<Rightarrow> (d, depths) | None \<Rightarrow> (0, depths(pointKey b \<mapsto> 0)))"
| "depthOf ids (Suc guard) b depths =
     (case depths (pointKey b) of
        Some d \<Rightarrow> (d, depths)
      | None \<Rightarrow>
          (case parentOf ids b of
             None \<Rightarrow> (0, depths(pointKey b \<mapsto> 0))
           | Some parent \<Rightarrow>
               (let (d, ds) = depthOf ids guard parent depths; depth = min 6 (d + 1)
                in (depth, ds(pointKey b \<mapsto> depth)))))"

definition chainDepths :: "backup list \<Rightarrow> string \<Rightarrow> nat option" where
  "chainDepths backups =
     fold (\<lambda>b depths. snd (depthOf (byId backups) (length backups) b depths)) backups (\<lambda>_. None)"

subsection \<open>State\<close>

record restoreData =
  rd_backups :: "backup list"
  rd_hosts :: "proxHost list"
  rd_agents :: "agent list"
  rd_vms :: "cachedVM list"
  rd_targets :: "target list"

datatype pointAction = VerifyPoint backup | DeletePoint backup

text \<open>
  A row belongs to its workload and its point, and keeps whether it verifies and deletes while it is
  on screen: collapsing a workload forgets it.
\<close>

type_synonym rowKey = "string \<times> string"

definition rowKeyOf :: "backup \<Rightarrow> rowKey" where
  "rowKeyOf b = (sourceKey b, pointKey b)"

fun pointOf :: "pointAction \<Rightarrow> backup" where
  "pointOf (VerifyPoint b) = b"
| "pointOf (DeletePoint b) = b"

record pointsPage =
  pg_async :: "restoreData async"
  pg_openKeys :: "string list option"
  pg_verifying :: "rowKey list"
  pg_deleting :: "rowKey list"
  pg_asking :: "(bool \<times> backup) option"
  pg_out :: "pointAction rowRequests"
  pg_sent :: "pointAction list"
  pg_toasts :: "(string \<times> string) list"
  pg_wizard :: restore
  pg_files :: fileBrowser

definition no_props :: restoreProps where
  "no_props = \<lparr>rp_backup = None, rp_target = None, rp_hosts = [], rp_agents = [], rp_vms = []\<rparr>"

definition mountPoints :: pointsPage where
  "mountPoints =
     \<lparr>pg_async = mountAsync, pg_openKeys = None, pg_verifying = [], pg_deleting = [], pg_asking = None, pg_out = [], pg_sent = [],
      pg_toasts = [], pg_wizard = mountRestore no_props, pg_files = mountFiles\<rparr>"

definition pointsData :: "pointsPage \<Rightarrow> backup list" where
  "pointsData p = (case as_data (pg_async p) of Some d \<Rightarrow> rd_backups d | None \<Rightarrow> [])"

definition groupsOf :: "host \<Rightarrow> pointsPage \<Rightarrow> sourceGroup list" where
  "groupsOf h p = groupSources h (pointsData p)"

text \<open>Until the operator opens or closes a workload, the newest one is open.\<close>

definition openGroups :: "host \<Rightarrow> pointsPage \<Rightarrow> string list" where
  "openGroups h p =
     (case pg_openKeys p of
        Some ks \<Rightarrow> ks
      | None \<Rightarrow> (case groupsOf h p of g # _ \<Rightarrow> [sg_key g] | [] \<Rightarrow> []))"

definition rowsShown :: "host \<Rightarrow> pointsPage \<Rightarrow> backup list" where
  "rowsShown h p =
     concat (map (\<lambda>g. if sg_key g \<in> set (openGroups h p) then chainOf h (pointsData p) (sg_key g) else []) (groupsOf h p))"

definition targetOf :: "target list \<Rightarrow> backup \<Rightarrow> target option" where
  "targetOf targets b = List.find (\<lambda>t. id_str (t_id t) = id_str (bk_targetId b)) targets"

text \<open>What the page hands to the wizard.\<close>

definition wizardProps :: "restoreData option \<Rightarrow> backup option \<Rightarrow> restoreProps" where
  "wizardProps d restoring =
     (case d of
        Some x \<Rightarrow>
          \<lparr>rp_backup = restoring, rp_target = (case restoring of Some b \<Rightarrow> targetOf (rd_targets x) b | None \<Rightarrow> None),
           rp_hosts = rd_hosts x, rp_agents = rd_agents x, rp_vms = rd_vms x\<rparr>
      | None \<Rightarrow> no_props\<lparr>rp_backup := restoring\<rparr>)"

subsection \<open>Handlers\<close>

text \<open>Rows that left the screen forget what they were doing.\<close>

definition keepRows :: "host \<Rightarrow> pointsPage \<Rightarrow> pointsPage" where
  "keepRows h p =
     (let keys = map rowKeyOf (rowsShown h p)
      in p\<lparr>pg_verifying := filter (\<lambda>k. k \<in> set keys) (pg_verifying p), pg_deleting := filter (\<lambda>k. k \<in> set keys) (pg_deleting p),
           pg_asking := keep_asking rowKeyOf keys (pg_asking p),
           pg_out := keep_alive (\<lambda>r. rowKeyOf (pointOf r)) keys (pg_out p)\<rparr>)"

definition toggleGroup :: "host \<Rightarrow> string \<Rightarrow> pointsPage \<Rightarrow> pointsPage" where
  "toggleGroup h key p =
     (let open = openGroups h p
      in keepRows h (p\<lparr>pg_openKeys := Some (if key \<in> set open then removeAll key open else open @ [key])\<rparr>))"

definition toastPoints :: "string \<Rightarrow> string \<Rightarrow> pointsPage \<Rightarrow> pointsPage" where
  "toastPoints title detail p = p\<lparr>pg_toasts := (title, detail) # pg_toasts p\<rparr>"

definition sendPoint :: "bool \<Rightarrow> pointAction \<Rightarrow> pointsPage \<Rightarrow> pointsPage" where
  "sendPoint alive r p = p\<lparr>pg_out := (alive, r) # pg_out p, pg_sent := r # pg_sent p\<rparr>"

definition refreshPoints :: "pointsPage \<Rightarrow> pointsPage" where
  "refreshPoints p = p\<lparr>pg_async := asyncStep Refresh (pg_async p)\<rparr>"

definition onVerify :: "backup \<Rightarrow> pointsPage \<Rightarrow> pointsPage" where
  "onVerify b p = sendPoint True (VerifyPoint b) (p\<lparr>pg_verifying := rowKeyOf b # pg_verifying p\<rparr>)"

definition settleVerify :: "host \<Rightarrow> bool \<Rightarrow> backup \<Rightarrow> unit exn \<Rightarrow> pointsPage \<Rightarrow> pointsPage" where
  "settleVerify h alive b r p =
     (let q = (case r of
                 Inr _ \<Rightarrow>
                   toastPoints ''Verification started.''
                     (''The '' @ bk_kind b @ '' point from '' @ formatDateTime h (Some (bk_createdAt b)) @
                      '' is being read back from the target and re-hashed.'') p
               | Inl err \<Rightarrow> toastPoints ''Could not start verification'' (errorMessage err) p)
      in if alive then q\<lparr>pg_verifying := removeAll (rowKeyOf b) (pg_verifying q)\<rparr> else q)"

definition answerDeletePoint :: "bool \<Rightarrow> pointsPage \<Rightarrow> pointsPage" where
  "answerDeletePoint ok p =
     (case pg_asking p of
        None \<Rightarrow> p
      | Some (alive, b) \<Rightarrow>
          let q = p\<lparr>pg_asking := None\<rparr>
          in if ok
             then sendPoint alive (DeletePoint b) (if alive then q\<lparr>pg_deleting := rowKeyOf b # pg_deleting q\<rparr> else q)
             else q)"

definition settleDeletePoint :: "bool \<Rightarrow> backup \<Rightarrow> unit exn \<Rightarrow> pointsPage \<Rightarrow> pointsPage" where
  "settleDeletePoint alive b r p =
     (let q = (case r of
                 Inr _ \<Rightarrow> refreshPoints (toastPoints ''Restore point deleted.'' [] p)
               | Inl err \<Rightarrow> toastPoints ''Could not delete restore point'' (errorMessage err) p)
      in if alive then q\<lparr>pg_deleting := removeAll (rowKeyOf b) (pg_deleting q)\<rparr> else q)"

text \<open>New data give the wizard new lists.\<close>

definition receivePoints :: "host \<Rightarrow> restoreData exn \<Rightarrow> pointsPage \<Rightarrow> pointsPage" where
  "receivePoints h r p =
     (let q = p\<lparr>pg_async := asyncStep (LoaderSettles r) (pg_async p)\<rparr>
      in keepRows h
           (case r of
              Inr d \<Rightarrow>
                (let ps = wizardProps (Some d) (rp_backup (rw_props (pg_wizard p)))
                 in q\<lparr>pg_wizard := restoreStep (RefetchedR (rp_target ps) (rp_hosts ps) (rp_agents ps) (rp_vms ps)) (pg_wizard p)\<rparr>)
            | Inl _ \<Rightarrow> q))"

text \<open>A restore that was started refreshes the page.\<close>

definition wizardEvent :: "restoreEvent \<Rightarrow> pointsPage \<Rightarrow> pointsPage" where
  "wizardEvent e p =
     (let w = restoreStep e (pg_wizard p); q = p\<lparr>pg_wizard := w\<rparr>
      in if rw_started (pg_wizard p) < rw_started w then refreshPoints q else q)"

subsection \<open>Events\<close>

datatype pointsEvent =
    ReloadPoints
  | PointsAnswer "restoreData exn"
  | Toggle string
  | ClickRestore backup
  | ClickBrowse backup
  | ClickVerify backup
  | AskDelete backup
  | AnswerDelete bool
  | VerifySettles bool backup "unit exn"
  | DeleteSettles bool backup "unit exn"
  | InWizard restoreEvent
  | InFiles filesEvent

text \<open>Opening a dialog and handing it new lists are the page's own events.\<close>

fun wizard_own :: "restoreEvent \<Rightarrow> bool" where
  "wizard_own (OpenRestore ps) = False"
| "wizard_own (RefetchedR tgt hs as vs) = False"
| "wizard_own _ = True"

fun files_own :: "filesEvent \<Rightarrow> bool" where
  "files_own (OpenFiles b) = False"
| "files_own _ = True"

definition rowReady :: "host \<Rightarrow> role \<Rightarrow> pointsPage \<Rightarrow> backup \<Rightarrow> bool" where
  "rowReady h role p b \<longleftrightarrow> b \<in> set (rowsShown h p) \<and> operateJobs (capabilitiesFor role)"

fun pointsOffered :: "host \<Rightarrow> role \<Rightarrow> pointsPage \<Rightarrow> pointsEvent \<Rightarrow> bool" where
  "pointsOffered h role p ReloadPoints = (\<not> as_loading (pg_async p))"
| "pointsOffered h role p (PointsAnswer r) = (0 < as_out (pg_async p))"
| "pointsOffered h role p (Toggle key) = (key \<in> set (map sg_key (groupsOf h p)))"
| "pointsOffered h role p (ClickRestore b) = (rowReady h role p b \<and> \<not> restore_open (pg_wizard p))"
| "pointsOffered h role p (ClickBrowse b) = (rowReady h role p b \<and> fb_backup (pg_files p) = None \<and> bk_sourceKind b = AgentJob)"
| "pointsOffered h role p (ClickVerify b) = (rowReady h role p b \<and> rowKeyOf b \<notin> set (pg_verifying p))"
| "pointsOffered h role p (AskDelete b) = (rowReady h role p b \<and> rowKeyOf b \<notin> set (pg_deleting p))"
| "pointsOffered h role p (AnswerDelete ok) = (pg_asking p \<noteq> None)"
| "pointsOffered h role p (VerifySettles alive b r) = ((alive, VerifyPoint b) \<in> set (pg_out p))"
| "pointsOffered h role p (DeleteSettles alive b r) = ((alive, DeletePoint b) \<in> set (pg_out p))"
| "pointsOffered h role p (InWizard e) = (wizard_own e \<and> restoreOffered (pg_wizard p) e)"
| "pointsOffered h role p (InFiles e) = (files_own e \<and> filesOffered (pg_files p) e)"

definition settledPoint :: "bool \<Rightarrow> pointAction \<Rightarrow> pointsPage \<Rightarrow> pointsPage" where
  "settledPoint alive r p = p\<lparr>pg_out := remove1 (alive, r) (pg_out p)\<rparr>"

fun pointsStep :: "host \<Rightarrow> pointsEvent \<Rightarrow> pointsPage \<Rightarrow> pointsPage" where
  "pointsStep h ReloadPoints p = p\<lparr>pg_async := asyncStep Reload (pg_async p)\<rparr>"
| "pointsStep h (PointsAnswer r) p = receivePoints h r p"
| "pointsStep h (Toggle key) p = toggleGroup h key p"
| "pointsStep h (ClickRestore b) p =
     p\<lparr>pg_wizard := restoreStep (OpenRestore (wizardProps (as_data (pg_async p)) (Some b))) (pg_wizard p)\<rparr>"
| "pointsStep h (ClickBrowse b) p = p\<lparr>pg_files := filesStep (OpenFiles b) (pg_files p)\<rparr>"
| "pointsStep h (ClickVerify b) p = onVerify b p"
| "pointsStep h (AskDelete b) p = p\<lparr>pg_asking := Some (True, b)\<rparr>"
| "pointsStep h (AnswerDelete ok) p = answerDeletePoint ok p"
| "pointsStep h (VerifySettles alive b r) p = settleVerify h alive b r (settledPoint alive (VerifyPoint b) p)"
| "pointsStep h (DeleteSettles alive b r) p = settleDeletePoint alive b r (settledPoint alive (DeletePoint b) p)"
| "pointsStep h (InWizard e) p = wizardEvent e p"
| "pointsStep h (InFiles e) p = p\<lparr>pg_files := filesStep e (pg_files p)\<rparr>"

subsection \<open>What it shows\<close>

text \<open>A pill and the age beside it.\<close>

definition VerificationBadge :: "host \<Rightarrow> backup \<Rightarrow> (pillTone \<times> string) \<times> string option" where
  "VerificationBadge h b =
     (let age = map_option (\<lambda>t. formatRelative h (Some t)) (opt_text (bk_lastVerifiedAt b))
      in if bk_lastVerifyResult b = Some ''failed'' then ((FailTone, ''Integrity check failed''), age)
         else if age \<noteq> None then ((OkTone, ''Integrity verified''), age)
         else ((NeutralTone, ''Not verified''), None))"

record rowButton =
  rb_enabled :: bool
  rb_title :: "string option"
  rb_label :: "string option"

record backupRow =
  br_indent :: nat
  br_hook :: bool
  br_date :: string
  br_kind :: string
  br_badge :: "(pillTone \<times> string) \<times> string option"
  br_chip :: "(string \<times> string) option"
  br_line :: string
  br_browse :: rowButton
  br_restore :: rowButton
  br_verify :: rowButton
  br_delete :: rowButton

definition disksText :: "host \<Rightarrow> backupDisk list \<Rightarrow> string" where
  "disksText h disks =
     (if disks = [] then []
      else '' '' @ middle_dot @ '' '' @ nat_str (length disks) @ '' '' @ (if length disks = 1 then ''disk'' else ''disks'') @ '': '' @
        join_with '', '' (map (\<lambda>d. bd_name d @ '' '' @ formatBytes h (Some (bd_sizeBytes d)) 1) disks))"

definition pointLine :: "host \<Rightarrow> target option \<Rightarrow> backup \<Rightarrow> string" where
  "pointLine h target b =
     (case target of
        Some t \<Rightarrow> ''On '' @ t_name t @ '' '' @ targetLocation t @ '' '' @ middle_dot @ '' ''
      | None \<Rightarrow> []) @
     formatBytes h (Some (bk_sizeBytes b)) 1 @ '' source data '' @ middle_dot @ '' '' @
     formatBytes h (Some (bk_uploadedBytes b)) 1 @ '' transferred to target'' @ disksText h (bk_disks b)"

definition pointsDenied :: "role \<Rightarrow> string option" where
  "pointsDenied role =
     (if operateJobs (capabilitiesFor role) then None else Some (roleDeniedReason role ''restore, verify or prune''))"

text \<open>The title and the label of a button that a role may be refused.\<close>

definition pointButton :: "role \<Rightarrow> string option \<Rightarrow> string \<Rightarrow> rowButton" where
  "pointButton role title label =
     \<lparr>rb_enabled = operateJobs (capabilitiesFor role),
      rb_title = (case pointsDenied role of Some d \<Rightarrow> Some d | None \<Rightarrow> title),
      rb_label = Some (label @ (case pointsDenied role of Some d \<Rightarrow> '' '' @ em_dash @ '' '' @ d | None \<Rightarrow> []))\<rparr>"

definition browseButton :: "host \<Rightarrow> role \<Rightarrow> backup \<Rightarrow> rowButton" where
  "browseButton h role b =
     (let browsable = (bk_sourceKind b = AgentJob)
      in \<lparr>rb_enabled = (browsable \<and> operateJobs (capabilitiesFor role)),
          rb_title =
            (if browsable
             then (case pointsDenied role of Some d \<Rightarrow> Some d
                   | None \<Rightarrow> Some ''Browse the files in this restore point and recover one'')
             else Some ''This is a whole-VM image. Install the agent in the guest for file-level backups you can browse.''),
          rb_label = Some (''Browse the files in the restore point from '' @ formatDateTime h (Some (bk_createdAt b)))\<rparr>)"

definition restoreButton :: "role \<Rightarrow> rowButton" where
  "restoreButton role =
     \<lparr>rb_enabled = operateJobs (capabilitiesFor role), rb_title = pointsDenied role,
      rb_label = map_option (\<lambda>d. ''Restore '' @ em_dash @ '' '' @ d) (pointsDenied role)\<rparr>"

definition BackupRow :: "host \<Rightarrow> role \<Rightarrow> target option \<Rightarrow> nat \<Rightarrow> backup \<Rightarrow> backupRow" where
  "BackupRow h role target depth b =
     (let date = formatDateTime h (Some (bk_createdAt b))
      in \<lparr>br_indent = min depth 6 * 18, br_hook = (0 < depth), br_date = date,
          br_kind = (if bk_kind b = ''full'' then ''full'' else ''incremental''), br_badge = VerificationBadge h b,
          br_chip = map_option (\<lambda>t. TargetKindChip (t_kind t)) target, br_line = pointLine h target b,
          br_browse = browseButton h role b, br_restore = restoreButton role,
          br_verify = pointButton role
            (Some (''Verify integrity '' @ em_dash @ '' read every block back from the target and re-check its hash''))
            (''Verify the restore point from '' @ date),
          br_delete = pointButton role (Some ''Delete restore point'') (''Delete the restore point from '' @ date)\<rparr>)"

definition groupIdentity :: "sourceGroup \<Rightarrow> workloadRef" where
  "groupIdentity g =
     \<lparr>w_hostName = sg_hostName g, w_name = sg_sourceName g,
      w_vmid = (if sg_sourceKind g = VmJob
                then (case sourceVMID (Some (sg_sourceId g)) of Some n \<Rightarrow> JNum n | None \<Rightarrow> JNull) else JNull),
      w_node = sg_node g\<rparr>"

definition pointsWord :: "nat \<Rightarrow> string" where
  "pointsWord n = (if n = 1 then ''point'' else ''points'')"

abbreviation countText :: "host \<Rightarrow> nat \<Rightarrow> string" where
  "countText h n \<equiv> formatCount h (Some (jsint (int n)))"

definition groupLabel :: "host \<Rightarrow> bool \<Rightarrow> sourceGroup \<Rightarrow> string" where
  "groupLabel h expanded g =
     identityText (groupIdentity g) @ '' '' @ em_dash @ '' '' @ (if expanded then ''hide'' else ''show'') @ '' '' @
     countText h (sg_count g) @ '' restore '' @ pointsWord (sg_count g)"

definition groupLine :: "host \<Rightarrow> sourceGroup \<Rightarrow> string" where
  "groupLine h g =
     (let dot = '' '' @ middle_dot @ '' ''
      in countText h (sg_count g) @ '' '' @ pointsWord (sg_count g) @ dot @ formatBytes h (Some (sg_totalBytes g)) 1 @ dot @ ''newest '' @
         formatRelative h (Some (sg_latest g)) @ dot @
         (case opt_text (sg_lastVerifiedAt g) of
            Some t \<Rightarrow> ''integrity verified '' @ formatRelative h (Some t)
          | None \<Rightarrow> ''no point verified yet''))"

record groupView =
  gv_label :: string
  gv_identity :: "string list \<times> string option"
  gv_line :: string
  gv_size :: string
  gv_panel :: "(string \<times> backupRow list) option"

definition panelOf :: "host \<Rightarrow> role \<Rightarrow> restoreData \<Rightarrow> sourceGroup \<Rightarrow> string \<times> backupRow list" where
  "panelOf h role d g =
     (if sg_sourceKind g = VmJob then ''Virtual machine '' @ em_dash @ '' agentless image backup''
      else ''Agent '' @ em_dash @ '' file-level backup'',
      map (\<lambda>b. BackupRow h role (targetOf (rd_targets d) b)
             (case chainDepths (rd_backups d) (pointKey b) of Some n \<Rightarrow> n | None \<Rightarrow> 0) b)
        (chainOf h (rd_backups d) (sg_key g)))"

definition groupViewOf :: "host \<Rightarrow> role \<Rightarrow> restoreData \<Rightarrow> string list \<Rightarrow> sourceGroup \<Rightarrow> groupView" where
  "groupViewOf h role d openKeys g =
     (let expanded = (sg_key g \<in> set openKeys)
      in \<lparr>gv_label = groupLabel h expanded g, gv_identity = stackedIdentity (groupIdentity g), gv_line = groupLine h g,
          gv_size = formatBytes h (Some (sg_totalBytes g)) 1 @ '' total'',
          gv_panel = (if expanded then Some (panelOf h role d g) else None)\<rparr>)"

datatype pointsView =
    PointsLoading
  | PointsError string
  | PointsEmpty
  | PointsList string "groupView list"

definition pointsViewOf :: "host \<Rightarrow> role \<Rightarrow> pointsPage \<Rightarrow> pointsView" where
  "pointsViewOf h role p =
     (case as_data (pg_async p) of
        None \<Rightarrow>
          (if as_loading (pg_async p) then PointsLoading
           else case opt_text (as_error (pg_async p)) of Some err \<Rightarrow> PointsError err | None \<Rightarrow> PointsEmpty)
      | Some d \<Rightarrow>
          (let groups = groupsOf h p
           in if groups = [] then PointsEmpty
              else PointsList (nat_str (length groups) @ '' with restore points'')
                     (map (groupViewOf h role d (openGroups h p)) groups)))"

subsection \<open>Lemmas on groups\<close>

text \<open>The keys in the order of their first point, and a workload's group computed from its points alone.\<close>

definition first_keys :: "backup list \<Rightarrow> string list" where
  "first_keys bs = rev (remdups (rev (map sourceKey bs)))"

abbreviation pointsOf :: "backup list \<Rightarrow> string \<Rightarrow> backup list" where
  "pointsOf bs k \<equiv> filter (\<lambda>b. sourceKey b = k) bs"

definition summary :: "host \<Rightarrow> backup list \<Rightarrow> sourceGroup" where
  "summary h bs = foldl (joinGroup h) (newGroup (hd bs)) (tl bs)"

lemma first_keys_simps [simp]:
  "first_keys [] = []"
  "first_keys (bs @ [b]) = (if sourceKey b \<in> set (first_keys bs) then first_keys bs else first_keys bs @ [sourceKey b])"
  "set (first_keys bs) = sourceKey ` set bs" "distinct (first_keys bs)"
  by (simp_all add: first_keys_def)

lemma summary_single: "summary h [b] = newGroup b"
  by (simp add: summary_def)

lemma summary_snoc: "bs \<noteq> [] \<Longrightarrow> summary h (bs @ [b]) = joinGroup h (summary h bs) b"
  by (simp add: summary_def)

lemma summary_key: "bs \<noteq> [] \<Longrightarrow> sg_key (summary h bs) = sourceKey (hd bs) \<and> sg_count (summary h bs) = length bs"
proof (induction bs rule: rev_induct)
  case (snoc b bs)
  then show ?case by (cases "bs = []") (simp_all add: summary_snoc joinGroup_def, simp_all add: summary_def newGroup_def)
qed simp

lemma hd_pointsOf: "k \<in> sourceKey ` set bs \<Longrightarrow> pointsOf bs k \<noteq> [] \<and> sourceKey (hd (pointsOf bs k)) = k"
proof -
  assume "k \<in> sourceKey ` set bs"
  then have ne: "pointsOf bs k \<noteq> []" by (auto simp: filter_empty_conv)
  then show ?thesis using hd_in_set [OF ne] by simp
qed

lemma no_points: "k \<notin> sourceKey ` set bs \<Longrightarrow> pointsOf bs k = []"
  by (force simp: filter_empty_conv)

lemma addToGroups_map:
  assumes "distinct ks" "\<And>k. k \<in> set ks \<Longrightarrow> sg_key (f k) = k"
  shows "addToGroups h (map f ks) b =
    (if sourceKey b \<in> set ks then map (\<lambda>k. if k = sourceKey b then joinGroup h (f k) b else f k) ks
     else map f ks @ [newGroup b])"
  using assms
proof (induction ks)
  case (Cons k ks)
  then show ?case by (auto intro: map_cong)
qed simp

lemma groups_are_summaries: "foldl (addToGroups h) [] bs = map (\<lambda>k. summary h (pointsOf bs k)) (first_keys bs)"
proof (induction bs rule: rev_induct)
  case (snoc b bs)
  have key: "sg_key (summary h (pointsOf bs k)) = k" if "k \<in> set (first_keys bs)" for k
    using that hd_pointsOf [of k bs] summary_key [of "pointsOf bs k" h] by simp
  let ?f = "\<lambda>k. summary h (pointsOf bs k)"
  have add: "addToGroups h (map ?f (first_keys bs)) b =
      (if sourceKey b \<in> set (first_keys bs)
       then map (\<lambda>k. if k = sourceKey b then joinGroup h (?f k) b else ?f k) (first_keys bs)
       else map ?f (first_keys bs) @ [newGroup b])"
    by (rule addToGroups_map) (use key in simp_all)
  show ?case
  proof (cases "sourceKey b \<in> set (first_keys bs)")
    case True
    then have "pointsOf bs (sourceKey b) \<noteq> []" using hd_pointsOf by simp
    with True show ?thesis by (auto simp: snoc add summary_snoc)
  next
    case False
    then have "pointsOf bs (sourceKey b) = []" using no_points by simp
    with False show ?thesis by (auto simp: snoc add summary_single)
  qed
qed simp

lemma addToChains_map:
  assumes "distinct ks"
  shows "addToChains (map (\<lambda>k. (k, f k)) ks) b =
    (if sourceKey b \<in> set ks then map (\<lambda>k. (k, if k = sourceKey b then f k @ [b] else f k)) ks
     else map (\<lambda>k. (k, f k)) ks @ [(sourceKey b, [b])])"
  using assms
proof (induction ks)
  case (Cons k ks)
  then show ?case by (auto intro: map_cong)
qed simp

lemma chains_are_filters: "foldl addToChains [] bs = map (\<lambda>k. (k, pointsOf bs k)) (first_keys bs)"
proof (induction bs rule: rev_induct)
  case (snoc b bs)
  show ?case
  proof (cases "sourceKey b \<in> set (first_keys bs)")
    case True
    then show ?thesis by (auto simp: snoc addToChains_map intro: map_cong)
  next
    case False
    then have "pointsOf bs (sourceKey b) = []" using no_points by simp
    with False show ?thesis by (auto simp: snoc addToChains_map)
  qed
qed simp

lemma chainOf_eq: "chainOf h bs k = sort_by (newestFirst h) (pointsOf bs k)"
proof (cases "k \<in> set (first_keys bs)")
  case True
  then show ?thesis
    by (auto simp: chainOf_def chains_def chains_are_filters map_of_map_restrict o_def)
next
  case False
  then have "pointsOf bs k = []" using no_points by simp
  moreover from False have "map_of (chains h bs) k = None"
    by (auto simp: chains_def chains_are_filters map_of_eq_None_iff)
  ultimately show ?thesis by (simp add: chainOf_def sort_by_def)
qed

text \<open>The newest point of a workload and the passing verifications in it.\<close>

definition readable :: "host \<Rightarrow> backup list \<Rightarrow> bool" where
  "readable h bs \<longleftrightarrow> list_all (\<lambda>b. h_parse h (bk_createdAt b) \<noteq> None) bs"

abbreviation madeAt :: "host \<Rightarrow> backup \<Rightarrow> int" where
  "madeAt h b \<equiv> the (h_parse h (bk_createdAt b))"

lemma summary_latest:
  assumes "bs \<noteq> []" "readable h bs"
  shows "\<exists>b\<in>set bs. sg_latest (summary h bs) = bk_createdAt b \<and> (\<forall>c\<in>set bs. madeAt h c \<le> madeAt h b)"
  using assms
proof (induction bs rule: rev_induct)
  case (snoc b bs)
  show ?case
  proof (cases "bs = []")
    case True
    then show ?thesis by (simp add: summary_single newGroup_def)
  next
    case False
    moreover have "readable h bs" using snoc.prems(2) by (simp add: readable_def)
    ultimately obtain c where c: "c \<in> set bs" "sg_latest (summary h bs) = bk_createdAt c" "\<forall>x\<in>set bs. madeAt h x \<le> madeAt h c"
      using snoc.IH by blast
    moreover obtain x y where "h_parse h (bk_createdAt b) = Some x" "h_parse h (bk_createdAt c) = Some y"
      using snoc.prems(2) c(1) by (auto simp: readable_def list_all_iff)
    ultimately show ?thesis using False by (cases "y < x") (fastforce simp: summary_snoc joinGroup_def)+
  qed
qed simp

lemma newerStamp_cases: "newerStamp h a b = a \<or> newerStamp h a b = b"
  by (simp add: newerStamp_def split: option.splits)

lemma newerStamp_None: "opt_text (newerStamp h a b) = None \<longleftrightarrow> opt_text a = None \<and> opt_text b = None"
  by (auto simp: newerStamp_def split: option.splits)

lemma summary_verified:
  assumes "bs \<noteq> []"
  shows "(\<exists>b\<in>set bs. sg_lastVerifiedAt (summary h bs) = verifiedOf b) \<and>
    (opt_text (sg_lastVerifiedAt (summary h bs)) = None \<longleftrightarrow> list_all (\<lambda>b. opt_text (verifiedOf b) = None) bs)"
  using assms
proof (induction bs rule: rev_induct)
  case (snoc b bs)
  show ?case
  proof (cases "bs = []")
    case True
    then show ?thesis by (simp add: summary_single newGroup_def)
  next
    case False
    with snoc.IH have IH: "\<exists>c\<in>set bs. sg_lastVerifiedAt (summary h bs) = verifiedOf c"
      "opt_text (sg_lastVerifiedAt (summary h bs)) = None \<longleftrightarrow> list_all (\<lambda>b. opt_text (verifiedOf b) = None) bs" by auto
    have "sg_lastVerifiedAt (summary h (bs @ [b])) = newerStamp h (sg_lastVerifiedAt (summary h bs)) (verifiedOf b)"
      using False by (simp add: summary_snoc joinGroup_def)
    then show ?thesis using IH newerStamp_cases [of h "sg_lastVerifiedAt (summary h bs)" "verifiedOf b"]
      by (auto simp: newerStamp_None)
  qed
qed simp

lemma group_cases:
  assumes "g \<in> set (groupSources h bs)"
  shows "g = summary h (pointsOf bs (sg_key g)) \<and> pointsOf bs (sg_key g) \<noteq> [] \<and> sg_key g \<in> sourceKey ` set bs"
proof -
  from assms obtain k where k: "k \<in> sourceKey ` set bs" "g = summary h (pointsOf bs k)"
    by (auto simp: groupSources_def groups_are_summaries)
  then have "sg_key g = k" using hd_pointsOf [OF k(1)] summary_key [of "pointsOf bs k" h] by simp
  with k hd_pointsOf [OF k(1)] show ?thesis by simp
qed

lemma group_keys: "mset (map sg_key (groupSources h bs)) = mset (first_keys bs)"
proof -
  have "map sg_key (map (\<lambda>k. summary h (pointsOf bs k)) (first_keys bs)) = first_keys bs"
    by (rule map_idI [THEN trans [rotated]]) (auto simp: hd_pointsOf summary_key)
  then have "image_mset sg_key (mset (map (\<lambda>k. summary h (pointsOf bs k)) (first_keys bs))) = mset (first_keys bs)"
    by (metis mset_map)
  then show ?thesis by (simp add: groupSources_def groups_are_summaries)
qed

lemma mset_partition:
  assumes "distinct ks" "\<forall>x\<in>set xs. f x \<in> set ks"
  shows "mset (concat (map (\<lambda>k. filter (\<lambda>x. f x = k) xs) ks)) = mset xs"
  using assms
proof (induction ks arbitrary: xs)
  case (Cons k ks)
  let ?ys = "filter (\<lambda>x. f x \<noteq> k) xs"
  have "mset (concat (map (\<lambda>j. filter (\<lambda>x. f x = j) ?ys) ks)) = mset ?ys"
    by (rule Cons.IH) (use Cons.prems in auto)
  moreover have "map (\<lambda>j. filter (\<lambda>x. f x = j) ?ys) ks = map (\<lambda>j. filter (\<lambda>x. f x = j) xs) ks"
    using Cons.prems(1) by (auto intro!: filter_cong)
  ultimately have "mset (concat (map (\<lambda>j. filter (\<lambda>x. f x = j) xs) ks)) = mset ?ys" by metis
  then show ?case using multiset_partition [of "mset xs" "\<lambda>x. f x = k"] by simp
qed simp

lemma set_chainOf: "set (chainOf h bs k) = {b \<in> set bs. sourceKey b = k}"
  by (simp add: chainOf_eq)

lemma chain_sorted: "readable h bs \<Longrightarrow> sorted_wrt (\<lambda>a b. madeAt h b \<le> madeAt h a) (chainOf h bs k)"
  unfolding chainOf_eq newestFirst_def by (rule sorted_by_time(2)) (auto simp: readable_def list_all_iff)

text \<open>The newest time of a group is that of the first point of its chain.\<close>

lemma group_latest:
  assumes "g \<in> set (groupSources h bs)" "readable h bs"
  shows "h_parse h (sg_latest g) = h_parse h (bk_createdAt (hd (chainOf h bs (sg_key g))))"
proof -
  let ?ps = "pointsOf bs (sg_key g)"
  have g: "g = summary h ?ps" "?ps \<noteq> []" using group_cases [OF assms(1)] by auto
  have "readable h ?ps" using assms(2) by (auto simp: readable_def list_all_iff)
  then obtain b where b: "b \<in> set ?ps" "sg_latest g = bk_createdAt b" "\<forall>c\<in>set ?ps. madeAt h c \<le> madeAt h b"
    using summary_latest [OF g(2)] g(1) by metis
  obtain c cs where c: "chainOf h bs (sg_key g) = c # cs" using g(2) by (metis chainOf_eq length_0_conv length_sort_by neq_Nil_conv)
  have "set (c # cs) = set ?ps" unfolding c [symmetric] by (simp add: chainOf_eq)
  then have "c \<in> set ?ps" "b \<in> set (c # cs)" using b(1) by auto
  then have "madeAt h c \<le> madeAt h b" "madeAt h b \<le> madeAt h c" using b(3) chain_sorted [OF assms(2), of "sg_key g"] c by auto
  then have "madeAt h b = madeAt h c" by (rule order_antisym [rotated])
  moreover have "c \<in> set bs" "b \<in> set bs" using \<open>c \<in> set ?ps\<close> b(1) by auto
  moreover from this have "h_parse h (bk_createdAt b) \<noteq> None" "h_parse h (bk_createdAt c) \<noteq> None"
    using assms(2) by (auto simp: readable_def list_all_iff)
  ultimately show ?thesis using b(2) c by fastforce
qed

lemma groups_sorted:
  assumes "readable h bs"
  shows "sorted_wrt (\<lambda>a b. the (h_parse h (sg_latest b)) \<le> the (h_parse h (sg_latest a))) (groupSources h bs)"
  unfolding groupSources_def
proof (rule sorted_by_time(2), rule)
  fix g assume "g \<in> set (foldl (addToGroups h) [] bs)"
  then have g: "g \<in> set (groupSources h bs)" by (simp add: groupSources_def)
  have "pointsOf bs (sg_key g) \<noteq> []" using group_cases [OF g] by simp
  then have "chainOf h bs (sg_key g) \<noteq> []" by (metis chainOf_eq length_0_conv length_sort_by)
  then have "hd (chainOf h bs (sg_key g)) \<in> set bs" using set_chainOf hd_in_set by blast
  then show "h_parse h (sg_latest g) \<noteq> None"
    using group_latest [OF g assms] assms by (auto simp: readable_def list_all_iff)
qed

subsection \<open>Lemmas on depths\<close>

text \<open>The number of ancestors, where following the parents ends.\<close>

inductive ancestors :: "(string \<Rightarrow> backup option) \<Rightarrow> backup \<Rightarrow> nat \<Rightarrow> bool" for ids where
  root: "parentOf ids b = None \<Longrightarrow> ancestors ids b 0"
| child: "parentOf ids b = Some p \<Longrightarrow> ancestors ids p n \<Longrightarrow> ancestors ids b (Suc n)"

inductive_cases ancestorsE: "ancestors ids b n"

lemma ancestors_unique: "ancestors ids b n \<Longrightarrow> ancestors ids b m \<Longrightarrow> n = m"
proof (induction arbitrary: m rule: ancestors.induct)
  case (child b p n)
  from child.prems obtain j where "m = Suc j" "ancestors ids p j"
    by (rule ancestorsE) (use child.hyps(1) in simp_all)
  then show ?case using child.IH by simp
qed (erule ancestorsE, simp_all)

lemma byId_Some: "byId bs k = Some b \<Longrightarrow> pointKey b = k \<and> b \<in> set bs"
  by (auto simp: byId_def dest: map_of_SomeD)

lemma byId_self: "distinct (map pointKey bs) \<Longrightarrow> b \<in> set bs \<Longrightarrow> byId bs (pointKey b) = Some b"
  unfolding byId_def by (rule map_of_is_SomeI) (auto simp: rev_map [symmetric] o_def)

lemma parentOf_byId: "parentOf (byId bs) b = Some p \<Longrightarrow> byId bs (pointKey p) = Some p"
  using byId_Some by (fastforce simp: parentOf_def split: option.splits)

lemma ancestors_below: "ancestors (byId bs) b n \<Longrightarrow> b \<in> set bs \<Longrightarrow> j \<le> n \<Longrightarrow> \<exists>c\<in>set bs. ancestors (byId bs) c j"
proof (induction rule: ancestors.induct)
  case (child b p n)
  moreover have "p \<in> set bs" using byId_Some parentOf_byId [OF child.hyps(1)] by blast
  ultimately show ?case by (metis ancestors.child le_Suc_eq)
qed (auto intro: root)

lemma ancestors_bound:
  assumes "ancestors (byId bs) b n" "b \<in> set bs"
  shows "n < length bs"
proof -
  let ?f = "\<lambda>c. THE j. ancestors (byId bs) c j"
  have f: "?f c = j" if "ancestors (byId bs) c j" for c j using that ancestors_unique by blast
  have "{..n} \<subseteq> ?f ` set bs"
  proof
    fix j assume "j \<in> {..n}"
    then obtain c where c: "c \<in> set bs" "ancestors (byId bs) c j" using ancestors_below [OF assms] by auto
    then show "j \<in> ?f ` set bs" using f [OF c(2)] by (intro image_eqI [of _ _ c]) auto
  qed
  then have "card {..n} \<le> card (set bs)" by (meson card_image_le card_mono finite_imageI finite_set order_trans)
  then show ?thesis using card_length [of bs] by simp
qed

definition depths_ok :: "backup list \<Rightarrow> (string \<Rightarrow> nat option) \<Rightarrow> bool" where
  "depths_ok bs m \<longleftrightarrow>
     (\<forall>k d. m k = Some d \<longrightarrow> d \<le> 6 \<and> (\<forall>b n. byId bs k = Some b \<longrightarrow> ancestors (byId bs) b n \<longrightarrow> d = min 6 n))"

lemma depths_ok_upd:
  "depths_ok bs m \<Longrightarrow> d \<le> 6 \<Longrightarrow> (\<And>c n. byId bs k = Some c \<Longrightarrow> ancestors (byId bs) c n \<Longrightarrow> d = min 6 n) \<Longrightarrow>
     depths_ok bs (m(k \<mapsto> d))"
  by (auto simp: depths_ok_def)

lemma depthOf_ok:
  assumes "depths_ok bs m" "byId bs (pointKey b) = Some b" "\<And>n. ancestors (byId bs) b n \<Longrightarrow> n \<le> guard"
  shows "depths_ok bs (snd (depthOf (byId bs) guard b m)) \<and>
    snd (depthOf (byId bs) guard b m) (pointKey b) = Some (fst (depthOf (byId bs) guard b m)) \<and>
    dom m \<subseteq> dom (snd (depthOf (byId bs) guard b m))"
  using assms
proof (induction guard arbitrary: b m)
  case 0
  then have "depths_ok bs (m(pointKey b \<mapsto> 0))" by (intro depths_ok_upd) (auto dest: 0(3))
  with 0(1) show ?case by (cases "m (pointKey b)") (auto simp: fun_upd_def)
next
  case (Suc guard)
  show ?case
  proof (cases "m (pointKey b) \<noteq> None \<or> parentOf (byId bs) b = None")
    case True
    have "depths_ok bs (m(pointKey b \<mapsto> 0))" if "parentOf (byId bs) b = None"
      using that Suc.prems by (intro depths_ok_upd) (simp_all, erule ancestorsE, simp_all)
    with True Suc.prems(1) show ?thesis by (cases "m (pointKey b)") (auto simp: fun_upd_def)
  next
    case False
    then obtain p where p: "parentOf (byId bs) b = Some p" by auto
    obtain d ds where d: "depthOf (byId bs) guard p m = (d, ds)" by fastforce
    have IH: "depths_ok bs ds" "ds (pointKey p) = Some d" "dom m \<subseteq> dom ds"
      using Suc.IH [OF Suc.prems(1) parentOf_byId [OF p]] Suc.prems(3) p d by (auto intro: child)
    have "depths_ok bs (ds(pointKey b \<mapsto> min 6 (d + 1)))"
    proof (rule depths_ok_upd [OF IH(1)])
      fix c n assume "byId bs (pointKey b) = Some c" "ancestors (byId bs) c n"
      with Suc.prems(2) p obtain m where "n = Suc m" "ancestors (byId bs) p m"
        by simp (erule ancestorsE, simp_all)
      with IH(1,2) parentOf_byId [OF p] have "d = min 6 m" by (auto simp: depths_ok_def)
      with \<open>n = Suc m\<close> show "min 6 (d + 1) = min 6 n" by simp
    qed simp
    with False p d IH(3) show ?thesis by (auto simp: fun_upd_def)
  qed
qed

lemma chainDepths_all:
  assumes "distinct (map pointKey bs)"
  shows "depths_ok bs (chainDepths bs) \<and> pointKey ` set bs \<subseteq> dom (chainDepths bs)"
proof -
  have "depths_ok bs (fold (\<lambda>b ds. snd (depthOf (byId bs) (length bs) b ds)) cs m) \<and>
      pointKey ` set cs \<union> dom m \<subseteq> dom (fold (\<lambda>b ds. snd (depthOf (byId bs) (length bs) b ds)) cs m)"
    if "set cs \<subseteq> set bs" "depths_ok bs m" for cs m
    using that
  proof (induction cs arbitrary: m)
    case (Cons c cs)
    have "n \<le> length bs" if "ancestors (byId bs) c n" for n
      using ancestors_bound [OF that] Cons.prems(1) by simp
    then have "depths_ok bs (snd (depthOf (byId bs) (length bs) c m)) \<and>
        insert (pointKey c) (dom m) \<subseteq> dom (snd (depthOf (byId bs) (length bs) c m))"
      using depthOf_ok [OF Cons.prems(2) byId_self [OF assms], of c "length bs"] Cons.prems(1) by auto
    moreover from this Cons.prems Cons.IH [of "snd (depthOf (byId bs) (length bs) c m)"]
    have "depths_ok bs (fold (\<lambda>b ds. snd (depthOf (byId bs) (length bs) b ds)) (c # cs) m) \<and>
      pointKey ` set cs \<union> dom (snd (depthOf (byId bs) (length bs) c m)) \<subseteq>
        dom (fold (\<lambda>b ds. snd (depthOf (byId bs) (length bs) b ds)) (c # cs) m)" by simp
    ultimately show ?case by (simp add: subset_iff)
  qed simp
  from this [of bs "\<lambda>_. None"] show ?thesis by (auto simp: chainDepths_def depths_ok_def)
qed

subsection \<open>Lemmas on the page\<close>

text \<open>Only the page opens its dialogs.\<close>

lemma restoreStep_open: "wizard_own e \<Longrightarrow> \<not> restore_open w \<Longrightarrow> \<not> restore_open (restoreStep e w)"
  by (cases e) (auto simp: suggestVmid_def suggestSettles_def submitRestore_def settleRestore_def Let_def
      split: option.splits sum.splits if_splits)

lemma finishLoad_backup [simp]: "fb_backup (finishLoad q r w) = fb_backup w"
  by (cases "(q, r, w)" rule: finishLoad.cases) auto

lemma filesStep_open: "files_own e \<Longrightarrow> fb_backup (filesStep e w) = fb_backup w \<or> fb_backup (filesStep e w) = None"
  by (cases e) (auto simp: goTo_def openEntry_def reask_def startLoad_def onDownload_def split: option.splits sum.splits)

lemma restoreStep_sent:
  "restoreOffered w e \<Longrightarrow> \<not> restore_open w \<Longrightarrow> rw_sent (restoreStep e w) = rw_sent w"
  by (cases e) (auto simp: Let_def)

lemma refetched_props: "rp_backup (rw_props (restoreStep (RefetchedR t hs as vs) w)) = rp_backup (rw_props w)"
  by (simp add: Let_def)

lemma keepRows_keeps [simp]:
  "pg_wizard (keepRows h p) = pg_wizard p" "pg_files (keepRows h p) = pg_files p" "pg_sent (keepRows h p) = pg_sent p"
  "pg_asking (keepRows h p) = None \<longleftrightarrow> pg_asking p = None"
  by (simp_all add: keepRows_def Let_def)

lemmas points_defs = receivePoints_def toggleGroup_def onVerify_def settleVerify_def answerDeletePoint_def settleDeletePoint_def
  wizardEvent_def settledPoint_def sendPoint_def toastPoints_def refreshPoints_def Let_def

interpretation points_wizard: embedded_part "pointsStep h" "pointsOffered h role" pg_wizard restoreStep restoreOffered for h role
proof unfold_locales
  fix p e assume o: "pointsOffered h role p e"
  show "pg_wizard (pointsStep h e p) = pg_wizard p \<or>
      (\<exists>f. restoreOffered (pg_wizard p) f \<and> pg_wizard (pointsStep h e p) = restoreStep f (pg_wizard p))"
  proof (cases e)
    case (PointsAnswer r)
    then show ?thesis by (cases r) (simp_all add: points_defs del: restoreStep.simps, metis restoreOffered.simps(2))
  next
    case (ClickRestore b)
    then have "restoreOffered (pg_wizard p) (OpenRestore (wizardProps (as_data (pg_async p)) (Some b)))"
      using o by (simp add: rowReady_def wizardProps_def split: option.splits)
    then show ?thesis using ClickRestore by (simp del: restoreStep.simps restoreOffered.simps) blast
  next
    case (InWizard f)
    then show ?thesis using o by (auto simp: points_defs simp del: restoreStep.simps)
  qed (auto simp: points_defs split: option.splits sum.splits)
qed

interpretation points_files: embedded_part "pointsStep h" "pointsOffered h role" pg_files filesStep filesOffered for h role
proof unfold_locales
  fix p e assume o: "pointsOffered h role p e"
  show "pg_files (pointsStep h e p) = pg_files p \<or>
      (\<exists>f. filesOffered (pg_files p) f \<and> pg_files (pointsStep h e p) = filesStep f (pg_files p))"
  proof (cases e)
    case (ClickBrowse b)
    then have "filesOffered (pg_files p) (OpenFiles b)" using o by (simp add: rowReady_def)
    then show ?thesis using ClickBrowse by (simp del: filesStep.simps filesOffered.simps) blast
  next
    case (InFiles f)
    then show ?thesis using o by (auto simp del: filesStep.simps)
  qed (auto simp: points_defs split: option.splits sum.splits)
qed

text \<open>Who may not operate opens nothing and sends nothing; files are browsed in file backups only.\<close>

definition points_inv :: "role \<Rightarrow> pointsPage \<Rightarrow> bool" where
  "points_inv role p \<longleftrightarrow>
     (\<forall>b. fb_backup (pg_files p) = Some b \<longrightarrow> bk_sourceKind b = AgentJob) \<and>
     (operateJobs (capabilitiesFor role) \<or>
      pg_sent p = [] \<and> pg_asking p = None \<and> \<not> restore_open (pg_wizard p) \<and> rw_sent (pg_wizard p) = [] \<and> fb_backup (pg_files p) = None)"

lemma pointsStep_inv:
  assumes "points_inv role p" "pointsOffered h role p e"
  shows "points_inv role (pointsStep h e p)"
proof (cases e)
  case (InWizard f)
  then have f: "wizard_own f" "restoreOffered (pg_wizard p) f" using assms(2) by auto
  from InWizard have "pg_wizard (pointsStep h e p) = restoreStep f (pg_wizard p)" "pg_files (pointsStep h e p) = pg_files p"
    "pg_sent (pointsStep h e p) = pg_sent p" "pg_asking (pointsStep h e p) = pg_asking p"
    by (simp_all add: points_defs)
  then show ?thesis using assms(1) restoreStep_open [OF f(1), of "pg_wizard p"] restoreStep_sent [OF f(2)] unfolding points_inv_def by auto
next
  case (InFiles f)
  then show ?thesis using assms filesStep_open [of f "pg_files p"] by (auto simp: points_inv_def simp del: filesStep.simps)
next
  case (PointsAnswer r)
  then show ?thesis using assms(1)
    by (cases r) (auto simp: points_inv_def points_defs refetched_props simp del: restoreStep.simps, auto simp: Let_def)
next
  case (ClickRestore b)
  then show ?thesis using assms by (auto simp: points_inv_def rowReady_def)
next
  case (ClickBrowse b)
  then show ?thesis using assms by (auto simp: points_inv_def rowReady_def reask_def)
qed (use assms in \<open>auto simp: points_inv_def points_defs rowReady_def split: option.splits sum.splits if_splits\<close>)

interpretation points: request_guard mountPoints "pointsStep h" "pointsOffered h role" "points_inv role" pg_sent
  "\<lambda>_. operateJobs (capabilitiesFor role)" for h role
proof unfold_locales
  show "points_inv role mountPoints"
    by (simp add: points_inv_def mountPoints_def mountRestore_def mountFiles_def no_props_def)
qed (rule pointsStep_inv, assumption+, auto simp: points_inv_def list_all_iff)

text \<open>A run of the wizard is a run of the page.\<close>

lemma wizard_run_lifts:
  assumes "run_events restoreStep restoreOffered es (pg_wizard p) = Some w" "list_all wizard_own es"
  shows "\<exists>q. run_events (pointsStep h) (pointsOffered h role) (map InWizard es) p = Some q \<and> pg_wizard q = w"
  using assms
proof (induction es arbitrary: p)
  case (Cons e es)
  have "pg_wizard (wizardEvent e p) = restoreStep e (pg_wizard p)" by (simp add: points_defs)
  with Cons show ?case by (simp split: if_splits)
qed auto

text \<open>A clock whose dates are tallies, the point of \<open>db01\<close> with its machine, and what the wizard gets.\<close>

definition tally_host :: host where
  "tally_host =
     \<lparr>h_zone = fixed_zone 0, h_now = 0, h_parse = (\<lambda>s. Some (int (length s))), h_parts = (\<lambda>_ _. None), h_datetime = (\<lambda>_. []),
      h_clock = (\<lambda>_. []), h_date = (\<lambda>_. []), h_group = (\<lambda>_. []), h_log = (\<lambda>x. x)\<rparr>"

definition db01_data :: restoreData where
  "db01_data = \<lparr>rd_backups = [db01_point], rd_hosts = [], rd_agents = [], rd_vms = [db01], rd_targets = []\<rparr>"

lemma db01_data_props: "wizardProps (Some db01_data) (Some db01_point) = db01_props"
  by (simp add: wizardProps_def db01_data_def db01_props_def targetOf_def)

lemma db01_rows: "as_data (pg_async p) = Some db01_data \<Longrightarrow> pg_openKeys p = None \<Longrightarrow> rowsShown h p = [db01_point]"
  by (simp add: rowsShown_def groupsOf_def pointsData_def db01_data_def openGroups_def groupSources_def newGroup_def chainOf_eq
      sort_by_def)

lemma db01_clicked:
  "\<exists>q. run_events (pointsStep h) (pointsOffered h Operator) [PointsAnswer (Inr db01_data), ClickRestore db01_point] mountPoints = Some q \<and>
    pg_wizard q = openRestore db01_props (mountRestore db01_props)"
proof -
  have "wizardProps (Some db01_data) None = db01_props\<lparr>rp_backup := None\<rparr>"
    by (simp add: wizardProps_def db01_data_def db01_props_def)
  then have r: "restoreStep (RefetchedR None [] [] [db01]) (mountRestore no_props) = mountRestore db01_props"
    by (simp add: mountRestore_def no_props_def db01_props_def source_def)
  let ?p = "receivePoints h (Inr db01_data) mountPoints"
  have p: "pg_wizard ?p = mountRestore db01_props" "as_data (pg_async ?p) = Some db01_data" "pg_openKeys ?p = None"
    "pg_asking ?p = None" "fb_backup (pg_files ?p) = None"
    using r by (simp_all add: points_defs keepRows_def mountPoints_def mountAsync_def wizardProps_def db01_data_def mountFiles_def
        mountRestore_def no_props_def del: restoreStep.simps)
  then have "pointsOffered h Operator ?p (ClickRestore db01_point)"
    using db01_rows [OF p(2,3)] by (simp add: rowReady_def mountRestore_def capabilitiesFor_def)
  then show ?thesis using p db01_data_props by (simp add: mountPoints_def mountAsync_def)
qed

subsection \<open>Properties\<close>

text \<open>
  C11 (restoring, verifying, deleting and browsing from the list): however the page, its wizard and its
  file browser are used and whenever their requests settle, every restore request is one the
  wizard allows, everything that restores, verifies or deletes comes from somebody who may operate,
  and only points of an agent, which are archives of files, are browsed.
\<close>

theorem restore_points_guarded:
  assumes "reaches (pointsStep h) (pointsOffered h role) mountPoints p"
  shows "(\<forall>r\<in>set (rw_sent (pg_wizard p)). safe_request r) \<and>
    (rw_sent (pg_wizard p) \<noteq> [] \<or> pg_sent p \<noteq> [] \<longrightarrow> operateJobs (capabilitiesFor role)) \<and>
    (\<forall>b. fb_backup (pg_files p) = Some b \<longrightarrow> bk_sourceKind b = AgentJob \<and> operateJobs (capabilitiesFor role))"
proof -
  have "reaches restoreStep restoreOffered (mountRestore no_props) (pg_wizard p)"
    using points_wizard.part_reaches [OF assms] by (simp add: mountPoints_def)
  then have "\<forall>r\<in>set (rw_sent (pg_wizard p)). safe_request r" using restores.request_ok by blast
  moreover have "points_inv role p" using points.reachable_inv [OF assms] .
  ultimately show ?thesis by (auto simp: points_inv_def)
qed

theorem restore_points_guarded_witness:
  "\<exists>p. reaches (pointsStep tally_host) (pointsOffered tally_host Operator) mountPoints p \<and>
    rw_sent (pg_wizard p) = [(db01_props, RestoreVM (IdNum (Fin 9)) Overwrite
      \<lparr>rv_hostId = ''1'', rv_node = ''pve1'', rv_vmid = Fin 100, rv_storage = None\<rparr> (Some ''db01''))] \<and>
    list_all safe_request (rw_sent (pg_wizard p))"
proof -
  let ?es = "[SetMode Overwrite, ContinueR, SetConfirm ''db01'', ContinueR, SubmitR]"
  obtain q where q: "run_events (pointsStep tally_host) (pointsOffered tally_host Operator)
      [PointsAnswer (Inr db01_data), ClickRestore db01_point] mountPoints = Some q"
      "pg_wizard q = openRestore db01_props (mountRestore db01_props)" using db01_clicked by blast
  obtain w where w: "run_events restoreStep restoreOffered ?es (pg_wizard q) = Some w"
    "rw_sent w = [(db01_props, RestoreVM (IdNum (Fin 9)) Overwrite
      \<lparr>rv_hostId = ''1'', rv_node = ''pve1'', rv_vmid = Fin 100, rv_storage = None\<rparr> (Some ''db01''))]"
    using overwrite_run unfolding q(2) run_events.simps(2) [of _ _ "OpenRestore db01_props"] restoreStep.simps(1)
    by (metis option.distinct(1))
  obtain p where p: "run_events (pointsStep tally_host) (pointsOffered tally_host Operator) (map InWizard ?es) q = Some p"
    "pg_wizard p = w" using wizard_run_lifts [OF w(1)] by fastforce
  have r: "reaches (pointsStep tally_host) (pointsOffered tally_host Operator) mountPoints p"
    using reaches_trans [OF run_events_reaches [OF p(1)] run_events_reaches [OF q(1)]] .
  with restore_points_guarded [OF r] p(2) w(2) show ?thesis by (auto simp: list_all_iff)
qed


definition two_points :: "backup list" where
  "two_points =
     [db01_point\<lparr>bk_createdAt := ''|''\<rparr>,
      db01_point\<lparr>bk_id := IdNum (Fin 10), bk_createdAt := ''||'', bk_parentId := Some (IdNum (Fin 9)), bk_lastVerifiedAt := Some ''|||''\<rparr>]"


text \<open>
  C15 (the indentation is the depth in the chain): every listed point has a depth of at most six, whatever its parent
  ids say, cycles included; and a point whose parents lead to a full backup, or to one that is no longer listed,
  has the number of its listed ancestors as its depth, or six when there are more.
\<close>

theorem chainDepths_counts_ancestors:
  assumes "distinct (map pointKey bs)" "b \<in> set bs"
  shows "\<exists>d \<le> 6. chainDepths bs (pointKey b) = Some d \<and> (\<forall>n. ancestors (byId bs) b n \<longrightarrow> d = min 6 n)"
proof -
  have all: "depths_ok bs (chainDepths bs)" "pointKey ` set bs \<subseteq> dom (chainDepths bs)" using chainDepths_all [OF assms(1)] by auto
  then obtain d where "chainDepths bs (pointKey b) = Some d" using assms(2) by blast
  then show ?thesis using all(1) byId_self [OF assms] by (auto simp: depths_ok_def)
qed

theorem chainDepths_counts_ancestors_witness:
  "ancestors (byId two_points) (two_points ! 1) 1 \<and> chainDepths two_points (pointKey (two_points ! 1)) = Some 1"
proof -
  have t: "num_str (Fin 9) = ''9''" "num_str (Fin 10) = ''10''" by code_simp+
  have d: "distinct (map pointKey two_points)" "two_points ! 1 \<in> set two_points"
    using t by (simp_all add: two_points_def db01_point_def)
  have p: "parentOf (byId two_points) (two_points ! 1) = Some (two_points ! 0)" "parentOf (byId two_points) (two_points ! 0) = None"
    using t by (simp_all add: two_points_def db01_point_def parentOf_def byId_def)
  then have a: "ancestors (byId two_points) (two_points ! 1) 1" by (auto intro: child root)
  with chainDepths_counts_ancestors [OF d] show ?thesis by auto
qed

end
