(* ===== verification/Jobs_Page.thy ===== *)
theory Jobs_Page
  imports Job_Wizard Run_Views Row_State
begin

text \<open>
  Backup jobs (\<open>web/src/pages/JobsPage.tsx\<close>): the rows with their actions, the polling while a job runs,
  and the page as a machine that holds the job wizard.
\<close>

subsection \<open>Sources in a line\<close>

definition sourceIs :: "jval \<Rightarrow> cachedVM \<Rightarrow> bool" where
  "sourceIs src vm \<longleftrightarrow>
     id_str (v_hostId vm) = val_str (jprop src ''hostId'') \<and>
     (case jprop src ''vmid'' of JNum n \<Rightarrow> js_eq (v_vmid vm) n | _ \<Rightarrow> False)"

definition sourceLabel :: "cachedVM list \<Rightarrow> jval \<Rightarrow> string" where
  "sourceLabel vms src =
     (let vm = List.find (sourceIs src) vms
      in identityText \<lparr>w_hostName = map_option v_hostName vm, w_name = val_str (jprop src ''name''),
           w_vmid = jprop src ''vmid'', w_node = map_option v_node vm\<rparr>)"

definition sourceSummary :: "job \<Rightarrow> agent list \<Rightarrow> cachedVM list \<Rightarrow> string" where
  "sourceSummary j agents vms =
     (if j_kind j = VmJob
      then (let sources = vmSourcesOf (j_sources j); dot = '' '' @ middle_dot @ '' ''
            in if sources = [] then ''No sources''
               else if length sources \<le> 2 then join_with dot (map (sourceLabel vms) sources)
               else join_with dot (map (sourceLabel vms) (take 2 sources)) @ '' + '' @ nat_str (length sources - 2) @ '' more'')
      else (case agentSourceOf (j_sources j) of
              None \<Rightarrow> ''No sources''
            | Some src \<Rightarrow>
                (let agent = List.find (\<lambda>a. id_str (a_id a) = val_str (jprop src ''agentId'')) agents;
                     paths = length (elems (jprop src ''paths''))
                 in (case agent of Some a \<Rightarrow> a_hostname a | None \<Rightarrow> ''Agent '' @ val_str (jprop src ''agentId'')) @
                    '' '' @ em_dash @ '' '' @ nat_str paths @ '' '' @ (if paths = 1 then ''path'' else ''paths''))))"

subsection \<open>State\<close>

record jobsData =
  jd_jobs :: "job list"
  jd_targets :: "target list"
  jd_vms :: "cachedVM list"
  jd_agents :: "agent list"

datatype jobBusy = BusyRun | BusyToggle | BusyDelete

datatype jobAction = RunNow job | SwitchJob job bool | DropJob job

fun actionJob :: "jobAction \<Rightarrow> job" where
  "actionJob (RunNow j) = j"
| "actionJob (SwitchJob j enabled) = j"
| "actionJob (DropJob j) = j"

abbreviation jobKey :: "job \<Rightarrow> string" where
  "jobKey j \<equiv> id_str (j_id j)"

text \<open>\<open>jb_left\<close> is where the page was left for, when it was.\<close>

record jobsPage =
  jb_async :: "jobsData async"
  jb_busy :: "string \<Rightarrow> jobBusy option"
  jb_asking :: "(bool \<times> job) option"
  jb_out :: "jobAction rowRequests"
  jb_sent :: "jobAction list"
  jb_toasts :: "(string \<times> string) list"
  jb_left :: "string option"
  jb_wizard :: wizard

definition no_job_props :: wizardProps where
  "no_job_props = \<lparr>wp_targets = [], wp_vms = [], wp_agents = [], wp_initialVM = None, wp_editJob = None\<rparr>"

definition mountJobs :: jobsPage where
  "mountJobs =
     \<lparr>jb_async = mountAsync, jb_busy = (\<lambda>_. None), jb_asking = None, jb_out = [], jb_sent = [], jb_toasts = [], jb_left = None,
      jb_wizard = mountWizard no_job_props\<rparr>"

definition jobsShown :: "jobsPage \<Rightarrow> job list" where
  "jobsShown p = (case as_data (jb_async p) of Some d \<Rightarrow> jd_jobs d | None \<Rightarrow> [])"

definition jobRunning :: "job \<Rightarrow> bool" where
  "jobRunning j \<longleftrightarrow> (case j_lastRun j of Some run \<Rightarrow> jr_status run = RunRunning | None \<Rightarrow> False)"

definition anyJobRunning :: "jobsPage \<Rightarrow> bool" where
  "anyJobRunning p \<longleftrightarrow> list_ex jobRunning (jobsShown p)"

definition jobWizardProps :: "jobsData option \<Rightarrow> job option \<Rightarrow> wizardProps" where
  "jobWizardProps d editing =
     (case d of
        Some x \<Rightarrow> \<lparr>wp_targets = jd_targets x, wp_vms = jd_vms x, wp_agents = jd_agents x, wp_initialVM = None, wp_editJob = editing\<rparr>
      | None \<Rightarrow> no_job_props\<lparr>wp_editJob := editing\<rparr>)"

subsection \<open>Handlers\<close>

definition keepJobRows :: "jobsPage \<Rightarrow> jobsPage" where
  "keepJobRows p =
     (let keys = map jobKey (jobsShown p)
      in p\<lparr>jb_busy := keep_busy keys (jb_busy p), jb_asking := keep_asking jobKey keys (jb_asking p),
           jb_out := keep_alive (\<lambda>r. jobKey (actionJob r)) keys (jb_out p)\<rparr>)"

definition sendJob :: "bool \<Rightarrow> jobAction \<Rightarrow> jobsPage \<Rightarrow> jobsPage" where
  "sendJob alive r p = p\<lparr>jb_out := (alive, r) # jb_out p, jb_sent := r # jb_sent p\<rparr>"

definition toastJobs :: "string \<Rightarrow> string \<Rightarrow> jobsPage \<Rightarrow> jobsPage" where
  "toastJobs title detail p = p\<lparr>jb_toasts := (title, detail) # jb_toasts p\<rparr>"

definition refreshJobs :: "jobsPage \<Rightarrow> jobsPage" where
  "refreshJobs p = p\<lparr>jb_async := asyncStep Refresh (jb_async p)\<rparr>"

definition setJobBusy :: "bool \<Rightarrow> job \<Rightarrow> jobBusy option \<Rightarrow> jobsPage \<Rightarrow> jobsPage" where
  "setJobBusy alive j b p = (if alive then p\<lparr>jb_busy := (jb_busy p)(jobKey j := b)\<rparr> else p)"

text \<open>Leaving takes every row and the page's own state off the screen.\<close>

definition leaveJobs :: "string \<Rightarrow> jobsPage \<Rightarrow> jobsPage" where
  "leaveJobs path p =
     p\<lparr>jb_left := Some path, jb_async := asyncStep Unmount (jb_async p),
       jb_out := map (\<lambda>(alive, r). (False, r)) (jb_out p), jb_asking := map_option (\<lambda>(alive, j). (False, j)) (jb_asking p)\<rparr>"

definition monitorPath :: "job \<Rightarrow> string" where
  "monitorPath j = ''/monitor?jobId='' @ encodeURIComponent (jobKey j)"

abbreviation jobTitle :: "job \<Rightarrow> string \<Rightarrow> string" where
  "jobTitle j what \<equiv> ''Job '' @ ldquo @ j_name j @ rdquo @ what"

definition settleRunNow :: "bool \<Rightarrow> job \<Rightarrow> unit exn \<Rightarrow> jobsPage \<Rightarrow> jobsPage" where
  "settleRunNow alive j r p =
     (case r of
        Inr _ \<Rightarrow>
          leaveJobs (monitorPath j)
            (setJobBusy alive j None (refreshJobs (toastJobs (jobTitle j '' started.'') ''Follow the progress on the Monitor page.'' p)))
      | Inl err \<Rightarrow> setJobBusy alive j None (toastJobs ''Could not start job'' (errorMessage err) p))"

definition settleSwitch :: "bool \<Rightarrow> job \<Rightarrow> bool \<Rightarrow> unit exn \<Rightarrow> jobsPage \<Rightarrow> jobsPage" where
  "settleSwitch alive j enabled r p =
     setJobBusy alive j None
       (case r of
          Inr _ \<Rightarrow> refreshJobs (toastJobs (jobTitle j (if enabled then '' enabled.'' else '' disabled.'')) [] p)
        | Inl err \<Rightarrow> toastJobs ''Could not update job'' (errorMessage err) p)"

definition answerDropJob :: "bool \<Rightarrow> jobsPage \<Rightarrow> jobsPage" where
  "answerDropJob ok p =
     (case jb_asking p of
        None \<Rightarrow> p
      | Some (alive, j) \<Rightarrow>
          let q = p\<lparr>jb_asking := None\<rparr>
          in if ok then sendJob alive (DropJob j) (setJobBusy alive j (Some BusyDelete) q) else q)"

definition settleDropJob :: "bool \<Rightarrow> job \<Rightarrow> unit exn \<Rightarrow> jobsPage \<Rightarrow> jobsPage" where
  "settleDropJob alive j r p =
     setJobBusy alive j None
       (case r of
          Inr _ \<Rightarrow> refreshJobs (toastJobs (jobTitle j '' deleted.'') [] p)
        | Inl err \<Rightarrow> toastJobs ''Could not delete job'' (errorMessage err) p)"

definition receiveJobs :: "jobsData exn \<Rightarrow> jobsPage \<Rightarrow> jobsPage" where
  "receiveJobs r p =
     (let q = p\<lparr>jb_async := asyncStep (LoaderSettles r) (jb_async p)\<rparr>
      in if \<not> as_mounted (jb_async p) then q
         else keepJobRows
           (case r of
              Inr d \<Rightarrow> q\<lparr>jb_wizard := wizardStep (Refetched (jd_targets d) (jd_vms d) (jd_agents d)) (jb_wizard p)\<rparr>
            | Inl _ \<Rightarrow> q))"

text \<open>A job that was saved refreshes the page.\<close>

definition jobWizardEvent :: "wizardEvent \<Rightarrow> jobsPage \<Rightarrow> jobsPage" where
  "jobWizardEvent e p =
     (let w = wizardStep e (jb_wizard p); q = p\<lparr>jb_wizard := w\<rparr>
      in if wz_saved (jb_wizard p) < wz_saved w then refreshJobs q else q)"

definition openJobWizard :: "job option \<Rightarrow> jobsPage \<Rightarrow> jobsPage" where
  "openJobWizard editing p =
     p\<lparr>jb_wizard := wizardStep (OpenWizard (jobWizardProps (as_data (jb_async p)) editing)) (jb_wizard p)\<rparr>"

subsection \<open>Events\<close>

datatype jobsEvent =
    ReloadJobs
  | PollJobs
  | JobsAnswer "jobsData exn"
  | ClickMonitor
  | ClickCreate
  | ClickEdit job
  | ClickRun job
  | ClickSwitch job
  | AskDropJob job
  | AnswerDropJob bool
  | RunSettles bool job "unit exn"
  | SwitchSettles bool job bool "unit exn"
  | DropSettles bool job "unit exn"
  | InJobWizard wizardEvent

fun job_wizard_own :: "wizardEvent \<Rightarrow> bool" where
  "job_wizard_own (OpenWizard ps) = False"
| "job_wizard_own (Refetched ts vs as) = False"
| "job_wizard_own _ = True"

fun submission_settles :: "wizardEvent \<Rightarrow> bool" where
  "submission_settles (Settles f r) = True"
| "submission_settles _ = False"

definition jobReady :: "role \<Rightarrow> jobsPage \<Rightarrow> job \<Rightarrow> bool" where
  "jobReady role p j \<longleftrightarrow> jb_left p = None \<and> j \<in> set (jobsShown p) \<and> operateJobs (capabilitiesFor role)"

text \<open>
  What is enabled: an open wizard is not opened again, a job that runs cannot be started, a busy row neither started nor switched, and the
  delete button waits only for its own request.
\<close>

fun jobsOffered :: "browser \<Rightarrow> role \<Rightarrow> jobsPage \<Rightarrow> jobsEvent \<Rightarrow> bool" where
  "jobsOffered b role p ReloadJobs = (jb_left p = None \<and> \<not> as_loading (jb_async p))"
| "jobsOffered b role p PollJobs = (jb_left p = None \<and> anyJobRunning p)"
| "jobsOffered b role p (JobsAnswer r) = (0 < as_out (jb_async p))"
| "jobsOffered b role p ClickMonitor = (jb_left p = None)"
| "jobsOffered b role p ClickCreate = (jb_left p = None \<and> \<not> wz_open (jb_wizard p) \<and> operateJobs (capabilitiesFor role))"
| "jobsOffered b role p (ClickEdit j) = (jobReady role p j \<and> \<not> wz_open (jb_wizard p))"
| "jobsOffered b role p (ClickRun j) = (jobReady role p j \<and> \<not> jobRunning j \<and> jb_busy p (jobKey j) = None)"
| "jobsOffered b role p (ClickSwitch j) = (jobReady role p j \<and> jb_busy p (jobKey j) = None)"
| "jobsOffered b role p (AskDropJob j) = (jobReady role p j \<and> jb_busy p (jobKey j) \<noteq> Some BusyDelete)"
| "jobsOffered b role p (AnswerDropJob ok) = (jb_asking p \<noteq> None)"
| "jobsOffered b role p (RunSettles alive j r) = ((alive, RunNow j) \<in> set (jb_out p))"
| "jobsOffered b role p (SwitchSettles alive j enabled r) = ((alive, SwitchJob j enabled) \<in> set (jb_out p))"
| "jobsOffered b role p (DropSettles alive j r) = ((alive, DropJob j) \<in> set (jb_out p))"
| "jobsOffered b role p (InJobWizard e) =
     (job_wizard_own e \<and> (jb_left p = None \<or> submission_settles e) \<and> wizardOffered b (jb_wizard p) e)"

definition settledJob :: "bool \<Rightarrow> jobAction \<Rightarrow> jobsPage \<Rightarrow> jobsPage" where
  "settledJob alive r p = p\<lparr>jb_out := remove1 (alive, r) (jb_out p)\<rparr>"

fun jobsStep :: "jobsEvent \<Rightarrow> jobsPage \<Rightarrow> jobsPage" where
  "jobsStep ReloadJobs p = p\<lparr>jb_async := asyncStep Reload (jb_async p)\<rparr>"
| "jobsStep PollJobs p = refreshJobs p"
| "jobsStep (JobsAnswer r) p = receiveJobs r p"
| "jobsStep ClickMonitor p = leaveJobs ''/monitor'' p"
| "jobsStep ClickCreate p = openJobWizard None p"
| "jobsStep (ClickEdit j) p = openJobWizard (Some j) p"
| "jobsStep (ClickRun j) p = sendJob True (RunNow j) (setJobBusy True j (Some BusyRun) p)"
| "jobsStep (ClickSwitch j) p = sendJob True (SwitchJob j (\<not> j_enabled j)) (setJobBusy True j (Some BusyToggle) p)"
| "jobsStep (AskDropJob j) p = p\<lparr>jb_asking := Some (True, j)\<rparr>"
| "jobsStep (AnswerDropJob ok) p = answerDropJob ok p"
| "jobsStep (RunSettles alive j r) p = settleRunNow alive j r (settledJob alive (RunNow j) p)"
| "jobsStep (SwitchSettles alive j enabled r) p = settleSwitch alive j enabled r (settledJob alive (SwitchJob j enabled) p)"
| "jobsStep (DropSettles alive j r) p = settleDropJob alive j r (settledJob alive (DropJob j) p)"
| "jobsStep (InJobWizard e) p = jobWizardEvent e p"

subsection \<open>What it shows\<close>

datatype jobSourcesLine = TagLine string | SourcesLine string

record jobRow =
  jv_name :: string
  jv_pills :: "(pillTone \<times> string) list"
  jv_sources :: jobSourcesLine
  jv_target :: "string \<times> string option"
  jv_schedule :: string
  jv_next :: string
  jv_retention :: string
  jv_last :: "((pillTone \<times> string \<times> bool) \<times> string \<times> string option) option"
  jv_policy :: "string list"
  jv_progress :: "(string \<times> string \<times> jsnum \<times> string) option"
  jv_error :: "string option"
  jv_switch :: string
  jv_run :: "string \<times> string option"
  jv_denied :: "string option"

definition jobPills :: "job \<Rightarrow> (pillTone \<times> string) list" where
  "jobPills j =
     (if j_kind j = VmJob then (BrandTone, ''VM image'') else (NeutralTone, ''Agent files'')) #
     (if j_enabled j then [] else [(WarnTone, ''disabled'')])"

definition sourcesLine :: "jobsData \<Rightarrow> job \<Rightarrow> jobSourcesLine" where
  "sourcesLine d j =
     (case (j_kind j, opt_text (j_tagFilter j)) of
        (VmJob, Some tag) \<Rightarrow> TagLine tag
      | _ \<Rightarrow> SourcesLine (sourceSummary j (jd_agents d) (jd_vms d)))"

text \<open>The last run: its pill, its age, and what it transferred once it is over.\<close>

definition lastRunLine :: "host \<Rightarrow> job \<Rightarrow> ((pillTone \<times> string \<times> bool) \<times> string \<times> string option) option" where
  "lastRunLine h j =
     map_option (\<lambda>run. (RunStatusPill (run_status_str (jr_status run)), formatRelative h (Some (jr_startedAt run)),
        if jr_status run = RunRunning then None
        else Some (formatBytes h (Some (jr_bytesUploaded run)) 1 @ '' transferred''))) (j_lastRun j)"

definition jobProgress :: "job \<Rightarrow> (string \<times> string \<times> jsnum \<times> string) option" where
  "jobProgress j =
     (case j_lastRun j of
        Some run \<Rightarrow>
          if jr_status run = RunRunning
          then Some (if jr_currentStep run = [] then ''Working'' @ ellipsis else jr_currentStep run,
                     to_fixed 0 (clampPct (Some (jr_progressPct run))) @ ''%'', ProgressBar (jr_progressPct run))
          else None
      | None \<Rightarrow> None)"

definition jobFailure :: "job \<Rightarrow> string option" where
  "jobFailure j =
     (case j_lastRun j of Some run \<Rightarrow> if jr_status run = RunFailed then opt_text (jr_error run) else None | None \<Rightarrow> None)"

definition jobsDenied :: "role \<Rightarrow> string option" where
  "jobsDenied role =
     (if operateJobs (capabilitiesFor role) then None else Some (roleDeniedReason role ''run or change backup jobs''))"

definition withDenied :: "string \<Rightarrow> string option \<Rightarrow> string" where
  "withDenied text denied = (case denied of Some d \<Rightarrow> text @ '' '' @ em_dash @ '' '' @ d | None \<Rightarrow> text)"

definition JobRow :: "host \<Rightarrow> role \<Rightarrow> jobsData \<Rightarrow> job \<Rightarrow> jobRow" where
  "JobRow h role d j =
     (let target = List.find (\<lambda>t. id_str (t_id t) = id_str (j_targetId j)) (jd_targets d); denied = jobsDenied role
      in \<lparr>jv_name = j_name j, jv_pills = jobPills j, jv_sources = sourcesLine d j,
          jv_target = (if j_targetName j = [] then ''No target'' else j_targetName j, map_option (\<lambda>t. TARGET_KIND_SHORT (t_kind t)) target),
          jv_schedule = (case opt_text (j_scheduleLabel j) of Some s \<Rightarrow> s | None \<Rightarrow> describeSchedule (j_schedule j)),
          jv_next = describeNextRun h (j_nextRun j) (j_enabled j) (j_schedule j), jv_retention = describeRetention (j_retention j),
          jv_last = lastRunLine h j, jv_policy = PolicySummary (parsePolicy (j_policy j)) (j_kind j),
          jv_progress = jobProgress j, jv_error = jobFailure j,
          jv_switch = withDenied ((if j_enabled j then ''Disable '' else ''Enable '') @ j_name j) denied,
          jv_run = (if jobRunning j then ''Running'' else ''Run Now'',
                    map_option (\<lambda>d. withDenied (''Run '' @ j_name j @ '' now'') (Some d)) denied),
          jv_denied = denied\<rparr>)"

definition jobsViewOf :: "host \<Rightarrow> role \<Rightarrow> jobsPage \<Rightarrow> jobRow list pageView" where
  "jobsViewOf h role p =
     pageViewOf (jb_async p) (case as_data (jb_async p) of Some d \<Rightarrow> map (JobRow h role d) (jd_jobs d) | None \<Rightarrow> [])"

subsection \<open>Lemmas\<close>

lemmas jobs_defs = receiveJobs_def settleRunNow_def settleSwitch_def answerDropJob_def settleDropJob_def jobWizardEvent_def
  settledJob_def sendJob_def toastJobs_def refreshJobs_def setJobBusy_def leaveJobs_def openJobWizard_def Let_def

lemma keepJobRows_keeps [simp]:
  "jb_wizard (keepJobRows p) = jb_wizard p" "jb_sent (keepJobRows p) = jb_sent p" "jb_left (keepJobRows p) = jb_left p"
  "jb_async (keepJobRows p) = jb_async p" "map_option snd (jb_asking (keepJobRows p)) = map_option snd (jb_asking p)"
  "jb_asking (keepJobRows p) = None \<longleftrightarrow> jb_asking p = None"
  by (simp_all add: keepJobRows_def Let_def)

text \<open>Only the page opens its wizard, and only an open wizard submits.\<close>

lemma wizardStep_open: "job_wizard_own e \<Longrightarrow> \<not> wz_open w \<Longrightarrow> \<not> wz_open (wizardStep e w)"
  by (cases e) (auto simp: gotoStep_def addPath_def beginSubmit_def settleSubmit_def Let_def split: sum.splits)

lemma wizardStep_quiet: "wizardOffered b w e \<Longrightarrow> \<not> wz_open w \<Longrightarrow> wz_sent (wizardStep e w) = wz_sent w"
  by (cases e) (auto simp: settleSubmit_def split: sum.splits)

interpretation jobs_wizard: embedded_part jobsStep "jobsOffered b role" jb_wizard wizardStep "wizardOffered b" for b role
proof unfold_locales
  fix p e assume o: "jobsOffered b role p e"
  show "jb_wizard (jobsStep e p) = jb_wizard p \<or>
      (\<exists>f. wizardOffered b (jb_wizard p) f \<and> jb_wizard (jobsStep e p) = wizardStep f (jb_wizard p))"
  proof (cases e)
    case (JobsAnswer r)
    have "jb_wizard (receiveJobs r p) = jb_wizard p \<or>
        (\<exists>ts vs as. jb_wizard (receiveJobs r p) = wizardStep (Refetched ts vs as) (jb_wizard p))"
      by (cases r) (auto simp: receiveJobs_def Let_def simp del: wizardStep.simps)
    moreover have "wizardOffered b (jb_wizard p) (Refetched ts vs as)" for ts vs as by simp
    ultimately show ?thesis unfolding JobsAnswer jobsStep.simps by blast
  next
    case ClickCreate
    then have "wizardOffered b (jb_wizard p) (OpenWizard ps)" for ps using o by simp
    then show ?thesis unfolding ClickCreate jobsStep.simps openJobWizard_def by (simp del: wizardStep.simps wizardOffered.simps) blast
  next
    case (ClickEdit j)
    then have "wizardOffered b (jb_wizard p) (OpenWizard ps)" for ps using o by (simp add: jobReady_def)
    then show ?thesis unfolding ClickEdit jobsStep.simps openJobWizard_def by (simp del: wizardStep.simps wizardOffered.simps) blast
  next
    case (InJobWizard f)
    then show ?thesis using o by (auto simp: jobs_defs simp del: wizardStep.simps)
  qed (auto simp: jobs_defs split: option.splits sum.splits)
qed

text \<open>What the page may ask for: to start a job that was not running, to turn a switch over.\<close>

fun job_action_ok :: "jobAction \<Rightarrow> bool" where
  "job_action_ok (RunNow j) = (\<not> jobRunning j)"
| "job_action_ok (SwitchJob j enabled) = (enabled = (\<not> j_enabled j))"
| "job_action_ok (DropJob j) = True"

definition jobs_inv :: "role \<Rightarrow> jobsPage \<Rightarrow> bool" where
  "jobs_inv role p \<longleftrightarrow>
     list_all job_action_ok (jb_sent p) \<and>
     (operateJobs (capabilitiesFor role) \<or>
      jb_sent p = [] \<and> jb_asking p = None \<and> \<not> wz_open (jb_wizard p) \<and> wz_sent (jb_wizard p) = [])"

lemma jobsStep_inv:
  assumes "jobs_inv role p" "jobsOffered b role p e"
  shows "jobs_inv role (jobsStep e p)"
proof (cases e)
  case (InJobWizard f)
  then have f: "job_wizard_own f" "wizardOffered b (jb_wizard p) f" using assms(2) by auto
  from InJobWizard have "jb_wizard (jobsStep e p) = wizardStep f (jb_wizard p)" "jb_sent (jobsStep e p) = jb_sent p"
    "jb_asking (jobsStep e p) = jb_asking p" by (simp_all add: jobs_defs)
  then show ?thesis using assms(1) wizardStep_open [OF f(1), of "jb_wizard p"] wizardStep_quiet [OF f(2)] unfolding jobs_inv_def by auto
next
  case (JobsAnswer r)
  then show ?thesis using assms(1) by (cases r) (auto simp: jobs_inv_def jobs_defs)
qed (use assms in \<open>auto simp: jobs_inv_def jobs_defs jobReady_def split: option.splits sum.splits\<close>)

interpretation job_actions: request_guard mountJobs jobsStep "jobsOffered b role" "jobs_inv role" jb_sent
  "\<lambda>r. job_action_ok r \<and> operateJobs (capabilitiesFor role)" for b role
proof unfold_locales
  show "jobs_inv role mountJobs" by (simp add: jobs_inv_def mountJobs_def mountWizard_def)
qed (rule jobsStep_inv, assumption+, auto simp: jobs_inv_def list_all_iff)

text \<open>
  The busy state of a row is one value that every handler of the row clears: a start that fails while
  the deletion is on its way makes the delete button available again, and the job is deleted twice.
\<close>

definition one_job :: jobsData where
  "one_job = \<lparr>jd_jobs = [blank_job], jd_targets = [], jd_vms = [], jd_agents = []\<rparr>"

lemma deleted_twice_run:
  "\<exists>p. run_events jobsStep (jobsOffered b Operator)
      [JobsAnswer (Inr one_job), ClickRun blank_job, AskDropJob blank_job, AnswerDropJob True,
       RunSettles True blank_job (Inl err), AskDropJob blank_job, AnswerDropJob True] mountJobs = Some p \<and>
    jb_sent p = [DropJob blank_job, DropJob blank_job, RunNow blank_job]"
  by (simp add: mountJobs_def mountAsync_def mountWizard_def jobs_defs keepJobRows_def keep_busy_def keep_asking_def keep_alive_def
      one_job_def jobsShown_def jobReady_def jobRunning_def blank_job_def capabilitiesFor_def)

subsection \<open>Properties\<close>

text \<open>
  C12 (what leaves the jobs page): however rows, wizard and confirmation are used while lists are
  refreshed and requests settle, every job that is created or changed is complete, only jobs that were shown
  as not running are started, a switch asks for the opposite of what it shows, and nothing of this is sent for
  somebody who may not operate jobs.
\<close>

theorem jobs_page_guarded:
  assumes "reaches jobsStep (jobsOffered b role) mountJobs p"
  shows "(\<forall>r\<in>set (wz_sent (jb_wizard p)). complete_job (snd r)) \<and> (\<forall>r\<in>set (jb_sent p). job_action_ok r) \<and>
    (wz_sent (jb_wizard p) \<noteq> [] \<or> jb_sent p \<noteq> [] \<longrightarrow> operateJobs (capabilitiesFor role))"
proof -
  have "reaches wizardStep (wizardOffered b) (mountWizard no_job_props) (jb_wizard p)"
    using jobs_wizard.part_reaches [OF assms] by (simp add: mountJobs_def)
  then have "\<forall>r\<in>set (wz_sent (jb_wizard p)). complete_job (snd r)" using job_requests.request_ok by blast
  moreover have "jobs_inv role p" using job_actions.reachable_inv [OF assms] .
  ultimately show ?thesis by (auto simp: jobs_inv_def list_all_iff)
qed

theorem jobs_page_guarded_witness:
  "\<exists>p. reaches jobsStep (jobsOffered plain_browser Operator) mountJobs p \<and>
    jb_sent p = [DropJob blank_job, DropJob blank_job, RunNow blank_job] \<and> list_all job_action_ok (jb_sent p)"
proof -
  obtain p where p: "run_events jobsStep (jobsOffered plain_browser Operator)
      [JobsAnswer (Inr one_job), ClickRun blank_job, AskDropJob blank_job, AnswerDropJob True,
       RunSettles True blank_job (Inl (OtherError ''down'')), AskDropJob blank_job, AnswerDropJob True] mountJobs = Some p"
    "jb_sent p = [DropJob blank_job, DropJob blank_job, RunNow blank_job]" using deleted_twice_run by blast
  note r = run_events_reaches [OF p(1)]
  from jobs_page_guarded [OF r] have "list_all job_action_ok (jb_sent p)" by (auto simp: list_all_iff)
  with r p(2) show ?thesis by blast
qed

end
