(* ===== verification/Hosts_Page.thy ===== *)
theory Hosts_Page
  imports Row_State Run_Views
begin

text \<open>
  Proxmox hosts (\<open>web/src/pages/HostsPage.tsx\<close>): the form that adds one and the probe that follows, the
  cards with their connection test and removal.
\<close>

subsection \<open>The form\<close>

definition EMPTY_FORM :: hostCreate where
  "EMPTY_FORM = \<lparr>hc_name = [], hc_baseUrl = [], hc_tokenId = [], hc_tokenSecret = [], hc_insecureTLS = False\<rparr>"

text \<open>The message of the first failed check, or what is sent.\<close>

definition hostPayload :: "hostCreate \<Rightarrow> string + hostCreate" where
  "hostPayload f =
     (if trim (hc_name f) = [] then Inl ''Give the host a display name.''
      else if \<not> httpUrl (trim (hc_baseUrl f)) then Inl ''The base URL must start with https:// or http://.''
      else if trim (hc_tokenId f) = [] then Inl ''Enter the API token ID.''
      else if trim (hc_tokenSecret f) = [] then Inl ''Enter the API token secret.''
      else Inr \<lparr>hc_name = trim (hc_name f), hc_baseUrl = strip_slashes (trim (hc_baseUrl f)), hc_tokenId = trim (hc_tokenId f),
                hc_tokenSecret = hc_tokenSecret f, hc_insecureTLS = hc_insecureTLS f\<rparr>)"

subsection \<open>State\<close>

record hostTestResult =
  ht_ok :: bool
  ht_nodes :: jsnum
  ht_error :: "string option"
  ht_warning :: "string option"

datatype hostAction =
    AddHost hostCreate
  | ProbeHost proxHost
  | TestHost proxHost
  | RemoveHost proxHost

abbreviation hostKey :: "proxHost \<Rightarrow> string" where
  "hostKey x \<equiv> id_str (px_id x)"

text \<open>What a card asked for has the key of the card; what the dialog asked for has none.\<close>

fun hostActionKey :: "hostAction \<Rightarrow> string option" where
  "hostActionKey (TestHost x) = Some (hostKey x)"
| "hostActionKey (RemoveHost x) = Some (hostKey x)"
| "hostActionKey _ = None"

record hostsPage =
  ho_list :: "proxHost list async"
  ho_addOpen :: bool
  ho_form :: hostCreate
  ho_submitting :: bool
  ho_error :: "string option"
  ho_testing :: "string list"
  ho_deleting :: "string list"
  ho_asking :: "(bool \<times> proxHost) option"
  ho_out :: "hostAction rowRequests"
  ho_sent :: "hostAction list"
  ho_toasts :: "(string \<times> string) list"

definition mountHosts :: hostsPage where
  "mountHosts =
     \<lparr>ho_list = mountAsync, ho_addOpen = False, ho_form = EMPTY_FORM, ho_submitting = False, ho_error = None, ho_testing = [],
      ho_deleting = [], ho_asking = None, ho_out = [], ho_sent = [], ho_toasts = []\<rparr>"

definition hostsShown :: "hostsPage \<Rightarrow> proxHost list" where
  "hostsShown p = unique_by px_id [] (case as_data (ho_list p) of Some hs \<Rightarrow> hs | None \<Rightarrow> [])"

subsection \<open>Handlers\<close>

definition closeAddHost :: "hostsPage \<Rightarrow> hostsPage" where
  "closeAddHost p = p\<lparr>ho_form := EMPTY_FORM, ho_error := None, ho_addOpen := False\<rparr>"

definition sendHost :: "bool \<Rightarrow> hostAction \<Rightarrow> hostsPage \<Rightarrow> hostsPage" where
  "sendHost alive r p = p\<lparr>ho_out := (alive, r) # ho_out p, ho_sent := r # ho_sent p\<rparr>"

definition toastHosts :: "string \<times> string \<Rightarrow> hostsPage \<Rightarrow> hostsPage" where
  "toastHosts t p = p\<lparr>ho_toasts := t # ho_toasts p\<rparr>"

definition refreshHosts :: "hostsPage \<Rightarrow> hostsPage" where
  "refreshHosts p = p\<lparr>ho_list := asyncStep Refresh (ho_list p)\<rparr>"

definition submitHost :: "hostsPage \<Rightarrow> hostsPage" where
  "submitHost p =
     (case hostPayload (ho_form p) of
        Inl message \<Rightarrow> p\<lparr>ho_error := Some message\<rparr>
      | Inr payload \<Rightarrow> sendHost True (AddHost payload) (p\<lparr>ho_error := None, ho_submitting := True\<rparr>))"

definition nodesText :: "jsnum \<Rightarrow> string" where
  "nodesText n = num_str n @ '' '' @ (if js_eq n (Fin 1) then ''node'' else ''nodes'') @ '' visible through the API.''"

text \<open>The notice of a test, with what it says when the server gives no reason.\<close>

definition hostTestToast :: "string \<Rightarrow> proxHost \<Rightarrow> hostTestResult \<Rightarrow> string \<times> string" where
  "hostTestToast rejected x r =
     (if \<not> ht_ok r then (px_name x @ '' is not reachable'', case ht_error r of Some e \<Rightarrow> e | None \<Rightarrow> rejected)
      else case opt_text (ht_warning r) of
          Some warning \<Rightarrow> (px_name x @ '': connected, but no guests are visible'', warning)
        | None \<Rightarrow> (px_name x @ '' is reachable.'', nodesText (ht_nodes r)))"

definition settleAddHost :: "proxHost exn \<Rightarrow> hostsPage \<Rightarrow> hostsPage" where
  "settleAddHost r p =
     (case r of
        Inr x \<Rightarrow>
          sendHost True (ProbeHost x)
            (closeAddHost (refreshHosts
               (toastHosts (''Host '' @ ldquo @ px_name x @ rdquo @ '' added.'', ''Verifying node access'' @ ellipsis) p)))
      | Inl err \<Rightarrow>
          toastHosts (''Could not add host'', errorMessage err)
            (p\<lparr>ho_error := Some (errorMessage err), ho_submitting := False\<rparr>))"

definition settleProbeHost :: "proxHost \<Rightarrow> hostTestResult exn \<Rightarrow> hostsPage \<Rightarrow> hostsPage" where
  "settleProbeHost x r p =
     (refreshHosts
        (toastHosts (case r of Inr test \<Rightarrow> hostTestToast ''The host rejected the API token.'' x test
                     | Inl err \<Rightarrow> (''Test Connection failed'', errorMessage err)) p))\<lparr>ho_submitting := False\<rparr>"

definition settleTestHost :: "bool \<Rightarrow> proxHost \<Rightarrow> hostTestResult exn \<Rightarrow> hostsPage \<Rightarrow> hostsPage" where
  "settleTestHost alive x r p =
     (let q = (case r of
                 Inr test \<Rightarrow> refreshHosts (toastHosts (hostTestToast ''The host rejected the token.'' x test) p)
               | Inl err \<Rightarrow> toastHosts (''Test failed'', errorMessage err) p)
      in if alive then q\<lparr>ho_testing := removeAll (hostKey x) (ho_testing q)\<rparr> else q)"

definition answerRemoveHost :: "bool \<Rightarrow> hostsPage \<Rightarrow> hostsPage" where
  "answerRemoveHost ok p =
     (case ho_asking p of
        None \<Rightarrow> p
      | Some (alive, x) \<Rightarrow>
          let q = p\<lparr>ho_asking := None\<rparr>
          in if ok then sendHost alive (RemoveHost x) (if alive then q\<lparr>ho_deleting := hostKey x # ho_deleting q\<rparr> else q) else q)"

definition settleRemoveHost :: "bool \<Rightarrow> proxHost \<Rightarrow> unit exn \<Rightarrow> hostsPage \<Rightarrow> hostsPage" where
  "settleRemoveHost alive x r p =
     (let q = (case r of
                 Inr _ \<Rightarrow> refreshHosts (toastHosts (''Host '' @ ldquo @ px_name x @ rdquo @ '' removed.'', []) p)
               | Inl err \<Rightarrow> toastHosts (''Could not remove host'', errorMessage err) p)
      in if alive then q\<lparr>ho_deleting := removeAll (hostKey x) (ho_deleting q)\<rparr> else q)"

text \<open>A new list takes the cards of the hosts that are gone off the screen.\<close>

definition receiveHosts :: "proxHost list exn \<Rightarrow> hostsPage \<Rightarrow> hostsPage" where
  "receiveHosts r p =
     (let q = p\<lparr>ho_list := asyncStep (LoaderSettles r) (ho_list p)\<rparr>; keys = map hostKey (hostsShown q)
      in q\<lparr>ho_testing := filter (\<lambda>k. k \<in> set keys) (ho_testing p), ho_deleting := filter (\<lambda>k. k \<in> set keys) (ho_deleting p),
           ho_asking := keep_asking hostKey keys (ho_asking p), ho_out := keep_alive hostActionKey (None # map Some keys) (ho_out p)\<rparr>)"

subsection \<open>Events\<close>

datatype hostsEvent =
    ReloadHosts
  | HostsAnswer "proxHost list exn"
  | OpenAddHost
  | CloseAddHost
  | TypeHostName string
  | TypeBaseUrl string
  | TypeTokenId string
  | TypeTokenSecret string
  | TickInsecure bool
  | SubmitHost
  | ClickTestHost proxHost
  | AskRemoveHost proxHost
  | AnswerRemoveHost bool
  | AddHostSettles hostCreate "proxHost exn"
  | ProbeHostSettles proxHost "hostTestResult exn"
  | TestHostSettles bool proxHost "hostTestResult exn"
  | RemoveHostSettles bool proxHost "unit exn"

definition mayManageHosts :: "role \<Rightarrow> bool" where
  "mayManageHosts role \<longleftrightarrow> manageInfrastructure (capabilitiesFor role)"

fun hostsOffered :: "role \<Rightarrow> hostsPage \<Rightarrow> hostsEvent \<Rightarrow> bool" where
  "hostsOffered role p ReloadHosts = (\<not> as_loading (ho_list p))"
| "hostsOffered role p (HostsAnswer r) = (0 < as_out (ho_list p))"
| "hostsOffered role p OpenAddHost = (mayManageHosts role)"
| "hostsOffered role p SubmitHost = (ho_addOpen p \<and> \<not> ho_submitting p)"
| "hostsOffered role p (ClickTestHost x) =
     (mayManageHosts role \<and> x \<in> set (hostsShown p) \<and> hostKey x \<notin> set (ho_testing p))"
| "hostsOffered role p (AskRemoveHost x) =
     (mayManageHosts role \<and> x \<in> set (hostsShown p) \<and> hostKey x \<notin> set (ho_deleting p))"
| "hostsOffered role p (AnswerRemoveHost ok) = (ho_asking p \<noteq> None)"
| "hostsOffered role p (AddHostSettles payload r) = ((True, AddHost payload) \<in> set (ho_out p))"
| "hostsOffered role p (ProbeHostSettles x r) = ((True, ProbeHost x) \<in> set (ho_out p))"
| "hostsOffered role p (TestHostSettles alive x r) = ((alive, TestHost x) \<in> set (ho_out p))"
| "hostsOffered role p (RemoveHostSettles alive x r) = ((alive, RemoveHost x) \<in> set (ho_out p))"
| "hostsOffered role p _ = ho_addOpen p"

definition settledHost :: "bool \<Rightarrow> hostAction \<Rightarrow> hostsPage \<Rightarrow> hostsPage" where
  "settledHost alive r p = p\<lparr>ho_out := remove1 (alive, r) (ho_out p)\<rparr>"

fun hostsStep :: "hostsEvent \<Rightarrow> hostsPage \<Rightarrow> hostsPage" where
  "hostsStep ReloadHosts p = p\<lparr>ho_list := asyncStep Reload (ho_list p)\<rparr>"
| "hostsStep (HostsAnswer r) p = receiveHosts r p"
| "hostsStep OpenAddHost p = p\<lparr>ho_addOpen := True\<rparr>"
| "hostsStep CloseAddHost p = closeAddHost p"
| "hostsStep (TypeHostName s) p = p\<lparr>ho_form := (ho_form p)\<lparr>hc_name := s\<rparr>\<rparr>"
| "hostsStep (TypeBaseUrl s) p = p\<lparr>ho_form := (ho_form p)\<lparr>hc_baseUrl := s\<rparr>\<rparr>"
| "hostsStep (TypeTokenId s) p = p\<lparr>ho_form := (ho_form p)\<lparr>hc_tokenId := s\<rparr>\<rparr>"
| "hostsStep (TypeTokenSecret s) p = p\<lparr>ho_form := (ho_form p)\<lparr>hc_tokenSecret := s\<rparr>\<rparr>"
| "hostsStep (TickInsecure b) p = p\<lparr>ho_form := (ho_form p)\<lparr>hc_insecureTLS := b\<rparr>\<rparr>"
| "hostsStep SubmitHost p = submitHost p"
| "hostsStep (ClickTestHost x) p = sendHost True (TestHost x) (p\<lparr>ho_testing := hostKey x # ho_testing p\<rparr>)"
| "hostsStep (AskRemoveHost x) p = p\<lparr>ho_asking := Some (True, x)\<rparr>"
| "hostsStep (AnswerRemoveHost ok) p = answerRemoveHost ok p"
| "hostsStep (AddHostSettles payload r) p = settleAddHost r (settledHost True (AddHost payload) p)"
| "hostsStep (ProbeHostSettles x r) p = settleProbeHost x r (settledHost True (ProbeHost x) p)"
| "hostsStep (TestHostSettles alive x r) p = settleTestHost alive x r (settledHost alive (TestHost x) p)"
| "hostsStep (RemoveHostSettles alive x r) p = settleRemoveHost alive x r (settledHost alive (RemoveHost x) p)"

subsection \<open>What it shows\<close>

record hostCard =
  hv_name :: string
  hv_url :: string
  hv_pill :: "pillTone \<times> string"
  hv_token :: string
  hv_seen :: string
  hv_tls :: string
  hv_limited :: bool
  hv_denied :: "string option"

definition hostsDenied :: "role \<Rightarrow> string \<Rightarrow> string option" where
  "hostsDenied role what = (if mayManageHosts role then None else Some (roleDeniedReason role what))"

definition HostCard :: "host \<Rightarrow> role \<Rightarrow> proxHost \<Rightarrow> hostCard" where
  "HostCard h role x =
     \<lparr>hv_name = px_name x, hv_url = px_baseUrl x,
      hv_pill = (toneForStatus (Some (px_status x)), if px_status x = [] then ''unknown'' else px_status x),
      hv_token = px_tokenId x, hv_seen = formatRelative h (px_lastSeen x),
      hv_tls = (if px_insecureTLS x then ''Self-signed allowed'' else ''Verified''), hv_limited = (px_status x = ''limited''),
      hv_denied = hostsDenied role ''change Proxmox hosts''\<rparr>"

definition hostsViewOf :: "host \<Rightarrow> role \<Rightarrow> hostsPage \<Rightarrow> hostCard list pageView" where
  "hostsViewOf h role p = pageViewOf (ho_list p) (map (HostCard h role) (hostsShown p))"

subsection \<open>Lemmas\<close>

lemmas hosts_defs = receiveHosts_def closeAddHost_def sendHost_def toastHosts_def refreshHosts_def submitHost_def settleAddHost_def
  settleProbeHost_def settleTestHost_def answerRemoveHost_def settleRemoveHost_def settledHost_def Let_def

text \<open>What a creation must carry.\<close>

definition host_complete :: "hostCreate \<Rightarrow> bool" where
  "host_complete c \<longleftrightarrow>
     hc_name c \<noteq> [] \<and> hc_tokenId c \<noteq> [] \<and> trim (hc_tokenSecret c) \<noteq> [] \<and>
     (hc_baseUrl c = [] \<or> last (hc_baseUrl c) \<noteq> CHR ''/'') \<and> (\<exists>n. httpUrl (hc_baseUrl c @ replicate n (CHR ''/'')))"

lemma hostPayload_complete: "hostPayload f = Inr c \<Longrightarrow> host_complete c \<and> hc_insecureTLS c = hc_insecureTLS f"
  using strip_slashes_last [of "trim (hc_baseUrl f)"] strip_slashes_append [of "trim (hc_baseUrl f)"]
  by (auto simp: hostPayload_def host_complete_def split: if_splits) (metis)

fun host_action_ok :: "hostAction \<Rightarrow> bool" where
  "host_action_ok (AddHost c) = host_complete c"
| "host_action_ok _ = True"

definition hosts_inv :: "role \<Rightarrow> hostsPage \<Rightarrow> bool" where
  "hosts_inv role p \<longleftrightarrow>
     list_all host_action_ok (ho_sent p) \<and> set (map snd (ho_out p)) \<subseteq> set (ho_sent p) \<and>
     (mayManageHosts role \<or> ho_sent p = [] \<and> \<not> ho_addOpen p \<and> ho_asking p = None)"

lemma hostsStep_inv:
  assumes "hosts_inv role p" "hostsOffered role p e"
  shows "hosts_inv role (hostsStep e p)"
proof (cases e)
  case SubmitHost
  then show ?thesis using assms hostPayload_complete [of "ho_form p"]
    by (auto simp: hosts_inv_def hosts_defs split: sum.splits)
next
  case (HostsAnswer r)
  then show ?thesis using assms keep_alive_requests [of hostActionKey _ "ho_out p"]
    by (auto simp: hosts_inv_def hosts_defs simp flip: set_map)
next
  case (AddHostSettles c r)
  then have "ho_sent p \<noteq> []" using assms by (force simp: hosts_inv_def)
  then show ?thesis using assms(1) remove1_requests [of "(True, AddHost c)" "ho_out p"] AddHostSettles
    by (auto simp: hosts_inv_def hosts_defs split: sum.splits)
next
  case (ProbeHostSettles x r)
  then show ?thesis using assms(1) remove1_requests [of "(True, ProbeHost x)" "ho_out p"]
    by (auto simp: hosts_inv_def hosts_defs)
next
  case (TestHostSettles alive x r)
  then show ?thesis using assms(1) remove1_requests [of "(alive, TestHost x)" "ho_out p"]
    by (auto simp: hosts_inv_def hosts_defs split: sum.splits)
next
  case (RemoveHostSettles alive x r)
  then show ?thesis using assms(1) remove1_requests [of "(alive, RemoveHost x)" "ho_out p"]
    by (auto simp: hosts_inv_def hosts_defs split: sum.splits)
qed (use assms in \<open>auto simp: hosts_inv_def hosts_defs split: option.splits\<close>)

interpretation host_actions: request_guard mountHosts hostsStep "hostsOffered role" "hosts_inv role" ho_sent
  "\<lambda>r. host_action_ok r \<and> mayManageHosts role" for role
proof unfold_locales
  show "hosts_inv role mountHosts" by (simp add: hosts_inv_def mountHosts_def)
qed (rule hostsStep_inv, assumption+, auto simp: hosts_inv_def list_all_iff)

text \<open>Certificates are not checked only when the box was ticked.\<close>

definition checks_tls :: "hostsPage \<Rightarrow> bool" where
  "checks_tls p \<longleftrightarrow> \<not> hc_insecureTLS (ho_form p) \<and> (\<forall>c. AddHost c \<in> set (ho_sent p) \<longrightarrow> \<not> hc_insecureTLS c)"

lemma hostsStep_tls: "checks_tls p \<Longrightarrow> e \<noteq> TickInsecure True \<Longrightarrow> checks_tls (hostsStep e p)"
  using hostPayload_complete [of "ho_form p"]
  by (cases e) (auto simp: checks_tls_def hosts_defs EMPTY_FORM_def split: sum.splits option.splits)

lemma run_checks_tls:
  "run_events hostsStep (hostsOffered role) es p = Some q \<Longrightarrow> checks_tls p \<Longrightarrow> TickInsecure True \<notin> set es \<Longrightarrow> checks_tls q"
  by (induction es arbitrary: p) (auto split: if_splits intro: hostsStep_tls)

text \<open>An address that is only a scheme passes the check and loses its slashes.\<close>

lemma bare_scheme_sent:
  "map_sum id hc_baseUrl (hostPayload \<lparr>hc_name = ''lab'', hc_baseUrl = ''https://'', hc_tokenId = ''t'', hc_tokenSecret = ''s'',
     hc_insecureTLS = False\<rparr>) = Inr ''https:''"
  by code_simp

subsection \<open>Properties\<close>

text \<open>
  Every host the form adds has a name, a web address without
  trailing slashes and both halves of the token; its certificate goes unchecked only if somebody ticked that box; and
  only an administrator adds, tests or removes a host.
\<close>

theorem host_requests_complete:
  assumes "run_events hostsStep (hostsOffered role) es mountHosts = Some p" "r \<in> set (ho_sent p)"
  shows "manageInfrastructure (capabilitiesFor role) \<and>
    (\<forall>c. r = AddHost c \<longrightarrow> host_complete c \<and> (hc_insecureTLS c \<longrightarrow> TickInsecure True \<in> set es))"
proof -
  have ok: "host_action_ok r \<and> mayManageHosts role"
    using host_actions.request_ok [OF run_events_reaches [OF assms(1)] assms(2)] .
  have "checks_tls mountHosts" by (simp add: checks_tls_def mountHosts_def EMPTY_FORM_def)
  then have "checks_tls p" if "TickInsecure True \<notin> set es" using run_checks_tls [OF assms(1)] that by blast
  with ok assms(2) show ?thesis by (auto simp: checks_tls_def mayManageHosts_def)
qed

theorem host_requests_complete_witness:
  "host_complete \<lparr>hc_name = ''lab'', hc_baseUrl = ''https://pve'', hc_tokenId = ''t'', hc_tokenSecret = ''s'', hc_insecureTLS = True\<rparr>"
proof -
  let ?c = "\<lparr>hc_name = ''lab'', hc_baseUrl = ''https://pve'', hc_tokenId = ''t'', hc_tokenSecret = ''s'', hc_insecureTLS = True\<rparr>"
  have t: "hostPayload \<lparr>hc_name = ''lab'', hc_baseUrl = ''https://pve/'', hc_tokenId = ''t'', hc_tokenSecret = ''s'',
      hc_insecureTLS = True\<rparr> = Inr ?c" by code_simp
  obtain p where p: "run_events hostsStep (hostsOffered Admin)
      [HostsAnswer (Inr []), OpenAddHost, TypeHostName ''lab'', TypeBaseUrl ''https://pve/'', TypeTokenId ''t'', TypeTokenSecret ''s'',
       TickInsecure True, SubmitHost] mountHosts = Some p" "ho_sent p = [AddHost ?c]"
    using t by (simp add: mountHosts_def mountAsync_def hosts_defs keep_asking_def keep_alive_def hostsShown_def
        mayManageHosts_def capabilitiesFor_def EMPTY_FORM_def)
  from host_requests_complete [OF p(1), of "AddHost ?c"] p(2) show ?thesis by simp
qed

end
