(* ===== verification/Helpers_Section.thy ===== *)
theory Helpers_Section
  imports Deploy_Helper Row_State Run_Views
begin

text \<open>
  Node helpers (\<open>web/src/components/HelpersSection.tsx\<close>): the inventory by cluster, the nodes without a
  helper, binding and removing helpers, enrollment tokens, and the section as a machine that holds the
  deployment dialog. The address of the page and the parsing of a URL are parameters.
\<close>

subsection \<open>Commands and nodes\<close>

definition helperInstallCommand :: "string \<Rightarrow> string \<Rightarrow> string" where
  "helperInstallCommand origin token =
     join_with '' && ''
       [''curl -fsSL '' @ origin @ HELPER_DOWNLOAD @ '' -o /usr/local/bin/proxback-helper'',
        ''chmod +x /usr/local/bin/proxback-helper'',
        ''/usr/local/bin/proxback-helper --server '' @ origin @ '' --token '' @ token @ '' --install'']"

text \<open>
  The keys of an object come back with the array indices first, in their order, then the others as they
  were inserted. (A cluster's id is not the name of a member every object inherits.)
\<close>

definition is_decimal :: "char \<Rightarrow> bool" where
  "is_decimal c \<longleftrightarrow> (let n = (of_char c :: nat) in 48 \<le> n \<and> n \<le> 57)"

definition index_value :: "string \<Rightarrow> nat" where
  "index_value s = foldl (\<lambda>v c. 10 * v + (of_char c - 48)) 0 s"

definition is_index :: "string \<Rightarrow> bool" where
  "is_index s \<longleftrightarrow> s \<noteq> [] \<and> list_all is_decimal s \<and> (length s = 1 \<or> hd s \<noteq> CHR ''0'') \<and> index_value s < 4294967295"

definition object_order :: "string list \<Rightarrow> string list" where
  "object_order keys =
     sort_by (\<lambda>a b. int (index_value a) - int (index_value b)) (filter is_index keys) @ filter (\<lambda>k. \<not> is_index k) keys"

fun addNode :: "(string \<times> string list) list \<Rightarrow> cachedVM \<Rightarrow> (string \<times> string list) list" where
  "addNode [] vm = [(id_str (v_hostId vm), [v_node vm])]"
| "addNode ((k, nodes) # rest) vm =
     (if k = id_str (v_hostId vm) then (k, if v_node vm \<in> set nodes then nodes else nodes @ [v_node vm]) # rest
      else (k, nodes) # addNode rest vm)"

definition nodesByHost :: "cachedVM list \<Rightarrow> (string \<times> string list) list" where
  "nodesByHost vms = map (\<lambda>(k, nodes). (k, sort_by unit_cmp nodes)) (foldl addNode [] vms)"

record nodeGap =
  ng_hostId :: string
  ng_hostName :: string
  ng_node :: string

definition coveredKeys :: "helper list \<Rightarrow> string list" where
  "coveredKeys helpers =
     map (\<lambda>x. (case h_hostId x of Some i \<Rightarrow> id_str i | None \<Rightarrow> ''undefined'') @ '':'' @ h_node x)
       (filter (\<lambda>x. \<not> isHelperUnassigned x) helpers)"

definition hostNameOf :: "proxHost list \<Rightarrow> string \<Rightarrow> string" where
  "hostNameOf hosts hostId = (case List.find (\<lambda>x. id_str (px_id x) = hostId) hosts of Some x \<Rightarrow> px_name x | None \<Rightarrow> hostId)"

definition nodesAt :: "cachedVM list \<Rightarrow> string \<Rightarrow> string list" where
  "nodesAt vms hostId = (case map_of (nodesByHost vms) hostId of Some nodes \<Rightarrow> nodes | None \<Rightarrow> [])"

text \<open>The nodes of the inventory without a helper bound to them.\<close>

definition uncoveredNodes :: "helper list \<Rightarrow> cachedVM list \<Rightarrow> proxHost list \<Rightarrow> nodeGap list" where
  "uncoveredNodes helpers vms hosts =
     concat (map (\<lambda>hostId.
         map (\<lambda>node. \<lparr>ng_hostId = hostId, ng_hostName = hostNameOf hosts hostId, ng_node = node\<rparr>)
           (filter (\<lambda>node. hostId @ '':'' @ node \<notin> set (coveredKeys helpers)) (nodesAt vms hostId)))
       (object_order (map fst (nodesByHost vms))))"

subsection \<open>State\<close>

record helperEnv =
  he_origin :: string
  he_hostname :: "string \<Rightarrow> string option"

record enrollToken =
  et_token :: string
  et_expiresAt :: string

datatype helperAction =
    BindHelper helper string
  | NewToken string
  | RemoveHelper helper

abbreviation helperKey :: "helper \<Rightarrow> string" where
  "helperKey x \<equiv> id_str (h_id x)"

fun helperActionKey :: "helperAction \<Rightarrow> string option" where
  "helperActionKey (BindHelper x hostId) = Some (helperKey x)"
| "helperActionKey _ = None"

text \<open>
  \<open>hl_pick\<close> and \<open>hl_binding\<close> belong to the rows of unassigned helpers; \<open>hl_deleting\<close> is one value for the
  whole section. \<open>hl_issued\<close> are the tokens received with the cluster each was asked for.
\<close>

record helpers =
  hl_hosts :: "proxHost list"
  hl_list :: "helper list async"
  hl_vms :: "cachedVM list async"
  hl_pick :: "string \<Rightarrow> string option"
  hl_binding :: "string list"
  hl_token :: "enrollToken option"
  hl_tokenHostId :: string
  hl_generating :: bool
  hl_deleting :: "string option"
  hl_asking :: "helper option"
  hl_out :: "helperAction rowRequests"
  hl_sent :: "helperAction list"
  hl_issued :: "(string \<times> enrollToken) list"
  hl_toasts :: "(string \<times> string) list"
  hl_deploy :: deploy

definition helpersData :: "helpers \<Rightarrow> helper list" where
  "helpersData s = (case as_data (hl_list s) of Some xs \<Rightarrow> xs | None \<Rightarrow> [])"

definition helperVms :: "helpers \<Rightarrow> cachedVM list" where
  "helperVms s = (case as_data (hl_vms s) of Some vms \<Rightarrow> vms | None \<Rightarrow> [])"

definition defaultAddress :: "helperEnv \<Rightarrow> proxHost list \<Rightarrow> string" where
  "defaultAddress env hosts =
     (case hosts of
        [] \<Rightarrow> []
      | x # _ \<Rightarrow> if px_baseUrl x = [] then [] else (case he_hostname env (px_baseUrl x) of Some n \<Rightarrow> n | None \<Rightarrow> []))"

definition deployPropsOf :: "helperEnv \<Rightarrow> proxHost list \<Rightarrow> cachedVM list \<Rightarrow> deployProps" where
  "deployPropsOf env hosts vms =
     \<lparr>dq_hosts = hosts, dq_nodesByHost = map_of (nodesByHost vms), dq_defaultAddress = Some (defaultAddress env hosts),
      dq_origin = he_origin env\<rparr>"

definition mountHelpers :: "helperEnv \<Rightarrow> proxHost list \<Rightarrow> helpers" where
  "mountHelpers env hosts =
     \<lparr>hl_hosts = hosts, hl_list = mountAsync, hl_vms = mountAsync, hl_pick = (\<lambda>_. None), hl_binding = [], hl_token = None,
      hl_tokenHostId = [], hl_generating = False, hl_deleting = None, hl_asking = None, hl_out = [], hl_sent = [], hl_issued = [],
      hl_toasts = [], hl_deploy = mountDeploy (deployPropsOf env hosts [])\<rparr>"

subsection \<open>Handlers\<close>

definition toastHelpers :: "string \<Rightarrow> string \<Rightarrow> helpers \<Rightarrow> helpers" where
  "toastHelpers title detail s = s\<lparr>hl_toasts := (title, detail) # hl_toasts s\<rparr>"

definition sendHelper :: "helperAction \<Rightarrow> helpers \<Rightarrow> helpers" where
  "sendHelper r s = s\<lparr>hl_out := (True, r) # hl_out s, hl_sent := r # hl_sent s\<rparr>"

definition refreshHelpers :: "helpers \<Rightarrow> helpers" where
  "refreshHelpers s = s\<lparr>hl_list := asyncStep Refresh (hl_list s)\<rparr>"

definition pickOf :: "helpers \<Rightarrow> helper \<Rightarrow> string" where
  "pickOf s x = (case hl_pick s (helperKey x) of Some i \<Rightarrow> i | None \<Rightarrow> [])"

definition submitBind :: "helper \<Rightarrow> helpers \<Rightarrow> helpers" where
  "submitBind x s =
     (if pickOf s x = [] then s
      else sendHelper (BindHelper x (pickOf s x)) (s\<lparr>hl_binding := helperKey x # hl_binding s\<rparr>))"

text \<open>The name in the notice is looked up in the list of clusters the row was rendered with.\<close>

definition settleBind :: "bool \<Rightarrow> helper \<Rightarrow> string \<Rightarrow> proxHost list \<Rightarrow> unit exn \<Rightarrow> helpers \<Rightarrow> helpers" where
  "settleBind alive x hostId hosts r s =
     (let t = (case r of
                 Inr _ \<Rightarrow>
                   refreshHelpers (toastHelpers
                     (''Helper for '' @ h_node x @ '' bound to '' @
                        (case List.find (\<lambda>y. id_str (px_id y) = hostId) hosts of Some y \<Rightarrow> px_name y | None \<Rightarrow> ''the selected cluster'') @ ''.'')
                     ''It can now be used to route backups and restores for that node.'' s)
               | Inl err \<Rightarrow> toastHelpers ''Could not bind the helper'' (errorMessage err) s)
      in if alive then t\<lparr>hl_binding := removeAll (helperKey x) (hl_binding t)\<rparr> else t)"

definition onGenerate :: "helpers \<Rightarrow> helpers" where
  "onGenerate s =
     (if hl_tokenHostId s = [] then s else sendHelper (NewToken (hl_tokenHostId s)) (s\<lparr>hl_generating := True\<rparr>))"

definition settleToken :: "string \<Rightarrow> enrollToken exn \<Rightarrow> helpers \<Rightarrow> helpers" where
  "settleToken hostId r s =
     (case r of
        Inr t \<Rightarrow>
          toastHelpers ''Helper enrollment token generated.''
            (''Single use, expires in 24 hours, and carries the cluster '' @ em_dash @ '' the node never has to know its own.'')
            (s\<lparr>hl_token := Some t, hl_issued := (hostId, t) # hl_issued s\<rparr>)
      | Inl err \<Rightarrow> toastHelpers ''Could not generate token'' (errorMessage err) s)\<lparr>hl_generating := False\<rparr>"

definition answerRemoveHelper :: "bool \<Rightarrow> helpers \<Rightarrow> helpers" where
  "answerRemoveHelper ok s =
     (case hl_asking s of
        None \<Rightarrow> s
      | Some x \<Rightarrow>
          let t = s\<lparr>hl_asking := None\<rparr>
          in if ok then sendHelper (RemoveHelper x) (t\<lparr>hl_deleting := Some (helperKey x)\<rparr>) else t)"

definition settleRemoveHelper :: "helper \<Rightarrow> unit exn \<Rightarrow> helpers \<Rightarrow> helpers" where
  "settleRemoveHelper x r s =
     (case r of
        Inr _ \<Rightarrow> refreshHelpers (toastHelpers (''Helper for '' @ ldquo @ h_node x @ rdquo @ '' removed.'') [] s)
      | Inl err \<Rightarrow> toastHelpers ''Could not remove helper'' (errorMessage err) s)\<lparr>hl_deleting := None\<rparr>"

text \<open>A new list keeps the control of the helpers that are listed and still unassigned.\<close>

definition receiveHelpers :: "helper list exn \<Rightarrow> helpers \<Rightarrow> helpers" where
  "receiveHelpers r s =
     (let t = s\<lparr>hl_list := asyncStep (LoaderSettles r) (hl_list s)\<rparr>;
          keys = map helperKey (filter isHelperUnassigned (helpersData t))
      in t\<lparr>hl_pick := keep_busy keys (hl_pick s), hl_binding := filter (\<lambda>k. k \<in> set keys) (hl_binding s),
           hl_out := keep_alive helperActionKey (None # map Some keys) (hl_out s)\<rparr>)"

definition setDeployProps :: "helperEnv \<Rightarrow> helpers \<Rightarrow> helpers" where
  "setDeployProps env s =
     s\<lparr>hl_deploy := deployStep (DeployPropsChange (deployPropsOf env (hl_hosts s) (helperVms s))) (hl_deploy s)\<rparr>"

definition receiveHelperVms :: "helperEnv \<Rightarrow> cachedVM list exn \<Rightarrow> helpers \<Rightarrow> helpers" where
  "receiveHelperVms env r s =
     (let t = s\<lparr>hl_vms := asyncStep (LoaderSettles r) (hl_vms s)\<rparr>
      in case r of Inr _ \<Rightarrow> setDeployProps env t | Inl _ \<Rightarrow> t)"

text \<open>A deployment that succeeded refreshes the list.\<close>

definition inDeploy :: "deployEvent \<Rightarrow> helpers \<Rightarrow> helpers" where
  "inDeploy e s =
     (let d = deployStep e (hl_deploy s); t = s\<lparr>hl_deploy := d\<rparr>
      in if dp_deployed (hl_deploy s) < dp_deployed d then refreshHelpers t else t)"

subsection \<open>Events\<close>

datatype helpersEvent =
    HostsProp "proxHost list"
  | ReloadHelpers
  | HelpersAnswer "helper list exn"
  | HelperVmsAnswer "cachedVM list exn"
  | PickBindCluster helper string
  | ClickBind helper
  | BindSettles bool helper string "proxHost list" "unit exn"
  | PickTokenCluster string
  | ClickGenerate
  | TokenSettles string "enrollToken exn"
  | AskRemoveHelper helper
  | AnswerRemoveHelper bool
  | RemoveHelperSettles helper "unit exn"
  | ClickDeploy
  | InDeploy deployEvent

fun deploy_own :: "deployEvent \<Rightarrow> bool" where
  "deploy_own (OpenDeploy ps) = False"
| "deploy_own (DeployPropsChange ps) = False"
| "deploy_own _ = True"

definition mayManageHelpers :: "role \<Rightarrow> bool" where
  "mayManageHelpers role \<longleftrightarrow> manageInfrastructure (capabilitiesFor role)"

definition clusterChoices :: "helpers \<Rightarrow> string list" where
  "clusterChoices s = [] # map (\<lambda>x. id_str (px_id x)) (hl_hosts s)"

text \<open>The control that binds a helper asks no capability of the session.\<close>

fun helpersOffered :: "role \<Rightarrow> helpers \<Rightarrow> helpersEvent \<Rightarrow> bool" where
  "helpersOffered role s (HostsProp hosts) = True"
| "helpersOffered role s ReloadHelpers = (\<not> as_loading (hl_list s))"
| "helpersOffered role s (HelpersAnswer r) = (0 < as_out (hl_list s))"
| "helpersOffered role s (HelperVmsAnswer r) = (0 < as_out (hl_vms s))"
| "helpersOffered role s (PickBindCluster x i) =
     (x \<in> set (helpersData s) \<and> isHelperUnassigned x \<and> i \<in> set (clusterChoices s))"
| "helpersOffered role s (ClickBind x) =
     (x \<in> set (helpersData s) \<and> isHelperUnassigned x \<and> pickOf s x \<noteq> [] \<and> helperKey x \<notin> set (hl_binding s))"
| "helpersOffered role s (BindSettles alive x i hosts r) = ((alive, BindHelper x i) \<in> set (hl_out s))"
| "helpersOffered role s (PickTokenCluster i) = (i \<in> set (clusterChoices s))"
| "helpersOffered role s ClickGenerate =
     (mayManageHelpers role \<and> hl_tokenHostId s \<noteq> [] \<and> \<not> hl_generating s)"
| "helpersOffered role s (TokenSettles i r) = ((True, NewToken i) \<in> set (hl_out s))"
| "helpersOffered role s (AskRemoveHelper x) =
     (mayManageHelpers role \<and> x \<in> set (helpersData s) \<and> hl_deleting s \<noteq> Some (helperKey x))"
| "helpersOffered role s (AnswerRemoveHelper ok) = (hl_asking s \<noteq> None)"
| "helpersOffered role s (RemoveHelperSettles x r) = ((True, RemoveHelper x) \<in> set (hl_out s))"
| "helpersOffered role s ClickDeploy = (\<not> dp_open (hl_deploy s) \<and> mayManageHelpers role)"
| "helpersOffered role s (InDeploy e) = (deploy_own e \<and> deployOffered (hl_deploy s) e)"

definition settledHelper :: "bool \<Rightarrow> helperAction \<Rightarrow> helpers \<Rightarrow> helpers" where
  "settledHelper alive r s = s\<lparr>hl_out := remove1 (alive, r) (hl_out s)\<rparr>"

fun helpersStep :: "helperEnv \<Rightarrow> helpersEvent \<Rightarrow> helpers \<Rightarrow> helpers" where
  "helpersStep env (HostsProp hosts) s = setDeployProps env (s\<lparr>hl_hosts := hosts\<rparr>)"
| "helpersStep env ReloadHelpers s = s\<lparr>hl_list := asyncStep Reload (hl_list s)\<rparr>"
| "helpersStep env (HelpersAnswer r) s = receiveHelpers r s"
| "helpersStep env (HelperVmsAnswer r) s = receiveHelperVms env r s"
| "helpersStep env (PickBindCluster x i) s = s\<lparr>hl_pick := (hl_pick s)(helperKey x \<mapsto> i)\<rparr>"
| "helpersStep env (ClickBind x) s = submitBind x s"
| "helpersStep env (BindSettles alive x i hosts r) s = settleBind alive x i hosts r (settledHelper alive (BindHelper x i) s)"
| "helpersStep env (PickTokenCluster i) s = s\<lparr>hl_tokenHostId := i\<rparr>"
| "helpersStep env ClickGenerate s = onGenerate s"
| "helpersStep env (TokenSettles i r) s = settleToken i r (settledHelper True (NewToken i) s)"
| "helpersStep env (AskRemoveHelper x) s = s\<lparr>hl_asking := Some x\<rparr>"
| "helpersStep env (AnswerRemoveHelper ok) s = answerRemoveHelper ok s"
| "helpersStep env (RemoveHelperSettles x r) s = settleRemoveHelper x r (settledHelper True (RemoveHelper x) s)"
| "helpersStep env ClickDeploy s =
     s\<lparr>hl_deploy := deployStep (OpenDeploy (deployPropsOf env (hl_hosts s) (helperVms s))) (hl_deploy s)\<rparr>"
| "helpersStep env (InDeploy e) s = inDeploy e s"

subsection \<open>What it shows\<close>

fun helper_status_str :: "helperStatus \<Rightarrow> string" where
  "helper_status_str HelperOnline = ''online''"
| "helper_status_str HelperOffline = ''offline''"
| "helper_status_str HelperUnassigned = ''unassigned''"

record helperRow =
  lr_cluster :: "string option"
  lr_node :: string
  lr_address :: string
  lr_version :: string
  lr_status :: "(pillTone \<times> string) option"
  lr_seen :: string
  lr_remove :: string

definition helpersDenied :: "role \<Rightarrow> string option" where
  "helpersDenied role =
     (if mayManageHelpers role then None else Some (roleDeniedReason role ''deploy or remove node helpers''))"

text \<open>An unassigned helper has neither a cluster nor a status, only the control that binds it.\<close>

definition helperRowOf :: "host \<Rightarrow> role \<Rightarrow> helper \<Rightarrow> helperRow" where
  "helperRowOf h role x =
     (let orphan = isHelperUnassigned x
      in \<lparr>lr_cluster = (if orphan then None else Some (case opt_text (h_hostName x) of Some n \<Rightarrow> n | None \<Rightarrow> em_dash)),
          lr_node = h_node x, lr_address = h_address x @ '':'' @ num_str (h_port x), lr_version = h_version x,
          lr_status = (if orphan then None
             else Some (toneForStatus (Some (helper_status_str (h_status x))), helper_status_str (h_status x))),
          lr_seen = formatRelative h (Some (h_lastSeen x)),
          lr_remove = ''Remove the helper for '' @ h_node x @
            (case helpersDenied role of Some d \<Rightarrow> '' '' @ em_dash @ '' '' @ d | None \<Rightarrow> [])\<rparr>)"

definition unassignedNotice :: "helper list \<Rightarrow> string option" where
  "unassignedNotice xs =
     (let n = length (filter isHelperUnassigned xs)
      in if n = 0 then None
         else if n = 1 then Some ''1 helper is not bound to a cluster and is not being used.''
         else Some (nat_str n @ '' helpers are not bound to a cluster and are not being used.''))"

definition gapText :: "nodeGap \<Rightarrow> string" where
  "gapText g = ng_hostName g @ '' / '' @ ng_node g"

definition uncoveredNotice :: "helper list \<Rightarrow> nodeGap list \<Rightarrow> string option" where
  "uncoveredNotice xs gaps =
     (if xs = [] then None
      else case gaps of
          [] \<Rightarrow> None
        | [g] \<Rightarrow> Some (gapText g @ '' has no helper '' @ em_dash @ '' workloads on it cannot be image-backed-up yet.'')
        | _ \<Rightarrow> Some (nat_str (length gaps) @ '' nodes have no helper: '' @ join_with '', '' (map gapText gaps) @ ''.''))"

text \<open>The token on screen and the command that uses it.\<close>

definition tokenFields :: "host \<Rightarrow> helperEnv \<Rightarrow> helpers \<Rightarrow> (string \<times> string \<times> string) option" where
  "tokenFields h env s =
     map_option (\<lambda>t. (et_token t,
        ''Single use '' @ em_dash @ '' expires '' @ formatRelative h (Some (et_expiresAt t)) @ ''. Generate one token per node.'',
        helperInstallCommand (he_origin env) (et_token t))) (hl_token s)"

datatype helpersView = HelpersError string | HelpersTable "helperRow list" | HelpersNone

definition helpersViewOf :: "host \<Rightarrow> role \<Rightarrow> helpers \<Rightarrow> helpersView" where
  "helpersViewOf h role s =
     (case (opt_text (as_error (hl_list s)), as_data (hl_list s)) of
        (Some err, None) \<Rightarrow> HelpersError err
      | _ \<Rightarrow> if helpersData s = [] then HelpersNone else HelpersTable (map (helperRowOf h role) (helpersData s)))"

subsection \<open>Lemmas on nodes\<close>

definition node_pairs :: "(string \<times> string list) list \<Rightarrow> (string \<times> string) set" where
  "node_pairs al = (\<Union>(k, ns)\<in>set al. Pair k ` set ns)"

lemma node_pairs_key: "(k, n) \<in> node_pairs al \<Longrightarrow> k \<in> fst ` set al"
  by (force simp: node_pairs_def)

lemma addNode_pairs: "node_pairs (addNode al vm) = insert (id_str (v_hostId vm), v_node vm) (node_pairs al)"
  by (induction al vm rule: addNode.induct) (auto simp: node_pairs_def)

lemma addNode_keys: "fst ` set (addNode al vm) = insert (id_str (v_hostId vm)) (fst ` set al)"
  by (induction al vm rule: addNode.induct) auto

lemma addNode_distinct:
  "distinct (map fst al) \<Longrightarrow> list_all (\<lambda>x. distinct (snd x)) al \<Longrightarrow>
     distinct (map fst (addNode al vm)) \<and> list_all (\<lambda>x. distinct (snd x)) (addNode al vm)"
proof (induction al vm rule: addNode.induct)
  case (2 k nodes rest vm)
  then show ?case using addNode_keys [of rest vm] by (auto simp flip: set_map)
qed simp

lemma nodesByHost_ok:
  "node_pairs (nodesByHost vms) = (\<lambda>vm. (id_str (v_hostId vm), v_node vm)) ` set vms \<and>
   distinct (map fst (nodesByHost vms)) \<and> list_all (\<lambda>x. distinct (snd x)) (nodesByHost vms)"
proof -
  have "node_pairs (foldl addNode [] vms) = (\<lambda>vm. (id_str (v_hostId vm), v_node vm)) ` set vms \<and>
      distinct (map fst (foldl addNode [] vms)) \<and> list_all (\<lambda>x. distinct (snd x)) (foldl addNode [] vms)"
    by (induction vms rule: rev_induct) (auto simp: addNode_pairs addNode_distinct, simp add: node_pairs_def)
  moreover have "node_pairs (map (\<lambda>(k, ns). (k, sort_by unit_cmp ns)) al) = node_pairs al" for al
    by (auto simp: node_pairs_def)
  moreover have "map fst (map (\<lambda>(k, ns). (k, sort_by unit_cmp ns)) al) = map fst al" for al :: "(string \<times> string list) list"
    by (induction al) auto
  moreover have "list_all (\<lambda>x. distinct (snd x)) (map (\<lambda>(k, ns). (k, sort_by unit_cmp ns)) al) = list_all (\<lambda>x. distinct (snd x)) al"
    for al :: "(string \<times> string list) list" by (auto simp: list_all_iff)
  ultimately show ?thesis unfolding nodesByHost_def by (simp only: simp_thms)
qed

lemma object_order_perm: "set (object_order ks) = set ks" "distinct ks \<Longrightarrow> distinct (object_order ks)"
  by (auto simp: object_order_def)

lemma nodesAt_mem: "n \<in> set (nodesAt vms k) \<longleftrightarrow> (k, n) \<in> node_pairs (nodesByHost vms)" "distinct (nodesAt vms k)"
proof -
  have d: "distinct (map fst (nodesByHost vms))" "list_all (\<lambda>x. distinct (snd x)) (nodesByHost vms)"
    using nodesByHost_ok by auto
  show "n \<in> set (nodesAt vms k) \<longleftrightarrow> (k, n) \<in> node_pairs (nodesByHost vms)"
    using d(1) by (auto simp: nodesAt_def node_pairs_def split: option.splits dest: map_of_SomeD)
  show "distinct (nodesAt vms k)"
    using d(2) by (auto simp: nodesAt_def list_all_iff split: option.splits dest!: map_of_SomeD)
qed

lemma distinct_gaps:
  assumes "distinct ks" "\<And>k. k \<in> set ks \<Longrightarrow> distinct (f k)"
  shows "distinct (concat (map (\<lambda>k. map (Pair k) (f k)) ks))"
  using assms by (induction ks) (auto simp: distinct_map inj_on_def)

subsection \<open>Lemmas on the section\<close>

lemmas helpers_defs = toastHelpers_def sendHelper_def refreshHelpers_def submitBind_def settleBind_def onGenerate_def settleToken_def
  answerRemoveHelper_def settleRemoveHelper_def receiveHelpers_def setDeployProps_def receiveHelperVms_def inDeploy_def
  settledHelper_def Let_def

lemma deployStep_open: "deploy_own e \<Longrightarrow> \<not> dp_open d \<Longrightarrow> \<not> dp_open (deployStep e d)"
  by (cases e) (auto simp: submitDeploy_def settleDeploy_def split: option.splits sum.splits)

lemma deployStep_quiet: "deployOffered d e \<Longrightarrow> \<not> dp_open d \<Longrightarrow> dp_sent (deployStep e d) = dp_sent d"
  by (cases e) (auto simp: settleDeploy_def resetDeploy_def Let_def split: option.splits sum.splits)

interpretation helpers_deploy: embedded_part "helpersStep env" "helpersOffered role" hl_deploy deployStep deployOffered for env role
proof unfold_locales
  fix s e assume o: "helpersOffered role s e"
  have p: "deployOffered d (DeployPropsChange ps)" for d ps by simp
  show "hl_deploy (helpersStep env e s) = hl_deploy s \<or>
      (\<exists>f. deployOffered (hl_deploy s) f \<and> hl_deploy (helpersStep env e s) = deployStep f (hl_deploy s))"
  proof (cases e)
    case (HostsProp hosts)
    then show ?thesis using p by (simp add: helpers_defs del: deployStep.simps deployOffered.simps) blast
  next
    case (HelperVmsAnswer r)
    then show ?thesis using p by (cases r) (simp_all add: helpers_defs del: deployStep.simps deployOffered.simps, blast)
  next
    case ClickDeploy
    then have "deployOffered (hl_deploy s) (OpenDeploy ps)" for ps using o by simp
    then show ?thesis using ClickDeploy by (simp del: deployStep.simps deployOffered.simps) blast
  next
    case (InDeploy f)
    then show ?thesis using o by (auto simp: helpers_defs simp del: deployStep.simps deployOffered.simps)
  qed (auto simp: helpers_defs split: option.splits sum.splits)
qed

text \<open>What the section may ask for, and who.\<close>

fun helper_action_ok :: "role \<Rightarrow> helperAction \<Rightarrow> bool" where
  "helper_action_ok role (BindHelper x i) = (isHelperUnassigned x \<and> i \<noteq> [])"
| "helper_action_ok role (NewToken i) = (i \<noteq> [] \<and> mayManageHelpers role)"
| "helper_action_ok role (RemoveHelper x) = mayManageHelpers role"

definition helpers_inv :: "role \<Rightarrow> helpers \<Rightarrow> bool" where
  "helpers_inv role s \<longleftrightarrow>
     list_all (helper_action_ok role) (hl_sent s) \<and>
     (mayManageHelpers role \<or> hl_asking s = None \<and> \<not> dp_open (hl_deploy s) \<and> dp_sent (hl_deploy s) = [])"

lemma helpersStep_inv:
  assumes "helpers_inv role s" "helpersOffered role s e"
  shows "helpers_inv role (helpersStep env e s)"
proof (cases e)
  case (InDeploy f)
  then have f: "deploy_own f" "deployOffered (hl_deploy s) f" using assms(2) by auto
  from InDeploy have "hl_deploy (helpersStep env e s) = deployStep f (hl_deploy s)" "hl_sent (helpersStep env e s) = hl_sent s"
    "hl_asking (helpersStep env e s) = hl_asking s" by (simp_all add: helpers_defs)
  then show ?thesis using assms(1) deployStep_open [OF f(1), of "hl_deploy s"] deployStep_quiet [OF f(2)] by (auto simp: helpers_inv_def)
next
  case (HelperVmsAnswer r)
  then show ?thesis using assms by (cases r) (auto simp: helpers_inv_def helpers_defs resetDeploy_def)
qed (use assms in \<open>auto simp: helpers_inv_def helpers_defs resetDeploy_def split: option.splits sum.splits if_splits\<close>)

interpretation helper_actions: request_guard "mountHelpers env hosts" "helpersStep env" "helpersOffered role" "helpers_inv role" hl_sent
  "helper_action_ok role" for env hosts role
proof unfold_locales
  show "helpers_inv role (mountHelpers env hosts)" by (simp add: helpers_inv_def mountHelpers_def mountDeploy_def)
qed (rule helpersStep_inv, assumption+, simp add: helpers_inv_def)

subsection \<open>Properties\<close>


text \<open>
  C20 (what leaves the helpers section): however the section and its deployment dialog are used, every deployment is
  complete, a helper is bound only while it is unassigned and to a chosen cluster, a token is asked for a chosen
  cluster, and deployments, tokens and removals come from an administrator. (Binding is offered to every role.)
\<close>

theorem helpers_section_guarded:
  assumes "reaches (helpersStep env) (helpersOffered role) (mountHelpers env hosts) s"
  shows "(\<forall>r\<in>set (dp_sent (hl_deploy s)). request_complete r) \<and> (\<forall>r\<in>set (hl_sent s). helper_action_ok role r) \<and>
    (dp_sent (hl_deploy s) \<noteq> [] \<longrightarrow> manageInfrastructure (capabilitiesFor role))"
proof -
  have "reaches deployStep deployOffered (mountDeploy (deployPropsOf env hosts [])) (hl_deploy s)"
    using helpers_deploy.part_reaches [OF assms] by (simp add: mountHelpers_def)
  then have "\<forall>r\<in>set (dp_sent (hl_deploy s)). request_complete r" using deployments.request_ok by blast
  moreover have "helpers_inv role s" using helper_actions.reachable_inv [OF assms] .
  ultimately show ?thesis by (auto simp: helpers_inv_def list_all_iff mayManageHelpers_def)
qed

definition orphan_helper :: helper where
  "orphan_helper =
     \<lparr>h_id = IdStr ''a'', h_hostId = None, h_hostName = None, h_node = ''pve1'', h_address = ''10.0.0.1'', h_port = Fin 8007,
      h_version = ''1'', h_status = HelperUnassigned, h_lastSeen = [], h_registeredAt = []\<rparr>"

definition lab_cluster :: "string \<Rightarrow> proxHost" where
  "lab_cluster i = \<lparr>px_id = IdStr i, px_name = i, px_baseUrl = [], px_tokenId = [], px_insecureTLS = False, px_status = [], px_lastSeen = None\<rparr>"

definition quiet_env :: helperEnv where
  "quiet_env = \<lparr>he_origin = [], he_hostname = (\<lambda>_. None)\<rparr>"

text \<open>A viewer binds a helper.\<close>

lemma viewer_binds_run:
  "\<exists>s. run_events (helpersStep env) (helpersOffered Viewer)
      [HelpersAnswer (Inr [orphan_helper]), PickBindCluster orphan_helper ''lab'', ClickBind orphan_helper]
      (mountHelpers env [lab_cluster ''lab'']) = Some s \<and> hl_sent s = [BindHelper orphan_helper ''lab'']"
  by (simp add: mountHelpers_def mountAsync_def mountDeploy_def helpers_defs helpersData_def orphan_helper_def
      isHelperUnassigned_def clusterChoices_def lab_cluster_def pickOf_def keep_busy_def keep_alive_def)

theorem helpers_section_guarded_witness:
  "\<exists>s. reaches (helpersStep quiet_env) (helpersOffered Viewer) (mountHelpers quiet_env [lab_cluster ''lab'']) s \<and>
    hl_sent s = [BindHelper orphan_helper ''lab''] \<and> list_all (helper_action_ok Viewer) (hl_sent s)"
proof -
  obtain s where s: "run_events (helpersStep quiet_env) (helpersOffered Viewer)
      [HelpersAnswer (Inr [orphan_helper]), PickBindCluster orphan_helper ''lab'', ClickBind orphan_helper]
      (mountHelpers quiet_env [lab_cluster ''lab'']) = Some s" "hl_sent s = [BindHelper orphan_helper ''lab'']"
    using viewer_binds_run by blast
  note r = run_events_reaches [OF s(1)]
  from helpers_section_guarded [OF r] have "list_all (helper_action_ok Viewer) (hl_sent s)" by (auto simp: list_all_iff)
  with r s(2) show ?thesis by blast
qed

text \<open>Choosing another cluster leaves the token of the first one, and the command that uses it, on screen.\<close>

lemma stale_token_run:
  "\<exists>s. run_events (helpersStep env) (helpersOffered Admin)
      [PickTokenCluster ''lab'', ClickGenerate, TokenSettles ''lab'' (Inr t), PickTokenCluster ''prod'']
      (mountHelpers env [lab_cluster ''lab'', lab_cluster ''prod'']) = Some s \<and>
    hl_tokenHostId s = ''prod'' \<and> hl_token s = Some t \<and> hl_issued s = [(''lab'', t)]"
  by (simp add: mountHelpers_def mountAsync_def mountDeploy_def helpers_defs clusterChoices_def lab_cluster_def
      mayManageHelpers_def capabilitiesFor_def)

end
