(* ===== verification/Agents_Page.thy ===== *)
theory Agents_Page
  imports Row_State Run_Views
begin

text \<open>
  Agents (\<open>web/src/pages/AgentsPage.tsx\<close>): the table with removal, enrollment tokens and the commands
  that use them.
\<close>

definition TOKEN_PLACEHOLDER :: string where "TOKEN_PLACEHOLDER = ''<ENROLLMENT-TOKEN>''"

abbreviation agentDownload :: "string \<Rightarrow> string" where
  "agentDownload os \<equiv> (case map_of AGENT_DOWNLOADS os of Some p \<Rightarrow> p | None \<Rightarrow> ''undefined'')"

definition linuxCommand :: "string \<Rightarrow> string \<Rightarrow> string" where
  "linuxCommand origin token =
     join_with '' && ''
       [''curl -fsSL '' @ origin @ agentDownload ''linux'' @ '' -o /usr/local/bin/proxback-agent'',
        ''chmod +x /usr/local/bin/proxback-agent'',
        ''/usr/local/bin/proxback-agent --server '' @ origin @ '' --token '' @ token @ '' --install'']"

definition windowsCommand :: "string \<Rightarrow> string \<Rightarrow> string" where
  "windowsCommand origin token =
     (let q = [CHR 0x22]; bs = [CHR 0x5C]; dir = q @ ''$env:ProgramFiles'' @ bs @ ''ProxBack'' @ q;
          exe = q @ ''$env:ProgramFiles'' @ bs @ ''ProxBack'' @ bs @ ''proxback-agent.exe'' @ q
      in join_with ''; ''
           [''New-Item -ItemType Directory -Force '' @ dir @ '' | Out-Null'',
            ''Invoke-WebRequest '' @ origin @ agentDownload ''windows'' @ '' -OutFile '' @ exe,
            ''& '' @ exe @ '' --server '' @ origin @ '' --token '' @ token @ '' --install''])"

subsection \<open>State\<close>

record agentToken =
  at_token :: string
  at_expiresAt :: string

datatype agentAction = RemoveAgent agent | EnrollAgent

abbreviation agentKey :: "agent \<Rightarrow> string" where
  "agentKey a \<equiv> id_str (a_id a)"

text \<open>\<open>ag_deleting\<close> belongs to the table, which is on screen while there are agents.\<close>

record agentsPage =
  ag_list :: "agent list async"
  ag_deleting :: "string option"
  ag_asking :: "(bool \<times> agent) option"
  ag_token :: "agentToken option"
  ag_generating :: bool
  ag_out :: "agentAction rowRequests"
  ag_sent :: "agentAction list"
  ag_toasts :: "(string \<times> string) list"

definition mountAgents :: agentsPage where
  "mountAgents =
     \<lparr>ag_list = mountAsync, ag_deleting = None, ag_asking = None, ag_token = None, ag_generating = False, ag_out = [], ag_sent = [],
      ag_toasts = []\<rparr>"

definition agentsShown :: "agentsPage \<Rightarrow> agent list" where
  "agentsShown p = (case as_data (ag_list p) of Some xs \<Rightarrow> xs | None \<Rightarrow> [])"

definition tokenValue :: "agentsPage \<Rightarrow> string" where
  "tokenValue p = (case ag_token p of Some t \<Rightarrow> at_token t | None \<Rightarrow> TOKEN_PLACEHOLDER)"

subsection \<open>Handlers\<close>

definition sendAgent :: "bool \<Rightarrow> agentAction \<Rightarrow> agentsPage \<Rightarrow> agentsPage" where
  "sendAgent alive r p = p\<lparr>ag_out := (alive, r) # ag_out p, ag_sent := r # ag_sent p\<rparr>"

definition toastAgents :: "string \<Rightarrow> string \<Rightarrow> agentsPage \<Rightarrow> agentsPage" where
  "toastAgents title detail p = p\<lparr>ag_toasts := (title, detail) # ag_toasts p\<rparr>"

definition setAgentDeleting :: "bool \<Rightarrow> string option \<Rightarrow> agentsPage \<Rightarrow> agentsPage" where
  "setAgentDeleting alive d p = (if alive then p\<lparr>ag_deleting := d\<rparr> else p)"

definition answerRemoveAgent :: "bool \<Rightarrow> agentsPage \<Rightarrow> agentsPage" where
  "answerRemoveAgent ok p =
     (case ag_asking p of
        None \<Rightarrow> p
      | Some (alive, a) \<Rightarrow>
          let q = p\<lparr>ag_asking := None\<rparr>
          in if ok then sendAgent alive (RemoveAgent a) (setAgentDeleting alive (Some (agentKey a)) q) else q)"

definition settleRemoveAgent :: "bool \<Rightarrow> agent \<Rightarrow> unit exn \<Rightarrow> agentsPage \<Rightarrow> agentsPage" where
  "settleRemoveAgent alive a r p =
     setAgentDeleting alive None
       (case r of
          Inr _ \<Rightarrow>
            (toastAgents (''Agent '' @ ldquo @ a_hostname a @ rdquo @ '' removed.'') [] p)\<lparr>ag_list := asyncStep Refresh (ag_list p)\<rparr>
        | Inl err \<Rightarrow> toastAgents ''Could not remove agent'' (errorMessage err) p)"

definition settleEnroll :: "agentToken exn \<Rightarrow> agentsPage \<Rightarrow> agentsPage" where
  "settleEnroll r p =
     (case r of
        Inr t \<Rightarrow>
          toastAgents ''Enrollment token generated.'' (''Single use '' @ em_dash @ '' it expires after 24 hours.'') (p\<lparr>ag_token := Some t\<rparr>)
      | Inl err \<Rightarrow> toastAgents ''Could not generate token'' (errorMessage err) p)\<lparr>ag_generating := False\<rparr>"

text \<open>Without agents there is no table.\<close>

definition receiveAgents :: "agent list exn \<Rightarrow> agentsPage \<Rightarrow> agentsPage" where
  "receiveAgents r p =
     (let q = p\<lparr>ag_list := asyncStep (LoaderSettles r) (ag_list p)\<rparr>; table = (if agentsShown q = [] then [] else [True])
      in q\<lparr>ag_deleting := (if table = [] then None else ag_deleting p), ag_asking := keep_asking (\<lambda>_. True) table (ag_asking p),
           ag_out := keep_alive (\<lambda>r. r \<noteq> EnrollAgent) (False # table) (ag_out p)\<rparr>)"

subsection \<open>Events\<close>

datatype agentsEvent =
    ReloadAgents
  | AgentsAnswer "agent list exn"
  | AskRemoveAgent agent
  | AnswerRemoveAgent bool
  | RemoveAgentSettles bool agent "unit exn"
  | ClickEnroll
  | EnrollSettles "agentToken exn"

definition mayManageAgents :: "role \<Rightarrow> bool" where
  "mayManageAgents role \<longleftrightarrow> manageInfrastructure (capabilitiesFor role)"

fun agentsOffered :: "role \<Rightarrow> agentsPage \<Rightarrow> agentsEvent \<Rightarrow> bool" where
  "agentsOffered role p ReloadAgents = (ag_asking p = None \<and> \<not> as_loading (ag_list p))"
| "agentsOffered role p (AgentsAnswer r) = (0 < as_out (ag_list p))"
| "agentsOffered role p (AskRemoveAgent a) =
     (ag_asking p = None \<and> mayManageAgents role \<and> a \<in> set (agentsShown p) \<and> ag_deleting p \<noteq> Some (agentKey a))"
| "agentsOffered role p (AnswerRemoveAgent ok) = (ag_asking p \<noteq> None)"
| "agentsOffered role p (RemoveAgentSettles alive a r) = ((alive, RemoveAgent a) \<in> set (ag_out p))"
| "agentsOffered role p ClickEnroll = (ag_asking p = None \<and> mayManageAgents role \<and> \<not> ag_generating p)"
| "agentsOffered role p (EnrollSettles r) = ((True, EnrollAgent) \<in> set (ag_out p))"

definition settledAgent :: "bool \<Rightarrow> agentAction \<Rightarrow> agentsPage \<Rightarrow> agentsPage" where
  "settledAgent alive r p = p\<lparr>ag_out := remove1 (alive, r) (ag_out p)\<rparr>"

fun agentsStep :: "agentsEvent \<Rightarrow> agentsPage \<Rightarrow> agentsPage" where
  "agentsStep ReloadAgents p = p\<lparr>ag_list := asyncStep Reload (ag_list p)\<rparr>"
| "agentsStep (AgentsAnswer r) p = receiveAgents r p"
| "agentsStep (AskRemoveAgent a) p = p\<lparr>ag_asking := Some (True, a)\<rparr>"
| "agentsStep (AnswerRemoveAgent ok) p = answerRemoveAgent ok p"
| "agentsStep (RemoveAgentSettles alive a r) p = settleRemoveAgent alive a r (settledAgent alive (RemoveAgent a) p)"
| "agentsStep ClickEnroll p = sendAgent True EnrollAgent (p\<lparr>ag_generating := True\<rparr>)"
| "agentsStep (EnrollSettles r) p = settleEnroll r (settledAgent True EnrollAgent p)"

subsection \<open>What it shows\<close>

record agentRow =
  ar_hostname :: string
  ar_platform :: string
  ar_version :: string
  ar_pill :: "pillTone \<times> string"
  ar_seen :: string
  ar_registered :: string
  ar_remove :: string

definition agentsDenied :: "role \<Rightarrow> string \<Rightarrow> string option" where
  "agentsDenied role what = (if mayManageAgents role then None else Some (roleDeniedReason role what))"

definition agentRowOf :: "host \<Rightarrow> role \<Rightarrow> agent \<Rightarrow> agentRow" where
  "agentRowOf h role a =
     \<lparr>ar_hostname = a_hostname a, ar_platform = a_os a @ ''/'' @ a_arch a, ar_version = a_version a,
      ar_pill = (toneForStatus (Some (a_status a)), a_status a), ar_seen = formatRelative h (Some (a_lastSeen a)),
      ar_registered = formatDateTime h (Some (a_registeredAt a)),
      ar_remove = ''Remove '' @ a_hostname a @
        (case agentsDenied role ''remove agents'' of Some d \<Rightarrow> '' '' @ em_dash @ '' '' @ d | None \<Rightarrow> [])\<rparr>"

definition agentsSubtitle :: "agent list \<Rightarrow> string" where
  "agentsSubtitle xs =
     nat_str (length xs) @ '' '' @ (if length xs = 1 then ''agent'' else ''agents'') @ '' '' @ middle_dot @
     '' online means a heartbeat within the last minute''"

definition agentsViewOf :: "host \<Rightarrow> role \<Rightarrow> agentsPage \<Rightarrow> (string \<times> agentRow list) pageView" where
  "agentsViewOf h role p =
     pageViewOf (ag_list p) (agentsSubtitle (agentsShown p), map (agentRowOf h role) (agentsShown p))"

text \<open>The token with its caption, when there is one, and both commands.\<close>

definition DeploySection :: "host \<Rightarrow> string \<Rightarrow> agentsPage \<Rightarrow> (string \<times> string) option \<times> string \<times> string" where
  "DeploySection h origin p =
     (map_option (\<lambda>t. (at_token t, ''Single use '' @ em_dash @ '' expires '' @ formatDateTime h (Some (at_expiresAt t)) @ '' ('' @
          formatRelative h (Some (at_expiresAt t)) @ '').'')) (ag_token p),
      linuxCommand origin (tokenValue p), windowsCommand origin (tokenValue p))"

subsection \<open>Lemmas\<close>

text \<open>Tokens and removals come from an administrator.\<close>

definition agents_inv :: "role \<Rightarrow> agentsPage \<Rightarrow> bool" where
  "agents_inv role p \<longleftrightarrow> mayManageAgents role \<or> ag_sent p = [] \<and> ag_asking p = None"

lemma agentsStep_inv: "agents_inv role p \<Longrightarrow> agentsOffered role p e \<Longrightarrow> agents_inv role (agentsStep e p)"
  by (cases e) (auto simp: agents_inv_def receiveAgents_def answerRemoveAgent_def settleRemoveAgent_def settleEnroll_def sendAgent_def
      toastAgents_def setAgentDeleting_def settledAgent_def Let_def split: option.splits sum.splits)

interpretation agent_actions: request_guard mountAgents agentsStep "agentsOffered role" "agents_inv role" ag_sent
  "\<lambda>_. mayManageAgents role" for role
proof unfold_locales
  show "agents_inv role mountAgents" by (simp add: agents_inv_def mountAgents_def)
qed (rule agentsStep_inv, assumption+, auto simp: agents_inv_def list_all_iff)

lemma agent_requests_guarded:
  "reaches agentsStep (agentsOffered role) mountAgents p \<Longrightarrow> r \<in> set (ag_sent p) \<Longrightarrow> manageInfrastructure (capabilitiesFor role)"
  using agent_actions.request_ok by (auto simp: mayManageAgents_def)

end
