(* ===== verification/Audit_Page.thy ===== *)
theory Audit_Page
  imports Row_State Run_Views
begin

text \<open>
  Audit (\<open>web/src/pages/AuditPage.tsx\<close>): staged and applied filters, the reading they ask for, and the
  rows. A reading that is out carries the question it was asked with, and the entries on screen the
  question they answer.
\<close>

definition LIMITS :: "nat list" where "LIMITS = [100, 250, 500, 1000, 5000]"

definition DEFAULT_LIMIT :: nat where "DEFAULT_LIMIT = 250"

definition toneForResult :: "string \<Rightarrow> pillTone" where
  "toneForResult result =
     (if result = ''ok'' then OkTone else if result = ''denied'' then FailTone else if result = ''error'' then WarnTone else NeutralTone)"

definition actionText :: "string \<Rightarrow> string" where
  "actionText action =
     (if action = [] then em_dash
      else concat (map (\<lambda>c. if c = CHR ''.'' \<or> c = CHR ''_'' then '' '' @ middle_dot @ '' '' else [c]) action))"

subsection \<open>State\<close>

record auditQuestion =
  qu_limit :: nat
  qu_action :: string
  qu_actor :: string

definition queryOf :: "auditQuestion \<Rightarrow> auditQuery" where
  "queryOf q =
     \<lparr>aq_limit = Some (jsint (int (qu_limit q))), aq_action = opt_text (Some (qu_action q)), aq_actor = opt_text (Some (qu_actor q))\<rparr>"

record auditPage =
  au_question :: auditQuestion
  au_actionDraft :: string
  au_actorDraft :: string
  au_async :: "auditEntry list async"
  au_loads :: "auditQuestion list"
  au_shown :: "auditQuestion option"

definition firstQuestion :: auditQuestion where
  "firstQuestion = \<lparr>qu_limit = DEFAULT_LIMIT, qu_action = [], qu_actor = []\<rparr>"

definition mountAudit :: auditPage where
  "mountAudit =
     \<lparr>au_question = firstQuestion, au_actionDraft = [], au_actorDraft = [], au_async = mountAsync, au_loads = [firstQuestion],
      au_shown = None\<rparr>"

definition auditEntries :: "auditPage \<Rightarrow> auditEntry list" where
  "auditEntries p = (case as_data (au_async p) of Some es \<Rightarrow> es | None \<Rightarrow> [])"

definition auditFiltered :: "auditPage \<Rightarrow> bool" where
  "auditFiltered p \<longleftrightarrow> qu_action (au_question p) \<noteq> [] \<or> qu_actor (au_question p) \<noteq> []"

subsection \<open>Handlers\<close>

definition reloadAudit :: "auditPage \<Rightarrow> auditPage" where
  "reloadAudit p = p\<lparr>au_async := asyncStep Reload (au_async p), au_loads := au_question p # au_loads p\<rparr>"

text \<open>A question that changed makes a new loader, which runs at once.\<close>

definition askAudit :: "auditQuestion \<Rightarrow> auditPage \<Rightarrow> auditPage" where
  "askAudit q p = (if q = au_question p then p else reloadAudit (p\<lparr>au_question := q\<rparr>))"

definition applyDrafts :: "auditPage \<Rightarrow> auditPage" where
  "applyDrafts p = askAudit ((au_question p)\<lparr>qu_action := trim (au_actionDraft p), qu_actor := trim (au_actorDraft p)\<rparr>) p"

definition clearAudit :: "auditPage \<Rightarrow> auditPage" where
  "clearAudit p =
     askAudit ((au_question p)\<lparr>qu_action := [], qu_actor := []\<rparr>) (p\<lparr>au_actionDraft := [], au_actorDraft := []\<rparr>)"

definition receiveAudit :: "auditQuestion \<Rightarrow> auditEntry list exn \<Rightarrow> auditPage \<Rightarrow> auditPage" where
  "receiveAudit q r p =
     p\<lparr>au_async := asyncStep (LoaderSettles r) (au_async p), au_loads := remove1 q (au_loads p),
       au_shown := (case r of Inr _ \<Rightarrow> Some q | Inl _ \<Rightarrow> au_shown p)\<rparr>"

datatype auditEvent =
    ReloadAudit
  | TypeAction string
  | TypeActor string
  | PickLimit nat
  | ApplyAudit
  | ClearAudit
  | AuditAnswer auditQuestion "auditEntry list exn"

text \<open>Clearing is offered while a filter is applied; applying always is, also by the enter key.\<close>

fun auditOffered :: "auditPage \<Rightarrow> auditEvent \<Rightarrow> bool" where
  "auditOffered p ReloadAudit = (\<not> as_loading (au_async p))"
| "auditOffered p (PickLimit n) = (n \<in> set LIMITS)"
| "auditOffered p ClearAudit = auditFiltered p"
| "auditOffered p (AuditAnswer q r) = (q \<in> set (au_loads p))"
| "auditOffered p _ = True"

fun auditStep :: "auditEvent \<Rightarrow> auditPage \<Rightarrow> auditPage" where
  "auditStep ReloadAudit p = reloadAudit p"
| "auditStep (TypeAction s) p = p\<lparr>au_actionDraft := s\<rparr>"
| "auditStep (TypeActor s) p = p\<lparr>au_actorDraft := s\<rparr>"
| "auditStep (PickLimit n) p = askAudit ((au_question p)\<lparr>qu_limit := n\<rparr>) p"
| "auditStep ApplyAudit p = applyDrafts p"
| "auditStep ClearAudit p = clearAudit p"
| "auditStep (AuditAnswer q r) p = receiveAudit q r p"

subsection \<open>What it shows\<close>

record auditRow =
  aw_at :: "string \<times> string"
  aw_actor :: string
  aw_action :: string
  aw_object :: string
  aw_denied :: bool
  aw_errored :: bool
  aw_pill :: "pillTone \<times> string"
  aw_ip :: string
  aw_detail :: "string option"

definition AuditRow :: "host \<Rightarrow> auditEntry \<Rightarrow> auditRow" where
  "AuditRow h e =
     \<lparr>aw_at = (formatRelative h (Some (ae_at e)), formatDateTime h (Some (ae_at e))), aw_actor = or_dash (ae_actor e),
      aw_action = actionText (ae_action e), aw_object = auditObjectText e, aw_denied = (ae_result e = ''denied''),
      aw_errored = (ae_result e = ''error''),
      aw_pill = (toneForResult (ae_result e), if ae_result e = [] then ''unknown'' else ae_result e),
      aw_ip = or_dash (ae_sourceIP e), aw_detail = opt_text (Some (ae_detail e))\<rparr>"

text \<open>The distinct non-empty values, in the default order of texts.\<close>

definition optionsOf :: "string list \<Rightarrow> string list" where
  "optionsOf xs = sort_by unit_cmp (rev (remdups (rev (filter (\<lambda>x. x \<noteq> []) xs))))"

definition deniedCount :: "auditEntry list \<Rightarrow> nat" where
  "deniedCount es = length (filter (\<lambda>e. ae_result e = ''denied'') es)"

definition auditSubtitle :: "auditEntry list \<Rightarrow> string" where
  "auditSubtitle es =
     nat_str (length es) @ '' entries '' @ middle_dot @ '' '' @
     (if 0 < deniedCount es then nat_str (deniedCount es) @ '' refused because of the actor'' @ [CHR 39] @ ''s role'' else ''none refused'')"

datatype auditBody = AuditEmpty string | AuditTable string "auditRow list"

definition auditViewOf :: "host \<Rightarrow> auditPage \<Rightarrow> auditBody pageView" where
  "auditViewOf h p =
     pageViewOf (au_async p)
       (if auditEntries p = []
        then AuditEmpty (if auditFiltered p then ''Nothing matches these filters'' else ''Nothing recorded yet'')
        else AuditTable (auditSubtitle (auditEntries p)) (map (AuditRow h) (auditEntries p)))"

definition actionOptions :: "auditPage \<Rightarrow> string list" where
  "actionOptions p = optionsOf (map ae_action (auditEntries p))"

definition actorOptions :: "auditPage \<Rightarrow> string list" where
  "actorOptions p = optionsOf (map ae_actor (auditEntries p))"

subsection \<open>Lemmas\<close>

lemma optionsOf_set: "set (optionsOf xs) = set xs - {[]} \<and> distinct (optionsOf xs)"
  by (auto simp: optionsOf_def)

text \<open>The question changes only while nothing is out.\<close>

definition auditOrderly :: "auditPage \<Rightarrow> auditEvent \<Rightarrow> bool" where
  "auditOrderly p e \<longleftrightarrow> auditOffered p e \<and> (au_loads p = [] \<or> au_question (auditStep e p) = au_question p)"

definition audit_inv :: "auditPage \<Rightarrow> bool" where
  "audit_inv p \<longleftrightarrow>
     as_mounted (au_async p) \<and> set (au_loads p) \<subseteq> {au_question p} \<and>
     (au_loads p = [] \<longrightarrow> au_shown p = Some (au_question p) \<or> as_error (au_async p) \<noteq> None)"

lemma askAudit_inv:
  "audit_inv p \<Longrightarrow> au_loads p = [] \<or> q = au_question p \<Longrightarrow> audit_inv (askAudit q p)"
  by (auto simp: audit_inv_def askAudit_def reloadAudit_def)

lemma askAudit_question [simp]: "au_question (askAudit q p) = q"
  by (simp add: askAudit_def reloadAudit_def)

lemma auditStep_inv:
  assumes "audit_inv p" "auditOrderly p e"
  shows "audit_inv (auditStep e p)"
proof (cases e)
  case ClearAudit
  have "audit_inv (p\<lparr>au_actionDraft := [], au_actorDraft := []\<rparr>)" using assms(1) by (simp add: audit_inv_def)
  then show ?thesis using assms(2) askAudit_inv by (auto simp: ClearAudit auditOrderly_def clearAudit_def)
next
  case (AuditAnswer q r)
  then have "q \<in> set (au_loads p)" using assms(2) by (simp add: auditOrderly_def)
  then show ?thesis using assms(1) AuditAnswer set_remove1_subset [of q "au_loads p"]
    by (cases r) (auto simp: audit_inv_def receiveAudit_def)
qed (use assms askAudit_inv in \<open>auto simp: auditOrderly_def applyDrafts_def reloadAudit_def audit_inv_def\<close>)

text \<open>An answer that comes after the next question was asked replaces the entries of that question.\<close>

lemma stale_audit_run:
  "\<exists>p. run_events auditStep auditOffered
      [PickLimit 100, AuditAnswer (firstQuestion\<lparr>qu_limit := 100\<rparr>) (Inr []), AuditAnswer firstQuestion (Inr es)] mountAudit = Some p \<and>
    qu_limit (au_question p) = 100 \<and> au_loads p = [] \<and> au_shown p = Some firstQuestion \<and> auditEntries p = es"
  by (simp add: mountAudit_def mountAsync_def firstQuestion_def DEFAULT_LIMIT_def LIMITS_def askAudit_def reloadAudit_def
      receiveAudit_def auditEntries_def)

text \<open>When the reading for a new filter fails, the entries of the old one stay under the new filter, without a word.\<close>

lemma failed_filter_run:
  "\<exists>p. run_events auditStep auditOffered
      [AuditAnswer firstQuestion (Inr [e]), PickLimit 100, AuditAnswer (firstQuestion\<lparr>qu_limit := 100\<rparr>) (Inl err)] mountAudit = Some p \<and>
    qu_limit (au_question p) = 100 \<and> au_shown p = Some firstQuestion \<and>
    auditViewOf h p = PageReady (AuditTable (auditSubtitle [e]) [AuditRow h e])"
  by (simp add: mountAudit_def mountAsync_def firstQuestion_def DEFAULT_LIMIT_def LIMITS_def askAudit_def reloadAudit_def
      receiveAudit_def auditViewOf_def pageViewOf_def auditEntries_def)

subsection \<open>Properties\<close>

text \<open>
  As long as the filter is changed only while no reading is out, every
  reading is for the filter on screen, and once none is out the entries shown are the answer to it or the
  last reading failed.
\<close>

theorem audit_answers_current:
  assumes "reaches auditStep auditOrderly mountAudit p"
  shows "set (au_loads p) \<subseteq> {au_question p} \<and>
    (au_loads p = [] \<longrightarrow> au_shown p = Some (au_question p) \<or> as_error (au_async p) \<noteq> None)"
proof -
  have "audit_inv mountAudit" by (simp add: audit_inv_def mountAudit_def mountAsync_def)
  with assms have "audit_inv p" using auditStep_inv by (rule reaches_invariant)
  then show ?thesis by (simp add: audit_inv_def)
qed

theorem audit_answers_current_witness:
  "\<exists>p. reaches auditStep auditOrderly mountAudit p \<and> au_loads p = [] \<and> as_error (au_async p) = None \<and>
    au_shown p = Some (firstQuestion\<lparr>qu_limit := 100\<rparr>)"
proof -
  obtain p where p: "run_events auditStep auditOrderly
      [AuditAnswer firstQuestion (Inr []), PickLimit 100, AuditAnswer (firstQuestion\<lparr>qu_limit := 100\<rparr>) (Inr [])] mountAudit = Some p"
      "au_question p = firstQuestion\<lparr>qu_limit := 100\<rparr>" "au_loads p = []" "as_error (au_async p) = None"
    by (simp add: auditOrderly_def mountAudit_def mountAsync_def firstQuestion_def DEFAULT_LIMIT_def LIMITS_def askAudit_def
        reloadAudit_def receiveAudit_def)
  note r = run_events_reaches [OF p(1)]
  from audit_answers_current [OF r] p r show ?thesis by auto
qed

end
