(* ===== verification/Vms_Page.thy ===== *)
theory Vms_Page
  imports Jobs_Page
begin

text \<open>
  Virtual machines (\<open>web/src/pages/VirtualMachinesPage.tsx\<close>): which job protects a guest, the filters, the
  inventory that is read again from every host, and the page as a machine that starts a job for a guest or
  opens the job wizard for it.
\<close>

subsection \<open>Which job protects a guest\<close>

definition covers :: "cachedVM \<Rightarrow> job \<Rightarrow> bool" where
  "covers vm j \<longleftrightarrow>
     j_kind j = VmJob \<and>
     (case opt_text (j_tagFilter j) of
        Some tag \<Rightarrow> tag \<in> set (tagsOf (v_tags vm))
      | None \<Rightarrow> list_ex (\<lambda>src. sourceIs src vm) (vmSourcesOf (j_sources j)))"

definition jobForVM :: "job list \<Rightarrow> cachedVM \<Rightarrow> job option" where
  "jobForVM jobs vm =
     (let found = filter (covers vm) jobs
      in case List.find j_enabled found of
           Some j \<Rightarrow> Some j
         | None \<Rightarrow> (case found of j # _ \<Rightarrow> Some j | [] \<Rightarrow> None))"

subsection \<open>State\<close>

record vmsData =
  vd_vms :: "cachedVM list"
  vd_hosts :: "proxHost list"
  vd_jobs :: "job list"
  vd_targets :: "target list"
  vd_agents :: "agent list"

text \<open>What the hosts answered: how many, with how many guests, out of how many.\<close>

record inventory =
  in_ok :: nat
  in_found :: nat
  in_asked :: nat

text \<open>
  A reading that is out knows whether a refresh of the inventory waits for it. \<open>vp_sent\<close> are the starts that
  were asked for, each with the jobs that were known then and the guest; \<open>vp_left\<close> is where the page was
  left for.
\<close>

record vmsPage =
  vp_async :: "vmsData async"
  vp_loads :: "inventory option list"
  vp_query :: string
  vp_hostFilter :: string
  vp_tagFilters :: "string list"
  vp_refreshing :: bool
  vp_polls :: "nat list"
  vp_busyVM :: "string option"
  vp_out :: "(cachedVM \<times> job) list"
  vp_sent :: "(job list \<times> cachedVM \<times> job) list"
  vp_toasts :: "(string \<times> string) list"
  vp_left :: "string option"
  vp_wizard :: wizard

definition mountVms :: vmsPage where
  "mountVms =
     \<lparr>vp_async = mountAsync, vp_loads = [None], vp_query = [], vp_hostFilter = ''all'', vp_tagFilters = [], vp_refreshing = False,
      vp_polls = [], vp_busyVM = None, vp_out = [], vp_sent = [], vp_toasts = [], vp_left = None, vp_wizard = mountWizard no_job_props\<rparr>"

definition vmsOf :: "vmsPage \<Rightarrow> cachedVM list" where
  "vmsOf p = (case as_data (vp_async p) of Some d \<Rightarrow> vd_vms d | None \<Rightarrow> [])"

definition vmHosts :: "vmsPage \<Rightarrow> proxHost list" where
  "vmHosts p = (case as_data (vp_async p) of Some d \<Rightarrow> vd_hosts d | None \<Rightarrow> [])"

definition vmJobs :: "vmsPage \<Rightarrow> job list" where
  "vmJobs p = (case as_data (vp_async p) of Some d \<Rightarrow> vd_jobs d | None \<Rightarrow> [])"

subsection \<open>Tags and filters\<close>

text \<open>A \<open>Map\<close> from tags to counts keeps the order of insertion.\<close>

fun bumpTag :: "(string \<times> nat) list \<Rightarrow> string \<Rightarrow> (string \<times> nat) list" where
  "bumpTag [] t = [(t, 1)]"
| "bumpTag ((s, n) # rest) t = (if s = t then (s, n + 1) # rest else (s, n) # bumpTag rest t)"

definition tagCounts :: "(string \<Rightarrow> string \<Rightarrow> int) \<Rightarrow> cachedVM list \<Rightarrow> (string \<times> nat) list" where
  "tagCounts cmp vms =
     foldl bumpTag (map (\<lambda>t. (t, 0)) (allTagsOf cmp vms)) (concat (map (\<lambda>vm. tagsOf (v_tags vm)) vms))"

definition matchesNeedle :: "browser \<Rightarrow> string \<Rightarrow> cachedVM \<Rightarrow> bool" where
  "matchesNeedle b needle vm \<longleftrightarrow>
     str_includes (b_lower b (v_name vm)) needle \<or> str_includes (num_str (v_vmid vm)) needle \<or>
     str_includes (b_lower b (v_node vm)) needle \<or> str_includes (b_lower b (v_hostName vm)) needle \<or>
     list_ex (\<lambda>t. str_includes t needle) (tagsOf (v_tags vm))"

definition vmMatches :: "browser \<Rightarrow> vmsPage \<Rightarrow> cachedVM \<Rightarrow> bool" where
  "vmMatches b p vm \<longleftrightarrow>
     (vp_hostFilter p = ''all'' \<or> id_str (v_hostId vm) = vp_hostFilter p) \<and>
     list_all (\<lambda>t. t \<in> set (tagsOf (v_tags vm))) (vp_tagFilters p) \<and>
     (let needle = b_lower b (trim (vp_query p)) in needle = [] \<or> matchesNeedle b needle vm)"

definition vmsFiltered :: "browser \<Rightarrow> vmsPage \<Rightarrow> cachedVM list" where
  "vmsFiltered b p = filter (vmMatches b p) (vmsOf p)"

definition toggleTag :: "string \<Rightarrow> vmsPage \<Rightarrow> vmsPage" where
  "toggleTag t p =
     p\<lparr>vp_tagFilters := (if t \<in> set (vp_tagFilters p) then filter (\<lambda>s. s \<noteq> t) (vp_tagFilters p) else vp_tagFilters p @ [t])\<rparr>"

definition clearFilters :: "vmsPage \<Rightarrow> vmsPage" where
  "clearFilters p = p\<lparr>vp_query := [], vp_hostFilter := ''all'', vp_tagFilters := []\<rparr>"

subsection \<open>Handlers\<close>

definition toastVms :: "string \<Rightarrow> string \<Rightarrow> vmsPage \<Rightarrow> vmsPage" where
  "toastVms title detail p = p\<lparr>vp_toasts := (title, detail) # vp_toasts p\<rparr>"

definition loadVms :: "vmsData asyncEvent \<Rightarrow> inventory option \<Rightarrow> vmsPage \<Rightarrow> vmsPage" where
  "loadVms e waiting p = p\<lparr>vp_async := asyncStep e (vp_async p), vp_loads := waiting # vp_loads p\<rparr>"

definition onRefreshInventory :: "vmsPage \<Rightarrow> vmsPage" where
  "onRefreshInventory p =
     (if vmHosts p = [] then toastVms ''No Proxmox hosts to inventory.'' ''Add a host first.'' p
      else p\<lparr>vp_refreshing := True, vp_polls := length (vmHosts p) # vp_polls p\<rparr>)"

fun answered :: "vm list exn \<Rightarrow> nat" where
  "answered (Inr vms) = 1"
| "answered (Inl err) = 0"

fun guestsIn :: "vm list exn \<Rightarrow> nat" where
  "guestsIn (Inr vms) = length vms"
| "guestsIn (Inl err) = 0"

text \<open>Every host has answered or failed; the list is read again before anything is said.\<close>

definition settleInventory :: "vm list exn list \<Rightarrow> vmsPage \<Rightarrow> vmsPage" where
  "settleInventory results p =
     loadVms Refresh
       (Some \<lparr>in_ok = sum_list (map answered results), in_found = sum_list (map guestsIn results), in_asked = length results\<rparr>)
       (p\<lparr>vp_polls := remove1 (length results) (vp_polls p)\<rparr>)"

definition plural :: "nat \<Rightarrow> string \<Rightarrow> string \<Rightarrow> string" where
  "plural n one many = nat_str n @ '' '' @ (if n = 1 then one else many)"

definition inventoryToast :: "inventory \<Rightarrow> string \<times> string" where
  "inventoryToast i =
     (if in_asked i - in_ok i = 0
      then (''Inventory refreshed.'',
            plural (in_found i) ''virtual machine'' ''virtual machines'' @ '' across '' @ plural (in_ok i) ''host'' ''hosts'' @ ''.'')
      else (''Some hosts could not be reached.'',
            nat_str (in_ok i) @ '' of '' @ nat_str (in_asked i) @ '' hosts answered. Check host status on the Proxmox Hosts page.''))"

text \<open>Neither the collected answers nor the reading reject, so the branch for a failure of the whole is never taken.\<close>

definition receiveVms :: "inventory option \<Rightarrow> vmsData exn \<Rightarrow> vmsPage \<Rightarrow> vmsPage" where
  "receiveVms waiting r p =
     (let q = p\<lparr>vp_async := asyncStep (LoaderSettles r) (vp_async p), vp_loads := remove1 waiting (vp_loads p)\<rparr>;
          q = (case r of
                 Inr d \<Rightarrow>
                   if as_mounted (vp_async p)
                   then q\<lparr>vp_wizard := wizardStep (Refetched (vd_targets d) (vd_vms d) (vd_agents d)) (vp_wizard p)\<rparr>
                   else q
               | Inl _ \<Rightarrow> q)
      in case waiting of
           Some i \<Rightarrow> (toastVms (fst (inventoryToast i)) (snd (inventoryToast i)) q)\<lparr>vp_refreshing := False\<rparr>
         | None \<Rightarrow> q)"

definition vmWizardProps :: "vmsData option \<Rightarrow> cachedVM \<Rightarrow> wizardProps" where
  "vmWizardProps d vm =
     (case d of
        Some x \<Rightarrow> \<lparr>wp_targets = vd_targets x, wp_vms = vd_vms x, wp_agents = vd_agents x, wp_initialVM = Some vm, wp_editJob = None\<rparr>
      | None \<Rightarrow> no_job_props\<lparr>wp_initialVM := Some vm\<rparr>)"

text \<open>The handler of a card's button: the job that protects the guest is started, or the wizard opens on the guest.\<close>

definition onBackupNow :: "cachedVM \<Rightarrow> vmsPage \<Rightarrow> vmsPage" where
  "onBackupNow vm p =
     (case jobForVM (vmJobs p) vm of
        None \<Rightarrow> p\<lparr>vp_wizard := wizardStep (OpenWizard (vmWizardProps (as_data (vp_async p)) vm)) (vp_wizard p)\<rparr>
      | Some j \<Rightarrow> p\<lparr>vp_busyVM := Some (keyOf vm), vp_out := (vm, j) # vp_out p, vp_sent := (vmJobs p, vm, j) # vp_sent p\<rparr>)"

definition leaveVms :: "string \<Rightarrow> vmsPage \<Rightarrow> vmsPage" where
  "leaveVms path p = p\<lparr>vp_left := Some path, vp_async := asyncStep Unmount (vp_async p)\<rparr>"

definition settleBackup :: "cachedVM \<Rightarrow> job \<Rightarrow> unit exn \<Rightarrow> vmsPage \<Rightarrow> vmsPage" where
  "settleBackup vm j r p =
     (let q = p\<lparr>vp_out := remove1 (vm, j) (vp_out p)\<rparr>
      in (case r of
            Inr _ \<Rightarrow>
              leaveVms (monitorPath j)
                (toastVms (''Backup of '' @ v_name vm @ '' started.'') (''Running job '' @ ldquo @ j_name j @ rdquo @ ''.'') q)
          | Inl err \<Rightarrow> toastVms (''Could not back up '' @ v_name vm) (errorMessage err) q)\<lparr>vp_busyVM := None\<rparr>)"

definition vmWizardEvent :: "wizardEvent \<Rightarrow> vmsPage \<Rightarrow> vmsPage" where
  "vmWizardEvent e p =
     (let w = wizardStep e (vp_wizard p); q = p\<lparr>vp_wizard := w\<rparr>
      in if wz_saved (vp_wizard p) < wz_saved w then loadVms Refresh None q else q)"

subsection \<open>Events\<close>

datatype vmsEvent =
    RetryVms
  | VmsAnswer "inventory option" "vmsData exn"
  | EditVmQuery string
  | PickHostFilter string
  | ClickTag string
  | ClearTags
  | ClearFilters
  | RefreshInventory
  | InventoryAnswers "vm list exn list"
  | ClickBackup cachedVM
  | BackupSettles cachedVM job "unit exn"
  | InVmWizard wizardEvent
  | LeaveVms

text \<open>The filters and the cards are there once the inventory holds a guest.\<close>

definition gridShown :: "vmsPage \<Rightarrow> bool" where
  "gridShown p \<longleftrightarrow> vp_left p = None \<and> vmsOf p \<noteq> []"

fun vmsOffered :: "browser \<Rightarrow> role \<Rightarrow> vmsPage \<Rightarrow> vmsEvent \<Rightarrow> bool" where
  "vmsOffered b role p RetryVms = (vp_left p = None \<and> \<not> as_loading (vp_async p) \<and> as_error (vp_async p) \<notin> {None, Some []} \<and> as_data (vp_async p) = None)"
| "vmsOffered b role p (VmsAnswer waiting r) = (waiting \<in> set (vp_loads p))"
| "vmsOffered b role p (EditVmQuery s) = gridShown p"
| "vmsOffered b role p (PickHostFilter s) = (gridShown p \<and> s \<in> set (''all'' # map (\<lambda>x. id_str (px_id x)) (vmHosts p)))"
| "vmsOffered b role p (ClickTag t) = (gridShown p \<and> t \<in> fst ` set (tagCounts (b_localeCompare b) (vmsOf p)))"
| "vmsOffered b role p ClearTags = (gridShown p \<and> tagCounts (b_localeCompare b) (vmsOf p) \<noteq> [] \<and> vp_tagFilters p \<noteq> [])"
| "vmsOffered b role p ClearFilters = (gridShown p \<and> vmsFiltered b p = [])"
| "vmsOffered b role p RefreshInventory = (vp_left p = None \<and> \<not> vp_refreshing p)"
| "vmsOffered b role p (InventoryAnswers results) = (length results \<in> set (vp_polls p))"
| "vmsOffered b role p (ClickBackup vm) =
     (gridShown p \<and> \<not> wz_open (vp_wizard p) \<and> vm \<in> set (vmsFiltered b p) \<and> vp_busyVM p \<noteq> Some (keyOf vm) \<and> operateJobs (capabilitiesFor role))"
| "vmsOffered b role p (BackupSettles vm j r) = ((vm, j) \<in> set (vp_out p))"
| "vmsOffered b role p (InVmWizard e) =
     (job_wizard_own e \<and> (vp_left p = None \<or> submission_settles e) \<and> wizardOffered b (vp_wizard p) e)"
| "vmsOffered b role p LeaveVms = (vp_left p = None \<and> vmsOf p = [] \<and> vmHosts p = [])"

fun vmsStep :: "vmsEvent \<Rightarrow> vmsPage \<Rightarrow> vmsPage" where
  "vmsStep RetryVms p = loadVms Reload None p"
| "vmsStep (VmsAnswer waiting r) p = receiveVms waiting r p"
| "vmsStep (EditVmQuery s) p = p\<lparr>vp_query := s\<rparr>"
| "vmsStep (PickHostFilter s) p = p\<lparr>vp_hostFilter := s\<rparr>"
| "vmsStep (ClickTag t) p = toggleTag t p"
| "vmsStep ClearTags p = p\<lparr>vp_tagFilters := []\<rparr>"
| "vmsStep ClearFilters p = clearFilters p"
| "vmsStep RefreshInventory p = onRefreshInventory p"
| "vmsStep (InventoryAnswers results) p = settleInventory results p"
| "vmsStep (ClickBackup vm) p = onBackupNow vm p"
| "vmsStep (BackupSettles vm j r) p = settleBackup vm j r p"
| "vmsStep (InVmWizard e) p = vmWizardEvent e p"
| "vmsStep LeaveVms p = leaveVms ''/hosts'' p"

subsection \<open>What it shows\<close>

record vmCard =
  vc_gap :: bool
  vc_identity :: "string list \<times> string option"
  vc_pill :: "pillTone \<times> string"
  vc_disk :: string
  vc_memory :: string
  vc_tags :: "string list"
  vc_uptime :: string
  vc_protection :: string
  vc_button :: string
  vc_denied :: "(string \<times> string) option"

definition protectionText :: "job option \<Rightarrow> string" where
  "protectionText j =
     '' '' @ middle_dot @ '' '' @
     (case j of
        Some x \<Rightarrow>
          if j_enabled x then ''Protected by '' @ ldquo @ j_name x @ rdquo
          else ''Only '' @ ldquo @ j_name x @ rdquo @ '', which is disabled''
      | None \<Rightarrow> ''Not in any job'')"

definition VMCard :: "host \<Rightarrow> role \<Rightarrow> cachedVM \<Rightarrow> job option \<Rightarrow> vmCard" where
  "VMCard h role vm j =
     \<lparr>vc_gap = (case j of Some x \<Rightarrow> \<not> j_enabled x | None \<Rightarrow> True), vc_identity = stackedIdentity (vmIdentity vm),
      vc_pill = (toneForStatus (Some (v_status vm)), v_status vm), vc_disk = formatBytes h (Some (v_maxdisk vm)) 1,
      vc_memory = formatBytes h (Some (v_maxmem vm)) 1, vc_tags = tagsOf (v_tags vm),
      vc_uptime = (if v_status vm = ''running'' then ''Up '' @ formatUptime (Some (v_uptime vm)) else ''Not running''),
      vc_protection = protectionText j,
      vc_button = (if j = None then ''Backup Now '' @ em_dash @ '' create job'' else ''Backup Now''),
      vc_denied =
        (if operateJobs (capabilitiesFor role) then None
         else let denied = roleDeniedReason role ''start backups''
              in Some (denied, ''Back up '' @ v_name vm @ '' now '' @ em_dash @ '' '' @ denied))\<rparr>"

definition clearTagsText :: "string list \<Rightarrow> string" where
  "clearTagsText tags =
     (if 1 < length tags
      then ''Clear '' @ nat_str (length tags) @ '' tags '' @ em_dash @ '' showing VMs with all of them'' else ''Clear tag'')"

record vmsGrid =
  vg_shown :: "string \<times> string"
  vg_chips :: "(string \<times> nat \<times> bool) list"
  vg_clear :: "string option"
  vg_cards :: "vmCard list"

datatype vmsBody = NoHosts | EmptyInventory | VmsGrid vmsGrid

definition vmsViewOf :: "browser \<Rightarrow> role \<Rightarrow> vmsPage \<Rightarrow> vmsBody pageView" where
  "vmsViewOf b role p =
     (let vms = vmsOf p; shown = vmsFiltered b p; counts = tagCounts (b_localeCompare b) vms; h = b_host b
      in pageViewOf (vp_async p)
           (if vms = [] then if vmHosts p = [] then NoHosts else EmptyInventory
            else VmsGrid
              \<lparr>vg_shown = (formatCount h (Some (jsint (int (length shown)))), formatCount h (Some (jsint (int (length vms))))),
               vg_chips = map (\<lambda>(t, n). (t, n, t \<in> set (vp_tagFilters p))) counts,
               vg_clear = (if counts = [] \<or> vp_tagFilters p = [] then None else Some (clearTagsText (vp_tagFilters p))),
               vg_cards = map (\<lambda>vm. VMCard h role vm (jobForVM (vmJobs p) vm)) shown\<rparr>))"

subsection \<open>Lemmas\<close>

text \<open>The first item that is preferred, else the first.\<close>

lemma preferred_None: "(case List.find P xs of Some x \<Rightarrow> Some x | None \<Rightarrow> (case xs of x # _ \<Rightarrow> Some x | [] \<Rightarrow> None)) = None \<longleftrightarrow> xs = []"
  by (cases xs; cases "List.find P xs") auto

lemma preferred_Some:
  assumes "(case List.find P xs of Some x \<Rightarrow> Some x | None \<Rightarrow> (case xs of x # _ \<Rightarrow> Some x | [] \<Rightarrow> None)) = Some y"
  shows "y \<in> set xs" "\<exists>x\<in>set xs. P x \<Longrightarrow> P y"
proof -
  have "y \<in> set xs \<and> ((\<exists>x\<in>set xs. P x) \<longrightarrow> P y)"
  proof (cases "List.find P xs")
    case None
    then have "xs \<noteq> [] \<and> y = hd xs" using assms by (cases xs) (auto split: if_splits)
    with None show ?thesis by (auto simp: find_None_iff)
  qed (use assms in \<open>auto dest: find_Some_iff_mem\<close>)
  then show "y \<in> set xs" "\<exists>x\<in>set xs. P x \<Longrightarrow> P y" by auto
qed

lemma jobForVM_None: "jobForVM jobs vm = None \<longleftrightarrow> (\<forall>j\<in>set jobs. \<not> covers vm j)"
  unfolding jobForVM_def Let_def preferred_None by (simp add: filter_empty_conv)

lemma jobForVM_Some:
  assumes "jobForVM jobs vm = Some j"
  shows "j \<in> set jobs" "covers vm j" "\<exists>x\<in>set jobs. covers vm x \<and> j_enabled x \<Longrightarrow> j_enabled j"
  using preferred_Some [OF assms [unfolded jobForVM_def Let_def]] by auto

text \<open>The amber edge is on exactly the guests that no enabled job protects.\<close>

lemma gap_iff_unprotected:
  "vc_gap (VMCard h role vm (jobForVM jobs vm)) \<longleftrightarrow> \<not> (\<exists>j\<in>set jobs. covers vm j \<and> j_enabled j)"
proof (cases "jobForVM jobs vm")
  case None
  then show ?thesis using jobForVM_None [of jobs vm] by (auto simp: VMCard_def)
next
  case (Some j)
  then show ?thesis using jobForVM_Some [OF Some] by (auto simp: VMCard_def)
qed

text \<open>The number on a chip counts the occurrences of the tag, which are the guests when no guest lists a tag twice.\<close>

lemma bumpTag_count: "map_of (bumpTag cs t) s = (if s = t then Some (case map_of cs t of Some n \<Rightarrow> n + 1 | None \<Rightarrow> 1) else map_of cs s)"
  by (induction cs t rule: bumpTag.induct) auto

lemma bumpTag_keys: "fst ` set (bumpTag cs t) = insert t (fst ` set cs)"
  by (induction cs t rule: bumpTag.induct) auto

lemma bump_all: "map_of cs s = Some n \<Longrightarrow> map_of (foldl bumpTag cs ts) s = Some (n + count_list ts s)"
  by (induction ts arbitrary: cs n) (auto simp: bumpTag_count)

lemma count_list_concat: "count_list (concat xss) s = sum_list (map (\<lambda>xs. count_list xs s) xss)"
  by (induction xss) auto

lemma tagCounts_count:
  assumes "s \<in> set (allTagsOf cmp vms)"
  shows "map_of (tagCounts cmp vms) s = Some (sum_list (map (\<lambda>vm. count_list (tagsOf (v_tags vm)) s) vms))"
proof -
  have "map_of (map (\<lambda>t. (t, 0)) (allTagsOf cmp vms)) s = Some (0::nat)"
    using assms by (simp add: map_of_map_restrict)
  from bump_all [OF this] show ?thesis by (simp add: tagCounts_def count_list_concat o_def)
qed

lemma count_once: "distinct xs \<Longrightarrow> count_list xs s = (if s \<in> set xs then 1 else 0)"
  by (induction xs) auto

lemma tagCounts_guests:
  assumes "s \<in> set (allTagsOf cmp vms)" "\<forall>vm\<in>set vms. distinct (tagsOf (v_tags vm))"
  shows "map_of (tagCounts cmp vms) s = Some (length (vmsWithTag vms s))"
proof -
  have "sum_list (map (\<lambda>vm. count_list (tagsOf (v_tags vm)) s) vms) = length (vmsWithTag vms s)"
    using assms(2) by (induction vms) (auto simp: vmsWithTag_def count_once)
  with tagCounts_count [OF assms(1)] show ?thesis by simp
qed

lemmas vms_defs = receiveVms_def onRefreshInventory_def settleInventory_def onBackupNow_def settleBackup_def vmWizardEvent_def
  toggleTag_def clearFilters_def toastVms_def loadVms_def leaveVms_def Let_def


interpretation vms_wizard: embedded_part vmsStep "vmsOffered b role" vp_wizard wizardStep "wizardOffered b" for b role
proof unfold_locales
  fix p e assume o: "vmsOffered b role p e"
  show "vp_wizard (vmsStep e p) = vp_wizard p \<or>
      (\<exists>f. wizardOffered b (vp_wizard p) f \<and> vp_wizard (vmsStep e p) = wizardStep f (vp_wizard p))"
  proof (cases e)
    case (VmsAnswer waiting r)
    have "vp_wizard (receiveVms waiting r p) = vp_wizard p \<or>
        (\<exists>ts vs as. vp_wizard (receiveVms waiting r p) = wizardStep (Refetched ts vs as) (vp_wizard p))"
      by (cases r; cases waiting) (auto simp: receiveVms_def toastVms_def Let_def simp del: wizardStep.simps)
    moreover have "wizardOffered b (vp_wizard p) (Refetched ts vs as)" for ts vs as by simp
    ultimately show ?thesis unfolding VmsAnswer vmsStep.simps by blast
  next
    case (ClickBackup vm)
    then have "wizardOffered b (vp_wizard p) (OpenWizard ps)" for ps using o by (simp add: gridShown_def)
    then show ?thesis unfolding ClickBackup vmsStep.simps onBackupNow_def
      by (cases "jobForVM (vmJobs p) vm") (simp_all del: wizardStep.simps wizardOffered.simps, blast)
  next
    case (InVmWizard f)
    then show ?thesis using o by (auto simp: vms_defs simp del: wizardStep.simps)
  qed (auto simp: vms_defs split: option.splits sum.splits)
qed

text \<open>
  What the page may ask for: to start, for a guest, a job that protects it and that is enabled whenever one of
  the jobs then known that protect it is.
\<close>

fun start_ok :: "job list \<times> cachedVM \<times> job \<Rightarrow> bool" where
  "start_ok (jobs, vm, j) \<longleftrightarrow> j \<in> set jobs \<and> covers vm j \<and> ((\<exists>x\<in>set jobs. covers vm x \<and> j_enabled x) \<longrightarrow> j_enabled j)"

definition vms_inv :: "role \<Rightarrow> vmsPage \<Rightarrow> bool" where
  "vms_inv role p \<longleftrightarrow>
     list_all start_ok (vp_sent p) \<and>
     (operateJobs (capabilitiesFor role) \<or> vp_sent p = [] \<and> \<not> wz_open (vp_wizard p) \<and> wz_sent (vp_wizard p) = [])"

lemma vmsStep_inv:
  assumes "vms_inv role p" "vmsOffered b role p e"
  shows "vms_inv role (vmsStep e p)"
proof (cases e)
  case (InVmWizard f)
  then have f: "job_wizard_own f" "wizardOffered b (vp_wizard p) f" using assms(2) by auto
  from InVmWizard have "vp_wizard (vmsStep e p) = wizardStep f (vp_wizard p)" "vp_sent (vmsStep e p) = vp_sent p"
    by (simp_all add: vms_defs)
  then show ?thesis using assms(1) wizardStep_open [OF f(1), of "vp_wizard p"] wizardStep_quiet [OF f(2)] by (auto simp: vms_inv_def)
next
  case (VmsAnswer waiting r)
  then show ?thesis using assms(1) by (cases r; cases waiting) (auto simp: vms_inv_def vms_defs)
next
  case (ClickBackup vm)
  then show ?thesis using assms jobForVM_Some [of "vmJobs p" vm]
    by (cases "jobForVM (vmJobs p) vm") (auto simp: vms_inv_def onBackupNow_def)
qed (use assms in \<open>auto simp: vms_inv_def vms_defs split: option.splits sum.splits\<close>)

interpretation vm_starts: request_guard mountVms vmsStep "vmsOffered b role" "vms_inv role" vp_sent
  "\<lambda>r. start_ok r \<and> operateJobs (capabilitiesFor role)" for b role
proof unfold_locales
  show "vms_inv role mountVms" by (simp add: vms_inv_def mountVms_def mountWizard_def)
qed (rule vmsStep_inv, assumption+, auto simp: vms_inv_def list_all_iff)

text \<open>
  The busy state of the grid is one guest: clicking a second card while the first job is being started frees
  the first card, and its job is started again.
\<close>

definition prod_vm :: "string \<Rightarrow> cachedVM" where
  "prod_vm i = web01\<lparr>v_hostId := IdStr i, v_tags := JArr [JStr ''prod'']\<rparr>"

definition prod_job :: job where
  "prod_job = blank_job\<lparr>j_tagFilter := Some ''prod''\<rparr>"

definition prod_data :: vmsData where
  "prod_data =
     \<lparr>vd_vms = [prod_vm ''a'', prod_vm ''b'', web01], vd_hosts = [], vd_jobs = [prod_job], vd_targets = [], vd_agents = []\<rparr>"

lemma prod_simps:
  "covers (prod_vm i) prod_job" "\<not> covers web01 prod_job" "j_enabled prod_job" "keyOf (prod_vm i) = i @ '':'' @ num_str (Fin 100)"
  by (simp_all add: covers_def prod_vm_def prod_job_def blank_job_def web01_def tagsOf_def opt_text_def keyOf_def vmKey_def)

lemma prod_offered:
  "vmsOf p = vd_vms prod_data \<Longrightarrow> vp_query p = [] \<Longrightarrow> vp_hostFilter p = ''all'' \<Longrightarrow> vp_tagFilters p = [] \<Longrightarrow>
    vmsFiltered plain_browser p = [prod_vm ''a'', prod_vm ''b'', web01]"
  by (simp add: vmsFiltered_def vmMatches_def prod_data_def plain_browser_def)

lemma prod_job_for: "jobForVM [prod_job] (prod_vm i) = Some prod_job" "jobForVM [prod_job] web01 = None"
  by (simp_all add: jobForVM_def prod_simps Let_def)

abbreviation prod_start :: "string \<Rightarrow> job list \<times> cachedVM \<times> job" where
  "prod_start i \<equiv> ([prod_job], prod_vm i, prod_job)"

lemma prod_loaded:
  "vmsStep (VmsAnswer None (Inr prod_data)) mountVms =
     mountVms\<lparr>vp_async := \<lparr>as_data = Some prod_data, as_loading = False, as_error = None, as_mounted = True, as_out = 0\<rparr>, vp_loads := [],
       vp_wizard := wizardStep (Refetched [] (vd_vms prod_data) []) (mountWizard no_job_props)\<rparr>"
  by (simp add: mountVms_def mountAsync_def receiveVms_def Let_def) (simp add: prod_data_def)

lemma prod_click:
  assumes "as_data (vp_async p) = Some prod_data" "vp_query p = []" "vp_hostFilter p = ''all''" "vp_tagFilters p = []"
    "vp_left p = None" "\<not> wz_open (vp_wizard p)"
  shows "vp_busyVM p \<noteq> Some (keyOf (prod_vm i)) \<Longrightarrow> i \<in> {''a'', ''b''} \<Longrightarrow> vmsOffered plain_browser Operator p (ClickBackup (prod_vm i))"
    and "vmsStep (ClickBackup (prod_vm i)) p =
      p\<lparr>vp_busyVM := Some (keyOf (prod_vm i)), vp_out := (prod_vm i, prod_job) # vp_out p, vp_sent := prod_start i # vp_sent p\<rparr>"
proof -
  have "vmsOf p = vd_vms prod_data" "vmJobs p = [prod_job]" using assms(1) by (simp_all add: vmsOf_def vmJobs_def prod_data_def)
  moreover from this have "vmsFiltered plain_browser p = [prod_vm ''a'', prod_vm ''b'', web01]" using assms by (simp add: prod_offered)
  ultimately show "vp_busyVM p \<noteq> Some (keyOf (prod_vm i)) \<Longrightarrow> i \<in> {''a'', ''b''} \<Longrightarrow> vmsOffered plain_browser Operator p (ClickBackup (prod_vm i))"
    and "vmsStep (ClickBackup (prod_vm i)) p =
      p\<lparr>vp_busyVM := Some (keyOf (prod_vm i)), vp_out := (prod_vm i, prod_job) # vp_out p, vp_sent := prod_start i # vp_sent p\<rparr>"
    using assms by (auto simp: gridShown_def capabilitiesFor_def prod_data_def onBackupNow_def prod_job_for)
qed

lemma started_twice_run:
  "\<exists>p. run_events vmsStep (vmsOffered plain_browser Operator)
      [VmsAnswer None (Inr prod_data), ClickBackup (prod_vm ''a''), ClickBackup (prod_vm ''b''), ClickBackup (prod_vm ''a'')]
      mountVms = Some p \<and>
    vp_sent p = [prod_start ''a'', prod_start ''b'', prod_start ''a'']"
proof -
  have start: "vmsOffered plain_browser Operator mountVms (VmsAnswer None (Inr prod_data))" by (simp add: mountVms_def)
  have sel: "vp_query mountVms = []" "vp_hostFilter mountVms = ''all''" "vp_tagFilters mountVms = []" "vp_left mountVms = None"
    "vp_busyVM mountVms = None" "vp_sent mountVms = []" by (simp_all add: mountVms_def)
  show ?thesis
    by (simp add: start sel prod_loaded prod_click prod_simps mountWizard_def del: vmsStep.simps vmsOffered.simps)
qed

subsection \<open>Properties\<close>

text \<open>
  C13 (backup now protects the guest it names): however filters, cards, wizard and inventory are used while lists are
  refreshed and requests settle, every start is of a job that protects the guest that was clicked, an enabled one
  whenever the page knew one, every job the wizard submits is complete, and none of this is sent for somebody who may
  not operate jobs.
\<close>

theorem vms_page_guarded:
  assumes "reaches vmsStep (vmsOffered b role) mountVms p"
  shows "(\<forall>(jobs, vm, j)\<in>set (vp_sent p). j \<in> set jobs \<and> covers vm j \<and>
      ((\<exists>x\<in>set jobs. covers vm x \<and> j_enabled x) \<longrightarrow> j_enabled j)) \<and>
    (\<forall>r\<in>set (wz_sent (vp_wizard p)). complete_job (snd r)) \<and>
    (vp_sent p \<noteq> [] \<or> wz_open (vp_wizard p) \<or> wz_sent (vp_wizard p) \<noteq> [] \<longrightarrow> operateJobs (capabilitiesFor role))"
proof -
  have "reaches wizardStep (wizardOffered b) (mountWizard no_job_props) (vp_wizard p)"
    using vms_wizard.part_reaches [OF assms] by (simp add: mountVms_def)
  then have "\<forall>r\<in>set (wz_sent (vp_wizard p)). complete_job (snd r)" using job_requests.request_ok by blast
  moreover have "vms_inv role p" using vm_starts.reachable_inv [OF assms] .
  ultimately show ?thesis by (fastforce simp: vms_inv_def list_all_iff)
qed

theorem vms_page_guarded_witness:
  "\<exists>p. reaches vmsStep (vmsOffered plain_browser Operator) mountVms p \<and>
    vp_sent p = [prod_start ''a'', prod_start ''b'', prod_start ''a''] \<and> covers (prod_vm ''b'') prod_job"
proof -
  obtain p where p: "run_events vmsStep (vmsOffered plain_browser Operator)
      [VmsAnswer None (Inr prod_data), ClickBackup (prod_vm ''a''), ClickBackup (prod_vm ''b''), ClickBackup (prod_vm ''a'')] mountVms = Some p"
    "vp_sent p = [prod_start ''a'', prod_start ''b'', prod_start ''a'']" using started_twice_run by blast
  note r = run_events_reaches [OF p(1)]
  from vms_page_guarded [OF r] p(2) have "covers (prod_vm ''b'') prod_job" by simp
  with r p(2) show ?thesis by blast
qed

text \<open>
  The search lowers what is typed and compares it with the tags as they are: a tag with a capital letter is
  not found by typing it as it is shown.
\<close>

lemma capital_tag_missed:
  assumes "b_lower b = map ascii_lower" "vm = web01\<lparr>v_tags := JArr [JStr ''Prod'']\<rparr>"
  shows "tagsOf (v_tags vm) = [''Prod''] \<and> \<not> vmMatches b (mountVms\<lparr>vp_query := ''Prod''\<rparr>) vm"
proof -
  have "map ascii_lower (trim ''Prod'') = ''prod''"
    "\<not> list_ex (\<lambda>s. str_includes s ''prod'') [map ascii_lower ''web01'', num_str (Fin 100), map ascii_lower ''pve1'', map ascii_lower ''lab'', ''Prod'']"
    by code_simp+
  then show ?thesis using assms by (simp add: vmMatches_def matchesNeedle_def mountVms_def web01_def tagsOf_def Let_def)
qed

end
