(* ===== verification/Dashboard.thy ===== *)
theory Dashboard
  imports Row_State Run_Views Job_Sources Identity
begin

text \<open>
  The dashboard (\<open>web/src/pages/DashboardPage.tsx\<close>, \<open>web/src/components/OutcomeDonut.tsx\<close>): the loader that
  keeps a failed posture apart, the verdict with its working, the table of workloads, the figures and
  the recent runs, and the page as a machine.
\<close>

subsection \<open>Posture and figures\<close>

datatype postureVerdict = VerdictProtected | VerdictAtRisk | VerdictUnprotected | VerdictUnknown

datatype workloadStatus = StatusProtected | StatusAtRisk | StatusUnprotected

record postureCounts =
  pc_protected :: jsnum
  pc_atRisk :: jsnum
  pc_unprotected :: jsnum

record postureReason =
  pr_code :: string
  pr_workloads :: jsnum
  pr_detail :: string

record postureWorkload =
  pw_kind :: jobKind
  pw_id :: js_id
  pw_name :: string
  pw_vmid :: "jsnum option"
  pw_hostName :: string
  pw_node :: string
  pw_policy :: "string option"
  pw_enabled :: bool
  pw_rpoHours :: "jsnum option"
  pw_lastSuccessAt :: "string option"
  pw_ageHours :: "jsnum option"
  pw_withinRpo :: "bool option"
  pw_lastFailureAt :: "string option"
  pw_lastVerifiedAt :: "string option"
  pw_restorePoints :: jsnum
  pw_status :: workloadStatus

record posture =
  po_verdict :: postureVerdict
  po_counts :: postureCounts
  po_reasons :: "postureReason list"
  po_workloads :: "postureWorkload list"

record last24h =
  l24_succeeded :: jsnum
  l24_failed :: jsnum
  l24_running :: jsnum

record dashboardStats =
  ds_vmCount :: jsnum
  ds_agentCount :: jsnum
  ds_hostCount :: jsnum
  ds_targetCount :: jsnum
  ds_jobCount :: jsnum
  ds_last24h :: last24h
  ds_storageBytes :: jsnum
  ds_dedupSavedBytes :: jsnum
  ds_recentRuns :: "jobRun list"

record dashboardData =
  dd_stats :: dashboardStats
  dd_jobs :: "job list"
  dd_posture :: "posture option"
  dd_postureError :: "string option"

subsection \<open>Loading\<close>

text \<open>
  \<open>Promise.all\<close> over three requests, the third of which never rejects; when one of the others rejects, the
  error is that of the first to do so.
\<close>

definition loadDashboard :: "(dashboardStats \<times> job list) exn \<Rightarrow> posture exn \<Rightarrow> dashboardData exn" where
  "loadDashboard figures posture =
     bind_exn figures (\<lambda>(stats, jobs).
       Inr \<lparr>dd_stats = stats, dd_jobs = jobs, dd_posture = (case posture of Inr p \<Rightarrow> Some p | Inl _ \<Rightarrow> None),
            dd_postureError = (case posture of Inr _ \<Rightarrow> None | Inl err \<Rightarrow> Some (errorMessage err))\<rparr>)"

subsection \<open>Verdict\<close>

fun VERDICT_LABEL :: "postureVerdict \<Rightarrow> string" where
  "VERDICT_LABEL VerdictProtected = ''Protected''"
| "VERDICT_LABEL VerdictAtRisk = ''At risk''"
| "VERDICT_LABEL VerdictUnprotected = ''Unprotected''"
| "VERDICT_LABEL VerdictUnknown = ''Unknown''"

fun VERDICT_TONE :: "postureVerdict \<Rightarrow> pillTone" where
  "VERDICT_TONE VerdictProtected = OkTone"
| "VERDICT_TONE VerdictAtRisk = WarnTone"
| "VERDICT_TONE VerdictUnprotected = FailTone"
| "VERDICT_TONE VerdictUnknown = NeutralTone"

fun STATUS_TONE :: "workloadStatus \<Rightarrow> pillTone" where
  "STATUS_TONE StatusProtected = OkTone"
| "STATUS_TONE StatusAtRisk = WarnTone"
| "STATUS_TONE StatusUnprotected = FailTone"

fun STATUS_LABEL :: "workloadStatus \<Rightarrow> string" where
  "STATUS_LABEL StatusProtected = ''Protected''"
| "STATUS_LABEL StatusAtRisk = ''At risk''"
| "STATUS_LABEL StatusUnprotected = ''Unprotected''"

record setupStep =
  se_label :: string
  se_to :: string
  se_hint :: string

definition setupRoute :: "dashboardStats \<Rightarrow> setupStep" where
  "setupRoute stats =
     (if js_eq (ds_hostCount stats) (Fin 0) then
        \<lparr>se_label = ''Add a Proxmox host'', se_to = ''/hosts'', se_hint = ''No cluster is connected yet, so there is nothing to evaluate.''\<rparr>
      else if js_eq (ds_targetCount stats) (Fin 0) then
        \<lparr>se_label = ''Add a storage target'', se_to = ''/targets'',
         se_hint = ''Backups need somewhere to go before any workload can be protected.''\<rparr>
      else if js_eq (ds_jobCount stats) (Fin 0) then
        \<lparr>se_label = ''Create a backup job'', se_to = ''/jobs'',
         se_hint = ''No workload is covered by a job, so no recovery point exists to evaluate.''\<rparr>
      else
        \<lparr>se_label = ''Review backup jobs'', se_to = ''/jobs'',
         se_hint = ''No job has completed a run yet, so there is no evidence to report.''\<rparr>)"

datatype verdictBody = NothingToEvaluate setupStep | CountsLine string string string

record verdictPanel =
  vp_tone :: pillTone
  vp_label :: string
  vp_body :: verdictBody
  vp_running :: "jsnum option"
  vp_reasons :: "(string \<times> string \<times> string) list"

definition postureTotal :: "postureCounts \<Rightarrow> jsnum" where
  "postureTotal c = js_add (js_add (pc_protected c) (pc_atRisk c)) (pc_unprotected c)"

definition postureEmpty :: "posture \<Rightarrow> bool" where
  "postureEmpty p \<longleftrightarrow> po_verdict p = VerdictUnknown \<or> js_eq (postureTotal (po_counts p)) (Fin 0)"

definition VerdictPanel :: "host \<Rightarrow> posture \<Rightarrow> dashboardStats \<Rightarrow> jsnum \<Rightarrow> verdictPanel" where
  "VerdictPanel h p stats running =
     (let c = po_counts p
      in \<lparr>vp_tone = VERDICT_TONE (po_verdict p), vp_label = VERDICT_LABEL (po_verdict p),
          vp_body =
            (if postureEmpty p then NothingToEvaluate (setupRoute stats)
             else CountsLine (formatCount h (Some (pc_protected c))) (formatCount h (Some (pc_atRisk c)))
                    (formatCount h (Some (pc_unprotected c)))),
          vp_running = (if js_lt (Fin 0) running then Some running else None),
          vp_reasons = map (\<lambda>r. (formatCount h (Some (pr_workloads r)), pr_detail r, pr_code r)) (po_reasons p)\<rparr>)"

subsection \<open>Workloads\<close>

text \<open>The filter, \<open>None\<close> for all.\<close>

type_synonym postureFilter = "workloadStatus option"

definition FILTERS :: "(postureFilter \<times> string) list" where
  "FILTERS = [(None, ''All''), (Some StatusAtRisk, ''At risk''), (Some StatusUnprotected, ''Unprotected''), (Some StatusProtected, ''Protected'')]"

fun STATUS_WEIGHT :: "workloadStatus \<Rightarrow> int" where
  "STATUS_WEIGHT StatusUnprotected = 0"
| "STATUS_WEIGHT StatusAtRisk = 1"
| "STATUS_WEIGHT StatusProtected = 2"

text \<open>The counters are bumped one workload at a time.\<close>

definition filterCounts :: "postureWorkload list \<Rightarrow> postureFilter \<Rightarrow> nat" where
  "filterCounts ws =
     foldl (\<lambda>m w. m(Some (pw_status w) := m (Some (pw_status w)) + 1)) (\<lambda>f. case f of None \<Rightarrow> length ws | Some _ \<Rightarrow> 0) ws"

definition workloadOrder :: "(string \<Rightarrow> string \<Rightarrow> int) \<Rightarrow> postureWorkload \<Rightarrow> postureWorkload \<Rightarrow> int" where
  "workloadOrder localeCompare a b =
     (if STATUS_WEIGHT (pw_status a) \<noteq> STATUS_WEIGHT (pw_status b) then STATUS_WEIGHT (pw_status a) - STATUS_WEIGHT (pw_status b)
      else localeCompare (pw_name a) (pw_name b))"

definition workloadRows :: "(string \<Rightarrow> string \<Rightarrow> int) \<Rightarrow> postureFilter \<Rightarrow> postureWorkload list \<Rightarrow> postureWorkload list" where
  "workloadRows localeCompare f ws =
     sort_by (workloadOrder localeCompare) (case f of None \<Rightarrow> ws | Some s \<Rightarrow> filter (\<lambda>w. pw_status w = s) ws)"

record workloadRow =
  wr_identity :: "string list \<times> string option"
  wr_policy :: "(string \<times> bool) option"
  wr_success :: "(string \<times> string \<times> (string \<times> bool) option) option"
  wr_failure :: "string option"
  wr_verified :: "(string \<times> string) option"
  wr_points :: "string \<times> bool"
  wr_status :: "pillTone \<times> string"

definition workloadRowOf :: "host \<Rightarrow> postureWorkload \<Rightarrow> workloadRow" where
  "workloadRowOf h w =
     \<lparr>wr_identity =
        stackedIdentity \<lparr>w_hostName = Some (pw_hostName w), w_name = pw_name w,
          w_vmid = (case pw_vmid w of Some n \<Rightarrow> JNum n | None \<Rightarrow> JNull), w_node = Some (pw_node w)\<rparr>,
      wr_policy = map_option (\<lambda>p. (p, \<not> pw_enabled w)) (opt_text (pw_policy w)),
      wr_success =
        map_option (\<lambda>t. (formatRelative h (Some t), formatDateTime h (Some t),
            map_option (\<lambda>r. (r, pw_withinRpo w = Some False)) (describeRpo (pw_ageHours w) (pw_rpoHours w))))
          (opt_text (pw_lastSuccessAt w)),
      wr_failure = map_option (\<lambda>t. ''Last run failed '' @ formatRelative h (Some t)) (opt_text (pw_lastFailureAt w)),
      wr_verified =
        map_option (\<lambda>t. (formatRelative h (Some t), ''Integrity verified '' @ formatDateTime h (Some t))) (opt_text (pw_lastVerifiedAt w)),
      wr_points = (formatCount h (Some (pw_restorePoints w)), js_eq (pw_restorePoints w) (Fin 0)),
      wr_status = (STATUS_TONE (pw_status w), STATUS_LABEL (pw_status w))\<rparr>"

record workloadTable =
  wt_chips :: "(string \<times> nat \<times> bool) list"
  wt_rows :: "workloadRow list"

definition WorkloadTable :: "host \<Rightarrow> (string \<Rightarrow> string \<Rightarrow> int) \<Rightarrow> postureFilter \<Rightarrow> postureWorkload list \<Rightarrow> workloadTable" where
  "WorkloadTable h localeCompare f ws =
     \<lparr>wt_chips = map (\<lambda>(v, label). (label, filterCounts ws v, f = v)) FILTERS,
      wt_rows = map (workloadRowOf h) (workloadRows localeCompare f ws)\<rparr>"

subsection \<open>Activity\<close>

record donutSlice =
  sl_key :: string
  sl_name :: string
  sl_value :: jsnum

definition outcomeSlices :: "dashboardStats \<Rightarrow> donutSlice list" where
  "outcomeSlices stats =
     [\<lparr>sl_key = ''succeeded'', sl_name = ''Succeeded'', sl_value = l24_succeeded (ds_last24h stats)\<rparr>,
      \<lparr>sl_key = ''failed'', sl_name = ''Failed'', sl_value = l24_failed (ds_last24h stats)\<rparr>,
      \<lparr>sl_key = ''running'', sl_name = ''Running'', sl_value = l24_running (ds_last24h stats)\<rparr>]"

definition OutcomeDonut :: "donutSlice list \<Rightarrow> donutSlice list" where
  "OutcomeDonut slices = filter (\<lambda>s. js_lt (Fin 0) (sl_value s)) slices"

text \<open>Nothing, or the ring with the number in it; and the legend.\<close>

record outcomeChart =
  oc_ring :: "(donutSlice list \<times> string) option"
  oc_legend :: "(string \<times> string) list"

definition OutcomeChart :: "host \<Rightarrow> dashboardStats \<Rightarrow> outcomeChart" where
  "OutcomeChart h stats =
     (let slices = outcomeSlices stats; runs = foldl (\<lambda>sum s. js_add sum (sl_value s)) (Fin 0) slices
      in \<lparr>oc_ring = (if js_eq runs (Fin 0) then None else Some (OutcomeDonut slices, formatCount h (Some runs))),
          oc_legend = map (\<lambda>s. (sl_name s, formatCount h (Some (sl_value s)))) slices\<rparr>)"

record storageCard =
  sc_stored :: string
  sc_avoided :: string
  sc_logical :: string
  sc_pct :: string
  sc_bar :: "jsnum \<times> jsnum"

definition avoidedPct :: "dashboardStats \<Rightarrow> jsnum" where
  "avoidedPct stats =
     (let stored = js_max (Fin 0) (ds_storageBytes stats); avoided = js_max (Fin 0) (ds_dedupSavedBytes stats);
          logical = js_add stored avoided
      in if js_lt (Fin 0) logical then js_mul (js_div avoided logical) (Fin 100) else Fin 0)"

definition StorageCard :: "host \<Rightarrow> dashboardStats \<Rightarrow> storageCard" where
  "StorageCard h stats =
     (let stored = js_max (Fin 0) (ds_storageBytes stats); avoided = js_max (Fin 0) (ds_dedupSavedBytes stats);
          pct = clampPct (Some (avoidedPct stats))
      in \<lparr>sc_stored = formatBytes h (Some stored) 1, sc_avoided = formatBytes h (Some avoided) 1,
          sc_logical = formatBytes h (Some (js_add stored avoided)) 1, sc_pct = to_fixed 0 pct @ ''%'',
          sc_bar = (js_sub (Fin 100) pct, pct)\<rparr>)"

definition ReductionCell :: "jobRun \<Rightarrow> (string \<times> string option) option" where
  "ReductionCell run =
     (let reduction = reductionOf (figuresOf run)
      in if \<not> dr_applies reduction then None
         else Some (formatReduction (Some (dr_pct reduction)), map_option (\<lambda>r. formatRatio (Some r)) (dr_ratio reduction)))"

datatype recentNote = RecentProgress "jsnum \<times> string" string | RecentError string | RecentQuiet

record recentRow =
  re_job :: string
  re_note :: recentNote
  re_pill :: "pillTone \<times> string \<times> bool"
  re_started :: "string \<times> string"
  re_duration :: string
  re_processed :: string
  re_transferred :: string
  re_reduction :: "(string \<times> string option) option"

definition recentRowOf :: "host \<Rightarrow> jobRun \<Rightarrow> recentRow" where
  "recentRowOf h run =
     \<lparr>re_job = jr_jobName run,
      re_note =
        (if jr_status run = RunRunning
         then RecentProgress (ProgressBar (jr_progressPct run)) (to_fixed 0 (clampPct (Some (jr_progressPct run))) @ ''%'')
         else case opt_text (jr_error run) of Some err \<Rightarrow> RecentError err | None \<Rightarrow> RecentQuiet),
      re_pill = RunStatusPill (run_status_str (jr_status run)),
      re_started = (formatRelative h (Some (jr_startedAt run)), formatDateTime h (Some (jr_startedAt run))),
      re_duration = formatDuration h (Some (jr_startedAt run)) (jr_finishedAt run),
      re_processed = formatBytes h (Some (jr_bytesProcessed run)) 1, re_transferred = formatBytes h (Some (jr_bytesUploaded run)) 1,
      re_reduction = ReductionCell run\<rparr>"

subsection \<open>The page\<close>

record dashboard =
  db_async :: "dashboardData async"
  db_filter :: postureFilter

definition mountDashboard :: dashboard where
  "mountDashboard = \<lparr>db_async = mountAsync, db_filter = None\<rparr>"

definition hasRunning :: "dashboard \<Rightarrow> bool" where
  "hasRunning d \<longleftrightarrow>
     (case as_data (db_async d) of
        None \<Rightarrow> False
      | Some x \<Rightarrow>
          js_lt (Fin 0) (l24_running (ds_last24h (dd_stats x))) \<or>
          list_ex (\<lambda>run. jr_status run = RunRunning) (ds_recentRuns (dd_stats x)))"

definition jobTime :: "host \<Rightarrow> job \<Rightarrow> int option" where
  "jobTime h j = (case j_nextRun j of Some t \<Rightarrow> h_parse h t | None \<Rightarrow> None)"

definition nextRunJob :: "host \<Rightarrow> job list \<Rightarrow> job option" where
  "nextRunJob h jobs =
     (case sort_by (\<lambda>a b. time_minus (jobTime h a) (jobTime h b)) (filter (\<lambda>j. j_enabled j \<and> opt_text (j_nextRun j) \<noteq> None) jobs) of
        j # _ \<Rightarrow> Some j
      | [] \<Rightarrow> None)"

definition nextRunHint :: "host \<Rightarrow> job list \<Rightarrow> string" where
  "nextRunHint h jobs =
     (case nextRunJob h jobs of
        Some j \<Rightarrow> ''Next run '' @ formatRelative h (j_nextRun j) @ '' '' @ middle_dot @ '' '' @ j_name j
      | None \<Rightarrow> ''No enabled job has a schedule'')"

datatype postureView = PosturePanel verdictPanel "(nat \<times> string \<times> workloadTable) option" | PostureError string

record dashboardView =
  dv_posture :: postureView
  dv_tiles :: "(string \<times> string \<times> string) list"
  dv_outcomes :: outcomeChart
  dv_storage :: storageCard
  dv_recent :: "recentRow list"
  dv_first :: "(string \<times> string) option"

definition countTiles :: "host \<Rightarrow> dashboardStats \<Rightarrow> (string \<times> string \<times> string) list" where
  "countTiles h stats =
     map (\<lambda>(label, value, to). (label, formatCount h (Some value), to))
       [(''Virtual machines'', ds_vmCount stats, ''/vms''), (''Proxmox hosts'', ds_hostCount stats, ''/hosts''),
        (''Agents'', ds_agentCount stats, ''/agents''), (''Storage targets'', ds_targetCount stats, ''/targets''),
        (''Backup jobs'', ds_jobCount stats, ''/jobs'')]"

definition postureViewOf :: "host \<Rightarrow> (string \<Rightarrow> string \<Rightarrow> int) \<Rightarrow> postureFilter \<Rightarrow> dashboardData \<Rightarrow> postureView" where
  "postureViewOf h localeCompare f d =
     (case dd_posture d of
        Some p \<Rightarrow>
          PosturePanel (VerdictPanel h p (dd_stats d) (l24_running (ds_last24h (dd_stats d))))
            (if po_workloads p = [] then None
             else Some (length (po_workloads p), nextRunHint h (dd_jobs d), WorkloadTable h localeCompare f (po_workloads p)))
      | None \<Rightarrow>
          PostureError (case dd_postureError d of
              Some err \<Rightarrow> err
            | None \<Rightarrow> ''The server did not answer the posture request. Until it does, this console cannot state whether the estate is recoverable.''))"

definition firstSteps :: "dashboardStats \<Rightarrow> (string \<times> string) option" where
  "firstSteps stats =
     (if js_eq (ds_hostCount stats) (Fin 0) then Some (''Add your first Proxmox host'', ''/hosts'')
      else if js_eq (ds_targetCount stats) (Fin 0) then Some (''Add a storage target'', ''/targets'')
      else None)"

definition dashboardViewOf :: "host \<Rightarrow> (string \<Rightarrow> string \<Rightarrow> int) \<Rightarrow> dashboard \<Rightarrow> dashboardView option pageView" where
  "dashboardViewOf h localeCompare d =
     pageViewOf (db_async d)
       (map_option (\<lambda>x.
          \<lparr>dv_posture = postureViewOf h localeCompare (db_filter d) x, dv_tiles = countTiles h (dd_stats x),
           dv_outcomes = OutcomeChart h (dd_stats x), dv_storage = StorageCard h (dd_stats x),
           dv_recent = map (recentRowOf h) (ds_recentRuns (dd_stats x)), dv_first = firstSteps (dd_stats x)\<rparr>)
         (as_data (db_async d)))"

datatype dashboardEvent =
    ReloadDashboard
  | PollDashboard
  | DashboardAnswer "(dashboardStats \<times> job list) exn" "posture exn"
  | PickFilter postureFilter

text \<open>The table of workloads is mounted while the posture lists workloads; mounting it shows all of them.\<close>

definition tableShown :: "dashboard \<Rightarrow> bool" where
  "tableShown d \<longleftrightarrow>
     (case as_data (db_async d) of
        Some x \<Rightarrow> (case dd_posture x of Some p \<Rightarrow> po_workloads p \<noteq> [] | None \<Rightarrow> False)
      | None \<Rightarrow> False)"

text \<open>The error of the posture has a retry of its own, which is there also while the page loads.\<close>

definition postureMissing :: "dashboard \<Rightarrow> bool" where
  "postureMissing d \<longleftrightarrow> (case as_data (db_async d) of Some x \<Rightarrow> dd_posture x = None | None \<Rightarrow> False)"

fun dashboardOffered :: "dashboard \<Rightarrow> dashboardEvent \<Rightarrow> bool" where
  "dashboardOffered d ReloadDashboard =
     (if as_loading (db_async d) then postureMissing d
      else as_data (db_async d) \<noteq> None \<or> as_error (db_async d) \<notin> {None, Some []})"
| "dashboardOffered d PollDashboard = hasRunning d"
| "dashboardOffered d (DashboardAnswer s p) = (0 < as_out (db_async d))"
| "dashboardOffered d (PickFilter f) = (tableShown d \<and> f \<in> fst ` set FILTERS)"

fun dashboardStep :: "dashboardEvent \<Rightarrow> dashboard \<Rightarrow> dashboard" where
  "dashboardStep ReloadDashboard d = d\<lparr>db_async := asyncStep Reload (db_async d)\<rparr>"
| "dashboardStep PollDashboard d = d\<lparr>db_async := asyncStep Refresh (db_async d)\<rparr>"
| "dashboardStep (DashboardAnswer s p) d =
     (let q = d\<lparr>db_async := asyncStep (LoaderSettles (loadDashboard s p)) (db_async d)\<rparr>
      in if tableShown q then q else q\<lparr>db_filter := None\<rparr>)"
| "dashboardStep (PickFilter f) d = d\<lparr>db_filter := f\<rparr>"

subsection \<open>Lemmas\<close>

text \<open>The number on a chip is the number of rows it shows.\<close>

lemma bumped_counts:
  "foldl (\<lambda>m w. m(Some (pw_status w) := m (Some (pw_status w)) + 1)) c ws f =
     c f + (case f of None \<Rightarrow> 0 | Some s \<Rightarrow> length (filter (\<lambda>w. pw_status w = s) ws))"
  by (induction ws arbitrary: c) (auto split: option.splits)

lemma chip_counts_rows: "filterCounts ws f = length (workloadRows cmp f ws)"
  unfolding filterCounts_def bumped_counts by (cases f) (simp_all add: workloadRows_def)

text \<open>Under every filter each workload of that status is listed once, those that need somebody first, then by name.\<close>

lemma workloadOrder_comparator:
  assumes "comparator cmp"
  shows "comparator (workloadOrder cmp)"
proof -
  have "0 < cmp x y \<Longrightarrow> cmp y x \<le> 0" "cmp x y \<le> 0 \<Longrightarrow> cmp y z \<le> 0 \<Longrightarrow> cmp x z \<le> 0" for x y z
    using assms by (auto simp: comparator_def)
  then show ?thesis unfolding comparator_def workloadOrder_def by (auto split: if_splits)
qed

lemma workload_rows:
  assumes "comparator cmp"
  shows "mset (workloadRows cmp f ws) = mset (filter (\<lambda>w. f = None \<or> f = Some (pw_status w)) ws) \<and>
    sorted_wrt (\<lambda>a b. STATUS_WEIGHT (pw_status a) \<le> STATUS_WEIGHT (pw_status b)) (workloadRows cmp f ws)"
proof
  show "mset (workloadRows cmp f ws) = mset (filter (\<lambda>w. f = None \<or> f = Some (pw_status w)) ws)"
    by (cases f) (auto simp: workloadRows_def eq_commute)
  have "sorted_wrt (\<lambda>a b. workloadOrder cmp a b \<le> 0) (workloadRows cmp f ws)"
    unfolding workloadRows_def by (rule sorted_sort_by [OF workloadOrder_comparator [OF assms]])
  then show "sorted_wrt (\<lambda>a b. STATUS_WEIGHT (pw_status a) \<le> STATUS_WEIGHT (pw_status b)) (workloadRows cmp f ws)"
    by (rule sorted_wrt_mono_rel [rotated]) (auto simp: workloadOrder_def split: if_splits)
qed

text \<open>Whatever the server reports, the two parts of the storage bar are between nothing and all of it.\<close>

lemma clampPct_range: "\<exists>x. clampPct p = Fin x \<and> 0 \<le> x \<and> x \<le> 100"
  by (auto simp: clampPct_def js_is_finite_iff split: option.splits)

lemma storage_bar_bounds:
  "\<exists>a b. sc_bar (StorageCard h stats) = (Fin a, Fin b) \<and> 0 \<le> a \<and> a \<le> 100 \<and> 0 \<le> b \<and> b \<le> 100"
proof -
  obtain x where x: "clampPct (Some (avoidedPct stats)) = Fin x" "0 \<le> x" "x \<le> 100" using clampPct_range by blast
  have "\<exists>r. fl (100 - x) = Fin r \<and> 0 \<le> r \<and> r \<le> 100" by (rule fl_range) (use x in auto)
  then show ?thesis using x by (auto simp: StorageCard_def Let_def js_sub_def)
qed

text \<open>The run that is announced is the next one of an enabled job.\<close>

lemma nextRunJob_first:
  assumes "nextRunJob h jobs = Some j" "\<forall>x\<in>set jobs. j_enabled x \<and> opt_text (j_nextRun x) \<noteq> None \<longrightarrow> jobTime h x \<noteq> None"
  shows "j \<in> set jobs \<and> j_enabled j \<and>
    (\<forall>x\<in>set jobs. j_enabled x \<and> opt_text (j_nextRun x) \<noteq> None \<longrightarrow> the (jobTime h j) \<le> the (jobTime h x))"
proof -
  let ?ready = "filter (\<lambda>j. j_enabled j \<and> opt_text (j_nextRun j) \<noteq> None) jobs"
  let ?sorted = "sort_by (\<lambda>a b. time_minus (jobTime h a) (jobTime h b)) ?ready"
  obtain rest where s: "?sorted = j # rest" using assms(1) by (auto simp: nextRunJob_def split: list.splits)
  have "sorted_wrt (\<lambda>x y. the (jobTime h x) \<le> the (jobTime h y)) ?sorted" using assms(2) by (intro sorted_by_time(1)) auto
  then have "\<forall>x\<in>set ?sorted. the (jobTime h j) \<le> the (jobTime h x)" unfolding s by simp
  moreover have "j \<in> set ?sorted" unfolding s by simp
  ultimately show ?thesis by auto
qed

text \<open>The last answer whose figures arrived.\<close>

fun lastFigures :: "dashboardEvent list \<Rightarrow> ((dashboardStats \<times> job list) \<times> posture exn) option" where
  "lastFigures [] = None"
| "lastFigures (e # es) =
     (case (lastFigures es, e) of
        (Some x, _) \<Rightarrow> Some x
      | (None, DashboardAnswer (Inr figures) p) \<Rightarrow> Some (figures, p)
      | _ \<Rightarrow> None)"

definition dataOf :: "(dashboardStats \<times> job list) \<times> posture exn \<Rightarrow> dashboardData" where
  "dataOf x = \<lparr>dd_stats = fst (fst x), dd_jobs = snd (fst x), dd_posture = (case snd x of Inr p \<Rightarrow> Some p | Inl _ \<Rightarrow> None),
     dd_postureError = (case snd x of Inr _ \<Rightarrow> None | Inl err \<Rightarrow> Some (errorMessage err))\<rparr>"

lemma dashboardStep_mounted: "as_mounted (db_async (dashboardStep e d)) = as_mounted (db_async d)"
  by (cases e) (auto simp: Let_def split: sum.splits)

lemma dashboardStep_data:
  assumes "as_mounted (db_async d)"
  shows "as_data (db_async (dashboardStep e d)) =
    (case lastFigures [e] of Some x \<Rightarrow> Some (dataOf x) | None \<Rightarrow> as_data (db_async d))"
  using assms by (cases e) (auto simp: Let_def loadDashboard_def dataOf_def split: sum.splits)

lemma run_dashboard_data:
  "run_events dashboardStep dashboardOffered es d = Some d' \<Longrightarrow> as_mounted (db_async d) \<Longrightarrow>
    as_data (db_async d') = (case lastFigures es of Some x \<Rightarrow> Some (dataOf x) | None \<Rightarrow> as_data (db_async d))"
proof (induction es arbitrary: d)
  case (Cons e es)
  then have "as_data (db_async d') = (case lastFigures es of Some x \<Rightarrow> Some (dataOf x) | None \<Rightarrow> as_data (db_async (dashboardStep e d)))"
    by (simp add: dashboardStep_mounted del: dashboardStep.simps split: if_splits)
  then show ?case using dashboardStep_data [OF Cons.prems(2), of e] by (auto split: option.splits dashboardEvent.splits sum.splits)
qed simp

subsection \<open>Properties\<close>

text \<open>
  C16 (no verdict by omission): in every run of the dashboard, once it shows something, it shows the posture of the last
  answer whose figures arrived: the verdict the server gave then, with the counts and reasons behind it,
  or, when the server could not evaluate it then, the error and no verdict, whatever verdict was on screen before.
\<close>

theorem dashboard_shows_last_evidence:
  assumes "run_events dashboardStep dashboardOffered es mountDashboard = Some d" "dashboardViewOf h cmp d = PageReady (Some v)"
  shows "\<exists>figures p. lastFigures es = Some (figures, p) \<and>
    (case p of
       Inr po \<Rightarrow> (\<exists>table. dv_posture v = PosturePanel (VerdictPanel h po (fst figures) (l24_running (ds_last24h (fst figures)))) table)
     | Inl err \<Rightarrow> dv_posture v = PostureError (errorMessage err))"
proof -
  have "as_data (db_async d) = map_option dataOf (lastFigures es)"
    using run_dashboard_data [OF assms(1)] by (auto simp: mountDashboard_def mountAsync_def split: option.splits)
  moreover have "as_data (db_async d) \<noteq> None \<and> dv_posture v = postureViewOf h cmp (db_filter d) (the (as_data (db_async d)))"
    using assms(2) by (auto simp: dashboardViewOf_def pageViewOf_def split: option.splits if_splits)
  ultimately obtain figures p where "lastFigures es = Some (figures, p)"
    "dv_posture v = postureViewOf h cmp (db_filter d) (dataOf (figures, p))" by (cases "lastFigures es") auto
  then show ?thesis by (cases p) (auto simp: postureViewOf_def dataOf_def)
qed

definition quiet_stats :: dashboardStats where
  "quiet_stats =
     \<lparr>ds_vmCount = Fin 1, ds_agentCount = Fin 0, ds_hostCount = Fin 1, ds_targetCount = Fin 1, ds_jobCount = Fin 1,
      ds_last24h = \<lparr>l24_succeeded = Fin 1, l24_failed = Fin 0, l24_running = Fin 0\<rparr>, ds_storageBytes = Fin 0, ds_dedupSavedBytes = Fin 0,
      ds_recentRuns = []\<rparr>"

definition green_posture :: posture where
  "green_posture =
     \<lparr>po_verdict = VerdictProtected, po_counts = \<lparr>pc_protected = Fin 1, pc_atRisk = Fin 0, pc_unprotected = Fin 0\<rparr>, po_reasons = [], po_workloads = []\<rparr>"

definition bare_host :: host where
  "bare_host = \<lparr>h_zone = fixed_zone 0, h_now = 0, h_parse = (\<lambda>_. None), h_parts = (\<lambda>_ _. None), h_datetime = (\<lambda>_. []),
     h_clock = (\<lambda>_. []), h_date = (\<lambda>_. []), h_group = num_str, h_log = (\<lambda>n. n)\<rparr>"

theorem dashboard_shows_last_evidence_witness:
  "\<exists>d v. run_events dashboardStep dashboardOffered
      [DashboardAnswer (Inr (quiet_stats, [])) (Inr green_posture), ReloadDashboard,
       DashboardAnswer (Inr (quiet_stats, [])) (Inl (OtherError ''down''))] mountDashboard = Some d \<and>
    dashboardViewOf bare_host (\<lambda>_ _. 0) d = PageReady (Some v) \<and> dv_posture v = PostureError (errorMessage (OtherError ''down''))"
proof -
  let ?es = "[DashboardAnswer (Inr (quiet_stats, [])) (Inr green_posture), ReloadDashboard,
       DashboardAnswer (Inr (quiet_stats, [])) (Inl (OtherError ''down''))]"
  obtain d where d: "run_events dashboardStep dashboardOffered ?es mountDashboard = Some d" "as_data (db_async d) \<noteq> None"
    by (simp add: mountDashboard_def mountAsync_def loadDashboard_def tableShown_def green_posture_def Let_def)
  obtain v where v: "dashboardViewOf bare_host (\<lambda>_ _. 0) d = PageReady (Some v)"
    using d(2) by (auto simp: dashboardViewOf_def pageViewOf_data)
  from dashboard_shows_last_evidence [OF d(1) v] d(1) v show ?thesis by auto
qed

text \<open>
  Figures that fail to arrive leave the verdict on screen: the error of a reading is shown only before
  the first one has succeeded.
\<close>

lemma stale_verdict_run:
  "\<exists>d v table. run_events dashboardStep dashboardOffered
      [DashboardAnswer (Inr (quiet_stats, [])) (Inr green_posture), ReloadDashboard, DashboardAnswer (Inl err) (Inl err')] mountDashboard = Some d \<and>
    dashboardViewOf h cmp d = PageReady (Some v) \<and> as_error (db_async d) = Some (errorMessage err) \<and>
    dv_posture v = PosturePanel (VerdictPanel h green_posture quiet_stats (Fin 0)) table"
  by (simp add: mountDashboard_def mountAsync_def loadDashboard_def tableShown_def Let_def dashboardViewOf_def pageViewOf_def postureViewOf_def
      quiet_stats_def)

end
