(* ===== verification/Navigation.thy ===== *)
theory Navigation
  imports App_Gate
begin

text \<open>
  The frame around every page (\<open>web/src/components/Layout.tsx\<close>): the navigation a role sees, the drawer of
  small screens, what the frame says about the session; and the copy button of tokens and commands
  (\<open>web/src/components/CopyField.tsx\<close>).
\<close>

subsection \<open>Navigation\<close>

datatype capability = ManageUsers | ManageInfrastructure | OperateJobs | ViewAudit

fun canDo :: "capabilities \<Rightarrow> capability \<Rightarrow> bool" where
  "canDo c ManageUsers = manageUsers c"
| "canDo c ManageInfrastructure = manageInfrastructure c"
| "canDo c OperateJobs = operateJobs c"
| "canDo c ViewAudit = viewAudit c"

record navItem =
  ni_to :: string
  ni_label :: string
  ni_needs :: "capability option"

abbreviation openItem :: "string \<Rightarrow> string \<Rightarrow> navItem" where
  "openItem path label \<equiv> \<lparr>ni_to = path, ni_label = label, ni_needs = None\<rparr>"

definition NAV_GROUPS :: "(string \<times> navItem list) list" where
  "NAV_GROUPS =
     [(''Overview'', [openItem ''/'' ''Dashboard'']),
      (''Infrastructure'', [openItem ''/hosts'' ''Proxmox Hosts'', openItem ''/vms'' ''Virtual Machines'', openItem ''/agents'' ''Agents'']),
      (''Protection'',
       [openItem ''/jobs'' ''Backup Jobs'', openItem ''/monitor'' ''Monitor'', openItem ''/restore-points'' ''Restore Points'',
        openItem ''/targets'' ''Storage Targets'']),
      (''System'',
       [\<lparr>ni_to = ''/users'', ni_label = ''Users'', ni_needs = Some ManageUsers\<rparr>,
        \<lparr>ni_to = ''/audit'', ni_label = ''Audit'', ni_needs = Some ViewAudit\<rparr>, openItem ''/settings'' ''Settings''])]"

definition navVisible :: "capabilities \<Rightarrow> navItem \<Rightarrow> bool" where
  "navVisible c i = (case ni_needs i of Some n \<Rightarrow> canDo c n | None \<Rightarrow> True)"

definition navFor :: "capabilities \<Rightarrow> (string \<times> navItem list) list" where
  "navFor c =
     filter (\<lambda>(heading, items). items \<noteq> []) (map (\<lambda>(heading, items). (heading, filter (navVisible c) items)) NAV_GROUPS)"

definition navLinks :: "capabilities \<Rightarrow> string list" where
  "navLinks c = concat (map (\<lambda>(heading, items). map ni_to items) (navFor c))"

text \<open>An address is matched by what comes before its query.\<close>

definition routeOf :: "string \<Rightarrow> string" where
  "routeOf path = tl (takeWhile (\<lambda>c. c \<noteq> CHR ''?'') path)"

subsection \<open>The frame\<close>

record layout =
  la_drawer :: bool
  la_path :: string

definition mountLayout :: "string \<Rightarrow> layout" where
  "mountLayout path = \<lparr>la_drawer = False, la_path = path\<rparr>"

datatype layoutEvent = OpenDrawer | CloseDrawer | FollowLink string | LocationChanges string

text \<open>The effect on the path runs when the path has changed.\<close>

definition moveTo :: "string \<Rightarrow> layout \<Rightarrow> layout" where
  "moveTo path l = l\<lparr>la_path := path, la_drawer := (la_drawer l \<and> path = la_path l)\<rparr>"

fun layoutOffered :: "session \<Rightarrow> layout \<Rightarrow> layoutEvent \<Rightarrow> bool" where
  "layoutOffered s l OpenDrawer = True"
| "layoutOffered s l CloseDrawer = la_drawer l"
| "layoutOffered s l (FollowLink path) = (path \<in> set (navLinks (s_can s)))"
| "layoutOffered s l (LocationChanges path) = True"

text \<open>A link of the drawer also closes it, when the path stays the same too; a link of the sidebar finds the drawer closed.\<close>

fun layoutStep :: "layoutEvent \<Rightarrow> layout \<Rightarrow> layout" where
  "layoutStep OpenDrawer l = l\<lparr>la_drawer := True\<rparr>"
| "layoutStep CloseDrawer l = l\<lparr>la_drawer := False\<rparr>"
| "layoutStep (FollowLink path) l = (moveTo path l)\<lparr>la_drawer := False\<rparr>"
| "layoutStep (LocationChanges path) l = moveTo path l"

definition RoleBadge :: "role \<Rightarrow> string \<times> string" where
  "RoleBadge role = (role_str role, ''Signed in with the '' @ map ascii_lower (ROLE_LABEL role) @ '' role'')"

record layoutView =
  lv_groups :: "(string \<times> navItem list) list"
  lv_user :: string
  lv_version :: "string option"
  lv_role :: "string \<times> string"
  lv_server :: string
  lv_notice :: "string option"
  lv_drawer :: bool

definition Layout :: "session \<Rightarrow> layout \<Rightarrow> layoutView" where
  "Layout s l =
     \<lparr>lv_groups = navFor (s_can s), lv_user = ''Signed in as '' @ val_str (jprop (s_user s) ''username''),
      lv_version = (if s_serverVersion s = [] then None else Some (''v'' @ s_serverVersion s)),
      lv_role = RoleBadge (s_role s), lv_server = s_serverName s,
      lv_notice = (if s_mustChangePassword s then Some ''/settings'' else None), lv_drawer = la_drawer l\<rparr>"

subsection \<open>Copying\<close>

text \<open>
  What the browser does: \<open>cb_write\<close> whether writing to the clipboard succeeds, \<open>None\<close> when it has no clipboard;
  \<open>cb_exec\<close> what the copy command answers, \<open>None\<close> when it throws.
\<close>

record clipboard =
  cb_write :: "bool option"
  cb_exec :: "bool option"

definition copyText :: "clipboard \<Rightarrow> bool" where
  "copyText cb = (cb_write cb = Some True \<or> cb_exec cb = Some True)"

record copyButton =
  cp_copied :: bool
  cp_out :: nat
  cp_timers :: nat
  cp_toasts :: "(string \<times> string) list"

definition mountCopy :: copyButton where
  "mountCopy = \<lparr>cp_copied = False, cp_out = 0, cp_timers = 0, cp_toasts = []\<rparr>"

datatype copyEvent = ClickCopy | CopySettles clipboard | CopyTimer

fun copyOffered :: "copyButton \<Rightarrow> copyEvent \<Rightarrow> bool" where
  "copyOffered c ClickCopy = True"
| "copyOffered c (CopySettles cb) = (0 < cp_out c)"
| "copyOffered c CopyTimer = (0 < cp_timers c)"

fun copyStep :: "string \<Rightarrow> copyEvent \<Rightarrow> copyButton \<Rightarrow> copyButton" where
  "copyStep label ClickCopy c = c\<lparr>cp_out := cp_out c + 1\<rparr>"
| "copyStep label (CopySettles cb) c =
     (let d = c\<lparr>cp_out := cp_out c - 1\<rparr>
      in if copyText cb
         then d\<lparr>cp_copied := True, cp_timers := cp_timers d + 1, cp_toasts := (label @ '' copied to the clipboard.'', []) # cp_toasts d\<rparr>
         else d\<lparr>cp_toasts := (''Could not copy'', ''Select the text and copy it manually.'') # cp_toasts d\<rparr>)"
| "copyStep label CopyTimer c = c\<lparr>cp_copied := False, cp_timers := cp_timers c - 1\<rparr>"

definition CopyField :: "string option \<Rightarrow> string option \<Rightarrow> string" where
  "CopyField label copyLabel = (case copyLabel of Some c \<Rightarrow> c | None \<Rightarrow> (case label of Some l \<Rightarrow> l | None \<Rightarrow> ''Command''))"

subsection \<open>Lemmas\<close>

lemma navLinks_role:
  "navLinks (capabilitiesFor role) =
     [''/'', ''/hosts'', ''/vms'', ''/agents'', ''/jobs'', ''/monitor'', ''/restore-points'', ''/targets''] @
     (if role = Admin then [''/users'', ''/audit''] else []) @ [''/settings'']"
  by (cases role) (simp_all add: navLinks_def navFor_def NAV_GROUPS_def navVisible_def)

lemma routeElement_found: "path \<in> fst ` set ROUTES \<Longrightarrow> routeElement s path \<noteq> Page NotFoundPage"
  unfolding ROUTES_def by (elim imageE) (auto simp: routeElement_def ROUTES_def AdminOnly_def)

text \<open>
  The navigation of a session and the routes agree: it lists exactly the routes that show their page to
  the session, and no group of it is empty.
\<close>

lemma navigation_is_routes:
  assumes "s_can s = capabilitiesFor (s_role s)"
  shows "routeOf ` set (navLinks (s_can s)) = {path \<in> fst ` set ROUTES. \<exists>p. routeElement s path = Page p} \<and>
    (\<forall>(heading, items)\<in>set (navFor (s_can s)). items \<noteq> [])"
proof
  show "routeOf ` set (navLinks (s_can s)) = {path \<in> fst ` set ROUTES. \<exists>p. routeElement s path = Page p}"
    unfolding assms navLinks_role
    by (cases "s_role s") (auto simp: routeOf_def ROUTES_def routeElement_def AdminOnly_def assms)
qed (auto simp: navFor_def)

text \<open>Following a link always closes the drawer, and a change of the path does too.\<close>

lemma drawer_closes:
  "\<not> la_drawer (layoutStep (FollowLink path) l)" "path \<noteq> la_path l \<Longrightarrow> \<not> la_drawer (layoutStep (LocationChanges path) l)"
  by (simp_all add: moveTo_def)

text \<open>The tick goes away: it is on only while a timer that takes it off runs.\<close>

lemma tick_has_timer: "reaches (copyStep label) copyOffered mountCopy c \<Longrightarrow> cp_copied c \<Longrightarrow> 0 < cp_timers c"
proof -
  assume r: "reaches (copyStep label) copyOffered mountCopy c"
  have "cp_copied c \<longrightarrow> 0 < cp_timers c"
    by (rule reaches_invariant [OF r, of "\<lambda>c. cp_copied c \<longrightarrow> 0 < cp_timers c"])
       (simp add: mountCopy_def, rename_tac c e, case_tac e, auto simp: Let_def)
  then show "cp_copied c \<Longrightarrow> 0 < cp_timers c" by simp
qed

end
