(* ===== verification/Modal_Lock.thy ===== *)
theory Modal_Lock
  imports Ui_Machine
begin

text \<open>
  The effects of the dialogs (\<open>web/src/components/Modal.tsx\<close>): the Escape key and the scroll lock of the page. What
  a dialog shows is in \<open>Interface_Kit\<close>. Every open dialog has a listener for keys and remembers the overflow
  the body had when its effect ran; cleaning the effect up puts that overflow back. The pages scroll
  by the body, so the lock that is left behind decides whether the console scrolls at all.
\<close>

subsection \<open>The lock\<close>

text \<open>The open dialogs in the order of their listeners, each with its \<open>previousOverflow\<close>.\<close>

record 'i bodyLock =
  bl_overflow :: string
  bl_modals :: "('i \<times> string) list"

abbreviation openModals :: "'i bodyLock \<Rightarrow> 'i list" where
  "openModals s \<equiv> map fst (bl_modals s)"

definition barePage :: "string \<Rightarrow> 'i bodyLock" where
  "barePage overflow = \<lparr>bl_overflow = overflow, bl_modals = []\<rparr>"

definition modalEffect :: "'i \<Rightarrow> 'i bodyLock \<Rightarrow> 'i bodyLock" where
  "modalEffect i s = s\<lparr>bl_modals := bl_modals s @ [(i, bl_overflow s)], bl_overflow := ''hidden''\<rparr>"

definition modalCleanup :: "'i \<Rightarrow> 'i bodyLock \<Rightarrow> 'i bodyLock" where
  "modalCleanup i s =
     (case map_of (bl_modals s) i of
        None \<Rightarrow> s
      | Some previousOverflow \<Rightarrow>
          s\<lparr>bl_modals := filter (\<lambda>(j, p). j \<noteq> i) (bl_modals s), bl_overflow := previousOverflow\<rparr>)"

text \<open>
  A commit of React cleans up the effects whose \<open>open\<close> or \<open>onClose\<close> changed, all of them first, and then
  runs the effects of those that are open. A dialog whose \<open>onClose\<close> is a new function, as the callers
  write it at every rendering, is in both lists.
\<close>

definition commitModals :: "'i list \<Rightarrow> 'i list \<Rightarrow> 'i bodyLock \<Rightarrow> 'i bodyLock" where
  "commitModals out ins s = fold modalEffect ins (fold modalCleanup out s)"

text \<open>
  The key goes to every listener, the first one registered first, and each closes its dialog. Between
  two listeners the browser runs the pending microtasks, in which React commits what the first one
  changed. The dialogs open at the same time are those of a page and the confirmation, and neither
  renders the other again when it closes.
\<close>

definition escapeKey :: "'i bodyLock \<Rightarrow> 'i bodyLock" where
  "escapeKey s = fold modalCleanup (openModals s) s"

datatype 'i modalEvent = CommitModals "'i list" "'i list" | EscapeKey

fun modalOffered :: "'i bodyLock \<Rightarrow> 'i modalEvent \<Rightarrow> bool" where
  "modalOffered s (CommitModals out ins) =
     (distinct out \<and> set out \<subseteq> set (openModals s) \<and> distinct ins \<and> set ins \<inter> (set (openModals s) - set out) = {})"
| "modalOffered s EscapeKey = True"

fun modalStep :: "'i modalEvent \<Rightarrow> 'i bodyLock \<Rightarrow> 'i bodyLock" where
  "modalStep (CommitModals out ins) s = commitModals out ins s"
| "modalStep EscapeKey s = escapeKey s"

subsection \<open>The order that keeps it\<close>

text \<open>
  The dialog that locked the page first remembers how the page was; all others remember \<open>hidden\<close>. The
  lock is kept as long as this one is cleaned up after the others of the same commit, and only when
  none stays or another effect runs after it.
\<close>

definition baseOf :: "'i bodyLock \<Rightarrow> 'i option" where
  "baseOf s = map_option fst (find (\<lambda>(i, p). p \<noteq> ''hidden'') (bl_modals s))"

fun cleanedUp :: "'i bodyLock \<Rightarrow> 'i modalEvent \<Rightarrow> 'i list" where
  "cleanedUp s (CommitModals out ins) = out"
| "cleanedUp s EscapeKey = openModals s"

fun effectsRun :: "'i modalEvent \<Rightarrow> 'i list" where
  "effectsRun (CommitModals out ins) = ins"
| "effectsRun EscapeKey = []"

definition baseLast :: "'i bodyLock \<Rightarrow> 'i modalEvent \<Rightarrow> bool" where
  "baseLast s e =
     (case baseOf s of
        None \<Rightarrow> True
      | Some b \<Rightarrow> b \<in> set (cleanedUp s e) \<longrightarrow>
          b = last (cleanedUp s e) \<and> (effectsRun e \<noteq> [] \<or> set (openModals s) \<subseteq> set (cleanedUp s e)))"

definition lockHeld :: "string \<Rightarrow> 'i bodyLock \<Rightarrow> bool" where
  "lockHeld orig s \<longleftrightarrow>
     distinct (openModals s) \<and>
     (if bl_modals s = [] then bl_overflow s = orig
      else bl_overflow s = ''hidden'' \<and>
        (\<exists>b. (b, orig) \<in> set (bl_modals s) \<and> (\<forall>(i, p)\<in>set (bl_modals s). p = (if i = b then orig else ''hidden''))))"

lemma step_commit: "modalStep e s = commitModals (cleanedUp s e) (effectsRun e) s"
  by (cases e) (simp_all add: commitModals_def escapeKey_def)

lemma effects_run:
  "bl_modals (fold modalEffect ins s) =
     bl_modals s @ (case ins of [] \<Rightarrow> [] | i # is \<Rightarrow> (i, bl_overflow s) # map (\<lambda>j. (j, ''hidden'')) is)"
  "bl_overflow (fold modalEffect ins s) = (if ins = [] then bl_overflow s else ''hidden'')"
proof -
  have hidden: "bl_overflow s = ''hidden'' \<Longrightarrow> bl_modals (fold modalEffect js s) = bl_modals s @ map (\<lambda>j. (j, ''hidden'')) js \<and>
      bl_overflow (fold modalEffect js s) = ''hidden''" for js s
    by (induction js arbitrary: s) (simp_all add: modalEffect_def)
  show "bl_modals (fold modalEffect ins s) =
      bl_modals s @ (case ins of [] \<Rightarrow> [] | i # is \<Rightarrow> (i, bl_overflow s) # map (\<lambda>j. (j, ''hidden'')) is)"
    "bl_overflow (fold modalEffect ins s) = (if ins = [] then bl_overflow s else ''hidden'')"
    using hidden [of "modalEffect (hd ins) s" "tl ins"] by (cases ins; simp add: modalEffect_def)+
qed

lemma map_of_filter_out: "i \<notin> A \<Longrightarrow> map_of (filter (\<lambda>(j, p). j \<notin> A) xs) i = map_of xs i"
  by (induction xs) auto

lemma cleanup_open: "map_of (bl_modals s) i = Some p \<Longrightarrow>
    bl_modals (modalCleanup i s) = filter (\<lambda>(j, q). j \<noteq> i) (bl_modals s) \<and> bl_overflow (modalCleanup i s) = p"
  by (simp add: modalCleanup_def)

lemma cleaned_up:
  "distinct out \<Longrightarrow> set out \<subseteq> set (openModals s) \<Longrightarrow>
     bl_modals (fold modalCleanup out s) = filter (\<lambda>(i, p). i \<notin> set out) (bl_modals s) \<and>
     bl_overflow (fold modalCleanup out s) = (if out = [] then bl_overflow s else the (map_of (bl_modals s) (last out)))"
proof (induction out arbitrary: s)
  case (Cons i out)
  let ?s = "modalCleanup i s"
  from Cons.prems obtain p where p: "map_of (bl_modals s) i = Some p"
    by (metis list.set_intros(1) map_of_eq_None_iff not_None_eq set_map subsetD)
  note c = cleanup_open [OF p]
  from Cons.prems c have "set out \<subseteq> set (openModals ?s)" by force
  with Cons.IH [of ?s] Cons.prems have
    "bl_modals (fold modalCleanup out ?s) = filter (\<lambda>(i, p). i \<notin> set out) (bl_modals ?s)"
    "bl_overflow (fold modalCleanup out ?s) = (if out = [] then p else the (map_of (bl_modals ?s) (last out)))"
    using c by auto
  moreover have "out \<noteq> [] \<Longrightarrow> last out \<noteq> i" using Cons.prems(1) last_in_set by fastforce
  then have "out \<noteq> [] \<Longrightarrow> map_of (bl_modals ?s) (last out) = map_of (bl_modals s) (last out)"
    using c map_of_filter_out [of "last out" "{i}" "bl_modals s"] by simp
  ultimately show ?case using c p by (auto intro: filter_cong)
qed simp


lemma held_base:
  assumes "lockHeld orig s" "orig \<noteq> ''hidden''" "bl_modals s \<noteq> []"
  obtains b where "baseOf s = Some b" "b \<in> set (openModals s)"
    "\<And>i. i \<in> set (openModals s) \<Longrightarrow> map_of (bl_modals s) i = Some (if i = b then orig else ''hidden'')"
proof -
  from assms obtain b where b: "(b, orig) \<in> set (bl_modals s)"
    "\<forall>(i, p)\<in>set (bl_modals s). p = (if i = b then orig else ''hidden'')" by (auto simp: lockHeld_def)
  have "find (\<lambda>(i, p). p \<noteq> ''hidden'') (bl_modals s) \<noteq> None"
    using b(1) assms(2) by (auto simp: find_None_iff)
  then obtain i p where f: "find (\<lambda>(i, p). p \<noteq> ''hidden'') (bl_modals s) = Some (i, p)" by auto
  then have "(i, p) \<in> set (bl_modals s)" "p \<noteq> ''hidden''" by (auto simp: find_Some_iff in_set_conv_nth)
  with b(2) have "i = b" by (auto split: if_splits)
  with f have "baseOf s = Some b" by (simp add: baseOf_def)
  moreover have "b \<in> set (openModals s)" using b(1) by force
  moreover have "map_of (bl_modals s) i = Some (if i = b then orig else ''hidden'')" if "i \<in> set (openModals s)" for i
  proof -
    from that obtain p where "map_of (bl_modals s) i = Some p" by (metis map_of_eq_None_iff not_None_eq set_map)
    then have "(i, p) \<in> set (bl_modals s)" by (rule map_of_SomeD)
    with b(2) have "p = (if i = b then orig else ''hidden'')" by blast
    with \<open>map_of (bl_modals s) i = Some p\<close> show ?thesis by simp
  qed
  ultimately show thesis by (rule that)
qed

text \<open>What a commit makes of a locked page.\<close>

lemma commit_locked:
  assumes "lockHeld orig s" "modalOffered s (CommitModals out ins)"
    and "\<And>i. i \<in> set (openModals s) \<Longrightarrow> map_of (bl_modals s) i = Some (if i = b then orig else ''hidden'')"
    and "bl_modals s \<noteq> []"
  defines "between \<equiv> if out \<noteq> [] \<and> last out = b then orig else ''hidden''"
  shows "bl_modals (commitModals out ins s) =
      filter (\<lambda>(i, p). i \<notin> set out) (bl_modals s) @
      (case ins of [] \<Rightarrow> [] | i # is \<Rightarrow> (i, between) # map (\<lambda>j. (j, ''hidden'')) is)"
    and "bl_overflow (commitModals out ins s) = (if ins = [] then between else ''hidden'')"
    and "distinct (openModals (commitModals out ins s))"
proof -
  let ?t = "fold modalCleanup out s"
  have t: "bl_modals ?t = filter (\<lambda>(i, p). i \<notin> set out) (bl_modals s)" "bl_overflow ?t = between"
  proof -
    have c: "distinct out" "set out \<subseteq> set (openModals s)" using assms(2) by simp_all
    show "bl_modals ?t = filter (\<lambda>(i, p). i \<notin> set out) (bl_modals s)" using cleaned_up [OF c] by simp
    show "bl_overflow ?t = between"
    proof (cases "out = []")
      case True
      with assms(1,4) show ?thesis by (simp add: between_def lockHeld_def)
    next
      case False
      then have "last out \<in> set (openModals s)" using c(2) by auto
      from assms(3) [OF this] False cleaned_up [OF c] show ?thesis by (simp add: between_def)
    qed
  qed
  show m: "bl_modals (commitModals out ins s) =
      filter (\<lambda>(i, p). i \<notin> set out) (bl_modals s) @
      (case ins of [] \<Rightarrow> [] | i # is \<Rightarrow> (i, between) # map (\<lambda>j. (j, ''hidden'')) is)"
    and "bl_overflow (commitModals out ins s) = (if ins = [] then between else ''hidden'')"
    by (simp_all only: commitModals_def effects_run t)
  have n: "map fst (filter (\<lambda>(i, p). i \<notin> set out) (bl_modals s)) = filter (\<lambda>i. i \<notin> set out) (openModals s)"
    by (simp add: filter_map o_def case_prod_unfold)
  have "openModals (commitModals out ins s) = filter (\<lambda>i. i \<notin> set out) (openModals s) @ ins"
    unfolding m map_append n by (cases ins) (simp_all add: o_def)
  then show "distinct (openModals (commitModals out ins s))"
    using assms(1,2) by (auto simp: lockHeld_def)
qed

lemma held_mem:
  assumes "lockHeld orig s"
    and "\<And>i. i \<in> set (openModals s) \<Longrightarrow> map_of (bl_modals s) i = Some (if i = b then orig else ''hidden'')"
  shows "(i, p) \<in> set (bl_modals s) \<longleftrightarrow> i \<in> set (openModals s) \<and> p = (if i = b then orig else ''hidden'')"
proof -
  have "(i, p) \<in> set (bl_modals s) \<longleftrightarrow> map_of (bl_modals s) i = Some p"
    using assms(1) by (auto simp: lockHeld_def)
  moreover have "i \<in> set (openModals s) \<longleftrightarrow> map_of (bl_modals s) i \<noteq> None" by (simp add: map_of_eq_None_iff)
  ultimately show ?thesis using assms(2) [of i] by auto
qed

text \<open>A held lock is a page without dialogs as it was, or a locked one with one base.\<close>

lemma lockHeld_base:
  assumes "distinct (openModals s)" "bl_overflow s = ''hidden''" "(b, orig) \<in> set (bl_modals s)"
    and "\<And>i p. (i, p) \<in> set (bl_modals s) \<Longrightarrow> p = (if i = b then orig else ''hidden'')"
  shows "lockHeld orig s"
proof -
  have "\<forall>(i, p)\<in>set (bl_modals s). p = (if i = b then orig else ''hidden'')" using assms(4) by blast
  moreover have "bl_modals s \<noteq> []" using assms(3) by auto
  ultimately show ?thesis using assms(1-3) unfolding lockHeld_def by auto
qed

lemma not_lockHeld:
  assumes "bl_overflow s = ''hidden''" "orig \<noteq> ''hidden''" "\<And>i. (i, orig) \<notin> set (bl_modals s)"
  shows "\<not> lockHeld orig s"
  using assms by (auto simp: lockHeld_def)

lemma commit_kept_iff:
  assumes "lockHeld orig s" "orig \<noteq> ''hidden''" "modalOffered s (CommitModals out ins)" "bl_modals s \<noteq> []"
    and b: "b \<in> set (openModals s)"
      "\<And>i. i \<in> set (openModals s) \<Longrightarrow> map_of (bl_modals s) i = Some (if i = b then orig else ''hidden'')"
  shows "lockHeld orig (commitModals out ins s) \<longleftrightarrow>
    (b \<in> set out \<longrightarrow> b = last out \<and> (ins \<noteq> [] \<or> set (openModals s) \<subseteq> set out))"
proof -
  let ?t = "commitModals out ins s"
  note after = commit_locked [OF assms(1,3) b(2) assms(4)]
  note mem = held_mem [OF assms(1) b(2)]
  have rest: "(i, p) \<in> set (filter (\<lambda>(i, p). i \<notin> set out) (bl_modals s)) \<longleftrightarrow>
      i \<in> set (openModals s) \<and> i \<notin> set out \<and> p = (if i = b then orig else ''hidden'')" for i p
    using mem [of i p] by auto
  have sep: "i \<in> set ins \<Longrightarrow> i \<in> set (openModals s) \<Longrightarrow> i \<in> set out" for i using assms(3) by auto
  consider (kept) "b \<notin> set out" | (reopened) "b \<in> set out" "last out = b" "ins \<noteq> []"
    | (closed) "b \<in> set out" "last out = b" "ins = []" | (early) "b \<in> set out" "last out \<noteq> b" by blast
  then show ?thesis
  proof cases
    case kept
    then have between: "\<not> (out \<noteq> [] \<and> last out = b)" using last_in_set by metis
    have "lockHeld orig ?t"
    proof (rule lockHeld_base [OF after(3), where b = b])
      show "bl_overflow ?t = ''hidden''" "(b, orig) \<in> set (bl_modals ?t)"
        using after(1,2) between b(1) kept rest [of b orig] by auto
      fix i p assume "(i, p) \<in> set (bl_modals ?t)"
      then consider "(i, p) \<in> set (filter (\<lambda>(i, p). i \<notin> set out) (bl_modals s))" | "i \<in> set ins" "p = ''hidden''"
        using after(1) between by (cases ins) auto
      then show "p = (if i = b then orig else ''hidden'')" using rest [of i p] sep [of i] b(1) kept by cases auto
    qed
    then show ?thesis using kept by simp
  next
    case reopened
    then obtain j js where ins: "ins = j # js" by (cases ins) auto
    have "out \<noteq> []" using reopened(1) by auto
    have "lockHeld orig ?t"
    proof (rule lockHeld_base [OF after(3), where b = j])
      show "bl_overflow ?t = ''hidden''" "(j, orig) \<in> set (bl_modals ?t)"
        using after(1,2) reopened ins \<open>out \<noteq> []\<close> by simp_all
      fix i p assume "(i, p) \<in> set (bl_modals ?t)"
      then consider "(i, p) \<in> set (filter (\<lambda>(i, p). i \<notin> set out) (bl_modals s))" | "i = j" "p = orig" | "i \<in> set js" "p = ''hidden''"
        using after(1) reopened ins \<open>out \<noteq> []\<close> by auto
      then show "p = (if i = j then orig else ''hidden'')"
        using rest [of i p] sep [of i] reopened(1) ins assms(3) by cases auto
    qed
    then show ?thesis using reopened by simp
  next
    case closed
    have "out \<noteq> []" using closed(1) by auto
    have "lockHeld orig ?t \<longleftrightarrow> bl_modals ?t = []"
      using after closed \<open>out \<noteq> []\<close> assms(2) by (auto simp: lockHeld_def)
    also have "\<dots> \<longleftrightarrow> set (openModals s) \<subseteq> set out"
      using after(1) closed(3) by (auto simp: filter_empty_conv)
    finally show ?thesis using closed by simp
  next
    case early
    have "\<not> lockHeld orig ?t"
    proof (rule not_lockHeld [OF _ assms(2)])
      show "bl_overflow ?t = ''hidden''" using after(2) early by simp
      show "(i, orig) \<notin> set (bl_modals ?t)" for i
        using after(1) early assms(2) rest [of i orig] by (cases ins) auto
    qed
    then show ?thesis using early by simp
  qed
qed

text \<open>The lock survives an event exactly when the event keeps the order.\<close>

lemma lock_kept_iff:
  assumes "lockHeld orig s" "orig \<noteq> ''hidden''" "modalOffered s e"
  shows "lockHeld orig (modalStep e s) \<longleftrightarrow> baseLast s e"
proof (cases "bl_modals s = []")
  case True
  let ?ins = "effectsRun e"
  from True assms(3) have out: "cleanedUp s e = []" and d: "distinct ?ins" by (cases e; simp)+
  from True have "baseLast s e" by (simp add: baseLast_def baseOf_def)
  moreover have "modalStep e s = fold modalEffect ?ins s" by (simp add: step_commit commitModals_def out)
  moreover have "lockHeld orig (fold modalEffect ?ins s)"
    using assms(1) True d effects_run [of ?ins s]
    by (cases ?ins) (auto simp: lockHeld_def o_def image_iff)
  ultimately show ?thesis by simp
next
  case False
  have off: "modalOffered s (CommitModals (cleanedUp s e) (effectsRun e))"
    using assms(1,3) by (cases e) (auto simp: lockHeld_def)
  obtain b where "baseOf s = Some b" "b \<in> set (openModals s)"
    "\<And>i. i \<in> set (openModals s) \<Longrightarrow> map_of (bl_modals s) i = Some (if i = b then orig else ''hidden'')"
    using held_base [OF assms(1,2) False] by blast
  from commit_kept_iff [OF assms(1,2) off False this(2,3)] this(1) show ?thesis
    by (simp add: step_commit baseLast_def)
qed


subsection \<open>Properties\<close>

text \<open>The dialogs of the monitor page: the run on screen, and the confirmation of what its footer does.\<close>

datatype consoleModal = RunFrame | ConfirmFrame

text \<open>
  C38 (the lock is released): in every run of commits and key presses that clean up the dialog which
  locked the page after the others, the page scrolls as it did before whenever no dialog is open, and does
  not scroll while one is, however often the dialogs are rendered again in between.
\<close>

theorem scroll_lock_released:
  assumes "run_events modalStep (\<lambda>s e. modalOffered s e \<and> baseLast s e) es (barePage orig) = Some s" "orig \<noteq> ''hidden''"
  shows "bl_overflow s = (if bl_modals s = [] then orig else ''hidden'')"
proof -
  have "lockHeld orig (barePage orig)" by (simp add: lockHeld_def barePage_def)
  with run_events_reaches [OF assms(1)] have "lockHeld orig s"
    by (rule reaches_invariant) (simp add: lock_kept_iff [OF _ assms(2)])
  then show ?thesis by (simp add: lockHeld_def)
qed

theorem scroll_lock_released_witness:
  "\<exists>s. run_events modalStep (\<lambda>s e. modalOffered s e \<and> baseLast s e)
      [CommitModals [] [RunFrame], CommitModals [] [ConfirmFrame], CommitModals [RunFrame] [RunFrame], EscapeKey]
      (barePage ''auto'') = Some s \<and> bl_overflow s = ''auto''"
proof -
  let ?es = "[CommitModals [] [RunFrame], CommitModals [] [ConfirmFrame], CommitModals [RunFrame] [RunFrame], EscapeKey]"
  have r: "run_events modalStep (\<lambda>s e. modalOffered s e \<and> baseLast s e) ?es (barePage ''auto'') =
      Some \<lparr>bl_overflow = ''auto'', bl_modals = []\<rparr>"
    by (simp add: barePage_def commitModals_def modalEffect_def modalCleanup_def escapeKey_def baseLast_def baseOf_def)
  from scroll_lock_released [OF r] r show ?thesis by simp
qed

text \<open>
  The key closes every open dialog, and of a page that is locked it releases the lock exactly when the
  dialog that locked it has the last listener.
\<close>

lemma escape_releases_iff:
  assumes "lockHeld orig s" "orig \<noteq> ''hidden''" "bl_modals s \<noteq> []"
  shows "bl_modals (escapeKey s) = [] \<and> (bl_overflow (escapeKey s) = orig \<longleftrightarrow> snd (last (bl_modals s)) = orig)"
proof -
  have d: "distinct (openModals s)" using assms(1) by (simp add: lockHeld_def)
  have "map_of (bl_modals s) (last (openModals s)) = Some (snd (last (bl_modals s)))"
    using d assms(3) last_in_set [of "bl_modals s"] by (simp add: last_map)
  with cleaned_up [OF d order_refl] assms(3) show ?thesis
    by (auto simp: escapeKey_def filter_empty_conv image_iff)
qed

text \<open>
  The monitor page does not keep the order: Escape over the confirmation, before the page has been rendered
  again, closes the run first and the confirmation second, and the page is left locked with no dialog
  open. Opening and closing a dialog afterwards does not release it.
\<close>

lemma escape_leaves_lock:
  "map_option (\<lambda>s. (bl_overflow s, bl_modals s)) (run_events modalStep modalOffered
      [CommitModals [] [RunFrame], CommitModals [] [ConfirmFrame], EscapeKey,
       CommitModals [] [RunFrame], CommitModals [RunFrame] []] (barePage [])) = Some (''hidden'', [])"
  by (simp add: barePage_def commitModals_def modalEffect_def modalCleanup_def escapeKey_def)

end
