(* ===== verification/Html.thy ===== *)
theory Html
  imports Identity Ui_Machine
begin

text \<open>
  What the components render: trees of elements with their attributes, the actions their handlers
  make, and the icons of the icon package as named leaves. A fragment that is given as one node is an
  element of the tag \<open>fragment\<close>, without attributes. \<open>cn\<close> is \<open>web/src/lib/cn.ts\<close>; the rest is the part of the
  browser and of React the components rely on: attributes that are absent, attributes a spread
  overrides, what a click fires, and which element an id refers to.
\<close>

datatype 'a node =
    Txt string
  | Icon string string
  | El string "(string \<times> string) list" "(string \<times> 'a) list" "'a node list"

definition cn :: "string option list \<Rightarrow> string" where
  "cn values = join_with '' '' (List.map_filter opt_text values)"

text \<open>An optional part is rendered when it is there and is not the empty text.\<close>

fun given :: "'a node option \<Rightarrow> bool" where
  "given (Some (Txt s)) = (s \<noteq> [])"
| "given (Some _) = True"
| "given None = False"

definition part :: "('a node \<Rightarrow> 'a node) \<Rightarrow> 'a node option \<Rightarrow> 'a node list" where
  "part f x = (if given x then [f (the x)] else [])"

definition nodes :: "'a node option \<Rightarrow> 'a node list" where
  "nodes x = (case x of Some n \<Rightarrow> [n] | None \<Rightarrow> [])"

definition attr :: "string \<Rightarrow> string option \<Rightarrow> (string \<times> string) list" where
  "attr name x = (case x of Some v \<Rightarrow> [(name, v)] | None \<Rightarrow> [])"

definition flag :: "string \<Rightarrow> bool \<Rightarrow> (string \<times> string) list" where
  "flag name b = (if b then [(name, [])] else [])"

definition bool_str :: "bool \<Rightarrow> string" where
  "bool_str b = (if b then ''true'' else ''false'')"

text \<open>\<open>{...rest}\<close> after the attributes of the component.\<close>

definition spreadAttrs :: "(string \<times> 'v) list \<Rightarrow> (string \<times> 'v) list \<Rightarrow> (string \<times> 'v) list" where
  "spreadAttrs base rest = filter (\<lambda>(k, v). k \<notin> set (map fst rest)) base @ rest"

subsection \<open>What a tree does\<close>

text \<open>
  A disabled control keeps a click from its handlers and from those of what is inside it. Of a disclosure
  that is closed only the summary is there.
\<close>

fun isSummary :: "'a node \<Rightarrow> bool" where
  "isSummary (El tag attrs hs children) = (tag = ''summary'')"
| "isSummary _ = False"

definition closedDetails :: "string \<Rightarrow> (string \<times> string) list \<Rightarrow> bool" where
  "closedDetails tag attrs \<longleftrightarrow> tag = ''details'' \<and> ''open'' \<notin> set (map fst attrs)"

declare closedDetails_def [simp]

fun fires :: "string \<Rightarrow> 'a node \<Rightarrow> 'a list" where
  "fires ev (El tag attrs hs children) =
     (if ''disabled'' \<in> set (map fst attrs) then []
      else map snd (filter (\<lambda>h. fst h = ev) hs) @
        concat (map (\<lambda>c. if closedDetails tag attrs \<and> \<not> isSummary c then [] else fires ev c) children))"
| "fires ev _ = []"

text \<open>
  A form is submitted by an enabled submit button inside it, or one elsewhere that names it. \<open>forms\<close> are the
  forms of a tree: id, handlers, and the form attributes of the enabled submit buttons inside.
\<close>

fun submitButtons :: "'a node \<Rightarrow> string option list" where
  "submitButtons (El tag attrs hs children) =
     (if tag = ''button'' \<and> map_of attrs ''type'' = Some ''submit'' \<and> ''disabled'' \<notin> set (map fst attrs)
      then [map_of attrs ''form''] else []) @ concat (map submitButtons children)"
| "submitButtons _ = []"

fun forms :: "'a node \<Rightarrow> (string option \<times> 'a list \<times> string option list) list" where
  "forms (El tag attrs hs children) =
     (if tag = ''form''
      then [(map_of attrs ''id'', map snd (filter (\<lambda>h. fst h = ''submit'') hs), concat (map submitButtons children))]
      else []) @ concat (map forms children)"
| "forms _ = []"

definition submits :: "'a node list \<Rightarrow> 'a list" where
  "submits page =
     concat (map (\<lambda>(formId, hs, inside).
         if None \<in> set inside \<or> formId \<noteq> None \<and> formId \<in> set (concat (map submitButtons page)) then hs else [])
       (concat (map forms page)))"

text \<open>
  What somebody at the screen can make happen. A handler gets the text that was typed or chosen, or the key,
  and makes an event of it, or none when it only changes how its own control looks.
\<close>

definition live :: "'a node list \<Rightarrow> 'a list" where
  "live page = concat (map (fires ''click'') page) @ concat (map (fires ''change'') page) @
     concat (map (fires ''keydown'') page) @ submits page"

definition makes :: "(string \<Rightarrow> 'e option) list \<Rightarrow> 'e \<Rightarrow> bool" where
  "makes hs e \<longleftrightarrow> (\<exists>h\<in>set hs. \<exists>v. h v = Some e)"

definition offersEvent :: "(string \<Rightarrow> 'e option) node list \<Rightarrow> 'e \<Rightarrow> bool" where
  "offersEvent page e \<longleftrightarrow> makes (live page) e"

fun ids :: "'a node \<Rightarrow> string list" where
  "ids (El tag attrs hs children) =
     map snd (filter (\<lambda>a. fst a = ''id'') attrs) @ concat (map ids children)"
| "ids _ = []"

definition refAttrs :: "string list" where
  "refAttrs = [''for'', ''aria-describedby'', ''aria-labelledby'', ''aria-controls'']"

fun refs :: "'a node \<Rightarrow> string list" where
  "refs (El tag attrs hs children) =
     map snd (filter (\<lambda>a. fst a \<in> set refAttrs) attrs) @ concat (map refs children)"
| "refs _ = []"

text \<open>The values an attribute has in a tree, in document order.\<close>

fun attrsOf :: "string \<Rightarrow> 'a node \<Rightarrow> string list" where
  "attrsOf name (El tag attrs hs children) =
     map snd (filter (\<lambda>a. fst a = name) attrs) @ concat (map (attrsOf name) children)"
| "attrsOf name _ = []"

fun texts :: "'a node \<Rightarrow> string list" where
  "texts (Txt s) = (if s = [] then [] else [s])"
| "texts (Icon name c) = []"
| "texts (El tag attrs hs children) = concat (map texts children)"

text \<open>A tree nobody can act on: text, icons and containers without handlers.\<close>

fun quiet :: "'a node \<Rightarrow> bool" where
  "quiet (El tag attrs hs children) \<longleftrightarrow>
     hs = [] \<and> tag \<noteq> ''button'' \<and> tag \<noteq> ''form'' \<and> (\<forall>c\<in>set children. quiet c)"
| "quiet _ \<longleftrightarrow> True"

text \<open>A part of a screen inside another: its events are events of the whole.\<close>

definition embed :: "('e \<Rightarrow> 'f) \<Rightarrow> (string \<Rightarrow> 'e option) node \<Rightarrow> (string \<Rightarrow> 'f option) node" where
  "embed g = map_node (\<lambda>h v. map_option g (h v))"

subsection \<open>Lemmas\<close>

lemma attr_simps [simp]:
  "attr name None = []" "attr name (Some v) = [(name, v)]" "flag name False = []" "flag name True = [(name, [])]"
  by (simp_all add: attr_def flag_def)

lemma attr_keys [simp]:
  "fst ` set (attr name x) = (if x = None then {} else {name})" "fst ` set (flag name b) = (if b then {name} else {})"
  by (cases x; cases b; simp)+

lemma nodes_simps [simp]: "nodes None = []" "nodes (Some n) = [n]"
  by (simp_all add: nodes_def)

lemma part_absent [simp]: "\<not> given x \<Longrightarrow> part f x = []"
  by (simp add: part_def)

lemma part_given [simp]: "given x \<Longrightarrow> part f x = [f (the x)]"
  by (simp add: part_def)

lemma makes_simps [simp]:
  "makes [] e = False" "makes (h # hs) e \<longleftrightarrow> (\<exists>v. h v = Some e) \<or> makes hs e" "makes (hs @ hs') e \<longleftrightarrow> makes hs e \<or> makes hs' e"
  by (auto simp: makes_def)

lemma makes_map: "makes (map f xs) e \<longleftrightarrow> (\<exists>x\<in>set xs. \<exists>v. f x v = Some e)"
  by (simp add: makes_def)

lemma makes_concat: "makes (concat hss) e \<longleftrightarrow> (\<exists>hs\<in>set hss. makes hs e)"
  by (auto simp: makes_def)

lemma makes_when: "makes (if b then hs else []) e \<longleftrightarrow> b \<and> makes hs e"
  by simp

lemma made_when: "(\<exists>v. (if P v then Some (f v) else None) = Some e) \<longleftrightarrow> (\<exists>v. P v \<and> f v = e)"
  by (metis option.distinct(1) option.inject)

lemma concat_map_none [simp]: "concat (map (\<lambda>x. []) xs) = []"
  by (induction xs) simp_all

lemma quiet_tree:
  assumes "quiet n"
  shows "fires ev n = []" "submitButtons n = []" "forms n = []"
  using assms by (induction n) auto

lemma quiet_trees:
  assumes "\<forall>n\<in>set ns. quiet n"
  shows "concat (map (fires ev) ns) = []" "concat (map submitButtons ns) = []" "concat (map forms ns) = []"
  using assms by (simp_all add: quiet_tree)

lemma quiet_all:
  assumes "\<forall>x\<in>A. quiet (f x)"
  shows "\<forall>x\<in>A. fires ev (f x) = []" "\<forall>x\<in>A. submitButtons (f x) = []" "\<forall>x\<in>A. forms (f x) = []"
  using assms by (simp_all add: quiet_tree)

lemma quiet_part [simp]: "(\<forall>n\<in>set (part f x). quiet n) \<longleftrightarrow> (given x \<longrightarrow> quiet (f (the x)))"
  by (simp add: part_def)

lemma fires_map: "fires ev (map_node f n) = map f (fires ev n)"
proof (induction n)
  case (El tag attrs hs children)
  have "isSummary (map_node f c) = isSummary c" for c by (cases c) simp_all
  moreover have "map snd (filter (\<lambda>h. fst h = ev) (map (map_prod id f) hs)) = map f (map snd (filter (\<lambda>h. fst h = ev) hs))"
    by (induction hs) auto
  ultimately show ?case using El by (auto simp: map_concat intro!: arg_cong [of _ _ concat])
qed simp_all

lemma submitButtons_map: "submitButtons (map_node f n) = submitButtons n"
  by (induction n) (auto intro!: arg_cong [of _ _ concat])

lemma forms_map: "forms (map_node f n) = map (\<lambda>(i, hs, bs). (i, map f hs, bs)) (forms n)"
proof (induction n)
  case (El tag attrs hs children)
  have "map snd (filter (\<lambda>h. fst h = ''submit'') (map (map_prod id f) hs)) = map f (map snd (filter (\<lambda>h. fst h = ''submit'') hs))"
    by (induction hs) auto
  moreover have "map (submitButtons \<circ> map_node f) children = map submitButtons children" by (simp add: submitButtons_map)
  ultimately show ?case using El by (auto simp: map_concat intro!: arg_cong [of _ _ concat])
qed simp_all

lemma tree_embed [simp]:
  "fires ev (embed g n) = map (\<lambda>h v. map_option g (h v)) (fires ev n)" "submitButtons (embed g n) = submitButtons n"
  "forms n = [] \<Longrightarrow> forms (embed g n) = []"
  by (simp_all add: embed_def fires_map submitButtons_map forms_map)

lemma makes_embed: "makes (map (\<lambda>h v. map_option g (h v)) hs) e \<longleftrightarrow> (\<exists>a. e = g a \<and> makes hs a)"
  by (auto simp: makes_def)

lemma tree_embeds:
  "concat (map (fires ev) (map (embed g) ns)) = map (\<lambda>h v. map_option g (h v)) (concat (map (fires ev) ns))"
  by (induction ns) simp_all

lemma offersEvent_split:
  "offersEvent page e \<longleftrightarrow>
     makes (concat (map (fires ''click'') page)) e \<or> makes (concat (map (fires ''change'') page)) e \<or>
     makes (concat (map (fires ''keydown'') page)) e \<or> makes (submits page) e"
  by (simp add: offersEvent_def live_def)

lemma submits_none: "concat (map forms page) = [] \<Longrightarrow> submits page = []"
  by (simp only: submits_def list.map concat.simps)

lemma offers_embeds:
  assumes "\<forall>n\<in>set page. forms n = []"
  shows "offersEvent (map (embed g) page) e \<longleftrightarrow> (\<exists>a. e = g a \<and> offersEvent page a)"
proof -
  have "submits page = []" "submits (map (embed g) page) = []" using assms by (simp_all add: submits_def o_def)
  then show ?thesis unfolding offersEvent_split tree_embeds by (auto simp: makes_embed)
qed

lemma offers_nothing: "\<not> offersEvent [] a"
  by (simp add: offersEvent_split submits_def)

lemma spreadAttrs_keys: "set (map fst (spreadAttrs base rest)) = set (map fst base) \<union> set (map fst rest)"
  by (force simp: spreadAttrs_def)

text \<open>
  A screen and the machine behind it: what the tree of a state lets somebody do is what the machine
  offers of the events that come from the screen. Then acting on the tree, with whatever else happens
  in between, leads to the states the machine reaches, and a property of those is one of what people
  do at the screen.
\<close>

locale rendered_screen =
  fixes view :: "'c \<Rightarrow> (string \<Rightarrow> 'e option) node list"
    and step :: "'e \<Rightarrow> 'c \<Rightarrow> 'c"
    and offered :: "'c \<Rightarrow> 'e \<Rightarrow> bool"
    and ofScreen :: "'e \<Rightarrow> bool"
  assumes view_offers: "ofScreen e \<Longrightarrow> offersEvent (view c) e \<longleftrightarrow> offered c e"
    and view_only: "offersEvent (view c) e \<Longrightarrow> ofScreen e"
begin

definition happens :: "'c \<Rightarrow> 'e \<Rightarrow> bool" where
  "happens c e \<longleftrightarrow> offersEvent (view c) e \<or> \<not> ofScreen e \<and> offered c e"

lemma happens_offered: "happens c e \<longleftrightarrow> offered c e"
  using view_offers view_only by (auto simp: happens_def)

lemma acting_reaches: "reaches step happens a c \<longleftrightarrow> reaches step offered a c"
proof -
  have "happens = offered" using happens_offered by (intro ext) simp
  then show ?thesis by simp
qed

lemma acting_invariant:
  assumes "reaches step happens a c" "I a" "\<And>c e. I c \<Longrightarrow> offered c e \<Longrightarrow> I (step e c)"
  shows "I c"
  using assms(1) [unfolded acting_reaches] assms(2,3) by (rule reaches_invariant)

end

end
