(* ===== verification/Interface_Kit.thy ===== *)
theory Interface_Kit
  imports Html Run_Views
begin

text \<open>
  The interface kit (\<open>web/src/components/ui.tsx\<close>, \<open>web/src/components/Modal.tsx\<close>) as the trees its components render, class names
  included: buttons, surfaces, chips, choices, pills, loading and empty states, form controls and
  definition rows. The bar, the gauge and the sparkline are in \<open>Run_Views\<close>. Also the mark of the console
  (\<open>web/src/components/Brand.tsx\<close>) and the two pages made of the kit alone (\<open>web/src/pages/AuthShell.tsx\<close>,
  \<open>web/src/pages/NotFoundPage.tsx\<close>). \<open>useId\<close> is an argument.
\<close>

subsection \<open>Buttons\<close>

datatype buttonVariant = VPrimary | VSecondary | VGhost | VDanger | VDangerQuiet | VSuccess

datatype buttonSize = SizeSm | SizeMd | SizeLg

fun VARIANTS :: "buttonVariant \<Rightarrow> string" where
  "VARIANTS VPrimary = ''bg-accent-500 text-white hover:bg-accent-600 active:bg-accent-700''"
| "VARIANTS VSecondary = ''border border-slate-700 bg-slate-800/70 text-slate-200 hover:border-slate-600 hover:bg-slate-800 hover:text-slate-50''"
| "VARIANTS VGhost = ''text-slate-400 hover:bg-slate-800/70 hover:text-slate-100''"
| "VARIANTS VDanger = ''border border-fail-500/40 bg-fail-500/10 text-fail-300 hover:border-fail-500/60 hover:bg-fail-500/20 hover:text-fail-200''"
| "VARIANTS VDangerQuiet = ''text-slate-500 hover:bg-fail-500/10 hover:text-fail-300''"
| "VARIANTS VSuccess = ''border border-ok-500/40 bg-ok-500/10 text-ok-300 hover:border-ok-500/60 hover:bg-ok-500/20 hover:text-ok-200''"

fun SIZES :: "buttonSize \<Rightarrow> string" where
  "SIZES SizeSm = ''h-8 gap-1.5 px-3 text-xs''"
| "SIZES SizeMd = ''control-h gap-2 px-3.5 text-[13px]''"
| "SIZES SizeLg = ''h-11 gap-2 px-5 text-sm''"

text \<open>\<open>bp_rest\<close> and \<open>bp_handlers\<close> are the other attributes and the handlers a caller gives.\<close>

record 'a buttonProps =
  bp_variant :: "buttonVariant option"
  bp_size :: "buttonSize option"
  bp_loading :: bool
  bp_icon :: "'a node option"
  bp_className :: "string option"
  bp_children :: "'a node list"
  bp_disabled :: bool
  bp_type :: "string option"
  bp_rest :: "(string \<times> string) list"
  bp_handlers :: "(string \<times> 'a) list"

definition plainButton :: "'a \<Rightarrow> string \<Rightarrow> 'a buttonProps" where
  "plainButton act label =
     \<lparr>bp_variant = None, bp_size = None, bp_loading = False, bp_icon = None, bp_className = None,
      bp_children = [Txt label], bp_disabled = False, bp_type = None, bp_rest = [], bp_handlers = [(''click'', act)]\<rparr>"

definition Button :: "'a buttonProps \<Rightarrow> 'a node" where
  "Button p =
     El ''button''
       (spreadAttrs
          ([(''type'', case bp_type p of Some t \<Rightarrow> t | None \<Rightarrow> ''button'')] @
           flag ''disabled'' (bp_disabled p \<or> bp_loading p) @
           [(''class'', cn
             [Some ''inline-flex shrink-0 items-center justify-center rounded-lg font-medium whitespace-nowrap transition-colors duration-150 disabled:pointer-events-none disabled:opacity-45'',
              Some (VARIANTS (case bp_variant p of Some v \<Rightarrow> v | None \<Rightarrow> VSecondary)),
              Some (SIZES (case bp_size p of Some z \<Rightarrow> z | None \<Rightarrow> SizeMd)), bp_className p])])
          (bp_rest p))
       (bp_handlers p)
       ((if bp_loading p then [Icon ''Loader2'' ''size-4 animate-spin''] else nodes (bp_icon p)) @ bp_children p)"

definition IconButton :: "'a buttonProps \<Rightarrow> 'a node" where
  "IconButton p =
     El ''button''
       (spreadAttrs
          ([(''type'', ''button'')] @ flag ''disabled'' (bp_disabled p \<or> bp_loading p) @
           [(''class'', cn
             [Some ''control-h inline-flex aspect-square shrink-0 items-center justify-center rounded-lg transition-colors duration-150 disabled:pointer-events-none disabled:opacity-45'',
              Some (VARIANTS (case bp_variant p of Some v \<Rightarrow> v | None \<Rightarrow> VGhost)), bp_className p])])
          (bp_rest p))
       (bp_handlers p)
       (if bp_loading p then [Icon ''Loader2'' ''size-4 animate-spin''] else bp_children p)"

subsection \<open>Dialogs\<close>

datatype modalWidth = WidthSm | WidthMd | WidthLg | WidthXl

fun WIDTHS :: "modalWidth \<Rightarrow> string" where
  "WIDTHS WidthSm = ''max-w-md''"
| "WIDTHS WidthMd = ''max-w-lg''"
| "WIDTHS WidthLg = ''max-w-2xl''"
| "WIDTHS WidthXl = ''max-w-4xl''"

text \<open>The dialog of \<open>web/src/components/Modal.tsx\<close>: nothing while it is closed.\<close>

definition Modal :: "bool \<Rightarrow> 'a \<Rightarrow> string \<Rightarrow> 'a node option \<Rightarrow> 'a node list \<Rightarrow> 'a node list option \<Rightarrow> modalWidth option \<Rightarrow> 'a node list" where
  "Modal isOpen onClose title subtitle children footer width =
     (if \<not> isOpen then []
      else [El ''div'' [(''class'', ''fixed inset-0 z-50 flex items-start justify-center overflow-y-auto p-4 sm:p-6'')] []
        [El ''button'' [(''type'', ''button''), (''aria-label'', ''Close dialog''), (''class'', ''scrim pb-overlay-in fixed inset-0 cursor-default'')]
           [(''click'', onClose)] [],
         El ''div'' [(''role'', ''dialog''), (''aria-modal'', ''true''), (''aria-label'', title),
             (''class'', cn [Some ''pb-modal-in relative my-auto w-full rounded-xl border border-slate-800 bg-slate-900 elev-3'',
                Some (WIDTHS (case width of Some w \<Rightarrow> w | None \<Rightarrow> WidthMd))])] []
           ([El ''div'' [(''class'', ''flex items-start justify-between gap-4 border-b border-slate-800 px-5 py-4'')] []
               [El ''div'' [(''class'', ''min-w-0'')] []
                  ([El ''h2'' [(''class'', ''text-base font-semibold text-slate-50'')] [] [Txt title]] @
                   part (\<lambda>s. El ''p'' [(''class'', ''mt-1 text-xs text-slate-400'')] [] [s]) subtitle),
                IconButton ((plainButton onClose [])\<lparr>bp_rest := [(''aria-label'', ''Close dialog'')], bp_children := [Icon ''X'' ''size-4'']\<rparr>)],
             El ''div'' [(''class'', ''px-5 py-5'')] [] children] @
            (case footer of
               Some f \<Rightarrow> [El ''div'' [(''class'', ''flex flex-wrap items-center justify-end gap-2 border-t border-slate-800 bg-slate-950/40 px-5 py-4'')] [] f]
             | None \<Rightarrow> []))]])"

subsection \<open>Surfaces and headings\<close>

datatype cardElevation = Flat | Raised | Feature

fun CARD_ELEVATION :: "cardElevation \<Rightarrow> string" where
  "CARD_ELEVATION Flat = ''border-slate-800/80 bg-slate-900/35''"
| "CARD_ELEVATION Raised = ''border-slate-800 bg-slate-900/60 elev-1''"
| "CARD_ELEVATION Feature = ''border-slate-700/70 bg-slate-900/80 elev-2''"

definition Card :: "string option \<Rightarrow> cardElevation option \<Rightarrow> (string \<times> string) list \<Rightarrow> 'a node list \<Rightarrow> 'a node" where
  "Card className elevation rest children =
     El ''div''
       (spreadAttrs [(''class'', cn [Some ''rounded-xl border'',
          Some (CARD_ELEVATION (case elevation of Some e \<Rightarrow> e | None \<Rightarrow> Raised)), className])] rest)
       [] children"

definition CardHeader :: "'a node \<Rightarrow> 'a node option \<Rightarrow> 'a node option \<Rightarrow> string option \<Rightarrow> 'a node" where
  "CardHeader title subtitle actions className =
     El ''div'' [(''class'', cn [Some ''flex flex-wrap items-center justify-between gap-x-4 gap-y-2 border-b border-slate-800/80 px-5 py-3'', className])] []
       ([El ''div'' [(''class'', ''min-w-0'')] []
          ([El ''h2'' [(''class'', ''text-[13px] leading-5 font-semibold tracking-tight text-slate-100'')] [] [title]] @
           part (\<lambda>s. El ''p'' [(''class'', ''text-meta text-slate-500'')] [] [s]) subtitle)] @
        part (\<lambda>a. El ''div'' [(''class'', ''flex items-center gap-2'')] [] [a]) actions)"

definition PageHeader :: "string \<Rightarrow> string option \<Rightarrow> 'a node option \<Rightarrow> 'a node" where
  "PageHeader title description actions =
     El ''header'' [(''class'', ''mb-5 flex flex-wrap items-end justify-between gap-x-6 gap-y-3 border-b border-slate-800/70 pb-4'')] []
       ([El ''div'' [(''class'', ''min-w-0'')] []
          ([El ''h1'' [(''class'', ''text-xl leading-7 font-semibold tracking-tight text-slate-50'')] [] [Txt title]] @
           part (\<lambda>d. El ''p'' [(''class'', ''mt-1 max-w-2xl text-[13px] leading-5 text-slate-400'')] [] [d]) (map_option Txt description))] @
        part (\<lambda>a. El ''div'' [(''class'', ''flex flex-wrap items-center gap-2'')] [] [a]) actions)"

text \<open>The counter is there unless it is \<open>undefined\<close>, so a count of nothing is shown.\<close>

definition SectionHeading :: "string \<Rightarrow> 'a node option \<Rightarrow> 'a node option \<Rightarrow> 'a node option \<Rightarrow> string option \<Rightarrow> 'a node" where
  "SectionHeading title count hint actions className =
     El ''div'' [(''class'', cn [Some ''mb-3 flex flex-wrap items-center gap-x-3 gap-y-1.5'', className])] []
       ([El ''h2'' [(''class'', ''eyebrow text-slate-400'')] [] [Txt title]] @
        (case count of
           Some c \<Rightarrow> [El ''span'' [(''class'', ''rounded-md border border-slate-800 bg-slate-900/70 px-1.5 py-px font-mono text-micro tabular-nums text-slate-500'')] [] [c]]
         | None \<Rightarrow> []) @
        [El ''span'' [(''class'', ''hidden h-px min-w-8 flex-1 bg-slate-800/80 sm:block''), (''aria-hidden'', ''true'')] [] []] @
        part (\<lambda>h. El ''span'' [(''class'', ''text-meta text-slate-500'')] [] [h]) hint @
        part (\<lambda>a. El ''div'' [(''class'', ''flex items-center gap-2'')] [] [a]) actions)"

definition Num :: "'a node list \<Rightarrow> string option \<Rightarrow> string option \<Rightarrow> 'a node" where
  "Num children className title =
     El ''span'' ([(''class'', cn [Some ''font-mono tabular-nums'', className])] @ attr ''title'' title) [] children"

subsection \<open>Chips\<close>

datatype chipTone = ChipSlate | ChipAccent

definition CHIP_BASE :: string where
  "CHIP_BASE = ''inline-flex max-w-full items-center gap-1 rounded-md border px-1.5 py-0.5 text-[11px] leading-4 font-medium''"

fun CHIP_TONES :: "chipTone \<Rightarrow> string" where
  "CHIP_TONES ChipSlate = ''border-slate-700/80 bg-slate-800/60 text-slate-400''"
| "CHIP_TONES ChipAccent = ''border-accent-500/30 bg-accent-500/10 text-accent-300''"

definition Chip :: "'a node list \<Rightarrow> chipTone option \<Rightarrow> 'a node option \<Rightarrow> bool option \<Rightarrow> string option \<Rightarrow> string option \<Rightarrow> 'a node" where
  "Chip children tone icon monoFace className title =
     El ''span''
       ([(''class'', cn [Some CHIP_BASE, Some (CHIP_TONES (case tone of Some t \<Rightarrow> t | None \<Rightarrow> ChipSlate)),
           if monoFace = Some False then None else Some ''font-mono'', className])] @ attr ''title'' title)
       [] (nodes icon @ [El ''span'' [(''class'', ''truncate'')] [] children])"

definition ChipButton :: "'a node list \<Rightarrow> bool \<Rightarrow> 'a \<Rightarrow> 'a node option \<Rightarrow> string option \<Rightarrow> 'a node" where
  "ChipButton children selected onClick icon className =
     El ''button''
       [(''type'', ''button''), (''aria-pressed'', bool_str selected),
        (''class'', cn [Some CHIP_BASE, Some ''font-mono transition-colors duration-150'',
          Some (if selected then ''border-accent-500/50 bg-accent-500/15 text-accent-200''
                else ''border-slate-700/80 bg-slate-800/40 text-slate-400 hover:border-slate-600 hover:bg-slate-800 hover:text-slate-200''),
          className])]
       [(''click'', onClick)] (nodes icon @ [El ''span'' [(''class'', ''truncate'')] [] children])"

subsection \<open>Choices\<close>

definition segment :: "('v \<Rightarrow> 'a) \<Rightarrow> 'v \<Rightarrow> 'v \<times> string \<Rightarrow> 'a node" where
  "segment onChange value option =
     (let active = (fst option = value)
      in El ''button''
        [(''type'', ''button''), (''role'', ''radio''), (''aria-checked'', bool_str active),
         (''class'', cn [Some ''rounded-md px-3 py-1.5 text-xs font-medium whitespace-nowrap transition-colors duration-150'',
           Some (if active then ''bg-accent-500/15 text-accent-200'' else ''text-slate-400 hover:bg-slate-800/70 hover:text-slate-200'')])]
        [(''click'', onChange (fst option))] [Txt (snd option)])"

definition Segmented :: "'v \<Rightarrow> ('v \<times> string) list \<Rightarrow> ('v \<Rightarrow> 'a) \<Rightarrow> string \<Rightarrow> string option \<Rightarrow> 'a node" where
  "Segmented value options onChange label className =
     El ''div''
       [(''role'', ''radiogroup''), (''aria-label'', label),
        (''class'', cn [Some ''inline-flex rounded-lg border border-slate-800 bg-slate-950/60 p-0.5'', className])]
       [] (map (segment onChange value) options)"

datatype choiceTone = ChoiceBrand | ChoiceFail

record 'a choiceProps =
  ch_selected :: bool
  ch_onSelect :: 'a
  ch_title :: string
  ch_description :: string
  ch_icon :: "'a node"
  ch_disabled :: bool
  ch_disabledReason :: "string option"
  ch_tone :: "choiceTone option"
  ch_meta :: "'a node option"
  ch_badge :: "'a node option"
  ch_className :: "string option"

definition ChoiceTile :: "string \<Rightarrow> 'a choiceProps \<Rightarrow> 'a node" where
  "ChoiceTile uid p =
     (let descriptionId = uid @ ''-description''; destructive = (ch_tone p = Some ChoiceFail)
      in El ''button''
        ([(''type'', ''button''), (''role'', ''radio''), (''aria-checked'', bool_str (ch_selected p)),
          (''aria-label'', ch_title p), (''aria-describedby'', descriptionId)] @
         flag ''disabled'' (ch_disabled p) @
         attr ''title'' (if ch_disabled p then ch_disabledReason p else None) @
         [(''class'', cn
           [Some ''flex w-full flex-col gap-2 rounded-xl border px-4 py-3.5 text-left transition-colors duration-150'',
            Some (if ch_selected p
                  then if destructive then ''border-fail-500/60 bg-fail-500/10'' else ''border-accent-500/50 bg-accent-500/10''
                  else ''border-slate-800 bg-slate-950/40 hover:border-slate-700 hover:bg-slate-900/60''),
            if ch_disabled p then Some ''cursor-not-allowed opacity-50'' else None, ch_className p])])
        [(''click'', ch_onSelect p)]
        ([El ''span'' [(''class'', ''flex items-start gap-3'')] []
           [El ''span'' [(''class'', cn
              [Some ''mt-0.5 flex size-8 shrink-0 items-center justify-center rounded-lg border'',
               Some (if ch_selected p
                     then if destructive then ''border-fail-500/50 bg-fail-500/15 text-fail-300''
                          else ''border-accent-500/40 bg-accent-500/15 text-accent-300''
                     else ''border-slate-800 bg-slate-900 text-slate-500'')])] [] [ch_icon p],
            El ''span'' [(''class'', ''min-w-0 flex-1'')] []
              [El ''span'' [(''class'', ''flex flex-wrap items-center gap-x-2 gap-y-1'')] []
                 (El ''span'' [(''class'', cn [Some ''text-sm font-medium'',
                    Some (if ch_selected p then if destructive then ''text-fail-200'' else ''text-slate-50'' else ''text-slate-200'')])]
                    [] [Txt (ch_title p)] # nodes (ch_badge p)),
               El ''span'' [(''id'', descriptionId), (''class'', ''mt-0.5 block text-xs leading-relaxed text-slate-500'')] []
                 [Txt (ch_description p)]]]] @
         part (\<lambda>m. El ''span'' [(''class'', ''block'')] [] [m]) (ch_meta p)))"

subsection \<open>Status\<close>

fun TONES :: "pillTone \<Rightarrow> string" where
  "TONES OkTone = ''border-ok-500/30 bg-ok-500/10 text-ok-300''"
| "TONES WarnTone = ''border-warn-500/30 bg-warn-500/10 text-warn-300''"
| "TONES FailTone = ''border-fail-500/30 bg-fail-500/10 text-fail-300''"
| "TONES BrandTone = ''border-accent-500/30 bg-accent-500/10 text-accent-300''"
| "TONES NeutralTone = ''border-slate-700 bg-slate-800/60 text-slate-400''"

fun DOTS :: "pillTone \<Rightarrow> string" where
  "DOTS OkTone = ''bg-ok-400''"
| "DOTS WarnTone = ''bg-warn-400''"
| "DOTS FailTone = ''bg-fail-400''"
| "DOTS BrandTone = ''bg-accent-400''"
| "DOTS NeutralTone = ''bg-slate-500''"

definition StatusPill :: "pillTone \<Rightarrow> string \<Rightarrow> bool \<Rightarrow> string option \<Rightarrow> 'a node" where
  "StatusPill tone label pulse className =
     El ''span''
       [(''class'', cn [Some ''inline-flex items-center gap-1.5 rounded-full border px-2.5 py-0.5 text-xs font-medium capitalize'',
          Some (TONES tone), className])] []
       [El ''span'' [(''class'', cn [Some ''size-1.5 rounded-full'', Some (DOTS tone), if pulse then Some ''animate-pulse'' else None]),
          (''aria-hidden'', ''true'')] [] [],
        Txt label]"

fun DOT_HALOS :: "pillTone \<Rightarrow> string" where
  "DOT_HALOS OkTone = ''text-ok-400''"
| "DOT_HALOS WarnTone = ''text-warn-400''"
| "DOT_HALOS FailTone = ''text-fail-400''"
| "DOT_HALOS BrandTone = ''text-accent-400''"
| "DOT_HALOS NeutralTone = ''text-slate-500''"

definition LiveDot :: "pillTone option \<Rightarrow> string option \<Rightarrow> 'a node" where
  "LiveDot tone className =
     (let t = (case tone of Some t \<Rightarrow> t | None \<Rightarrow> BrandTone)
      in El ''span'' [(''class'', cn [Some ''relative flex size-2 shrink-0'', className]), (''aria-hidden'', ''true'')] []
        [El ''span'' [(''class'', cn [Some ''pb-ping absolute inset-0 rounded-full'', Some (DOT_HALOS t)])] [] [],
         El ''span'' [(''class'', cn [Some ''relative size-2 rounded-full'', Some (DOTS t)])] [] []])"

subsection \<open>Loading and empty states\<close>

definition Spinner :: "string option \<Rightarrow> 'a node" where
  "Spinner className = Icon ''Loader2'' (cn [Some ''size-5 animate-spin text-accent-400'', className])"

definition LoadingBlock :: "string option \<Rightarrow> 'a node" where
  "LoadingBlock label =
     El ''div'' [(''class'', ''flex items-center justify-center gap-3 py-16 text-sm text-slate-500'')] []
       [Spinner None, Txt (case label of Some l \<Rightarrow> l | None \<Rightarrow> ''Loading'' @ ellipsis)]"

definition SkeletonCards :: "nat option \<Rightarrow> string option \<Rightarrow> 'a node" where
  "SkeletonCards count height =
     El ''div'' [(''class'', ''grid gap-4 sm:grid-cols-2 xl:grid-cols-3'')] []
       (map (\<lambda>index. El ''div'' [(''class'', cn [Some ''pb-skeleton rounded-xl border border-slate-800/70'',
            Some (case height of Some h \<Rightarrow> h | None \<Rightarrow> ''h-32'')])] [] [])
          [0..<(case count of Some n \<Rightarrow> n | None \<Rightarrow> 6)])"

definition SkeletonRows :: "nat option \<Rightarrow> 'a node" where
  "SkeletonRows count =
     El ''div'' [(''class'', ''divide-y divide-slate-800'')] []
       (map (\<lambda>index. El ''div'' [(''class'', ''flex items-center gap-4 px-5 py-4'')] []
            [El ''div'' [(''class'', ''pb-skeleton size-8 rounded-lg'')] [] [],
             El ''div'' [(''class'', ''flex-1 space-y-2'')] []
               [El ''div'' [(''class'', ''pb-skeleton h-3 w-1/3 rounded'')] [] [],
                El ''div'' [(''class'', ''pb-skeleton h-2.5 w-1/5 rounded'')] [] []],
             El ''div'' [(''class'', ''pb-skeleton h-6 w-20 rounded-full'')] [] []])
          [0..<(case count of Some n \<Rightarrow> n | None \<Rightarrow> 5)])"

definition EmptyState :: "'a node \<Rightarrow> string \<Rightarrow> string \<Rightarrow> 'a node option \<Rightarrow> 'a node option \<Rightarrow> string option \<Rightarrow> 'a node" where
  "EmptyState icon title description action hint className =
     El ''div'' [(''class'', cn [Some ''rounded-xl border border-slate-800 bg-slate-900/40 px-6 py-12 text-center'', className])] []
       ([El ''div'' [(''class'', ''mx-auto mb-4 flex size-10 items-center justify-center rounded-lg border border-slate-800 bg-slate-950/50 text-slate-500'')] [] [icon],
         El ''h3'' [(''class'', ''text-[15px] leading-6 font-semibold tracking-tight text-slate-100'')] [] [Txt title],
         El ''p'' [(''class'', ''mx-auto mt-1.5 max-w-md text-[13px] leading-relaxed text-slate-400'')] [] [Txt description]] @
        part (\<lambda>a. El ''div'' [(''class'', ''mt-5 flex justify-center'')] [] [a]) action @
        part (\<lambda>h. El ''p'' [(''class'', ''mt-3 text-meta text-slate-600'')] [] [h]) hint)"

definition ErrorBlock :: "string \<Rightarrow> 'a option \<Rightarrow> string option \<Rightarrow> 'a node" where
  "ErrorBlock message onRetry title =
     El ''div'' [(''class'', ''flex items-start gap-3.5 rounded-xl border border-fail-500/25 bg-fail-500/[0.06] px-5 py-4 elev-1'')] []
       [El ''span'' [(''class'', ''mt-0.5 flex size-8 shrink-0 items-center justify-center rounded-lg border border-fail-500/30 bg-fail-500/10 text-fail-300'')] []
          [Icon ''TriangleAlert'' ''size-4''],
        El ''div'' [(''class'', ''min-w-0 flex-1'')] []
          ([El ''p'' [(''class'', ''text-sm font-medium text-fail-200'')] []
              [Txt (case title of Some t \<Rightarrow> t | None \<Rightarrow> ''Could not load this page'')],
            El ''p'' [(''class'', ''mt-1 text-[13px] leading-relaxed break-words text-slate-400'')] [] [Txt message]] @
           (case onRetry of
              Some retry \<Rightarrow> [Button ((plainButton retry ''Try again'')\<lparr>bp_size := Some SizeSm, bp_className := Some ''mt-3''\<rparr>)]
            | None \<Rightarrow> []))]"

subsection \<open>Form controls\<close>

text \<open>The control is rendered by the caller, from the id it is labelled by and the id that describes it.\<close>

definition Field :: "string \<Rightarrow> string \<Rightarrow> 'a node option \<Rightarrow> string option \<Rightarrow> (string \<Rightarrow> string option \<Rightarrow> 'a node list) \<Rightarrow> string option \<Rightarrow> 'a node" where
  "Field uid label hint err children className =
     (let error = map_option Txt err;
          hintId = (if given hint \<or> given (error :: 'a node option) then Some (uid @ ''-hint'') else None)
      in El ''div'' [(''class'', cn [Some ''space-y-1.5'', className])] []
        ([El ''label'' [(''for'', uid), (''class'', ''block text-xs font-medium tracking-wide text-slate-400'')] [] [Txt label]] @
         children uid hintId @
         (if given error
          then [El ''p'' (attr ''id'' hintId @ [(''class'', ''text-xs text-fail-400'')]) [] [the error]]
          else part (\<lambda>h. El ''p'' (attr ''id'' hintId @ [(''class'', ''text-xs leading-relaxed text-slate-500'')]) [] [h]) hint)))"

definition CONTROL_CLASS :: string where
  "CONTROL_CLASS = ''control-h w-full rounded-lg border border-slate-700 bg-slate-950/60 px-3 text-[13px] text-slate-100 transition-colors duration-150 placeholder:text-slate-600 hover:border-slate-600 focus:border-accent-500 focus:outline-none disabled:opacity-50''"

definition Input :: "string option \<Rightarrow> (string \<times> string) list \<Rightarrow> (string \<times> 'a) list \<Rightarrow> 'a node" where
  "Input className rest handlers =
     El ''input'' (spreadAttrs [(''class'', cn [Some CONTROL_CLASS, className])] rest) handlers []"

definition Select :: "string option \<Rightarrow> (string \<times> string) list \<Rightarrow> (string \<times> 'a) list \<Rightarrow> 'a node list \<Rightarrow> 'a node" where
  "Select className rest handlers children =
     El ''select'' (spreadAttrs [(''class'', cn [Some CONTROL_CLASS, Some ''appearance-none pr-8'', className])] rest) handlers children"

text \<open>A click on the box gives its handler the value it changes to.\<close>

definition Checkbox :: "string \<Rightarrow> 'a node option \<Rightarrow> bool \<Rightarrow> (bool \<Rightarrow> 'a) \<Rightarrow> bool \<Rightarrow> 'a node" where
  "Checkbox label hint checked onChange disabled =
     El ''label''
       [(''class'', cn [Some ''flex cursor-pointer items-start gap-3 rounded-lg border border-slate-800 bg-slate-950/40 px-3 py-2.5 transition-colors duration-150 hover:border-slate-700'',
          if disabled then Some ''cursor-not-allowed opacity-50'' else None])] []
       [El ''input'' ([(''type'', ''checkbox'')] @ flag ''checked'' checked @ flag ''disabled'' disabled @
            [(''class'', ''mt-0.5 size-4 shrink-0 accent-accent-500'')]) [(''change'', onChange (\<not> checked))] [],
        El ''span'' [(''class'', ''min-w-0'')] []
          ([El ''span'' [(''class'', ''block text-sm text-slate-200'')] [] [Txt label]] @
           part (\<lambda>h. El ''span'' [(''class'', ''mt-0.5 block text-xs text-slate-500'')] [] [h]) hint)]"

definition Toggle :: "bool \<Rightarrow> (bool \<Rightarrow> 'a) \<Rightarrow> string \<Rightarrow> bool \<Rightarrow> 'a node" where
  "Toggle checked onChange label disabled =
     El ''button''
       ([(''type'', ''button''), (''role'', ''switch''), (''aria-checked'', bool_str checked), (''aria-label'', label)] @
        flag ''disabled'' disabled @
        [(''class'', cn [Some ''relative inline-flex h-[22px] w-10 shrink-0 items-center rounded-full border transition-colors disabled:opacity-50'',
          Some (if checked then ''border-accent-400/60 bg-accent-500/80'' else ''border-slate-700 bg-slate-800'')])])
       [(''click'', onChange (\<not> checked))]
       [El ''span'' [(''class'', cn [Some ''ml-0.5 size-4 rounded-full bg-slate-50 shadow transition-transform'',
          Some (if checked then ''translate-x-[18px]'' else ''translate-x-0'')])] [] []]"

subsection \<open>Text and definitions\<close>

definition Metric :: "string \<Rightarrow> 'a node \<Rightarrow> string option \<Rightarrow> 'a node" where
  "Metric label value className =
     El ''div'' [(''class'', cn [Some ''min-w-0'', className])] []
       [El ''dt'' [(''class'', ''eyebrow'')] [] [Txt label],
        El ''dd'' [(''class'', ''mt-0.5 truncate text-sm text-slate-200'')] [] [value]]"

definition Mono :: "'a node list \<Rightarrow> string option \<Rightarrow> 'a node" where
  "Mono children className = El ''code'' [(''class'', cn [Some ''font-mono text-xs break-all text-slate-300'', className])] [] children"

definition SectionNote :: "'a node list \<Rightarrow> 'a node" where
  "SectionNote children =
     El ''p'' [(''class'', ''rounded-lg border border-slate-800 bg-slate-950/40 px-3.5 py-2.5 text-xs leading-relaxed text-slate-400'')] [] children"

definition Hint :: "'a node list \<Rightarrow> string option \<Rightarrow> 'a node" where
  "Hint children className = El ''p'' [(''class'', cn [Some ''text-meta leading-relaxed text-slate-500'', className])] [] children"

text \<open>A click on the summary opens and closes the element; \<open>onToggle\<close> is what it means to the caller.\<close>

definition Disclosure :: "'a \<Rightarrow> string \<Rightarrow> 'a node option \<Rightarrow> 'a node list \<Rightarrow> bool \<Rightarrow> string option \<Rightarrow> 'a node" where
  "Disclosure onToggle summary hint children isOpen className =
     El ''details'' ([(''class'', cn [Some ''group rounded-lg border border-slate-800 bg-slate-950/30'', className])] @ flag ''open'' isOpen) []
       [El ''summary'' [(''class'', ''flex list-none items-center gap-2 rounded-lg px-3.5 py-2.5 text-[13px] text-slate-300 transition-colors duration-150 hover:text-slate-100 [&::-webkit-details-marker]:hidden'')] [(''click'', onToggle)]
          ([Icon ''ChevronRight'' ''size-3.5 shrink-0 text-slate-500 transition-transform duration-150 group-open:rotate-90'',
            El ''span'' [(''class'', ''font-medium'')] [] [Txt summary]] @
           part (\<lambda>h. El ''span'' [(''class'', ''ml-auto text-meta text-slate-500'')] [] [h]) hint),
        El ''div'' [(''class'', ''border-t border-slate-800/80 px-3.5 py-3.5'')] [] children]"

definition DefinitionList :: "'a node list \<Rightarrow> string option \<Rightarrow> 'a node" where
  "DefinitionList children className =
     El ''dl'' [(''class'', cn [Some ''divide-y divide-slate-800/80 overflow-hidden rounded-lg border border-slate-800'', className])] [] children"

definition DefinitionRow :: "string \<Rightarrow> 'a node list \<Rightarrow> bool \<Rightarrow> 'a node" where
  "DefinitionRow label children warn =
     El ''div'' [(''class'', ''flex flex-wrap gap-x-4 gap-y-1 px-4 py-2.5'')] []
       [El ''dt'' [(''class'', ''w-32 shrink-0 text-xs text-slate-500'')] [] [Txt label],
        El ''dd'' [(''class'', cn [Some ''min-w-0 flex-1 text-[13px] break-words'',
          Some (if warn then ''text-warn-300'' else ''text-slate-200'')])] [] children]"

subsection \<open>Mark and bare pages\<close>

definition ACCENT :: string where
  "ACCENT = ''#F59B41''"

text \<open>The mask has an id of its own per mark: the instance's id without colons.\<close>

definition ventsId :: "string \<Rightarrow> string" where
  "ventsId uid = ''pb-vents-'' @ filter (\<lambda>c. c \<noteq> CHR '':'') uid"

definition BrandMark :: "string \<Rightarrow> string option \<Rightarrow> string option \<Rightarrow> 'a node" where
  "BrandMark uid className title =
     (let named = opt_text title \<noteq> None
      in El ''svg''
        ([(''viewBox'', ''0 0 48 48''), (''class'', case className of Some c \<Rightarrow> c | None \<Rightarrow> ''size-6''), (''fill'', ''none''),
          (''role'', if named then ''img'' else ''presentation'')] @ attr ''aria-label'' title @
         (if named then [] else [(''aria-hidden'', ''true'')])) []
        [El ''defs'' [] []
           [El ''mask'' [(''id'', ventsId uid)] []
              (El ''rect'' [(''width'', ''48''), (''height'', ''48''), (''fill'', ''white'')] [] [] #
               map (\<lambda>cy. El ''g'' [] []
                   [El ''circle'' [(''cx'', ''14.6''), (''cy'', cy), (''r'', ''0.85''), (''fill'', ''black'')] [] [],
                    El ''circle'' [(''cx'', ''17.8''), (''cy'', cy), (''r'', ''0.85''), (''fill'', ''black'')] [] []])
                 [''14.2'', ''24'', ''33.8''])],
         El ''path'' [(''d'', ''M3 3h22v6H9v36H3z''), (''fill'', ''currentColor'')] [] [],
         El ''g'' [(''fill'', ''currentColor''), (''mask'', ''url(#'' @ ventsId uid @ '')'')] []
           (map (\<lambda>y. El ''rect'' [(''x'', ''11.5''), (''y'', y), (''width'', ''11''), (''height'', ''5.2''), (''rx'', ''2.2'')] [] [])
              [''11.6'', ''21.4'', ''31.2'']),
         El ''path'' [(''d'', ''M24 6a8.5 8.5 0 0 1 0 17''), (''stroke'', ''currentColor''), (''stroke-width'', ''6''), (''fill'', ''none'')] [] [],
         El ''path'' [(''d'', ''M24 23a9.5 9.5 0 0 1 0 19''), (''stroke'', ACCENT), (''stroke-width'', ''6''), (''fill'', ''none'')] [] []])"

definition BrandLockup :: "string \<Rightarrow> string option \<Rightarrow> string option \<Rightarrow> buttonSize option \<Rightarrow> 'a node" where
  "BrandLockup uid className subtitle variant =
     (let note = (\<lambda>c. part (\<lambda>s. El ''p'' [(''class'', c)] [] [s]) (map_option Txt subtitle))
      in if variant = Some SizeLg
         then El ''div'' (attr ''class'' className) []
           ([El ''div'' [(''class'', ''flex flex-col items-center gap-2.5'')] []
               [BrandMark uid (Some ''size-[42px] text-slate-100'') (Some ''ProxBack''),
                El ''span'' [(''class'', ''text-[23px] leading-none font-semibold tracking-[-0.02em] text-slate-50'')] [] [Txt ''ProxBack'']]] @
            note ''mt-2 text-center text-[12px] text-slate-500'')
         else let small = (variant = Some SizeSm);
                  markSize = (if small then ''size-[22px]'' else ''size-[28px]'');
                  nameSize = (if small then ''text-[13px]'' else ''text-[15px]'')
           in El ''div'' (attr ''class'' className) []
             ([El ''div'' [(''class'', ''flex items-center gap-2.5'')] []
                 [BrandMark uid (Some (markSize @ '' text-slate-100'')) (Some ''ProxBack''),
                  El ''span'' [(''class'', nameSize @ '' font-semibold tracking-[-0.01em] text-slate-50'')] [] [Txt ''ProxBack'']]] @
              note ''mt-0.5 text-micro text-slate-500''))"

text \<open>The switch of the theme is rendered by the caller.\<close>

definition AuthShell :: "'a node \<Rightarrow> string \<Rightarrow> string \<Rightarrow> string \<Rightarrow> 'a node list \<Rightarrow> 'a node option \<Rightarrow> 'a node" where
  "AuthShell themeToggle uid title subtitle children footer =
     El ''div'' [(''class'', ''relative flex min-h-full items-center justify-center bg-slate-950 px-4 py-12'')] []
       [El ''div'' [(''class'', ''absolute top-4 right-4'')] [] [themeToggle],
        El ''div'' [(''class'', ''w-full max-w-md'')] []
          ([El ''div'' [(''class'', ''mb-7 flex flex-col items-center text-center'')] []
              [BrandMark uid (Some ''mb-3 size-8 text-accent-400'') (Some ''ProxBack''),
               El ''p'' [(''class'', ''text-lg font-semibold tracking-tight text-slate-50'')] [] [Txt ''ProxBack''],
               El ''p'' [(''class'', ''text-xs text-slate-500'')] [] [Txt ''Backup and recovery for Proxmox VE'']],
            El ''div'' [(''class'', ''rounded-xl border border-slate-800 bg-slate-900 p-6 elev-2'')] []
              [El ''h1'' [(''class'', ''text-base font-semibold text-slate-50'')] [] [Txt title],
               El ''p'' [(''class'', ''mt-1 text-sm text-slate-400'')] [] [Txt subtitle],
               El ''div'' [(''class'', ''mt-6'')] [] children]] @
           part (\<lambda>f. El ''div'' [(''class'', ''mt-5 text-center text-xs text-slate-600'')] [] [f]) footer)]"

definition notFoundPage :: "(string \<Rightarrow> 'a) \<Rightarrow> 'a node" where
  "notFoundPage navigate =
     EmptyState (Icon ''Compass'' ''size-5'') ''Page not found''
       ''That console page does not exist. Pick a section from the sidebar, or head back to the dashboard.''
       (Some (Button ((plainButton (navigate ''/'') ''Go to dashboard'')\<lparr>bp_variant := Some VPrimary\<rparr>))) None None"

subsection \<open>Lemmas\<close>

lemma fires_Button:
  "fires ev (Button p) =
     (if bp_disabled p \<or> bp_loading p \<or> ''disabled'' \<in> set (map fst (bp_rest p)) then []
      else map snd (filter (\<lambda>h. fst h = ev) (bp_handlers p)) @
        concat (map (fires ev) (nodes (bp_icon p) @ bp_children p)))"
  by (auto simp: Button_def spreadAttrs_def)

lemma fires_IconButton:
  "fires ev (IconButton p) =
     (if bp_disabled p \<or> bp_loading p \<or> ''disabled'' \<in> set (map fst (bp_rest p)) then []
      else map snd (filter (\<lambda>h. fst h = ev) (bp_handlers p)) @ concat (map (fires ev) (bp_children p)))"
  by (auto simp: IconButton_def spreadAttrs_def)


text \<open>What the components contribute to the tree they are in: their handlers, submit buttons and forms.\<close>

lemma map_of_without: "map_of (filter (\<lambda>(j, v). j \<notin> A) xs) k = (if k \<in> A then None else map_of xs k)"
  by (induction xs) auto

lemma map_of_spread: "map_of (spreadAttrs base rest) k = (case map_of rest k of Some v \<Rightarrow> Some v | None \<Rightarrow> map_of base k)"
proof (cases "map_of rest k")
  case None
  then have "k \<notin> set (map fst rest)" by (simp add: map_of_eq_None_iff)
  with None show ?thesis by (auto simp: spreadAttrs_def map_add_def map_of_without split: option.splits)
next
  case (Some v)
  then have "k \<in> set (map fst rest)" by (force dest: map_of_SomeD)
  then have "map_of (filter (\<lambda>(j, v). j \<notin> set (map fst rest)) base) k = None" by (simp only: map_of_without if_True)
  with Some show ?thesis by (simp add: spreadAttrs_def map_add_def)
qed

lemma submits_Button:
  "submitButtons (Button p) =
     (if bp_disabled p \<or> bp_loading p \<or> ''disabled'' \<in> set (map fst (bp_rest p)) \<or>
        (case map_of (bp_rest p) ''type'' of Some t \<Rightarrow> Some t | None \<Rightarrow> bp_type p) \<noteq> Some ''submit''
      then [] else [map_of (bp_rest p) ''form'']) @
     concat (map submitButtons ((if bp_loading p then [] else nodes (bp_icon p)) @ bp_children p))"
  "forms (Button p) = concat (map forms ((if bp_loading p then [] else nodes (bp_icon p)) @ bp_children p))"
proof -
  have m: "map_of (spreadAttrs (xs @ flag ''disabled'' b @ [(''class'', c)]) (bp_rest p)) ''form'' =
      (case map_of (bp_rest p) ''form'' of Some v \<Rightarrow> Some v | None \<Rightarrow> map_of xs ''form'')" for xs b c
    by (simp add: map_of_spread flag_def map_add_def split: option.splits)
  have t: "map_of (spreadAttrs (xs @ flag ''disabled'' b @ [(''class'', c)]) (bp_rest p)) ''type'' =
      (case map_of (bp_rest p) ''type'' of Some v \<Rightarrow> Some v | None \<Rightarrow> map_of xs ''type'')" for xs b c
    by (simp add: map_of_spread flag_def map_add_def split: option.splits)
  have d: "''disabled'' \<in> set (map fst (spreadAttrs ([(''type'', y)] @ flag ''disabled'' b @ [(''class'', c)]) (bp_rest p))) \<longleftrightarrow>
      b \<or> ''disabled'' \<in> set (map fst (bp_rest p))" for y b c
    unfolding spreadAttrs_keys by (cases b) auto
  show "submitButtons (Button p) =
     (if bp_disabled p \<or> bp_loading p \<or> ''disabled'' \<in> set (map fst (bp_rest p)) \<or>
        (case map_of (bp_rest p) ''type'' of Some t \<Rightarrow> Some t | None \<Rightarrow> bp_type p) \<noteq> Some ''submit''
      then [] else [map_of (bp_rest p) ''form'']) @
     concat (map submitButtons ((if bp_loading p then [] else nodes (bp_icon p)) @ bp_children p))"
    unfolding Button_def submitButtons.simps m t d by (auto split: option.splits)
  show "forms (Button p) = concat (map forms ((if bp_loading p then [] else nodes (bp_icon p)) @ bp_children p))"
    by (simp add: Button_def)
qed

lemma submits_IconButton:
  "map_of (bp_rest p) ''type'' = None \<Longrightarrow> submitButtons (IconButton p) = concat (map submitButtons (if bp_loading p then [] else bp_children p))"
  "forms (IconButton p) = concat (map forms (if bp_loading p then [] else bp_children p))"
proof -
  have "map_of (spreadAttrs ([(''type'', ''button'')] @ flag ''disabled'' b @ [(''class'', c)]) (bp_rest p)) ''type'' =
      (case map_of (bp_rest p) ''type'' of Some v \<Rightarrow> Some v | None \<Rightarrow> Some ''button'')" for b c
    by (simp add: map_of_spread flag_def map_add_def split: option.splits)
  then show "map_of (bp_rest p) ''type'' = None \<Longrightarrow> submitButtons (IconButton p) = concat (map submitButtons (if bp_loading p then [] else bp_children p))"
    unfolding IconButton_def submitButtons.simps by simp
qed (simp add: IconButton_def)

text \<open>Collecting \<open>f\<close> over a tree in which only the children of the component count.\<close>

definition hintIdOf :: "string \<Rightarrow> 'a node option \<Rightarrow> string option \<Rightarrow> string option" where
  "hintIdOf uid hint err = (if given hint \<or> given (map_option Txt err :: 'a node option) then Some (uid @ ''-hint'') else None)"

fun plainHint :: "'a node option \<Rightarrow> bool" where
  "plainHint None = True"
| "plainHint (Some (Txt s)) = True"
| "plainHint _ = False"

lemma tree_Field [simp]:
  assumes "plainHint hint"
  shows "fires ev (Field uid label hint err children c) = concat (map (fires ev) (children uid (hintIdOf uid hint err)))"
    and "submitButtons (Field uid label hint err children c) = concat (map submitButtons (children uid (hintIdOf uid hint err)))"
    and "forms (Field uid label hint err children c) = concat (map forms (children uid (hintIdOf uid hint err)))"
proof -
  have h: "hint = None \<or> (\<exists>s. hint = Some (Txt s))" using assms by (cases hint rule: plainHint.cases) auto
  show "fires ev (Field uid label hint err children c) = concat (map (fires ev) (children uid (hintIdOf uid hint err)))"
    using h by (cases err) (auto simp: Field_def hintIdOf_def Let_def part_def)
  show "submitButtons (Field uid label hint err children c) = concat (map submitButtons (children uid (hintIdOf uid hint err)))"
    using h by (cases err) (auto simp: Field_def hintIdOf_def Let_def part_def)
  show "forms (Field uid label hint err children c) = concat (map forms (children uid (hintIdOf uid hint err)))"
    using h by (cases err) (auto simp: Field_def hintIdOf_def Let_def part_def)
qed

lemma tree_Input [simp]:
  "fires ev (Input c rest hs) = (if ''disabled'' \<in> set (map fst rest) then [] else map snd (filter (\<lambda>h. fst h = ev) hs))"
  "submitButtons (Input c rest hs) = []" "forms (Input c rest hs) = []"
  by (auto simp: Input_def spreadAttrs_def)

lemma tree_BrandMark [simp]: "fires ev (BrandMark uid c t) = []" "submitButtons (BrandMark uid c t) = []" "forms (BrandMark uid c t) = []"
  by (simp_all add: BrandMark_def Let_def)

lemma tree_AuthShell [simp]:
  "fires ev (AuthShell tt uid title subtitle children (Some (Txt s))) = fires ev tt @ concat (map (fires ev) children)"
  "submitButtons (AuthShell tt uid title subtitle children (Some (Txt s))) = submitButtons tt @ concat (map submitButtons children)"
  "forms (AuthShell tt uid title subtitle children (Some (Txt s))) = forms tt @ concat (map forms children)"
  by (simp_all add: AuthShell_def part_def)

lemma tree_notes [simp]:
  "fires ev (SectionNote ch) = concat (map (fires ev) ch)" "submitButtons (SectionNote ch) = concat (map submitButtons ch)"
  "forms (SectionNote ch) = concat (map forms ch)" "fires ev (Hint ch c) = concat (map (fires ev) ch)"
  "submitButtons (Hint ch c) = concat (map submitButtons ch)" "forms (Hint ch c) = concat (map forms ch)"
  by (simp_all add: SectionNote_def Hint_def)

definition footerNodes :: "'a node list option \<Rightarrow> 'a node list" where
  "footerNodes footer = (case footer of Some f \<Rightarrow> f | None \<Rightarrow> [])"

lemma tree_Modal:
  assumes "plainHint subtitle"
  shows "concat (map (fires ev) (Modal isOpen onClose title subtitle children footer width)) =
      (if isOpen then (if ev = ''click'' then [onClose, onClose] else []) @ concat (map (fires ev) (children @ footerNodes footer)) else [])"
    and "concat (map submitButtons (Modal isOpen onClose title subtitle children footer width)) =
      (if isOpen then concat (map submitButtons (children @ footerNodes footer)) else [])"
    and "concat (map forms (Modal isOpen onClose title subtitle children footer width)) =
      (if isOpen then concat (map forms (children @ footerNodes footer)) else [])"
proof -
  define close :: "'a node" where
    "close = IconButton ((plainButton onClose [])\<lparr>bp_rest := [(''aria-label'', ''Close dialog'')], bp_children := [Icon ''X'' ''size-4'']\<rparr>)"
  have c: "fires ev close = (if ev = ''click'' then [onClose] else [])" "submitButtons close = []" "forms close = []"
    unfolding close_def by (simp_all add: fires_IconButton submits_IconButton plainButton_def)
  have h: "subtitle = None \<or> (\<exists>s. subtitle = Some (Txt s))" using assms by (cases subtitle rule: plainHint.cases) auto
  show "concat (map (fires ev) (Modal isOpen onClose title subtitle children footer width)) =
      (if isOpen then (if ev = ''click'' then [onClose, onClose] else []) @ concat (map (fires ev) (children @ footerNodes footer)) else [])"
    using h c(1) by (cases footer) (auto simp: Modal_def close_def [symmetric] part_def footerNodes_def)
  show "concat (map submitButtons (Modal isOpen onClose title subtitle children footer width)) =
      (if isOpen then concat (map submitButtons (children @ footerNodes footer)) else [])"
    using h c(2) by (cases footer) (auto simp: Modal_def close_def [symmetric] part_def footerNodes_def)
  show "concat (map forms (Modal isOpen onClose title subtitle children footer width)) =
      (if isOpen then concat (map forms (children @ footerNodes footer)) else [])"
    using h c(3) by (cases footer) (auto simp: Modal_def close_def [symmetric] part_def footerNodes_def)
qed

lemma tree_Chip [simp]:
  "fires ev (Chip [Txt s] tone (Some (Icon n c)) m cl t) = []" "submitButtons (Chip [Txt s] tone (Some (Icon n c)) m cl t) = []"
  "forms (Chip [Txt s] tone (Some (Icon n c)) m cl t) = []"
  by (simp_all add: Chip_def attr_def split: option.splits)

lemma tree_Num [simp]: "fires ev (Num [Txt s] cl t) = []" "submitButtons (Num [Txt s] cl t) = []" "forms (Num [Txt s] cl t) = []"
  by (simp_all add: Num_def attr_def split: option.splits)

lemma tree_Card [simp]:
  "fires ev (Card c e [] ch) = concat (map (fires ev) ch)" "submitButtons (Card c e [] ch) = concat (map submitButtons ch)"
  "forms (Card c e [] ch) = concat (map forms ch)"
  by (simp_all add: Card_def spreadAttrs_def)

lemma tree_CardHeader [simp]:
  "plainHint subtitle \<Longrightarrow> fires ev (CardHeader (Txt s) subtitle None c) = []"
  "plainHint subtitle \<Longrightarrow> submitButtons (CardHeader (Txt s) subtitle None c) = []"
  "plainHint subtitle \<Longrightarrow> forms (CardHeader (Txt s) subtitle None c) = []"
  by (cases subtitle rule: plainHint.cases; simp add: CardHeader_def part_def)+

lemma tree_PageHeader [simp]:
  "given (Some a) \<Longrightarrow> fires ev (PageHeader title d (Some a)) = fires ev a"
  "given (Some a) \<Longrightarrow> submitButtons (PageHeader title d (Some a)) = submitButtons a"
  "given (Some a) \<Longrightarrow> forms (PageHeader title d (Some a)) = forms a"
  by (cases d; simp add: PageHeader_def part_def)+

lemma tree_states [simp]:
  "fires ev (SkeletonRows n) = []" "submitButtons (SkeletonRows n) = []" "forms (SkeletonRows n) = []"
  "fires ev (ErrorBlock m (Some r) t) = (if ev = ''click'' then [r] else [])" "submitButtons (ErrorBlock m (Some r) t) = []"
  "forms (ErrorBlock m (Some r) t) = []"
  by (simp_all add: SkeletonRows_def ErrorBlock_def fires_Button submits_Button plainButton_def)

lemma tree_EmptyState [simp]:
  "given (Some a) \<Longrightarrow> fires ev (EmptyState (Icon n c) t d (Some a) None cl) = fires ev a"
  "given (Some a) \<Longrightarrow> submitButtons (EmptyState (Icon n c) t d (Some a) None cl) = submitButtons a"
  "given (Some a) \<Longrightarrow> forms (EmptyState (Icon n c) t d (Some a) None cl) = forms a"
  by (simp_all add: EmptyState_def part_def)

lemma given_Button [simp]: "given (Some (Button p))"
  by (simp add: Button_def)

lemma tree_Disclosure [simp]:
  "plainHint hint \<Longrightarrow> fires ev (Disclosure t summary hint children isOpen c) =
     (if ev = ''click'' then [t] else []) @ (if isOpen then concat (map (fires ev) children) else [])"
  "plainHint hint \<Longrightarrow> forms (Disclosure t summary hint children isOpen c) = concat (map forms children)"
  by (cases hint rule: plainHint.cases; cases isOpen; simp add: Disclosure_def part_def)+

lemma tree_ChoiceTile [simp]:
  assumes "ch_icon p = Icon n c" "ch_badge p = None" "ch_meta p = None"
  shows "fires ev (ChoiceTile uid p) = (if ev = ''click'' \<and> \<not> ch_disabled p then [ch_onSelect p] else [])"
    and "submitButtons (ChoiceTile uid p) = []" and "forms (ChoiceTile uid p) = []"
  using assms by (simp_all add: ChoiceTile_def Let_def part_def flag_def attr_def split: option.splits)

lemma Segmented_checked:
  "attrsOf ''aria-checked'' (Segmented value options onChange label className) = map (\<lambda>opt. bool_str (fst opt = value)) options"
  by (simp add: Segmented_def segment_def Let_def o_def concat_map_singleton)

lemma Segmented_clicks: "fires ''click'' (Segmented value options onChange label className) = map (onChange \<circ> fst) options"
  by (simp add: Segmented_def segment_def Let_def o_def concat_map_singleton)

text \<open>Of options that are distinct and hold the value, exactly one is announced as checked.\<close>

lemma Segmented_one_checked:
  assumes "distinct (map fst options)" "value \<in> set (map fst options)"
  shows "length (filter (\<lambda>c. c = ''true'') (attrsOf ''aria-checked'' (Segmented value options onChange label className))) = 1"
proof -
  have "filter (\<lambda>c. c = ''true'') (map (\<lambda>opt. bool_str (fst opt = value)) options) = replicate (count_list (map fst options) value) ''true''"
    by (induction options) (auto simp: bool_str_def)
  moreover have "count_list (map fst options) value = 1" using assms by (induction options) auto
  ultimately show ?thesis by (simp add: Segmented_checked)
qed

text \<open>
  Tiles and segments are buttons with the role of a radio and nothing that answers a key: the arrow keys
  of a native radio group do not move their selection.
\<close>

lemma radios_without_keys:
  "fires ''keydown'' (Segmented value options onChange label className) = []"
  "fires ''keydown'' (ch_icon p) = [] \<Longrightarrow> ch_badge p = None \<Longrightarrow> ch_meta p = None \<Longrightarrow> fires ''keydown'' (ChoiceTile uid p) = []"
  by (simp_all add: Segmented_def segment_def ChoiceTile_def Let_def o_def part_def)

text \<open>The reason is on a tile exactly while it is disabled, and its description is where it says it is.\<close>

lemma ChoiceTile_described:
  "uid @ ''-description'' \<in> set (ids (ChoiceTile uid p))" "uid @ ''-description'' \<in> set (refs (ChoiceTile uid p))"
  "ch_icon p = Icon n c \<Longrightarrow> ch_badge p = None \<Longrightarrow> ch_meta p = None \<Longrightarrow>
     attrsOf ''title'' (ChoiceTile uid p) = (if ch_disabled p then map snd (attr ''title'' (ch_disabledReason p)) else [])"
  by (simp_all add: ChoiceTile_def refAttrs_def Let_def part_def flag_def attr_def split: option.splits)

lemma switches_negate:
  "fires ''change'' (Checkbox label None checked onChange disabled) = (if disabled then [] else [onChange (\<not> checked)])"
  "fires ''click'' (Toggle checked onChange label disabled) = (if disabled then [] else [onChange (\<not> checked)])"
  by (cases checked; cases disabled; simp add: Checkbox_def Toggle_def)+

text \<open>
  A field whose control takes the id and points to nothing but the description it is given is labelled and
  described: every reference of it is to an element of it. It is described exactly when it has a hint or an
  error, and the error is what is shown when it has both.
\<close>

lemma Field_resolves:
  assumes "\<And>i d. i \<in> set (concat (map ids (children i d)))" "\<And>i d. set (concat (map refs (children i d))) \<subseteq> set_option d"
    and "\<And>n. hint = Some n \<Longrightarrow> refs n = []"
  shows "set (refs (Field uid label hint err children className)) \<subseteq> set (ids (Field uid label hint err children className))"
proof -
  let ?h = "if given hint \<or> given (map_option Txt err :: 'a node option) then Some (uid @ ''-hint'') else None"
  have c: "uid \<in> set (concat (map ids (children uid ?h)))" "set (concat (map refs (children uid ?h))) \<subseteq> set_option ?h"
    using assms(1,2) by blast+
  have "refs (the hint) = []" if "given hint" using assms(3) that by (cases hint) auto
  moreover have "refs (the (map_option Txt err) :: 'a node) = []" if "given (map_option Txt err :: 'a node option)"
    using that by (cases err) auto
  ultimately show ?thesis
    using c by (auto simp: Field_def Let_def refAttrs_def part_def attr_def split: if_splits)
qed

lemma Field_texts:
  "texts (Field uid label (Some (Txt h)) (Some e) (\<lambda>_ _. []) className) = filter (\<lambda>s. s \<noteq> []) [label, if e = [] then h else e]"
  by (simp add: Field_def Let_def part_def)

text \<open>The components that only show something, and the ones that make one event.\<close>

lemma quiet_nodes [simp]: "(\<forall>n\<in>set (nodes x). quiet n) \<longleftrightarrow> (case x of Some n \<Rightarrow> quiet n | None \<Rightarrow> True)"
  by (cases x) simp_all

lemma quiet_kit [simp]:
  "quiet (Num ch c t) \<longleftrightarrow> (\<forall>n\<in>set ch. quiet n)" "quiet (Mono ch c) \<longleftrightarrow> (\<forall>n\<in>set ch. quiet n)"
  "quiet (SectionNote ch) \<longleftrightarrow> (\<forall>n\<in>set ch. quiet n)" "quiet (Hint ch c) \<longleftrightarrow> (\<forall>n\<in>set ch. quiet n)"
  "quiet (StatusPill tone label pulse c)" "quiet (LiveDot dot c)" "quiet (Spinner c)" "quiet (LoadingBlock l)"
  "quiet (SkeletonCards k c)" "quiet (SkeletonRows k)" "quiet (Metric label v c) \<longleftrightarrow> quiet v"
  "quiet (DefinitionList ch c) \<longleftrightarrow> (\<forall>n\<in>set ch. quiet n)" "quiet (DefinitionRow label ch b) \<longleftrightarrow> (\<forall>n\<in>set ch. quiet n)"
  by (simp_all add: Num_def Mono_def SectionNote_def Hint_def StatusPill_def LiveDot_def Spinner_def LoadingBlock_def
      SkeletonCards_def SkeletonRows_def Metric_def DefinitionList_def DefinitionRow_def Let_def)

lemma quiet_Chip [simp]: "quiet (Chip ch tone icon m c t) \<longleftrightarrow> (case icon of Some n \<Rightarrow> quiet n | None \<Rightarrow> True) \<and> (\<forall>n\<in>set ch. quiet n)"
  by (cases icon) (simp_all add: Chip_def)

lemma tree_Tile:
  assumes "quiet (ch_icon p)" "\<forall>n\<in>set_option (ch_badge p). quiet n" "\<forall>n\<in>set_option (ch_meta p). quiet n"
  shows "fires ev (ChoiceTile uid p) = (if ev = ''click'' \<and> \<not> ch_disabled p then [ch_onSelect p] else [])" and "forms (ChoiceTile uid p) = []"
proof -
  have m: "\<forall>n\<in>set (part (\<lambda>m. El ''span'' [(''class'', ''block'')] [] [m]) (ch_meta p)). quiet n" using assms(3) by (cases "ch_meta p") auto
  have b: "\<forall>n\<in>set (nodes (ch_badge p)). quiet n" using assms(2) by (cases "ch_badge p") auto
  show "fires ev (ChoiceTile uid p) = (if ev = ''click'' \<and> \<not> ch_disabled p then [ch_onSelect p] else [])"
    using quiet_trees(1) [OF m] quiet_trees(1) [OF b] quiet_tree(1) [OF assms(1)]
    by (simp add: ChoiceTile_def Let_def flag_def attr_def del: concat_eq_Nil_conv split: option.split)
  show "forms (ChoiceTile uid p) = []"
    using quiet_trees(3) [OF m] quiet_trees(3) [OF b] quiet_tree(3) [OF assms(1)]
    by (simp add: ChoiceTile_def Let_def del: concat_eq_Nil_conv)
qed

lemma tree_controls [simp]:
  "fires ev (Toggle checked onChange label disabled) = (if ev = ''click'' \<and> \<not> disabled then [onChange (\<not> checked)] else [])"
  "forms (Toggle checked onChange label disabled) = []"
  "fires ev (Segmented value options f label c) = (if ev = ''click'' then map (\<lambda>opt. f (fst opt)) options else [])"
  "forms (Segmented value options f label c) = []"
  by (cases disabled; simp add: Toggle_def Segmented_def segment_def Let_def o_def concat_map_singleton)+

lemma tree_ChipButton [simp]:
  "(\<forall>n\<in>set ch. quiet n) \<Longrightarrow> fires ev (ChipButton ch selected act None c) = (if ev = ''click'' then [act] else [])"
  "(\<forall>n\<in>set ch. quiet n) \<Longrightarrow> forms (ChipButton ch selected act None c) = []"
  by (simp_all add: ChipButton_def quiet_tree)

end
