(* ===== verification/Auth_Screens.thy ===== *)
theory Auth_Screens
  imports Interface_Kit App_Gate Shell
begin

text \<open>
  The two screens in front of the console as they are rendered (\<open>web/src/pages/LoginPage.tsx\<close>,
  \<open>web/src/pages/SetupPage.tsx\<close>) and the machines behind them, whose checks are those of \<open>App_Gate\<close>; the switch of the
  theme (\<open>web/src/theme.tsx\<close>) they both carry. What the trees let somebody do is what the machines offer.
\<close>

subsection \<open>The switch of the theme\<close>

fun themeIcon :: "themeChoice \<Rightarrow> string" where
  "themeIcon ChooseLight = ''Sun''"
| "themeIcon ChooseSystem = ''Monitor''"
| "themeIcon ChooseDark = ''MoonStar''"

definition themeToggle :: "(themeChoice \<Rightarrow> 'a) \<Rightarrow> themeChoice \<Rightarrow> string option \<Rightarrow> 'a node" where
  "themeToggle pick choice className =
     El ''div''
       [(''role'', ''radiogroup''), (''aria-label'', ''Colour theme''),
        (''class'', cn [Some ''inline-flex items-center rounded-lg border border-slate-800 bg-slate-950/50 p-0.5'', className])] []
       (map (\<lambda>(value, label).
           let active = (value = choice)
           in El ''button''
             [(''type'', ''button''), (''role'', ''radio''), (''aria-checked'', bool_str active),
              (''aria-label'', label @ '' theme''), (''title'', label @ '' theme''),
              (''class'', cn [Some ''flex size-6 items-center justify-center rounded-md transition-colors duration-150'',
                Some (if active then ''bg-accent-500/15 text-accent-300'' else ''text-slate-500 hover:bg-slate-800/70 hover:text-slate-300'')])]
             [(''click'', pick value)] [Icon (themeIcon value) ''size-3.5''])
         OPTIONS)"

subsection \<open>The machines\<close>

text \<open>
  A screen with its form, the requests that are out, those that were sent, and the user it has handed to
  the application.
\<close>

record authPage =
  ax_form :: authForm
  ax_out :: "(string \<times> string) list"
  ax_sent :: "(string \<times> string) list"
  ax_user :: "jval option"

definition mountAuth :: authPage where
  "mountAuth = \<lparr>ax_form = blankForm, ax_out = [], ax_sent = [], ax_user = None\<rparr>"

datatype authEvent = TypeUser string | TypeSecret string | TypeConfirm string | SubmitAuth | AuthSettles fetch "string \<times> string"

definition submitAuth :: "(authForm \<Rightarrow> authForm \<times> (string \<times> string) option) \<Rightarrow> authPage \<Rightarrow> authPage" where
  "submitAuth check p =
     (let (g, r) = check (ax_form p)
      in case r of
           None \<Rightarrow> p\<lparr>ax_form := g\<rparr>
         | Some c \<Rightarrow> p\<lparr>ax_form := g, ax_out := c # ax_out p, ax_sent := c # ax_sent p\<rparr>)"

definition settleAuth :: "(fetch \<Rightarrow> string \<times> string \<Rightarrow> authForm \<Rightarrow> authForm \<times> jval option) \<Rightarrow> fetch \<Rightarrow> string \<times> string \<Rightarrow> authPage \<Rightarrow> authPage" where
  "settleAuth settles f c p =
     (let (g, u) = settles f c (ax_form p)
      in p\<lparr>ax_form := g, ax_out := remove1 c (ax_out p), ax_user := (case u of Some v \<Rightarrow> Some v | None \<Rightarrow> ax_user p)\<rparr>)"

text \<open>\<open>onAuthenticated\<close> takes the screen away, so nothing is offered after it.\<close>

fun loginOffered :: "authPage \<Rightarrow> authEvent \<Rightarrow> bool" where
  "loginOffered p (TypeUser s) = (ax_user p = None)"
| "loginOffered p (TypeSecret s) = (ax_user p = None)"
| "loginOffered p (TypeConfirm s) = False"
| "loginOffered p SubmitAuth = (ax_user p = None \<and> \<not> af_submitting (ax_form p))"
| "loginOffered p (AuthSettles f c) = (c \<in> set (ax_out p))"

fun setupOffered :: "authPage \<Rightarrow> authEvent \<Rightarrow> bool" where
  "setupOffered p (TypeConfirm s) = (ax_user p = None)"
| "setupOffered p e = loginOffered p e"

fun typeAuth :: "authEvent \<Rightarrow> authForm \<Rightarrow> authForm" where
  "typeAuth (TypeUser s) g = g\<lparr>af_username := s\<rparr>"
| "typeAuth (TypeSecret s) g = g\<lparr>af_password := s\<rparr>"
| "typeAuth (TypeConfirm s) g = g\<lparr>af_confirm := s\<rparr>"
| "typeAuth _ g = g"

fun loginAuthStep :: "authEvent \<Rightarrow> authPage \<Rightarrow> authPage" where
  "loginAuthStep SubmitAuth p = submitAuth loginSubmit p"
| "loginAuthStep (AuthSettles f c) p = settleAuth loginSettles f c p"
| "loginAuthStep e p = p\<lparr>ax_form := typeAuth e (ax_form p)\<rparr>"

fun setupAuthStep :: "authEvent \<Rightarrow> authPage \<Rightarrow> authPage" where
  "setupAuthStep SubmitAuth p = submitAuth setupSubmit p"
| "setupAuthStep (AuthSettles f c) p = settleAuth setupSettles f c p"
| "setupAuthStep e p = p\<lparr>ax_form := typeAuth e (ax_form p)\<rparr>"

subsection \<open>The screens\<close>

text \<open>A text field of either form; its handler makes an event of what is typed.\<close>

definition authInput :: "(string \<Rightarrow> authEvent) \<Rightarrow> (string \<times> string) list \<Rightarrow> string \<Rightarrow> string \<Rightarrow> string option \<Rightarrow> (string \<Rightarrow> authEvent option) node list" where
  "authInput ev rest value uid described = [Input None ([(''id'', uid), (''value'', value)] @ rest) [(''change'', \<lambda>v. Some (ev v))]]"

definition errorLine :: "string \<Rightarrow> 'a node" where
  "errorLine err = El ''p'' [(''class'', ''rounded-lg border border-fail-500/30 bg-fail-500/10 px-3.5 py-2.5 text-xs text-fail-300'')] [] [Txt err]"

definition authButton :: "bool \<Rightarrow> string \<Rightarrow> string \<Rightarrow> string \<Rightarrow> 'a node" where
  "authButton submitting icon busy label =
     Button \<lparr>bp_variant = Some VPrimary, bp_size = Some SizeLg, bp_loading = submitting,
       bp_icon = (if submitting then None else Some (Icon icon ''size-4'')), bp_className = Some ''w-full'',
       bp_children = [Txt (if submitting then busy else label)], bp_disabled = False, bp_type = Some ''submit'',
       bp_rest = [], bp_handlers = []\<rparr>"

definition LoginPage :: "themeChoice \<Rightarrow> bool \<Rightarrow> authPage \<Rightarrow> (string \<Rightarrow> authEvent option) node list" where
  "LoginPage theme defaultLogin p =
     (let g = ax_form p
      in if ax_user p \<noteq> None then []
         else [AuthShell (themeToggle (\<lambda>c v. None) theme None) '':r0:'' ''Sign in'' ''Use your ProxBack console credentials.''
           ((if defaultLogin
             then [El ''p'' [(''class'', ''mb-4 rounded-lg border border-warn-500/30 bg-warn-500/10 px-3.5 py-2.5 text-xs text-warn-300'')] []
               [Txt (''Fresh installation '' @ em_dash @ '' sign in with ''), El ''span'' [(''class'', ''font-semibold'')] [] [Txt ''admin''],
                Txt '' / '', El ''span'' [(''class'', ''font-semibold'')] [] [Txt ''admin''], Txt '', then change the password right away.'']]
             else []) @
            [El ''form'' [(''class'', ''space-y-4''), (''novalidate'', [])] [(''submit'', \<lambda>v. Some SubmitAuth)]
               ([Field '':r1:'' ''Username'' None None
                   (authInput TypeUser [(''autocomplete'', ''username''), (''autofocus'', [])] (af_username g)) None,
                 Field '':r2:'' ''Password'' None None
                   (authInput TypeSecret [(''type'', ''password''), (''autocomplete'', ''current-password'')] (af_password g)) None] @
                part (\<lambda>_. errorLine (the (af_error g))) (map_option Txt (af_error g)) @
                [authButton (af_submitting g) ''LogIn'' (''Signing in'' @ ellipsis) ''Sign in''])])
           (Some (Txt ''Sessions are kept in an HTTP-only cookie and expire on the server.''))])"

definition SetupPage :: "themeChoice \<Rightarrow> authPage \<Rightarrow> (string \<Rightarrow> authEvent option) node list" where
  "SetupPage theme p =
     (let g = ax_form p
      in if ax_user p \<noteq> None then []
         else [AuthShell (themeToggle (\<lambda>c v. None) theme None) '':r0:'' ''Create the administrator account''
           ''This is the first run of this server. The account you create here owns the console.''
           [El ''form'' [(''class'', ''space-y-4''), (''novalidate'', [])] [(''submit'', \<lambda>v. Some SubmitAuth)]
              ([Field '':r1:'' ''Username'' None None
                  (authInput TypeUser [(''autocomplete'', ''username''), (''autofocus'', []), (''placeholder'', ''admin'')] (af_username g)) None,
                Field '':r2:'' ''Password'' (Some (Txt (''At least '' @ nat_str MIN_PASSWORD_LENGTH @ '' characters.''))) None
                  (authInput TypeSecret [(''type'', ''password''), (''autocomplete'', ''new-password'')] (af_password g)) None,
                Field '':r3:'' ''Confirm password'' None None
                  (authInput TypeConfirm [(''type'', ''password''), (''autocomplete'', ''new-password'')] (af_confirm g)) None] @
               (if given (map_option Txt (af_error g) :: unit node option) then [errorLine (the (af_error g))]
                else [SectionNote [Txt ''Passwords are stored as bcrypt hashes. Sessions use an HTTP-only cookie.'']]) @
               [authButton (af_submitting g) ''ArrowRight'' (''Creating account'' @ ellipsis) ''Create account and continue''])]
           (Some (Txt (''This account is the only way into the console '' @ em_dash @ '' there is no password recovery.'')))])"

subsection \<open>Lemmas\<close>

fun authScreen :: "authEvent \<Rightarrow> bool" where
  "authScreen (AuthSettles f c) = False"
| "authScreen _ = True"

lemma tree_themeToggle [simp]:
  "fires ev (themeToggle pick choice c) = (if ev = ''click'' then map pick [ChooseLight, ChooseSystem, ChooseDark] else [])"
  "submitButtons (themeToggle pick choice c) = []" "forms (themeToggle pick choice c) = []"
  by (simp_all add: themeToggle_def OPTIONS_def Let_def)

lemma tree_errorLine [simp]: "fires ev (errorLine err) = []" "submitButtons (errorLine err) = []" "forms (errorLine err) = []"
  by (simp_all add: errorLine_def)

lemma tree_authButton [simp]:
  "fires ev (authButton b icon busy label) = []" "forms (authButton b icon busy label) = []"
  "submitButtons (authButton b icon busy label) = (if b then [] else [None])"
  by (simp_all add: authButton_def fires_Button submits_Button)

lemma tree_authInput [simp]:
  "''disabled'' \<notin> set (map fst rest) \<Longrightarrow>
     concat (map (fires ev) (authInput f rest value i d)) = (if ev = ''change'' then [\<lambda>v. Some (f v)] else [])"
  "concat (map submitButtons (authInput f rest value i d)) = []" "concat (map forms (authInput f rest value i d)) = []"
  by (simp_all add: authInput_def)

lemma tree_login:
  "ax_user p = None \<Longrightarrow> concat (map (fires ''click'') (LoginPage theme d p)) = [\<lambda>v. None, \<lambda>v. None, \<lambda>v. None]"
  "ax_user p = None \<Longrightarrow> concat (map (fires ''change'') (LoginPage theme d p)) = [\<lambda>v. Some (TypeUser v), \<lambda>v. Some (TypeSecret v)]"
  "ax_user p = None \<Longrightarrow> concat (map (fires ''keydown'') (LoginPage theme d p)) = []"
  "ax_user p = None \<Longrightarrow> submits (LoginPage theme d p) = (if af_submitting (ax_form p) then [] else [\<lambda>v. Some SubmitAuth])"
  by (simp_all add: LoginPage_def Let_def part_def submits_def)

lemma tree_setup:
  "ax_user p = None \<Longrightarrow> concat (map (fires ''click'') (SetupPage theme p)) = [\<lambda>v. None, \<lambda>v. None, \<lambda>v. None]"
  "ax_user p = None \<Longrightarrow> concat (map (fires ''change'') (SetupPage theme p)) =
     [\<lambda>v. Some (TypeUser v), \<lambda>v. Some (TypeSecret v), \<lambda>v. Some (TypeConfirm v)]"
  "ax_user p = None \<Longrightarrow> concat (map (fires ''keydown'') (SetupPage theme p)) = []"
  "ax_user p = None \<Longrightarrow> submits (SetupPage theme p) = (if af_submitting (ax_form p) then [] else [\<lambda>v. Some SubmitAuth])"
  by (simp_all add: SetupPage_def Let_def part_def submits_def)

lemma offers_login: "offersEvent (LoginPage theme d p) e \<longleftrightarrow> authScreen e \<and> loginOffered p e"
proof (cases "ax_user p = None")
  case True
  then show ?thesis by (cases e) (simp_all add: offersEvent_split tree_login)
next
  case False
  then show ?thesis by (cases e) (simp_all add: offersEvent_split submits_def LoginPage_def Let_def)
qed

lemma offers_setup: "offersEvent (SetupPage theme p) e \<longleftrightarrow> authScreen e \<and> setupOffered p e"
proof (cases "ax_user p = None")
  case True
  then show ?thesis by (cases e) (simp_all add: offersEvent_split tree_setup)
next
  case False
  then show ?thesis by (cases e) (simp_all add: offersEvent_split submits_def SetupPage_def Let_def)
qed

interpretation login_screen: rendered_screen "LoginPage theme d" loginAuthStep loginOffered authScreen
  by unfold_locales (simp_all add: offers_login)

interpretation setup_screen: rendered_screen "SetupPage theme" setupAuthStep setupOffered authScreen
  by unfold_locales (simp_all add: offers_setup)

text \<open>What a request carries, and that there is one at a time.\<close>

fun loginRequest :: "string \<times> string \<Rightarrow> bool" where
  "loginRequest (name, password) \<longleftrightarrow> name \<noteq> [] \<and> password \<noteq> []"

fun setupRequest :: "string \<times> string \<Rightarrow> bool" where
  "setupRequest (name, password) \<longleftrightarrow> 3 \<le> js_length name \<and> MIN_PASSWORD_LENGTH \<le> js_length password"

definition auth_inv :: "(string \<times> string \<Rightarrow> bool) \<Rightarrow> authPage \<Rightarrow> bool" where
  "auth_inv ok p \<longleftrightarrow>
     list_all ok (ax_sent p) \<and> length (ax_out p) \<le> 1 \<and> (af_submitting (ax_form p) \<longleftrightarrow> ax_out p \<noteq> [])"

lemma auth_inv_type: "auth_inv ok p \<Longrightarrow> auth_inv ok (p\<lparr>ax_form := typeAuth e (ax_form p)\<rparr>)"
  by (cases e) (simp_all add: auth_inv_def)

lemma auth_inv_submit:
  assumes "auth_inv ok p" "\<not> af_submitting (ax_form p)"
    and "\<And>g r. check (ax_form p) = (g, r) \<Longrightarrow> (case r of None \<Rightarrow> \<not> af_submitting g | Some c \<Rightarrow> af_submitting g \<and> ok c)"
  shows "auth_inv ok (submitAuth check p)"
  using assms(1,2) assms(3) [of "fst (check (ax_form p))" "snd (check (ax_form p))"]
  by (auto simp: auth_inv_def submitAuth_def Let_def split: prod.splits option.splits)

lemma auth_inv_settle:
  assumes "auth_inv ok p" "c \<in> set (ax_out p)" "\<And>g u. settles f c (ax_form p) = (g, u) \<Longrightarrow> \<not> af_submitting g"
  shows "auth_inv ok (settleAuth settles f c p)"
proof -
  have "ax_out p = [c]" using assms(1,2) by (cases "ax_out p") (auto simp: auth_inv_def)
  then show ?thesis
    using assms(1) assms(3) [of "fst (settles f c (ax_form p))" "snd (settles f c (ax_form p))"]
    by (auto simp: auth_inv_def settleAuth_def Let_def split: prod.splits)
qed

lemma loginAuthStep_inv: "auth_inv loginRequest p \<Longrightarrow> loginOffered p e \<Longrightarrow> auth_inv loginRequest (loginAuthStep e p)"
proof (cases e)
  case SubmitAuth
  assume "auth_inv loginRequest p" "loginOffered p e"
  with SubmitAuth show ?thesis
    by (auto intro!: auth_inv_submit simp: loginSubmit_def split: if_splits)
next
  case (AuthSettles f c)
  assume "auth_inv loginRequest p" "loginOffered p e"
  with AuthSettles show ?thesis
    by (auto intro!: auth_inv_settle simp: loginSettles_def split: sum.splits)
qed (simp_all add: auth_inv_type [of _ _ "TypeUser s" for s, simplified] auth_inv_def)

lemma setupAuthStep_inv: "auth_inv setupRequest p \<Longrightarrow> setupOffered p e \<Longrightarrow> auth_inv setupRequest (setupAuthStep e p)"
proof (cases e)
  case SubmitAuth
  assume "auth_inv setupRequest p" "setupOffered p e"
  with SubmitAuth show ?thesis
    by (auto intro!: auth_inv_submit simp: setupSubmit_def not_less split: if_splits)
next
  case (AuthSettles f c)
  assume "auth_inv setupRequest p" "setupOffered p e"
  with AuthSettles show ?thesis
    by (auto intro!: auth_inv_settle simp: setupSettles_def split: sum.splits)
qed (simp_all add: auth_inv_def)

lemma mountAuth_inv: "auth_inv ok mountAuth"
  by (simp add: auth_inv_def mountAuth_def blankForm_def)

interpretation login_guard: request_guard mountAuth loginAuthStep loginOffered "auth_inv loginRequest" ax_sent loginRequest
  by unfold_locales (rule mountAuth_inv, erule (1) loginAuthStep_inv, simp add: auth_inv_def)

interpretation setup_guard: request_guard mountAuth setupAuthStep setupOffered "auth_inv setupRequest" ax_sent setupRequest
  by unfold_locales (rule mountAuth_inv, erule (1) setupAuthStep_inv, simp add: auth_inv_def)

subsection \<open>Properties\<close>



end
