(* ===== verification/Users_Screen.thy ===== *)
theory Users_Screen
  imports Interface_Kit Users_Page
begin

text \<open>
  The users page as it is rendered (\<open>web/src/pages/UsersPage.tsx\<close>): header, table, the three dialogs, and the
  confirmation of \<open>web/src/components/Confirm.tsx\<close> that a deletion goes through. What the trees let somebody do is
  what the machine of \<open>Users_Page\<close> offers.
\<close>

subsection \<open>Parts\<close>

fun ROLE_ICON :: "role \<Rightarrow> string" where
  "ROLE_ICON Admin = ''ShieldCheck''"
| "ROLE_ICON Operator = ''UserCog''"
| "ROLE_ICON Viewer = ''Eye''"

definition roleTile :: "string \<Rightarrow> (role \<Rightarrow> 'a) \<Rightarrow> role \<Rightarrow> role \<Rightarrow> 'a node" where
  "roleTile uid onChange value role =
     ChoiceTile (uid @ role_str role)
       \<lparr>ch_selected = (value = role), ch_onSelect = onChange role, ch_title = ROLE_LABEL role, ch_description = ROLE_SUMMARY role,
        ch_icon = Icon (ROLE_ICON role) ''size-4'', ch_disabled = False, ch_disabledReason = None, ch_tone = None,
        ch_meta = None, ch_badge = None, ch_className = None\<rparr>"

definition RolePicker :: "string \<Rightarrow> role \<Rightarrow> (role \<Rightarrow> 'a) \<Rightarrow> string \<Rightarrow> 'a node" where
  "RolePicker uid value onChange label =
     El ''div'' [(''role'', ''radiogroup''), (''aria-label'', label), (''class'', ''grid gap-2'')] []
       (map (roleTile uid onChange value) ROLES)"

text \<open>Whether the password is readable is a state of the field alone; its button makes no event.\<close>

definition PasswordField :: "string \<Rightarrow> bool \<Rightarrow> string \<Rightarrow> string \<Rightarrow> string \<Rightarrow> (string \<Rightarrow> 'e) \<Rightarrow> bool \<Rightarrow> (string \<Rightarrow> 'e option) node" where
  "PasswordField uid visible label hint value onChange autoFocus =
     (let show = (if visible then ''Hide the password'' else ''Show the password'')
      in Field uid label (Some (Txt hint)) None
        (\<lambda>i describedBy. [El ''div'' [(''class'', ''flex gap-2'')] []
           [Input None ([(''id'', i)] @ attr ''aria-describedby'' describedBy @
                [(''type'', if visible then ''text'' else ''password''), (''value'', value)] @ flag ''autofocus'' autoFocus @
                [(''autocomplete'', ''new-password''), (''spellcheck'', ''false'')])
              [(''change'', \<lambda>v. Some (onChange v))],
            IconButton ((plainButton (\<lambda>v. None) [])\<lparr>
                bp_rest := [(''aria-label'', show), (''title'', show), (''aria-pressed'', bool_str visible)],
                bp_children := [Icon (if visible then ''EyeOff'' else ''Eye'') ''size-4'']\<rparr>)]])
        None)"

definition alertLine :: "string option \<Rightarrow> 'a node \<Rightarrow> 'a node" where
  "alertLine err otherwise =
     (if given (map_option Txt err :: 'a node option)
      then El ''p'' [(''class'', ''rounded-lg border border-fail-500/30 bg-fail-500/10 px-3.5 py-2.5 text-xs text-fail-300''), (''role'', ''alert'')] []
        [Txt (the err)]
      else otherwise)"

definition RoleChip :: "role \<Rightarrow> 'a node" where
  "RoleChip role = Chip [Txt (ROLE_LABEL role)] None (Some (Icon (ROLE_ICON role) ''size-3'')) (Some False) None (Some (ROLE_SUMMARY role))"

subsection \<open>Dialogs\<close>

definition cancelButton :: "'e \<Rightarrow> (string \<Rightarrow> 'e option) node" where
  "cancelButton e = Button (plainButton (\<lambda>v. Some e) ''Cancel'')"

definition AddUserModal :: "bool \<Rightarrow> usersPage \<Rightarrow> (string \<Rightarrow> usersEvent option) node list" where
  "AddUserModal visible p =
     (let g = us_add p
      in Modal (us_addOpen p) (\<lambda>v. Some CloseAdd) ''Add user''
        (Some (Txt (''Everyone gets their own account, so the audit trail names a person rather than '' @ ldquo @ ''admin'' @ rdquo @ ''.'')))
        [El ''form'' [(''id'', ''add-user-form''), (''class'', ''space-y-4''), (''novalidate'', [])] [(''submit'', \<lambda>v. Some SubmitAdd)]
           [El ''div'' [(''class'', ''grid gap-4 sm:grid-cols-2'')] []
              [Field '':u1:'' ''Username'' None None
                 (\<lambda>i d. [Input None [(''id'', i), (''value'', au_username g), (''autofocus'', []), (''autocomplete'', ''off''),
                      (''spellcheck'', ''false''), (''placeholder'', ''jrivera'')] [(''change'', \<lambda>v. Some (TypeUsername v))]]) None,
               PasswordField '':u2:'' visible ''Password''
                 (''At least '' @ nat_str MIN_PASSWORD_LENGTH @ '' characters. They can change it themselves later.'')
                 (au_password g) TypePassword False],
            El ''div'' [(''class'', ''space-y-2'')] []
              [El ''p'' [(''class'', ''text-xs font-medium tracking-wide text-slate-400'')] [] [Txt ''Role''],
               RolePicker '':u3:'' (au_role g) (\<lambda>r v. Some (PickRole r)) ''Role for the new user''],
            alertLine (au_error g) (Hint [Txt ''A role can be changed at any time, and every change is recorded in the audit trail.''] None)]]
        (Some [cancelButton CloseAdd,
           Button \<lparr>bp_variant = Some VPrimary, bp_size = None, bp_loading = au_submitting g, bp_icon = Some (Icon ''UserPlus'' ''size-4''),
             bp_className = None, bp_children = [Txt ''Add user''], bp_disabled = False, bp_type = Some ''submit'',
             bp_rest = [(''form'', ''add-user-form'')], bp_handlers = []\<rparr>])
        (Some WidthLg))"

definition ChangeRoleModal :: "usersPage \<Rightarrow> (string \<Rightarrow> usersEvent option) node list" where
  "ChangeRoleModal p =
     Modal (us_roleFor p \<noteq> None) (\<lambda>v. Some CloseRole)
       (case us_roleFor p of Some user \<Rightarrow> ''Change role '' @ em_dash @ '' '' @ ua_username user | None \<Rightarrow> ''Change role'')
       (Some (Txt ''What this account may do from the next request onwards.''))
       [El ''div'' [(''class'', ''space-y-4'')] []
          [RolePicker '':u4:'' (us_role p) (\<lambda>r v. Some (PickNewRole r)) ''New role'',
           alertLine (us_roleError p) (Hint [Txt ''Existing sessions pick up the new role on their next request.''] None)]]
       (Some [cancelButton CloseRole,
          Button ((plainButton (\<lambda>v. Some SubmitRole) ''Save role'')\<lparr>bp_variant := Some VPrimary, bp_loading := us_roleSubmitting p,
            bp_disabled := (case us_roleFor p of None \<Rightarrow> True | Some user \<Rightarrow> us_role p = ua_role user)\<rparr>)])
       (Some WidthLg)"

definition ResetPasswordModal :: "bool \<Rightarrow> usersPage \<Rightarrow> (string \<Rightarrow> usersEvent option) node list" where
  "ResetPasswordModal visible p =
     Modal (us_passwordFor p \<noteq> None) (\<lambda>v. Some CloseReset)
       (case us_passwordFor p of Some user \<Rightarrow> ''Reset password '' @ em_dash @ '' '' @ ua_username user | None \<Rightarrow> ''Reset password'')
       None
       [El ''form'' [(''id'', ''reset-password-form''), (''class'', ''space-y-4''), (''novalidate'', [])] [(''submit'', \<lambda>v. Some SubmitReset)]
          [PasswordField '':u5:'' visible ''New password'' (''At least '' @ nat_str MIN_PASSWORD_LENGTH @ '' characters.'')
             (us_password p) TypeReset True,
           alertLine (us_passwordError p)
             (SectionNote [Txt (''You are setting this password on someone else'' @ [CHR 0x27] @ ''s behalf, so ProxBack cannot show it to them '' @ em_dash @
                '' pass it on yourself and ask them to change it from Settings.'')])]]
       (Some [cancelButton CloseReset,
          Button \<lparr>bp_variant = Some VPrimary, bp_size = None, bp_loading = us_passwordSubmitting p, bp_icon = Some (Icon ''KeyRound'' ''size-4''),
            bp_className = None, bp_children = [Txt ''Reset password''], bp_disabled = False, bp_type = Some ''submit'',
            bp_rest = [(''form'', ''reset-password-form'')], bp_handlers = []\<rparr>])
       (Some WidthMd)"

subsection \<open>Confirmation\<close>

record 'a confirmOptions =
  co_title :: string
  co_message :: "'a node list"
  co_confirmLabel :: "string option"
  co_cancelLabel :: "string option"
  co_destructive :: "bool option"

definition ConfirmModal :: "(bool \<Rightarrow> 'a) \<Rightarrow> 'a confirmOptions option \<Rightarrow> 'a node list" where
  "ConfirmModal settle options =
     (case options of
        None \<Rightarrow> Modal False (settle False) [] None [] None None
      | Some q \<Rightarrow>
          Modal True (settle False) (co_title q) None
            [El ''div'' [(''class'', ''flex gap-3.5'')] []
               [El ''div'' [(''class'', ''flex size-9 shrink-0 items-center justify-center rounded-lg border border-warn-500/30 bg-warn-500/10 text-warn-400'')] []
                  [Icon ''TriangleAlert'' ''size-4''],
                El ''div'' [(''class'', ''min-w-0 pt-1 text-sm leading-relaxed text-slate-300'')] [] (co_message q)]]
            (Some [Button (plainButton (settle False) (case co_cancelLabel q of Some l \<Rightarrow> l | None \<Rightarrow> ''Cancel'')),
               Button ((plainButton (settle True) (case co_confirmLabel q of Some l \<Rightarrow> l | None \<Rightarrow> ''Delete''))\<lparr>
                 bp_variant := Some (if co_destructive q = Some False then VPrimary else VDanger)\<rparr>)])
            (Some WidthSm))"

definition deleteQuestion :: "js_id \<Rightarrow> userAccount \<Rightarrow> 'a confirmOptions" where
  "deleteQuestion me user =
     \<lparr>co_title = ''Delete user'',
      co_message = [Txt ''Delete '', El ''span'' [(''class'', ''font-medium text-slate-100'')] [] [Txt (ua_username user)],
        Txt ''? Their sessions end immediately. Jobs they created keep running, and the audit trail keeps everything they did.'',
        Txt (if isSelf me user then '' This is the account you are signed in with '' @ em_dash @ '' you will be signed out.'' else [])],
      co_confirmLabel = Some ''Delete user'', co_cancelLabel = None, co_destructive = None\<rparr>"

subsection \<open>The page\<close>

definition rowButton :: "'e \<Rightarrow> string \<Rightarrow> string \<Rightarrow> string \<Rightarrow> (string \<Rightarrow> 'e option) buttonProps" where
  "rowButton e label title icon =
     (plainButton (\<lambda>v. Some e) [])\<lparr>bp_rest := [(''aria-label'', label), (''title'', title)], bp_children := [Icon icon ''size-4'']\<rparr>"

definition userTableRow :: "host \<Rightarrow> js_id \<Rightarrow> string option \<Rightarrow> userAccount list \<Rightarrow> userAccount \<Rightarrow> (string \<Rightarrow> usersEvent option) node" where
  "userTableRow h me deleting users user =
     (let because = (\<lambda>s. case blocked users user of Some r \<Rightarrow> s @ '' '' @ em_dash @ '' '' @ r | None \<Rightarrow> s)
      in El ''tr'' [(''class'', ''transition-colors duration-150 hover:bg-slate-800/30'')] []
        [El ''td'' [(''class'', ''px-5 py-3'')] []
           [El ''div'' [(''class'', ''flex items-center gap-2.5'')] []
              ([El ''span'' [(''class'', ''flex size-7 shrink-0 items-center justify-center rounded-lg border border-slate-800 bg-slate-950/60 text-accent-400'')] []
                  [Icon ''Users'' ''size-3.5''],
                El ''span'' [(''class'', ''truncate font-medium text-slate-100'')] [] [Txt (ua_username user)]] @
               (if isSelf me user then [El ''span'' [(''class'', ''shrink-0 text-meta text-slate-500'')] [] [Txt ''(you)'']] else []))],
         El ''td'' [(''class'', ''px-5 py-3'')] [] [RoleChip (ua_role user)],
         El ''td'' [(''class'', ''px-5 py-3 whitespace-nowrap'')] []
           [Num [Txt (formatDateTime h (Some (ua_createdAt user)))] (Some ''text-slate-400'') None],
         El ''td'' [(''class'', ''px-5 py-3 whitespace-nowrap'')] []
           [case opt_text (ua_lastLoginAt user) of
              Some t \<Rightarrow> Num [Txt (formatRelative h (Some t))] (Some ''text-slate-400'') (Some (formatDateTime h (Some t)))
            | None \<Rightarrow> El ''span'' [(''class'', ''text-meta text-slate-500'')] [] [Txt ''Never signed in'']],
         El ''td'' [(''class'', ''px-5 py-3'')] []
           [El ''div'' [(''class'', ''flex items-center justify-end gap-1'')] []
              [IconButton ((rowButton (OpenRole user) (because (''Change the role of '' @ ua_username user))
                   (case blocked users user of Some r \<Rightarrow> r | None \<Rightarrow> ''Change role'') ''UserCog'')\<lparr>bp_disabled := lastAdmin users user\<rparr>),
               IconButton (rowButton (OpenReset user) (''Reset the password of '' @ ua_username user) ''Reset password'' ''KeyRound''),
               IconButton ((rowButton (AskDelete user) (because (''Delete '' @ ua_username user))
                   (case blocked users user of Some r \<Rightarrow> r | None \<Rightarrow> ''Delete user'') ''Trash2'')\<lparr>
                 bp_variant := Some VDangerQuiet, bp_disabled := lastAdmin users user, bp_loading := (deleting = Some (id_str (ua_id user)))\<rparr>)]]])"

definition UsersTable :: "host \<Rightarrow> js_id \<Rightarrow> string option \<Rightarrow> userAccount list \<Rightarrow> (string \<Rightarrow> usersEvent option) node" where
  "UsersTable h me deleting users =
     El ''div'' [(''class'', ''overflow-x-auto'')] []
       [El ''table'' [(''class'', ''w-full min-w-[52rem] text-sm'')] []
          [El ''thead'' [] []
             [El ''tr'' [(''class'', ''border-b border-slate-800 text-left text-micro font-semibold tracking-wide text-slate-500 uppercase'')] []
                (map (\<lambda>s. El ''th'' [(''class'', ''px-5 py-2.5 font-medium'')] [] [Txt s]) [''Username'', ''Role'', ''Created'', ''Last sign-in''] @
                 [El ''th'' [(''class'', ''px-5 py-2.5'')] [] []])],
           El ''tbody'' [(''class'', ''divide-y divide-slate-800/70'')] [] (map (userTableRow h me deleting users) users)]]"

definition addButton :: "(string \<Rightarrow> usersEvent option) node" where
  "addButton = Button ((plainButton (\<lambda>v. Some OpenAdd) ''Add User'')\<lparr>bp_variant := Some VPrimary, bp_icon := Some (Icon ''Plus'' ''size-4'')\<rparr>)"

definition usersHeader :: "bool \<Rightarrow> (string \<Rightarrow> usersEvent option) node" where
  "usersHeader loading =
     PageHeader ''Users''
       (Some ''Who can sign in, and what each of them may do. Every action they take is attributed to them in the audit trail.'')
       (Some (El ''fragment'' [] []
          [Button ((plainButton (\<lambda>v. Some ReloadUsers) ''Refresh'')\<lparr>bp_icon := Some (Icon ''RefreshCw'' ''size-4''), bp_loading := loading\<rparr>),
           addButton]))"

definition usersBody :: "host \<Rightarrow> js_id \<Rightarrow> (string \<Rightarrow> string \<Rightarrow> int) \<Rightarrow> usersPage \<Rightarrow> (string \<Rightarrow> usersEvent option) node" where
  "usersBody h me lc p =
     (let a = us_list p; users = usersShown lc p
      in if as_loading a \<and> as_data a = None then Card None None [] [SkeletonRows (Some 3)]
         else if opt_text (as_error a) \<noteq> None \<and> as_data a = None then ErrorBlock (the (as_error a)) (Some (\<lambda>v. Some ReloadUsers)) None
         else if users = []
         then EmptyState (Icon ''Users'' ''size-5'') ''No user accounts listed''
           (''This server did not return any accounts. At least one administrator must exist, so this usually means the request was refused '' @
            em_dash @ '' try refreshing.'')
           (Some (Button ((plainButton (\<lambda>v. Some ReloadUsers) ''Try again'')\<lparr>bp_variant := Some VPrimary\<rparr>))) None None
         else Card None (Some Flat) []
           [CardHeader (Txt ''Accounts'') (Some (Txt (accountsSubtitle users))) None None, UsersTable h me (us_deleting p) users])"

definition UsersPageView :: "host \<Rightarrow> js_id \<Rightarrow> (string \<Rightarrow> string \<Rightarrow> int) \<Rightarrow> bool \<Rightarrow> bool \<Rightarrow> usersPage \<Rightarrow> (string \<Rightarrow> usersEvent option) node list" where
  "UsersPageView h me lc addVisible resetVisible p =
     [usersHeader (as_loading (us_list p)), usersBody h me lc p] @
     AddUserModal addVisible p @ ChangeRoleModal p @ ResetPasswordModal resetVisible p @
     ConfirmModal (\<lambda>b v. Some (AnswerDelete b)) (map_option (deleteQuestion me) (us_asking p))"

subsection \<open>Lemmas\<close>

lemma tree_RolePicker [simp]:
  "fires ev (RolePicker uid value f label) = (if ev = ''click'' then map f ROLES else [])"
  "submitButtons (RolePicker uid value f label) = []" "forms (RolePicker uid value f label) = []"
  by (simp_all add: RolePicker_def roleTile_def o_def concat_map_singleton)

lemma tree_PasswordField [simp]:
  "fires ev (PasswordField uid visible label hint value f focus) =
     (if ev = ''change'' then [\<lambda>v. Some (f v)] else if ev = ''click'' then [\<lambda>v. None] else [])"
  "submitButtons (PasswordField uid visible label hint value f focus) = []" "forms (PasswordField uid visible label hint value f focus) = []"
  by (simp_all add: PasswordField_def Let_def fires_IconButton submits_IconButton plainButton_def image_Un)

lemma tree_alertLine [simp]:
  "fires ev otherwise = [] \<Longrightarrow> fires ev (alertLine err otherwise) = []"
  "submitButtons otherwise = [] \<Longrightarrow> submitButtons (alertLine err otherwise) = []" "forms otherwise = [] \<Longrightarrow> forms (alertLine err otherwise) = []"
  by (simp_all add: alertLine_def)

lemma tree_cancelButton [simp]:
  "fires ev (cancelButton e) = (if ev = ''click'' then [\<lambda>v. Some e] else [])" "submitButtons (cancelButton e) = []" "forms (cancelButton e) = []"
  by (simp_all add: cancelButton_def fires_Button submits_Button plainButton_def)

lemma tree_AddUserModal:
  "concat (map (fires ''click'') (AddUserModal vis p)) =
     (if us_addOpen p then [\<lambda>v. Some CloseAdd, \<lambda>v. Some CloseAdd, \<lambda>v. None] @ map (\<lambda>r v. Some (PickRole r)) ROLES @ [\<lambda>v. Some CloseAdd]
      else [])"
  "concat (map (fires ''change'') (AddUserModal vis p)) =
     (if us_addOpen p then [\<lambda>v. Some (TypeUsername v), \<lambda>v. Some (TypePassword v)] else [])"
  "concat (map (fires ''keydown'') (AddUserModal vis p)) = []"
  "concat (map submitButtons (AddUserModal vis p)) =
     (if us_addOpen p \<and> \<not> au_submitting (us_add p) then [Some ''add-user-form''] else [])"
  "concat (map forms (AddUserModal vis p)) = (if us_addOpen p then [(Some ''add-user-form'', [\<lambda>v. Some SubmitAdd], [])] else [])"
  by (simp_all add: AddUserModal_def Let_def tree_Modal footerNodes_def fires_Button submits_Button)

lemma tree_ChangeRoleModal:
  "concat (map (fires ''click'') (ChangeRoleModal p)) =
     (case us_roleFor p of
        None \<Rightarrow> []
      | Some u \<Rightarrow> [\<lambda>v. Some CloseRole, \<lambda>v. Some CloseRole] @ map (\<lambda>r v. Some (PickNewRole r)) ROLES @ [\<lambda>v. Some CloseRole] @
          (if us_role p \<noteq> ua_role u \<and> \<not> us_roleSubmitting p then [\<lambda>v. Some SubmitRole] else []))"
  "concat (map (fires ''change'') (ChangeRoleModal p)) = []" "concat (map (fires ''keydown'') (ChangeRoleModal p)) = []" "concat (map submitButtons (ChangeRoleModal p)) = []"
  "concat (map forms (ChangeRoleModal p)) = []"
  by (simp_all add: ChangeRoleModal_def tree_Modal footerNodes_def fires_Button submits_Button plainButton_def split: option.splits)

lemma tree_ResetPasswordModal:
  "concat (map (fires ''click'') (ResetPasswordModal vis p)) =
     (if us_passwordFor p \<noteq> None then [\<lambda>v. Some CloseReset, \<lambda>v. Some CloseReset, \<lambda>v. None, \<lambda>v. Some CloseReset] else [])"
  "concat (map (fires ''change'') (ResetPasswordModal vis p)) = (if us_passwordFor p \<noteq> None then [\<lambda>v. Some (TypeReset v)] else [])"
  "concat (map (fires ''keydown'') (ResetPasswordModal vis p)) = []"
  "concat (map submitButtons (ResetPasswordModal vis p)) =
     (if us_passwordFor p \<noteq> None \<and> \<not> us_passwordSubmitting p then [Some ''reset-password-form''] else [])"
  "concat (map forms (ResetPasswordModal vis p)) =
     (if us_passwordFor p \<noteq> None then [(Some ''reset-password-form'', [\<lambda>v. Some SubmitReset], [])] else [])"
  by (simp_all add: ResetPasswordModal_def tree_Modal footerNodes_def fires_Button submits_Button)

lemma tree_ConfirmModal:
  "concat (map (fires ev) (ConfirmModal settle (map_option (deleteQuestion me) q))) =
     (if q \<noteq> None \<and> ev = ''click'' then [settle False, settle False, settle False, settle True] else [])"
  "concat (map submitButtons (ConfirmModal settle (map_option (deleteQuestion me) q))) = []"
  "concat (map forms (ConfirmModal settle (map_option (deleteQuestion me) q))) = []"
  by (cases q; simp add: ConfirmModal_def deleteQuestion_def tree_Modal footerNodes_def fires_Button submits_Button plainButton_def)+

lemma tree_userTableRow [simp]:
  "fires ev (userTableRow h me deleting users u) =
     (if ev = ''click''
      then (if lastAdmin users u then [] else [\<lambda>v. Some (OpenRole u)]) @ [\<lambda>v. Some (OpenReset u)] @
        (if lastAdmin users u \<or> deleting = Some (id_str (ua_id u)) then [] else [\<lambda>v. Some (AskDelete u)])
      else [])"
  "submitButtons (userTableRow h me deleting users u) = []" "forms (userTableRow h me deleting users u) = []"
  by (simp_all add: userTableRow_def rowButton_def RoleChip_def Let_def fires_IconButton submits_IconButton plainButton_def split: option.splits)

lemma tree_UsersTable [simp]:
  "fires ev (UsersTable h me deleting users) = concat (map (fires ev) (map (userTableRow h me deleting users) users))"
  "submitButtons (UsersTable h me deleting users) = []" "forms (UsersTable h me deleting users) = []"
  by (simp_all add: UsersTable_def o_def)

lemma tree_usersHeader [simp]:
  "fires ev (usersHeader b) = (if ev = ''click'' then (if b then [] else [\<lambda>v. Some ReloadUsers]) @ [\<lambda>v. Some OpenAdd] else [])"
  "submitButtons (usersHeader b) = []" "forms (usersHeader b) = []"
  by (simp_all add: usersHeader_def addButton_def fires_Button submits_Button plainButton_def)

lemma tree_usersBody:
  "submitButtons (usersBody h me lc p) = []" "forms (usersBody h me lc p) = []" "fires ''change'' (usersBody h me lc p) = []"
  "fires ''keydown'' (usersBody h me lc p) = []"
  by (simp_all add: usersBody_def Let_def fires_Button submits_Button plainButton_def o_def)

lemma usersShown_empty: "usersShown lc p = [] \<longleftrightarrow> as_data (us_list p) = None \<or> as_data (us_list p) = Some []"
proof -
  have "length (sort_by (compareUsers lc) us) = length us" for us using filter_sort_by [of "\<lambda>_. True" "compareUsers lc" us] by simp
  then show ?thesis by (cases "as_data (us_list p)") (auto simp: usersShown_def simp flip: length_0_conv)
qed

lemma makes_body:
  "makes (fires ''click'' (usersBody h me lc p)) e \<longleftrightarrow>
     (case e of
        ReloadUsers \<Rightarrow> \<not> as_loading (us_list p) \<and> as_data (us_list p) = None \<or> as_data (us_list p) = Some []
      | OpenRole u \<Rightarrow> usersOffered lc p e | OpenReset u \<Rightarrow> usersOffered lc p e | AskDelete u \<Rightarrow> usersOffered lc p e
      | _ \<Rightarrow> False)"
proof (cases "usersShown lc p = []")
  case True
  then show ?thesis using usersShown_empty [of lc p]
    by (cases e) (auto simp: usersBody_def Let_def fires_Button plainButton_def)
next
  case False
  then have "as_data (us_list p) \<noteq> None" "as_data (us_list p) \<noteq> Some []" using usersShown_empty [of lc p] by auto
  with False show ?thesis by (cases e) (auto simp: usersBody_def Let_def makes_concat)
qed

fun usersScreen :: "usersEvent \<Rightarrow> bool" where
  "usersScreen (UsersAnswer r) = False"
| "usersScreen (UserSettles f r) = False"
| "usersScreen _ = True"

lemma makes_submits:
  "makes (submits (UsersPageView h me lc va vr p)) e \<longleftrightarrow>
     us_addOpen p \<and> \<not> au_submitting (us_add p) \<and> e = SubmitAdd \<or>
     us_passwordFor p \<noteq> None \<and> \<not> us_passwordSubmitting p \<and> e = SubmitReset"
  unfolding submits_def UsersPageView_def map_append concat_append tree_AddUserModal tree_ChangeRoleModal tree_ResetPasswordModal
    tree_ConfirmModal
  by (auto simp: tree_usersBody)

lemma makes_changes:
  "makes (concat (map (fires ''change'') (UsersPageView h me lc va vr p))) e \<longleftrightarrow>
     us_addOpen p \<and> ((\<exists>v. e = TypeUsername v) \<or> (\<exists>v. e = TypePassword v)) \<or> us_passwordFor p \<noteq> None \<and> (\<exists>v. e = TypeReset v)"
  unfolding UsersPageView_def map_append concat_append tree_AddUserModal tree_ChangeRoleModal tree_ResetPasswordModal tree_ConfirmModal
  by (auto simp: tree_usersBody)

lemma makes_clicks:
  "makes (concat (map (fires ''click'') (UsersPageView h me lc va vr p))) e \<longleftrightarrow>
     \<not> as_loading (us_list p) \<and> e = ReloadUsers \<or> e = OpenAdd \<or> makes (fires ''click'' (usersBody h me lc p)) e \<or>
     us_addOpen p \<and> (e = CloseAdd \<or> (\<exists>r\<in>set ROLES. e = PickRole r)) \<or>
     (\<exists>u. us_roleFor p = Some u \<and> (e = CloseRole \<or> (\<exists>r\<in>set ROLES. e = PickNewRole r) \<or>
        us_role p \<noteq> ua_role u \<and> \<not> us_roleSubmitting p \<and> e = SubmitRole)) \<or>
     us_passwordFor p \<noteq> None \<and> e = CloseReset \<or> us_asking p \<noteq> None \<and> (\<exists>b. e = AnswerDelete b)"
  unfolding UsersPageView_def map_append concat_append tree_AddUserModal tree_ChangeRoleModal tree_ResetPasswordModal tree_ConfirmModal
  by (cases "us_roleFor p") (auto simp: makes_map ex_bool_eq)

lemma no_keys: "concat (map (fires ''keydown'') (UsersPageView h me lc va vr p)) = []"
  unfolding UsersPageView_def map_append concat_append tree_AddUserModal tree_ChangeRoleModal tree_ResetPasswordModal tree_ConfirmModal
  by (simp add: tree_usersBody)

lemma offers_users: "offersEvent (UsersPageView h me lc va vr p) e \<longleftrightarrow> usersScreen e \<and> usersOffered lc p e"
  unfolding offersEvent_split makes_clicks makes_changes makes_submits makes_body no_keys makes_simps
  by (cases e) (auto split: option.splits)

interpretation users_screen: rendered_screen "UsersPageView h me lc va vr" "usersStep me" "usersOffered lc" usersScreen
  by unfold_locales (simp_all add: offers_users)

subsection \<open>Properties\<close>

text \<open>
  C36 (the rendered page offers what the machine offers): in every state, what the rendered users page,
  its dialogs and its confirmation let somebody click, type or submit is exactly what the machine of the page
  offers of the events of the screen. In particular the two controls of the last administrator fire
  nothing, and a form cannot be submitted while its request is out.
\<close>

theorem users_screen_offers:
  "offersEvent (UsersPageView h me lc addVisible resetVisible p) e \<longleftrightarrow>
     usersOffered lc p e \<and> (\<forall>r. e \<noteq> UsersAnswer r) \<and> (\<forall>f r. e \<noteq> UserSettles f r)"
  unfolding offers_users by (cases e) auto

text \<open>So whoever acts on the rendered page keeps to the states the machine reaches.\<close>

lemma users_screen_reaches:
  "reaches (usersStep me) (\<lambda>p e. offersEvent (UsersPageView h me lc va vr p) e \<or> \<not> usersScreen e \<and> usersOffered lc p e) a p \<longleftrightarrow>
     reaches (usersStep me) (usersOffered lc) a p"
  using users_screen.acting_reaches [of me h lc va vr] by (simp only: users_screen.happens_def [abs_def])

end
