(* ===== verification/Schedule_Screen.thy ===== *)
theory Schedule_Screen
  imports Interface_Kit Schedule_Editor
begin

text \<open>
  The scheduling control as it is rendered (\<open>web/src/components/ScheduleEditor.tsx\<close>): cadence tiles, the time
  with its presets, weekdays, days of the month, the confirmation and the cron disclosure. What the tree
  lets somebody do is what the machine of \<open>Schedule_Editor\<close> offers.
\<close>

subsection \<open>Parts\<close>

text \<open>
  A choice of one option of a native select is a change with the value of that option, so the handler stands
  on the options.
\<close>

definition selectNode :: "(string \<times> string) list \<Rightarrow> ('v \<Rightarrow> 'a) \<Rightarrow> ('v \<times> string \<times> string) list \<Rightarrow> 'a node" where
  "selectNode attrs onChange options =
     El ''select'' attrs [] (map (\<lambda>(v, value, label). El ''option'' [(''value'', value)] [(''change'', onChange v)] [Txt label]) options)"

definition pressButton :: "'a \<Rightarrow> bool \<Rightarrow> (string \<times> string) list \<Rightarrow> string \<Rightarrow> string \<Rightarrow> string \<Rightarrow> string \<Rightarrow> 'a node" where
  "pressButton act active rest base on off label =
     El ''button'' ([(''type'', ''button''), (''aria-pressed'', bool_str active)] @ rest @
         [(''class'', cn [Some base, Some (if active then on else off)])])
       [(''click'', act)] [Txt label]"

fun cadenceIcon :: "scheduleKind \<Rightarrow> string" where
  "cadenceIcon KManual = ''Hand''"
| "cadenceIcon KHourly = ''Repeat''"
| "cadenceIcon KDaily = ''Clock''"
| "cadenceIcon KWeekly = ''CalendarDays''"
| "cadenceIcon KMonthly = ''CalendarRange''"
| "cadenceIcon KAdvanced = []"

definition CadenceTile :: "'a \<Rightarrow> bool \<Rightarrow> string \<Rightarrow> string \<Rightarrow> string \<Rightarrow> 'a node" where
  "CadenceTile onClick active label sub icon =
     El ''button''
       [(''type'', ''button''), (''role'', ''radio''), (''aria-checked'', bool_str active),
        (''class'', cn [Some ''flex flex-col items-center gap-1.5 rounded-lg border px-2 py-3 transition-colors duration-150'',
          Some (if active then ''border-accent-500/60 bg-accent-500/12 text-accent-100 elev-1''
                else ''border-slate-800 bg-slate-950/40 text-slate-300 hover:border-slate-700 hover:bg-slate-900/70'')])]
       [(''click'', onClick)]
       [Icon icon (cn [Some ''size-4'', Some (if active then ''text-accent-300'' else ''text-slate-500'')]),
        El ''span'' [(''class'', ''text-[13px] leading-4 font-medium'')] [] [Txt label],
        El ''span'' [(''class'', cn [Some ''text-micro'', Some (if active then ''text-accent-300/70'' else ''text-slate-500'')])] [] [Txt sub]]"

definition UNIT_SELECT :: string where
  "UNIT_SELECT = ''appearance-none rounded-md bg-transparent py-1 pr-1 pl-1.5 text-center font-mono text-[15px] tabular-nums text-slate-100 hover:bg-slate-800/70 focus-visible:bg-slate-800''"

definition unitOptions :: "int list \<Rightarrow> (int \<times> string \<times> string) list" where
  "unitOptions ns = map (\<lambda>n. (n, int_str n, pad_start 2 (CHR ''0'') (int_str n))) ns"

definition TimeField :: "(int \<Rightarrow> 'a) \<Rightarrow> (int \<Rightarrow> 'a) \<Rightarrow> string \<Rightarrow> string \<Rightarrow> 'a node" where
  "TimeField onHour onMinute value label =
     (let (hour, minute) = partsOf value
      in El ''div'' [(''class'', ''inline-flex items-center gap-1.5 rounded-lg border border-slate-700 bg-slate-950/60 px-2.5 py-1.5'')] []
        [Icon ''Clock'' ''size-3.5 shrink-0 text-slate-500'',
         selectNode [(''class'', UNIT_SELECT), (''aria-label'', label @ '' '' @ em_dash @ '' hour''), (''value'', num_str hour)] onHour (unitOptions HOURS),
         El ''span'' [(''class'', ''font-mono text-[15px] text-slate-600''), (''aria-hidden'', ''true'')] [] [Txt '':''],
         selectNode [(''class'', UNIT_SELECT), (''aria-label'', label @ '' '' @ em_dash @ '' minute''), (''value'', num_str minute)] onMinute
           (unitOptions (minuteOptions (int_of minute)))])"

definition TimeRow :: "(int \<Rightarrow> 'a) \<Rightarrow> (int \<Rightarrow> 'a) \<Rightarrow> (string \<Rightarrow> 'a) \<Rightarrow> string \<Rightarrow> string \<Rightarrow> 'a node" where
  "TimeRow onHour onMinute onPreset value label =
     El ''div'' [(''class'', ''flex flex-wrap items-center gap-x-3 gap-y-2'')] []
       [TimeField onHour onMinute value label,
        El ''div'' [(''class'', ''flex flex-wrap items-center gap-1'')] []
          (map (\<lambda>preset. pressButton (onPreset preset) (value = preset) []
              ''rounded-md border px-2 py-1 font-mono text-meta tabular-nums transition-colors duration-150''
              ''border-accent-500/50 bg-accent-500/12 text-accent-200''
              ''border-slate-800 bg-slate-950/40 text-slate-500 hover:border-slate-700 hover:text-slate-300'' preset) TIME_PRESETS)]"

definition WEEKDAY_INITIALS :: "string list" where
  "WEEKDAY_INITIALS = [''S'', ''M'', ''T'', ''W'', ''T'', ''F'', ''S'']"

definition WeekdayPicker :: "(int \<Rightarrow> 'a) \<Rightarrow> (int list \<Rightarrow> 'a) \<Rightarrow> int list \<Rightarrow> 'a node" where
  "WeekdayPicker toggle onPreset selected =
     El ''div'' [(''class'', ''space-y-2.5'')] []
       ([El ''div'' [(''class'', ''flex flex-wrap gap-1.5''), (''role'', ''group''), (''aria-label'', ''Days of the week'')] []
           (map (\<lambda>(initial, day). pressButton (toggle day) (day \<in> set selected)
               [(''aria-label'', weekdayLong day), (''title'', weekdayLong day)]
               ''size-9 rounded-lg border text-[13px] font-semibold transition-colors duration-150''
               ''border-accent-500/60 bg-accent-500/15 text-accent-200 elev-1''
               ''border-slate-800 bg-slate-950/50 text-slate-500 hover:border-slate-700 hover:text-slate-300'' initial)
             (zip WEEKDAY_INITIALS [0..6])),
         El ''div'' [(''class'', ''flex flex-wrap items-center gap-1'')] []
           (map (\<lambda>(label, days). pressButton (onPreset days) (presetActive days selected) []
               ''rounded-md border px-2 py-1 text-meta transition-colors duration-150''
               ''border-accent-500/50 bg-accent-500/12 text-accent-200''
               ''border-slate-800 bg-slate-950/40 text-slate-500 hover:border-slate-700 hover:text-slate-300'' label) WEEKDAY_PRESETS)] @
        (if selected = [] then [El ''p'' [(''class'', ''text-meta text-warn-400'')] [] [Txt ''Pick at least one day.'']] else []))"

definition MonthDayPicker :: "(int \<Rightarrow> 'a) \<Rightarrow> int \<Rightarrow> 'a node" where
  "MonthDayPicker onChange value =
     El ''div'' [(''class'', ''space-y-2.5'')] []
       ([El ''div'' [(''class'', ''grid w-fit grid-cols-7 gap-1''), (''role'', ''group''), (''aria-label'', ''Day of the month'')] []
           (map (\<lambda>day. pressButton (onChange day) (value = day) [(''aria-label'', ''Day '' @ int_str day @ '' of the month'')]
               ''size-8 rounded-md border font-mono text-meta tabular-nums transition-colors duration-150''
               ''border-accent-500/60 bg-accent-500/15 text-accent-200 elev-1''
               ''border-transparent bg-slate-950/50 text-slate-400 hover:border-slate-700 hover:text-slate-100'' (int_str day)) MONTH_DAYS),
         pressButton (onChange 31) (value = 31) []
           ''rounded-md border px-2.5 py-1 text-meta transition-colors duration-150''
           ''border-accent-500/50 bg-accent-500/12 text-accent-200''
           ''border-slate-800 bg-slate-950/40 text-slate-500 hover:border-slate-700 hover:text-slate-300'' ''Last day of the month''] @
        (case monthDayHint value of Some s \<Rightarrow> [El ''p'' [(''class'', ''text-meta text-slate-500'')] [] [Txt s]] | None \<Rightarrow> []))"

definition SettingRow :: "string \<Rightarrow> 'a node \<Rightarrow> 'a node" where
  "SettingRow label child = El ''div'' [(''class'', ''space-y-2'')] [] [El ''p'' [(''class'', ''eyebrow'')] [] [Txt label], child]"

subsection \<open>The editor\<close>

definition cadenceRow :: "scheduleKind \<Rightarrow> (string \<Rightarrow> editorEvent option) node" where
  "cadenceRow kind =
     SettingRow ''How often''
       (El ''div'' [(''role'', ''radiogroup''), (''aria-label'', ''How often this job runs''), (''class'', ''grid grid-cols-2 gap-2 sm:grid-cols-5'')] []
          (map (\<lambda>(k, label, sub). CadenceTile (\<lambda>v. Some (PickCadence k)) (kind = k) label sub (cadenceIcon k)) CADENCES))"

definition minuteRow :: "int \<Rightarrow> (string \<Rightarrow> editorEvent option) node" where
  "minuteRow current =
     SettingRow ''Minutes past the hour''
       (El ''div'' [(''class'', ''flex flex-wrap gap-1.5''), (''role'', ''group''), (''aria-label'', ''Minutes past the hour'')] []
          (map (\<lambda>minute. pressButton (\<lambda>v. Some (PickMinute minute)) (current = minute)
              [(''aria-label'', int_str minute @ '' minutes past the hour'')]
              ''rounded-lg border px-2.5 py-1.5 font-mono text-[13px] tabular-nums transition-colors duration-150''
              ''border-accent-500/60 bg-accent-500/15 text-accent-200 elev-1''
              ''border-slate-800 bg-slate-950/50 text-slate-400 hover:border-slate-700 hover:text-slate-100''
              ('':'' @ pad_start 2 (CHR ''0'') (int_str minute))) MINUTE_CHOICES))"

definition confirmationBlock :: "host \<Rightarrow> string option \<Rightarrow> draft \<Rightarrow> 'a node" where
  "confirmationBlock h timezone d =
     (let schedule = toSchedule d; nextRun = nextRunOf h schedule timezone; manual = (d_kind d = KManual)
      in El ''div'' [(''class'', cn [Some ''rounded-lg border px-4 py-3'',
           Some (if manual then ''border-slate-800 bg-slate-950/50'' else ''border-accent-500/25 bg-accent-500/[0.07]'')]),
           (''aria-live'', ''polite'')] []
        [El ''p'' [(''class'', cn [Some ''text-[13px] leading-5 font-medium'', Some (if manual then ''text-slate-300'' else ''text-accent-100'')])] []
           [Txt (describeScheduleSentence schedule)],
         El ''p'' [(''class'', ''mt-1 flex flex-wrap items-center gap-x-2 gap-y-0.5 text-meta text-slate-500'')] []
           ((case nextRun of
               Some t \<Rightarrow> [El ''span'' [] [] [Txt ''Next run '', Num [Txt (formatWallClock (h_zone h) nextRun)] (Some ''text-slate-300'') None]]
             | None \<Rightarrow> if d_kind d = KAdvanced then [El ''span'' [] [] [Txt ''Next run is calculated by the server.'']] else []) @
            (if timezone \<noteq> None \<and> timezone \<noteq> Some [] \<and> timezone \<noteq> Some ''Local''
             then [El ''span'' [] [] [Txt ''Server time zone '', El ''span'' [(''class'', ''font-mono text-slate-400'')] [] [Txt (the timezone)]]]
             else [El ''span'' [] [] [Txt (''Times are in the server'' @ rsquo @ ''s local time zone.'')]]))])"

definition cronDisclosure :: "bool \<Rightarrow> draft \<Rightarrow> (string \<Rightarrow> editorEvent option) node" where
  "cronDisclosure isOpen d =
     El ''details'' (flag ''open'' isOpen @ [(''class'', ''group rounded-lg border border-slate-800 bg-slate-950/40'')]) []
       [El ''summary'' [(''class'', ''flex list-none items-center gap-2 px-3.5 py-2.5 text-meta text-slate-500 transition-colors duration-150 hover:text-slate-300 [&::-webkit-details-marker]:hidden'')]
          [(''click'', \<lambda>v. Some (ToggleAdvanced (\<not> isOpen)))]
          [Icon ''Terminal'' ''size-3.5'', Txt (''Advanced '' @ em_dash @ '' cron expression''),
           El ''span'' [(''class'', ''ml-auto rounded border border-slate-800 px-1.5 py-px text-micro text-slate-600 uppercase'')] [] [Txt ''Advanced'']],
        El ''div'' [(''class'', ''space-y-2.5 border-t border-slate-800 px-3.5 py-3'')] []
          [El ''p'' [(''class'', ''text-meta leading-relaxed text-slate-500'')] []
             [Txt (''For schedules the options above cannot express '' @ em_dash @
                '' every 15 minutes, quarterly, the second Tuesday. Five fields: minute, hour, day of month, month, day of week. Filling this in replaces the schedule chosen above.'')],
           El ''div'' [(''class'', ''flex flex-wrap items-center gap-2'')] []
             ([Input (Some ''w-56 font-mono'')
                 [(''value'', d_cron d), (''placeholder'', ''*/15 * * * *''), (''aria-label'', ''Cron expression'')]
                 [(''change'', \<lambda>v. Some (EditCron v))]] @
              (case cronBadge d of
                 Some b \<Rightarrow> [El ''span'' [(''class'', cn [Some ''text-meta'', Some (if cronInvalid d then ''text-fail-400'' else ''text-accent-300'')])] [] [Txt b]]
               | None \<Rightarrow> []))]]"

definition ScheduleEditor :: "host \<Rightarrow> string option \<Rightarrow> editor \<Rightarrow> (string \<Rightarrow> editorEvent option) node list" where
  "ScheduleEditor h timezone e =
     (let d = ed_draft e
      in [El ''div'' [(''class'', ''space-y-5'')] []
        ([cadenceRow (d_kind d)] @
         (if d_kind d = KHourly then [minuteRow (d_minute d)] else []) @
         (if timed (d_kind d)
          then [SettingRow ''At'' (TimeRow (\<lambda>n v. Some (PickHour n)) (\<lambda>n v. Some (PickMinuteOfHour n)) (\<lambda>t v. Some (PickTimePreset t))
                  (d_time d) ''Time this job runs'')]
          else []) @
         (if d_kind d = KWeekly
          then [SettingRow ''On these days'' (WeekdayPicker (\<lambda>x v. Some (ToggleDay x)) (\<lambda>ds v. Some (PickDaysPreset ds)) (d_weekdays d))]
          else []) @
         (if d_kind d = KMonthly then [SettingRow ''On this day'' (MonthDayPicker (\<lambda>x v. Some (PickDay x)) (d_dayOfMonth d))] else []) @
         [confirmationBlock h timezone d, cronDisclosure (ed_advancedOpen e) d])])"

subsection \<open>Lemmas\<close>

lemma tree_selectNode [simp]:
  "''disabled'' \<notin> set (map fst attrs) \<Longrightarrow> fires ev (selectNode attrs f os) = (if ev = ''change'' then map (f \<circ> fst) os else [])"
  "forms (selectNode attrs f os) = []"
  by (induction os) (auto simp: selectNode_def)

lemma tree_pressButton [simp]:
  "''disabled'' \<notin> set (map fst rest) \<Longrightarrow> fires ev (pressButton act active rest b on off l) = (if ev = ''click'' then [act] else [])"
  "forms (pressButton act active rest b on off l) = []"
  by (simp_all add: pressButton_def)

lemma tree_CadenceTile [simp]:
  "fires ev (CadenceTile act active l s i) = (if ev = ''click'' then [act] else [])" "forms (CadenceTile act active l s i) = []"
  by (simp_all add: CadenceTile_def)

lemma tree_SettingRow [simp]: "fires ev (SettingRow l n) = fires ev n" "forms (SettingRow l n) = forms n"
  by (simp_all add: SettingRow_def)

lemma tree_TimeRow [simp]:
  "fires ev (TimeRow f g k value label) =
     (if ev = ''change'' then map f HOURS @ map g (minuteOptions (int_of (snd (partsOf value)))) else if ev = ''click'' then map k TIME_PRESETS else [])"
  "forms (TimeRow f g k value label) = []"
  by (simp_all add: TimeRow_def TimeField_def unitOptions_def o_def concat_map_singleton split: prod.splits)

lemma tree_WeekdayPicker [simp]:
  "fires ev (WeekdayPicker f g sel) = (if ev = ''click'' then map f [0..6] @ map (g \<circ> snd) WEEKDAY_PRESETS else [])"
  "forms (WeekdayPicker f g sel) = []"
  by (simp_all add: WeekdayPicker_def WEEKDAY_INITIALS_def WEEKDAY_PRESETS_def upto.simps)

lemma tree_MonthDayPicker [simp]:
  "fires ev (MonthDayPicker f value) = (if ev = ''click'' then map f MONTH_DAYS @ [f 31] else [])" "forms (MonthDayPicker f value) = []"
  by (cases "monthDayHint value"; simp add: MonthDayPicker_def o_def concat_map_singleton)+

lemma tree_rows [simp]:
  "fires ev (cadenceRow k) = (if ev = ''click'' then map (\<lambda>c v. Some (PickCadence (fst c))) CADENCES else [])"
  "fires ev (minuteRow m) = (if ev = ''click'' then map (\<lambda>m v. Some (PickMinute m)) MINUTE_CHOICES else [])"
  "forms (cadenceRow k) = []" "forms (minuteRow m) = []"
  by (simp_all add: cadenceRow_def CADENCES_def minuteRow_def o_def concat_map_singleton)

lemma tree_confirmationBlock [simp]: "fires ev (confirmationBlock h tz d) = []" "forms (confirmationBlock h tz d) = []"
  by (cases "nextRunOf h (toSchedule d) tz"; simp add: confirmationBlock_def Let_def Num_def)+

text \<open>The text of the block is the confirmation the editor gives.\<close>

lemma confirmationBlock_texts:
  "concat (texts (confirmationBlock h tz (ed_draft e))) = concat (confirmation h e tz)"
  by (auto simp: confirmationBlock_def confirmation_def Let_def Num_def split: option.split)

lemma tree_cronDisclosure [simp]:
  "fires ev (cronDisclosure b d) =
     (if ev = ''click'' then [\<lambda>v. Some (ToggleAdvanced (\<not> b))] else if ev = ''change'' \<and> b then [\<lambda>v. Some (EditCron v)] else [])"
  "forms (cronDisclosure b d) = []"
  by (cases b; cases "cronBadge d"; simp add: cronDisclosure_def)+

lemma schedule_clicks:
  "concat (map (fires ''click'') (ScheduleEditor h timezone e)) =
     (let d = ed_draft e in
      map (\<lambda>c v. Some (PickCadence (fst c))) CADENCES @
      (if d_kind d = KHourly then map (\<lambda>m v. Some (PickMinute m)) MINUTE_CHOICES else []) @
      (if timed (d_kind d) then map (\<lambda>t v. Some (PickTimePreset t)) TIME_PRESETS else []) @
      (if d_kind d = KWeekly then map (\<lambda>x v. Some (ToggleDay x)) [0..6] @ map (\<lambda>p v. Some (PickDaysPreset (snd p))) WEEKDAY_PRESETS else []) @
      (if d_kind d = KMonthly then map (\<lambda>x v. Some (PickDay x)) MONTH_DAYS @ [\<lambda>v. Some (PickDay 31)] else []) @
      [\<lambda>v. Some (ToggleAdvanced (\<not> ed_advancedOpen e))])"
  by (simp add: ScheduleEditor_def Let_def o_def)

lemma schedule_changes:
  "concat (map (fires ''change'') (ScheduleEditor h timezone e)) =
     (let d = ed_draft e in
      (if timed (d_kind d)
       then map (\<lambda>n v. Some (PickHour n)) HOURS @ map (\<lambda>n v. Some (PickMinuteOfHour n)) (minuteOptions (int_of (snd (partsOf (d_time d)))))
       else []) @
      (if ed_advancedOpen e then [\<lambda>v. Some (EditCron v)] else []))"
  by (simp add: ScheduleEditor_def Let_def)

lemma schedule_keys: "concat (map (fires ''keydown'') (ScheduleEditor h timezone e)) = []"
  by (simp add: ScheduleEditor_def Let_def)

lemma offers_schedule: "offersEvent (ScheduleEditor h timezone e) ev \<longleftrightarrow> offered e ev"
proof -
  have "submits (ScheduleEditor h timezone e) = []" by (simp add: submits_def ScheduleEditor_def Let_def)
  then show ?thesis
    unfolding offersEvent_split schedule_clicks schedule_changes schedule_keys Let_def makes_simps makes_when makes_map
    by (cases ev) (auto simp del: set_upto)
qed

interpretation schedule_screen: rendered_screen "ScheduleEditor h timezone" editorStep offered "\<lambda>ev. True"
  by unfold_locales (simp_all add: offers_schedule)

end
