(* ===== verification/Steps_Screen.thy ===== *)
theory Steps_Screen
  imports Interface_Kit Form_Steps
begin

text \<open>
  The retention and protection steps of the job wizard as they are rendered
  (\<open>web/src/components/RetentionStep.tsx\<close>, \<open>web/src/components/PolicyStep.tsx\<close>), with the disclosures their inputs are
  in. What the trees let somebody do is what the machines of \<open>Form_Steps\<close> offer in the sections that are open.
\<close>

subsection \<open>Retention\<close>

definition numberInput :: "string option \<Rightarrow> string \<Rightarrow> int \<Rightarrow> int \<Rightarrow> int \<Rightarrow> bool \<Rightarrow> (string \<Rightarrow> 'e) \<Rightarrow> (string \<Rightarrow> 'e option) node" where
  "numberInput className i lo hi value disabled ev =
     Input className ([(''id'', i), (''type'', ''number''), (''min'', int_str lo), (''max'', int_str hi), (''value'', int_str value)] @
       flag ''disabled'' disabled) [(''change'', \<lambda>v. Some (ev v))]"

text \<open>
  The disclosure of the long-term rules. React writes the attribute \<open>open\<close> when the value it is given changes, so the section
  follows \<open>defaultOpen\<close> after the first rendering too; in between, a click on the summary opens and closes it.
\<close>

record retentionScreen =
  rn_value :: retentionPolicy
  rn_open :: bool

datatype retentionAct = InRetention retentionEvent | ToggleLongTerm

definition mountRetention :: "retentionPolicy \<Rightarrow> retentionScreen" where
  "mountRetention r = \<lparr>rn_value = r, rn_open = (\<not> isSimpleRetention r)\<rparr>"

fun needsLongTerm :: "retentionEvent \<Rightarrow> bool" where
  "needsLongTerm (EditGfs k s) = True"
| "needsLongTerm _ = False"

fun retentionActOffered :: "retentionScreen \<Rightarrow> retentionAct \<Rightarrow> bool" where
  "retentionActOffered s (InRetention e) = (retentionOffered (rn_value s) e \<and> (needsLongTerm e \<longrightarrow> rn_open s))"
| "retentionActOffered s ToggleLongTerm = True"

fun retentionActStep :: "retentionAct \<Rightarrow> retentionScreen \<Rightarrow> retentionScreen" where
  "retentionActStep (InRetention e) s =
     (let next = retentionStep e (rn_value s)
      in s\<lparr>rn_value := next,
           rn_open := (if isSimpleRetention next = isSimpleRetention (rn_value s) then rn_open s else \<not> isSimpleRetention next)\<rparr>)"
| "retentionActStep ToggleLongTerm s = s\<lparr>rn_open := \<not> rn_open s\<rparr>"

fun gfsValue :: "gfsKey \<Rightarrow> retentionPolicy \<Rightarrow> int" where
  "gfsValue KeepDaily r = keepDaily r"
| "gfsValue KeepWeekly r = keepWeekly r"
| "gfsValue KeepMonthly r = keepMonthly r"
| "gfsValue KeepYearly r = keepYearly r"

definition previewRowNode :: "host \<Rightarrow> bool \<Rightarrow> jval \<Rightarrow> 'a node" where
  "previewRowNode h pruned entry =
     (let created = str_of (jprop entry ''createdAt'')
      in El ''li'' [(''class'', ''flex flex-wrap items-baseline gap-x-3 gap-y-0.5 px-3 py-1.5'')] []
        ([Num [Txt (formatDate h created)]
            (Some (cn [Some ''shrink-0 text-[13px]'', Some (if pruned then ''text-slate-500 line-through'' else ''text-slate-200'')])) None,
          El ''span'' [(''class'', ''shrink-0 text-micro text-slate-600'')] [] [Txt (formatRelative h created)]] @
         (if pruned then []
          else [El ''span'' [(''class'', ''ml-auto flex flex-wrap gap-1'')] []
            (map (\<lambda>reason. El ''span'' [(''class'', ''rounded border border-slate-700/80 bg-slate-800/60 px-1.5 text-[11px] leading-4 text-slate-400'')] []
                [Txt (val_str reason)]) (elems (jprop entry ''reasons'')))])))"

definition previewList :: "host \<Rightarrow> bool \<Rightarrow> string \<Rightarrow> string \<Rightarrow> string \<Rightarrow> string \<Rightarrow> string \<Rightarrow> jval list \<Rightarrow> 'a node" where
  "previewList h pruned icon tone title emptyClass emptyText entries =
     El ''div'' [(''class'', ''rounded-lg border border-slate-800 bg-slate-950/40'')] []
       [El ''p'' [(''class'', ''flex items-center gap-2 border-b border-slate-800/80 px-3 py-2 text-meta font-medium '' @ tone)] []
          [Icon icon ''size-3.5'', Txt title, Num [Txt (nat_str (length entries))] (Some ''ml-auto text-slate-400'') None],
        (if entries = [] then El ''p'' [(''class'', ''px-3 py-3 text-xs '' @ emptyClass)] [] [Txt emptyText]
         else El ''ul'' [(''class'', ''max-h-56 divide-y divide-slate-800/60 overflow-y-auto'')] [] (map (previewRowNode h pruned) entries))]"

definition previewNode :: "host \<Rightarrow> previewView \<Rightarrow> 'a node list" where
  "previewNode h view =
     (case view of
        PvError m \<Rightarrow> [El ''p'' [(''class'', ''rounded-lg border border-slate-800 bg-slate-950/40 px-3.5 py-2.5 text-xs text-slate-400'')] [] [Txt m]]
      | PvSpinner \<Rightarrow>
          [El ''div'' [(''class'', ''flex items-center gap-2.5 rounded-lg border border-slate-800 bg-slate-950/40 px-3.5 py-4 text-xs text-slate-500'')] []
             [Spinner None, Txt (''Working out what this policy keeps'' @ ellipsis)]]
      | PvNothing \<Rightarrow> []
      | PvEmpty \<Rightarrow>
          [El ''p'' [(''class'', ''rounded-lg border border-slate-800 bg-slate-950/40 px-3.5 py-2.5 text-xs text-slate-400'')] []
             [Txt ''This job holds no restore points yet, so there is nothing for the policy to act on. The preview fills in after its first successful run.'']]
      | PvLists keeps prunes loading \<Rightarrow>
          [El ''div'' [(''class'', cn [Some ''grid gap-3 sm:grid-cols-2'', if loading then Some ''opacity-60'' else None])] []
             [previewList h False ''CalendarDays'' ''text-ok-300'' ''Kept'' ''text-warn-300''
                ''Nothing survives this policy. Recovery would be impossible.'' keeps,
              previewList h True ''Trash2'' ''text-slate-400'' ''Pruned'' ''text-slate-500'' ''Nothing would be removed.'' prunes]])"

definition keepLastField :: "int \<Rightarrow> (string \<Rightarrow> retentionAct option) node" where
  "keepLastField current =
     Field '':k0:'' ''Keep last'' None None
       (\<lambda>i d. [El ''div'' [(''class'', ''flex flex-wrap items-center gap-2'')] []
          (numberInput (Some ''w-24'') i 0 9999 current False (\<lambda>v. InRetention (EditKeepLast v)) #
           map (\<lambda>preset. Button ((plainButton (\<lambda>v. Some (InRetention (PickKeepLast preset))) (int_str preset))\<lparr>bp_size := Some SizeSm,
               bp_variant := Some (if current = preset then VPrimary else VSecondary)\<rparr>)) PRESETS)]) None"

definition gfsField :: "retentionPolicy \<Rightarrow> gfsKey \<times> string \<times> string \<Rightarrow> (string \<Rightarrow> retentionAct option) node" where
  "gfsField value f =
     Field ('':k-'' @ fst (snd f)) (fst (snd f)) (Some (Txt (snd (snd f)))) None
       (\<lambda>i d. [numberInput None i 0 9999 (gfsValue (fst f) value) False (\<lambda>v. InRetention (EditGfs (fst f) v))]) None"

text \<open>The summary of this disclosure makes an event; \<open>preview\<close> is there when a saved job is edited.\<close>

definition RetentionStep :: "host \<Rightarrow> previewView option \<Rightarrow> retentionScreen \<Rightarrow> (string \<Rightarrow> retentionAct option) node list" where
  "RetentionStep h preview s =
     (let value = rn_value s
      in [El ''div'' [(''class'', ''space-y-5'')] []
        ([El ''div'' [] []
            [keepLastField (keepLast value),
             Hint [Txt ''The most recent restore points, whatever day they fall on. This alone is enough for most estates.''] (Some ''mt-1.5'')],
          Disclosure (\<lambda>v. Some ToggleLongTerm) (''Advanced '' @ em_dash @ '' long-term retention'') (Some (Txt (advancedHint value)))
            [El ''div'' [(''class'', ''space-y-4'')] []
               [El ''div'' [(''class'', ''grid grid-cols-2 gap-3 sm:grid-cols-4'')] [] (map (gfsField value) GFS_FIELDS),
                Hint [Txt (''A restore point survives if any rule keeps it, so these add to '' @ ldquo @ ''keep last'' @ rdquo @
                  '' rather than competing with it. Zero switches a rule off.'')] None]]
            (rn_open s) None,
          El ''div'' [(''class'', ''rounded-lg border border-slate-800 bg-slate-950/40 px-3.5 py-2.5'')] []
            (El ''p'' [(''class'', ''text-[13px] text-slate-200'')] [] [Txt (hd (retentionSummary value))] #
             map (\<lambda>w. El ''p'' [(''class'', ''mt-1 text-xs text-fail-300'')] [] [Txt w]) (tl (retentionSummary value))),
          (case preview of
             None \<Rightarrow> Hint [Txt ''Once this job has run, this step shows exactly which restore points the policy keeps and which it prunes.''] None
           | Some view \<Rightarrow> El ''div'' [(''class'', ''space-y-2'')] []
               (El ''p'' [(''class'', ''eyebrow'')] [] [Txt ''What this policy does to the points held today''] # previewNode h view))])])"

subsection \<open>Protection\<close>

text \<open>
  The sections of the step are closed at first and are opened and closed by their summaries alone.
\<close>

datatype policySection = Consistency | Scope | RunControl | Automation | Transfer

record policyScreen =
  py_form :: policyForm
  py_open :: "policySection list"

datatype policyAct = InPolicy policyEvent | ToggleSection policySection

definition mountPolicyScreen :: "jobKind \<Rightarrow> jobPolicy \<Rightarrow> policyScreen" where
  "mountPolicyScreen kind value = \<lparr>py_form = mountPolicy kind value, py_open = []\<rparr>"

fun sectionOf :: "policyEvent \<Rightarrow> policySection option" where
  "sectionOf ResetPolicy = None"
| "sectionOf (SetQuiesce q) = Some Consistency"
| "sectionOf (TypeToken s) = Some Scope"
| "sectionOf AddToken = Some Scope"
| "sectionOf (RemoveToken s) = Some Scope"
| "sectionOf (EditRetryCount s) = Some RunControl"
| "sectionOf (EditRetryDelay s) = Some RunControl"
| "sectionOf (EditMaxDuration s) = Some RunControl"
| "sectionOf (ToggleWindow b) = Some RunControl"
| "sectionOf (EditWindowStart s) = Some RunControl"
| "sectionOf (EditWindowEnd s) = Some RunControl"
| "sectionOf (EditPreScript s) = Some Automation"
| "sectionOf (EditPostScript s) = Some Automation"
| "sectionOf (EditScriptTimeout s) = Some Automation"
| "sectionOf (EditUploadLimit s) = Some Transfer"

fun policyActOffered :: "policyScreen \<Rightarrow> policyAct \<Rightarrow> bool" where
  "policyActOffered s (InPolicy e) =
     (policyOffered (py_form s) e \<and> (case sectionOf e of None \<Rightarrow> True | Some x \<Rightarrow> x \<in> set (py_open s)))"
| "policyActOffered s (ToggleSection x) = True"

fun policyActStep :: "policyAct \<Rightarrow> policyScreen \<Rightarrow> policyScreen" where
  "policyActStep (InPolicy e) s = s\<lparr>py_form := policyStep e (py_form s)\<rparr>"
| "policyActStep (ToggleSection x) s =
     s\<lparr>py_open := (if x \<in> set (py_open s) then removeAll x (py_open s) else x # py_open s)\<rparr>"

abbreviation does :: "policyEvent \<Rightarrow> string \<Rightarrow> policyAct option" where
  "does e \<equiv> (\<lambda>v. Some (InPolicy e))"

text \<open>The Enter key adds whatever the field holds; the button is there once it holds something.\<close>

definition TokenList :: "string \<Rightarrow> string \<Rightarrow> string \<Rightarrow> string list \<Rightarrow> string \<Rightarrow> (string \<Rightarrow> policyAct option) node" where
  "TokenList label hint placeholder values draft =
     El ''div'' [(''class'', ''space-y-2'')] []
       (Field '':t0:'' label (Some (Txt hint)) None
          (\<lambda>i d. [El ''div'' [(''class'', ''flex gap-2'')] []
             [Input None [(''id'', i), (''value'', draft), (''placeholder'', placeholder)]
                [(''change'', \<lambda>v. Some (InPolicy (TypeToken v))), (''keydown'', \<lambda>key. if key = ''Enter'' then Some (InPolicy AddToken) else None)],
              Button ((plainButton (does AddToken) ''Add'')\<lparr>bp_disabled := (trim draft = []), bp_icon := Some (Icon ''Plus'' ''size-4'')\<rparr>)]]) None #
        (if values = [] then []
         else [El ''ul'' [(''class'', ''divide-y divide-slate-800 rounded-lg border border-slate-800'')] []
           (map (\<lambda>value. El ''li'' [(''class'', ''flex items-center gap-3 px-3 py-1.5'')] []
               [El ''code'' [(''class'', ''min-w-0 flex-1 truncate font-mono text-xs text-slate-300'')] [] [Txt value],
                IconButton ((plainButton (does (RemoveToken value)) [])\<lparr>bp_rest := [(''aria-label'', ''Remove '' @ value)],
                  bp_children := [Icon ''X'' ''size-3.5'']\<rparr>)]) values)]))"

definition policyTop :: "policyForm \<Rightarrow> (string \<Rightarrow> policyAct option) node" where
  "policyTop f =
     El ''div'' [(''class'', ''flex flex-wrap items-center gap-x-3 gap-y-2 rounded-lg border border-slate-800 bg-slate-950/40 px-3.5 py-2.5'')] []
       (El ''p'' [(''class'', ''min-w-0 flex-1 text-[13px] text-slate-300'')] [] [Txt (policyHeadline (pf_policy f) (pf_kind f))] #
        (if isDefaultPolicy (pf_policy f) then []
         else [Button ((plainButton (does ResetPolicy) ''Reset to defaults'')\<lparr>bp_size := Some SizeSm\<rparr>)]))"

definition consistencyPart :: "jobPolicy \<Rightarrow> (string \<Rightarrow> policyAct option) node" where
  "consistencyPart p =
     El ''div'' [(''class'', ''space-y-2'')] []
       [Segmented (p_quiesce p) QUIESCE_OPTIONS (\<lambda>q v. Some (InPolicy (SetQuiesce q))) ''Consistency'' None,
        Hint [Txt (snd (consistencyHint p))] None]"

definition scopePart :: "policyForm \<Rightarrow> (string \<Rightarrow> policyAct option) node" where
  "scopePart f =
     (if pf_kind f = VmJob
      then TokenList ''Exclude disks'' ''Proxmox disk identifiers, e.g. scsi1. Everything else in the guest is protected.'' ''scsi1''
        (p_excludeDisks (pf_policy f)) (pf_draft f)
      else TokenList ''Exclude paths'' (''Glob patterns matched against each file'' @ [CHR 0x27] @ ''s path.'') ''**/node_modules''
        (p_excludePaths (pf_policy f)) (pf_draft f))"

text \<open>A time input gives the empty text or a clock time.\<close>

definition timeInput :: "string \<Rightarrow> string \<Rightarrow> string \<Rightarrow> (string \<Rightarrow> policyEvent) \<Rightarrow> (string \<Rightarrow> policyAct option) node" where
  "timeInput uid label value ev =
     Field uid label None None
       (\<lambda>i d. [Input None [(''id'', i), (''type'', ''time''), (''value'', value)]
          [(''change'', \<lambda>v. if v = [] \<or> HHMM v then Some (InPolicy (ev v)) else None)]]) None"

definition runControlPart :: "jobPolicy \<Rightarrow> (string \<Rightarrow> policyAct option) node" where
  "runControlPart p =
     (let windowOn = (p_window p \<noteq> None)
      in El ''div'' [(''class'', ''space-y-4'')] []
        [El ''div'' [(''class'', ''grid gap-3 sm:grid-cols-2'')] []
           [Field '':p1:'' ''Retries after a failure'' (Some (Txt (''0'' @ en_dash @ ''5. Applies per workload.''))) None
              (\<lambda>i d. [numberInput None i 0 5 (p_retryCount p) False (\<lambda>v. InPolicy (EditRetryCount v))]) None,
            Field '':p2:'' ''Minutes between retries'' (Some (Txt (''1'' @ en_dash @ ''120.''))) None
              (\<lambda>i d. [numberInput None i 1 120 (p_retryDelayMinutes p) (p_retryCount p = 0) (\<lambda>v. InPolicy (EditRetryDelay v))]) None],
         Field '':p3:'' ''Maximum run duration (minutes)'' (Some (Txt ''0 means no limit.'')) None
           (\<lambda>i d. [numberInput (Some ''w-32'') i 0 10080 (p_maxDurationMinutes p) False (\<lambda>v. InPolicy (EditMaxDuration v))]) None,
         El ''div'' [(''class'', ''space-y-2'')] []
           ([El ''label'' [(''class'', ''flex items-center gap-2.5 text-[13px] text-slate-300'')] []
               [El ''input'' ([(''type'', ''checkbox''), (''class'', ''size-4 accent-accent-500'')] @ flag ''checked'' windowOn)
                  [(''change'', does (ToggleWindow (\<not> windowOn)))] [],
                Txt ''Only start inside a backup window'']] @
            (if windowOn
             then [El ''div'' [(''class'', ''grid gap-3 sm:grid-cols-2'')] []
               [timeInput '':p4:'' ''Window opens'' (windowStart p) EditWindowStart, timeInput '':p5:'' ''Window closes'' (windowEnd p) EditWindowEnd]]
             else []) @
            [Hint [Txt (''A run already under way is never cut off at the closing time '' @ em_dash @ '' the window governs when a run may start.'')] None])])"

definition automationPart :: "jobPolicy \<Rightarrow> (string \<Rightarrow> policyAct option) node" where
  "automationPart p =
     El ''div'' [(''class'', ''space-y-4'')] []
       [Field '':p6:'' ''Before the backup'' (Some (Txt ''Runs on the node helper or agent. Output is captured.'')) None
          (\<lambda>i d. [Input None [(''id'', i), (''value'', p_preScript p), (''placeholder'', ''/usr/local/bin/quiesce-app.sh'')]
             [(''change'', \<lambda>v. Some (InPolicy (EditPreScript v)))]]) None,
        Field '':p7:'' ''After the backup'' None None
          (\<lambda>i d. [Input None [(''id'', i), (''value'', p_postScript p), (''placeholder'', ''/usr/local/bin/resume-app.sh'')]
             [(''change'', \<lambda>v. Some (InPolicy (EditPostScript v)))]]) None,
        Field '':p8:'' ''Script timeout (seconds)'' None None
          (\<lambda>i d. [numberInput (Some ''w-32'') i 1 3600 (p_scriptTimeoutSeconds p) False (\<lambda>v. InPolicy (EditScriptTimeout v))]) None]"

definition transferPart :: "jobPolicy \<Rightarrow> (string \<Rightarrow> policyAct option) node" where
  "transferPart p =
     Field '':p9:'' ''Transfer ceiling for this job (Mbps)'' (Some (Txt ''0 inherits the server-wide limit from Settings.'')) None
       (\<lambda>i d. [numberInput (Some ''w-32'') i 0 10000 (p_uploadLimitMbpsOverride p) False (\<lambda>v. InPolicy (EditUploadLimit v))]) None"

definition policyDisclosure :: "policyScreen \<Rightarrow> policySection \<Rightarrow> string \<Rightarrow> string \<Rightarrow> (string \<Rightarrow> policyAct option) node \<Rightarrow> (string \<Rightarrow> policyAct option) node" where
  "policyDisclosure s x summary hint content =
     Disclosure (\<lambda>v. Some (ToggleSection x)) summary (Some (Txt hint)) [content] (x \<in> set (py_open s)) None"

definition PolicyStep :: "policyScreen \<Rightarrow> (string \<Rightarrow> policyAct option) node list" where
  "PolicyStep s =
     (let f = py_form s; p = pf_policy f
      in [El ''div'' [(''class'', ''space-y-4'')] []
        [policyTop f,
         policyDisclosure s Consistency ''Consistency'' (fst (consistencyHint p)) (consistencyPart p),
         policyDisclosure s Scope ''Scope'' (scopeHint f) (scopePart f),
         policyDisclosure s RunControl ''Run control'' (runControlHint p) (runControlPart p),
         policyDisclosure s Automation ''Automation'' (automationHint p) (automationPart p),
         policyDisclosure s Transfer ''Transfer'' (transferHint p) (transferPart p)]])"

subsection \<open>Lemmas: retention\<close>

lemma tree_numberInput [simp]:
  "fires ev (numberInput c i lo hi value disabled f) = (if ev = ''change'' \<and> \<not> disabled then [\<lambda>v. Some (f v)] else [])"
  "forms (numberInput c i lo hi value disabled f) = []"
  by (cases disabled; simp add: numberInput_def)+

lemma tree_keepLastField [simp]:
  "fires ev (keepLastField n) =
     (if ev = ''change'' then [\<lambda>v. Some (InRetention (EditKeepLast v))]
      else if ev = ''click'' then map (\<lambda>p v. Some (InRetention (PickKeepLast p))) PRESETS else [])"
  "forms (keepLastField n) = []"
  by (simp_all add: keepLastField_def fires_Button submits_Button plainButton_def o_def concat_map_singleton)

lemma tree_gfsField [simp]:
  "fires ev (gfsField value f) = (if ev = ''change'' then [\<lambda>v. Some (InRetention (EditGfs (fst f) v))] else [])" "forms (gfsField value f) = []"
  by (simp_all add: gfsField_def)

lemma tree_previewRow [simp]: "fires ev (previewRowNode h pruned entry) = []" "forms (previewRowNode h pruned entry) = []"
  by (simp_all add: previewRowNode_def Let_def)

lemma tree_previewList [simp]:
  "fires ev (previewList h pruned icon tone title ec et entries) = []" "forms (previewList h pruned icon tone title ec et entries) = []"
  by (simp_all add: previewList_def o_def)

lemma tree_previewNode [simp]: "concat (map (fires ev) (previewNode h view)) = []" "concat (map forms (previewNode h view)) = []"
  by (cases view; simp add: previewNode_def Spinner_def)+

lemma tree_RetentionStep:
  "concat (map (fires ev) (RetentionStep h preview s)) =
     (if ev = ''change''
      then [\<lambda>v. Some (InRetention (EditKeepLast v))] @ (if rn_open s then map (\<lambda>f v. Some (InRetention (EditGfs (fst f) v))) GFS_FIELDS else [])
      else if ev = ''click'' then map (\<lambda>p v. Some (InRetention (PickKeepLast p))) PRESETS @ [\<lambda>v. Some ToggleLongTerm] else [])"
  "submits (RetentionStep h preview s) = []"
  by (cases preview; simp add: RetentionStep_def Let_def submits_def o_def concat_map_singleton)+

lemma offers_retention: "offersEvent (RetentionStep h preview s) a \<longleftrightarrow> retentionActOffered s a"
proof -
  have "offersEvent (RetentionStep h preview s) a \<longleftrightarrow>
      (\<exists>p\<in>set PRESETS. a = InRetention (PickKeepLast p)) \<or> a = ToggleLongTerm \<or> (\<exists>v. a = InRetention (EditKeepLast v)) \<or>
      rn_open s \<and> (\<exists>f\<in>set GFS_FIELDS. \<exists>v. a = InRetention (EditGfs (fst f) v))"
    unfolding offersEvent_split tree_RetentionStep by (auto simp: makes_map)
  then show ?thesis
  proof (cases a)
    case (InRetention e)
    with \<open>offersEvent (RetentionStep h preview s) a \<longleftrightarrow> _\<close> show ?thesis by (cases e) auto
  qed simp
qed

interpretation retention_screen: rendered_screen "RetentionStep h preview" retentionActStep retentionActOffered "\<lambda>a. True"
  by unfold_locales (simp_all add: offers_retention)

text \<open>The policy of the screen goes through the states of the step.\<close>

interpretation retention_part: embedded_part retentionActStep retentionActOffered rn_value retentionStep retentionOffered
proof unfold_locales
  fix s a assume "retentionActOffered s a"
  then show "rn_value (retentionActStep a s) = rn_value s \<or>
      (\<exists>e. retentionOffered (rn_value s) e \<and> rn_value (retentionActStep a s) = retentionStep e (rn_value s))"
    by (cases a) (auto simp: Let_def)
qed

text \<open>
  The section closes under the hands of who edits it: emptying the one long-term rule in force makes the
  policy a simple one, and the field that was being edited is gone.
\<close>

lemma section_closes_while_editing:
  assumes "r = \<lparr>keepLast = 7, keepDaily = 5, keepWeekly = 0, keepMonthly = 0, keepYearly = 0\<rparr>"
  shows "\<exists>s. run_events retentionActStep retentionActOffered [InRetention (EditGfs KeepDaily [])] (mountRetention r) = Some s \<and>
    \<not> (\<exists>v. retentionActOffered s (InRetention (EditGfs KeepDaily v)))"
proof -
  have "clampCount [] = 0" by code_simp
  then show ?thesis by (simp add: assms mountRetention_def isSimpleRetention_def GFS_FIELDS_def)
qed

subsection \<open>Lemmas: protection\<close>

lemma tree_TokenList [simp]:
  "fires ev (TokenList label hint ph values draft) =
     (if ev = ''change'' then [\<lambda>v. Some (InPolicy (TypeToken v))]
      else if ev = ''keydown'' then [\<lambda>key. if key = ''Enter'' then Some (InPolicy AddToken) else None]
      else if ev = ''click'' then (if trim draft = [] then [] else [does AddToken]) @ map (\<lambda>t. does (RemoveToken t)) values
      else [])"
  "forms (TokenList label hint ph values draft) = []"
  by (simp_all add: TokenList_def fires_Button fires_IconButton submits_Button submits_IconButton plainButton_def o_def concat_map_singleton)

lemma tree_policyTop [simp]:
  "fires ev (policyTop f) = (if ev = ''click'' \<and> \<not> isDefaultPolicy (pf_policy f) then [does ResetPolicy] else [])"
  "forms (policyTop f) = []"
  by (simp_all add: policyTop_def fires_Button submits_Button plainButton_def)

lemma tree_consistencyPart [simp]:
  "fires ev (consistencyPart p) = (if ev = ''click'' then map (\<lambda>q. does (SetQuiesce (fst q))) QUIESCE_OPTIONS else [])"
  "forms (consistencyPart p) = []"
  by (simp_all add: consistencyPart_def)

lemma tree_scopePart [simp]:
  "fires ev (scopePart f) =
     (if ev = ''change'' then [\<lambda>v. Some (InPolicy (TypeToken v))]
      else if ev = ''keydown'' then [\<lambda>key. if key = ''Enter'' then Some (InPolicy AddToken) else None]
      else if ev = ''click'' then (if trim (pf_draft f) = [] then [] else [does AddToken]) @ map (\<lambda>t. does (RemoveToken t)) (scopeTokens f)
      else [])"
  "forms (scopePart f) = []"
  by (cases "pf_kind f"; simp add: scopePart_def scopeTokens_def)+

lemma tree_timeInput [simp]:
  "fires ev (timeInput uid label value e) =
     (if ev = ''change'' then [\<lambda>v. if v = [] \<or> HHMM v then Some (InPolicy (e v)) else None] else [])"
  "forms (timeInput uid label value e) = []"
  by (simp_all add: timeInput_def)

lemma tree_runControlPart [simp]:
  "fires ev (runControlPart p) =
     (if ev = ''change''
      then [\<lambda>v. Some (InPolicy (EditRetryCount v))] @ (if p_retryCount p = 0 then [] else [\<lambda>v. Some (InPolicy (EditRetryDelay v))]) @
        [\<lambda>v. Some (InPolicy (EditMaxDuration v)), does (ToggleWindow (p_window p = None))] @
        (if p_window p = None then []
         else [\<lambda>v. if v = [] \<or> HHMM v then Some (InPolicy (EditWindowStart v)) else None,
               \<lambda>v. if v = [] \<or> HHMM v then Some (InPolicy (EditWindowEnd v)) else None])
      else [])"
  "forms (runControlPart p) = []"
  by (simp_all add: runControlPart_def Let_def)

lemma tree_automationPart [simp]:
  "fires ev (automationPart p) =
     (if ev = ''change''
      then [\<lambda>v. Some (InPolicy (EditPreScript v)), \<lambda>v. Some (InPolicy (EditPostScript v)), \<lambda>v. Some (InPolicy (EditScriptTimeout v))]
      else [])"
  "forms (automationPart p) = []"
  by (simp_all add: automationPart_def)

lemma tree_transferPart [simp]:
  "fires ev (transferPart p) = (if ev = ''change'' then [\<lambda>v. Some (InPolicy (EditUploadLimit v))] else [])"
  "forms (transferPart p) = []"
  by (simp_all add: transferPart_def)

lemma tree_policyDisclosure [simp]:
  "fires ev (policyDisclosure s x summary hint content) =
     (if ev = ''click'' then [\<lambda>v. Some (ToggleSection x)] else []) @ (if x \<in> set (py_open s) then fires ev content else [])"
  "forms (policyDisclosure s x summary hint content) = forms content"
  by (simp_all add: policyDisclosure_def)

lemma tree_PolicyStep:
  "concat (map (fires ev) (PolicyStep s)) =
     fires ev (policyTop (py_form s)) @
     concat (map (\<lambda>(x, part). (if ev = ''click'' then [\<lambda>v. Some (ToggleSection x)] else []) @ (if x \<in> set (py_open s) then fires ev part else []))
       [(Consistency, consistencyPart (pf_policy (py_form s))), (Scope, scopePart (py_form s)),
        (RunControl, runControlPart (pf_policy (py_form s))), (Automation, automationPart (pf_policy (py_form s))),
        (Transfer, transferPart (pf_policy (py_form s)))])"
  "submits (PolicyStep s) = []"
  by (simp_all add: PolicyStep_def Let_def submits_def del: tree_policyTop(1) tree_scopePart(1) tree_consistencyPart(1) tree_runControlPart(1)
      tree_automationPart(1) tree_transferPart(1))

lemma offers_policy: "offersEvent (PolicyStep s) a \<longleftrightarrow> policyActOffered s a"
proof (cases a)
  case (InPolicy e)
  then show ?thesis
    by (cases e) (auto simp: offersEvent_split tree_PolicyStep makes_when made_when makes_map)
next
  case (ToggleSection x)
  then show ?thesis
    by (cases x) (simp_all add: offersEvent_split tree_PolicyStep)
qed

interpretation policy_screen: rendered_screen PolicyStep policyActStep policyActOffered "\<lambda>a. True"
  by unfold_locales (simp_all add: offers_policy)

interpretation policy_part: embedded_part policyActStep policyActOffered py_form policyStep policyOffered
proof unfold_locales
  fix s a assume "policyActOffered s a"
  then show "py_form (policyActStep a s) = py_form s \<or>
      (\<exists>e. policyOffered (py_form s) e \<and> py_form (policyActStep a s) = policyStep e (py_form s))"
    by (cases a) auto
qed

end
