(* ===== verification/Identity_View.thy ===== *)
theory Identity_View
  imports Interface_Kit
begin

text \<open>
  How a workload and a storage target are shown (\<open>web/src/components/Identity.tsx\<close>,
  \<open>web/src/components/TargetIdentity.tsx\<close>), as the trees the other screens put into their rows and tiles. Their texts are
  the ones of \<open>Identity\<close>.
\<close>

definition workloadName :: "bool \<Rightarrow> workloadRef \<Rightarrow> 'a node" where
  "workloadName strong w =
     El ''span'' [(''class'', cn [Some ''min-w-0 flex-1 truncate text-[13px]'',
       Some (if strong then ''font-medium text-slate-100'' else ''text-slate-200'')])] [] [Txt (w_name w)]"

definition workloadVmid :: "workloadRef \<Rightarrow> 'a node list" where
  "workloadVmid w =
     (if no_vmid (w_vmid w) then []
      else [El ''span'' [(''class'', ''max-w-[45%] shrink-0 truncate font-mono text-meta text-slate-500'')] []
        [Txt (''('' @ val_str (w_vmid w) @ '')'')]])"

definition slash :: "'a node" where
  "slash = El ''span'' [(''class'', ''shrink-0 text-slate-600''), (''aria-hidden'', ''true'')] [] [Txt ''/'']"

definition WorkloadIdentity :: "workloadRef \<Rightarrow> bool \<Rightarrow> string option \<Rightarrow> bool \<Rightarrow> 'a node" where
  "WorkloadIdentity w oneLine className strong =
     (if oneLine
      then El ''span'' [(''class'', cn [Some ''inline-flex min-w-0 items-baseline gap-1.5'', className]), (''title'', identityText w)] []
        ((case opt_text (w_hostName w) of
            Some h \<Rightarrow> [El ''span'' [(''class'', ''shrink-0 text-meta text-slate-500'')] [] [Txt h], slash]
          | None \<Rightarrow> []) @
         [workloadName strong w] @ workloadVmid w @
         (case opt_text (w_node w) of
            Some n \<Rightarrow> [slash, El ''span'' [(''class'', ''shrink-0 font-mono text-meta text-slate-500'')] [] [Txt n]]
          | None \<Rightarrow> []))
      else El ''span'' [(''class'', cn [Some ''block min-w-0'', className]), (''title'', identityText w)] []
        ([El ''span'' [(''class'', ''flex items-baseline gap-1.5'')] [] (workloadName strong w # workloadVmid w)] @
         (let scope = List.map_filter opt_text [w_hostName w, w_node w]
          in if scope = [] then []
             else [El ''span'' [(''class'', ''mt-0.5 block truncate font-mono text-meta text-slate-500'')] [] [Txt (join_with '' / '' scope)]])))"

fun TARGET_KIND_ICON :: "targetKind \<Rightarrow> string" where
  "TARGET_KIND_ICON Filesystem = ''HardDrive''"
| "TARGET_KIND_ICON S3 = ''Cloud''"

definition targetKindNode :: "targetKind \<Rightarrow> 'a node" where
  "targetKindNode kind =
     Chip [Txt (fst (TargetKindChip kind))] None (Some (Icon (TARGET_KIND_ICON kind) ''size-3'')) (Some False) None (Some (snd (TargetKindChip kind)))"

definition targetCapacityNode :: "host \<Rightarrow> target \<Rightarrow> 'a node option" where
  "targetCapacityNode h target =
     map_option (\<lambda>c. El ''span'' [(''class'', if c_low c then ''block text-meta text-warn-300'' else ''block text-meta text-slate-500'')] []
         ([Num [Txt (formatBytes h (Some (c_freeBytes c)) 1)] None None, Txt '' free of '',
           Num [Txt (formatBytes h (Some (c_totalBytes c)) 1)] None None] @
          (if c_low c then [Txt ('' '' @ em_dash @ '' running low'')] else [])))
       (capacityOf target)"

subsection \<open>Lemmas\<close>

lemma opt_text_nonempty: "opt_text x = Some s \<Longrightarrow> s \<noteq> []"
  by (auto simp: opt_text_def split: option.splits if_splits)

lemma quiet_identity [simp]: "quiet (WorkloadIdentity w oneLine c strong)" "quiet (targetKindNode kind)"
  by (auto simp: WorkloadIdentity_def workloadName_def workloadVmid_def slash_def targetKindNode_def Let_def split: option.split)

lemma quiet_capacity [simp]: "\<forall>n\<in>set_option (targetCapacityNode h t). quiet n"
  by (auto simp: targetCapacityNode_def split: if_splits)

text \<open>
  What can be read of a workload is its identity: the line of the one-line layout, which is also the title
  of both layouts.
\<close>

lemma WorkloadIdentity_reads:
  "w_name w \<noteq> [] \<Longrightarrow> texts (WorkloadIdentity w True c strong) = inlineIdentity w"
  "attrsOf ''title'' (WorkloadIdentity w oneLine c strong) = [join_with '' '' (inlineIdentity w)]"
proof -
  show "w_name w \<noteq> [] \<Longrightarrow> texts (WorkloadIdentity w True c strong) = inlineIdentity w"
    using opt_text_nonempty [of "w_hostName w"] opt_text_nonempty [of "w_node w"]
    by (auto simp: WorkloadIdentity_def workloadName_def workloadVmid_def slash_def inlineIdentity_def split: option.split)
  show "attrsOf ''title'' (WorkloadIdentity w oneLine c strong) = [join_with '' '' (inlineIdentity w)]"
    unfolding inline_is_identity
    by (auto simp: WorkloadIdentity_def workloadName_def workloadVmid_def slash_def Let_def split: option.split)
qed

lemma targetCapacityNode_reads:
  "map_option (\<lambda>n. concat (texts n)) (targetCapacityNode h t) = TargetCapacityLine h t"
  by (cases "capacityOf t") (simp_all add: targetCapacityNode_def TargetCapacityLine_def Num_def)

end
