(* ===== verification/Job_Screen.thy ===== *)
theory Job_Screen
  imports Job_Wizard Schedule_Screen Steps_Screen Identity_View
begin

text \<open>
  The job wizard as it is rendered (\<open>web/src/components/JobWizard.tsx\<close>): the step rail, the six steps and the footer, with the
  scheduling control, the retention step and the protection step inside. What the tree lets somebody do
  is what the machine of \<open>Job_Wizard\<close> offers, in the sections that are open.
\<close>

subsection \<open>The screen\<close>

text \<open>The wizard, whether the long-term rules are unfolded, and the open sections of the protection step.\<close>

record jobScreen =
  sc_wizard :: wizard
  sc_longTerm :: bool
  sc_sections :: "policySection list"

datatype jobAct = InJob wizardEvent | ToggleRules | TogglePolicy policySection

definition retentionOf :: "jobScreen \<Rightarrow> retentionScreen" where
  "retentionOf s = \<lparr>rn_value = ws_retention (wz_state (sc_wizard s)), rn_open = sc_longTerm s\<rparr>"

definition protectionOf :: "jobScreen \<Rightarrow> policyScreen" where
  "protectionOf s = \<lparr>py_form = protectionForm (sc_wizard s), py_open = sc_sections s\<rparr>"

fun ofRetention :: "retentionAct \<Rightarrow> jobAct" where
  "ofRetention (InRetention e) = InJob (RetentionControl e)"
| "ofRetention ToggleLongTerm = ToggleRules"

fun ofProtection :: "policyAct \<Rightarrow> jobAct" where
  "ofProtection (InPolicy e) = InJob (ProtectionControl e)"
| "ofProtection (ToggleSection x) = TogglePolicy x"

definition ofSchedule :: "editorEvent \<Rightarrow> jobAct" where
  "ofSchedule e = InJob (ScheduleControl e)"

definition mountJobScreen :: "wizardProps \<Rightarrow> jobScreen" where
  "mountJobScreen ps = \<lparr>sc_wizard = mountWizard ps, sc_longTerm = False, sc_sections = []\<rparr>"

fun jobActOffered :: "browser \<Rightarrow> jobScreen \<Rightarrow> jobAct \<Rightarrow> bool" where
  "jobActOffered b s (InJob e) =
     (wizardOffered b (sc_wizard s) e \<and>
      (case e of
         RetentionControl x \<Rightarrow> retentionActOffered (retentionOf s) (InRetention x)
       | ProtectionControl x \<Rightarrow> policyActOffered (protectionOf s) (InPolicy x)
       | _ \<Rightarrow> True))"
| "jobActOffered b s ToggleRules = (wz_open (sc_wizard s) \<and> wz_step (sc_wizard s) = 3)"
| "jobActOffered b s (TogglePolicy x) = (wz_open (sc_wizard s) \<and> wz_step (sc_wizard s) = 4)"

text \<open>Coming to a step mounts its sections: the long-term rules open when there are any, the others closed.\<close>

fun jobActStep :: "jobAct \<Rightarrow> jobScreen \<Rightarrow> jobScreen" where
  "jobActStep (InJob e) s =
     (let w = wizardStep e (sc_wizard s)
      in case e of
           RetentionControl x \<Rightarrow> s\<lparr>sc_wizard := w, sc_longTerm := rn_open (retentionActStep (InRetention x) (retentionOf s))\<rparr>
         | Back \<Rightarrow> s\<lparr>sc_wizard := w, sc_longTerm := \<not> isSimpleRetention (ws_retention (wz_state w)), sc_sections := []\<rparr>
         | Continue \<Rightarrow> s\<lparr>sc_wizard := w, sc_longTerm := \<not> isSimpleRetention (ws_retention (wz_state w)), sc_sections := []\<rparr>
         | _ \<Rightarrow> s\<lparr>sc_wizard := w\<rparr>)"
| "jobActStep ToggleRules s = s\<lparr>sc_longTerm := \<not> sc_longTerm s\<rparr>"
| "jobActStep (TogglePolicy x) s = s\<lparr>sc_sections := py_open (policyActStep (ToggleSection x) (protectionOf s))\<rparr>"

text \<open>The acts of the screen; the others come from the page around it and from the server.\<close>

fun jobActOfScreen :: "jobAct \<Rightarrow> bool" where
  "jobActOfScreen (InJob (OpenWizard ps)) = False"
| "jobActOfScreen (InJob (Refetched ts vs as)) = False"
| "jobActOfScreen (InJob (Settles f r)) = False"
| "jobActOfScreen _ = True"

abbreviation acts :: "wizardEvent \<Rightarrow> string \<Rightarrow> jobAct option" where
  "acts e \<equiv> (\<lambda>v. Some (InJob e))"

subsection \<open>Step rail\<close>

definition railItem :: "nat \<Rightarrow> nat \<Rightarrow> string \<Rightarrow> 'a node" where
  "railItem step index label =
     (let isDone = (index < step); active = (index = step)
      in El ''li'' [(''class'', ''flex items-center gap-2'')] []
        ([El ''span'' [(''class'', cn [Some ''flex size-5 items-center justify-center rounded-full border text-[10px] font-semibold'',
             Some (if isDone then ''border-ok-500/40 bg-ok-500/15 text-ok-300''
                   else if active then ''border-accent-500/50 bg-accent-500/15 text-accent-300''
                   else ''border-slate-700 bg-slate-900 text-slate-500'')])] []
            [if isDone then Icon ''Check'' ''size-3'' else Txt (nat_str (index + 1))],
          El ''span'' [(''class'', cn [Some (if active then ''font-medium text-slate-200'' else ''text-slate-500'')])] [] [Txt label]] @
         (if index < length STEPS - 1 then [Icon ''ChevronRight'' ''size-3.5 text-slate-700''] else [])))"

definition stepRailNode :: "nat \<Rightarrow> 'a node" where
  "stepRailNode step =
     El ''ol'' [(''class'', ''mb-6 flex flex-wrap items-center gap-x-2 gap-y-2 text-xs'')] [] (map2 (railItem step) [0..<length STEPS] STEPS)"

subsection \<open>Sources\<close>

definition kindTile :: "wizard \<Rightarrow> jobKind \<Rightarrow> string \<Rightarrow> string \<Rightarrow> string \<Rightarrow> (string \<Rightarrow> jobAct option) node" where
  "kindTile w k icon title description =
     ChoiceTile ('':kind-'' @ title)
       \<lparr>ch_selected = (ws_kind (wz_state w) = k), ch_onSelect = acts (PickKind k), ch_title = title, ch_description = description,
        ch_icon = Icon icon ''size-4'', ch_disabled = (wp_editJob (wz_props w) \<noteq> None),
        ch_disabledReason = Some ''The job kind cannot be changed after creation.'', ch_tone = None, ch_meta = None, ch_badge = None,
        ch_className = None\<rparr>"

definition emptyNote :: "string \<Rightarrow> 'a node" where
  "emptyNote s =
     El ''p'' [(''class'', ''rounded-lg border border-dashed border-slate-800 bg-slate-950/40 px-4 py-8 text-center text-xs text-slate-500'')] [] [Txt s]"

definition tagChooser :: "browser \<Rightarrow> wizard \<Rightarrow> (string \<Rightarrow> jobAct option) node list" where
  "tagChooser b w =
     (let tagFilter = ws_tagFilter (wz_state w); vms = wp_vms (wz_props w); availableTags = allTagsOf (b_localeCompare b) vms
      in if availableTags = []
         then [emptyNote ''No Proxmox tags in the inventory yet. Set the Tags field on a guest in Proxmox, refresh the Virtual Machines page, then come back.'']
         else [El ''p'' [(''class'', ''text-xs font-medium text-slate-400'')] []
             (Txt ''Pick one tag'' # (if tagFilter = [] then [] else [El ''span'' [(''class'', ''ml-2 text-slate-600'')] [] [Txt tagFilter]])),
           El ''div'' [(''class'', ''flex flex-wrap gap-1.5'')] []
             (map (\<lambda>tag. ChipButton [Txt tag, El ''span'' [(''class'', ''ml-1 text-slate-600'')] [] [Txt (nat_str (length (vmsWithTag vms tag)))]]
                (tagFilter = tag) (acts (PickTag tag)) None None) availableTags)])"

definition tagMembers :: "browser \<Rightarrow> wizard \<Rightarrow> 'a node list" where
  "tagMembers b w =
     (let tagFilter = ws_tagFilter (wz_state w); ms = tagMatches w
      in if tagFilter = [] then []
         else [El ''div'' [(''class'', ''rounded-lg border border-slate-800 bg-slate-950/40 p-2'')] []
           [El ''p'' [(''class'', ''px-1 pb-1.5 text-xs text-slate-500'')] []
              [Num [Txt (formatCount (b_host b) (Some (jsint (int (length ms)))))] None None,
               Txt ('' '' @ (if length ms = 1 then ''VM carries'' else ''VMs carry'') @ '' this tag right now'')],
            El ''ul'' [(''class'', ''max-h-44 space-y-0.5 overflow-y-auto'')] []
              (map (\<lambda>vm. El ''li'' [(''class'', ''flex items-center gap-2 px-1 py-1 text-xs'')] []
                  [Icon ''Laptop'' ''size-3.5 shrink-0 text-slate-600'', WorkloadIdentity (vmIdentity vm) True None False,
                   El ''span'' [(''class'', ''ml-auto flex shrink-0 items-center gap-1'')] []
                     (map (\<lambda>tag. Chip [Txt tag] None None None None None) (take 3 (filter (\<lambda>tag. tag \<noteq> tagFilter) (tagsOf (v_tags vm)))))]) ms @
               (if ms = [] then [El ''li'' [(''class'', ''px-1 py-2 text-xs text-warn-300'')] []
                    [Txt (''Nothing carries this tag yet '' @ em_dash @ '' a run that resolves to zero VMs fails.'')]] else []))]])"

definition tagPart :: "browser \<Rightarrow> wizard \<Rightarrow> (string \<Rightarrow> jobAct option) node" where
  "tagPart b w =
     El ''div'' [(''class'', ''space-y-3'')] []
       (tagChooser b w @
        [SectionNote [Txt (''Membership is dynamic. Every VM carrying this tag when the job runs is included automatically '' @ em_dash @
           '' guests you tag later join on their own, and a guest drops out as soon as the tag comes off. The job never needs editing.'')]] @
        tagMembers b w)"

definition vmButton :: "browser \<Rightarrow> wizard \<Rightarrow> cachedVM \<Rightarrow> (string \<Rightarrow> jobAct option) node" where
  "vmButton b w vm =
     (let selected = (keyOf vm \<in> set (map keyOf (ws_selectedVMs (wz_state w)))); tags = tagsOf (v_tags vm)
      in El ''button''
        [(''type'', ''button''), (''aria-pressed'', bool_str selected),
         (''class'', cn [Some ''flex w-full items-center gap-3 rounded-lg border px-3 py-2.5 text-left transition-colors duration-150'',
           Some (if selected then ''border-accent-500/50 bg-accent-500/10'' else ''border-transparent hover:bg-slate-800/50'')])]
        [(''click'', acts (ToggleVM vm))]
        ([El ''span'' [(''class'', cn [Some ''flex size-4 shrink-0 items-center justify-center rounded border'',
             Some (if selected then ''border-accent-400 bg-accent-500 text-slate-50'' else ''border-slate-600'')])] []
            (if selected then [Icon ''Check'' ''size-3''] else []),
          El ''span'' [(''class'', ''min-w-0 flex-1'')] []
            [WorkloadIdentity (vmIdentity vm) False None selected,
             El ''span'' [(''class'', ''mt-0.5 block truncate text-micro text-slate-600'')] []
               [Txt (formatBytes (b_host b) (Some (v_maxdisk vm)) 1 @ '' disk'')]]] @
         (if tags = [] then []
          else [El ''span'' [(''class'', ''hidden shrink-0 items-center gap-1 sm:flex'')] []
            (map (\<lambda>tag. Chip [Txt tag] None None None None None) (take 3 tags))]) @
         [StatusPill (toneForStatus (Some (v_status vm))) (v_status vm) False None]))"

definition manualPart :: "browser \<Rightarrow> wizard \<Rightarrow> (string \<Rightarrow> jobAct option) node list" where
  "manualPart b w =
     [El ''div'' [(''class'', ''flex flex-wrap items-center justify-between gap-2'')] []
        [El ''p'' [(''class'', ''text-xs font-medium text-slate-400'')] []
           [Txt ''Select virtual machines'',
            El ''span'' [(''class'', ''ml-2 text-slate-600'')] [] [Txt (nat_str (length (ws_selectedVMs (wz_state w))) @ '' selected'')]],
         El ''div'' [(''class'', ''relative'')] []
           [Icon ''Search'' ''pointer-events-none absolute top-2.5 left-2.5 size-3.5 text-slate-600'',
            Input (Some ''w-64 py-1.5 pl-8 text-xs'') [(''value'', wz_query w), (''placeholder'', ''Filter by name, VMID, or node'')]
              [(''change'', \<lambda>v. Some (InJob (EditQuery v)))]]],
      (if wp_vms (wz_props w) = []
       then emptyNote ''No virtual machines in the inventory yet. Add a Proxmox host, then refresh the Virtual Machines page.''
       else El ''div'' [(''class'', ''max-h-72 space-y-2 overflow-y-auto rounded-lg border border-slate-800 bg-slate-950/40 p-2'')] []
         (map (vmButton b w) (filteredVMs b w) @
          (if filteredVMs b w = []
           then [El ''p'' [(''class'', ''px-3 py-6 text-center text-xs text-slate-500'')] []
             [Txt (''No virtual machine matches '' @ ldquo @ wz_query w @ rdquo @ ''.'')]] else [])))]"

definition agentTile :: "wizard \<Rightarrow> agent \<Rightarrow> (string \<Rightarrow> jobAct option) node" where
  "agentTile w agent =
     ChoiceTile ('':agent-'' @ id_str (a_id agent))
       \<lparr>ch_selected = (val_str (ws_agentId (wz_state w)) = id_str (a_id agent)), ch_onSelect = acts (PickAgent agent), ch_title = a_hostname agent,
        ch_description = a_os agent @ ''/'' @ a_arch agent @ '' '' @ middle_dot @ '' agent '' @ a_version agent @ '' '' @ middle_dot @ '' '' @ a_status agent,
        ch_icon = Icon ''ShieldCheck'' ''size-4'', ch_disabled = False, ch_disabledReason = None, ch_tone = None, ch_meta = None,
        ch_badge = None, ch_className = None\<rparr>"

definition pathEntry :: "wizard \<Rightarrow> (string \<Rightarrow> jobAct option) node" where
  "pathEntry w =
     El ''div'' [(''class'', ''flex gap-2'')] []
       [Input None [(''value'', wz_pathDraft w), (''placeholder'', ''/var/www  or  C:'' @ [CHR 0x5C, CHR 0x5C] @ ''Users'' @ [CHR 0x5C, CHR 0x5C] @ ''finance'')]
          [(''change'', \<lambda>v. Some (InJob (EditPathDraft v))), (''keydown'', \<lambda>key. if key = ''Enter'' then Some (InJob AddPath) else None)],
        Button ((plainButton (acts AddPath) ''Add'')\<lparr>bp_disabled := (trim (wz_pathDraft w) = []), bp_icon := Some (Icon ''FolderPlus'' ''size-4'')\<rparr>)]"

definition pathList :: "wizard \<Rightarrow> (string \<Rightarrow> jobAct option) node" where
  "pathList w =
     (let paths = ws_paths (wz_state w)
      in if paths = []
         then El ''p'' [(''class'', ''text-xs text-slate-500'')] [] [Txt ''Add at least one directory or file to include in the backup.'']
         else El ''ul'' [(''class'', ''divide-y divide-slate-800 rounded-lg border border-slate-800 bg-slate-950/40'')] []
           (map (\<lambda>path. El ''li'' [(''class'', ''flex items-center gap-3 px-3 py-2'')] []
               [El ''code'' [(''class'', ''min-w-0 flex-1 truncate font-mono text-xs text-slate-300'')] [] [Txt (val_str path)],
                IconButton ((plainButton (acts (RemovePath path)) [])\<lparr>bp_rest := [(''aria-label'', ''Remove '' @ val_str path)],
                  bp_children := [Icon ''X'' ''size-3.5'']\<rparr>)]) paths))"

definition agentPart :: "wizard \<Rightarrow> (string \<Rightarrow> jobAct option) node" where
  "agentPart w =
     El ''div'' [(''class'', ''space-y-4'')] []
       [El ''div'' [(''class'', ''space-y-2'')] []
          [El ''p'' [(''class'', ''text-xs font-medium text-slate-400'')] [] [Txt ''Select agent''],
           (if wp_agents (wz_props w) = []
            then emptyNote ''No agents are enrolled yet. Generate an enrollment token on the Agents page and install the agent inside the guest.''
            else El ''div'' [(''role'', ''radiogroup''), (''aria-label'', ''Agent this job backs up''), (''class'', ''grid gap-2 sm:grid-cols-2'')] []
              (map (agentTile w) (wp_agents (wz_props w))))],
        El ''div'' [(''class'', ''space-y-2'')] []
          [El ''p'' [(''class'', ''text-xs font-medium text-slate-400'')] [] [Txt ''Include paths''], pathEntry w, pathList w]]"

definition sourcesStep :: "browser \<Rightarrow> wizard \<Rightarrow> (string \<Rightarrow> jobAct option) node" where
  "sourcesStep b w =
     El ''div'' [(''class'', ''space-y-5'')] []
       ([Field '':j0:'' ''Job name'' None None
           (\<lambda>i d. [Input None [(''id'', i), (''value'', ws_name (wz_state w)), (''placeholder'', ''Nightly '' @ em_dash @ '' production VMs'')]
              [(''change'', \<lambda>v. Some (InJob (EditName v)))]]) None,
         El ''div'' [(''role'', ''radiogroup''), (''aria-label'', ''What this job backs up''), (''class'', ''grid gap-3 sm:grid-cols-2'')] []
           [kindTile w VmJob ''Laptop'' ''Virtual machines''
              (''Agentless image backup through the Proxmox API '' @ em_dash @ '' snapshot, export each disk, done.''),
            kindTile w AgentJob ''ShieldCheck'' (''Agent '' @ em_dash @ '' file level'')
              ''An in-guest agent tars the paths you choose and streams them through the server.'']] @
        (if wp_editJob (wz_props w) \<noteq> None then [SectionNote [Txt ''The job kind cannot be changed after creation.'']] else []) @
        [if ws_kind (wz_state w) = VmJob
         then El ''div'' [(''class'', ''space-y-3'')] []
           (Segmented (ws_sourceMode (wz_state w)) SOURCE_MODES (\<lambda>m. acts (PickMode m)) ''How this job picks virtual machines'' None #
            (if byTag (wz_state w) then [tagPart b w] else manualPart b w))
         else agentPart w])"

subsection \<open>Target and review\<close>

definition targetTile :: "browser \<Rightarrow> wizard \<Rightarrow> target \<Rightarrow> (string \<Rightarrow> jobAct option) node" where
  "targetTile b w target =
     ChoiceTile ('':target-'' @ id_str (t_id target))
       \<lparr>ch_selected = (id_str (ws_targetId (wz_state w)) = id_str (t_id target)), ch_onSelect = acts (PickTarget target), ch_title = t_name target,
        ch_description = targetLocation target, ch_icon = Icon (TARGET_KIND_ICON (t_kind target)) ''size-4'', ch_disabled = False,
        ch_disabledReason = None, ch_tone = None, ch_meta = targetCapacityNode (b_host b) target,
        ch_badge = Some (targetKindNode (t_kind target)), ch_className = None\<rparr>"

definition targetStep :: "browser \<Rightarrow> wizard \<Rightarrow> (string \<Rightarrow> jobAct option) node" where
  "targetStep b w =
     El ''div'' [(''class'', ''space-y-3'')] []
       [El ''p'' [(''class'', ''text-xs font-medium text-slate-400'')] [] [Txt ''Where should the backups be written?''],
        (if wp_targets (wz_props w) = []
         then emptyNote (''No storage targets yet. Add one on the Storage Targets page first '' @ em_dash @
           '' a local or network path such as a NAS, or an S3-compatible bucket.'')
         else El ''div'' [(''role'', ''radiogroup''), (''aria-label'', ''Storage target for this job''), (''class'', ''grid gap-2 sm:grid-cols-2'')] []
           (map (targetTile b w) (wp_targets (wz_props w)))),
        SectionNote [Txt ''Data reduction happens per target, so pointing several jobs at the same target shrinks total storage. A local target restores fastest; an offsite one survives the building.'']]"

definition policySummaryNode :: "jobPolicy \<Rightarrow> jobKind \<Rightarrow> string option \<Rightarrow> 'a node" where
  "policySummaryNode policy kind className =
     (let highlights = policyHighlights policy kind
      in if highlights = [] then El ''span'' [(''class'', cn [Some ''text-slate-400'', className])] [] [Txt ''Standard protection'']
         else El ''span'' [(''class'', cn [Some ''inline-flex flex-wrap gap-1'', className])] []
           (map (\<lambda>item. El ''span'' [(''class'', ''rounded border border-slate-700/80 bg-slate-800/60 px-1.5 text-[11px] leading-5 text-slate-300'')] [] [Txt item])
             highlights))"

definition reviewSourcesNode :: "browser \<Rightarrow> wizard \<Rightarrow> 'a node" where
  "reviewSourcesNode b w =
     (let s = wz_state w
      in if byTag s
         then El ''span'' [(''class'', ''inline-flex flex-wrap items-center gap-x-2 gap-y-1'')] []
           [Txt ''Tag: '', Chip [Txt (if ws_tagFilter s = [] then em_dash else ws_tagFilter s)] (Some ChipAccent) None None None None,
            El ''span'' [(''class'', ''text-slate-500'')] []
              [Txt ''(currently '', Num [Txt (formatCount (b_host b) (Some (jsint (int (length (tagMatches w))))))] None None,
               Txt ('' '' @ (if length (tagMatches w) = 1 then ''VM'' else ''VMs'') @ '')'')]]
         else if ws_kind s = VmJob
         then (if ws_selectedVMs s = [] then Txt em_dash
               else El ''span'' [(''class'', ''flex flex-col gap-1'')] []
                 (map (\<lambda>vm. WorkloadIdentity (vmIdentity vm) True None False) (ws_selectedVMs s)))
         else Txt ((case selectedAgent w of Some a \<Rightarrow> a_hostname a | None \<Rightarrow> em_dash) @ '' '' @ em_dash @ '' '' @
           nat_str (length (ws_paths s)) @ '' '' @ (if length (ws_paths s) = 1 then ''path'' else ''paths'')))"

definition reviewTargetNode :: "wizard \<Rightarrow> 'a node" where
  "reviewTargetNode w =
     (case selectedTarget w of
        Some t \<Rightarrow> El ''span'' [(''class'', ''inline-flex flex-wrap items-center gap-x-2 gap-y-1'')] []
          [Txt (t_name t), targetKindNode (t_kind t), El ''span'' [(''class'', ''font-mono text-meta text-slate-500'')] [] [Txt (targetLocation t)]]
      | None \<Rightarrow> Txt em_dash)"

definition reviewScheduleNode :: "browser \<Rightarrow> wizard \<Rightarrow> 'a node" where
  "reviewScheduleNode b w =
     (let schedule = ws_schedule (wz_state w); next = nextRunOf (b_host b) schedule (b_timezone b)
      in El ''span'' [(''class'', ''inline-flex flex-wrap items-baseline gap-x-2'')] []
        (Txt (describeSchedule (schedule_val schedule)) #
         (if next = None then []
          else [El ''span'' [(''class'', ''text-xs text-slate-500'')] []
            [Txt ''next run '', Num [Txt (formatWallClock (h_zone (b_host b)) next)] None None,
             Txt (case opt_text (b_timezone b) of Some z \<Rightarrow> '' ('' @ z @ '')'' | None \<Rightarrow> [])]])))"

definition reviewRow :: "string \<times> 'a node \<Rightarrow> 'a node" where
  "reviewRow row =
     El ''div'' [(''class'', ''flex gap-4 px-4 py-2.5'')] []
       [El ''dt'' [(''class'', ''w-28 shrink-0 text-xs text-slate-500'')] [] [Txt (fst row)],
        El ''dd'' [(''class'', ''min-w-0 flex-1 text-sm break-words text-slate-200'')] [] [snd row]]"

definition reviewNodes :: "browser \<Rightarrow> wizard \<Rightarrow> (string \<times> 'a node) list" where
  "reviewNodes b w =
     (let s = wz_state w
      in [(''Name'', Txt (if trim (ws_name s) = [] then em_dash else trim (ws_name s))),
          (''Type'', Txt (if ws_kind s = VmJob then ''Virtual machines (agentless)'' else ''Agent (file level)'')),
          (''Sources'', reviewSourcesNode b w), (''Target'', reviewTargetNode w), (''Schedule'', reviewScheduleNode b w),
          (''Retention'', Txt (describeRetention (retention_val (ws_retention s)))),
          (''Protection'', policySummaryNode (ws_policy s) (ws_kind s) None)])"

definition reviewStep :: "browser \<Rightarrow> wizard \<Rightarrow> (string \<Rightarrow> jobAct option) node" where
  "reviewStep b w =
     (let s = wz_state w
      in El ''div'' [(''class'', ''space-y-4'')] []
        ([El ''dl'' [(''class'', ''divide-y divide-slate-800 overflow-hidden rounded-lg border border-slate-800 bg-slate-950/40'')] []
            (map reviewRow (reviewNodes b w))] @
         (if ws_kind s = AgentJob \<and> ws_paths s \<noteq> []
          then [El ''ul'' [(''class'', ''space-y-1'')] []
            (map (\<lambda>path. El ''li'' [(''class'', ''font-mono text-xs text-slate-400'')] [] [Txt (val_str path)]) (ws_paths s))] else []) @
         [El ''div'' [(''class'', ''flex items-center justify-between rounded-lg border border-slate-800 bg-slate-950/40 px-4 py-3'')] []
            [El ''div'' [] []
               [El ''p'' [(''class'', ''text-sm text-slate-200'')] [] [Txt ''Enable this job''],
                El ''p'' [(''class'', ''mt-0.5 text-xs text-slate-500'')] [] [Txt ''Disabled jobs keep their schedule but never fire.'']],
             Toggle (ws_enabled s) (\<lambda>x. acts (SetEnabled x)) ''Enable this job'' False]] @
         (case wz_error w of
            Some m \<Rightarrow> if m = [] then []
              else [El ''p'' [(''class'', ''rounded-lg border border-fail-500/30 bg-fail-500/10 px-3.5 py-2.5 text-xs text-fail-300'')] [] [Txt m]]
          | None \<Rightarrow> [])))"

subsection \<open>The dialog\<close>

definition jobFooter :: "wizard \<Rightarrow> (string \<Rightarrow> jobAct option) node list" where
  "jobFooter w =
     [Button ((plainButton (acts Back) ''Back'')\<lparr>bp_disabled := (wz_step w = 0 \<or> wz_submitting w), bp_icon := Some (Icon ''ChevronLeft'' ''size-4'')\<rparr>),
      El ''div'' [(''class'', ''flex-1'')] [] [],
      Button ((plainButton (acts CloseWizard) ''Cancel'')\<lparr>bp_disabled := wz_submitting w\<rparr>),
      (if wz_step w = length STEPS - 1
       then Button ((plainButton (acts Submit) (if wp_editJob (wz_props w) \<noteq> None then ''Save changes'' else ''Create job''))
         \<lparr>bp_variant := Some VPrimary, bp_loading := wz_submitting w, bp_icon := Some (Icon ''Check'' ''size-4'')\<rparr>)
       else Button ((plainButton (acts Continue) ''Continue'')\<lparr>bp_variant := Some VPrimary, bp_disabled := (\<not> stepValid (wz_state w) (wz_step w)),
         bp_icon := Some (Icon ''ChevronRight'' ''size-4'')\<rparr>))]"

text \<open>\<open>preview\<close> is what the preview of the retention step shows when a saved job is edited.\<close>

definition stepNode :: "browser \<Rightarrow> previewView \<Rightarrow> jobScreen \<Rightarrow> (string \<Rightarrow> jobAct option) node list" where
  "stepNode b preview s =
     (let w = sc_wizard s; step = wz_step w
      in if step = 0 then [sourcesStep b w]
         else if step = 1 then [targetStep b w]
         else if step = 2 then map (embed ofSchedule) (ScheduleEditor (b_host b) (b_timezone b) (wz_editor w))
         else if step = 3 then map (embed ofRetention) (RetentionStep (b_host b) (map_option (\<lambda>j. preview) (wp_editJob (wz_props w))) (retentionOf s))
         else if step = 4 then map (embed ofProtection) (PolicyStep (protectionOf s))
         else if step = 5 then [reviewStep b w] else [])"

definition JobWizard :: "browser \<Rightarrow> previewView \<Rightarrow> jobScreen \<Rightarrow> (string \<Rightarrow> jobAct option) node list" where
  "JobWizard b preview s =
     (let w = sc_wizard s
      in Modal (wz_open w) (acts CloseWizard) (wizardTitle w) (Some (Txt ''Pick what to protect, where it goes, and how often it runs.''))
        ([stepRailNode (wz_step w)] @ stepNode b preview s @
         (case incompleteHint w of
            Some m \<Rightarrow> [El ''p'' [(''class'', ''mt-5 flex items-center gap-2 text-xs text-slate-500'')] [] [Icon ''Info'' ''size-3.5'', Txt m]]
          | None \<Rightarrow> []))
        (Some (jobFooter w)) (Some WidthXl))"

subsection \<open>Lemmas\<close>

lemma quiet_notes [simp]: "quiet (stepRailNode n)" "quiet (emptyNote m)"
  by (auto simp: stepRailNode_def railItem_def emptyNote_def Let_def)

lemma quiet_review [simp]:
  "quiet (policySummaryNode p k c)" "quiet (reviewSourcesNode b w)" "quiet (reviewTargetNode w)" "quiet (reviewScheduleNode b w)"
  by (auto simp: policySummaryNode_def reviewSourcesNode_def reviewTargetNode_def reviewScheduleNode_def Let_def split: option.split)

lemma quiet_reviewNodes: "\<forall>row\<in>set (reviewNodes b w). quiet (reviewRow row)"
  by (auto simp: reviewNodes_def reviewRow_def Let_def)

lemma quiet_tagMembers: "\<forall>n\<in>set (tagMembers b w). quiet n"
  by (auto simp: tagMembers_def Let_def)

lemma tree_kindTile [simp]:
  "fires ev (kindTile w k i t d) = (if ev = ''click'' \<and> wp_editJob (wz_props w) = None then [acts (PickKind k)] else [])"
  "forms (kindTile w k i t d) = []"
  by (simp_all add: kindTile_def tree_Tile)

lemma tree_tiles [simp]:
  "fires ev (agentTile w a) = (if ev = ''click'' then [acts (PickAgent a)] else [])" "forms (agentTile w a) = []"
  "fires ev (targetTile b w t) = (if ev = ''click'' then [acts (PickTarget t)] else [])" "forms (targetTile b w t) = []"
  by (simp_all add: agentTile_def targetTile_def tree_Tile)

lemma tree_tagChooser [simp]:
  "concat (map (fires ev) (tagChooser b w)) =
     (if ev = ''click'' then map (\<lambda>t. acts (PickTag t)) (allTagsOf (b_localeCompare b) (wp_vms (wz_props w))) else [])"
  "concat (map forms (tagChooser b w)) = []"
  by (simp_all add: tagChooser_def Let_def o_def concat_map_singleton quiet_tree)

lemma tree_tagPart [simp]:
  "fires ev (tagPart b w) = (if ev = ''click'' then map (\<lambda>t. acts (PickTag t)) (allTagsOf (b_localeCompare b) (wp_vms (wz_props w))) else [])"
  "forms (tagPart b w) = []"
  by (simp_all add: tagPart_def quiet_tree quiet_all [OF quiet_tagMembers])

lemma tree_vmButton [simp]:
  "fires ev (vmButton b w vm) = (if ev = ''click'' then [acts (ToggleVM vm)] else [])" "forms (vmButton b w vm) = []"
  by (simp_all add: vmButton_def Let_def quiet_tree)

lemma filteredVMs_none: "wp_vms (wz_props w) = [] \<Longrightarrow> filteredVMs b w = []"
  by (simp add: filteredVMs_def Let_def)

lemma tree_manualPart [simp]:
  "concat (map (fires ev) (manualPart b w)) =
     (if ev = ''change'' then [\<lambda>v. Some (InJob (EditQuery v))]
      else if ev = ''click'' then map (\<lambda>vm. acts (ToggleVM vm)) (filteredVMs b w) else [])"
  "concat (map forms (manualPart b w)) = []"
  by (simp_all add: manualPart_def o_def concat_map_singleton quiet_tree filteredVMs_none)

lemma tree_paths [simp]:
  "fires ev (pathEntry w) =
     (if ev = ''change'' then [\<lambda>v. Some (InJob (EditPathDraft v))]
      else if ev = ''keydown'' then [\<lambda>key. if key = ''Enter'' then Some (InJob AddPath) else None]
      else if ev = ''click'' \<and> trim (wz_pathDraft w) \<noteq> [] then [acts AddPath] else [])"
  "fires ev (pathList w) = (if ev = ''click'' then map (\<lambda>p. acts (RemovePath p)) (ws_paths (wz_state w)) else [])"
  "forms (pathEntry w) = []" "forms (pathList w) = []"
  by (simp_all add: pathEntry_def pathList_def Let_def o_def concat_map_singleton fires_Button submits_Button fires_IconButton
      submits_IconButton plainButton_def)

lemma tree_agentPart [simp]:
  "fires ev (agentPart w) =
     (if ev = ''change'' then [\<lambda>v. Some (InJob (EditPathDraft v))]
      else if ev = ''keydown'' then [\<lambda>key. if key = ''Enter'' then Some (InJob AddPath) else None]
      else if ev = ''click'' then map (\<lambda>a. acts (PickAgent a)) (wp_agents (wz_props w)) @
        (if trim (wz_pathDraft w) = [] then [] else [acts AddPath]) @ map (\<lambda>p. acts (RemovePath p)) (ws_paths (wz_state w))
      else [])"
  "forms (agentPart w) = []"
  by (simp_all add: agentPart_def o_def concat_map_singleton quiet_tree)

lemma tree_sourcesStep:
  "fires ''click'' (sourcesStep b w) =
     (if wp_editJob (wz_props w) = None then [acts (PickKind VmJob), acts (PickKind AgentJob)] else []) @
     (if ws_kind (wz_state w) = VmJob
      then map (\<lambda>m. acts (PickMode (fst m))) SOURCE_MODES @
        concat (map (fires ''click'') (if byTag (wz_state w) then [tagPart b w] else manualPart b w))
      else fires ''click'' (agentPart w))"
  "fires ''change'' (sourcesStep b w) =
     (\<lambda>v. Some (InJob (EditName v))) #
     (if ws_kind (wz_state w) = VmJob then (if byTag (wz_state w) then [] else [\<lambda>v. Some (InJob (EditQuery v))])
      else [\<lambda>v. Some (InJob (EditPathDraft v))])"
  "fires ''keydown'' (sourcesStep b w) = (if ws_kind (wz_state w) = VmJob then [] else fires ''keydown'' (agentPart w))"
  "forms (sourcesStep b w) = []"
  by (simp_all add: sourcesStep_def quiet_tree del: concat_eq_Nil_conv)

lemma tree_targetStep [simp]:
  "fires ev (targetStep b w) = (if ev = ''click'' then map (\<lambda>t. acts (PickTarget t)) (wp_targets (wz_props w)) else [])"
  "forms (targetStep b w) = []"
  by (simp_all add: targetStep_def o_def concat_map_singleton quiet_tree)

lemma tree_reviewStep [simp]:
  "fires ev (reviewStep b w) = (if ev = ''click'' then [acts (SetEnabled (\<not> ws_enabled (wz_state w)))] else [])"
  "forms (reviewStep b w) = []"
  by (cases "wz_error w"; simp add: reviewStep_def Let_def quiet_all [OF quiet_reviewNodes])+

lemma tree_jobFooter:
  "concat (map (fires ev) (jobFooter w)) =
     (if ev = ''click''
      then (if wz_step w = 0 \<or> wz_submitting w then [] else [acts Back]) @ (if wz_submitting w then [] else [acts CloseWizard]) @
        (if wz_step w = length STEPS - 1 then (if wz_submitting w then [] else [acts Submit])
         else if stepValid (wz_state w) (wz_step w) then [acts Continue] else [])
      else [])"
  "concat (map forms (jobFooter w)) = []"
  by (simp_all add: jobFooter_def fires_Button submits_Button plainButton_def)

text \<open>What each step fires, and the whole dialog.\<close>

lemma tree_JobWizard:
  "concat (map (fires ev) (JobWizard b preview s)) =
     (if wz_open (sc_wizard s)
      then (if ev = ''click'' then [acts CloseWizard, acts CloseWizard] else []) @ concat (map (fires ev) (stepNode b preview s)) @
        concat (map (fires ev) (jobFooter (sc_wizard s)))
      else [])"
  "concat (map forms (stepNode b preview s)) = [] \<Longrightarrow> submits (JobWizard b preview s) = []"
  by (simp_all add: JobWizard_def Let_def tree_Modal footerNodes_def submits_def quiet_tree tree_jobFooter del: concat_eq_Nil_conv split: option.split)

lemma forms_stepNode: "concat (map forms (stepNode b preview s)) = []"
proof -
  have "\<forall>n\<in>set (ScheduleEditor h tz e). forms n = []" for h tz e by (simp add: ScheduleEditor_def Let_def)
  moreover have "\<forall>n\<in>set (RetentionStep h pv r). forms n = []" for h pv r by (cases pv) (simp_all add: RetentionStep_def Let_def)
  moreover have "\<forall>n\<in>set (PolicyStep y). forms n = []" for y by (simp add: PolicyStep_def Let_def)
  ultimately show ?thesis by (simp add: stepNode_def Let_def tree_sourcesStep)
qed

lemma offers_JobWizard:
  "offersEvent (JobWizard b preview s) a \<longleftrightarrow>
     wz_open (sc_wizard s) \<and> (a = InJob CloseWizard \<or> offersEvent (stepNode b preview s) a \<or> makes (concat (map (fires ''click'') (jobFooter (sc_wizard s)))) a)"
proof -
  have "submits (stepNode b preview s) = []" using forms_stepNode by (simp add: submits_def del: concat_eq_Nil_conv)
  then show ?thesis
    unfolding offersEvent_split tree_JobWizard by (auto simp: tree_jobFooter tree_JobWizard(2) [OF forms_stepNode] simp del: concat_eq_Nil_conv)
qed

lemma offers_sources:
  "offersEvent [sourcesStep b w] (InJob e) \<longleftrightarrow>
     (case e of
        EditName n \<Rightarrow> True
      | PickKind k \<Rightarrow> wp_editJob (wz_props w) = None
      | PickMode m \<Rightarrow> ws_kind (wz_state w) = VmJob \<and> m \<in> set (map fst SOURCE_MODES)
      | PickTag t \<Rightarrow> byTag (wz_state w) \<and> t \<in> set (allTagsOf (b_localeCompare b) (wp_vms (wz_props w)))
      | EditQuery q \<Rightarrow> ws_kind (wz_state w) = VmJob \<and> \<not> byTag (wz_state w)
      | ToggleVM vm \<Rightarrow> ws_kind (wz_state w) = VmJob \<and> \<not> byTag (wz_state w) \<and> vm \<in> set (filteredVMs b w)
      | PickAgent a \<Rightarrow> ws_kind (wz_state w) = AgentJob \<and> a \<in> set (wp_agents (wz_props w))
      | EditPathDraft d \<Rightarrow> ws_kind (wz_state w) = AgentJob
      | AddPath \<Rightarrow> ws_kind (wz_state w) = AgentJob
      | RemovePath x \<Rightarrow> ws_kind (wz_state w) = AgentJob \<and> x \<in> set (ws_paths (wz_state w))
      | _ \<Rightarrow> False)"
proof -
  have "submits [sourcesStep b w] = []" by (simp add: submits_def tree_sourcesStep)
  moreover have "byTag (wz_state w) \<Longrightarrow> ws_kind (wz_state w) = VmJob" by (simp add: byTag_def)
  moreover have "ws_kind (wz_state w) \<noteq> VmJob \<longleftrightarrow> ws_kind (wz_state w) = AgentJob" by (cases "ws_kind (wz_state w)") simp_all
  moreover have "AgentJob \<noteq> k \<Longrightarrow> VmJob = k" for k by (cases k) simp_all
  ultimately show ?thesis
    unfolding offersEvent_split
    by (cases e) (simp_all add: tree_sourcesStep makes_when makes_map made_when SOURCE_MODES_def, auto)
qed

lemma offers_toggles:
  "\<not> offersEvent [sourcesStep b w] ToggleRules" "\<not> offersEvent [sourcesStep b w] (TogglePolicy x)"
  by (simp_all add: offersEvent_split submits_def tree_sourcesStep makes_when makes_map made_when)

lemma offers_target: "offersEvent [targetStep b w] a \<longleftrightarrow> (\<exists>t\<in>set (wp_targets (wz_props w)). a = InJob (PickTarget t))"
  by (auto simp: offersEvent_split submits_def makes_map)

lemma offers_review: "offersEvent [reviewStep b w] a \<longleftrightarrow> a = InJob (SetEnabled (\<not> ws_enabled (wz_state w)))"
  by (auto simp: offersEvent_split submits_def)

lemma offers_controls:
  "offersEvent (map (embed ofSchedule) (ScheduleEditor h tz ed)) a \<longleftrightarrow> (\<exists>e. a = ofSchedule e \<and> offered ed e)"
  "offersEvent (map (embed ofRetention) (RetentionStep h pv r)) a \<longleftrightarrow> (\<exists>e. a = ofRetention e \<and> retentionActOffered r e)"
  "offersEvent (map (embed ofProtection) (PolicyStep y)) a \<longleftrightarrow> (\<exists>e. a = ofProtection e \<and> policyActOffered y e)"
proof -
  have "\<forall>n\<in>set (ScheduleEditor h tz ed). forms n = []" by (simp add: ScheduleEditor_def Let_def)
  from offers_embeds [OF this] show "offersEvent (map (embed ofSchedule) (ScheduleEditor h tz ed)) a \<longleftrightarrow> (\<exists>e. a = ofSchedule e \<and> offered ed e)"
    by (simp add: offers_schedule)
  have "\<forall>n\<in>set (RetentionStep h pv r). forms n = []" by (cases pv) (simp_all add: RetentionStep_def Let_def)
  from offers_embeds [OF this] show "offersEvent (map (embed ofRetention) (RetentionStep h pv r)) a \<longleftrightarrow> (\<exists>e. a = ofRetention e \<and> retentionActOffered r e)"
    by (simp add: offers_retention)
  have "\<forall>n\<in>set (PolicyStep y). forms n = []" by (simp add: PolicyStep_def Let_def)
  from offers_embeds [OF this] show "offersEvent (map (embed ofProtection) (PolicyStep y)) a \<longleftrightarrow> (\<exists>e. a = ofProtection e \<and> policyActOffered y e)"
    by (simp add: offers_policy)
qed

lemma of_parts [simp]:
  "InJob e = ofRetention x \<longleftrightarrow> (\<exists>r. e = RetentionControl r \<and> x = InRetention r)" "ToggleRules = ofRetention x \<longleftrightarrow> x = ToggleLongTerm"
  "TogglePolicy y \<noteq> ofRetention x" "InJob e = ofProtection z \<longleftrightarrow> (\<exists>p. e = ProtectionControl p \<and> z = InPolicy p)"
  "TogglePolicy y = ofProtection z \<longleftrightarrow> z = ToggleSection y" "ToggleRules \<noteq> ofProtection z"
  by (cases x; cases z; auto)+

lemma offers_footer:
  "makes (concat (map (fires ''click'') (jobFooter w))) a \<longleftrightarrow>
     a = InJob Back \<and> wz_step w \<noteq> 0 \<and> \<not> wz_submitting w \<or> a = InJob CloseWizard \<and> \<not> wz_submitting w \<or>
     a = InJob Submit \<and> wz_step w = length STEPS - 1 \<and> \<not> wz_submitting w \<or>
     a = InJob Continue \<and> wz_step w \<noteq> length STEPS - 1 \<and> stepValid (wz_state w) (wz_step w)"
  unfolding tree_jobFooter by auto

text \<open>
  The step on screen offers what the machine offers there. Outside the first step only the controls
  of the step are left, so each step is checked on its own.
\<close>

lemma offers_step:
  "offersEvent (stepNode b preview s) a \<longleftrightarrow>
     (let w = sc_wizard s; step = wz_step w in
      (\<exists>e. a = InJob e \<and> step = 0 \<and> offersEvent [sourcesStep b w] a) \<or>
      (\<exists>t\<in>set (wp_targets (wz_props w)). step = 1 \<and> a = InJob (PickTarget t)) \<or>
      (\<exists>e. step = 2 \<and> a = ofSchedule e \<and> offered (wz_editor w) e) \<or>
      (\<exists>e. step = 3 \<and> a = ofRetention e \<and> retentionActOffered (retentionOf s) e) \<or>
      (\<exists>e. step = 4 \<and> a = ofProtection e \<and> policyActOffered (protectionOf s) e) \<or>
      step = 5 \<and> a = InJob (SetEnabled (\<not> ws_enabled (wz_state w))))"
  using offers_toggles by (cases a) (auto simp: stepNode_def Let_def offers_target offers_review offers_controls offers_nothing)

lemma offers_jobWizard: "offersEvent (JobWizard b preview s) a \<longleftrightarrow> jobActOfScreen a \<and> jobActOffered b s a"
proof (cases a)
  case (InJob e)
  then show ?thesis
    by (cases e) (auto simp: offers_JobWizard offers_step offers_footer offers_sources Let_def ofSchedule_def retentionOf_def
        protectionOf_def STEPS_def split: option.splits)
qed (auto simp: offers_JobWizard offers_step offers_footer Let_def ofSchedule_def)

interpretation job_screen: rendered_screen "JobWizard b preview" jobActStep "jobActOffered b" jobActOfScreen for b preview
  by unfold_locales (simp_all add: offers_jobWizard)

text \<open>The wizard of the screen goes through the states of its machine, whatever is unfolded around it.\<close>

interpretation job_part: embedded_part jobActStep "jobActOffered b" sc_wizard wizardStep "wizardOffered b" for b
proof unfold_locales
  fix s a assume "jobActOffered b s a"
  then show "sc_wizard (jobActStep a s) = sc_wizard s \<or>
      (\<exists>e. wizardOffered b (sc_wizard s) e \<and> sc_wizard (jobActStep a s) = wizardStep e (sc_wizard s))"
  proof (cases a)
    case (InJob e)
    then have "sc_wizard (jobActStep a s) = wizardStep e (sc_wizard s)" by (cases e) (simp_all add: Let_def)
    with InJob \<open>jobActOffered b s a\<close> show ?thesis by auto
  qed simp_all
qed

text \<open>A run of the machine that stays away from the two unfolding steps is one of the screen.\<close>

fun unfolds :: "wizardEvent \<Rightarrow> bool" where
  "unfolds (RetentionControl e) = True"
| "unfolds (ProtectionControl e) = True"
| "unfolds e = False"

lemma run_screen:
  assumes "run_events wizardStep (wizardOffered b) es (sc_wizard s) = Some w" "\<forall>e\<in>set es. \<not> unfolds e"
  shows "\<exists>t. run_events jobActStep (jobActOffered b) (map InJob es) s = Some t \<and> sc_wizard t = w"
  using assms
proof (induction es arbitrary: s)
  case (Cons e es)
  have "sc_wizard (jobActStep (InJob e) s) = wizardStep e (sc_wizard s)" by (cases e) (simp_all add: Let_def)
  moreover have "jobActOffered b s (InJob e)" using Cons.prems by (cases e) (simp_all split: if_splits)
  ultimately show ?case using Cons.IH [of "jobActStep (InJob e) s"] Cons.prems by (simp split: if_splits)
qed simp

lemma nas_screen_run:
  "\<exists>t. reaches jobActStep (jobActOffered plain_browser) (mountJobScreen nas_props) t \<and>
     wz_sent (sc_wizard t) = [(None, nightly_job web01 nas)]"
proof -
  obtain w where w: "run_events wizardStep (wizardOffered plain_browser) (way_through nas_props web01 nas) (mountWizard nas_props) = Some w"
    "wz_sent w = [(None, nightly_job web01 nas)]" using nas_run by blast
  have m: "sc_wizard (mountJobScreen nas_props) = mountWizard nas_props" by (simp add: mountJobScreen_def)
  have "\<forall>e\<in>set (way_through nas_props web01 nas). \<not> unfolds e" by (simp add: way_through_def)
  from run_screen [OF w(1) [folded m] this] obtain t where
    "run_events jobActStep (jobActOffered plain_browser) (map InJob (way_through nas_props web01 nas)) (mountJobScreen nas_props) = Some t"
    "sc_wizard t = w" by blast
  with w(2) show ?thesis by (intro exI [of _ t] conjI run_events_reaches) simp_all
qed

subsection \<open>Properties\<close>

text \<open>
  C39 (the rendered wizard offers what its machine offers): in every state of the wizard and of its sections,
  what the rendered dialog lets somebody click, type or press is exactly what the machine offers of the acts of
  the screen: nothing while it is closed, on each step the controls of that step alone, the kind of the job only while it is
  new, Continue only while the step is complete, and the submission only on the last step and while none
  is out. So whatever somebody does with the rendered dialog, whatever the page and the server do in between, every job
  that is sent is complete.
\<close>

theorem job_wizard_rendered:
  "(offersEvent (JobWizard b preview s) a \<longleftrightarrow> jobActOfScreen a \<and> jobActOffered b s a) \<and>
   (reaches jobActStep (\<lambda>s a. offersEvent (JobWizard b preview s) a \<or> \<not> jobActOfScreen a \<and> jobActOffered b s a) (mountJobScreen ps) t \<longrightarrow>
    (\<forall>(j, c)\<in>set (wz_sent (sc_wizard t)). complete_job c))"
proof (intro conjI impI)
  assume "reaches jobActStep (\<lambda>s a. offersEvent (JobWizard b preview s) a \<or> \<not> jobActOfScreen a \<and> jobActOffered b s a) (mountJobScreen ps) t"
  then have "reaches jobActStep (jobActOffered b) (mountJobScreen ps) t"
    using job_screen.acting_reaches [of b preview] by (simp only: job_screen.happens_def [abs_def])
  from job_part.part_reaches [OF this] have r: "reaches wizardStep (wizardOffered b) (mountWizard ps) (sc_wizard t)"
    by (simp add: mountJobScreen_def)
  show "\<forall>(j, c)\<in>set (wz_sent (sc_wizard t)). complete_job c" using job_requests.request_ok [OF r] by fastforce
qed (rule offers_jobWizard)

theorem job_wizard_rendered_witness: "complete_job (nightly_job web01 nas)"
proof -
  obtain t where t: "reaches jobActStep (jobActOffered plain_browser) (mountJobScreen nas_props) t"
    "wz_sent (sc_wizard t) = [(None, nightly_job web01 nas)]" using nas_screen_run by blast
  have "reaches jobActStep (\<lambda>s a. offersEvent (JobWizard plain_browser PvNothing s) a \<or> \<not> jobActOfScreen a \<and> jobActOffered plain_browser s a)
      (mountJobScreen nas_props) t"
    using t(1) job_screen.acting_reaches [of plain_browser PvNothing] by (simp only: job_screen.happens_def [abs_def])
  with job_wizard_rendered [of plain_browser PvNothing _ _ nas_props t] t(2) show ?thesis by simp
qed

end
