(* ===== verification/Restore_Screen.thy ===== *)
theory Restore_Screen
  imports Restore_Wizard Identity_View
begin

text \<open>
  The restore wizard as it is rendered (\<open>web/src/components/RestoreWizard.tsx\<close>): mode tiles, the destination of a machine or
  of files with the confirmation of an overwrite, the review and the footer.
\<close>

abbreviation restores :: "restoreEvent \<Rightarrow> string \<Rightarrow> restoreEvent option" where
  "restores e \<equiv> (\<lambda>v. Some e)"

text \<open>The events of the dialog; the others come from the page around it and from the server.\<close>

fun restoreOfScreen :: "restoreEvent \<Rightarrow> bool" where
  "restoreOfScreen (OpenRestore ps) = False"
| "restoreOfScreen (RefetchedR tgt hs as vs) = False"
| "restoreOfScreen (VmidAnswers f h) = False"
| "restoreOfScreen (RestoreSettles f r) = False"
| "restoreOfScreen _ = True"

fun modeIcon :: "restoreMode \<Rightarrow> string" where
  "modeIcon Alongside = ''CopyPlus''"
| "modeIcon Overwrite = ''ShieldAlert''"

definition modeTileNode :: "'a \<Rightarrow> bool \<Rightarrow> restoreMode \<times> string \<times> string \<Rightarrow> 'a node" where
  "modeTileNode onSelect selected option =
     (let destructive = (fst option = Overwrite); title = fst (snd option)
      in El ''button''
        [(''type'', ''button''), (''role'', ''radio''), (''aria-checked'', bool_str selected),
         (''class'', cn [Some ''flex w-full items-start gap-3 rounded-xl border px-4 py-3.5 text-left transition-colors duration-150'',
           Some (if selected then if destructive then ''border-fail-500/60 bg-fail-500/10'' else ''border-accent-500/50 bg-accent-500/10''
                 else ''border-slate-800 bg-slate-950/40 hover:border-slate-700 hover:bg-slate-900/60'')])]
        [(''click'', onSelect)]
        [El ''span'' [(''class'', cn [Some ''mt-0.5 flex size-8 shrink-0 items-center justify-center rounded-lg border'',
             Some (if selected then if destructive then ''border-fail-500/50 bg-fail-500/15 text-fail-300''
                     else ''border-accent-500/40 bg-accent-500/15 text-accent-300''
                   else ''border-slate-800 bg-slate-900 text-slate-500'')])] [] [Icon (modeIcon (fst option)) ''size-4''],
         El ''span'' [(''class'', ''min-w-0'')] []
           [El ''span'' [(''class'', ''flex flex-wrap items-center gap-2'')] []
              [El ''span'' [(''class'', cn [Some ''text-sm font-medium'',
                  Some (if selected then if destructive then ''text-fail-200'' else ''text-slate-50'' else ''text-slate-200'')])] [] [Txt title],
               (if destructive then StatusPill FailTone ''Destructive'' False None else StatusPill NeutralTone ''Recommended'' False None)],
            El ''span'' [(''class'', ''mt-0.5 block text-xs leading-relaxed text-slate-500'')] [] [Txt (snd (snd option))]]])"

definition modeStep :: "restore \<Rightarrow> (string \<Rightarrow> restoreEvent option) node" where
  "modeStep w =
     El ''div'' [(''class'', ''space-y-3''), (''role'', ''radiogroup''), (''aria-label'', ''Restore mode'')] []
       (map (\<lambda>option. modeTileNode (restores (SetMode (fst option))) (rw_mode w = fst option) option) MODES)"

text \<open>A select gives the value of one of its options.\<close>

definition optionSelect :: "string \<Rightarrow> string \<Rightarrow> (string \<times> string) list \<Rightarrow> (string \<Rightarrow> 'e) \<Rightarrow> (string \<Rightarrow> 'e option) node" where
  "optionSelect i value options ev =
     Select None [(''id'', i), (''value'', value)]
       [(''change'', \<lambda>v. if v \<in> set (map fst options) then Some (ev v) else None)]
       (map (\<lambda>(v, label). El ''option'' [(''value'', v)] [] [Txt label]) options)"

definition hostChoices :: "restore \<Rightarrow> (string \<times> string) list" where
  "hostChoices w = ([], ''Select a host'' @ ellipsis) # map (\<lambda>x. (id_str (px_id x), px_name x)) (rp_hosts (rw_props w))"

definition agentChoices :: "restore \<Rightarrow> (string \<times> string) list" where
  "agentChoices w =
     ([], ''Select an agent'' @ ellipsis) #
     map (\<lambda>a. (id_str (a_id a), a_hostname a @ '' '' @ em_dash @ '' '' @ a_os a @ ''/'' @ a_arch a @ '' ('' @ a_status a @ '')''))
       (rp_agents (rw_props w))"

definition vmidField :: "restore \<Rightarrow> (string \<Rightarrow> restoreEvent option) node" where
  "vmidField w =
     Field '':r2:'' ''VMID'' None (vmidError w)
       (\<lambda>i d. [El ''div'' [(''class'', ''flex gap-2'')] []
          (Input None [(''id'', i), (''type'', ''number''), (''min'', ''100''), (''value'', rw_vmid w)] [(''change'', \<lambda>v. Some (SetVmid v))] #
           (if overwrite w then []
            else [Button ((plainButton (restores AskVmid) [])\<lparr>bp_children := [], bp_loading := rw_suggesting w,
              bp_icon := Some (Icon ''RefreshCw'' ''size-3.5''),
              bp_rest := [(''aria-label'', ''Suggest a free VMID''), (''title'', ''Ask the server for the next free VMID'')]\<rparr>)]))]) None"

definition confirmPart :: "restore \<Rightarrow> (string \<Rightarrow> restoreEvent option) node" where
  "confirmPart w =
     El ''div'' [(''class'', ''space-y-3 rounded-xl border border-fail-500/40 bg-fail-500/[0.07] px-4 py-3.5'')] []
       [El ''p'' [(''class'', ''flex items-center gap-2 text-[13px] font-medium text-fail-200'')] []
          [Icon ''AlertTriangle'' ''size-4 shrink-0'', Txt (''This destroys the destination machine'' @ rsquo @ ''s disks'')],
        El ''p'' [(''class'', ''text-xs leading-relaxed text-slate-300'')] []
          (case destinationVM w of
             Some vm \<Rightarrow> [Txt ''VMID '', Num [Txt (num_str (v_vmid vm))] None None,
               Txt ('' on '' @ (if hostName w = [] then ''this cluster'' else hostName w) @ '' is currently ''),
               El ''span'' [(''class'', ''font-medium text-slate-100'')] [] [Txt (v_name vm)], Txt ''. Type that name to confirm.'']
           | None \<Rightarrow> [Txt (overwriteNotice w)]),
        Field '':r4:'' ''Destination machine name'' None None
          (\<lambda>i d. [Input None
             [(''id'', i), (''value'', rw_confirmName w), (''placeholder'', case destinationVM w of Some vm \<Rightarrow> v_name vm | None \<Rightarrow> ''current name''),
              (''autocomplete'', ''off''), (''aria-invalid'', bool_str (confirmInvalid w))]
             [(''change'', \<lambda>v. Some (SetConfirm v))]]) None]"

definition machineStep :: "restore \<Rightarrow> (string \<Rightarrow> restoreEvent option) node" where
  "machineStep w =
     El ''div'' [(''class'', ''space-y-4'')] []
       ([Field '':r0:'' ''Cluster'' None None (\<lambda>i d. [optionSelect i (rw_hostId w) (hostChoices w) SetHost]) None,
         El ''div'' [(''class'', ''grid gap-4 sm:grid-cols-2'')] []
           [Field '':r1:'' ''Node'' None None
              (\<lambda>i d. [Input None [(''id'', i), (''value'', rw_node w), (''placeholder'', ''pve1'')] [(''change'', \<lambda>v. Some (SetNode v))]]) None,
            vmidField w],
         Hint [Txt (destinationHint w)] None] @
        (if isVma (rw_props w)
         then [Field '':r3:'' ''Target storage (optional)'' None None
           (\<lambda>i d. [Input None [(''id'', i), (''value'', rw_storage w), (''placeholder'', ''local-lvm'')] [(''change'', \<lambda>v. Some (SetStorage v))]]) None]
         else []) @
        (if overwrite w then [confirmPart w] else []))"

definition fileDestination :: "restore \<Rightarrow> (string \<Rightarrow> restoreEvent option) node" where
  "fileDestination w =
     El ''div'' [(''class'', ''space-y-4'')] []
       [Field '':r5:'' ''Restore to agent'' None None (\<lambda>i d. [optionSelect i (rw_agentId w) (agentChoices w) SetAgent]) None,
        Field '':r6:'' ''Destination path'' None None
          (\<lambda>i d. [Input None [(''id'', i), (''value'', rw_destPath w), (''placeholder'', ''/restore/2026-07-27  or  C:'' @ [CHR 0x5C] @ ''restore'')]
             [(''change'', \<lambda>v. Some (SetDestPath v))]]) None,
        Hint [Txt ''Files are unpacked into this directory. Anything already there under the same name is replaced, so restoring into a fresh directory is the safe choice.''] None]"

subsection \<open>Review\<close>

definition verificationNode :: "host \<Rightarrow> backup \<Rightarrow> 'a node" where
  "verificationNode h b =
     (case opt_text (bk_lastVerifiedAt b) of
        Some t \<Rightarrow> El ''span'' [(''class'', ''inline-flex flex-wrap items-center gap-2'')] []
          [(if bk_lastVerifyResult b = Some ''failed'' then StatusPill FailTone ''Integrity check failed'' False None
            else StatusPill OkTone ''Integrity verified'' False None),
           El ''span'' [(''class'', ''text-meta text-slate-500'')] [] [Txt (formatRelative h (Some t))]]
      | None \<Rightarrow> El ''span'' [(''class'', ''text-warn-300'')] []
          [Txt (''Never verified '' @ em_dash @ '' this point has not been read back from the target.'')])"

definition destinationNodes :: "restore \<Rightarrow> 'a node list" where
  "destinationNodes w =
     (if isVM (rw_props w)
      then El ''span'' [(''class'', ''block'')] []
             [Txt (dash_if_empty (hostName w) @ '' / VMID ''), Num [Txt (dash_if_empty (rw_vmid w))] None None,
              Txt ('' / '' @ dash_if_empty (rw_node w))] #
           (if trim (rw_storage w) = [] then []
            else [El ''span'' [(''class'', ''mt-0.5 block text-meta text-slate-500'')] [] [Txt (''storage '' @ trim (rw_storage w))]])
      else [El ''span'' [(''class'', ''block'')] []
              [Txt (case find (\<lambda>a. id_str (a_id a) = rw_agentId w) (rp_agents (rw_props w)) of Some a \<Rightarrow> a_hostname a | None \<Rightarrow> em_dash)],
            El ''span'' [(''class'', ''mt-0.5 block font-mono text-meta text-slate-500'')] [] [Txt (dash_if_empty (rw_destPath w))]])"

definition readBackNode :: "target option \<Rightarrow> 'a node" where
  "readBackNode x =
     (case x of
        Some t \<Rightarrow> El ''span'' [(''class'', ''inline-flex flex-wrap items-center gap-2'')] []
          [Txt (t_name t), targetKindNode (t_kind t), El ''span'' [(''class'', ''font-mono text-meta text-slate-500'')] [] [Txt (targetLocation t)]]
      | None \<Rightarrow> El ''span'' [(''class'', ''text-slate-500'')] [] [Txt ''The target this point was written to is no longer configured.''])"

definition restoreReviewNode :: "host \<Rightarrow> restore \<Rightarrow> backup \<Rightarrow> 'a node" where
  "restoreReviewNode h w b =
     DefinitionList
       [DefinitionRow ''Restore point''
          [El ''span'' [(''class'', ''block'')] [] [Txt (formatDateTime h (Some (bk_createdAt b)) @ '' '' @ middle_dot @ '' '' @ bk_kind b)],
           El ''span'' [(''class'', ''mt-0.5 block text-meta text-slate-500'')] [] [Txt (formatRelative h (Some (bk_createdAt b)))]] False,
        DefinitionRow ''Source'' [WorkloadIdentity (pointIdentity b) True None False] False,
        DefinitionRow ''Last verification'' [verificationNode h b] (bk_lastVerifyResult b = Some ''failed''),
        DefinitionRow ''Mode''
          [Txt (if overwrite w then ''Overwrite original '' @ em_dash @ '' the destination machine'' @ rsquo @ ''s disks are destroyed''
                else ''Restore alongside '' @ em_dash @ '' nothing existing is touched'')] (overwrite w),
        DefinitionRow ''Destination'' (destinationNodes w) False,
        DefinitionRow ''Read back from'' [readBackNode (rp_target (rw_props w))] False,
        DefinitionRow ''Estimated transfer''
          [Num [Txt (formatBytes h (Some (bk_sizeBytes b)) 1)] None None,
           El ''span'' [(''class'', ''ml-2 text-meta text-slate-500'')] []
             [Txt (''full size of this point, read back from the target'' @
                (case rp_target (rw_props w) of Some t \<Rightarrow> if isOffsite (t_kind t) then '' over the internet'' else [] | None \<Rightarrow> []))]] False] None"

definition reviewPart :: "host \<Rightarrow> restore \<Rightarrow> backup \<Rightarrow> 'a node" where
  "reviewPart h w b =
     El ''div'' [(''class'', ''space-y-4'')] []
       ([restoreReviewNode h w b] @
        (if overwrite w
         then [El ''div'' [(''class'', ''rounded-xl border border-fail-500/40 bg-fail-500/[0.07] px-4 py-3.5'')] []
           [El ''p'' [(''class'', ''flex items-center gap-2 text-[13px] font-medium text-fail-200'')] []
              [Icon ''AlertTriangle'' ''size-4 shrink-0'', Txt (confirmedText w)]]] else []) @
        (case opt_text (rw_error w) of
           Some m \<Rightarrow> [El ''p'' [(''class'', ''rounded-lg border border-fail-500/30 bg-fail-500/10 px-3.5 py-2.5 text-xs text-fail-300'')] [] [Txt m]]
         | None \<Rightarrow> []))"

subsection \<open>The dialog\<close>

definition restoreRail :: "string list \<Rightarrow> nat \<Rightarrow> 'a node" where
  "restoreRail names step =
     El ''ol'' [(''class'', ''flex flex-wrap items-center gap-x-2 gap-y-2 text-xs'')] []
       (map2 (\<lambda>index label. El ''li'' [(''class'', ''flex items-center gap-2'')] []
           ([El ''span'' [(''class'', cn [Some ''flex size-5 items-center justify-center rounded-full border text-[10px] font-semibold'',
                Some (if index < step then ''border-accent-500/40 bg-accent-500/15 text-accent-300''
                      else if index = step then ''border-accent-500/50 bg-accent-500/15 text-accent-300''
                      else ''border-slate-700 bg-slate-900 text-slate-500'')])] []
               [if index < step then Icon ''Check'' ''size-3'' else Txt (nat_str (index + 1))],
             El ''span'' [(''class'', cn [Some (if index = step then ''font-medium text-slate-200'' else ''text-slate-500'')])] [] [Txt label]] @
            (if index < length names - 1 then [Icon ''ChevronRight'' ''size-3.5 text-slate-700''] else [])))
         [0..<length names] names)"

definition restoreFooter :: "restore \<Rightarrow> (string \<Rightarrow> restoreEvent option) node list" where
  "restoreFooter w =
     [Button ((plainButton (restores BackR) ''Back'')\<lparr>bp_disabled := (rw_step w = 0 \<or> rw_submitting w), bp_icon := Some (Icon ''ChevronLeft'' ''size-4'')\<rparr>),
      El ''div'' [(''class'', ''flex-1'')] [] [],
      Button ((plainButton (restores CloseRestore) ''Cancel'')\<lparr>bp_disabled := rw_submitting w\<rparr>),
      (if isLast w
       then Button ((plainButton (restores SubmitR) (if overwrite w then ''Overwrite and restore'' else ''Start restore''))
         \<lparr>bp_variant := Some (if overwrite w then VDanger else VPrimary), bp_loading := rw_submitting w, bp_disabled := (\<not> stepReady w),
          bp_icon := Some (Icon ''RotateCcw'' ''size-4'')\<rparr>)
       else Button ((plainButton (restores ContinueR) ''Continue'')\<lparr>bp_variant := Some VPrimary, bp_disabled := (\<not> stepReady w),
         bp_icon := Some (Icon ''ChevronRight'' ''size-4'')\<rparr>))]"

definition restoreBody :: "host \<Rightarrow> restore \<Rightarrow> backup \<Rightarrow> (string \<Rightarrow> restoreEvent option) node list" where
  "restoreBody h w b =
     (if currentStep w = Some ''Mode'' then [modeStep w] else []) @
     (if currentStep w = Some ''Destination'' \<and> isVM (rw_props w) then [machineStep w] else []) @
     (if currentStep w = Some ''Destination'' \<and> \<not> isVM (rw_props w) then [fileDestination w] else []) @
     (if currentStep w = Some ''Review'' then [reviewPart h w b] else [])"

definition RestoreWizard :: "host \<Rightarrow> restore \<Rightarrow> (string \<Rightarrow> restoreEvent option) node list" where
  "RestoreWizard h w =
     Modal (restore_open w) (restores CloseRestore) ''Restore'' (map_option Txt (restoreSubtitle h w))
       (case rp_backup (rw_props w) of
          None \<Rightarrow> []
        | Some b \<Rightarrow> [El ''div'' [(''class'', ''space-y-5'')] [] (restoreRail (steps (rw_props w)) (rw_step w) # restoreBody h w b)])
       (Some (restoreFooter w)) (Some WidthLg)"

subsection \<open>Lemmas\<close>

lemma plainHint_text [simp]: "plainHint (map_option Txt x)"
  by (cases x) simp_all

lemma tree_modeStep [simp]:
  "fires ev (modeStep w) = (if ev = ''click'' then map (\<lambda>m. restores (SetMode (fst m))) MODES else [])" "forms (modeStep w) = []"
  by (simp_all add: modeStep_def modeTileNode_def Let_def o_def concat_map_singleton quiet_tree)

lemma tree_optionSelect [simp]:
  "fires ev (optionSelect i value os f) = (if ev = ''change'' then [\<lambda>v. if v \<in> set (map fst os) then Some (f v) else None] else [])"
  "forms (optionSelect i value os f) = []"
  by (simp_all add: optionSelect_def Select_def spreadAttrs_def o_def case_prod_beta)

lemma tree_vmidField [simp]:
  "fires ev (vmidField w) =
     (if ev = ''change'' then [\<lambda>v. Some (SetVmid v)]
      else if ev = ''click'' \<and> \<not> overwrite w \<and> \<not> rw_suggesting w then [restores AskVmid] else [])"
  "forms (vmidField w) = []"
  by (simp_all add: vmidField_def fires_Button submits_Button plainButton_def)

lemma tree_confirmPart [simp]:
  "fires ev (confirmPart w) = (if ev = ''change'' then [\<lambda>v. Some (SetConfirm v)] else [])" "forms (confirmPart w) = []"
  by (cases "destinationVM w"; simp add: confirmPart_def)+

lemma tree_machineStep [simp]:
  "fires ev (machineStep w) =
     (if ev = ''change''
      then [\<lambda>v. if v \<in> set (map fst (hostChoices w)) then Some (SetHost v) else None, \<lambda>v. Some (SetNode v), \<lambda>v. Some (SetVmid v)] @
        (if isVma (rw_props w) then [\<lambda>v. Some (SetStorage v)] else []) @ (if overwrite w then [\<lambda>v. Some (SetConfirm v)] else [])
      else if ev = ''click'' \<and> \<not> overwrite w \<and> \<not> rw_suggesting w then [restores AskVmid] else [])"
  "forms (machineStep w) = []"
  by (simp_all add: machineStep_def)

lemma tree_fileDestination [simp]:
  "fires ev (fileDestination w) =
     (if ev = ''change'' then [\<lambda>v. if v \<in> set (map fst (agentChoices w)) then Some (SetAgent v) else None, \<lambda>v. Some (SetDestPath v)] else [])"
  "forms (fileDestination w) = []"
  by (simp_all add: fileDestination_def)

lemma quiet_reviewRows [simp]: "quiet (verificationNode h b)" "\<forall>n\<in>set (destinationNodes w). quiet n" "quiet (readBackNode t)"
  by (simp_all add: verificationNode_def destinationNodes_def readBackNode_def split: option.split)

lemma quiet_reviewPart [simp]: "quiet (reviewPart h w b)"
  by (cases "opt_text (rw_error w)") (simp_all add: reviewPart_def restoreReviewNode_def)

lemma quiet_restoreRail [simp]: "quiet (restoreRail names step)"
  by (auto simp: restoreRail_def set_zip)

lemma tree_restoreFooter:
  "concat (map (fires ev) (restoreFooter w)) =
     (if ev = ''click''
      then (if rw_step w = 0 \<or> rw_submitting w then [] else [restores BackR]) @ (if rw_submitting w then [] else [restores CloseRestore]) @
        (if isLast w then (if stepReady w \<and> \<not> rw_submitting w then [restores SubmitR] else [])
         else if stepReady w then [restores ContinueR] else [])
      else [])"
  "concat (map forms (restoreFooter w)) = []"
  by (simp_all add: restoreFooter_def fires_Button submits_Button plainButton_def)

lemma tree_restoreBody:
  "concat (map (fires ''click'') (restoreBody h w b)) =
     (if currentStep w = Some ''Mode'' then map (\<lambda>m. restores (SetMode (fst m))) MODES else []) @
     (if currentStep w = Some ''Destination'' \<and> isVM (rw_props w) \<and> \<not> overwrite w \<and> \<not> rw_suggesting w then [restores AskVmid] else [])"
  "concat (map (fires ''change'') (restoreBody h w b)) =
     (if currentStep w = Some ''Destination'' \<and> isVM (rw_props w) then fires ''change'' (machineStep w) else []) @
     (if currentStep w = Some ''Destination'' \<and> \<not> isVM (rw_props w) then fires ''change'' (fileDestination w) else [])"
  "concat (map (fires ''keydown'') (restoreBody h w b)) = []" "concat (map forms (restoreBody h w b)) = []"
  by (cases "isVM (rw_props w)"; simp add: restoreBody_def quiet_tree)+

lemma tree_RestoreWizard:
  "concat (map (fires ev) (RestoreWizard h w)) =
     (case rp_backup (rw_props w) of
        None \<Rightarrow> []
      | Some b \<Rightarrow> (if ev = ''click'' then [restores CloseRestore, restores CloseRestore] else []) @
          concat (map (fires ev) (restoreBody h w b)) @ concat (map (fires ev) (restoreFooter w)))"
  "submits (RestoreWizard h w) = []"
proof -
  show "submits (RestoreWizard h w) = []"
    by (intro submits_none)
      (simp add: RestoreWizard_def tree_Modal footerNodes_def quiet_tree tree_restoreFooter tree_restoreBody del: concat_eq_Nil_conv split: option.split)
qed (simp add: RestoreWizard_def tree_Modal footerNodes_def quiet_tree split: option.split)

text \<open>What the parts of the open dialog make.\<close>

lemma offers_machine:
  "makes (fires ''change'' (machineStep w)) e \<longleftrightarrow>
     (\<exists>v. e = SetHost v \<and> (v = [] \<or> v \<in> set (map (\<lambda>x. id_str (px_id x)) (rp_hosts (rw_props w))))) \<or> (\<exists>v. e = SetNode v) \<or> (\<exists>v. e = SetVmid v) \<or>
     (\<exists>v. e = SetStorage v) \<and> isVma (rw_props w) \<or> (\<exists>v. e = SetConfirm v) \<and> overwrite w"
  "makes (fires ''change'' (fileDestination w)) e \<longleftrightarrow>
     (\<exists>v. e = SetAgent v \<and> (v = [] \<or> v \<in> set (map (\<lambda>x. id_str (a_id x)) (rp_agents (rw_props w))))) \<or> (\<exists>v. e = SetDestPath v)"
proof -
  have h: "fst ` set (hostChoices w) = insert [] (set (map (\<lambda>x. id_str (px_id x)) (rp_hosts (rw_props w))))"
    by (simp add: hostChoices_def image_image)
  have a: "fst ` set (agentChoices w) = insert [] (set (map (\<lambda>x. id_str (a_id x)) (rp_agents (rw_props w))))"
    by (simp add: agentChoices_def image_image)
  show "makes (fires ''change'' (machineStep w)) e \<longleftrightarrow>
     (\<exists>v. e = SetHost v \<and> (v = [] \<or> v \<in> set (map (\<lambda>x. id_str (px_id x)) (rp_hosts (rw_props w))))) \<or> (\<exists>v. e = SetNode v) \<or> (\<exists>v. e = SetVmid v) \<or>
     (\<exists>v. e = SetStorage v) \<and> isVma (rw_props w) \<or> (\<exists>v. e = SetConfirm v) \<and> overwrite w"
    by (cases e) (simp_all add: makes_when made_when h)
  show "makes (fires ''change'' (fileDestination w)) e \<longleftrightarrow>
     (\<exists>v. e = SetAgent v \<and> (v = [] \<or> v \<in> set (map (\<lambda>x. id_str (a_id x)) (rp_agents (rw_props w))))) \<or> (\<exists>v. e = SetDestPath v)"
    by (cases e) (simp_all add: made_when a)
qed

lemma offers_restoreFooter:
  "makes (concat (map (fires ''click'') (restoreFooter w))) e \<longleftrightarrow>
     e = BackR \<and> rw_step w \<noteq> 0 \<and> \<not> rw_submitting w \<or> e = CloseRestore \<and> \<not> rw_submitting w \<or>
     e = SubmitR \<and> isLast w \<and> stepReady w \<and> \<not> rw_submitting w \<or> e = ContinueR \<and> \<not> isLast w \<and> stepReady w"
  unfolding tree_restoreFooter by auto

lemma offers_open:
  assumes "rp_backup (rw_props w) = Some b"
  shows "offersEvent (RestoreWizard h w) e \<longleftrightarrow>
    e = CloseRestore \<or> (\<exists>m\<in>set MODES. e = SetMode (fst m)) \<and> currentStep w = Some ''Mode'' \<or>
    e = AskVmid \<and> currentStep w = Some ''Destination'' \<and> isVM (rw_props w) \<and> \<not> overwrite w \<and> \<not> rw_suggesting w \<or>
    currentStep w = Some ''Destination'' \<and> isVM (rw_props w) \<and> makes (fires ''change'' (machineStep w)) e \<or>
    currentStep w = Some ''Destination'' \<and> \<not> isVM (rw_props w) \<and> makes (fires ''change'' (fileDestination w)) e \<or>
    makes (concat (map (fires ''click'') (restoreFooter w))) e"
proof -
  have f: "concat (map (fires ''change'') (restoreFooter w)) = []" "concat (map (fires ''keydown'') (restoreFooter w)) = []"
    by (simp_all add: tree_restoreFooter)
  show ?thesis
    unfolding offersEvent_split tree_RestoreWizard assms option.case tree_restoreBody f makes_simps makes_when makes_map
    by (auto simp del: tree_machineStep tree_fileDestination)
qed

lemma offers_restore: "offersEvent (RestoreWizard h w) e \<longleftrightarrow> restoreOfScreen e \<and> restoreOffered w e"
proof (cases "rp_backup (rw_props w)")
  case None
  then show ?thesis by (cases e) (simp_all add: offersEvent_split tree_RestoreWizard onDestination_def)
next
  case (Some b)
  show ?thesis
    unfolding offers_open [OF Some] offers_machine offers_restoreFooter using Some
    by (cases e) (auto simp: onDestination_def)
qed

interpretation restore_screen: rendered_screen "RestoreWizard h" restoreStep restoreOffered restoreOfScreen for h
  by unfold_locales (simp_all add: offers_restore)

subsection \<open>Properties\<close>

text \<open>
  C40 (the rendered restore dialog offers what its machine offers): in every state, what the rendered dialog
  lets somebody click, choose or type is exactly what the machine offers of the events of the dialog. So however the rendered
  dialog is used, with suggestions, refetches and answers coming in between, every request sent names a real
  destination, and one that overwrites carries the confirmed name.
\<close>

theorem restore_wizard_rendered:
  "(offersEvent (RestoreWizard h w) e \<longleftrightarrow> restoreOfScreen e \<and> restoreOffered w e) \<and>
   (reaches restoreStep (\<lambda>w e. offersEvent (RestoreWizard h w) e \<or> \<not> restoreOfScreen e \<and> restoreOffered w e) (mountRestore ps) v \<longrightarrow>
    (\<forall>r\<in>set (rw_sent v). safe_request r))"
proof (intro conjI impI)
  assume "reaches restoreStep (\<lambda>w e. offersEvent (RestoreWizard h w) e \<or> \<not> restoreOfScreen e \<and> restoreOffered w e) (mountRestore ps) v"
  then have "reaches restoreStep restoreOffered (mountRestore ps) v"
    using restore_screen.acting_reaches [of h] by (simp only: restore_screen.happens_def [abs_def])
  then show "\<forall>r\<in>set (rw_sent v). safe_request r" using restores.request_ok by blast
qed (rule offers_restore)

theorem restore_wizard_rendered_witness:
  "safe_request (db01_props, RestoreVM (IdNum (Fin 9)) Overwrite
     \<lparr>rv_hostId = ''1'', rv_node = ''pve1'', rv_vmid = Fin 100, rv_storage = None\<rparr> (Some ''db01''))"
proof -
  fix h :: host
  obtain w where w: "run_events restoreStep restoreOffered
      [OpenRestore db01_props, SetMode Overwrite, ContinueR, SetConfirm ''db01'', ContinueR, SubmitR]
      (mountRestore db01_props) = Some w"
    "rw_sent w = [(db01_props, RestoreVM (IdNum (Fin 9)) Overwrite
      \<lparr>rv_hostId = ''1'', rv_node = ''pve1'', rv_vmid = Fin 100, rv_storage = None\<rparr> (Some ''db01''))]"
    using overwrite_run by blast
  from run_events_reaches [OF w(1)]
  have "reaches restoreStep (\<lambda>w e. offersEvent (RestoreWizard h w) e \<or> \<not> restoreOfScreen e \<and> restoreOffered w e) (mountRestore db01_props) w"
    using restore_screen.acting_reaches [of h] by (simp only: restore_screen.happens_def [abs_def])
  with restore_wizard_rendered [of h _ _ db01_props w] w(2) show ?thesis by simp
qed

end
