(* ===== verification/Spec2Isabelle.thy ===== *)
theory Spec2Isabelle
  imports Endpoints Server_Schedule Schedule_Editor Next_Run
    Job_Wizard Restore_Wizard App_Gate Users_Page File_Browser Deploy_Helper Shell Run_Monitor
    Targets_Page Settings_Page Restore_Points Jobs_Page Hosts_Page Helpers_Section Agents_Page Audit_Page
    Vms_Page Dashboard Navigation Modal_Lock Auth_Screens Users_Screen Job_Screen Restore_Screen
begin

text \<open>
  A verification library of the ProxBack web console, the TypeScript program under \<open>web/src\<close>.

  \<^bold>\<open>The program.\<close> ProxBack backs up Proxmox guests and files. A Go server keeps jobs, runs, restore
  points and accounts; the console is a React application that talks to it over a REST interface.
  Its parts are the REST client \<open>api.ts\<close> (types, one function per endpoint, normalisers for every
  field a server may hold in several forms), the presentation helpers \<open>lib/format.ts\<close> with the
  computation of the next run, hooks, and components: an application shell that signs in and
  routes, wizards and dialogs that edit a job, restore a point, browse files, deploy a helper, and
  pages that list and act. Components keep React state, call endpoint functions, and receive
  answers later, in any order; the hard part of the console is what happens in between.

  \<^bold>\<open>How it is modelled.\<close> Interfaces are \<open>record\<close>s, unions are \<open>datatype\<close>s, exported functions are HOL
  functions of the same name. Fields are modelled at the type TypeScript declares for them; what is
  read from the wire without trust, or typed \<open>unknown\<close>, is a \<open>jval\<close>. Exceptions are the left of
  \<open>'a exn\<close>. What is not under \<open>web/src\<close> is a parameter: \<open>fetch\<close> (the network), \<open>host\<close> (time zone, date
  parsing, \<open>Intl\<close>, \<open>Math.log\<close>), the collation \<open>localeCompare\<close> and Unicode lower-casing. A text is the list
  of its UTF-8 bytes. A number is a double: NaN, the infinities, or a rational that arithmetic
  rounds to 53 bits.

  A component is a state machine: a record with its React state and with the requests and timers
  that are still out, a \<open>datatype\<close> of events (one per control, one per answer or timer), a predicate
  that says which events the screen offers in a state (what is rendered and enabled), and a step
  function that is the handler. \<open>reaches\<close> and \<open>run_events\<close> (\<open>Ui_Machine\<close>) are the runs; answers are
  events of their own, so a theorem about all runs is a theorem about all interleavings. Every
  definition is total and executable: recursion is structural or has a measure, and the loops of
  \<open>nextRunOf\<close> are bounded in the source (8 days, 13 months) and kept so; there is no fuel.

  \<^bold>\<open>The theories.\<close>
  \<^item> \<open>Prelude\<close>: JavaScript's string functions, decimal numerals, sorting by a comparator.
  \<open>Js_Number\<close>: doubles, rounding, \<open>Number(text)\<close>, \<open>String(n)\<close>. \<open>Js_Value\<close>: values, truthiness,
  property access, the locale \<open>normaliser\<close>. \<open>Json\<close>: \<open>JSON.stringify\<close> and \<open>JSON.parse\<close>, inverse on the
  values the console sends. \<open>Js_Date\<close>: the calendar and \<open>Date\<close> in a time zone.
  \<^item> \<open>Api_Roles\<close>, \<open>Api_Targets\<close>, \<open>Api_Schedule\<close>, \<open>Api_Policy\<close>, \<open>Api_Runs\<close>, \<open>Job_Sources\<close>: the sections of
  \<open>api.ts\<close>. Each normaliser is an interpretation of \<open>normaliser\<close>: whatever the wire holds is read as a
  well-formed value, and reading back what is sent changes nothing. \<open>Transport\<close>: \<open>request\<close>, URLs
  (locale \<open>byte_codec\<close>), errors and their wording. \<open>Endpoints\<close>: one definition per endpoint.
  \<^item> \<open>Format\<close>: \<open>lib/format.ts\<close> but for \<open>shortId\<close>. \<open>Next_Run\<close>: \<open>nextRunOf\<close> gives the first instant at
  which the schedule fires. \<open>Server_Schedule\<close>: the monthly rule and the label of the Go server
  (\<open>internal/store/schedule.go\<close>), compared with the console's.
  \<^item> \<open>Ui_Machine\<close>: runs and invariants, and the locales of the components: \<open>form_control\<close> (a
  controlled part that hands back well-formed values; interpreted by the schedule editor, the
  retention step and the protection step, and used by the job wizard), \<open>step_dialog\<close> (every step
  behind the one on screen is complete; the job wizard), \<open>latest_request\<close> (a debounced loader
  shows answers to the current question; the retention preview and the file browser), \<open>request_guard\<close>
  (what a screen keeps invariant covers every request it makes; every wizard, form and page that
  sends), \<open>embedded_part\<close> (a dialog inside a page is a run of the dialog; the pages that hold the job
  wizard, the restore wizard, the file browser or the deployment dialog).
  \<^item> \<open>Schedule_Editor\<close>, \<open>Form_Steps\<close>, \<open>Job_Wizard\<close>: \<open>ScheduleEditor.tsx\<close>, \<open>RetentionStep.tsx\<close> and
  \<open>PolicyStep.tsx\<close>, \<open>JobWizard.tsx\<close>. Only complete, well-formed jobs are submitted, one at a time; the
  wizard can always be finished; editing a job and saving it gives the job back.
  \<^item> \<open>Identity\<close>, \<open>Restore_Wizard\<close>: \<open>Identity.tsx\<close> and \<open>TargetIdentity.tsx\<close>, \<open>RestoreWizard.tsx\<close> with both of
  its effects. Overwriting is a choice made after opening and is confirmed by the name of the
  machine the inventory has at the destination.
  \<^item> \<open>Hooks\<close>, \<open>App_Gate\<close>, \<open>Users_Page\<close>, \<open>File_Browser\<close>, \<open>Deploy_Helper\<close>: \<open>useAsync.ts\<close>,
  \<open>useServerTimezone.ts\<close> and \<open>Confirm.tsx\<close>; \<open>App.tsx\<close>, \<open>LoginPage.tsx\<close> and \<open>SetupPage.tsx\<close>; \<open>UsersPage.tsx\<close>;
  \<open>FileBrowser.tsx\<close>, shown to implement an abstract viewer that only ever answers the question on
  screen; \<open>DeployHelperModal.tsx\<close>.
  \<^item> \<open>Run_Views\<close>, \<open>Run_Dialog\<close>, \<open>Run_Monitor\<close>: \<open>RunLive.tsx\<close> with the bar, gauge and sparkline of \<open>ui.tsx\<close>;
  \<open>RunDetailModal.tsx\<close>; \<open>MonitorPage.tsx\<close>, whose machine contains the one of the dialog. Every run is
  shown once, samples follow the cards, and only what a run and the role allow is asked for.
  \<open>Shell\<close>: the queue of \<open>Toast.tsx\<close> with its timers, and the choice of \<open>theme.tsx\<close>.

  \<^item> \<open>Row_State\<close>: rows of lists, whose state goes when they leave the screen while their requests carry on; the
  views before data. \<open>Targets_Page\<close>, \<open>Settings_Page\<close>, \<open>Hosts_Page\<close>, \<open>Helpers_Section\<close>, \<open>Agents_Page\<close>:
  \<open>TargetsPage.tsx\<close>, \<open>SettingsPage.tsx\<close>, \<open>HostsPage.tsx\<close>, \<open>HelpersSection.tsx\<close>, \<open>AgentsPage.tsx\<close>. Forms send only what is
  complete and what the role allows; an update cancels running work only after the server refused to
  install without; the nodes reported as uncovered are exactly those.
  \<^item> \<open>Restore_Points\<close>, \<open>Jobs_Page\<close>, \<open>Vms_Page\<close>: \<open>RestorePointsPage.tsx\<close>, \<open>JobsPage.tsx\<close>,
  \<open>VirtualMachinesPage.tsx\<close>, with the wizards they open. Points are grouped without loss or mixing, the depth of a
  point is the number of its ancestors up to six, a start is of a job that protects the guest.
  \<^item> \<open>Dashboard\<close>, \<open>Audit_Page\<close>, \<open>Navigation\<close>: \<open>DashboardPage.tsx\<close> and \<open>OutcomeDonut.tsx\<close>, \<open>AuditPage.tsx\<close>,
  \<open>Layout.tsx\<close> and \<open>CopyField.tsx\<close>. The verdict is that of the last answer; the navigation is the set of routes
  open to the session. This theory holds what spans them: every link leads to a page, and a job that was started is the
  one the monitor shows.

  \<^item> \<open>Html\<close>, \<open>Interface_Kit\<close>, \<open>Identity_View\<close>: what is rendered, as trees of elements with attributes and handlers, and what a
  click, a change, a key or a submission of such a tree does; every component of \<open>ui.tsx\<close>, with \<open>Modal.tsx\<close>, \<open>Brand.tsx\<close>,
  \<open>AuthShell.tsx\<close>, \<open>NotFoundPage.tsx\<close>, \<open>Identity.tsx\<close> and \<open>TargetIdentity.tsx\<close>, class names included. The locale \<open>rendered_screen\<close> says that
  the tree of a state offers exactly the events of the screen that the machine offers; then whatever people do with the
  rendered screen is a run of the machine. \<open>embed\<close> puts the tree of one component into another.
  \<^item> \<open>Auth_Screens\<close>, \<open>Users_Screen\<close>, \<open>Schedule_Screen\<close>, \<open>Steps_Screen\<close>, \<open>Job_Screen\<close>, \<open>Restore_Screen\<close>: the sign-in and first-run
  screens, the users page with its dialogs, the scheduling control, the retention and protection steps, the job
  wizard that holds these three, and the restore wizard, each as rendered and each an interpretation of \<open>rendered_screen\<close>; the
  schedule, the steps and the wizard are also parts (\<open>embedded_part\<close>) of what is around them.
  \<^item> \<open>Modal_Lock\<close>: the effects of the open dialogs on the scrolling of the page and on the Escape key, over the commits of React.

  \<^bold>\<open>What the runs show beside the properties.\<close> Some lemmas are runs in which the code does what it
  should not: \<open>late_suggestion_run\<close> (a free-VMID answer redirects an overwrite), \<open>late_answer_closes\<close> (a
  submission closes the dialog that was opened after it), \<open>late_refresh_reenters\<close> (a refresh after a
  sign-out brings the console back), \<open>stale_retry_run\<close> (a retry replaces the listing of another
  folder), \<open>preview_stale_run\<close> (an aborted preview ends the loading state of its successor),
  \<open>stale_poll_run\<close> (a late reading puts another run in the dialog, and its buttons act on it),
  \<open>aborted_load_blanks\<close> (the dialog is blank while it loads), \<open>late_filter_run\<close> (a handler reads the runs
  of the filter that was left), \<open>save_takes_other_cards\<close>, \<open>install_stays_busy\<close> (the settings cards), \<open>drive_root_refused\<close>,
  \<open>slash_endpoint_sent\<close>, \<open>bare_scheme_sent\<close> (addresses checked before they are trimmed), \<open>deleted_twice_run\<close>,
  \<open>started_twice_run\<close> (one busy state for several requests), \<open>viewer_binds_run\<close>, \<open>stale_token_run\<close> (the helpers section),
  \<open>stale_audit_run\<close>, \<open>failed_filter_run\<close> (entries of another filter), \<open>capital_tag_missed\<close> (the search of the guests),
  \<open>stale_verdict_run\<close> (a verdict that outlives its server), \<open>escape_leaves_lock\<close> (the page does not scroll any more after one key),
  \<open>section_closes_while_editing\<close> (the long-term rules fold under the hands of who edits them).

  \<^bold>\<open>Not modelled.\<close> Focus, layout and what the browser makes of class names. On the screens without a tree of their own
  an element is its text or the data it shows, and static wording is left out where nothing depends on it. The icon
  package is a name per icon, the chart library is left out. \<open>usePolling\<close> repeats a callback: a poll is an event that may come at any
  time while it is enabled. \<open>main.tsx\<close> mounts the application in the document and holds no logic. A wizard or dialog that is open is
  not opened again from under it. Of the Go server only the functions the console mirrors are modelled.
\<close>

subsection \<open>Links\<close>

text \<open>
  The addresses the console leads to: the navigation and the notice of the frame, the tiles and suggestions
  of the dashboard, and where the pages and refusals go themselves.
\<close>

definition console_links :: "host \<Rightarrow> session \<Rightarrow> layout \<Rightarrow> dashboardStats \<Rightarrow> job \<Rightarrow> string list" where
  "console_links h s l stats j =
     navLinks (s_can s) @ (case lv_notice (Layout s l) of Some link \<Rightarrow> [link] | None \<Rightarrow> []) @
     map (snd \<circ> snd) (countTiles h stats) @ [se_to (setupRoute stats)] @
     (case firstSteps stats of Some step \<Rightarrow> [snd step] | None \<Rightarrow> []) @
     [monitorPath j, ''/monitor'', ''/jobs'', ''/hosts'', ''/'']"

text \<open>\<open>useSearchParams\<close>: the parameters behind the question mark.\<close>

definition searchParams :: "string \<Rightarrow> (string \<times> string) list" where
  "searchParams path = read_query (tl (dropWhile (\<lambda>c. c \<noteq> CHR ''?'') path))"

interpretation uri_form: byte_codec uri_enc "pct_decode True" url_safe
proof unfold_locales
  show "pct_decode True (uri_enc c @ s) = c # pct_decode True s" for c s
    using pct_decode_pct [of True c s] by (auto simp: uri_enc_def uri_keep_def is_alnum_def)
  show "list_all url_safe (uri_enc c)" for c
    using uri.enc_safe .
qed simp

lemma encoded_no_amp: "CHR ''&'' \<notin> set (encodeURIComponent s)"
  using encodeURIComponent_safe [of "CHR ''&''" s] by (auto simp: url_safe_def is_alnum_def)

lemma monitorPath_params: "searchParams (monitorPath j) = [(''jobId'', jobKey j)]"
proof -
  have "pct_decode True (encodeURIComponent (jobKey j)) = jobKey j" by (simp add: encodeURIComponent_def uri_form.dec_concat)
  moreover have "split_on (CHR ''&'') (''jobId='' @ encodeURIComponent (jobKey j)) = [''jobId='' @ encodeURIComponent (jobKey j)]"
    using encoded_no_amp by (intro split_on_single) auto
  ultimately show ?thesis by (simp add: searchParams_def monitorPath_def read_query_def read_param_def)
qed

lemma page_links:
  "set (map (snd \<circ> snd) (countTiles h stats)) \<subseteq> set (navLinks (capabilitiesFor role))"
  "se_to (setupRoute stats) \<in> set (navLinks (capabilitiesFor role))"
  "set (case firstSteps stats of Some step \<Rightarrow> [snd step] | None \<Rightarrow> []) \<subseteq> set (navLinks (capabilitiesFor role))"
  "set (case lv_notice (Layout s l) of Some link \<Rightarrow> [link] | None \<Rightarrow> []) \<subseteq> set (navLinks (capabilitiesFor role))"
  "{''/monitor'', ''/jobs'', ''/hosts'', ''/''} \<subseteq> set (navLinks (capabilitiesFor role))"
proof -
  let ?nav = "set (navLinks (capabilitiesFor role))"
  have nav: "''/'' \<in> ?nav" "''/hosts'' \<in> ?nav" "''/vms'' \<in> ?nav" "''/agents'' \<in> ?nav" "''/jobs'' \<in> ?nav" "''/monitor'' \<in> ?nav"
    "''/targets'' \<in> ?nav" "''/settings'' \<in> ?nav" by (simp_all add: navLinks_role)
  show "set (map (snd \<circ> snd) (countTiles h stats)) \<subseteq> ?nav" using nav by (simp add: countTiles_def)
  show "se_to (setupRoute stats) \<in> ?nav" using nav by (simp add: setupRoute_def)
  show "set (case firstSteps stats of Some step \<Rightarrow> [snd step] | None \<Rightarrow> []) \<subseteq> ?nav" using nav by (simp add: firstSteps_def)
  show "set (case lv_notice (Layout s l) of Some link \<Rightarrow> [link] | None \<Rightarrow> []) \<subseteq> ?nav" using nav by (simp add: Layout_def)
  show "{''/monitor'', ''/jobs'', ''/hosts'', ''/''} \<subseteq> ?nav" using nav by simp
qed

text \<open>
  C21 (every link leads somewhere): for the session of every role, every address the console offers is a route that exists
  and that shows its page to that session; nobody is led to a missing page or to a refusal.
\<close>

theorem console_links_lead_somewhere:
  assumes "session_of a = Some s" "link \<in> set (console_links h s l stats j)"
  shows "\<exists>p. routeElement s (routeOf link) = Page p \<and> p \<noteq> NotFoundPage"
proof -
  have can: "s_can s = capabilitiesFor (s_role s)" using assms(1) by (auto simp: session_of_def split: phase.splits)
  have nav: "\<exists>p. routeElement s (routeOf x) = Page p \<and> p \<noteq> NotFoundPage" if "x \<in> set (navLinks (s_can s))" for x
  proof -
    have "routeOf x \<in> fst ` set ROUTES" "\<exists>p. routeElement s (routeOf x) = Page p"
      using that navigation_is_routes [OF can] by blast+
    then show ?thesis using routeElement_found by blast
  qed
  have "set (console_links h s l stats j) \<subseteq> insert (monitorPath j) (set (navLinks (s_can s)))"
    unfolding console_links_def can set_append Un_subset_iff
    using page_links(1) [of h stats "s_role s"] page_links(2) [of stats "s_role s"] page_links(3) [of stats "s_role s"]
      page_links(4) [of s l "s_role s"] page_links(5) [of "s_role s"] by (simp add: subset_insertI2)
  then consider "link = monitorPath j" | "link \<in> set (navLinks (s_can s))" using assms(2) by blast
  then show ?thesis
  proof cases
    case 1
    have "routeOf (monitorPath j) = routeOf ''/monitor''" by (simp add: routeOf_def monitorPath_def)
    moreover have "''/monitor'' \<in> set (navLinks (s_can s))" using page_links(5) [of "s_role s"] by (simp add: can)
    ultimately show ?thesis using nav 1 by presburger
  qed (rule nav)
qed

theorem console_links_lead_somewhere_witness:
  "\<exists>s p. session_of (admin_at ''jobs'') = Some s \<and> routeElement s (routeOf (monitorPath blank_job)) = Page p \<and> p \<noteq> NotFoundPage"
proof -
  obtain s where s: "session_of (admin_at ''jobs'') = Some s" by (simp add: session_of_def admin_at_def)
  have "monitorPath blank_job \<in> set (console_links bare_host s (mountLayout ''jobs'') quiet_stats blank_job)" by (simp add: console_links_def)
  from console_links_lead_somewhere [OF s this] s show ?thesis by blast
qed

text \<open>
  C22 (a job that was started is the one that is watched): the address that starting a job leads to, from the jobs page
  and from the page of guests alike, read back by the monitor, makes it ask for the runs of exactly that
  job, whatever characters the id has; only an id that reads as the word for all of them is not told apart.
\<close>

theorem started_job_is_monitored:
  assumes "jobKey j \<noteq> ''all''"
  shows "mo_jobId (mountMonitor (map_of (searchParams (monitorPath j)) ''jobId'')) = jobKey j \<and>
    fst (monitorQuery (jobKey j)) = Some (IdStr (jobKey j)) \<and>
    jb_left (jobsStep (RunSettles True j (Inr ())) p) = Some (monitorPath j) \<and>
    vp_left (vmsStep (BackupSettles vm j (Inr ())) q) = Some (monitorPath j)"
  using assms
  by (simp add: monitorPath_params mountMonitor_def monitorQuery_def settleRunNow_def setJobBusy_def refreshJobs_def toastJobs_def leaveJobs_def
      settledJob_def settleBackup_def leaveVms_def toastVms_def Let_def)

theorem started_job_is_monitored_witness:
  "mo_jobId (mountMonitor (map_of (searchParams (monitorPath (blank_job\<lparr>j_id := IdStr ''a&b=c''\<rparr>))) ''jobId'')) = ''a&b=c''"
  using started_job_is_monitored [of "blank_job\<lparr>j_id := IdStr ''a&b=c''\<rparr>"] by simp

end
